(* ===== verification/Prelude_Go.thy ===== *)
theory Prelude_Go
  imports Main "HOL-Library.Word" "HOL-Library.Multiset"
begin

text \<open>
  Shared vocabulary of the development.
  \<^item> Machine types of the Go code: \<open>byte\<close>, \<open>u16\<close>, \<open>u32\<close>, \<open>u64\<close> are words; \<open>fixed64\<close> is the
    64-bit signed amount \<open>common.Fixed64\<close> (read with \<open>sint\<close>, compared with \<open><s\<close>).
  \<^item> Errors: a Go \<open>error\<close> result is a \<open>go_error option\<close> (\<open>None\<close> is \<open>nil\<close>) or the left side of a sum;
    a call that can also panic or block for ever returns an \<open>outcome\<close>.
  \<^item> Sequences of statements of the form \<open>if err := f(..); err != nil { return .. }\<close> are lists of
    steps run by \<open>run_steps\<close>, which keeps the state the failing statement leaves behind.
  \<^item> The locale \<open>codec\<close> is the contract between a serializer and its deserializer.
\<close>

section \<open>Types\<close>

type_synonym byte = "8 word"
type_synonym bytes = "byte list"
type_synonym u16 = "16 word"
type_synonym u32 = "32 word"
type_synonym u64 = "64 word"
type_synonym fixed64 = "64 word"
type_synonym uint256 = bytes
type_synonym uint168 = bytes
type_synonym uint160 = bytes

datatype go_error =
    Err string        \<comment> \<open>\<open>errors.New(..)\<close> of the source\<close>
  | DbErr             \<comment> \<open>an error of the SQL driver, passed on\<close>
  | ExtErr            \<comment> \<open>an error of a library or of a remote node, passed on\<close>
  | GoPanic           \<comment> \<open>a run-time panic, which unwinds the statement sequence like an error\<close>

datatype 'a outcome =
    Done 'a           \<comment> \<open>the call returns this value\<close>
  | Fail go_error     \<comment> \<open>the call returns this error\<close>
  | Panic             \<comment> \<open>nil dereference, index out of range, explicit panic\<close>
  | Blocked           \<comment> \<open>waits for ever for a mutex that nobody will release\<close>

text \<open>How a failed statement sequence ends the call.\<close>

definition fail_of :: "go_error \<Rightarrow> 'a outcome" where
  "fail_of e = (if e = GoPanic then Panic else Fail e)"

lemma fail_of_not_Done [simp]: "fail_of e \<noteq> Done x" "Done x \<noteq> fail_of e"
  by (simp_all add: fail_of_def)

named_theorems go_simps \<open>unfolding rules for the step combinators\<close>
named_theorems codec_simps \<open>what each serializer writes and each reader reads back\<close>
named_theorems table_simps \<open>effect of the table operations on the stored rows\<close>

section \<open>Sequences of fallible statements\<close>

type_synonym 's step = "'s \<Rightarrow> go_error option \<times> 's"

fun run_steps :: "'s step list \<Rightarrow> 's step" where
  "run_steps [] s = (None, s)"
| "run_steps (f # fs) s =
     (case f s of (Some e, s') \<Rightarrow> (Some e, s') | (None, s') \<Rightarrow> run_steps fs s')"

lemma run_steps_append [go_simps]:
  "run_steps (fs @ gs) s =
     (case run_steps fs s of (Some e, s') \<Rightarrow> (Some e, s') | (None, s') \<Rightarrow> run_steps gs s')"
  by (induction fs arbitrary: s) (auto split: prod.splits option.splits)

section \<open>Writers and readers\<close>

text \<open>
  A primitive writer yields the bytes it appends, or \<open>None\<close> when it returns an error. A primitive
  reader returns its value or an error, and the unread rest of the input.
\<close>

datatype rerr = ErrShortBuffer | ErrOther

type_synonym 'a writer = "'a \<Rightarrow> bytes option"
type_synonym 'a reader = "bytes \<Rightarrow> (rerr + 'a) \<times> bytes"

definition wput :: "bytes option \<Rightarrow> go_error \<Rightarrow> bytes step" where
  "wput w e buf = (case w of None \<Rightarrow> (Some e, buf) | Some bs \<Rightarrow> (None, buf @ bs))"

definition rget :: "'a reader \<Rightarrow> go_error \<Rightarrow> ('a \<Rightarrow> 'o \<Rightarrow> 'o) \<Rightarrow> ('o \<times> bytes) step" where
  "rget p e upd s =
     (case p (snd s) of (Inl _, r) \<Rightarrow> (Some e, (fst s, r)) | (Inr a, r) \<Rightarrow> (None, (upd a (fst s), r)))"

lemma wput_simps [go_simps]:
  "wput (Some bs) e buf = (None, buf @ bs)"
  "wput None e buf = (Some e, buf)"
  by (simp_all add: wput_def)

lemma rget_Inr [go_simps]: "p r = (Inr a, r') \<Longrightarrow> rget p e upd (obj, r) = (None, (upd a obj, r'))"
  by (simp add: rget_def)

lemma rget_Inl [go_simps]: "p r = (Inl x, r') \<Longrightarrow> rget p e upd (obj, r) = (Some e, (obj, r'))"
  by (simp add: rget_def)

text \<open>The law a primitive writer and reader keep on the values in \<open>P\<close>.\<close>

definition prim_ok :: "('a \<Rightarrow> bool) \<Rightarrow> 'a writer \<Rightarrow> 'a reader \<Rightarrow> bool" where
  "prim_ok P w r \<longleftrightarrow> (\<forall>x. P x \<longrightarrow> (\<exists>bs. w x = Some bs \<and> (\<forall>t. r (bs @ t) = (Inr x, t))))"

lemma prim_okD:
  "prim_ok P w r \<Longrightarrow> P x \<Longrightarrow> \<exists>bs. w x = Some bs \<and> (\<forall>t. r (bs @ t) = (Inr x, t))"
  by (auto simp: prim_ok_def)

section \<open>Matching a writing step with a reading step\<close>

definition writes :: "bytes step \<Rightarrow> bytes \<Rightarrow> bool" where
  "writes f bs \<longleftrightarrow> (\<forall>buf. f buf = (None, buf @ bs))"

definition reads :: "('o \<times> bytes) step \<Rightarrow> bytes \<Rightarrow> 'o \<Rightarrow> 'o \<Rightarrow> bool" where
  "reads g bs s s' \<longleftrightarrow> (\<forall>t. g (s, bs @ t) = (None, (s', t)))"

text \<open>
  \<open>matched f g s s'\<close>: on the bytes that \<open>f\<close> writes, \<open>g\<close> turns the object \<open>s\<close> into \<open>s'\<close> and
  stops exactly where \<open>f\<close> did. It composes along \<open>run_steps\<close>.
\<close>

definition matched :: "bytes step \<Rightarrow> ('o \<times> bytes) step \<Rightarrow> 'o \<Rightarrow> 'o \<Rightarrow> bool" where
  "matched f g s s' \<longleftrightarrow> (\<exists>bs. writes f bs \<and> reads g bs s s')"

lemma matched_Nil [codec_simps]: "matched (run_steps []) (run_steps []) s s"
  by (auto simp: matched_def writes_def reads_def intro: exI [of _ "[]"])

lemma matched_Cons:
  assumes "matched f g s s1" "matched (run_steps fs) (run_steps gs) s1 s2"
  shows "matched (run_steps (f # fs)) (run_steps (g # gs)) s s2"
proof -
  obtain bs cs where "writes f bs" "reads g bs s s1"
    "writes (run_steps fs) cs" "reads (run_steps gs) cs s1 s2"
    using assms by (auto simp: matched_def)
  then have "writes (run_steps (f # fs)) (bs @ cs)" "reads (run_steps (g # gs)) (bs @ cs) s s2"
    by (simp_all add: writes_def reads_def)
  then show ?thesis by (auto simp: matched_def)
qed

lemma matched_prim:
  "prim_ok P w r \<Longrightarrow> P x \<Longrightarrow> matched (wput (w x) e) (rget r e' upd) s (upd x s)"
  unfolding matched_def writes_def reads_def prim_ok_def by (fastforce simp: go_simps)

lemma matchedE:
  assumes "matched f g s s'"
  obtains bs where "\<And>buf. f buf = (None, buf @ bs)" "\<And>t. g (s, bs @ t) = (None, (s', t))"
  using assms by (auto simp: matched_def writes_def reads_def)

lemma matchedI:
  "(\<And>buf. f buf = (None, buf @ bs)) \<Longrightarrow> (\<And>t. g (s, bs @ t) = (None, (s', t))) \<Longrightarrow> matched f g s s'"
  by (auto simp: matched_def writes_def reads_def)

section \<open>Contract of a serializer and its deserializer\<close>

text \<open>
  \<open>ser x\<close> appends to a buffer, \<open>deser (obj, r)\<close> fills a fresh object from the input and leaves
  the rest. On the values in \<open>fits\<close> what one writes is what the other reads.
\<close>

locale codec =
  fixes ser :: "'a \<Rightarrow> bytes step"
    and deser :: "('a \<times> bytes) step"
    and fresh :: 'a
    and fits :: "'a \<Rightarrow> bool"
  assumes law: "fits x \<Longrightarrow> matched (ser x) deser fresh x"
begin

lemma ser_total: "fits x \<Longrightarrow> \<exists>bs. ser x buf = (None, buf @ bs)"
  using law [of x] unfolding matched_def writes_def by blast

lemma roundtrip:
  assumes "fits x" "ser x [] = (err, bs)"
  shows "err = None \<and> deser (fresh, bs @ t) = (None, x, t)"
proof -
  obtain cs where "\<And>buf. ser x buf = (None, buf @ cs)" "\<And>t. deser (fresh, cs @ t) = (None, x, t)"
    using matchedE [OF law [OF assms(1)]] by metis
  then show ?thesis using assms(2) by simp
qed

lemma ser_inj:
  assumes "fits x" "fits y" "ser x [] = ser y []"
  shows "x = y"
  using roundtrip [OF assms(1), of None _ "[]"] roundtrip [OF assms(2), of None _ "[]"] ser_total assms
  by (metis append_Nil append_Nil2 prod.inject)

text \<open>No encoding is a proper prefix of another one.\<close>

lemma prefix_free:
  assumes "fits x" "fits y" "ser x [] = (None, bs)" "ser y [] = (None, bs @ cs)"
  shows "x = y \<and> cs = []"
proof -
  have "deser (fresh, bs @ cs) = (None, x, cs)" using roundtrip [OF assms(1,3)] by simp
  moreover have "deser (fresh, (bs @ cs) @ []) = (None, y, [])" using roundtrip [OF assms(2,4), of "[]"] by simp
  ultimately show ?thesis by simp
qed

text \<open>Two values written one after the other are read back one after the other.\<close>

lemma two_in_sequence:
  assumes "fits x" "fits y" "run_steps [ser x, ser y] [] = (err, bs)"
  shows "err = None \<and> (\<exists>r. deser (fresh, bs) = (None, x, r) \<and> deser (fresh, r) = (None, y, []))"
proof -
  obtain cs where c: "\<And>buf. ser x buf = (None, buf @ cs)" "\<And>t. deser (fresh, cs @ t) = (None, x, t)"
    using matchedE [OF law [OF assms(1)]] by metis
  obtain ds where d: "\<And>buf. ser y buf = (None, buf @ ds)" "\<And>t. deser (fresh, ds @ t) = (None, y, t)"
    using matchedE [OF law [OF assms(2)]] by metis
  show ?thesis using assms(3) c d(1) d(2) [of "[]"] by auto
qed

end

section \<open>Lists\<close>

lemma filter_not_mem_disjoint: "set (filter (\<lambda>x. x \<notin> set ys) xs) \<inter> set ys = {}"
  by auto

lemma mset_filter_partition: "mset (filter P xs) + mset (filter (\<lambda>x. \<not> P x) xs) = mset xs"
  by (induction xs) auto

end
