(* ===== verification/Tx_Info.thy ===== *)
theory Tx_Info
  imports Prelude_Go
begin

text \<open>
  The cross-chain records of \<open>arbitration/base/txinfo.go\<close> and \<open>rscinfo.go\<close> with their binary
  formats. The primitive writers and readers (\<open>common.WriteVarUint\<close>, \<open>common.ReadVarBytes\<close>, ..)
  belong to the ELA library: they are the fields of the record \<open>wire\<close>, and \<open>wire_ok\<close> states the
  only thing the code relies on, that each reader reads back what its writer wrote.
\<close>

section \<open>The wire primitives (library code, a parameter)\<close>

record wire =
  WriteVarUint :: "u64 writer"
  ReadVarUint :: "u64 reader"
  WriteVarString :: "string writer"
  ReadVarString :: "string reader"
  WriteVarBytes :: "bytes writer"
  ReadVarBytes :: "nat \<Rightarrow> bytes reader"    \<comment> \<open>with the maximal length the caller allows\<close>
  WriteFixed64 :: "fixed64 writer"         \<comment> \<open>\<open>WriteElement\<close> and \<open>Fixed64.Serialize\<close>\<close>
  ReadFixed64 :: "fixed64 reader"
  WriteUint256 :: "uint256 writer"
  ReadUint256 :: "uint256 reader"
  WriteUint168 :: "uint168 writer"
  ReadUint168 :: "uint168 reader"
  WriteUint32 :: "u32 writer"
  ReadUint32 :: "u32 reader"
  WriteUint16 :: "u16 writer"
  ReadUint16 :: "u16 reader"
  WriteUint8 :: "byte writer"
  ReadUint8 :: "byte reader"
  MaxVarStringLength :: nat

definition wire_ok :: "wire \<Rightarrow> bool" where
  "wire_ok W \<longleftrightarrow>
     prim_ok (\<lambda>_. True) (WriteVarUint W) (ReadVarUint W) \<and>
     prim_ok (\<lambda>s. length s \<le> MaxVarStringLength W) (WriteVarString W) (ReadVarString W) \<and>
     (\<forall>mx < 2 ^ 32. prim_ok (\<lambda>b. length b \<le> mx) (WriteVarBytes W) (ReadVarBytes W mx)) \<and>
     prim_ok (\<lambda>_. True) (WriteFixed64 W) (ReadFixed64 W) \<and>
     prim_ok (\<lambda>h. length h = 32) (WriteUint256 W) (ReadUint256 W) \<and>
     prim_ok (\<lambda>h. length h = 21) (WriteUint168 W) (ReadUint168 W) \<and>
     prim_ok (\<lambda>_. True) (WriteUint32 W) (ReadUint32 W) \<and>
     prim_ok (\<lambda>_. True) (WriteUint16 W) (ReadUint16 W) \<and>
     prim_ok (\<lambda>_. True) (WriteUint8 W) (ReadUint8 W)"

text \<open>The length limit \<open>ReadVarBytes\<close> enforces, used only where the code meets an oversized field.\<close>

definition reader_limits :: "wire \<Rightarrow> bool" where
  "reader_limits W \<longleftrightarrow>
     (\<forall>mx b t. mx < length b \<longrightarrow> length b < 2 ^ 32 \<longrightarrow>
        (\<exists>bs r. WriteVarBytes W b = Some bs \<and> ReadVarBytes W mx (bs @ t) = (Inl ErrOther, r)))"

lemma wire_okD:
  assumes "wire_ok W"
  shows "prim_ok (\<lambda>_. True) (WriteVarUint W) (ReadVarUint W)"
    and "prim_ok (\<lambda>s. length s \<le> MaxVarStringLength W) (WriteVarString W) (ReadVarString W)"
    and "mx < 2 ^ 32 \<Longrightarrow> prim_ok (\<lambda>b. length b \<le> mx) (WriteVarBytes W) (ReadVarBytes W mx)"
    and "prim_ok (\<lambda>_. True) (WriteFixed64 W) (ReadFixed64 W)"
    and "prim_ok (\<lambda>h. length h = 32) (WriteUint256 W) (ReadUint256 W)"
    and "prim_ok (\<lambda>h. length h = 21) (WriteUint168 W) (ReadUint168 W)"
    and "prim_ok (\<lambda>_. True) (WriteUint32 W) (ReadUint32 W)"
    and "prim_ok (\<lambda>_. True) (WriteUint16 W) (ReadUint16 W)"
    and "prim_ok (\<lambda>_. True) (WriteUint8 W) (ReadUint8 W)"
  using assms by (simp_all add: wire_ok_def)

definition zero_uint256 :: uint256 where "zero_uint256 = replicate 32 0"
definition zero_uint168 :: uint168 where "zero_uint168 = replicate 21 0"

section \<open>Withdraw records\<close>

definition MaxTargetDataSize :: nat where "MaxTargetDataSize = 1024"

record withdraw_asset =
  TargetAddress :: string
  Amount :: fixed64
  CrossChainAmount :: fixed64
  TargetData :: bytes

record withdraw_info =
  WithdrawAssets :: "withdraw_asset list"

text \<open>The two fields are pointers in the source; \<open>None\<close> is the nil of a fresh \<open>WithdrawTx\<close>.\<close>

record withdraw_tx =
  Txid :: "uint256 option"
  WithdrawInfo :: "withdraw_info option"

definition fresh_asset :: withdraw_asset where
  "fresh_asset = \<lparr>TargetAddress = '''', Amount = 0, CrossChainAmount = 0, TargetData = []\<rparr>"

definition fresh_info :: withdraw_info where "fresh_info = \<lparr>WithdrawAssets = []\<rparr>"

definition fresh_withdraw_tx :: withdraw_tx where
  "fresh_withdraw_tx = \<lparr>Txid = None, WithdrawInfo = None\<rparr>"

definition asset_writes :: "wire \<Rightarrow> withdraw_asset \<Rightarrow> bytes step list" where
  "asset_writes W w =
     [wput (WriteVarString W (TargetAddress w)) (Err ''[Serialize] write withdraw target address failed''),
      wput (WriteFixed64 W (Amount w)) (Err ''[Serialize] write withdraw assets failed''),
      wput (WriteFixed64 W (CrossChainAmount w)) (Err ''[Serialize] write withdraw assets failed''),
      wput (WriteVarBytes W (TargetData w)) (Err ''[WithdrawInfo] write withdraw TargetData failed'')]"

definition WithdrawInfo_Serialize :: "wire \<Rightarrow> withdraw_info \<Rightarrow> bytes step" where
  "WithdrawInfo_Serialize W info =
     run_steps (wput (WriteVarUint W (of_nat (length (WithdrawAssets info))))
                     (Err ''[Serialize] write len withdraw assets failed'')
                # map (\<lambda>w. run_steps (asset_writes W w)) (WithdrawAssets info))"

definition read_target_data :: "wire \<Rightarrow> (withdraw_asset \<times> bytes) step" where
  "read_target_data W s =
     (case ReadVarBytes W MaxTargetDataSize (snd s) of
        (Inr d, r) \<Rightarrow> (None, (fst s)\<lparr>TargetData := d\<rparr>, r)
      | (Inl ErrShortBuffer, r) \<Rightarrow> (None, (fst s)\<lparr>TargetData := []\<rparr>, r)
      | (Inl ErrOther, r) \<Rightarrow>
          (Some (Err ''[Deserialize] read withdraw TargetData failed''), (fst s)\<lparr>TargetData := []\<rparr>, r))"

definition asset_reads :: "wire \<Rightarrow> (withdraw_asset \<times> bytes) step list" where
  "asset_reads W =
     [rget (ReadVarString W) (Err ''[Deserialize] read withdraw target address failed'')
           (\<lambda>a w. w\<lparr>TargetAddress := a\<rparr>),
      rget (ReadFixed64 W) (Err ''[Deserialize] read withdraw assets failed'') (\<lambda>a w. w\<lparr>Amount := a\<rparr>),
      rget (ReadFixed64 W) (Err ''[Deserialize] read withdraw assets failed'')
           (\<lambda>a w. w\<lparr>CrossChainAmount := a\<rparr>),
      read_target_data W]"

text \<open>The loop of \<open>Deserialize\<close>: an asset is appended only once all its fields were read.\<close>

fun read_assets :: "wire \<Rightarrow> nat \<Rightarrow> (withdraw_info \<times> bytes) step" where
  "read_assets W 0 s = (None, s)"
| "read_assets W (Suc n) (info, r) =
     (case run_steps (asset_reads W) (fresh_asset, r) of
        (Some e, _, r') \<Rightarrow> (Some e, info, r')
      | (None, w, r') \<Rightarrow> read_assets W n (info\<lparr>WithdrawAssets := WithdrawAssets info @ [w]\<rparr>, r'))"

definition WithdrawInfo_Deserialize :: "wire \<Rightarrow> (withdraw_info \<times> bytes) step" where
  "WithdrawInfo_Deserialize W s =
     (case ReadVarUint W (snd s) of
        (Inl _, r) \<Rightarrow> (Some (Err ''[Deserialize] read len withdraw assets failed''), fst s, r)
      | (Inr n, r) \<Rightarrow> read_assets W (unat n) ((fst s)\<lparr>WithdrawAssets := []\<rparr>, r))"

definition WithdrawTx_Serialize :: "wire \<Rightarrow> withdraw_tx \<Rightarrow> bytes step" where
  "WithdrawTx_Serialize W t =
     run_steps
       [(case Txid t of
           None \<Rightarrow> (\<lambda>buf. (Some GoPanic, buf))
         | Some h \<Rightarrow> wput (WriteUint256 W h) (Err ''[Serialize] write txid failed'')),
        (case WithdrawInfo t of
           None \<Rightarrow> (\<lambda>buf. (Some GoPanic, buf))
         | Some info \<Rightarrow> (\<lambda>buf. (case WithdrawInfo_Serialize W info buf of
               (None, buf') \<Rightarrow> (None, buf')
             | (Some e, buf') \<Rightarrow> (Some (Err ''[Serialize] write withdrawInfo failed''), buf'))))]"

definition WithdrawTx_Deserialize :: "wire \<Rightarrow> (withdraw_tx \<times> bytes) step" where
  "WithdrawTx_Deserialize W s =
     run_steps
       [rget (ReadUint256 W) (Err ''[Deserialize] read txid failed'') (\<lambda>h t. t\<lparr>Txid := Some h\<rparr>),
        (\<lambda>(t, r). case WithdrawInfo_Deserialize W (fresh_info, r) of
            (None, info, r') \<Rightarrow> (None, t\<lparr>WithdrawInfo := Some info\<rparr>, r')
          | (Some e, info, r') \<Rightarrow>
              (Some (Err ''[Deserialize] read withdrawInfo failed''), t\<lparr>WithdrawInfo := Some info\<rparr>, r'))]
       ((fst s)\<lparr>Txid := Some zero_uint256\<rparr>, snd s)"

text \<open>The values that survive the trip: lengths within what the readers accept.\<close>

definition asset_fits :: "wire \<Rightarrow> withdraw_asset \<Rightarrow> bool" where
  "asset_fits W w \<longleftrightarrow>
     length (TargetAddress w) \<le> MaxVarStringLength W \<and> length (TargetData w) \<le> MaxTargetDataSize"

definition info_fits :: "wire \<Rightarrow> withdraw_info \<Rightarrow> bool" where
  "info_fits W info \<longleftrightarrow>
     length (WithdrawAssets info) < 2 ^ 64 \<and> list_all (asset_fits W) (WithdrawAssets info)"

definition withdraw_tx_fits :: "wire \<Rightarrow> withdraw_tx \<Rightarrow> bool" where
  "withdraw_tx_fits W t \<longleftrightarrow>
     (case Txid t of Some h \<Rightarrow> length h = 32 | None \<Rightarrow> False) \<and>
     (case WithdrawInfo t of Some info \<Rightarrow> info_fits W info | None \<Rightarrow> False)"

lemma matched_target_data:
  assumes "wire_ok W" "length (TargetData w) \<le> MaxTargetDataSize"
  shows "matched (wput (WriteVarBytes W (TargetData w)) e) (read_target_data W) o1 (o1\<lparr>TargetData := TargetData w\<rparr>)"
proof -
  have "prim_ok (\<lambda>b. length b \<le> MaxTargetDataSize) (WriteVarBytes W) (ReadVarBytes W MaxTargetDataSize)"
    using assms(1) by (simp add: wire_ok_def MaxTargetDataSize_def)
  from prim_okD [OF this, of "TargetData w"] obtain bs where "WriteVarBytes W (TargetData w) = Some bs"
    "\<And>t. ReadVarBytes W MaxTargetDataSize (bs @ t) = (Inr (TargetData w), t)"
    using assms(2) by auto
  then show ?thesis
    by (intro matchedI [where bs = bs]) (simp_all add: go_simps read_target_data_def)
qed

lemma matched_asset:
  assumes "wire_ok W" "asset_fits W w"
  shows "matched (run_steps (asset_writes W w)) (run_steps (asset_reads W)) o1 w"
proof -
  note W = wire_okD [OF assms(1)]
  have "matched (run_steps (asset_writes W w)) (run_steps (asset_reads W)) o1
     (o1\<lparr>TargetAddress := TargetAddress w, Amount := Amount w, CrossChainAmount := CrossChainAmount w,
         TargetData := TargetData w\<rparr>)"
    unfolding asset_writes_def asset_reads_def using assms
    by (intro matched_Cons [OF matched_prim [OF W(2)]] matched_Cons [OF matched_prim [OF W(4)]]
          matched_Cons [OF matched_target_data] matched_Nil) (auto simp: asset_fits_def)
  then show ?thesis by (cases w, cases o1) simp
qed

lemma matched_assets:
  assumes "wire_ok W" "list_all (asset_fits W) ws"
  shows "matched (run_steps (map (\<lambda>w. run_steps (asset_writes W w)) ws)) (read_assets W (length ws))
           info (info\<lparr>WithdrawAssets := WithdrawAssets info @ ws\<rparr>)"
  using assms(2)
proof (induction ws arbitrary: info)
  case Nil
  show ?case by (rule matchedI [where bs = "[]"]) simp_all
next
  case (Cons w ws)
  let ?info = "info\<lparr>WithdrawAssets := WithdrawAssets info @ [w]\<rparr>"
  have "asset_fits W w" using Cons.prems by simp
  then obtain bs where bs: "\<And>buf. run_steps (asset_writes W w) buf = (None, buf @ bs)"
      "\<And>t. run_steps (asset_reads W) (fresh_asset, bs @ t) = (None, w, t)"
    using matchedE [OF matched_asset [OF assms(1), of w fresh_asset]] by metis
  obtain cs where cs: "\<And>buf. run_steps (map (\<lambda>w. run_steps (asset_writes W w)) ws) buf = (None, buf @ cs)"
      "\<And>t. read_assets W (length ws) (?info, cs @ t) =
         (None, ?info\<lparr>WithdrawAssets := WithdrawAssets ?info @ ws\<rparr>, t)"
    using matchedE [OF Cons.IH [of ?info]] Cons.prems by auto
  show ?case by (rule matchedI [where bs = "bs @ cs"]) (simp_all add: bs cs)
qed

lemma matched_info:
  assumes "wire_ok W" "info_fits W info"
  shows "matched (WithdrawInfo_Serialize W info) (WithdrawInfo_Deserialize W) o1 info"
proof -
  let ?n = "of_nat (length (WithdrawAssets info)) :: u64"
  have n: "unat ?n = length (WithdrawAssets info)"
    using assms(2) by (simp add: info_fits_def unat_of_nat)
  obtain bs where bs: "WriteVarUint W ?n = Some bs" "\<And>t. ReadVarUint W (bs @ t) = (Inr ?n, t)"
    using prim_okD [OF wire_okD(1) [OF assms(1)], of ?n] by auto
  have o1: "o1\<lparr>WithdrawAssets := WithdrawAssets info\<rparr> = info"
    by (cases o1, cases info) simp
  have "list_all (asset_fits W) (WithdrawAssets info)" using assms(2) by (simp add: info_fits_def)
  from matched_assets [OF assms(1) this, of "o1\<lparr>WithdrawAssets := []\<rparr>"]
  obtain cs where cs: "\<And>buf. run_steps (map (\<lambda>w. run_steps (asset_writes W w)) (WithdrawAssets info)) buf = (None, buf @ cs)"
      "\<And>t. read_assets W (length (WithdrawAssets info)) (o1\<lparr>WithdrawAssets := []\<rparr>, cs @ t) = (None, info, t)"
    by (rule matchedE) (simp add: o1)
  show ?thesis
    by (rule matchedI [where bs = "bs @ cs"])
      (simp_all add: WithdrawInfo_Serialize_def WithdrawInfo_Deserialize_def go_simps bs cs n)
qed

lemma matched_withdraw_tx:
  assumes "wire_ok W" "withdraw_tx_fits W t"
  shows "matched (WithdrawTx_Serialize W t) (WithdrawTx_Deserialize W) o1 t"
proof -
  obtain h info where t: "t = \<lparr>Txid = Some h, WithdrawInfo = Some info\<rparr>" "length h = 32" "info_fits W info"
    using assms(2) by (cases t) (auto simp: withdraw_tx_fits_def split: option.splits)
  obtain bs where bs: "WriteUint256 W h = Some bs" "\<And>t. ReadUint256 W (bs @ t) = (Inr h, t)"
    using prim_okD [OF wire_okD(5) [OF assms(1)], of h] t(2) by auto
  obtain cs where cs: "\<And>buf. WithdrawInfo_Serialize W info buf = (None, buf @ cs)"
      "\<And>t. WithdrawInfo_Deserialize W (fresh_info, cs @ t) = (None, info, t)"
    using matchedE [OF matched_info [OF assms(1) t(3), of fresh_info]] by metis
  show ?thesis
    by (rule matchedI [where bs = "bs @ cs"])
      (simp_all add: WithdrawTx_Serialize_def WithdrawTx_Deserialize_def go_simps bs cs t(1))
qed

interpretation withdraw_info: codec "WithdrawInfo_Serialize W" "WithdrawInfo_Deserialize W" fresh_info
    "\<lambda>info. wire_ok W \<and> info_fits W info" for W
  by unfold_locales (auto intro: matched_info)

interpretation withdraw_tx: codec "WithdrawTx_Serialize W" "WithdrawTx_Deserialize W" fresh_withdraw_tx
    "\<lambda>t. wire_ok W \<and> withdraw_tx_fits W t" for W
  by unfold_locales (auto intro: matched_withdraw_tx)

section \<open>Failed deposit records\<close>

record deposit_info =
  DepTargetAddress :: string
  DepAmount :: fixed64
  DepCrossChainAmount :: fixed64

record failed_deposit_tx =
  FailedTxid :: "uint256 option"
  DepositInfo :: "deposit_info option"

definition fresh_deposit_info :: deposit_info where
  "fresh_deposit_info = \<lparr>DepTargetAddress = '''', DepAmount = 0, DepCrossChainAmount = 0\<rparr>"

definition fresh_failed_deposit_tx :: failed_deposit_tx where
  "fresh_failed_deposit_tx = \<lparr>FailedTxid = None, DepositInfo = None\<rparr>"

definition DepositInfo_Serialize :: "wire \<Rightarrow> deposit_info \<Rightarrow> bytes step" where
  "DepositInfo_Serialize W info =
     run_steps
       [wput (WriteVarString W (DepTargetAddress info)) (Err ''[Serialize] write withdraw target address failed''),
        wput (WriteFixed64 W (DepAmount info)) (Err ''[Serialize] write withdraw assets failed''),
        wput (WriteFixed64 W (DepCrossChainAmount info)) (Err ''[Serialize] write withdraw assets failed'')]"

definition DepositInfo_Deserialize :: "wire \<Rightarrow> (deposit_info \<times> bytes) step" where
  "DepositInfo_Deserialize W =
     run_steps
       [rget (ReadVarString W) (Err ''[Deserialize] read withdraw target address failed'')
          (\<lambda>a d. d\<lparr>DepTargetAddress := a\<rparr>),
        rget (ReadFixed64 W) (Err ''[Deserialize] read withdraw assets failed'') (\<lambda>a d. d\<lparr>DepAmount := a\<rparr>),
        rget (ReadFixed64 W) (Err ''[Deserialize] read withdraw assets failed'')
          (\<lambda>a d. d\<lparr>DepCrossChainAmount := a\<rparr>)]"

definition FailedDepositTx_Serialize :: "wire \<Rightarrow> failed_deposit_tx \<Rightarrow> bytes step" where
  "FailedDepositTx_Serialize W t =
     run_steps
       [(case FailedTxid t of
           None \<Rightarrow> (\<lambda>buf. (Some GoPanic, buf))
         | Some h \<Rightarrow> wput (WriteUint256 W h) (Err ''[Serialize] write txid failed'')),
        (case DepositInfo t of
           None \<Rightarrow> (\<lambda>buf. (Some GoPanic, buf))
         | Some info \<Rightarrow> (\<lambda>buf. (case DepositInfo_Serialize W info buf of
               (None, buf') \<Rightarrow> (None, buf')
             | (Some e, buf') \<Rightarrow> (Some (Err ''[Serialize] write withdrawInfo failed''), buf'))))]"

fun err_text :: "go_error \<Rightarrow> string" where
  "err_text (Err m) = m"
| "err_text _ = ''''"

definition FailedDepositTx_Deserialize :: "wire \<Rightarrow> (failed_deposit_tx \<times> bytes) step" where
  "FailedDepositTx_Deserialize W s =
     run_steps
       [rget (ReadUint256 W) (Err ''[Deserialize] read txid failed'') (\<lambda>h t. t\<lparr>FailedTxid := Some h\<rparr>),
        (\<lambda>(t, r). case DepositInfo_Deserialize W (fresh_deposit_info, r) of
            (None, info, r') \<Rightarrow> (None, t\<lparr>DepositInfo := Some info\<rparr>, r')
          | (Some e, info, r') \<Rightarrow>
              (Some (Err (''[Deserialize] read withdrawInfo failed:'' @ err_text e)),
               t\<lparr>DepositInfo := Some info\<rparr>, r'))]
       ((fst s)\<lparr>FailedTxid := Some zero_uint256\<rparr>, snd s)"

definition failed_deposit_tx_fits :: "wire \<Rightarrow> failed_deposit_tx \<Rightarrow> bool" where
  "failed_deposit_tx_fits W t \<longleftrightarrow>
     (case FailedTxid t of Some h \<Rightarrow> length h = 32 | None \<Rightarrow> False) \<and>
     (case DepositInfo t of Some info \<Rightarrow> length (DepTargetAddress info) \<le> MaxVarStringLength W | None \<Rightarrow> False)"

lemma matched_deposit_info:
  assumes "wire_ok W" "length (DepTargetAddress info) \<le> MaxVarStringLength W"
  shows "matched (DepositInfo_Serialize W info) (DepositInfo_Deserialize W) o1 info"
proof -
  note W = wire_okD [OF assms(1)]
  have "matched (DepositInfo_Serialize W info) (DepositInfo_Deserialize W) o1
     (o1\<lparr>DepTargetAddress := DepTargetAddress info, DepAmount := DepAmount info,
         DepCrossChainAmount := DepCrossChainAmount info\<rparr>)"
    unfolding DepositInfo_Serialize_def DepositInfo_Deserialize_def using assms
    by (intro matched_Cons [OF matched_prim [OF W(2)]] matched_Cons [OF matched_prim [OF W(4)]]
          matched_Nil) auto
  then show ?thesis by (cases info, cases o1) simp
qed

lemma matched_failed_deposit_tx:
  assumes "wire_ok W" "failed_deposit_tx_fits W t"
  shows "matched (FailedDepositTx_Serialize W t) (FailedDepositTx_Deserialize W) o1 t"
proof -
  obtain h info where t: "t = \<lparr>FailedTxid = Some h, DepositInfo = Some info\<rparr>" "length h = 32"
      "length (DepTargetAddress info) \<le> MaxVarStringLength W"
    using assms(2) by (cases t) (auto simp: failed_deposit_tx_fits_def split: option.splits)
  obtain bs where bs: "WriteUint256 W h = Some bs" "\<And>t. ReadUint256 W (bs @ t) = (Inr h, t)"
    using prim_okD [OF wire_okD(5) [OF assms(1)], of h] t(2) by auto
  obtain cs where cs: "\<And>buf. DepositInfo_Serialize W info buf = (None, buf @ cs)"
      "\<And>t. DepositInfo_Deserialize W (fresh_deposit_info, cs @ t) = (None, info, t)"
    using matchedE [OF matched_deposit_info [OF assms(1) t(3), of fresh_deposit_info]] by metis
  show ?thesis
    by (rule matchedI [where bs = "bs @ cs"])
      (simp_all add: FailedDepositTx_Serialize_def FailedDepositTx_Deserialize_def go_simps bs cs t(1))
qed

interpretation failed_deposit_tx: codec "FailedDepositTx_Serialize W" "FailedDepositTx_Deserialize W"
    fresh_failed_deposit_tx "\<lambda>t. wire_ok W \<and> failed_deposit_tx_fits W t" for W
  by unfold_locales (auto intro: matched_failed_deposit_tx)

section \<open>NFT destroy records\<close>

record nft_destroy_tx =
  ID :: uint256
  OwnerStakeAddress :: uint168

definition fresh_nft_destroy_tx :: nft_destroy_tx where
  "fresh_nft_destroy_tx = \<lparr>ID = zero_uint256, OwnerStakeAddress = zero_uint168\<rparr>"

definition NFTDestroyTx_Serialize :: "wire \<Rightarrow> nft_destroy_tx \<Rightarrow> bytes step" where
  "NFTDestroyTx_Serialize W t =
     run_steps
       [wput (WriteUint256 W (ID t)) (Err ''failed to serialize ID''),
        wput (WriteUint168 W (OwnerStakeAddress t)) (Err ''failed to serialize OwnerStakeAddress'')]"

definition NFTDestroyTx_Deserialize :: "wire \<Rightarrow> (nft_destroy_tx \<times> bytes) step" where
  "NFTDestroyTx_Deserialize W =
     run_steps
       [rget (ReadUint256 W) (Err ''failed to deserialize ID'') (\<lambda>h t. t\<lparr>ID := h\<rparr>),
        rget (ReadUint168 W) (Err ''failed to deserialize ID'') (\<lambda>h t. t\<lparr>OwnerStakeAddress := h\<rparr>)]"

definition nft_destroy_tx_fits :: "nft_destroy_tx \<Rightarrow> bool" where
  "nft_destroy_tx_fits t \<longleftrightarrow> length (ID t) = 32 \<and> length (OwnerStakeAddress t) = 21"

lemma matched_nft_destroy_tx:
  assumes "wire_ok W" "nft_destroy_tx_fits t"
  shows "matched (NFTDestroyTx_Serialize W t) (NFTDestroyTx_Deserialize W) o1 t"
proof -
  note W = wire_okD [OF assms(1)]
  have "matched (NFTDestroyTx_Serialize W t) (NFTDestroyTx_Deserialize W) o1
     (o1\<lparr>ID := ID t, OwnerStakeAddress := OwnerStakeAddress t\<rparr>)"
    unfolding NFTDestroyTx_Serialize_def NFTDestroyTx_Deserialize_def using assms(2)
    by (intro matched_Cons [OF matched_prim [OF W(5)]] matched_Cons [OF matched_prim [OF W(6)]]
          matched_Nil) (auto simp: nft_destroy_tx_fits_def)
  then show ?thesis by (cases t, cases o1) simp
qed

interpretation nft_destroy_tx: codec "NFTDestroyTx_Serialize W" "NFTDestroyTx_Deserialize W"
    fresh_nft_destroy_tx "\<lambda>t. wire_ok W \<and> nft_destroy_tx_fits t" for W
  by unfold_locales (auto intro: matched_nft_destroy_tx)

section \<open>Registered side chains\<close>

record registered_side_chain =
  SideChainName :: string
  MagicNumber :: u32
  GenesisHash :: uint256
  ExchangeRate :: fixed64
  EffectiveHeight :: u32
  ResourcePath :: string
  HttpJsonPort :: u16
  IpAddr :: string
  User :: string
  Pass :: string

definition fresh_registered_side_chain :: registered_side_chain where
  "fresh_registered_side_chain =
     \<lparr>SideChainName = '''', MagicNumber = 0, GenesisHash = zero_uint256, ExchangeRate = 0,
      EffectiveHeight = 0, ResourcePath = '''', HttpJsonPort = 0, IpAddr = '''', User = '''', Pass = ''''\<rparr>"

definition RegisteredSideChain_Serialize :: "wire \<Rightarrow> registered_side_chain \<Rightarrow> bytes step" where
  "RegisteredSideChain_Serialize W sc =
     run_steps
       [wput (WriteVarString W (SideChainName sc)) (Err ''fail to serialize SideChainName''),
        wput (WriteUint32 W (MagicNumber sc)) (Err ''fail to serialize MagicNumber''),
        wput (WriteUint256 W (GenesisHash sc)) (Err ''failed to serialize GenesisHash''),
        wput (WriteFixed64 W (ExchangeRate sc)) (Err ''failed to serialize ExchangeRate''),
        wput (WriteUint32 W (EffectiveHeight sc)) (Err ''fail to serialize EffectiveHeight''),
        wput (WriteVarString W (ResourcePath sc)) (Err ''fail to serialize ResourcePath''),
        wput (WriteUint16 W (HttpJsonPort sc)) (Err ''failed to serialize HttpJsonPort''),
        wput (WriteVarString W (IpAddr sc)) (Err ''failed to serialize IpAddr''),
        wput (WriteVarString W (User sc)) (Err ''failed to serialize User''),
        wput (WriteVarString W (Pass sc)) (Err ''failed to serialize Pass'')]"

definition RegisteredSideChain_Deserialize :: "wire \<Rightarrow> (registered_side_chain \<times> bytes) step" where
  "RegisteredSideChain_Deserialize W =
     run_steps
       [rget (ReadVarString W) (Err ''[CRCProposal], SideChainName deserialize failed'') (\<lambda>a sc. sc\<lparr>SideChainName := a\<rparr>),
        rget (ReadUint32 W) (Err ''[CRCProposal], MagicNumber deserialize failed'') (\<lambda>a sc. sc\<lparr>MagicNumber := a\<rparr>),
        rget (ReadUint256 W) (Err ''failed to deserialize GenesisHash'') (\<lambda>a sc. sc\<lparr>GenesisHash := a\<rparr>),
        rget (ReadFixed64 W) (Err ''[CRCProposal], ExchangeRate deserialize failed'') (\<lambda>a sc. sc\<lparr>ExchangeRate := a\<rparr>),
        rget (ReadUint32 W) (Err ''[CRCProposal], EffectiveHeight deserialize failed'') (\<lambda>a sc. sc\<lparr>EffectiveHeight := a\<rparr>),
        rget (ReadVarString W) (Err ''[CRCProposal], ResourcePath deserialize failed'') (\<lambda>a sc. sc\<lparr>ResourcePath := a\<rparr>),
        rget (ReadUint16 W) (Err ''[CRCProposal], HttpJsonPort deserialize failed'') (\<lambda>a sc. sc\<lparr>HttpJsonPort := a\<rparr>),
        rget (ReadVarString W) (Err ''[CRCProposal], IpAddr deserialize failed'') (\<lambda>a sc. sc\<lparr>IpAddr := a\<rparr>),
        rget (ReadVarString W) (Err ''[CRCProposal], User deserialize failed'') (\<lambda>a sc. sc\<lparr>User := a\<rparr>),
        rget (ReadVarString W) (Err ''[CRCProposal], Pass deserialize failed'') (\<lambda>a sc. sc\<lparr>Pass := a\<rparr>)]"

definition registered_side_chain_fits :: "wire \<Rightarrow> registered_side_chain \<Rightarrow> bool" where
  "registered_side_chain_fits W sc \<longleftrightarrow> length (GenesisHash sc) = 32 \<and>
     list_all (\<lambda>s. length s \<le> MaxVarStringLength W)
       [SideChainName sc, ResourcePath sc, IpAddr sc, User sc, Pass sc]"

lemma matched_registered_side_chain:
  assumes "wire_ok W" "registered_side_chain_fits W sc"
  shows "matched (RegisteredSideChain_Serialize W sc) (RegisteredSideChain_Deserialize W) o1 sc"
proof -
  note W = wire_okD [OF assms(1)]
  have "matched (RegisteredSideChain_Serialize W sc) (RegisteredSideChain_Deserialize W) o1
     (o1\<lparr>SideChainName := SideChainName sc, MagicNumber := MagicNumber sc, GenesisHash := GenesisHash sc,
         ExchangeRate := ExchangeRate sc, EffectiveHeight := EffectiveHeight sc,
         ResourcePath := ResourcePath sc, HttpJsonPort := HttpJsonPort sc, IpAddr := IpAddr sc,
         User := User sc, Pass := Pass sc\<rparr>)"
    unfolding RegisteredSideChain_Serialize_def RegisteredSideChain_Deserialize_def using assms(2)
    by (intro matched_Cons [OF matched_prim [OF W(2)]] matched_Cons [OF matched_prim [OF W(4)]]
          matched_Cons [OF matched_prim [OF W(5)]] matched_Cons [OF matched_prim [OF W(7)]]
          matched_Cons [OF matched_prim [OF W(8)]] matched_Nil)
      (auto simp: registered_side_chain_fits_def)
  then show ?thesis by (cases sc, cases o1) simp
qed

interpretation registered_side_chain: codec "RegisteredSideChain_Serialize W" "RegisteredSideChain_Deserialize W"
    fresh_registered_side_chain "\<lambda>sc. wire_ok W \<and> registered_side_chain_fits W sc" for W
  by unfold_locales (auto intro: matched_registered_side_chain)

end
