(* ===== verification/Wire_Instance.thy ===== *)
theory Wire_Instance
  imports Tx_Info
begin

text \<open>
  A concrete wire that keeps \<open>wire_ok\<close> and \<open>reader_limits\<close>, so that the laws are satisfiable: every
  field is a list of bytes (a word gives its bits), each byte announced by 1 and the list closed by 0. It is no part of the
  program; the witnesses of the properties use it.
\<close>

fun delim :: "bytes \<Rightarrow> bytes" where
  "delim [] = [0]"
| "delim (b # bs) = 1 # b # delim bs"

fun undelim :: "bytes \<Rightarrow> (rerr + bytes) \<times> bytes" where
  "undelim (t # b # bs) =
     (if t = 0 then (Inr [], b # bs)
      else case undelim bs of (Inr cs, r) \<Rightarrow> (Inr (b # cs), r) | (Inl e, r) \<Rightarrow> (Inl e, r))"
| "undelim [t] = (if t = 0 then (Inr [], []) else (Inl ErrShortBuffer, []))"
| "undelim [] = (Inl ErrShortBuffer, [])"

lemma undelim_delim [simp]: "undelim (delim bs @ t) = (Inr bs, t)"
proof (induction bs)
  case Nil
  show ?case by (cases t) simp_all
qed simp

definition char_byte :: "char \<Rightarrow> byte" where "char_byte c = of_nat (of_char c)"
definition byte_char :: "byte \<Rightarrow> char" where "byte_char b = char_of (unat b)"

lemma char_byte_char [simp]: "char_byte (byte_char b) = b"
proof -
  have "unat b < 256" using unsigned_less [of b] by simp
  then show ?thesis by (simp add: char_byte_def byte_char_def)
qed

lemma byte_char_byte [simp]: "byte_char (char_byte c) = c"
proof -
  have "(of_char c :: nat) < 256" using nat_of_char_less_256 by simp
  then show ?thesis by (simp add: byte_char_def char_byte_def unat_of_nat)
qed

definition put_word :: "'a :: len word writer" where
  "put_word (w :: 'a word) = Some (delim (map (\<lambda>i. of_bool (bit w i)) [0..<LENGTH('a)]))"

definition get_word :: "'a :: len word reader" where
  "get_word s = (case undelim s of (Inl e, r) \<Rightarrow> (Inl e, r) | (Inr bs, r) \<Rightarrow> (Inr (horner_sum of_bool 2 (map (\<lambda>b. b \<noteq> 0) bs)), r))"

definition put_bytes :: "bytes writer" where
  "put_bytes b = Some (delim b)"

definition get_bytes :: "nat \<Rightarrow> bytes reader" where
  "get_bytes mx s = (case undelim s of (Inl e, r) \<Rightarrow> (Inl e, r)
     | (Inr bs, r) \<Rightarrow> if length bs \<le> mx then (Inr bs, r) else (Inl ErrOther, r))"

definition put_string :: "string writer" where
  "put_string s = Some (delim (map char_byte s))"

definition get_string :: "string reader" where
  "get_string s = (case undelim s of (Inl e, r) \<Rightarrow> (Inl e, r) | (Inr bs, r) \<Rightarrow> (Inr (map byte_char bs), r))"

definition wire0 :: wire where
  "wire0 = \<lparr>WriteVarUint = put_word, ReadVarUint = get_word,
     WriteVarString = put_string, ReadVarString = get_string,
     WriteVarBytes = put_bytes, ReadVarBytes = get_bytes,
     WriteFixed64 = put_word, ReadFixed64 = get_word,
     WriteUint256 = put_bytes, ReadUint256 = get_bytes 32,
     WriteUint168 = put_bytes, ReadUint168 = get_bytes 21,
     WriteUint32 = put_word, ReadUint32 = get_word,
     WriteUint16 = put_word, ReadUint16 = get_word,
     WriteUint8 = put_word, ReadUint8 = get_word,
     MaxVarStringLength = 1000\<rparr>"

lemma prim_ok_word: "prim_ok P (put_word :: 'a :: len word writer) get_word"
  by (simp add: prim_ok_def put_word_def get_word_def comp_def horner_sum_bit_eq_take_bit)

lemma prim_ok_bytes: "(\<And>b. P b \<Longrightarrow> length b \<le> mx) \<Longrightarrow> prim_ok P put_bytes (get_bytes mx)"
  by (simp add: prim_ok_def put_bytes_def get_bytes_def)

lemma prim_ok_string: "prim_ok P put_string get_string"
  by (simp add: prim_ok_def put_string_def get_string_def comp_def)

lemma wire0_ok: "wire_ok wire0"
  unfolding wire_ok_def wire0_def
  by (intro conjI allI impI; simp add: prim_ok_word prim_ok_string; rule prim_ok_bytes; simp)

lemma wire0_limits: "reader_limits wire0"
  by (simp add: reader_limits_def wire0_def put_bytes_def get_bytes_def)

end
