(* ===== verification/Ela_Types.thy ===== *)
theory Ela_Types
  imports Tx_Info
begin

text \<open>
  The data of the ELA main chain library that the arbiter reads and writes, and the library's
  functions as arguments: \<open>crypto\<close> (keys, signatures, scripts and the library's constants),
  \<open>tx_ops\<close> (hashing and the binary form of transactions). Nothing is assumed about them here.
\<close>

type_synonym public_key = "int \<times> int"     \<comment> \<open>\<open>crypto.PublicKey\<close> with its coordinates\<close>

record program =
  Code :: bytes
  Parameter :: "bytes option"                 \<comment> \<open>\<open>None\<close> is the nil slice\<close>

record out_point =
  OpTxID :: uint256
  OpIndex :: u16

record tx_input =
  Previous :: out_point
  Sequence :: u32

datatype output_payload =
    DefaultOutput
  | Withdraw string uint256 bytes             \<comment> \<open>genesis block address, side chain transaction, target data\<close>
  | ReturnSideChainDeposit string uint256     \<comment> \<open>genesis block address, deposit transaction\<close>
  | CrossChainOutput string fixed64 bytes     \<comment> \<open>target address, target amount, target data\<close>
  | NilOutputPayload

datatype output_type = OTNone | OTWithdrawFromSideChain | OTReturnSideChainDepositCoin | OTCrossChain

record tx_output =
  OutProgramHash :: uint168
  OutValue :: fixed64
  OutType :: output_type
  OutPayload :: output_payload

datatype payload =
    WithdrawFromSideChain "byte list" string "uint256 list" u32
      \<comment> \<open>signers, genesis block address, side chain transactions, block height\<close>
  | ReturnSideChainDepositCoin "byte list"
  | NFTDestroyFromSideChain "uint256 list" "uint168 list" uint256
  | TransferCrossChainAsset "string list" "u64 list" "fixed64 list"
  | SideChainPow u32 uint256 uint256 bytes   \<comment> \<open>block height, side block, side genesis block, signature\<close>
  | TransferAsset
  | OtherPayload

datatype tx_type =
  TxWithdrawFromSideChain | TxReturnCRDepositCoin | TxReturnSideChainDepositCoin
  | TxNFTDestroyFromSideChain | TxSideChainPow | TxTransferAsset | TxOther

record transaction =
  TxType :: tx_type
  PayloadVersion :: byte
  Payload :: payload
  Inputs :: "tx_input list"
  Outputs :: "tx_output list"
  Programs :: "program list"

record crypto =
  Verify :: "public_key \<Rightarrow> bytes \<Rightarrow> bytes \<Rightarrow> bool"      \<comment> \<open>the error of \<open>crypto.Verify\<close> is nil\<close>
  DecodePoint :: "bytes \<Rightarrow> public_key option"
  EncodePoint :: "public_key \<Rightarrow> bytes option"             \<comment> \<open>compressed form\<close>
  SortPublicKeys :: "public_key list \<Rightarrow> public_key list"
  ParseCrossChainScript :: "bytes \<Rightarrow> bytes list option"
  PublicKeyToStandardProgramHash :: "bytes \<Rightarrow> uint168 option"
  ToCodeHash :: "uint168 \<Rightarrow> uint160"
  GetCorssChainSigners :: "bytes \<Rightarrow> uint160 list option"  \<comment> \<open>spelled as the library spells it\<close>
  HexStringToBytes :: "string \<Rightarrow> bytes option"
  BytesToHexString :: "bytes \<Rightarrow> string"
  SignatureScriptLength :: nat
  PublicKeyScriptLength :: nat
  MinMultiSignCodeLength :: nat
  PUSH1 :: byte
  CROSSCHAIN :: byte

record tx_ops =
  TxHash :: "transaction \<Rightarrow> uint256"
  TxSerialize :: "transaction \<Rightarrow> go_error option \<times> bytes"
  TxSerializeUnsigned :: "transaction \<Rightarrow> go_error option \<times> bytes"
  GetTransactionByBytes :: "transaction reader"            \<comment> \<open>an empty transaction of the right type\<close>
  TxDeserialize :: "transaction \<Rightarrow> transaction reader"
  TxDeserializeUnsigned :: "transaction \<Rightarrow> transaction reader"
  TxGetSize :: "transaction \<Rightarrow> nat"

text \<open>Documented values of the library's constants, and the shape of encoded keys.\<close>

definition crypto_consts :: "crypto \<Rightarrow> bool" where
  "crypto_consts C \<longleftrightarrow> SignatureScriptLength C = 65 \<and> PublicKeyScriptLength C = 35 \<and>
     MinMultiSignCodeLength C \<le> 71"

definition keys_encode :: "crypto \<Rightarrow> public_key list \<Rightarrow> bool" where
  "keys_encode C pks \<longleftrightarrow> mset (SortPublicKeys C pks) = mset pks \<and>
     (\<forall>pk \<in> set pks. \<exists>bs. EncodePoint C pk = Some bs \<and> length bs = 33)"

section \<open>Fixed64 amounts\<close>

text \<open>\<open>common.Fixed64\<close> is an \<open>int64\<close>: sums wrap, comparisons are signed.\<close>

definition fx_sum :: "fixed64 list \<Rightarrow> fixed64" where
  "fx_sum xs = foldl (+) 0 xs"

lemma foldl_plus_word: "foldl (+) (a :: 'a :: comm_monoid_add) xs = a + sum_list xs"
  by (induction xs arbitrary: a) (auto simp: add.assoc)

lemma fx_sum_simps [simp]: "fx_sum [] = 0" "fx_sum (x # xs) = x + fx_sum xs"
  "fx_sum (xs @ ys) = fx_sum xs + fx_sum ys"
  by (simp_all add: fx_sum_def foldl_plus_word)

lemma fx_sum_mset:
  assumes "mset xs = mset ys"
  shows "fx_sum xs = fx_sum ys"
proof -
  have "fx_sum zs = sum_mset (mset zs)" for zs by (induction zs) auto
  then show ?thesis using assms by simp
qed

text \<open>Sums that stay in range are the sums of the numbers.\<close>

lemma sint_fx_sum:
  "list_all (\<lambda>x. 0 \<le> sint x) xs \<Longrightarrow> sum_list (map sint xs) < 2 ^ 63 \<Longrightarrow> sint (fx_sum xs) = sum_list (map sint xs)"
proof (induction xs)
  case (Cons x xs)
  have nonneg: "0 \<le> sum_list (map sint xs)" using Cons.prems(1) by (intro sum_list_nonneg) (auto simp: list_all_iff)
  then have tail: "sint (fx_sum xs) = sum_list (map sint xs)" using Cons by simp
  have "signed_take_bit 63 (sint x + sum_list (map sint xs)) = sint x + sum_list (map sint xs)"
    using Cons.prems nonneg by (intro signed_take_bit_int_eq_self) auto
  then show ?case by (simp add: sint_word_ariths tail)
qed simp

end
