(* ===== verification/Tx_Utils.thy ===== *)
theory Tx_Utils
  imports Ela_Types
begin

text \<open>
  \<open>arbitration/base/txutils.go\<close> and \<open>script.go\<close>: set operations on lists of transaction hashes, the
  grouping of transactions by height, merging a signature into a multi-signature program, and the
  redeem script of the arbiters.
\<close>

section \<open>Hash lists\<close>

fun hasHash :: "string list \<Rightarrow> string \<Rightarrow> bool" where
  "hasHash [] hash = False"
| "hasHash (item # hashSet) hash = (if item = hash then True else hasHash hashSet hash)"

fun SubstractTransactionHashes :: "string list \<Rightarrow> string list \<Rightarrow> string list" where
  "SubstractTransactionHashes [] subSet = []"
| "SubstractTransactionHashes (hash # hashSet) subSet =
     (if \<not> hasHash subSet hash then hash # SubstractTransactionHashes hashSet subSet
      else SubstractTransactionHashes hashSet subSet)"

text \<open>The height of a kept hash is read by index, and a list that is too short panics.\<close>

fun SubstractTransactionHashesAndBlockHeights ::
    "string list \<Rightarrow> u32 list \<Rightarrow> string list \<Rightarrow> (string list \<times> u32 list) outcome" where
  "SubstractTransactionHashesAndBlockHeights [] blockHeights subSet = Done ([], [])"
| "SubstractTransactionHashesAndBlockHeights (hash # hashSet) blockHeights subSet =
     (if \<not> hasHash subSet hash then
        (case blockHeights of
           [] \<Rightarrow> Panic
         | h # hs \<Rightarrow>
             (case SubstractTransactionHashesAndBlockHeights hashSet hs subSet of
                Done (txs, heights) \<Rightarrow> Done (hash # txs, h # heights)
              | other \<Rightarrow> other))
      else SubstractTransactionHashesAndBlockHeights hashSet (tl blockHeights) subSet)"

fun GetCanDestroyNFTIDs :: "string list \<Rightarrow> string list \<Rightarrow> string list" where
  "GetCanDestroyNFTIDs [] needDestoryNFTIDs = []"
| "GetCanDestroyNFTIDs (i # nftIDsFromNode) needDestoryNFTIDs =
     (if hasHash needDestoryNFTIDs i then i # GetCanDestroyNFTIDs nftIDsFromNode needDestoryNFTIDs
      else GetCanDestroyNFTIDs nftIDsFromNode needDestoryNFTIDs)"

fun substract_indexed :: "nat \<Rightarrow> string list \<Rightarrow> string list \<Rightarrow> string list \<times> nat list" where
  "substract_indexed i [] subSet = ([], [])"
| "substract_indexed i (hash # hashSet) subSet =
     (let (txs, indexes) = substract_indexed (Suc i) hashSet subSet
      in if \<not> hasHash subSet hash then (hash # txs, i # indexes) else (txs, indexes))"

definition SubstractReturnDepositTransactionHashes ::
    "string list \<Rightarrow> string list \<Rightarrow> string list \<times> nat list" where
  "SubstractReturnDepositTransactionHashes hashSet subSet = substract_indexed 0 hashSet subSet"

fun group_by_height :: "(u32 \<rightharpoonup> string list) \<Rightarrow> u32 list \<Rightarrow> string list \<Rightarrow> (u32 \<rightharpoonup> string list) outcome" where
  "group_by_height m [] txs = Done m"
| "group_by_height m (h # hs) [] = Panic"
| "group_by_height m (h # hs) (t # txs) =
     group_by_height (m(h \<mapsto> (case m h of Some ts \<Rightarrow> ts @ [t] | None \<Rightarrow> [t]))) hs txs"

definition GetHeightTransactionHashesMap :: "string list \<Rightarrow> u32 list \<Rightarrow> (u32 \<rightharpoonup> string list) outcome" where
  "GetHeightTransactionHashesMap txs blockHeights =
     group_by_height (\<lambda>h. if h \<in> set blockHeights then Some [] else None) blockHeights txs"

lemma hasHash_iff [simp]: "hasHash hashSet hash \<longleftrightarrow> hash \<in> set hashSet"
  by (induction hashSet) auto

lemma Substract_filter: "SubstractTransactionHashes hs sub = filter (\<lambda>h. h \<notin> set sub) hs"
  by (induction hs) auto

lemma GetCanDestroy_filter: "GetCanDestroyNFTIDs ids need = filter (\<lambda>i. i \<in> set need) ids"
  by (induction ids) auto

lemma SubstractHeights_zip:
  "length hs \<le> length heights \<Longrightarrow>
   \<exists>ys. SubstractTransactionHashesAndBlockHeights hs heights sub = Done (map fst ys, map snd ys) \<and>
        ys = filter (\<lambda>(h, _). h \<notin> set sub) (zip hs heights)"
proof (induction hs arbitrary: heights)
  case (Cons h hs)
  then obtain x xs where "heights = x # xs" "length hs \<le> length xs"
    by (cases heights) auto
  with Cons.IH [of xs] show ?case by auto
qed simp

lemma substract_indexed_spec:
  "substract_indexed i hs sub =
     (filter (\<lambda>h. h \<notin> set sub) hs, filter (\<lambda>j. hs ! (j - i) \<notin> set sub) [i..<i + length hs])"
proof (induction hs arbitrary: i)
  case (Cons h hs)
  have eq: "(h # hs) ! (j - i) = hs ! (j - Suc i)" if "Suc i \<le> j" for j
    using that by (metis Suc_diff_Suc Suc_le_eq nth_Cons_Suc)
  have "filter (\<lambda>j. hs ! (j - Suc i) \<notin> set sub) [Suc i..<Suc i + length hs] =
        filter (\<lambda>j. (h # hs) ! (j - i) \<notin> set sub) [Suc i..<Suc i + length hs]"
    by (rule filter_cong [OF refl]) (simp only: eq set_upt atLeastLessThan_iff)
  moreover have "[i..<i + length (h # hs)] = i # [Suc i..<Suc i + length hs]"
    by (simp add: upt_rec)
  ultimately show ?case by (simp add: Cons.IH)
qed simp

lemma group_by_height_spec:
  "length hs \<le> length txs \<Longrightarrow> (\<forall>h \<in> set hs. m h \<noteq> None) \<Longrightarrow>
   \<exists>m'. group_by_height m hs txs = Done m' \<and>
        (\<forall>h. m' h = map_option (\<lambda>ts. ts @ map snd (filter (\<lambda>(h', _). h' = h) (zip hs txs))) (m h))"
proof (induction m hs txs rule: group_by_height.induct)
  case (1 m txs)
  then show ?case by (simp add: option.map_id0 [unfolded id_def] option.map_ident)
next
  case (3 m h hs t txs)
  obtain ts where ts: "m h = Some ts" using "3.prems" by auto
  let ?m = "m(h \<mapsto> ts @ [t])"
  have "\<forall>h' \<in> set hs. ?m h' \<noteq> None" using "3.prems"(2) by simp
  moreover have "length hs \<le> length txs" using "3.prems"(1) by simp
  ultimately obtain m' where m': "group_by_height ?m hs txs = Done m'"
      "\<forall>h'. m' h' = map_option (\<lambda>ts. ts @ map snd (filter (\<lambda>(h1, _). h1 = h') (zip hs txs))) (?m h')"
    using "3.IH" [unfolded ts option.case] by blast
  have "m' h' = map_option (\<lambda>ts. ts @ map snd (filter (\<lambda>(h1, _). h1 = h') (zip (h # hs) (t # txs)))) (m h')" for h'
    using m'(2) ts by (cases "h' = h") auto
  with m'(1) ts show ?case by simp
qed simp

section \<open>Keys\<close>

text \<open>\<open>strings.TrimSpace\<close>, for the white space of ASCII (\<open>\\t \\n \\v \\f \\r\<close> and the blank).\<close>

definition is_space :: "char \<Rightarrow> bool" where
  "is_space c \<longleftrightarrow> of_char c \<in> {9 :: nat, 10, 11, 12, 13, 32}"

definition TrimSpace :: "string \<Rightarrow> string" where
  "TrimSpace s = rev (dropWhile is_space (rev (dropWhile is_space s)))"

text \<open>Either error is the value \<open>None\<close>: no caller looks at more.\<close>

definition PublicKeyFromString :: "crypto \<Rightarrow> string \<Rightarrow> public_key option" where
  "PublicKeyFromString C str =
     (case HexStringToBytes C (TrimSpace str) of
        None \<Rightarrow> None
      | Some keyBytes \<Rightarrow> DecodePoint C keyBytes)"

section \<open>Signature merging\<close>

text \<open>
  The loop over the signatures already in the program. \<open>param\<close> is what is left of it; a step of
  length zero would never end.
\<close>

function check_not_signed :: "crypto \<Rightarrow> bytes \<Rightarrow> bytes list \<Rightarrow> nat \<Rightarrow> bytes \<Rightarrow> unit outcome" where
  "check_not_signed C msg publicKeys signerIndex param =
     (if param = [] then Done ()
      else if SignatureScriptLength C = 0 then Blocked
      else if length param < SignatureScriptLength C then Panic
      else if length publicKeys \<le> signerIndex \<or> publicKeys ! signerIndex = [] then Panic
      else (case DecodePoint C (tl (publicKeys ! signerIndex)) of
              None \<Rightarrow> Fail ExtErr
            | Some pubKey \<Rightarrow>
                if Verify C pubKey msg (tl (take (SignatureScriptLength C) param))
                then Fail (Err ''signer already signed'')
                else check_not_signed C msg publicKeys signerIndex (drop (SignatureScriptLength C) param)))"
  by pat_completeness auto
termination
  by (relation "measure (\<lambda>(C, msg, publicKeys, signerIndex, param). length param)") auto

declare check_not_signed.simps [simp del]

text \<open>
  The transaction is changed through its pointer, so the result carries it. The message checked
  against the stored signatures is the \<open>Serialize\<close> form, whose error is dropped.
\<close>

definition MergeSignToTransaction ::
    "crypto \<Rightarrow> tx_ops \<Rightarrow> bytes \<Rightarrow> nat \<Rightarrow> transaction \<Rightarrow> (nat \<times> transaction) outcome" where
  "MergeSignToTransaction C T newSign signerIndex txn =
     (case Programs txn of
        [] \<Rightarrow> Panic
      | p # ps \<Rightarrow>
          (let append = (\<lambda>param.
                 let param' = param @ newSign
                 in if SignatureScriptLength C \<le> 1 then Panic
                    else Done (length param' div (SignatureScriptLength C - 1),
                               txn\<lparr>Programs := p\<lparr>Parameter := Some param'\<rparr> # ps\<rparr>))
           in case Parameter p of
                None \<Rightarrow> append []
              | Some param \<Rightarrow>
                  (case ParseCrossChainScript C (Code p) of
                     None \<Rightarrow> Fail ExtErr
                   | Some publicKeys \<Rightarrow>
                       (case check_not_signed C (snd (TxSerialize T txn)) publicKeys signerIndex param of
                          Done _ \<Rightarrow> append param
                        | Fail e \<Rightarrow> Fail e
                        | Panic \<Rightarrow> Panic
                        | Blocked \<Rightarrow> Blocked))))"

lemma check_not_signed_Done:
  assumes "check_not_signed C msg pks i param = Done ()" "0 < SignatureScriptLength C"
  shows "SignatureScriptLength C dvd length param"
  using assms
proof (induction C msg pks i param rule: check_not_signed.induct)
  case (1 C msg pks i param)
  show ?case
  proof (cases "param = []")
    case False
    with "1.prems" obtain pk where pk: "DecodePoint C (tl (pks ! i)) = Some pk"
        "\<not> Verify C pk msg (tl (take (SignatureScriptLength C) param))"
        "SignatureScriptLength C \<le> length param" "i < length pks" "pks ! i \<noteq> []"
        "check_not_signed C msg pks i (drop (SignatureScriptLength C) param) = Done ()"
      by (subst (asm) check_not_signed.simps) (auto split: if_splits option.splits simp: not_less not_le)
    with False "1.IH" [of pk] "1.prems" have "SignatureScriptLength C dvd length param - SignatureScriptLength C"
      by simp
    with pk(3) show ?thesis by (metis dvd_minus_self linorder_not_less)
  qed simp
qed

text \<open>Dividing by 64 instead of 65 counts right up to 63 signatures.\<close>

lemma count_by_64: "(n * 65) div 64 = n + n div (64 :: nat)"
  by presburger

section \<open>The redeem script\<close>

fun write_public_keys :: "crypto \<Rightarrow> public_key list \<Rightarrow> bytes \<Rightarrow> go_error + bytes" where
  "write_public_keys C [] buf = Inr buf"
| "write_public_keys C (pk # pks) buf =
     (case EncodePoint C pk of
        None \<Rightarrow> Inl (Err ''create multi sign redeem script, encode public key failed'')
      | Some content \<Rightarrow> write_public_keys C pks (buf @ of_nat (length content) # content))"

definition createMultiSignRedeemScriptInner ::
    "crypto \<Rightarrow> int \<Rightarrow> public_key list \<Rightarrow> byte \<Rightarrow> go_error + bytes" where
  "createMultiSignRedeemScriptInner C M publicKeys scriptType =
     (case write_public_keys C (SortPublicKeys C publicKeys) [PUSH1 C + of_int M - 1] of
        Inl e \<Rightarrow> Inl e
      | Inr buf \<Rightarrow>
          Inr (buf @ [PUSH1 C + of_nat (length (SortPublicKeys C publicKeys)) - 1, scriptType]))"

definition CreateWithdrawRedeemScript :: "crypto \<Rightarrow> int \<Rightarrow> public_key list \<Rightarrow> go_error + bytes" where
  "CreateWithdrawRedeemScript C M publicKeys = createMultiSignRedeemScriptInner C M publicKeys (CROSSCHAIN C)"

definition key_push :: "crypto \<Rightarrow> public_key \<Rightarrow> bytes" where
  "key_push C pk = (case EncodePoint C pk of Some bs \<Rightarrow> of_nat (length bs) # bs | None \<Rightarrow> [])"

lemma write_public_keys_ok:
  "(\<forall>pk \<in> set pks. EncodePoint C pk \<noteq> None) \<Longrightarrow>
   write_public_keys C pks buf = Inr (buf @ concat (map (key_push C) pks))"
  by (induction pks arbitrary: buf) (auto simp: key_push_def)

lemma redeem_script_layout:
  assumes "keys_encode C pks"
  shows "CreateWithdrawRedeemScript C M pks =
    Inr ((PUSH1 C + of_int M - 1) # concat (map (key_push C) (SortPublicKeys C pks)) @
         [PUSH1 C + of_nat (length pks) - 1, CROSSCHAIN C])"
proof -
  have *: "set (SortPublicKeys C pks) = set pks" "length (SortPublicKeys C pks) = length pks"
    using assms by (metis keys_encode_def set_mset_mset size_mset)+
  then have "\<forall>pk \<in> set (SortPublicKeys C pks). EncodePoint C pk \<noteq> None"
    using assms by (auto simp: keys_encode_def)
  then show ?thesis
    by (simp add: CreateWithdrawRedeemScript_def createMultiSignRedeemScriptInner_def write_public_keys_ok *)
qed

end
