(* ===== verification/Arb_Group.thy ===== *)
theory Arb_Group
  imports Tx_Utils
begin

text \<open>
  \<open>arbitration/arbitrator/arbitratorgroup.go\<close>: the current arbiters, who is on duty, and the
  periodic refresh from the main chain node; and the quorum and redeem script that
  \<open>arbitration/cs/distributednodeserver.go\<close> computes from them. \<open>Init\<close> allocates the cells of
  \<open>currentHeight\<close> and \<open>lastSyncTime\<close> and nothing makes them nil again, so they are plain values. The
  answers of the node and the clock are arguments.
\<close>

record config =
  CRClaimDPOSNodeStartHeight :: u32
  DPOSNodeCrossChainHeight :: u32
  SchnorrStartHeight :: u32
  NewCrossChainTransactionHeight :: u32
  NFTStartHeight :: u32

record listener =
  listenerPublicKey :: public_key
  isArbitratorImpl :: bool                \<comment> \<open>the type assertion of \<open>CheckOnDutyStatus\<close>\<close>

record arb_group =
  onDutyArbitratorIndex :: int
  arbitrators :: "string list"
  currentHeight :: u32
  lastSyncTime :: u64
  timeoutLimit :: u64
  group_listener :: "listener option"
  isListenerOnDuty :: bool
  duty_calls :: "bool list"               \<comment> \<open>calls of \<open>OnDutyArbitratorChanged\<close>, the last one first\<close>

record node_answers =
  node_height :: "go_error + u32"                       \<comment> \<open>\<open>rpc.GetCurrentHeight\<close>\<close>
  SyncChainData :: "u32 option"                         \<comment> \<open>\<open>None\<close>: no main chain\<close>
  group_info :: "u32 \<Rightarrow> go_error + string list \<times> int"    \<comment> \<open>\<open>rpc.GetArbitratorGroupInfoByHeight\<close>\<close>

definition Init_group :: "listener \<Rightarrow> arb_group" where
  "Init_group l = \<lparr>onDutyArbitratorIndex = 0, arbitrators = [], currentHeight = 0, lastSyncTime = 0,
     timeoutLimit = 1000, group_listener = Some l, isListenerOnDuty = False, duty_calls = []\<rparr>"

definition InitArbitratorsByStrings :: "string list \<Rightarrow> int \<Rightarrow> arb_group \<Rightarrow> arb_group" where
  "InitArbitratorsByStrings arbiters onDutyIndex g =
     g\<lparr>arbitrators := arbiters, onDutyArbitratorIndex := onDutyIndex\<rparr>"

definition SetListener :: "listener option \<Rightarrow> arb_group \<Rightarrow> arb_group" where
  "SetListener l g = g\<lparr>group_listener := l, isListenerOnDuty := False\<rparr>"

definition GetArbitratorsCount :: "arb_group \<Rightarrow> nat" where
  "GetArbitratorsCount g = length (arbitrators g)"

text \<open>A negative index passes the test and panics at the slice access.\<close>

definition GetOnDutyArbitratorOfMain :: "arb_group \<Rightarrow> string outcome" where
  "GetOnDutyArbitratorOfMain g =
     (if length (arbitrators g) = 0 \<or> int (length (arbitrators g)) \<le> onDutyArbitratorIndex g
      then Fail (Err ''Get arbitrators from main chain failed'')
      else if onDutyArbitratorIndex g < 0 then Panic
      else Done (arbitrators g ! nat (onDutyArbitratorIndex g)))"

definition duty_change :: "arb_group \<Rightarrow> arb_group" where
  "duty_change g = g\<lparr>isListenerOnDuty := \<not> isListenerOnDuty g, duty_calls := (\<not> isListenerOnDuty g) # duty_calls g\<rparr>"

definition CheckOnDutyStatus :: "crypto \<Rightarrow> config \<Rightarrow> u32 \<Rightarrow> arb_group \<Rightarrow> unit outcome \<times> arb_group" where
  "CheckOnDutyStatus C cfg height g =
     (case group_listener g of
        None \<Rightarrow> (Done (), g)
      | Some l \<Rightarrow>
          (case GetOnDutyArbitratorOfMain g of
             Fail e \<Rightarrow> (Done (), g)
           | Panic \<Rightarrow> (Panic, g)
           | Blocked \<Rightarrow> (Blocked, g)
           | Done onDutyArbiter \<Rightarrow>
               if \<not> isArbitratorImpl l then (Done (), g)
               else (case PublicKeyFromString C onDutyArbiter of
                       Some pk \<Rightarrow>
                         if \<not> isListenerOnDuty g \<and> listenerPublicKey l = pk \<or>
                            isListenerOnDuty g \<and> listenerPublicKey l \<noteq> pk
                         then (Done (), duty_change g)
                         else if isListenerOnDuty g \<and> listenerPublicKey l = pk \<and>
                                 CRClaimDPOSNodeStartHeight cfg = height
                         then (Done (), g\<lparr>duty_calls := isListenerOnDuty g # duty_calls g\<rparr>)
                         else (Done (), g)
                     | None \<Rightarrow> if isListenerOnDuty g then (Done (), duty_change g) else (Done (), g))))"

text \<open>\<open>uint64(time.Millisecond)\<close> is 10^6; the product is taken modulo 2^64.\<close>

definition too_early :: "u64 \<Rightarrow> arb_group \<Rightarrow> bool" where
  "too_early currentTime g \<longleftrightarrow> (currentTime - lastSyncTime g) * 1000000 < timeoutLimit g"

definition SyncFromMainNode ::
    "crypto \<Rightarrow> config \<Rightarrow> node_answers \<Rightarrow> u64 \<Rightarrow> arb_group \<Rightarrow> unit outcome \<times> arb_group" where
  "SyncFromMainNode C cfg node currentTime g =
     (if too_early currentTime g then (Done (), g)
      else (case node_height node of
              Inl e \<Rightarrow> (Fail e, g)
            | Inr height \<Rightarrow>
                if currentHeight g \<noteq> 0 \<and> currentHeight g = height then (Done (), g)
                else (let syncedHeight = (case SyncChainData node of None \<Rightarrow> 0 | Some h \<Rightarrow> h)
                      in case group_info node syncedHeight of
                           Inl e \<Rightarrow> (Fail e, g)
                         | Inr (arbs, onDuty) \<Rightarrow>
                             CheckOnDutyStatus C cfg syncedHeight
                               (g\<lparr>arbitrators := arbs, onDutyArbitratorIndex := onDuty,
                                  currentHeight := syncedHeight, lastSyncTime := currentTime\<rparr>))))"

section \<open>Quorum and redeem script\<close>

definition getTransactionAgreementArbitratorsCount :: "config \<Rightarrow> u32 \<Rightarrow> nat \<Rightarrow> nat" where
  "getTransactionAgreementArbitratorsCount cfg height arbitersCount =
     (if height \<le> CRClaimDPOSNodeStartHeight cfg then arbitersCount * 2 div 3 + 1
      else if height < DPOSNodeCrossChainHeight cfg then arbitersCount * 2 div 3
      else arbitersCount * 2 div 3 + 1)"

fun script_keys :: "crypto \<Rightarrow> string list \<Rightarrow> go_error + public_key list" where
  "script_keys C [] = Inr []"
| "script_keys C (arStr # arbiters) =
     (if arStr = [] then script_keys C arbiters
      else (case PublicKeyFromString C arStr of
              None \<Rightarrow> Inl ExtErr
            | Some temp \<Rightarrow> map_sum id ((#) temp) (script_keys C arbiters)))"

text \<open>The quorum counts the empty entries too, the keys leave them out.\<close>

definition CreateRedeemScript ::
    "crypto \<Rightarrow> config \<Rightarrow> arb_group \<Rightarrow> go_error + bytes" where
  "CreateRedeemScript C cfg g =
     (case script_keys C (arbitrators g) of
        Inl e \<Rightarrow> Inl e
      | Inr publicKeys \<Rightarrow>
          CreateWithdrawRedeemScript C
            (int (getTransactionAgreementArbitratorsCount cfg (currentHeight g) (length (arbitrators g)))) publicKeys)"

section \<open>Facts\<close>

definition full_quorum :: "config \<Rightarrow> u32 \<Rightarrow> bool" where
  "full_quorum cfg height \<longleftrightarrow> height \<le> CRClaimDPOSNodeStartHeight cfg \<or> DPOSNodeCrossChainHeight cfg \<le> height"

lemma quorum_full: "full_quorum cfg h \<Longrightarrow> getTransactionAgreementArbitratorsCount cfg h n = n * 2 div 3 + 1"
  by (auto simp: full_quorum_def getTransactionAgreementArbitratorsCount_def)

lemma quorum_le: "0 < n \<Longrightarrow> getTransactionAgreementArbitratorsCount cfg h n \<le> n"
  by (auto simp: getTransactionAgreementArbitratorsCount_def)

lemma script_keys_spec:
  "script_keys C arbs = Inr pks \<Longrightarrow> map Some pks = map (PublicKeyFromString C) (filter (\<lambda>a. a \<noteq> []) arbs)"
proof (induction arbs arbitrary: pks)
  case (Cons a arbs)
  then show ?case by (cases "a = []"; cases "PublicKeyFromString C a"; cases "script_keys C arbs") auto
qed simp

end
