(* ===== verification/Cs_Proposal.thy ===== *)
theory Cs_Proposal
  imports Tx_Utils
begin

text \<open>
  The contents of the two Schnorr rounds (\<open>arbitration/cs/txschnorrcontent.go\<close>,
  \<open>txschnorrrequestrcontent.go\<close>, \<open>txschnorrrequestscontent.go\<close>) and the two peer messages
  (\<open>signmessage.go\<close>, \<open>sendschnorrproposal.go\<close>) with their binary formats. A \<open>big.Int\<close> here is a natural
  number: it is only ever built by \<open>SetBytes\<close> or by the curve functions.
\<close>

section \<open>Big-endian numbers: \<open>big.Int.Bytes\<close> and \<open>SetBytes\<close>\<close>

fun nat_bytes :: "nat \<Rightarrow> bytes" where
  "nat_bytes n = (if n = 0 then [] else nat_bytes (n div 256) @ [of_nat (n mod 256)])"

declare nat_bytes.simps [simp del]

definition SetBytes :: "bytes \<Rightarrow> nat" where
  "SetBytes bs = foldl (\<lambda>a b. a * 256 + unat b) 0 bs"

lemma SetBytes_append: "SetBytes (bs @ [b]) = SetBytes bs * 256 + unat b"
  by (simp add: SetBytes_def)

lemma SetBytes_nat_bytes [simp]: "SetBytes (nat_bytes n) = n"
proof (induction n rule: nat_bytes.induct)
  case (1 n)
  show ?case
  proof (cases "n = 0")
    case True
    then show ?thesis by (subst nat_bytes.simps) (simp add: SetBytes_def)
  next
    case False
    then have "nat_bytes n = nat_bytes (n div 256) @ [of_nat (n mod 256)]" by (subst nat_bytes.simps) simp
    with 1 False show ?thesis by (simp add: SetBytes_append unat_of_nat)
  qed
qed

lemma length_nat_bytes: "n < 256 ^ k \<Longrightarrow> length (nat_bytes n) \<le> k"
proof (induction k arbitrary: n)
  case 0
  then show ?case by (subst nat_bytes.simps) simp
next
  case (Suc k)
  then have "n div 256 < 256 ^ k" by (simp add: less_mult_imp_div_less mult.commute)
  from Suc.IH [OF this] show ?case by (subst nat_bytes.simps) simp
qed

section \<open>Reading and writing numbers\<close>

definition put_big :: "wire \<Rightarrow> nat \<Rightarrow> bytes step" where
  "put_big W n = wput (WriteVarBytes W (nat_bytes n)) ExtErr"

definition get_big :: "wire \<Rightarrow> nat \<Rightarrow> (nat \<Rightarrow> 'o \<Rightarrow> 'o) \<Rightarrow> ('o \<times> bytes) step" where
  "get_big W mx upd = rget (ReadVarBytes W mx) ExtErr (\<lambda>b. upd (SetBytes b))"

lemma matched_big:
  assumes "wire_ok W" "n < 256 ^ mx" "mx < 2 ^ 32"
  shows "matched (put_big W n) (get_big W mx upd) s (upd n s)"
  using matched_prim [OF wire_okD(3) [OF assms(1,3)], of "nat_bytes n" ExtErr ExtErr "\<lambda>b. upd (SetBytes b)" s]
    length_nat_bytes [OF assms(2)]
  by (simp add: put_big_def get_big_def)

section \<open>Round 1: the nonce and everybody's R\<close>

text \<open>\<open>K0\<close> can become negative (\<open>GetK\<close> works in place); \<open>big.Int.Bytes\<close> writes the absolute value.\<close>

record krp =
  K0 :: int
  Rx :: nat
  Ry :: nat
  Px :: nat
  Py :: nat

definition zero_krp :: krp where "zero_krp = \<lparr>K0 = 0, Rx = 0, Ry = 0, Px = 0, Py = 0\<rparr>"

definition KRP_Serialize :: "wire \<Rightarrow> krp \<Rightarrow> bytes step" where
  "KRP_Serialize W r =
     run_steps [put_big W (nat \<bar>K0 r\<bar>), put_big W (Rx r), put_big W (Ry r), put_big W (Px r), put_big W (Py r)]"

definition KRP_Deserialize :: "wire \<Rightarrow> (krp \<times> bytes) step" where
  "KRP_Deserialize W =
     run_steps [get_big W 64 (\<lambda>a c. c\<lparr>K0 := int a\<rparr>), get_big W 64 (\<lambda>a c. c\<lparr>Rx := a\<rparr>),
                get_big W 64 (\<lambda>a c. c\<lparr>Ry := a\<rparr>), get_big W 64 (\<lambda>a c. c\<lparr>Px := a\<rparr>),
                get_big W 64 (\<lambda>a c. c\<lparr>Py := a\<rparr>)]"

definition krp_fits :: "krp \<Rightarrow> bool" where
  "krp_fits r \<longleftrightarrow> 0 \<le> K0 r \<and> list_all (\<lambda>n. n < 256 ^ 64) [nat (K0 r), Rx r, Ry r, Px r, Py r]"

lemma matched_krp:
  assumes "wire_ok W" "krp_fits r"
  shows "matched (KRP_Serialize W r) (KRP_Deserialize W) o1 r"
proof -
  have "matched (KRP_Serialize W r) (KRP_Deserialize W) o1
     (o1\<lparr>K0 := int (nat \<bar>K0 r\<bar>), Rx := Rx r, Ry := Ry r, Px := Px r, Py := Py r\<rparr>)"
    unfolding KRP_Serialize_def KRP_Deserialize_def using assms(2)
    by (intro matched_Cons [OF matched_big [OF assms(1)]] matched_Nil)
      (simp_all add: krp_fits_def)
  then show ?thesis using assms(2) by (cases r, cases o1) (simp add: krp_fits_def)
qed

record request_r =
  RNonce :: bytes
  RR :: krp

definition fresh_request_r :: request_r where
  "fresh_request_r = \<lparr>RNonce = [], RR = zero_krp\<rparr>"

lemma matched_single: "matched f g s s' \<Longrightarrow> matched (run_steps [f]) (run_steps [g]) s s'"
  by (rule matched_Cons [OF _ matched_Nil])

text \<open>A deserializer of a field, run inside the object.\<close>

definition nested :: "('f \<times> bytes) step \<Rightarrow> ('o \<Rightarrow> 'f) \<Rightarrow> ('f \<Rightarrow> 'o \<Rightarrow> 'o) \<Rightarrow> ('o \<times> bytes) step" where
  "nested g get put s = (case g (get (fst s), snd s) of (e, f, r) \<Rightarrow> (e, put f (fst s), r))"

lemma matched_nested: "matched f g (get s) x \<Longrightarrow> matched f (nested g get put) s (put x s)"
  by (auto simp: matched_def writes_def reads_def nested_def)

definition RequestR_Serialize :: "wire \<Rightarrow> bool \<Rightarrow> request_r \<Rightarrow> bytes step" where
  "RequestR_Serialize W feedback c =
     run_steps (wput (WriteVarBytes W (RNonce c)) ExtErr # (if feedback then [KRP_Serialize W (RR c)] else []))"

definition RequestR_Deserialize :: "wire \<Rightarrow> bool \<Rightarrow> (request_r \<times> bytes) step" where
  "RequestR_Deserialize W feedback =
     run_steps (rget (ReadVarBytes W 64) ExtErr (\<lambda>a c. c\<lparr>RNonce := a\<rparr>) #
       (if feedback then [nested (KRP_Deserialize W) RR (\<lambda>k c. c\<lparr>RR := k\<rparr>)] else []))"

definition request_r_fits :: "bool \<Rightarrow> request_r \<Rightarrow> bool" where
  "request_r_fits feedback c \<longleftrightarrow> length (RNonce c) \<le> 64 \<and>
     (if feedback then krp_fits (RR c) else RR c = zero_krp)"

lemma matched_request_r:
  assumes "wire_ok W" "request_r_fits feedback c"
  shows "matched (RequestR_Serialize W feedback c) (RequestR_Deserialize W feedback) fresh_request_r c"
proof -
  note nonce = matched_prim [OF wire_okD(3) [OF assms(1), of 64], of "RNonce c" ExtErr ExtErr
      "\<lambda>a c. c\<lparr>RNonce := a\<rparr>" fresh_request_r]
  have "matched (RequestR_Serialize W feedback c) (RequestR_Deserialize W feedback) fresh_request_r
      (fresh_request_r\<lparr>RNonce := RNonce c, RR := RR c\<rparr>)"
  proof (cases feedback)
    case True
    have "matched (KRP_Serialize W (RR c)) (KRP_Deserialize W) (RR (fresh_request_r\<lparr>RNonce := RNonce c\<rparr>)) (RR c)"
      using assms True by (intro matched_krp) (simp_all add: request_r_fits_def)
    note k = matched_nested [where get = RR and s = "fresh_request_r\<lparr>RNonce := RNonce c\<rparr>"
        and put = "\<lambda>k c. c\<lparr>RR := k\<rparr>", OF this]
    show ?thesis
      using matched_Cons [OF nonce matched_single [OF k]] True assms(2)
      by (simp add: RequestR_Serialize_def RequestR_Deserialize_def request_r_fits_def)
  next
    case False
    then have "fresh_request_r\<lparr>RNonce := RNonce c, RR := RR c\<rparr> = fresh_request_r\<lparr>RNonce := RNonce c\<rparr>"
      using assms(2) by (simp add: request_r_fits_def fresh_request_r_def)
    then show ?thesis
      using matched_single [OF nonce] False assms(2)
      by (simp add: RequestR_Serialize_def RequestR_Deserialize_def request_r_fits_def)
  qed
  then show ?thesis by (cases c) (simp add: fresh_request_r_def)
qed

interpretation request_r: codec "RequestR_Serialize W feedback" "RequestR_Deserialize W feedback"
    fresh_request_r "\<lambda>c. wire_ok W \<and> request_r_fits feedback c" for W feedback
  by unfold_locales (auto intro: matched_request_r)

section \<open>Round 2: the transaction, the signers, E and everybody's S\<close>

record request_s =
  SNonceHash :: uint256
  STx :: "transaction option"          \<comment> \<open>\<open>None\<close> is the nil interface\<close>
  SPublickeys :: "bytes list"
  SE :: nat
  SS :: nat

definition fresh_request_s :: request_s where
  "fresh_request_s = \<lparr>SNonceHash = zero_uint256, STx = None, SPublickeys = [], SE = 0, SS = 0\<rparr>"

definition put_tx :: "(transaction \<Rightarrow> go_error option \<times> bytes) \<Rightarrow> go_error \<Rightarrow> transaction option \<Rightarrow> bytes step" where
  "put_tx ser e tx buf =
     (case tx of None \<Rightarrow> (Some GoPanic, buf)
      | Some t \<Rightarrow> (case ser t of (None, bs) \<Rightarrow> (None, buf @ bs) | (Some _, bs) \<Rightarrow> (Some e, buf @ bs)))"

definition RequestS_Serialize :: "wire \<Rightarrow> tx_ops \<Rightarrow> bool \<Rightarrow> request_s \<Rightarrow> bytes step" where
  "RequestS_Serialize W T feedback c =
     run_steps
       ([wput (WriteUint256 W (SNonceHash c)) ExtErr,
         put_tx (TxSerializeUnsigned T) (Err ''failed tto serialize transaction'') (STx c),
         wput (WriteVarUint W (of_nat (length (SPublickeys c)))) (Err ''failed to write count of public keys'')] @
        map (\<lambda>pk. wput (WriteVarBytes W pk) (Err ''failed to serialize public key'')) (SPublickeys c) @
        [put_big W (SE c)] @ (if feedback then [put_big W (SS c)] else []))"

definition get_tx :: "tx_ops \<Rightarrow> (transaction \<Rightarrow> transaction reader) \<Rightarrow> (transaction \<Rightarrow> 'o \<Rightarrow> 'o) \<Rightarrow> ('o \<times> bytes) step" where
  "get_tx T body upd s =
     (case GetTransactionByBytes T (snd s) of
        (Inl _, r) \<Rightarrow> (Some ExtErr, fst s, r)
      | (Inr t0, r) \<Rightarrow>
          (case body t0 r of
             (Inl _, r') \<Rightarrow> (Some (Err ''failed to deserialize transaction''), fst s, r')
           | (Inr t, r') \<Rightarrow> (None, upd t (fst s), r')))"

fun read_pks :: "wire \<Rightarrow> nat \<Rightarrow> (request_s \<times> bytes) step" where
  "read_pks W 0 s = (None, s)"
| "read_pks W (Suc n) (c, r) =
     (case ReadVarBytes W 33 r of
        (Inl _, r') \<Rightarrow> (Some ExtErr, c, r')
      | (Inr pk, r') \<Rightarrow> read_pks W n (c\<lparr>SPublickeys := SPublickeys c @ [pk]\<rparr>, r'))"

definition read_publickeys :: "wire \<Rightarrow> (request_s \<times> bytes) step" where
  "read_publickeys W s =
     (case ReadVarUint W (snd s) of
        (Inl _, r) \<Rightarrow> (Some ExtErr, fst s, r)
      | (Inr n, r) \<Rightarrow> read_pks W (unat n) ((fst s)\<lparr>SPublickeys := []\<rparr>, r))"

definition RequestS_Deserialize :: "wire \<Rightarrow> tx_ops \<Rightarrow> bool \<Rightarrow> (request_s \<times> bytes) step" where
  "RequestS_Deserialize W T feedback =
     run_steps
       ([rget (ReadUint256 W) ExtErr (\<lambda>a c. c\<lparr>SNonceHash := a\<rparr>),
         get_tx T (TxDeserializeUnsigned T) (\<lambda>t c. c\<lparr>STx := Some t\<rparr>),
         read_publickeys W,
         get_big W 65 (\<lambda>a c. c\<lparr>SE := a\<rparr>)] @
        (if feedback then [get_big W 65 (\<lambda>a c. c\<lparr>SS := a\<rparr>)] else []))"

text \<open>
  What the library promises on a transaction: the unsigned and the full form are read back exactly.
  The unsigned form has no programs.
\<close>

definition tx_unsigned_ok :: "tx_ops \<Rightarrow> transaction \<Rightarrow> bool" where
  "tx_unsigned_ok T tx \<longleftrightarrow>
     (\<exists>bs. TxSerializeUnsigned T tx = (None, bs) \<and>
       (\<forall>r. \<exists>t0 r0. GetTransactionByBytes T (bs @ r) = (Inr t0, r0) \<and> TxDeserializeUnsigned T t0 r0 = (Inr tx, r)))"

definition tx_full_ok :: "tx_ops \<Rightarrow> transaction \<Rightarrow> bool" where
  "tx_full_ok T tx \<longleftrightarrow>
     (\<exists>bs. TxSerialize T tx = (None, bs) \<and>
       (\<forall>r. \<exists>t0 r0. GetTransactionByBytes T (bs @ r) = (Inr t0, r0) \<and> TxDeserialize T t0 r0 = (Inr tx, r)))"

definition request_s_fits :: "tx_ops \<Rightarrow> bool \<Rightarrow> request_s \<Rightarrow> bool" where
  "request_s_fits T feedback c \<longleftrightarrow> length (SNonceHash c) = 32 \<and>
     (case STx c of None \<Rightarrow> False | Some tx \<Rightarrow> tx_unsigned_ok T tx) \<and>
     length (SPublickeys c) < 2 ^ 64 \<and> list_all (\<lambda>pk. length pk \<le> 33) (SPublickeys c) \<and>
     SE c < 256 ^ 65 \<and> (if feedback then SS c < 256 ^ 65 else SS c = 0)"

lemma matched_append:
  assumes "matched (run_steps fs) (run_steps gs) s s1" "matched (run_steps fs') (run_steps gs') s1 s2"
  shows "matched (run_steps (fs @ fs')) (run_steps (gs @ gs')) s s2"
proof -
  obtain bs cs where "writes (run_steps fs) bs" "reads (run_steps gs) bs s s1"
    "writes (run_steps fs') cs" "reads (run_steps gs') cs s1 s2"
    using assms by (auto simp: matched_def)
  then have "writes (run_steps (fs @ fs')) (bs @ cs)" "reads (run_steps (gs @ gs')) (bs @ cs) s s2"
    by (simp_all add: writes_def reads_def run_steps_append)
  then show ?thesis by (auto simp: matched_def)
qed

lemma matched_tx:
  assumes "tx_unsigned_ok T tx"
  shows "matched (put_tx (TxSerializeUnsigned T) e (Some tx)) (get_tx T (TxDeserializeUnsigned T) upd) s (upd tx s)"
proof -
  obtain bs where bs: "TxSerializeUnsigned T tx = (None, bs)"
    "\<forall>r. \<exists>t0 r0. GetTransactionByBytes T (bs @ r) = (Inr t0, r0) \<and> TxDeserializeUnsigned T t0 r0 = (Inr tx, r)"
    using assms by (auto simp: tx_unsigned_ok_def)
  show ?thesis
  proof (rule matchedI [where bs = bs])
    show "get_tx T (TxDeserializeUnsigned T) upd (s, bs @ t) = (None, upd tx s, t)" for t
      using bs(2) [rule_format, of t] by (auto simp: get_tx_def)
  qed (simp add: put_tx_def bs(1))
qed

lemma matched_pks:
  assumes "wire_ok W" "list_all (\<lambda>pk. length pk \<le> 33) pks"
  shows "matched (run_steps (map (\<lambda>pk. wput (WriteVarBytes W pk) e) pks)) (read_pks W (length pks))
           c (c\<lparr>SPublickeys := SPublickeys c @ pks\<rparr>)"
  using assms(2)
proof (induction pks arbitrary: c)
  case Nil
  show ?case by (rule matchedI [where bs = "[]"]) simp_all
next
  case (Cons pk pks)
  let ?c = "c\<lparr>SPublickeys := SPublickeys c @ [pk]\<rparr>"
  obtain bs where bs: "WriteVarBytes W pk = Some bs" "\<And>t. ReadVarBytes W 33 (bs @ t) = (Inr pk, t)"
    using prim_okD [OF wire_okD(3) [OF assms(1), of 33], of pk] Cons.prems by auto
  obtain cs where cs: "\<And>buf. run_steps (map (\<lambda>pk. wput (WriteVarBytes W pk) e) pks) buf = (None, buf @ cs)"
      "\<And>t. read_pks W (length pks) (?c, cs @ t) = (None, ?c\<lparr>SPublickeys := SPublickeys ?c @ pks\<rparr>, t)"
    using matchedE [OF Cons.IH [of ?c]] Cons.prems by auto
  show ?case by (rule matchedI [where bs = "bs @ cs"]) (simp_all add: bs cs go_simps)
qed

lemma matched_publickeys:
  assumes "wire_ok W" "list_all (\<lambda>pk. length pk \<le> 33) pks" "length pks < 2 ^ 64"
  shows "matched (run_steps (wput (WriteVarUint W (of_nat (length pks))) e' #
             map (\<lambda>pk. wput (WriteVarBytes W pk) e) pks)) (run_steps [read_publickeys W])
           c (c\<lparr>SPublickeys := pks\<rparr>)"
proof -
  let ?n = "of_nat (length pks) :: u64"
  have n: "unat ?n = length pks" using assms(3) by (simp add: unat_of_nat)
  obtain bs where bs: "WriteVarUint W ?n = Some bs" "\<And>t. ReadVarUint W (bs @ t) = (Inr ?n, t)"
    using prim_okD [OF wire_okD(1) [OF assms(1)], of ?n] by auto
  obtain cs where cs: "\<And>buf. run_steps (map (\<lambda>pk. wput (WriteVarBytes W pk) e) pks) buf = (None, buf @ cs)"
      "\<And>t. read_pks W (length pks) (c\<lparr>SPublickeys := []\<rparr>, cs @ t) = (None, c\<lparr>SPublickeys := pks\<rparr>, t)"
    using matchedE [OF matched_pks [OF assms(1,2), of e "c\<lparr>SPublickeys := []\<rparr>"]] by auto
  show ?thesis
    by (rule matchedI [where bs = "bs @ cs"]) (simp_all add: read_publickeys_def bs cs n go_simps)
qed

lemma matched_request_s:
  assumes "wire_ok W" "request_s_fits T feedback c"
  shows "matched (RequestS_Serialize W T feedback c) (RequestS_Deserialize W T feedback) fresh_request_s c"
proof -
  obtain tx where tx: "STx c = Some tx" "tx_unsigned_ok T tx"
    using assms(2) by (auto simp: request_s_fits_def split: option.splits)
  note fits = assms(2) [unfolded request_s_fits_def]
  let ?c1 = "fresh_request_s\<lparr>SNonceHash := SNonceHash c\<rparr>"
  let ?c2 = "?c1\<lparr>STx := Some tx\<rparr>"
  let ?c3 = "?c2\<lparr>SPublickeys := SPublickeys c\<rparr>"
  let ?c4 = "?c3\<lparr>SE := SE c\<rparr>"
  have nonce: "matched (wput (WriteUint256 W (SNonceHash c)) ExtErr)
      (rget (ReadUint256 W) ExtErr (\<lambda>a c. c\<lparr>SNonceHash := a\<rparr>)) fresh_request_s ?c1"
    using fits by (intro matched_prim [OF wire_okD(5) [OF assms(1)]]) simp
  have body: "matched (put_tx (TxSerializeUnsigned T) (Err ''failed tto serialize transaction'') (STx c))
      (get_tx T (TxDeserializeUnsigned T) (\<lambda>t c. c\<lparr>STx := Some t\<rparr>)) ?c1 ?c2"
    unfolding tx(1) using matched_tx [OF tx(2), where upd = "\<lambda>t c. c\<lparr>STx := Some t\<rparr>" and s = ?c1] .
  have e: "matched (put_big W (SE c)) (get_big W 65 (\<lambda>a c. c\<lparr>SE := a\<rparr>)) ?c3 ?c4"
    using fits by (intro matched_big [OF assms(1)]) simp_all
  have tail: "matched (run_steps (if feedback then [put_big W (SS c)] else []))
      (run_steps (if feedback then [get_big W 65 (\<lambda>a c. c\<lparr>SS := a\<rparr>)] else [])) ?c4 (?c4\<lparr>SS := SS c\<rparr>)"
  proof (cases feedback)
    case True
    then have "matched (put_big W (SS c)) (get_big W 65 (\<lambda>a c. c\<lparr>SS := a\<rparr>)) ?c4 (?c4\<lparr>SS := SS c\<rparr>)"
      using fits by (intro matched_big [OF assms(1)]) simp_all
    then show ?thesis using True by (simp add: matched_single)
  next
    case False
    then have "?c4\<lparr>SS := SS c\<rparr> = ?c4" using fits by (simp add: fresh_request_s_def)
    then show ?thesis using False by (simp add: matched_Nil)
  qed
  have pks: "list_all (\<lambda>pk. length pk \<le> 33) (SPublickeys c)" "length (SPublickeys c) < 2 ^ 64" using fits by simp_all
  have "c = ?c4\<lparr>SS := SS c\<rparr>" using tx(1) by (cases c) (simp add: fresh_request_s_def)
  moreover note matched_append [OF matched_Cons [OF nonce matched_single [OF body]]
      matched_append [OF matched_publickeys [OF assms(1) pks] matched_append [OF matched_single [OF e] tail]]]
  ultimately show ?thesis
    unfolding RequestS_Serialize_def RequestS_Deserialize_def by (simp only: append_Cons append_Nil)
qed

interpretation request_s: codec "RequestS_Serialize W T feedback" "RequestS_Deserialize W T feedback"
    fresh_request_s "\<lambda>c. wire_ok W \<and> request_s_fits T feedback c" for W T feedback
  by unfold_locales (auto intro: matched_request_s)

section \<open>Peer messages\<close>

definition SendSchnorrProposal_Serialize :: "wire \<Rightarrow> uint256 \<Rightarrow> bytes step" where
  "SendSchnorrProposal_Serialize W nonceHash = wput (WriteUint256 W nonceHash) ExtErr"

definition SendSchnorrProposal_Deserialize :: "wire \<Rightarrow> (uint256 \<times> bytes) step" where
  "SendSchnorrProposal_Deserialize W = rget (ReadUint256 W) ExtErr (\<lambda>a _. a)"

text \<open>\<open>pact.MaxBlockContextSize\<close> is a constant of the library, an argument.\<close>

definition DistributedItemMessage_Serialize :: "wire \<Rightarrow> bytes \<Rightarrow> bytes step" where
  "DistributedItemMessage_Serialize W content = wput (WriteVarBytes W content) ExtErr"

definition DistributedItemMessage_Deserialize :: "wire \<Rightarrow> nat \<Rightarrow> (bytes \<times> bytes) step" where
  "DistributedItemMessage_Deserialize W MaxBlockContextSize =
     rget (ReadVarBytes W MaxBlockContextSize) ExtErr (\<lambda>a _. a)"

interpretation send_schnorr_message: codec "SendSchnorrProposal_Serialize W" "SendSchnorrProposal_Deserialize W"
    zero_uint256 "\<lambda>h. wire_ok W \<and> length h = 32" for W
  by unfold_locales
    (auto simp: SendSchnorrProposal_Serialize_def SendSchnorrProposal_Deserialize_def
      intro: matched_prim [OF wire_okD(5)])

interpretation item_message: codec "DistributedItemMessage_Serialize W" "DistributedItemMessage_Deserialize W mx"
    "[]" "\<lambda>b. wire_ok W \<and> length b \<le> mx \<and> mx < 2 ^ 32" for W mx
  by unfold_locales
    (auto simp: DistributedItemMessage_Serialize_def DistributedItemMessage_Deserialize_def
      intro: matched_prim [OF wire_okD(3)])

end
