(* ===== verification/Cs_Item.thy ===== *)
theory Cs_Item
  imports Cs_Proposal Arb_Group
begin

text \<open>
  \<open>arbitration/cs/distributeditem.go\<close>: the signed envelope the arbiters exchange, with its checks, its
  signatures and its binary format; and the contents it carries (\<open>txdistributedcontent.go\<close>,
  \<open>illegaldistributedcontent.go\<close>: hashing, signing, merging). The evidence of illegal data is a value of
  the ELA library, with the calls on it in \<open>ev_ops\<close>. Where the code appends the text of a library error
  to its own, only its own text is kept.
\<close>

section \<open>Contents\<close>

record illegal_evidence =
  EvBody :: bytes
  EvSigns :: "bytes list"

record ev_ops =
  EvSerialize :: "illegal_evidence \<Rightarrow> go_error option \<times> bytes"
  EvSerializeUnsigned :: "illegal_evidence \<Rightarrow> go_error option \<times> bytes"
  Sha256D :: "bytes \<Rightarrow> uint256"

datatype content = TxContent transaction | IllegalDistributedContent illegal_evidence

definition content_SerializeUnsigned :: "tx_ops \<Rightarrow> ev_ops \<Rightarrow> content \<Rightarrow> go_error option \<times> bytes" where
  "content_SerializeUnsigned T V c =
     (case c of TxContent tx \<Rightarrow> TxSerializeUnsigned T tx
      | IllegalDistributedContent ev \<Rightarrow> EvSerializeUnsigned V ev)"

definition content_Serialize :: "tx_ops \<Rightarrow> ev_ops \<Rightarrow> content \<Rightarrow> go_error option \<times> bytes" where
  "content_Serialize T V c =
     (case c of TxContent tx \<Rightarrow> TxSerialize T tx
      | IllegalDistributedContent ev \<Rightarrow> EvSerialize V ev)"

text \<open>The evidence keeps its first hash; the unsigned form it is taken from never changes.\<close>

definition content_Hash :: "tx_ops \<Rightarrow> ev_ops \<Rightarrow> content \<Rightarrow> uint256" where
  "content_Hash T V c =
     (case c of TxContent tx \<Rightarrow> TxHash T tx
      | IllegalDistributedContent ev \<Rightarrow> Sha256D V (snd (EvSerializeUnsigned V ev)))"

definition InitSign :: "bytes \<Rightarrow> content \<Rightarrow> content outcome" where
  "InitSign newSign c =
     (case c of
        TxContent tx \<Rightarrow>
          (case Programs tx of
             [] \<Rightarrow> Panic
           | p # ps \<Rightarrow> Done (TxContent (tx\<lparr>Programs := p\<lparr>Parameter := Some newSign\<rparr> # ps\<rparr>)))
      | IllegalDistributedContent ev \<Rightarrow> Done (IllegalDistributedContent (ev\<lparr>EvSigns := [newSign]\<rparr>)))"

fun find_index :: "('a \<Rightarrow> bool) \<Rightarrow> 'a list \<Rightarrow> nat option" where
  "find_index P [] = None"
| "find_index P (x # xs) = (if P x then Some 0 else map_option Suc (find_index P xs))"

definition MergeSign :: "crypto \<Rightarrow> tx_ops \<Rightarrow> bytes \<Rightarrow> uint160 \<Rightarrow> content \<Rightarrow> (nat \<times> content) outcome" where
  "MergeSign C T newSign targetCodeHash c =
     (case c of
        TxContent tx \<Rightarrow>
          (case Programs tx of
             [] \<Rightarrow> Panic
           | p # ps \<Rightarrow>
               (case GetCorssChainSigners C (Code p) of
                  None \<Rightarrow> Fail ExtErr
                | Some codeHashes \<Rightarrow>
                    (case find_index (\<lambda>h. h = targetCodeHash) codeHashes of
                       None \<Rightarrow> Fail (Err ''invalid multi sign signer'')
                     | Some signerIndex \<Rightarrow>
                         (case MergeSignToTransaction C T newSign signerIndex tx of
                            Done (n, tx') \<Rightarrow> Done (n, TxContent tx')
                          | Fail e \<Rightarrow> Fail e | Panic \<Rightarrow> Panic | Blocked \<Rightarrow> Blocked))))
      | IllegalDistributedContent ev \<Rightarrow>
          Done (length (EvSigns ev) + 1, IllegalDistributedContent (ev\<lparr>EvSigns := EvSigns ev @ [newSign]\<rparr>)))"

section \<open>The item\<close>

definition MultisigContent :: byte where "MultisigContent = 0x00"
definition IllegalContent :: byte where "IllegalContent = 0x01"
definition SchnorrMultisigContent2 :: byte where "SchnorrMultisigContent2 = 0x02"
definition SchnorrMultisigContent3 :: byte where "SchnorrMultisigContent3 = 0x03"
definition AnswerMultisigContent :: byte where "AnswerMultisigContent = 0x10"
definition AnswerIllegalContent :: byte where "AnswerIllegalContent = 0x11"
definition AnswerSchnorrMultisigContent2 :: byte where "AnswerSchnorrMultisigContent2 = 0x12"
definition AnswerSchnorrMultisigContent3 :: byte where "AnswerSchnorrMultisigContent3 = 0x13"

lemmas content_types = MultisigContent_def IllegalContent_def SchnorrMultisigContent2_def
  SchnorrMultisigContent3_def AnswerMultisigContent_def AnswerIllegalContent_def
  AnswerSchnorrMultisigContent2_def AnswerSchnorrMultisigContent3_def

definition WithdrawTransaction :: byte where "WithdrawTransaction = 0x00"
definition IllegalTransaction :: byte where "IllegalTransaction = 0x01"
definition ReturnDepositTransaction :: byte where "ReturnDepositTransaction = 0x02"
definition NFTDestroyTransaction :: byte where "NFTDestroyTransaction = 0x03"

definition MaxRedeemScriptDataSize :: nat where "MaxRedeemScriptDataSize = 10000"

record item =
  TargetArbitratorPublicKey :: "public_key option"     \<comment> \<open>\<open>None\<close> is nil\<close>
  TargetArbitratorProgramHash :: uint168
  TransactionType :: byte
  ItemType :: byte
  ItemContent :: "content option"
  RequestRContent :: request_r
  RequestSContent :: request_s
  redeemScript :: bytes
  signedData :: "bytes option"                          \<comment> \<open>\<open>None\<close> is the nil slice\<close>

definition fresh_item :: item where
  "fresh_item = \<lparr>TargetArbitratorPublicKey = None, TargetArbitratorProgramHash = zero_uint168,
     TransactionType = 0, ItemType = 0, ItemContent = None, RequestRContent = fresh_request_r,
     RequestSContent = fresh_request_s, redeemScript = [], signedData = None\<rparr>"

definition signed_bytes :: "item \<Rightarrow> bytes" where
  "signed_bytes item = (case signedData item of None \<Rightarrow> [] | Some d \<Rightarrow> d)"

text \<open>The account of this arbiter, and what the main chain node answers.\<close>

record account =
  MyPublicKey :: public_key
  SignData :: "bytes \<Rightarrow> bytes option"
  GetSchnorrR :: "krp option"
  GetSchnorrS :: "nat \<Rightarrow> nat"

record item_func =
  GetCurrentHeight :: "go_error + u32"
  GetArbitratorGroupInfoByHeight :: "u32 \<Rightarrow> go_error + string list \<times> int"

subsection \<open>Signers of the redeem script\<close>

function chunks :: "nat \<Rightarrow> 'a list \<Rightarrow> 'a list list" where
  "chunks n xs = (if n = 0 \<or> xs = [] then [] else take n xs # chunks n (drop n xs))"
  by pat_completeness auto
termination by (relation "measure (\<lambda>(n, xs). length xs)") auto

declare chunks.simps [simp del]

definition getMultiSignPublicKeys :: "crypto \<Rightarrow> bytes \<Rightarrow> go_error + bytes list" where
  "getMultiSignPublicKeys C script =
     (if length script < MinMultiSignCodeLength C \<or> last script \<noteq> CROSSCHAIN C
      then Inl (Err ''not a valid multi sign transaction item.redeemScript, length not enough'')
      else let keys = butlast (tl (butlast script))
           in if length keys mod (PublicKeyScriptLength C - 1) \<noteq> 0
              then Inl (Err ''not a valid multi sign transaction item.redeemScript, length not match'')
              else Inr (chunks (PublicKeyScriptLength C - 1) keys))"

text \<open>A key that has no program hash leaves a nil pointer in the list.\<close>

definition getMultiSignSigners :: "crypto \<Rightarrow> bytes \<Rightarrow> go_error + uint168 option list" where
  "getMultiSignSigners C script =
     map_sum id (map (\<lambda>s. PublicKeyToStandardProgramHash C (tl s))) (getMultiSignPublicKeys C script)"

text \<open>The loop compares with every signer and keeps the last index; a nil pointer panics.\<close>

definition signer_index :: "uint168 \<Rightarrow> uint168 option list \<Rightarrow> nat option outcome" where
  "signer_index h hs =
     (if None \<in> set hs then Panic
      else Done (map_option (\<lambda>i. length hs - 1 - i) (find_index (\<lambda>x. x = Some h) (rev hs))))"

subsection \<open>Signing\<close>

definition appendSignature ::
    "crypto \<Rightarrow> tx_ops \<Rightarrow> ev_ops \<Rightarrow> bytes \<Rightarrow> bool \<Rightarrow> item_func \<Rightarrow> item \<Rightarrow> item outcome" where
  "appendSignature C T V signature isFeedback itemFunc item =
     (let newSign = of_nat (length signature) # signature;
          done_item = Done (item\<lparr>signedData := Some (signed_bytes item @ newSign)\<rparr>)
      in if \<not> isFeedback then
           (case signedData item of
              None \<Rightarrow> done_item
            | Some _ \<Rightarrow> Fail (Err ''Can not sign a not-null trasaction.''))
         else if length (signed_bytes item) \<noteq> SignatureScriptLength C then Fail (Err ''Invalid sign data.'')
         else (case GetCurrentHeight itemFunc of
                 Inl e \<Rightarrow> Fail e
               | Inr blockHeight \<Rightarrow>
                   (case GetArbitratorGroupInfoByHeight itemFunc blockHeight of
                      Inl e \<Rightarrow> Fail e
                    | Inr (arbs, onDuty) \<Rightarrow>
                        if onDuty < 0 \<or> int (length arbs) \<le> onDuty then Panic
                        else (case PublicKeyFromString C (arbs ! nat onDuty) of
                                None \<Rightarrow> Fail ExtErr
                              | Some onDutyArbitratorPk \<Rightarrow>
                                  (case (TargetArbitratorPublicKey item, ItemContent item) of
                                     (None, _) \<Rightarrow> Panic
                                   | (Some targetPk, c) \<Rightarrow>
                                       if targetPk \<noteq> onDutyArbitratorPk
                                       then Fail (Err ''Can not sign without current arbitrator's signing.'')
                                       else (case c of
                                               None \<Rightarrow> Panic
                                             | Some content \<Rightarrow>
                                                 (case content_SerializeUnsigned T V content of
                                                    (Some e, _) \<Rightarrow> Fail e
                                                  | (None, buf) \<Rightarrow>
                                                      if Verify C targetPk buf (tl (signed_bytes item)) then done_item
                                                      else Fail (Err ''Can not sign without current arbitrator's signing.''))))))))"

definition Sign ::
    "crypto \<Rightarrow> tx_ops \<Rightarrow> ev_ops \<Rightarrow> account \<Rightarrow> bool \<Rightarrow> item_func \<Rightarrow> item \<Rightarrow> item outcome" where
  "Sign C T V acc isFeedback itemFunc item =
     (case getMultiSignSigners C (redeemScript item) of
        Inl e \<Rightarrow> Fail e
      | Inr programHashes \<Rightarrow>
          (case EncodePoint C (MyPublicKey acc) of
             None \<Rightarrow> Fail ExtErr
           | Some pkBuf \<Rightarrow>
               (case PublicKeyToStandardProgramHash C pkBuf of
                  None \<Rightarrow> Fail ExtErr
                | Some userProgramHash \<Rightarrow>
                    (case signer_index userProgramHash programHashes of
                       Done None \<Rightarrow> Fail (Err ''Invalid multi sign signer'')
                     | Done (Some signerIndex) \<Rightarrow>
                         (case ItemContent item of
                            None \<Rightarrow> Panic
                          | Some content \<Rightarrow>
                              (case content_SerializeUnsigned T V content of
                                 (Some e, _) \<Rightarrow> Fail e
                               | (None, buf) \<Rightarrow>
                                   (case SignData acc buf of
                                      None \<Rightarrow> Fail ExtErr
                                    | Some newSign \<Rightarrow> appendSignature C T V newSign isFeedback itemFunc item)))
                     | other \<Rightarrow> Panic))))"

definition SchnorrSign2 :: "wire \<Rightarrow> account \<Rightarrow> item \<Rightarrow> item outcome" where
  "SchnorrSign2 W acc item =
     (case RequestR_Serialize W True (RequestRContent item) [] of
        (Some e, _) \<Rightarrow> fail_of e
      | (None, buf) \<Rightarrow> (case SignData acc buf of None \<Rightarrow> Fail ExtErr
                        | Some newSign \<Rightarrow> Done (item\<lparr>signedData := Some newSign\<rparr>)))"

definition SchnorrSign3 :: "wire \<Rightarrow> tx_ops \<Rightarrow> account \<Rightarrow> item \<Rightarrow> item outcome" where
  "SchnorrSign3 W T acc item =
     (case RequestS_Serialize W T True (RequestSContent item) [] of
        (Some e, _) \<Rightarrow> fail_of e
      | (None, buf) \<Rightarrow> (case SignData acc buf of None \<Rightarrow> Fail ExtErr
                        | Some newSign \<Rightarrow> Done (item\<lparr>signedData := Some newSign\<rparr>)))"

definition IsFeedback :: "crypto \<Rightarrow> item \<Rightarrow> bool" where
  "IsFeedback C item \<longleftrightarrow> length (signed_bytes item) div SignatureScriptLength C = 2"

subsection \<open>Checks\<close>

text \<open>The second component is the message that makes the caller give up without an error.\<close>

definition ParseFeedbackSignedData ::
    "crypto \<Rightarrow> tx_ops \<Rightarrow> ev_ops \<Rightarrow> item \<Rightarrow> (bytes \<times> string) outcome" where
  "ParseFeedbackSignedData C T V item =
     (if length (signed_bytes item) \<noteq> SignatureScriptLength C * 2
      then Done ([], ''ParseFeedbackSignedData invalid sign data length.'')
      else let sign = drop (SignatureScriptLength C) (signed_bytes item)
           in case ItemContent item of
                None \<Rightarrow> Panic
              | Some content \<Rightarrow>
                  (case content_SerializeUnsigned T V content of
                     (Some e, _) \<Rightarrow> Fail e
                   | (None, buf) \<Rightarrow>
                       (case TargetArbitratorPublicKey item of
                          None \<Rightarrow> Panic
                        | Some pk \<Rightarrow>
                            if sign = [] then Panic
                            else if Verify C pk buf (tl sign) then Done (sign, [])
                            else Fail (Err ''ParseFeedbackSignedData invalid sign data.''))))"

definition CheckMyselfInCurrentArbiters :: "crypto \<Rightarrow> arb_group \<Rightarrow> account \<Rightarrow> go_error option" where
  "CheckMyselfInCurrentArbiters C g acc =
     (case EncodePoint C (MyPublicKey acc) of
        None \<Rightarrow> Some ExtErr
      | Some myself \<Rightarrow>
          if BytesToHexString C myself \<in> set (filter (\<lambda>a. a \<noteq> []) (arbitrators g)) then None
          else Some (Err ''myself no need to sign''))"

fun arbiter_hashes :: "crypto \<Rightarrow> string list \<Rightarrow> go_error + uint168 list" where
  "arbiter_hashes C [] = Inr []"
| "arbiter_hashes C (a # arbs) =
     (if a = [] then arbiter_hashes C arbs
      else (case HexStringToBytes C a of
              None \<Rightarrow> Inl (Err ''invalid arbiters'')
            | Some ab \<Rightarrow>
                (case PublicKeyToStandardProgramHash C ab of
                   None \<Rightarrow> Inl (Err ''invalid arbiters public key'')
                 | Some programHash \<Rightarrow> map_sum id ((#) programHash) (arbiter_hashes C arbs))))"

definition CheckSenderInCurrentArbiters :: "crypto \<Rightarrow> arb_group \<Rightarrow> item \<Rightarrow> go_error option" where
  "CheckSenderInCurrentArbiters C g item =
     (case arbiter_hashes C (arbitrators g) of
        Inl e \<Rightarrow> Some e
      | Inr hs \<Rightarrow> if TargetArbitratorProgramHash item \<in> set hs then None
                  else Some (Err ''arbiter no need to sign''))"

definition check_schnorr :: "crypto \<Rightarrow> bytes step \<Rightarrow> item \<Rightarrow> unit outcome" where
  "check_schnorr C ser item =
     (if signed_bytes item = []
      then Fail (Err ''CheckSchnorrFeedbackRequestRSignedData invalid sign data length.'')
      else (case ser [] of
              (Some e, _) \<Rightarrow> fail_of e
            | (None, buf) \<Rightarrow>
                (case TargetArbitratorPublicKey item of
                   None \<Rightarrow> Panic
                 | Some pk \<Rightarrow>
                     if Verify C pk buf (signed_bytes item) then Done ()
                     else Fail (Err ''CheckSchnorrFeedbackProposalSignedData invalid sign data.''))))"

definition CheckSchnorrFeedbackRequestRSignedData :: "crypto \<Rightarrow> wire \<Rightarrow> item \<Rightarrow> unit outcome" where
  "CheckSchnorrFeedbackRequestRSignedData C W item =
     check_schnorr C (RequestR_Serialize W True (RequestRContent item)) item"

definition CheckSchnorrFeedbackRequestSSignedData :: "crypto \<Rightarrow> wire \<Rightarrow> tx_ops \<Rightarrow> item \<Rightarrow> unit outcome" where
  "CheckSchnorrFeedbackRequestSSignedData C W T item =
     check_schnorr C (RequestS_Serialize W T True (RequestSContent item)) item"

section \<open>Binary format\<close>

definition put_content :: "tx_ops \<Rightarrow> ev_ops \<Rightarrow> content option \<Rightarrow> bytes step" where
  "put_content T V c buf =
     (case c of None \<Rightarrow> (Some GoPanic, buf)
      | Some c \<Rightarrow> (case content_Serialize T V c of (e, bs) \<Rightarrow> (e, buf @ bs)))"

definition put_header :: "crypto \<Rightarrow> wire \<Rightarrow> item \<Rightarrow> bytes step list" where
  "put_header C W item =
     [(case TargetArbitratorPublicKey item of
         None \<Rightarrow> (\<lambda>buf. (Some GoPanic, buf))
       | Some pk \<Rightarrow> wput (WriteVarBytes W (case EncodePoint C pk of None \<Rightarrow> [] | Some bs \<Rightarrow> bs))
                          (Err ''TargetArbitratorPublicKey serialization failed.'')),
      wput (WriteUint168 W (TargetArbitratorProgramHash item)) (Err ''TargetArbitratorProgramHash serialization failed.''),
      wput (WriteUint8 W (TransactionType item)) ExtErr,
      wput (WriteUint8 W (ItemType item)) ExtErr]"

definition put_script :: "wire \<Rightarrow> item \<Rightarrow> bytes step" where
  "put_script W item = wput (WriteVarBytes W (redeemScript item)) (Err ''redeemScript serialization failed.'')"

definition put_signed :: "wire \<Rightarrow> item \<Rightarrow> bytes step" where
  "put_signed W item = wput (WriteVarBytes W (signed_bytes item)) (Err ''signedData serialization failed.'')"

definition unsigned_body :: "wire \<Rightarrow> tx_ops \<Rightarrow> ev_ops \<Rightarrow> item \<Rightarrow> bytes step list" where
  "unsigned_body W T V item =
     (let ty = ItemType item
      in if ty = MultisigContent \<or> ty = AnswerMultisigContent
         then [put_content T V (ItemContent item), put_script W item]
         else if ty = IllegalContent \<or> ty = AnswerIllegalContent then [put_script W item]
         else if ty = SchnorrMultisigContent2 then [RequestR_Serialize W False (RequestRContent item)]
         else if ty = AnswerSchnorrMultisigContent2 then [RequestR_Serialize W True (RequestRContent item)]
         else if ty = SchnorrMultisigContent3 then [RequestS_Serialize W T False (RequestSContent item)]
         else if ty = AnswerSchnorrMultisigContent3 then [RequestS_Serialize W T True (RequestSContent item)]
         else [])"

definition has_signed :: "byte \<Rightarrow> bool" where
  "has_signed ty \<longleftrightarrow> ty = MultisigContent \<or> ty = AnswerMultisigContent \<or> ty = IllegalContent \<or>
     ty = AnswerIllegalContent \<or> ty = AnswerSchnorrMultisigContent2 \<or> ty = AnswerSchnorrMultisigContent3"

definition Item_SerializeUnsigned :: "crypto \<Rightarrow> wire \<Rightarrow> tx_ops \<Rightarrow> ev_ops \<Rightarrow> item \<Rightarrow> bytes step" where
  "Item_SerializeUnsigned C W T V item = run_steps (put_header C W item @ unsigned_body W T V item)"

definition Item_Serialize :: "crypto \<Rightarrow> wire \<Rightarrow> tx_ops \<Rightarrow> ev_ops \<Rightarrow> item \<Rightarrow> bytes step" where
  "Item_Serialize C W T V item =
     run_steps (put_header C W item @ unsigned_body W T V item @
       (if has_signed (ItemType item) then [put_signed W item] else []))"

definition get_header :: "crypto \<Rightarrow> wire \<Rightarrow> (item \<times> bytes) step list" where
  "get_header C W =
     [rget (ReadVarBytes W (PublicKeyScriptLength C)) (Err ''TargetArbitratorPublicKey deserialization failed.'')
           (\<lambda>b i. i\<lparr>TargetArbitratorPublicKey := DecodePoint C b\<rparr>),
      rget (ReadUint168 W) (Err ''TargetArbitratorProgramHash deserialization failed.'')
           (\<lambda>h i. i\<lparr>TargetArbitratorProgramHash := h\<rparr>),
      rget (ReadUint8 W) ExtErr (\<lambda>b i. i\<lparr>TransactionType := b\<rparr>),
      rget (ReadUint8 W) ExtErr (\<lambda>b i. i\<lparr>ItemType := b\<rparr>)]"

definition get_script :: "wire \<Rightarrow> (item \<times> bytes) step" where
  "get_script W = rget (ReadVarBytes W MaxRedeemScriptDataSize) (Err ''redeemScript deserialization failed.'')
     (\<lambda>b i. i\<lparr>redeemScript := b\<rparr>)"

definition get_signed :: "crypto \<Rightarrow> wire \<Rightarrow> (item \<times> bytes) step" where
  "get_signed C W = rget (ReadVarBytes W (SignatureScriptLength C * 2)) (Err ''signedData deserialization failed.'')
     (\<lambda>b i. i\<lparr>signedData := Some b\<rparr>)"

text \<open>
  A transaction that \<open>GetTransactionByBytes\<close> refuses is logged and leaves the switch: the call
  returns without an error and with a nil content.
\<close>

definition get_multisig :: "crypto \<Rightarrow> wire \<Rightarrow> tx_ops \<Rightarrow> (item \<times> bytes) step" where
  "get_multisig C W T s =
     (case GetTransactionByBytes T (snd s) of
        (Inl _, r) \<Rightarrow> (None, fst s, r)
      | (Inr t0, r) \<Rightarrow>
          (case TxDeserialize T t0 r of
             (Inl _, r') \<Rightarrow> (Some (Err ''ItemContent deserialization failed.''),
                             (fst s)\<lparr>ItemContent := Some (TxContent t0)\<rparr>, r')
           | (Inr tx, r') \<Rightarrow>
               run_steps [get_script W, get_signed C W] ((fst s)\<lparr>ItemContent := Some (TxContent tx)\<rparr>, r')))"

definition replace_err :: "string \<Rightarrow> ('o \<times> bytes) step \<Rightarrow> ('o \<times> bytes) step" where
  "replace_err msg f s = (case f s of (None, x) \<Rightarrow> (None, x) | (Some _, x) \<Rightarrow> (Some (Err msg), x))"

definition get_request_r :: "wire \<Rightarrow> bool \<Rightarrow> string \<Rightarrow> (item \<times> bytes) step" where
  "get_request_r W feedback msg =
     replace_err msg (nested (RequestR_Deserialize W feedback) RequestRContent (\<lambda>c i. i\<lparr>RequestRContent := c\<rparr>))"

definition get_request_s :: "wire \<Rightarrow> tx_ops \<Rightarrow> bool \<Rightarrow> (item \<times> bytes) step" where
  "get_request_s W T feedback =
     replace_err ''Answer SchnorrRequestSProposalContent deserialization failed.''
       (nested (RequestS_Deserialize W T feedback) RequestSContent (\<lambda>c i. i\<lparr>RequestSContent := c\<rparr>))"

definition get_body :: "crypto \<Rightarrow> wire \<Rightarrow> tx_ops \<Rightarrow> (item \<times> bytes) step" where
  "get_body C W T s =
     (let ty = ItemType (fst s)
      in if ty = MultisigContent \<or> ty = AnswerMultisigContent then get_multisig C W T s
         else if ty = IllegalContent \<or> ty = AnswerIllegalContent
         then run_steps [get_script W, get_signed C W] s
         else if ty = SchnorrMultisigContent2
         then get_request_r W False ''SchnorrRequestRProposalContent deserialization failed.'' s
         else if ty = AnswerSchnorrMultisigContent2
         then run_steps [get_request_r W True ''Answer SchnorrRequestRProposalContent deserialization failed.'',
                         get_signed C W] s
         else if ty = SchnorrMultisigContent3 then get_request_s W T False s
         else if ty = AnswerSchnorrMultisigContent3
         then run_steps [get_request_s W T True, get_signed C W] s
         else (None, s))"

definition Item_Deserialize :: "crypto \<Rightarrow> wire \<Rightarrow> tx_ops \<Rightarrow> (item \<times> bytes) step" where
  "Item_Deserialize C W T = run_steps (get_header C W @ [get_body C W T])"

section \<open>Round trip\<close>

definition header_fits :: "crypto \<Rightarrow> item \<Rightarrow> bool" where
  "header_fits C i \<longleftrightarrow> PublicKeyScriptLength C = 35 \<and> SignatureScriptLength C = 65 \<and>
     length (TargetArbitratorProgramHash i) = 21 \<and>
     (case TargetArbitratorPublicKey i of None \<Rightarrow> False
      | Some pk \<Rightarrow> (case EncodePoint C pk of None \<Rightarrow> False
          | Some bs \<Rightarrow> length bs \<le> 35 \<and> DecodePoint C bs = Some pk))"

definition signed_fits :: "item \<Rightarrow> bool" where
  "signed_fits i \<longleftrightarrow> (case signedData i of None \<Rightarrow> False | Some d \<Rightarrow> length d \<le> 130)"

definition script_fits :: "item \<Rightarrow> bool" where
  "script_fits i \<longleftrightarrow> length (redeemScript i) \<le> MaxRedeemScriptDataSize"

text \<open>What each type carries; the other fields have their zero values.\<close>

definition body_fits :: "tx_ops \<Rightarrow> item \<Rightarrow> bool" where
  "body_fits T i \<longleftrightarrow>
     (let ty = ItemType i; f = fresh_item\<lparr>TargetArbitratorPublicKey := TargetArbitratorPublicKey i,
            TargetArbitratorProgramHash := TargetArbitratorProgramHash i,
            TransactionType := TransactionType i, ItemType := ty\<rparr>
      in if ty = MultisigContent \<or> ty = AnswerMultisigContent
         then (case ItemContent i of Some (TxContent tx) \<Rightarrow> tx_full_ok T tx | _ \<Rightarrow> False) \<and>
              script_fits i \<and> signed_fits i \<and>
              i = f\<lparr>ItemContent := ItemContent i, redeemScript := redeemScript i, signedData := signedData i\<rparr>
         else if ty = IllegalContent \<or> ty = AnswerIllegalContent
         then script_fits i \<and> signed_fits i \<and> i = f\<lparr>redeemScript := redeemScript i, signedData := signedData i\<rparr>
         else if ty = SchnorrMultisigContent2
         then request_r_fits False (RequestRContent i) \<and> i = f\<lparr>RequestRContent := RequestRContent i\<rparr>
         else if ty = AnswerSchnorrMultisigContent2
         then request_r_fits True (RequestRContent i) \<and> signed_fits i \<and>
              i = f\<lparr>RequestRContent := RequestRContent i, signedData := signedData i\<rparr>
         else if ty = SchnorrMultisigContent3
         then request_s_fits T False (RequestSContent i) \<and> i = f\<lparr>RequestSContent := RequestSContent i\<rparr>
         else if ty = AnswerSchnorrMultisigContent3
         then request_s_fits T True (RequestSContent i) \<and> signed_fits i \<and>
              i = f\<lparr>RequestSContent := RequestSContent i, signedData := signedData i\<rparr>
         else i = f)"

definition item_fits :: "crypto \<Rightarrow> tx_ops \<Rightarrow> item \<Rightarrow> bool" where
  "item_fits C T i \<longleftrightarrow> header_fits C i \<and> body_fits T i"

definition header_of :: "item \<Rightarrow> item" where
  "header_of i = fresh_item\<lparr>TargetArbitratorPublicKey := TargetArbitratorPublicKey i,
     TargetArbitratorProgramHash := TargetArbitratorProgramHash i,
     TransactionType := TransactionType i, ItemType := ItemType i\<rparr>"

lemma matched_header:
  assumes "wire_ok W" "header_fits C i"
  shows "matched (run_steps (put_header C W i)) (run_steps (get_header C W)) fresh_item (header_of i)"
proof -
  note W = wire_okD [OF assms(1)]
  obtain pk bs where pk: "TargetArbitratorPublicKey i = Some pk" "EncodePoint C pk = Some bs"
    "length bs \<le> 35" "DecodePoint C bs = Some pk" "PublicKeyScriptLength C = 35"
    "length (TargetArbitratorProgramHash i) = 21"
    using assms(2) by (auto simp: header_fits_def split: option.splits)
  have key: "matched (wput (WriteVarBytes W bs) (Err ''TargetArbitratorPublicKey serialization failed.''))
      (rget (ReadVarBytes W 35) (Err ''TargetArbitratorPublicKey deserialization failed.'')
         (\<lambda>b i. i\<lparr>TargetArbitratorPublicKey := DecodePoint C b\<rparr>)) fresh_item
      (fresh_item\<lparr>TargetArbitratorPublicKey := Some pk\<rparr>)"
    using matched_prim [OF W(3), of 35 bs _ _ "\<lambda>b i. i\<lparr>TargetArbitratorPublicKey := DecodePoint C b\<rparr>" fresh_item] pk(3,4)
    by simp
  show ?thesis
    unfolding put_header_def get_header_def header_of_def pk(1,2,5) option.case
    by (intro matched_Cons [OF key] matched_Cons [OF matched_prim [OF W(6)]]
          matched_Cons [OF matched_prim [OF W(9)]] matched_Nil) (simp_all add: pk(6))
qed

lemma matched_script:
  assumes "wire_ok W" "script_fits i"
  shows "matched (put_script W i) (get_script W) s (s\<lparr>redeemScript := redeemScript i\<rparr>)"
  unfolding put_script_def get_script_def using assms
  by (intro matched_prim [OF wire_okD(3)]) (simp_all add: script_fits_def MaxRedeemScriptDataSize_def)

lemma matched_signed:
  assumes "wire_ok W" "signed_fits i" "SignatureScriptLength C = 65"
  shows "matched (put_signed W i) (get_signed C W) s (s\<lparr>signedData := signedData i\<rparr>)"
proof -
  obtain d where d: "signedData i = Some d" "length d \<le> 130"
    using assms(2) by (auto simp: signed_fits_def split: option.splits)
  show ?thesis
    unfolding put_signed_def get_signed_def signed_bytes_def d(1) option.case assms(3)
    by (rule matched_prim [OF wire_okD(3) [OF assms(1)], where upd = "\<lambda>b i. i\<lparr>signedData := Some b\<rparr>"])
      (simp_all add: d(2))
qed

lemma matched_replace_err: "matched f g s s' \<Longrightarrow> matched f (replace_err m g) s s'"
  by (auto simp: matched_def writes_def reads_def replace_err_def)

lemma matched_multisig:
  assumes "wire_ok W" "tx_full_ok T tx" "script_fits i" "signed_fits i" "SignatureScriptLength C = 65"
  shows "matched (run_steps [put_content T V (Some (TxContent tx)), put_script W i, put_signed W i])
    (get_multisig C W T) s
    (s\<lparr>ItemContent := Some (TxContent tx), redeemScript := redeemScript i, signedData := signedData i\<rparr>)"
proof -
  obtain bs where bs: "TxSerialize T tx = (None, bs)"
    "\<forall>r. \<exists>t0 r0. GetTransactionByBytes T (bs @ r) = (Inr t0, r0) \<and> TxDeserialize T t0 r0 = (Inr tx, r)"
    using assms(2) by (auto simp: tx_full_ok_def)
  obtain cs where cs: "\<And>buf. run_steps [put_script W i, put_signed W i] buf = (None, buf @ cs)"
      "\<And>t. run_steps [get_script W, get_signed C W] (s\<lparr>ItemContent := Some (TxContent tx)\<rparr>, cs @ t) =
         (None, s\<lparr>ItemContent := Some (TxContent tx), redeemScript := redeemScript i, signedData := signedData i\<rparr>, t)"
    using matchedE [OF matched_Cons [OF matched_script [OF assms(1,3)]
        matched_single [OF matched_signed [OF assms(1,4,5)]]]] by metis
  show ?thesis
  proof (rule matchedI [where bs = "bs @ cs"])
    show "run_steps [put_content T V (Some (TxContent tx)), put_script W i, put_signed W i] buf = (None, buf @ bs @ cs)" for buf
      using cs(1) [of "buf @ bs"] by (simp add: put_content_def content_Serialize_def bs(1))
    show "get_multisig C W T (s, (bs @ cs) @ t) =
        (None, s\<lparr>ItemContent := Some (TxContent tx), redeemScript := redeemScript i, signedData := signedData i\<rparr>, t)" for t
      using bs(2) [rule_format, of "cs @ t"] cs(2) [of t] by (auto simp: get_multisig_def)
  qed
qed

lemma matched_same: "matched f g' s s' \<Longrightarrow> (\<And>r. g (s, r) = g' (s, r)) \<Longrightarrow> matched f g s s'"
  by (simp add: matched_def writes_def reads_def)

lemma matched_request_r_field:
  assumes "wire_ok W" "request_r_fits fb (RequestRContent i)" "RequestRContent s = fresh_request_r"
  shows "matched (RequestR_Serialize W fb (RequestRContent i)) (get_request_r W fb m) s
    (s\<lparr>RequestRContent := RequestRContent i\<rparr>)"
  unfolding get_request_r_def using matched_request_r [OF assms(1,2)] assms(3)
  by (intro matched_replace_err matched_nested [where put = "\<lambda>c i. i\<lparr>RequestRContent := c\<rparr>"]) simp

lemma matched_request_s_field:
  assumes "wire_ok W" "request_s_fits T fb (RequestSContent i)" "RequestSContent s = fresh_request_s"
  shows "matched (RequestS_Serialize W T fb (RequestSContent i)) (get_request_s W T fb) s
    (s\<lparr>RequestSContent := RequestSContent i\<rparr>)"
  unfolding get_request_s_def using matched_request_s [OF assms(1,2)] assms(3)
  by (intro matched_replace_err matched_nested [where put = "\<lambda>c i. i\<lparr>RequestSContent := c\<rparr>"]) simp

lemma header_of_fields [simp]:
  "ItemType (header_of i) = ItemType i" "RequestRContent (header_of i) = fresh_request_r"
  "RequestSContent (header_of i) = fresh_request_s"
  by (simp_all add: header_of_def fresh_item_def)

text \<open>All that follows the header, one lemma per kind of content.\<close>

definition full_body :: "wire \<Rightarrow> tx_ops \<Rightarrow> ev_ops \<Rightarrow> item \<Rightarrow> bytes step list" where
  "full_body W T V i = unsigned_body W T V i @ (if has_signed (ItemType i) then [put_signed W i] else [])"

lemmas body_fitsD = body_fits_def [unfolded Let_def, folded header_of_def]

lemma matched_body_multisig:
  assumes W: "wire_ok W" and fits: "body_fits T i" and sig: "SignatureScriptLength C = 65"
    and ty: "ItemType i = MultisigContent \<or> ItemType i = AnswerMultisigContent"
  shows "matched (run_steps (full_body W T V i)) (get_body C W T) (header_of i) i"
proof -
  note fits = fits [unfolded body_fitsD]
  have wr: "full_body W T V i =
      [put_content T V (ItemContent i), put_script W i, put_signed W i]"
    using ty by (auto simp: full_body_def unsigned_body_def has_signed_def Let_def)
  obtain tx where f: "ItemContent i = Some (TxContent tx)" "tx_full_ok T tx" "script_fits i" "signed_fits i"
    "i = header_of i\<lparr>ItemContent := ItemContent i, redeemScript := redeemScript i, signedData := signedData i\<rparr>"
    using fits ty by (auto split: option.splits content.splits)
  have "matched (run_steps [put_content T V (ItemContent i), put_script W i, put_signed W i]) (get_multisig C W T)
      (header_of i) i"
    using matched_multisig [OF W f(2,3,4) sig, of V "header_of i"] f(1,5) by simp
  then show ?thesis unfolding wr by (rule matched_same) (use ty in \<open>simp add: get_body_def\<close>)
qed

lemma matched_body_illegal:
  assumes W: "wire_ok W" and fits: "body_fits T i" and sig: "SignatureScriptLength C = 65"
    and ty: "ItemType i = IllegalContent \<or> ItemType i = AnswerIllegalContent"
  shows "matched (run_steps (full_body W T V i)) (get_body C W T) (header_of i) i"
proof -
  note fits = fits [unfolded body_fitsD]
  have wr: "full_body W T V i =
      [put_script W i, put_signed W i]"
    using ty by (auto simp: full_body_def unsigned_body_def has_signed_def Let_def content_types)
  have f: "script_fits i" "signed_fits i"
    "i = header_of i\<lparr>redeemScript := redeemScript i, signedData := signedData i\<rparr>"
    using fits ty by (auto simp: content_types)
  have "matched (run_steps [put_script W i, put_signed W i]) (run_steps [get_script W, get_signed C W]) (header_of i) i"
    using matched_Cons [OF matched_script [OF W f(1), of "header_of i"]
        matched_single [OF matched_signed [OF W f(2) sig]]] f(3) by simp
  then show ?thesis unfolding wr by (rule matched_same) (use ty in \<open>auto simp: get_body_def content_types\<close>)
qed

lemma matched_body_r:
  assumes W: "wire_ok W" and fits: "body_fits T i" and sig: "SignatureScriptLength C = 65"
    and ty: "ItemType i = SchnorrMultisigContent2"
  shows "matched (run_steps (full_body W T V i)) (get_body C W T) (header_of i) i"
proof -
  note fits = fits [unfolded body_fitsD]
  have wr: "full_body W T V i =
      [RequestR_Serialize W False (RequestRContent i)]"
    using ty by (simp add: full_body_def unsigned_body_def has_signed_def Let_def content_types)
  have f: "request_r_fits False (RequestRContent i)" "i = header_of i\<lparr>RequestRContent := RequestRContent i\<rparr>"
    using fits ty by (auto simp: content_types)
  have "matched (run_steps [RequestR_Serialize W False (RequestRContent i)])
      (run_steps [get_request_r W False ''SchnorrRequestRProposalContent deserialization failed.'']) (header_of i) i"
    using matched_single [OF matched_request_r_field [OF W f(1), of "header_of i"]] f(2) by simp
  then show ?thesis unfolding wr
    by (rule matched_same) (use ty in \<open>simp add: get_body_def content_types split: prod.split option.split\<close>)
qed

lemma matched_body_answer_r:
  assumes W: "wire_ok W" and fits: "body_fits T i" and sig: "SignatureScriptLength C = 65"
    and ty: "ItemType i = AnswerSchnorrMultisigContent2"
  shows "matched (run_steps (full_body W T V i)) (get_body C W T) (header_of i) i"
proof -
  note fits = fits [unfolded body_fitsD]
  have wr: "full_body W T V i =
      [RequestR_Serialize W True (RequestRContent i), put_signed W i]"
    using ty by (simp add: full_body_def unsigned_body_def has_signed_def Let_def content_types)
  have f: "request_r_fits True (RequestRContent i)" "signed_fits i"
      "i = header_of i\<lparr>RequestRContent := RequestRContent i, signedData := signedData i\<rparr>"
    using fits ty by (auto simp: content_types)
  have "matched (run_steps [RequestR_Serialize W True (RequestRContent i), put_signed W i])
      (run_steps [get_request_r W True ''Answer SchnorrRequestRProposalContent deserialization failed.'', get_signed C W])
      (header_of i) i"
    using matched_Cons [OF matched_request_r_field [OF W f(1), of "header_of i"]
        matched_single [OF matched_signed [OF W f(2) sig]]] f(3) by simp
  then show ?thesis unfolding wr by (rule matched_same) (use ty in \<open>simp add: get_body_def content_types\<close>)
qed

lemma matched_body_s:
  assumes W: "wire_ok W" and fits: "body_fits T i" and sig: "SignatureScriptLength C = 65"
    and ty: "ItemType i = SchnorrMultisigContent3"
  shows "matched (run_steps (full_body W T V i)) (get_body C W T) (header_of i) i"
proof -
  note fits = fits [unfolded body_fitsD]
  have wr: "full_body W T V i =
      [RequestS_Serialize W T False (RequestSContent i)]"
    using ty by (simp add: full_body_def unsigned_body_def has_signed_def Let_def content_types)
  have f: "request_s_fits T False (RequestSContent i)" "i = header_of i\<lparr>RequestSContent := RequestSContent i\<rparr>"
    using fits ty by (auto simp: content_types)
  have "matched (run_steps [RequestS_Serialize W T False (RequestSContent i)])
      (run_steps [get_request_s W T False]) (header_of i) i"
    using matched_single [OF matched_request_s_field [OF W f(1), of "header_of i"]] f(2) by simp
  then show ?thesis unfolding wr
    by (rule matched_same) (use ty in \<open>simp add: get_body_def content_types split: prod.split option.split\<close>)
qed

lemma matched_body_answer_s:
  assumes W: "wire_ok W" and fits: "body_fits T i" and sig: "SignatureScriptLength C = 65"
    and ty: "ItemType i = AnswerSchnorrMultisigContent3"
  shows "matched (run_steps (full_body W T V i)) (get_body C W T) (header_of i) i"
proof -
  note fits = fits [unfolded body_fitsD]
  have wr: "full_body W T V i =
      [RequestS_Serialize W T True (RequestSContent i), put_signed W i]"
    using ty by (simp add: full_body_def unsigned_body_def has_signed_def Let_def content_types)
  have f: "request_s_fits T True (RequestSContent i)" "signed_fits i"
      "i = header_of i\<lparr>RequestSContent := RequestSContent i, signedData := signedData i\<rparr>"
    using fits ty by (auto simp: content_types)
  have "matched (run_steps [RequestS_Serialize W T True (RequestSContent i), put_signed W i])
      (run_steps [get_request_s W T True, get_signed C W]) (header_of i) i"
    using matched_Cons [OF matched_request_s_field [OF W f(1), of "header_of i"]
        matched_single [OF matched_signed [OF W f(2) sig]]] f(3) by simp
  then show ?thesis unfolding wr by (rule matched_same) (use ty in \<open>simp add: get_body_def content_types\<close>)
qed

lemma matched_body_other:
  assumes "body_fits T i" "\<not> (ItemType i = MultisigContent \<or> ItemType i = AnswerMultisigContent)"
    "\<not> (ItemType i = IllegalContent \<or> ItemType i = AnswerIllegalContent)" "ItemType i \<noteq> SchnorrMultisigContent2"
    "ItemType i \<noteq> AnswerSchnorrMultisigContent2" "ItemType i \<noteq> SchnorrMultisigContent3"
    "ItemType i \<noteq> AnswerSchnorrMultisigContent3"
  shows "matched (run_steps (full_body W T V i)) (get_body C W T) (header_of i) i"
proof -
  have "full_body W T V i = []" using assms by (simp add: full_body_def unsigned_body_def has_signed_def Let_def)
  moreover have "i = header_of i" using assms by (simp add: body_fitsD)
  ultimately show ?thesis using assms by (intro matchedI [where bs = "[]"]) (simp_all add: get_body_def)
qed

lemma matched_body:
  assumes "wire_ok W" "body_fits T i" "SignatureScriptLength C = 65"
  shows "matched (run_steps (full_body W T V i)) (get_body C W T) (header_of i) i"
  using matched_body_multisig [OF assms] matched_body_illegal [OF assms] matched_body_r [OF assms]
    matched_body_answer_r [OF assms] matched_body_s [OF assms] matched_body_answer_s [OF assms]
    matched_body_other [OF assms(2)] by blast

lemma run_steps_nest: "run_steps (fs @ [run_steps gs]) = run_steps (fs @ gs)"
  by (rule ext) (auto simp: run_steps_append split: prod.split option.split)

lemma matched_item:
  assumes "wire_ok W" "item_fits C T i"
  shows "matched (Item_Serialize C W T V i) (Item_Deserialize C W T) fresh_item i"
proof -
  have "header_fits C i" "body_fits T i" "SignatureScriptLength C = 65"
    using assms(2) by (auto simp: item_fits_def header_fits_def)
  note matched_append [OF matched_header [OF assms(1) this(1)]
      matched_single [OF matched_body [OF assms(1) this(2,3), of V]]]
  then show ?thesis
    unfolding Item_Serialize_def Item_Deserialize_def run_steps_nest full_body_def .
qed

interpretation item: codec "Item_Serialize C W T V" "Item_Deserialize C W T" fresh_item
    "\<lambda>i. wire_ok W \<and> item_fits C T i" for C W T V
  by unfold_locales (auto intro: matched_item)

section \<open>Reading the signers back from the redeem script\<close>

lemma chunks_concat:
  assumes "0 < n" "\<forall>x \<in> set xss. length x = n"
  shows "chunks n (concat xss) = xss"
  using assms(2)
proof (induction xss)
  case Nil
  show ?case by (subst chunks.simps) simp
next
  case (Cons x xss)
  then have "x \<noteq> []" using assms(1) by auto
  with Cons assms(1) show ?case by (subst chunks.simps) simp
qed

lemma key_push_length:
  assumes "keys_encode C pks" "pk \<in> set (SortPublicKeys C pks)"
  shows "length (key_push C pk) = 34"
proof -
  have "pk \<in> set pks" using assms by (metis keys_encode_def set_mset_mset)
  then show ?thesis using assms(1) by (fastforce simp: keys_encode_def key_push_def)
qed

lemma redeem_script_keys:
  assumes "crypto_consts C" "keys_encode C pks" "2 \<le> length pks"
    "CreateWithdrawRedeemScript C M pks = Inr script"
  shows "getMultiSignPublicKeys C script = Inr (map (key_push C) (SortPublicKeys C pks))"
proof -
  let ?keys = "concat (map (key_push C) (SortPublicKeys C pks))"
  have s: "script = (PUSH1 C + of_int M - 1) # ?keys @ [PUSH1 C + of_nat (length pks) - 1, CROSSCHAIN C]"
    using redeem_script_layout [OF assms(2)] assms(4) by simp
  have all34: "\<forall>x \<in> set (map (key_push C) (SortPublicKeys C pks)). length x = 34"
    using key_push_length [OF assms(2)] by auto
  then have "chunks 34 ?keys = map (key_push C) (SortPublicKeys C pks)" by (intro chunks_concat) simp_all
  moreover have "length ?keys = 34 * length pks"
  proof -
    have "length (SortPublicKeys C pks) = length pks" using assms(2) by (metis keys_encode_def size_mset)
    moreover have "map length (map (key_push C) (SortPublicKeys C pks)) = replicate (length (SortPublicKeys C pks)) 34"
      using all34 by (intro nth_equalityI) auto
    ultimately show ?thesis by (simp only: length_concat sum_list_replicate of_nat_id mult.commute)
  qed
  ultimately show ?thesis using assms(1,3)
    by (simp add: getMultiSignPublicKeys_def crypto_consts_def s butlast_append Let_def)
qed

lemma find_index_Some: "find_index P xs = Some i \<Longrightarrow> i < length xs \<and> P (xs ! i)"
  by (induction xs arbitrary: i) (auto split: if_splits)

lemma find_index_None: "find_index P xs = None \<longleftrightarrow> (\<forall>x \<in> set xs. \<not> P x)"
  by (induction xs) auto

end
