(* ===== verification/Props_Base.thy ===== *)
theory Props_Base
  imports Wire_Instance Arb_Group Cs_Item
begin

text \<open>
  Properties of the records, the utilities, the arbiter group and the item format, each with a witness
  where it has hypotheses. The concrete values at the top are for the witnesses.
\<close>

section \<open>Concrete values\<close>

definition asset0 :: withdraw_asset where
  "asset0 = \<lparr>TargetAddress = ''addr'', Amount = 5, CrossChainAmount = 4, TargetData = [1, 2]\<rparr>"

definition wtx0 :: withdraw_tx where
  "wtx0 = \<lparr>Txid = Some (replicate 32 7), WithdrawInfo = Some \<lparr>WithdrawAssets = [asset0, asset0]\<rparr>\<rparr>"

lemma wtx0_fits: "withdraw_tx_fits wire0 wtx0"
  by (simp add: withdraw_tx_fits_def wtx0_def info_fits_def asset_fits_def asset0_def wire0_def MaxTargetDataSize_def)

text \<open>A key is a small number; its encoding is 33 bytes with the number at the end.\<close>

definition key_bytes :: "public_key \<Rightarrow> bytes" where
  "key_bytes pk = replicate 32 2 @ [of_int (fst pk)]"

definition crypto0 :: crypto where
  "crypto0 = \<lparr>Verify = (\<lambda>pk m s. s = replicate 64 (of_int (fst pk))),
     DecodePoint = (\<lambda>b. if length b = 33 then Some (uint (last b), 0) else None),
     EncodePoint = (\<lambda>pk. Some (key_bytes pk)),
     SortPublicKeys = (\<lambda>pks. pks),
     ParseCrossChainScript = (\<lambda>b. Some [b, b, b, b]),
     PublicKeyToStandardProgramHash = (\<lambda>b. Some (replicate 20 0 @ [last b])),
     ToCodeHash = tl,
     GetCorssChainSigners = (\<lambda>b. Some (map (\<lambda>i. replicate 19 0 @ [of_nat i]) [1..<4])),
     HexStringToBytes = (\<lambda>s. Some (replicate 32 2 @ map char_byte s)),
     BytesToHexString = (\<lambda>b. [byte_char (last b)]),
     SignatureScriptLength = 65, PublicKeyScriptLength = 35, MinMultiSignCodeLength = 71,
     PUSH1 = 0x51, CROSSCHAIN = 0xAF\<rparr>"

lemma crypto0_consts: "crypto_consts crypto0"
  by (simp add: crypto_consts_def crypto0_def)

lemma crypto0_encode: "keys_encode crypto0 pks"
  by (simp add: keys_encode_def crypto0_def key_bytes_def)

section \<open>Records\<close>

text \<open>C1: A withdraw transaction whose fields are within the reader's limits is serialised without an
  error, and deserialising what was written, with anything behind it, gives the transaction back and
  leaves exactly the rest.\<close>

theorem withdraw_tx_roundtrip:
  assumes "wire_ok W" "withdraw_tx_fits W t" "WithdrawTx_Serialize W t [] = (err, bs)"
  shows "err = None \<and> WithdrawTx_Deserialize W (fresh_withdraw_tx, bs @ rest) = (None, t, rest)"
  using withdraw_tx.roundtrip [of W t err bs rest] assms by simp

theorem withdraw_tx_roundtrip_witness:
  "\<exists>bs. WithdrawTx_Deserialize wire0 (fresh_withdraw_tx, bs @ [1, 2, 3]) = (None, wtx0, [1, 2, 3])"
  using withdraw_tx_roundtrip [OF wire0_ok wtx0_fits, of "fst (WithdrawTx_Serialize wire0 wtx0 [])"
      "snd (WithdrawTx_Serialize wire0 wtx0 [])" "[1, 2, 3]"] by auto

text \<open>The encodings of withdraw transactions are prefix-free: if one encoding starts another, the two
  transactions are equal and nothing follows.\<close>

lemma withdraw_tx_prefix_free:
  assumes "wire_ok W" "withdraw_tx_fits W t" "withdraw_tx_fits W u"
    and "WithdrawTx_Serialize W t [] = (None, bs)" "WithdrawTx_Serialize W u [] = (None, bs @ cs)"
  shows "t = u \<and> cs = []"
  using withdraw_tx.prefix_free [of W t u bs cs] assms by simp

lemma withdraw_tx_prefix_free_witness:
  "\<exists>bs. WithdrawTx_Serialize wire0 wtx0 [] = (None, bs) \<and>
     (\<forall>cs. WithdrawTx_Serialize wire0 wtx0 [] = (None, bs @ cs) \<longrightarrow> cs = [])"
proof -
  obtain bs where bs: "WithdrawTx_Serialize wire0 wtx0 [] = (None, bs)"
    using withdraw_tx.ser_total [of wire0 wtx0 "[]"] wire0_ok wtx0_fits by auto
  then show ?thesis using withdraw_tx_prefix_free [OF wire0_ok wtx0_fits wtx0_fits bs] by blast
qed

text \<open>C40: A withdraw whose target data is longer than \<open>MaxTargetDataSize\<close> is written without an error but
  cannot be read: the reader reports an error, and the transaction it has filled so far has no assets.\<close>

theorem long_target_data_unreadable:
  assumes W: "wire_ok W" "reader_limits W" and h: "length h = 32"
    and w: "length (TargetAddress w) \<le> MaxVarStringLength W"
      "MaxTargetDataSize < length (TargetData w)" "length (TargetData w) < 2 ^ 32"
  shows "\<exists>bs r. WithdrawTx_Serialize W \<lparr>Txid = Some h, WithdrawInfo = Some \<lparr>WithdrawAssets = [w]\<rparr>\<rparr> [] = (None, bs) \<and>
    WithdrawTx_Deserialize W (fresh_withdraw_tx, bs) =
      (Some (Err ''[Deserialize] read withdrawInfo failed''),
       \<lparr>Txid = Some h, WithdrawInfo = Some \<lparr>WithdrawAssets = []\<rparr>\<rparr>, r)"
proof -
  note ok = wire_okD [OF W(1)]
  obtain b1 where b1: "WriteUint256 W h = Some b1" "\<And>t. ReadUint256 W (b1 @ t) = (Inr h, t)"
    using prim_okD [OF ok(5), of h] h by auto
  obtain b2 where b2: "WriteVarUint W 1 = Some b2" "\<And>t. ReadVarUint W (b2 @ t) = (Inr 1, t)"
    using prim_okD [OF ok(1), of 1] by auto
  obtain b3 where b3: "WriteVarString W (TargetAddress w) = Some b3"
    "\<And>t. ReadVarString W (b3 @ t) = (Inr (TargetAddress w), t)" using prim_okD [OF ok(2)] w(1) by auto
  obtain b4 where b4: "WriteFixed64 W (Amount w) = Some b4" "\<And>t. ReadFixed64 W (b4 @ t) = (Inr (Amount w), t)"
    using prim_okD [OF ok(4), of "Amount w"] by auto
  obtain b5 where b5: "WriteFixed64 W (CrossChainAmount w) = Some b5"
    "\<And>t. ReadFixed64 W (b5 @ t) = (Inr (CrossChainAmount w), t)"
    using prim_okD [OF ok(4), of "CrossChainAmount w"] by auto
  obtain b6 r where b6: "WriteVarBytes W (TargetData w) = Some b6"
    "ReadVarBytes W MaxTargetDataSize (b6 @ []) = (Inl ErrOther, r)"
    using W(2) w(2,3) unfolding reader_limits_def by blast
  show ?thesis
    by (rule exI [where x = "b1 @ b2 @ b3 @ b4 @ b5 @ b6"], rule exI [where x = r])
      (use b6(2) in \<open>simp add: WithdrawTx_Serialize_def WithdrawTx_Deserialize_def WithdrawInfo_Serialize_def
        WithdrawInfo_Deserialize_def asset_writes_def asset_reads_def read_target_data_def go_simps
        b1 b2 b3 b4 b5 b6(1) fresh_withdraw_tx_def rget_def\<close>)
qed

theorem long_target_data_unreadable_witness:
  "\<exists>bs r. WithdrawTx_Serialize wire0 \<lparr>Txid = Some (replicate 32 0),
      WithdrawInfo = Some \<lparr>WithdrawAssets = [asset0\<lparr>TargetData := replicate 1025 0\<rparr>]\<rparr>\<rparr> [] = (None, bs) \<and>
    WithdrawTx_Deserialize wire0 (fresh_withdraw_tx, bs) =
      (Some (Err ''[Deserialize] read withdrawInfo failed''),
       \<lparr>Txid = Some (replicate 32 0), WithdrawInfo = Some \<lparr>WithdrawAssets = []\<rparr>\<rparr>, r)"
  by (rule long_target_data_unreadable [OF wire0_ok wire0_limits])
    (simp_all add: asset0_def wire0_def MaxTargetDataSize_def)

section \<open>Lists of transaction hashes\<close>

text \<open>\<open>GetHeightTransactionHashesMap\<close> puts every hash under its height, in order: the entry of a height
  is the list of the hashes at the positions with that height, and only occurring heights have entries.\<close>

lemma heights_map_groups:
  assumes "length heights \<le> length txs"
  shows "\<exists>m. GetHeightTransactionHashesMap txs heights = Done m \<and> dom m = set heights \<and>
    (\<forall>h \<in> set heights. m h = Some (map snd (filter (\<lambda>(h', _). h' = h) (zip heights txs))))"
proof -
  let ?m = "\<lambda>h. if h \<in> set heights then Some [] else None"
  obtain m' where "group_by_height ?m heights txs = Done m'"
    "\<forall>h. m' h = map_option (\<lambda>ts. ts @ map snd (filter (\<lambda>(h', _). h' = h) (zip heights txs))) (?m h)"
    using group_by_height_spec [OF assms, of ?m] by auto
  then show ?thesis by (auto simp: GetHeightTransactionHashesMap_def dom_def)
qed

lemma heights_map_groups_witness:
  "\<exists>m. GetHeightTransactionHashesMap [''a'', ''b'', ''c''] [7, 8, 7] = Done m \<and> m 7 = Some [''a'', ''c'']"
  using heights_map_groups [of "[7, 8, 7]" "[''a'', ''b'', ''c'']"] by auto

text \<open>\<open>SubstractTransactionHashesAndBlockHeights\<close> keeps exactly the hashes that are not in the second
  set, in order and each with its own height.\<close>

lemma substract_keeps_pairs:
  assumes "length hashes = length heights"
  shows "SubstractTransactionHashesAndBlockHeights hashes heights sub =
    Done (filter (\<lambda>h. h \<notin> set sub) hashes,
          map snd (filter (\<lambda>(h, _). h \<notin> set sub) (zip hashes heights)))"
proof -
  have "map fst (filter (\<lambda>(h, _). h \<notin> set sub) (zip hashes heights)) = filter (\<lambda>h. h \<notin> set sub) hashes"
    using assms by (induction hashes heights rule: list_induct2) auto
  then show ?thesis using SubstractHeights_zip [of hashes heights sub] assms by auto
qed

lemma substract_keeps_pairs_witness:
  "SubstractTransactionHashesAndBlockHeights [''a'', ''b'', ''c''] [1, 2, 3] [''b''] = Done ([''a'', ''c''], [1, 3])"
  using substract_keeps_pairs [of "[''a'', ''b'', ''c'']" "[1, 2, 3]" "[''b'']"] by simp

section \<open>Signatures and the redeem script\<close>

text \<open>Merging a signature into a program that holds k signatures of 65 bytes appends it and reports
  k + 1 signatures as long as k + 1 is below 64; from the 64th on the division by 64 reports too many.\<close>

lemma merge_sign_count:
  assumes "crypto_consts C" "Programs tx = p # ps" "Parameter p = Some param" "length param = 65 * k"
    and "length sign = 65" "MergeSignToTransaction C T sign i tx = Done (n, tx')"
  shows "Programs tx' = p\<lparr>Parameter := Some (param @ sign)\<rparr> # ps \<and>
    (k + 1 < 64 \<longrightarrow> n = k + 1) \<and> (64 \<le> k + 1 \<longrightarrow> k + 1 < n)"
proof -
  have "n = (65 * (k + 1)) div 64" "tx' = tx\<lparr>Programs := p\<lparr>Parameter := Some (param @ sign)\<rparr> # ps\<rparr>"
    using assms by (auto simp: MergeSignToTransaction_def crypto_consts_def Let_def split: option.splits outcome.splits)
  moreover have "(65 * (k + 1)) div 64 = k + 1 + (k + 1) div (64 :: nat)"
    using count_by_64 [of "k + 1"] by (simp add: mult.commute)
  ultimately show ?thesis by (simp add: div_greater_zero_iff)
qed

definition prog0 :: program where "prog0 = \<lparr>Code = [1], Parameter = Some (replicate 65 0)\<rparr>"

definition tx0 :: transaction where
  "tx0 = \<lparr>TxType = TxWithdrawFromSideChain, PayloadVersion = 0, Payload = OtherPayload, Inputs = [],
     Outputs = [], Programs = [prog0]\<rparr>"

text \<open>A library of transactions that knows the one transaction \<open>tx0\<close>, for the witnesses.\<close>

definition ops0 :: tx_ops where
  "ops0 = \<lparr>TxHash = (\<lambda>_. replicate 32 1), TxSerialize = (\<lambda>_. (None, [9])), TxSerializeUnsigned = (\<lambda>_. (None, [9])),
     GetTransactionByBytes = (\<lambda>b. case b of [] \<Rightarrow> (Inl ErrOther, []) | c # r \<Rightarrow> if c = 9 then (Inr tx0, r) else (Inl ErrOther, r)),
     TxDeserialize = (\<lambda>t r. (Inr t, r)), TxDeserializeUnsigned = (\<lambda>t r. (Inr t, r)), TxGetSize = (\<lambda>_. 1)\<rparr>"

lemma check_one:
  assumes "crypto_consts C" "length param = 65" "DecodePoint C (tl (pks ! i)) = Some pk" "i < length pks" "pks ! i \<noteq> []"
    and "\<not> Verify C pk msg (tl param)"
  shows "check_not_signed C msg pks i param = Done ()"
proof -
  have nil: "check_not_signed C msg pks i [] = Done ()" by (subst check_not_signed.simps) simp
  have "param \<noteq> []" using assms(2) by auto
  with assms nil show ?thesis by (subst check_not_signed.simps) (simp add: crypto_consts_def)
qed

definition crypto1 :: crypto where
  "crypto1 = crypto0\<lparr>ParseCrossChainScript := (\<lambda>_. Some [33 # key_bytes (1, 0), 33 # key_bytes (2, 0)])\<rparr>"

lemma merge0:
  "MergeSignToTransaction crypto1 ops0 (replicate 65 1) 0 tx0 =
     Done (2, tx0\<lparr>Programs := [prog0\<lparr>Parameter := Some (replicate 65 0 @ replicate 65 1)\<rparr>]\<rparr>)"
proof -
  have "check_not_signed crypto1 [9] [33 # key_bytes (1, 0), 33 # key_bytes (2, 0)] 0 (replicate 65 0) = Done ()"
    by (rule check_one [where pk = "(1, 0)"])
      (simp_all add: crypto1_def crypto0_def key_bytes_def crypto_consts_def replicate_eq_replicate)
  then show ?thesis
    by (simp add: MergeSignToTransaction_def tx0_def prog0_def ops0_def Let_def)
      (simp add: crypto1_def crypto0_def)
qed

lemma merge_sign_count_witness:
  "\<exists>tx'. MergeSignToTransaction crypto1 ops0 (replicate 65 1) 0 tx0 = Done (2, tx') \<and>
     Parameter (hd (Programs tx')) = Some (replicate 65 0 @ replicate 65 1)"
proof -
  have "crypto_consts crypto1" by (simp add: crypto1_def crypto0_def crypto_consts_def)
  from merge_sign_count [OF this _ _ _ _ merge0, of prog0 "[]" "replicate 65 0" 1] merge0 show ?thesis
    by (simp add: tx0_def prog0_def)
qed

text \<open>The keys are read back from the redeem script the arbiters build: with at least two keys, the
  script parses into the sorted keys (each with its length byte), the keys of the arbiters that have
  a non-empty entry, and its first byte asks for the quorum of all entries.\<close>

lemma redeem_script_of_group:
  assumes "crypto_consts C" "\<And>pks. keys_encode C pks"
    and "CreateRedeemScript C cfg g = Inr script"
    and "2 \<le> length (filter (\<lambda>a. a \<noteq> []) (arbitrators g))"
  shows "\<exists>pks. map Some pks = map (PublicKeyFromString C) (filter (\<lambda>a. a \<noteq> []) (arbitrators g)) \<and>
    getMultiSignPublicKeys C script = Inr (map (key_push C) (SortPublicKeys C pks)) \<and>
    hd script = PUSH1 C +
      of_nat (getTransactionAgreementArbitratorsCount cfg (currentHeight g) (length (arbitrators g))) - 1"
proof -
  obtain pks where pks: "script_keys C (arbitrators g) = Inr pks"
    "CreateWithdrawRedeemScript C
      (int (getTransactionAgreementArbitratorsCount cfg (currentHeight g) (length (arbitrators g)))) pks = Inr script"
    using assms(3) by (auto simp: CreateRedeemScript_def split: sum.splits)
  note keys = script_keys_spec [OF pks(1)]
  then have "2 \<le> length pks" using assms(4) by (metis length_map)
  from redeem_script_keys [OF assms(1,2) this pks(2)] keys redeem_script_layout [OF assms(2)] pks(2)
  show ?thesis by auto
qed

definition group0 :: arb_group where
  "group0 = \<lparr>onDutyArbitratorIndex = 1, arbitrators = [''1'', ''2'', ''3''], currentHeight = 5, lastSyncTime = 0,
     timeoutLimit = 1000, group_listener = Some \<lparr>listenerPublicKey = (50, 0), isArbitratorImpl = True\<rparr>,
     isListenerOnDuty = False, duty_calls = []\<rparr>"

definition config0 :: config where
  "config0 = \<lparr>CRClaimDPOSNodeStartHeight = 100, DPOSNodeCrossChainHeight = 200, SchnorrStartHeight = 300,
     NewCrossChainTransactionHeight = 0, NFTStartHeight = 0\<rparr>"

lemma key0: "\<not> is_space c \<Longrightarrow> PublicKeyFromString crypto0 [c] = Some (uint (char_byte c), 0)"
  by (simp add: PublicKeyFromString_def TrimSpace_def crypto0_def)

lemma no_space: "\<not> is_space CHR ''1''" "\<not> is_space CHR ''2''" "\<not> is_space CHR ''3''"
  by (simp_all add: is_space_def)

lemma redeem_script_of_group_witness:
  "\<exists>script. CreateRedeemScript crypto0 config0 group0 = Inr script \<and> hd script = 0x51 + 3 - 1"
proof -
  obtain script where s: "CreateRedeemScript crypto0 config0 group0 = Inr script"
    using redeem_script_layout [OF crypto0_encode]
    by (simp add: CreateRedeemScript_def group0_def key0 no_space)
  from redeem_script_of_group [OF crypto0_consts crypto0_encode s] s show ?thesis
    by (auto simp: group0_def config0_def crypto0_def getTransactionAgreementArbitratorsCount_def)
qed

section \<open>Quorum and duty\<close>

text \<open>Outside the interval of heights with the smaller quorum, any two sets of arbiters that each reach
  the quorum share more than a third of all arbiters.\<close>

lemma quorums_intersect:
  assumes "full_quorum cfg height" "finite U" "A \<subseteq> U" "B \<subseteq> U"
    and "getTransactionAgreementArbitratorsCount cfg height (card U) \<le> card A"
    and "getTransactionAgreementArbitratorsCount cfg height (card U) \<le> card B"
  shows "card U < 3 * card (A \<inter> B)"
proof -
  have fin: "finite A" "finite B" using assms(2-4) finite_subset by blast+
  have "card A + card B = card (A \<union> B) + card (A \<inter> B)" by (rule card_Un_Int [OF fin])
  moreover have "card (A \<union> B) \<le> card U" using assms(2-4) by (intro card_mono) auto
  moreover have "card U * 2 div 3 + 1 \<le> card A" "card U * 2 div 3 + 1 \<le> card B"
    using assms(5,6) quorum_full [OF assms(1)] by simp_all
  ultimately show ?thesis by linarith
qed

lemma quorums_intersect_witness:
  "card {1 :: nat, 2, 3, 4} < 3 * card ({1 :: nat, 2, 3} \<inter> {2, 3, 4})"
  by (rule quorums_intersect [of config0 5]) (simp_all add: full_quorum_def config0_def getTransactionAgreementArbitratorsCount_def)

text \<open>Inside that interval the guarantee is lost: with three arbiters the quorum is two, and two quorums
  may share a single arbiter, which is not more than a third; with one arbiter it is zero.\<close>

lemma small_quorum_weaker:
  assumes "CRClaimDPOSNodeStartHeight cfg < height" "height < DPOSNodeCrossChainHeight cfg"
  shows "getTransactionAgreementArbitratorsCount cfg height 3 \<le> card {1 :: nat, 2} \<and>
    getTransactionAgreementArbitratorsCount cfg height 3 \<le> card {2 :: nat, 3} \<and>
    \<not> 3 < 3 * card ({1 :: nat, 2} \<inter> {2, 3}) \<and>
    getTransactionAgreementArbitratorsCount cfg height 1 = 0"
  using assms by (auto simp: getTransactionAgreementArbitratorsCount_def)

lemma small_quorum_weaker_witness: "getTransactionAgreementArbitratorsCount config0 150 1 = 0"
  using small_quorum_weaker [of config0 150] by (simp add: config0_def)

text \<open>The refresh from the main chain node is never held back by its one second limit: the difference of
  the clock in nanoseconds is multiplied by 10^6 instead of divided, so that any positive difference
  of less than five hours is already over the limit.\<close>

lemma sync_limit_never_holds:
  assumes "timeoutLimit g = 1000" "0 < unat (now - lastSyncTime g)" "unat (now - lastSyncTime g) \<le> 18000000000000"
  shows "\<not> too_early now g"
proof -
  obtain d where d: "d = now - lastSyncTime g" by simp
  have "unat (d * 1000000) = unat d * 1000000"
    using assms(3) by (simp add: unat_word_ariths d [symmetric])
  moreover have "1000000 \<le> unat d * 1000000" using assms(2) by (simp add: d [symmetric])
  ultimately show ?thesis using assms(1) by (simp add: too_early_def word_less_nat_alt d [symmetric])
qed

lemma sync_limit_never_holds_witness: "\<not> too_early 1 group0"
  by (rule sync_limit_never_holds) (simp_all add: group0_def)

text \<open>After \<open>CheckOnDutyStatus\<close> the listener is marked on duty exactly when its key is the key of the
  arbiter on duty, and it has been told of every change with its new status.\<close>

lemma duty_follows_group:
  assumes "group_listener g = Some l" "isArbitratorImpl l" "GetOnDutyArbitratorOfMain g = Done a"
    and "PublicKeyFromString C a = Some pk" "CheckOnDutyStatus C cfg height g = (r, g')"
  shows "r = Done () \<and> (isListenerOnDuty g' \<longleftrightarrow> listenerPublicKey l = pk) \<and>
    (isListenerOnDuty g' \<noteq> isListenerOnDuty g \<longrightarrow> duty_calls g' = isListenerOnDuty g' # duty_calls g)"
  using assms by (auto simp: CheckOnDutyStatus_def duty_change_def split: if_splits)

lemma duty_follows_group_witness:
  "isListenerOnDuty (snd (CheckOnDutyStatus crypto0 config0 5 group0))"
proof -
  have key: "PublicKeyFromString crypto0 ''2'' = Some (50, 0)"
    using key0 [OF no_space(2)] by (simp add: char_byte_def)
  have "GetOnDutyArbitratorOfMain group0 = Done ''2''" by (simp add: GetOnDutyArbitratorOfMain_def group0_def)
  from duty_follows_group [OF _ _ this key, of "\<lparr>listenerPublicKey = (50, 0), isArbitratorImpl = True\<rparr>" config0 5
      "fst (CheckOnDutyStatus crypto0 config0 5 group0)" "snd (CheckOnDutyStatus crypto0 config0 5 group0)"]
  show ?thesis by (simp add: group0_def)
qed

end
