(* ===== verification/Sql_Table.thy ===== *)
theory Sql_Table
  imports Prelude_Go
begin

text \<open>
  The tables of the embedded database, as far as the SQL statements of \<open>store/*.go\<close> use them.
  A table is the list of its rows. A \<open>UNIQUE\<close> column makes an \<open>INSERT\<close> of a present key fail and
  leaves the table alone; inside a transaction a failed statement does not undo the others. What
  the driver may do on its own is the argument \<open>db_io\<close>: whether \<open>Begin\<close>, \<open>Prepare\<close>, each \<open>Exec\<close>, a
  query, a \<open>Scan\<close> and the deferred \<open>Commit\<close> succeed, and in which order a \<open>SELECT\<close> without
  \<open>ORDER BY\<close> delivers its rows (SQL leaves it open).
\<close>

section \<open>What the driver decides\<close>

record db_io =
  begin_ok :: bool
  prepare_ok :: bool
  exec_ok :: "nat \<Rightarrow> bool"
  commit_ok :: bool
  query_ok :: bool
  scan_ok :: bool
  scan_order :: "nat \<Rightarrow> nat list"
  other_sql :: "string \<Rightarrow> bytes list option"  \<comment> \<open>what any statement text outside this model yields\<close>

definition order_law :: "db_io \<Rightarrow> bool" where
  "order_law io \<longleftrightarrow> (\<forall>n. mset (scan_order io n) = mset [0..<n])"

definition good_io :: "db_io \<Rightarrow> bool" where
  "good_io io \<longleftrightarrow> begin_ok io \<and> prepare_ok io \<and> (\<forall>i. exec_ok io i) \<and> commit_ok io \<and>
     query_ok io \<and> scan_ok io \<and> order_law io"

lemma good_ioD:
  assumes "good_io io"
  shows "begin_ok io" "prepare_ok io" "exec_ok io i" "exec_ok io = (\<lambda>_. True)" "commit_ok io"
    "query_ok io" "scan_ok io" "order_law io"
  using assms by (auto simp: good_io_def)

text \<open>A driver without faults that scans in row order.\<close>

definition plain_io :: db_io where
  "plain_io = \<lparr>begin_ok = True, prepare_ok = True, exec_ok = (\<lambda>_. True), commit_ok = True,
     query_ok = True, scan_ok = True, scan_order = (\<lambda>n. [0..<n]), other_sql = (\<lambda>_. None)\<rparr>"

lemma good_plain_io [simp]: "good_io plain_io"
  by (simp add: good_io_def plain_io_def order_law_def)

section \<open>Rows\<close>

definition arrange :: "db_io \<Rightarrow> 'r list \<Rightarrow> 'r list" where
  "arrange io rs = map (\<lambda>i. rs ! i) (scan_order io (length rs))"

lemma mset_arrange [table_simps]:
  assumes "order_law io"
  shows "mset (arrange io rs) = mset rs"
proof -
  have "mset (arrange io rs) = image_mset (\<lambda>i. rs ! i) (mset [0..<length rs])"
    using assms by (simp only: arrange_def order_law_def mset_map)
  also have "\<dots> = mset (map (\<lambda>i. rs ! i) [0..<length rs])" by (simp only: mset_map)
  finally show ?thesis by (simp add: map_nth)
qed

lemma set_arrange [table_simps]: "order_law io \<Longrightarrow> set (arrange io rs) = set rs"
  using mset_arrange by (metis set_mset_mset)

lemma length_arrange [table_simps]: "order_law io \<Longrightarrow> length (arrange io rs) = length rs"
  using mset_arrange by (metis size_mset)

lemma arrange_plain [simp]: "arrange plain_io rs = rs"
  by (simp add: arrange_def plain_io_def map_nth)

lemma arrange_Nil [simp]: "order_law io \<Longrightarrow> arrange io [] = []"
  using length_arrange [of io "[]"] by simp

definition insert_row :: "('r \<Rightarrow> 'k) \<Rightarrow> bool \<Rightarrow> 'r \<Rightarrow> 'r list \<Rightarrow> bool \<times> 'r list" where
  "insert_row key ok r t = (if ok \<and> key r \<notin> key ` set t then (True, t @ [r]) else (False, t))"

text \<open>The insert loops go on after a failed row; the flags say which rows were stored.\<close>

fun insert_rows :: "('r \<Rightarrow> 'k) \<Rightarrow> (nat \<Rightarrow> bool) \<Rightarrow> nat \<Rightarrow> 'r list \<Rightarrow> 'r list \<Rightarrow> bool list \<times> 'r list" where
  "insert_rows key ok i [] t = ([], t)"
| "insert_rows key ok i (r # rs) t =
     (let (b, t1) = insert_row key (ok i) r t; (bs, t2) = insert_rows key ok (Suc i) rs t1
      in (b # bs, t2))"

fun delete_rows :: "('r \<Rightarrow> 'k) \<Rightarrow> (nat \<Rightarrow> bool) \<Rightarrow> nat \<Rightarrow> 'k list \<Rightarrow> 'r list \<Rightarrow> 'r list" where
  "delete_rows key ok i [] t = t"
| "delete_rows key ok i (k # ks) t =
     delete_rows key ok (Suc i) ks (if ok i then filter (\<lambda>r. key r \<noteq> k) t else t)"

text \<open>
  \<open>tx, err := store.Begin(); defer tx.Commit(); stmt, err := tx.Prepare(..)\<close> around a body. The
  result of the deferred \<open>Commit\<close> is dropped: when it fails the changes are lost and the call still
  returns what the body returned.
\<close>

definition with_tx :: "db_io \<Rightarrow> ('t \<Rightarrow> 'a \<times> 't) \<Rightarrow> 't \<Rightarrow> (go_error + 'a) \<times> 't" where
  "with_tx io body t =
     (if \<not> begin_ok io then (Inl DbErr, t)
      else if \<not> prepare_ok io then (Inl DbErr, t)
      else let (a, t') = body t in (Inr a, if commit_ok io then t' else t))"

text \<open>\<open>stmt, err := store.Prepare(..); _, err = stmt.Exec(..)\<close> for one row.\<close>

definition insert_stmt :: "db_io \<Rightarrow> ('r \<Rightarrow> 'k) \<Rightarrow> 'r \<Rightarrow> 'r list \<Rightarrow> go_error option \<times> 'r list" where
  "insert_stmt io key r t =
     (if \<not> prepare_ok io then (Some DbErr, t)
      else case insert_row key (exec_ok io 0) r t of
             (True, t') \<Rightarrow> (None, t') | (False, t') \<Rightarrow> (Some DbErr, t'))"

definition delete_stmt :: "db_io \<Rightarrow> ('r \<Rightarrow> 'k) \<Rightarrow> 'k \<Rightarrow> 'r list \<Rightarrow> go_error option \<times> 'r list" where
  "delete_stmt io key k t =
     (if \<not> prepare_ok io then (Some DbErr, t)
      else if \<not> exec_ok io 0 then (Some DbErr, t)
      else (None, filter (\<lambda>r. key r \<noteq> k) t))"

definition select :: "db_io \<Rightarrow> ('r \<Rightarrow> bool) \<Rightarrow> 'r list \<Rightarrow> go_error + 'r list" where
  "select io P t =
     (if \<not> query_ok io then Inl DbErr
      else let rs = arrange io (filter P t)
           in if rs \<noteq> [] \<and> \<not> scan_ok io then Inl DbErr else Inr rs)"

text \<open>\<open>rows, err := store.Query(..); return rows.Next(), nil\<close>: no \<open>Scan\<close>.\<close>

definition select_any :: "db_io \<Rightarrow> ('r \<Rightarrow> bool) \<Rightarrow> 'r list \<Rightarrow> go_error + bool" where
  "select_any io P t = (if \<not> query_ok io then Inl DbErr else Inr (filter P t \<noteq> []))"

section \<open>Facts about the loops\<close>

lemma snd_insert_rows [simp]:
  "snd (insert_rows key ok i (r # rs) t) =
     snd (insert_rows key ok (Suc i) rs (snd (insert_row key (ok i) r t)))"
  by (simp add: Let_def case_prod_beta)

lemma fst_insert_rows [simp]:
  "fst (insert_rows key ok i (r # rs) t) =
     fst (insert_row key (ok i) r t) #
     fst (insert_rows key ok (Suc i) rs (snd (insert_row key (ok i) r t)))"
  by (simp add: Let_def case_prod_beta)

declare insert_rows.simps(2) [simp del]

lemma insert_row_keys: "key ` set (snd (insert_row key True r t)) = insert (key r) (key ` set t)"
  by (auto simp: insert_row_def)

lemma find_append: "find P (xs @ ys) = (case find P xs of Some x \<Rightarrow> Some x | None \<Rightarrow> find P ys)"
  by (induction xs) auto

lemma insert_rows_keys [table_simps]:
  "key ` set (snd (insert_rows key (\<lambda>_. True) i rs t)) = key ` set t \<union> key ` set rs"
  by (induction rs arbitrary: i t) (simp_all add: insert_row_keys)

lemma insert_rows_distinct:
  "distinct (map key t) \<Longrightarrow> distinct (map key (snd (insert_rows key ok i rs t)))"
proof (induction rs arbitrary: i t)
  case (Cons r rs)
  have "distinct (map key (snd (insert_row key (ok i) r t)))"
    using Cons.prems by (simp add: insert_row_def)
  then show ?case using Cons.IH by simp
qed simp

lemma insert_rows_length: "length (fst (insert_rows key ok i rs t)) = length rs"
  by (induction rs arbitrary: i t) simp_all

lemma insert_rows_prefix: "\<exists>new. snd (insert_rows key ok i rs t) = t @ new \<and> set new \<subseteq> set rs"
proof (induction rs arbitrary: i t)
  case (Cons r rs)
  obtain new where "snd (insert_rows key ok (Suc i) rs (snd (insert_row key (ok i) r t))) =
      snd (insert_row key (ok i) r t) @ new" "set new \<subseteq> set rs"
    using Cons.IH by blast
  then show ?case by (auto simp: insert_row_def split: if_splits)
qed simp

lemma delete_rows_filter:
  "delete_rows key (\<lambda>_. True) i ks t = filter (\<lambda>r. key r \<notin> set ks) t"
  by (induction ks arbitrary: i t) (auto intro: filter_cong)

lemma delete_rows_distinct:
  "distinct (map key t) \<Longrightarrow> distinct (map key (delete_rows key ok i ks t))"
  by (induction ks arbitrary: i t) (auto intro: distinct_map_filter)

lemma delete_rows_subset: "set (delete_rows key ok i ks t) \<subseteq> set t"
proof (induction ks arbitrary: i t)
  case (Cons k ks)
  have "set (if ok i then filter (\<lambda>r. key r \<noteq> k) t else t) \<subseteq> set t" by auto
  with Cons.IH show ?case by (simp only: delete_rows.simps) (blast dest: subset_trans)
qed simp

text \<open>Looking a key up: the first row that has it (the only one in a table with a unique key).\<close>

definition row_of :: "('r \<Rightarrow> 'k) \<Rightarrow> 'r list \<Rightarrow> 'k \<Rightarrow> 'r option" where
  "row_of key t k = find (\<lambda>r. key r = k) t"

lemma row_of_None: "row_of key t k = None \<longleftrightarrow> k \<notin> key ` set t"
  by (auto simp: row_of_def find_None_iff)

lemma row_of_insert_row:
  "row_of key (snd (insert_row key True r t)) k =
     (case row_of key t k of Some r' \<Rightarrow> Some r' | None \<Rightarrow> if key r = k then Some r else None)"
proof (cases "row_of key t k")
  case None
  then have "k \<notin> key ` set t" by (simp add: row_of_None)
  with None show ?thesis by (auto simp: insert_row_def row_of_def find_append)
next
  case (Some r')
  then show ?thesis by (simp add: insert_row_def row_of_def find_append)
qed

lemma row_of_insert_rows:
  "row_of key (snd (insert_rows key (\<lambda>_. True) i rs t)) k =
     (case row_of key t k of Some r \<Rightarrow> Some r | None \<Rightarrow> row_of key rs k)"
proof (induction rs arbitrary: i t)
  case Nil
  show ?case by (auto simp: row_of_def split: option.splits)
next
  case (Cons r rs)
  show ?case
    by (simp add: Cons.IH row_of_insert_row) (simp add: row_of_def split: option.splits)
qed

lemma row_of_delete_rows:
  "row_of key (delete_rows key (\<lambda>_. True) i ks t) k = (if k \<in> set ks then None else row_of key t k)"
  unfolding delete_rows_filter row_of_def by (induction t) auto

lemma with_tx_good [table_simps]: "good_io io \<Longrightarrow> with_tx io body t = (Inr (fst (body t)), snd (body t))"
  by (simp add: with_tx_def good_ioD case_prod_beta Let_def)

lemma with_tx_inv: "P t \<Longrightarrow> P (snd (body t)) \<Longrightarrow> P (snd (with_tx io body t))"
  by (simp add: with_tx_def case_prod_beta Let_def)

lemma insert_stmt_distinct: "distinct (map key t) \<Longrightarrow> distinct (map key (snd (insert_stmt io key r t)))"
  by (auto simp: insert_stmt_def insert_row_def)

lemma delete_stmt_distinct: "distinct (map key t) \<Longrightarrow> distinct (map key (snd (delete_stmt io key k t)))"
  by (auto simp: delete_stmt_def intro: distinct_map_filter)

section \<open>The contract of a keyed store\<close>

text \<open>
  What the callers of the stores rely on: rows are found by key, an \<open>add\<close> makes a row of each
  argument and never replaces one (the first write wins), a \<open>remove\<close> takes exactly the given keys
  out. The store of finished transactions has no \<open>remove\<close>.
\<close>

locale insert_store =
  fixes add :: "'a list \<Rightarrow> 's \<Rightarrow> 's"
    and lookup :: "'s \<Rightarrow> 'k \<Rightarrow> 'r option"
    and row :: "'s \<Rightarrow> 'a \<Rightarrow> 'r"
    and rowkey :: "'r \<Rightarrow> 'k"
    and argkey :: "'a \<Rightarrow> 'k"
    and inv :: "'s \<Rightarrow> bool"
  assumes inv_add: "inv s \<Longrightarrow> inv (add rs s)"
    and row_key: "rowkey (row s a) = argkey a"
    and lookup_add: "inv s \<Longrightarrow> lookup (add rs s) k =
          (case lookup s k of Some r \<Rightarrow> Some r | None \<Rightarrow> row_of rowkey (map (row s) rs) k)"
begin

lemma new_row_None: "row_of rowkey (map (row s) rs) k = None \<longleftrightarrow> k \<notin> argkey ` set rs"
  by (auto simp: row_of_None row_key image_image)

lemma add_keys: "inv s \<Longrightarrow> dom (lookup (add rs s)) = dom (lookup s) \<union> argkey ` set rs"
  using new_row_None
  by (intro set_eqI) (auto simp only: domIff lookup_add Un_iff option.case split: option.split)

lemma first_write_wins: "inv s \<Longrightarrow> lookup s k = Some r \<Longrightarrow> lookup (add rs s) k = Some r"
  by (simp add: lookup_add)

lemma add_idem: "inv s \<Longrightarrow> lookup (add rs (add rs s)) = lookup (add rs s)"
proof (rule ext)
  fix k
  assume inv: "inv s"
  show "lookup (add rs (add rs s)) k = lookup (add rs s) k"
  proof (cases "lookup (add rs s) k")
    case None
    then have "k \<notin> argkey ` set rs" using add_keys [OF inv] by (metis UnI2 domIff)
    then show ?thesis using None new_row_None by (simp add: lookup_add inv_add inv)
  next
    case (Some r)
    then show ?thesis by (simp add: first_write_wins inv_add inv)
  qed
qed

end

locale keyed_store = insert_store add lookup row rowkey argkey inv
  for add :: "'a list \<Rightarrow> 's \<Rightarrow> 's" and lookup :: "'s \<Rightarrow> 'k \<Rightarrow> 'r option" and row rowkey argkey inv +
  fixes remove :: "'k list \<Rightarrow> 's \<Rightarrow> 's"
  assumes inv_remove: "inv s \<Longrightarrow> inv (remove ks s)"
    and lookup_remove: "inv s \<Longrightarrow> lookup (remove ks s) k = (if k \<in> set ks then None else lookup s k)"
begin

lemma remove_keys: "inv s \<Longrightarrow> dom (lookup (remove ks s)) = dom (lookup s) - set ks"
  by (auto simp: lookup_remove dom_def split: if_splits)

lemma remove_idem: "inv s \<Longrightarrow> lookup (remove ks (remove ks s)) = lookup (remove ks s)"
  by (auto simp: lookup_remove inv_remove fun_eq_iff)

lemma add_then_remove:
  assumes inv: "inv s" and ks: "set ks \<inter> dom (lookup s) = {}" "argkey ` set rs = set ks"
  shows "lookup (remove ks (add rs s)) = lookup s"
proof (rule ext)
  fix k
  show "lookup (remove ks (add rs s)) k = lookup s k"
  proof (cases "k \<in> set ks")
    case True
    then have "lookup s k = None" using ks(1) by (metis disjoint_iff domIff)
    then show ?thesis using inv True by (simp add: lookup_remove inv_add)
  next
    case False
    then have "row_of rowkey (map (row s) rs) k = None" by (simp add: new_row_None ks(2))
    then show ?thesis using inv False
      by (simp add: lookup_remove lookup_add inv_add split: option.split)
  qed
qed

end

section \<open>Moving keys from one store to another\<close>

text \<open>
  The arbiter takes a processed transaction out of its cache and records it as finished. The
  locale joins two keyed stores over the same keys.
\<close>

locale transfer =
  pending: keyed_store add1 lookup1 row1 rowkey1 argkey1 inv1 remove1 +
  finished: insert_store add2 lookup2 row2 rowkey2 argkey2 inv2
  for add1 :: "'a list \<Rightarrow> 's \<Rightarrow> 's" and lookup1 row1 rowkey1 argkey1 inv1
      and remove1 :: "'k list \<Rightarrow> 's \<Rightarrow> 's"
    and add2 :: "'b list \<Rightarrow> 't \<Rightarrow> 't" and lookup2 :: "'t \<Rightarrow> 'k \<Rightarrow> 'q option"
      and row2 rowkey2 argkey2 inv2
begin

lemma transfer_keys:
  assumes "inv1 s" "inv2 t" "argkey2 ` set rs = set ks"
  shows "dom (lookup1 (remove1 ks s)) = dom (lookup1 s) - set ks"
    and "dom (lookup2 (add2 rs t)) = dom (lookup2 t) \<union> set ks"
  using assms pending.remove_keys finished.add_keys by auto

text \<open>Nothing is lost: a key that was cached or finished before is cached or finished after.\<close>

lemma transfer_no_loss:
  assumes "inv1 s" "inv2 t" "argkey2 ` set rs = set ks"
  shows "dom (lookup1 (remove1 ks s)) \<union> dom (lookup2 (add2 rs t)) =
         dom (lookup1 s) \<union> dom (lookup2 t) \<union> set ks"
  using transfer_keys [OF assms] by auto

text \<open>If no key was in both stores, none is afterwards.\<close>

lemma transfer_exclusive:
  assumes "inv1 s" "inv2 t" "argkey2 ` set rs = set ks"
    and "dom (lookup1 s) \<inter> dom (lookup2 t) = {}"
  shows "dom (lookup1 (remove1 ks s)) \<inter> dom (lookup2 (add2 rs t)) = {}"
  using transfer_keys [OF assms(1-3)] assms(4) by auto

end

end
