(* ===== verification/Store_Common.thy ===== *)
theory Store_Common
  imports Sql_Table Tx_Info
begin

text \<open>
  What the three data stores of \<open>store/datastore.go\<close> share: the height cell with its query and reset
  codes, and the \<open>IN (..)\<close> queries, whose text the code builds by hand. The text is modelled as it is
  built, and a small parser says what it means to the database.
\<close>

section \<open>The height cell\<close>

definition QueryHeightCode :: u32 where "QueryHeightCode = 0"
definition ResetHeightCode :: u32 where "ResetHeightCode = - 1"   \<comment> \<open>\<open>math.MaxUint32\<close>\<close>

text \<open>
  \<open>SELECT Value .. WHERE Name='Height'\<close> (an error leaves the variable at 0), then an \<open>UPDATE\<close> when the
  argument is larger. The update of a missing row changes nothing.
\<close>

definition height_op :: "db_io \<Rightarrow> u32 \<Rightarrow> u32 option \<Rightarrow> u32 \<times> u32 option" where
  "height_op io height cell =
     (let storedHeight = (if query_ok io then (case cell of Some v \<Rightarrow> v | None \<Rightarrow> 0) else 0)
      in if storedHeight < height then
           (let height' = (if height = ResetHeightCode then 0 else height)
            in if \<not> prepare_ok io then (0, cell)
               else if \<not> exec_ok io 0 then (0, cell)
               else (height', map_option (\<lambda>_. height') cell))
         else (storedHeight, cell))"

lemma height_op_query: "snd (height_op io QueryHeightCode cell) = cell"
  by (simp add: height_op_def QueryHeightCode_def Let_def)

lemma height_op_result:
  assumes "good_io io"
  shows "height_op io height (Some v) =
     (if height = ResetHeightCode \<and> v \<noteq> ResetHeightCode then (0, Some 0) else (max v height, Some (max v height)))"
proof -
  have "v < ResetHeightCode \<longleftrightarrow> v \<noteq> ResetHeightCode"
    using word_order.extremum_strict [of v] word_order.not_eq_extremum [of v] by (simp add: ResetHeightCode_def)
  then show ?thesis
    using good_ioD [OF assms] by (auto simp: height_op_def Let_def max_def not_less)
qed

section \<open>The text of an IN query\<close>

abbreviation (input) quote_char :: char where "quote_char \<equiv> CHR 0x27"

definition quoted :: "string \<Rightarrow> string" where
  "quoted h = [quote_char] @ h @ [quote_char]"

text \<open>The loop over the hashes: every element quoted, the last one closed with a bracket.\<close>

fun in_list :: "string list \<Rightarrow> string" where
  "in_list [] = ''''"
| "in_list [h] = quoted h @ '')''"
| "in_list (h # h' # hs) = quoted h @ '','' @ in_list (h' # hs)"

text \<open>How SQL reads it: a doubled quote is a quote, a single one ends the literal.\<close>

fun parse_literal :: "string \<Rightarrow> string \<Rightarrow> (string \<times> string) option" where
  "parse_literal acc [] = None"
| "parse_literal acc [c] = (if c = quote_char then Some (acc, []) else None)"
| "parse_literal acc (c # d # ds) =
     (if c = quote_char
      then (if d = quote_char then parse_literal (acc @ [c]) ds else Some (acc, d # ds))
      else parse_literal (acc @ [c]) (d # ds))"

lemma parse_literal_shrinks: "parse_literal acc s = Some (l, r) \<Longrightarrow> length r < length s"
  by (induction acc s rule: parse_literal.induct) (auto split: if_splits)

fun parse_list :: "nat \<Rightarrow> string \<Rightarrow> (string list \<times> string) option" where
  "parse_list 0 s = None"
| "parse_list (Suc fuel) s =
     (case s of
        [] \<Rightarrow> None
      | c # s1 \<Rightarrow>
          if c \<noteq> quote_char then None
          else (case parse_literal [] s1 of
                  None \<Rightarrow> None
                | Some (l, r) \<Rightarrow>
                    (case r of
                       [] \<Rightarrow> None
                     | d # r1 \<Rightarrow>
                         if d = CHR '')'' then Some ([l], r1)
                         else if d = CHR '','' then
                           map_option (\<lambda>(ls, t). (l # ls, t)) (parse_list fuel r1)
                         else None)))"

text \<open>The rest of a text is shorter, so the length of the text is enough fuel.\<close>

definition parse_in :: "string \<Rightarrow> (string list \<times> string) option" where
  "parse_in s = parse_list (length s) s"

definition no_quote :: "string \<Rightarrow> bool" where
  "no_quote h \<longleftrightarrow> quote_char \<notin> set h"

lemma parse_literal_plain:
  "no_quote h \<Longrightarrow> c \<noteq> quote_char \<Longrightarrow> parse_literal acc (h @ quote_char # c # r) = Some (acc @ h, c # r)"
proof (induction h arbitrary: acc)
  case (Cons a h)
  then show ?case by (cases h) (auto simp: no_quote_def)
qed (simp add: no_quote_def)

lemma parse_list_in_list:
  "hs \<noteq> [] \<Longrightarrow> \<forall>h \<in> set hs. no_quote h \<Longrightarrow> length hs \<le> fuel \<Longrightarrow>
   parse_list fuel (in_list hs @ t) = Some (hs, t)"
proof (induction hs arbitrary: fuel rule: in_list.induct)
  case (2 h)
  then obtain n where "fuel = Suc n" by (cases fuel) auto
  with 2 show ?case by (simp add: quoted_def parse_literal_plain)
next
  case (3 h h' hs)
  then obtain n where "fuel = Suc n" "length (h' # hs) \<le> n" by (cases fuel) auto
  with 3 show ?case by (simp add: quoted_def parse_literal_plain)
qed simp

lemma length_in_list: "length hs \<le> length (in_list hs)"
  by (induction hs rule: in_list.induct) (auto simp: quoted_def)

lemma parse_in_in_list:
  "hs \<noteq> [] \<Longrightarrow> \<forall>h \<in> set hs. no_quote h \<Longrightarrow> parse_in (in_list hs @ t) = Some (hs, t)"
  unfolding parse_in_def using parse_list_in_list length_in_list [of hs] by (simp add: trans_le_add1)

text \<open>
  \<open>SELECT data FROM t WHERE key IN (.. GROUP BY key\<close>: the keys are unique, so every group is one
  row. A text that does not read as such a query is left to \<open>other_sql\<close>.
\<close>

definition select_in :: "db_io \<Rightarrow> string \<Rightarrow> ('r \<Rightarrow> string) \<Rightarrow> ('r \<Rightarrow> bytes) \<Rightarrow> string list \<Rightarrow> 'r list \<Rightarrow> go_error + bytes list" where
  "select_in io suffix key data hashes t =
     (let sql = in_list hashes @ suffix
      in if \<not> query_ok io then Inl DbErr
         else case parse_in sql of
                Some (ls, rest) \<Rightarrow>
                  if rest = suffix
                  then map_sum id (map data) (select io (\<lambda>r. key r \<in> set ls) t)
                  else (case other_sql io sql of None \<Rightarrow> Inl DbErr | Some ds \<Rightarrow> Inr ds)
              | None \<Rightarrow> (case other_sql io sql of None \<Rightarrow> Inl DbErr | Some ds \<Rightarrow> Inr ds))"

lemma select_in_ok:
  assumes "good_io io" "hs \<noteq> []" "\<forall>h \<in> set hs. no_quote h"
  shows "select_in io suffix key data hs t = Inr (map data (arrange io (filter (\<lambda>r. key r \<in> set hs) t)))"
  using assms(2,3) good_ioD [OF assms(1)]
  by (simp add: select_in_def parse_in_in_list select_def Let_def)

lemma select_in_empty:
  "no_quote suffix \<Longrightarrow> other_sql io suffix = None \<Longrightarrow> select_in io suffix key data [] t = Inl DbErr"
  by (cases suffix) (auto simp: select_in_def parse_in_def no_quote_def Let_def)

section \<open>Loops over two slices and queries per key\<close>

text \<open>
  \<open>for i := 0; i < len(xs); i++ { stmt.Exec(xs[i], ys[i]) }\<close> inside a transaction. A shorter \<open>ys\<close> is
  an index panic, after the rows before it were processed and with the deferred \<open>Commit\<close> run.
\<close>

definition indexed_tx ::
    "db_io \<Rightarrow> 'a list \<Rightarrow> 'b list \<Rightarrow> (('a \<times> 'b) list \<Rightarrow> 't \<Rightarrow> 't) \<Rightarrow> 't \<Rightarrow> unit outcome \<times> 't" where
  "indexed_tx io xs ys body st =
     (let (res, st') = with_tx io (\<lambda>st. (length ys < length xs, body (zip xs ys) st)) st
      in (case res of Inl e \<Rightarrow> Fail e | Inr short \<Rightarrow> if short then Panic else Done (), st'))"

lemma indexed_tx_good [table_simps]:
  "good_io io \<Longrightarrow> indexed_tx io xs ys body st =
     (if length ys < length xs then Panic else Done (), body (zip xs ys) st)"
  by (simp add: indexed_tx_def with_tx_good)

lemma indexed_tx_inv: "P st \<Longrightarrow> P (body (zip xs ys) st) \<Longrightarrow> P (snd (indexed_tx io xs ys body st))"
  by (simp add: indexed_tx_def with_tx_def Let_def)

text \<open>One query per key, the results one after the other; the first error ends the loop.\<close>

fun query_each :: "('k \<Rightarrow> go_error + 'a list) \<Rightarrow> 'k list \<Rightarrow> go_error + 'a list" where
  "query_each q [] = Inr []"
| "query_each q (k # ks) =
     (case q k of Inl e \<Rightarrow> Inl e | Inr xs \<Rightarrow> map_sum id (\<lambda>ys. xs @ ys) (query_each q ks))"

text \<open>Rows are decoded in the order of the cursor; the first one that fails ends the loop.\<close>

fun decode_rows :: "('r \<Rightarrow> go_error + 'a) \<Rightarrow> 'r list \<Rightarrow> go_error + 'a list" where
  "decode_rows f [] = Inr []"
| "decode_rows f (r # rs) =
     (case f r of Inl e \<Rightarrow> Inl e | Inr a \<Rightarrow> map_sum id ((#) a) (decode_rows f rs))"

lemma decode_rows_map: "\<forall>r \<in> set rs. f r = Inr (g r) \<Longrightarrow> decode_rows f rs = Inr (map g rs)"
  by (induction rs) auto

definition select_decode :: "db_io \<Rightarrow> ('r \<Rightarrow> bool) \<Rightarrow> ('r \<Rightarrow> go_error + 'a) \<Rightarrow> 'r list \<Rightarrow> go_error + 'a list" where
  "select_decode io P f t =
     (case select io P t of Inl e \<Rightarrow> Inl e | Inr rs \<Rightarrow> decode_rows f rs)"

lemma filter_unique:
  "distinct (map key t) \<Longrightarrow>
   filter (\<lambda>r. key r = k) t = (case row_of key t k of None \<Rightarrow> [] | Some r \<Rightarrow> [r])"
proof (induction t)
  case (Cons a t)
  show ?case
  proof (cases "key a = k")
    case True
    then have "row_of key t k = None" using Cons.prems by (auto simp: row_of_None)
    then show ?thesis using Cons True by (simp add: row_of_def)
  next
    case False
    then show ?thesis using Cons by (simp add: row_of_def)
  qed
qed (simp add: row_of_def)

lemma arrange_single: "order_law io \<Longrightarrow> arrange io [r] = [r]"
  by (metis mset_arrange mset_single_iff mset.simps)

text \<open>With a unique key, one query per key is the lookup of each key in turn.\<close>

lemma query_each_lookup:
  assumes "good_io io" "distinct (map key t)" "\<forall>r \<in> set t. f r = Inr (g r)"
  shows "query_each (\<lambda>k. select_decode io (\<lambda>r. key r = k) f t) ks =
     Inr (map g (List.map_filter (row_of key t) ks))"
proof (induction ks)
  case (Cons k ks)
  have "select_decode io (\<lambda>r. key r = k) f t =
      Inr (map g (case row_of key t k of None \<Rightarrow> [] | Some r \<Rightarrow> [r]))"
  proof (cases "row_of key t k")
    case None
    then show ?thesis using good_ioD [OF assms(1)]
      by (simp add: select_decode_def select_def filter_unique [OF assms(2)])
  next
    case (Some r)
    then have "r \<in> set t" by (metis row_of_def find_Some_iff nth_mem)
    then show ?thesis using Some assms(3) good_ioD [OF assms(1)]
      by (simp add: select_decode_def select_def filter_unique [OF assms(2)] arrange_single)
  qed
  then show ?case using Cons by (simp add: List.map_filter_def split: option.split)
qed (simp add: List.map_filter_def)

end
