(* ===== verification/Reg_Store.thy ===== *)
theory Reg_Store
  imports Store_Common
begin

text \<open>
  \<open>DataStoreRegisteredSideChainStoreImpl\<close> of \<open>store/datastore.go\<close>: the side chain registrations seen
  on the main chain and not yet active. The database file is made by \<open>initRegisterSideChainDB\<close>, which
  creates the table \<open>RegisteredSideChains\<close> only; the table \<open>Info\<close> that \<open>CurrentHeight\<close> reads exists
  in the main chain's file. A table that may be missing is an option, and a statement on a missing
  table fails when it is prepared or run.
\<close>

record reg_row =
  RrTransactionHash :: string
  RrGenesisBlockAddress :: string
  RrRegisterInfo :: bytes

record reg_store =
  RegInfo :: "u32 option option"           \<comment> \<open>table \<open>Info\<close>, and its row \<open>Height\<close>\<close>
  RegisteredSideChains :: "reg_row list option"

record registered_side_chain_transaction =
  RtTransactionHash :: string
  RtGenesisBlockAddress :: string
  RtRegisteredSideChain :: registered_side_chain

definition reg_key :: "reg_row \<Rightarrow> string \<times> string" where
  "reg_key r = (RrTransactionHash r, RrGenesisBlockAddress r)"

definition reg_store_wf :: "reg_store \<Rightarrow> bool" where
  "reg_store_wf st \<longleftrightarrow> (case RegisteredSideChains st of None \<Rightarrow> True | Some t \<Rightarrow> distinct (map reg_key t))"

section \<open>Operations\<close>

definition initRegisterSideChainDB :: "db_io \<Rightarrow> reg_store \<Rightarrow> go_error + reg_store" where
  "initRegisterSideChainDB io file =
     (if \<not> query_ok io then Inl DbErr
      else Inr (case RegisteredSideChains file of
                  Some t \<Rightarrow> file | None \<Rightarrow> file\<lparr>RegisteredSideChains := Some []\<rparr>))"

text \<open>
  \<open>ResetDataStore\<close> closes the handle and opens the main chain's file instead (\<open>initMainChainDB\<close>):
  its height row, if any, is the argument \<open>main_height\<close>.
\<close>

definition Reg_ResetDataStore :: "db_io \<Rightarrow> u32 option \<Rightarrow> reg_store \<Rightarrow> go_error option \<times> reg_store" where
  "Reg_ResetDataStore io main_height st =
     (if \<not> query_ok io \<or> \<not> prepare_ok io then (Some DbErr, \<lparr>RegInfo = None, RegisteredSideChains = None\<rparr>)
      else (None, \<lparr>RegInfo = Some (case main_height of
                       Some h \<Rightarrow> Some h | None \<Rightarrow> if exec_ok io 0 then Some 0 else None),
                   RegisteredSideChains = None\<rparr>))"

definition Reg_CurrentHeight :: "db_io \<Rightarrow> u32 \<Rightarrow> reg_store \<Rightarrow> u32 \<times> reg_store" where
  "Reg_CurrentHeight io height st =
     (case RegInfo st of
        None \<Rightarrow> (0, st)    \<comment> \<open>\<open>Scan\<close> leaves 0 (error dropped); a larger height fails in \<open>Prepare\<close>\<close>
      | Some cell \<Rightarrow> (let (h, cell') = height_op io height cell in (h, st\<lparr>RegInfo := Some cell'\<rparr>)))"

text \<open>\<open>Serialize\<close> and \<open>Deserialize\<close> are called for their effect; their errors are dropped.\<close>

definition encode_registration :: "wire \<Rightarrow> registered_side_chain \<Rightarrow> bytes" where
  "encode_registration W x = snd (RegisteredSideChain_Serialize W x [])"

definition decode_registration :: "wire \<Rightarrow> bytes \<Rightarrow> registered_side_chain" where
  "decode_registration W data = fst (snd (RegisteredSideChain_Deserialize W (fresh_registered_side_chain, data)))"

definition reg_row_of :: "wire \<Rightarrow> registered_side_chain_transaction \<Rightarrow> reg_row" where
  "reg_row_of W tx = \<lparr>RrTransactionHash = RtTransactionHash tx,
     RrGenesisBlockAddress = RtGenesisBlockAddress tx,
     RrRegisterInfo = encode_registration W (RtRegisteredSideChain tx)\<rparr>"

definition AddRegisteredSideChainTx ::
    "wire \<Rightarrow> db_io \<Rightarrow> registered_side_chain_transaction \<Rightarrow> reg_store \<Rightarrow> go_error option \<times> reg_store" where
  "AddRegisteredSideChainTx W io tx st =
     (case RegisteredSideChains st of
        None \<Rightarrow> (Some DbErr, st)
      | Some t \<Rightarrow> (let (e, t') = insert_stmt io reg_key (reg_row_of W tx) t
                   in (e, st\<lparr>RegisteredSideChains := Some t'\<rparr>)))"

definition AddRegisteredSideChainTxs ::
    "wire \<Rightarrow> db_io \<Rightarrow> registered_side_chain_transaction list \<Rightarrow> reg_store \<Rightarrow> (go_error + bool list) \<times> reg_store" where
  "AddRegisteredSideChainTxs W io txs st =
     (case RegisteredSideChains st of
        None \<Rightarrow> (Inl DbErr, st)
      | Some _ \<Rightarrow>
          with_tx io (\<lambda>st. (let (result, t') = insert_rows reg_key (exec_ok io) 0 (map (reg_row_of W) txs)
                                               (the (RegisteredSideChains st))
                           in (result, st\<lparr>RegisteredSideChains := Some t'\<rparr>))) st)"

definition HasRegisteredSideChainTx :: "db_io \<Rightarrow> string \<Rightarrow> string \<Rightarrow> reg_store \<Rightarrow> go_error + bool" where
  "HasRegisteredSideChainTx io transactionHash genesisBlockAddress st =
     (case RegisteredSideChains st of
        None \<Rightarrow> Inl DbErr
      | Some t \<Rightarrow> select_any io (\<lambda>r. RrTransactionHash r = transactionHash \<and>
                                   RrGenesisBlockAddress r = genesisBlockAddress) t)"

definition RemoveRegisteredSideChainTx :: "db_io \<Rightarrow> string \<Rightarrow> string \<Rightarrow> reg_store \<Rightarrow> go_error option \<times> reg_store" where
  "RemoveRegisteredSideChainTx io transactionHash genesisBlockAddress st =
     (case RegisteredSideChains st of
        None \<Rightarrow> (Some DbErr, st)
      | Some t \<Rightarrow> (let (e, t') = delete_stmt io reg_key (transactionHash, genesisBlockAddress) t
                   in (e, st\<lparr>RegisteredSideChains := Some t'\<rparr>)))"

definition RemoveRegisteredSideChainTxs ::
    "db_io \<Rightarrow> string list \<Rightarrow> string list \<Rightarrow> reg_store \<Rightarrow> unit outcome \<times> reg_store" where
  "RemoveRegisteredSideChainTxs io transactionHashes genesisBlockAddress st =
     (case RegisteredSideChains st of
        None \<Rightarrow> (Fail DbErr, st)
      | Some _ \<Rightarrow>
          indexed_tx io transactionHashes genesisBlockAddress
            (\<lambda>ks st. st\<lparr>RegisteredSideChains :=
               map_option (delete_rows reg_key (exec_ok io) 0 ks) (RegisteredSideChains st)\<rparr>) st)"

definition GetAllRegisteredSideChainTxsHashes :: "db_io \<Rightarrow> reg_store \<Rightarrow> go_error + string list \<times> string list" where
  "GetAllRegisteredSideChainTxsHashes io st =
     (case RegisteredSideChains st of
        None \<Rightarrow> Inl DbErr
      | Some t \<Rightarrow> map_sum id (\<lambda>rs. (map RrTransactionHash rs, map RrGenesisBlockAddress rs))
                    (select io (\<lambda>_. True) t))"

definition decode_reg_row :: "wire \<Rightarrow> reg_row \<Rightarrow> registered_side_chain_transaction" where
  "decode_reg_row W r = \<lparr>RtTransactionHash = RrTransactionHash r, RtGenesisBlockAddress = RrGenesisBlockAddress r,
     RtRegisteredSideChain = decode_registration W (RrRegisterInfo r)\<rparr>"

text \<open>The loop breaks after its first row, so only that row is scanned; no row gives a nil pointer.\<close>

definition GetRegisteredSideChainTxByHash ::
    "wire \<Rightarrow> db_io \<Rightarrow> string \<Rightarrow> reg_store \<Rightarrow> go_error + registered_side_chain_transaction option" where
  "GetRegisteredSideChainTxByHash W io tx st =
     (case RegisteredSideChains st of
        None \<Rightarrow> Inl DbErr
      | Some t \<Rightarrow>
          if \<not> query_ok io then Inl DbErr
          else (case arrange io (filter (\<lambda>r. RrTransactionHash r = tx) t) of
                  [] \<Rightarrow> Inr None
                | r # _ \<Rightarrow> if scan_ok io then Inr (Some (decode_reg_row W r)) else Inl DbErr))"

definition GetAllRegisteredSideChainTxs ::
    "wire \<Rightarrow> db_io \<Rightarrow> reg_store \<Rightarrow> go_error + registered_side_chain_transaction list" where
  "GetAllRegisteredSideChainTxs W io st =
     (case RegisteredSideChains st of
        None \<Rightarrow> Inl DbErr
      | Some t \<Rightarrow> map_sum id (map (decode_reg_row W)) (select io (\<lambda>_. True) t))"

definition GetRegisteredSideChainTxsFromHashes ::
    "wire \<Rightarrow> db_io \<Rightarrow> string list \<Rightarrow> string \<Rightarrow> reg_store \<Rightarrow> go_error + registered_side_chain list" where
  "GetRegisteredSideChainTxsFromHashes W io transactionHashes genesisBlockAddresses st =
     (case RegisteredSideChains st of
        None \<Rightarrow> if transactionHashes = [] then Inr [] else Inl DbErr
      | Some t \<Rightarrow>
          query_each (\<lambda>k. select_decode io (\<lambda>r. reg_key r = k)
                            (\<lambda>r. Inr (decode_registration W (RrRegisterInfo r))) t)
            (map (\<lambda>h. (h, genesisBlockAddresses)) transactionHashes))"

section \<open>Facts\<close>

lemmas reg_ops = Reg_ResetDataStore_def Reg_CurrentHeight_def AddRegisteredSideChainTx_def AddRegisteredSideChainTxs_def
  RemoveRegisteredSideChainTx_def RemoveRegisteredSideChainTxs_def

inductive reg_step :: "reg_store \<Rightarrow> reg_store \<Rightarrow> bool" where
  r_reset: "reg_step st (snd (Reg_ResetDataStore io m st))"
| r_height: "reg_step st (snd (Reg_CurrentHeight io h st))"
| r_add: "reg_step st (snd (AddRegisteredSideChainTx W io tx st))"
| r_adds: "reg_step st (snd (AddRegisteredSideChainTxs W io txs st))"
| r_remove: "reg_step st (snd (RemoveRegisteredSideChainTx io h g st))"
| r_removes: "reg_step st (snd (RemoveRegisteredSideChainTxs io hs gs st))"

lemma reg_step_wf: "reg_step st st' \<Longrightarrow> reg_store_wf st \<Longrightarrow> reg_store_wf st'"
proof (induction rule: reg_step.induct)
  case (r_add st W io tx)
  then show ?case
    using insert_stmt_distinct [of reg_key "the (RegisteredSideChains st)" io "reg_row_of W tx"]
    by (cases "RegisteredSideChains st") (simp_all add: reg_ops reg_store_wf_def case_prod_beta Let_def)
next
  case (r_remove st io h g)
  then show ?case
    using delete_stmt_distinct [of reg_key "the (RegisteredSideChains st)" io "(h, g)"]
    by (cases "RegisteredSideChains st") (simp_all add: reg_ops reg_store_wf_def case_prod_beta Let_def)
next
  case (r_adds st W io txs)
  then show ?case
    by (cases "RegisteredSideChains st")
      (simp_all add: reg_ops reg_store_wf_def with_tx_def insert_rows_distinct case_prod_beta Let_def)
next
  case (r_removes st io hs gs)
  then show ?case
    by (cases "RegisteredSideChains st")
      (simp_all add: reg_ops reg_store_wf_def indexed_tx_def with_tx_def delete_rows_distinct case_prod_beta Let_def)
qed (auto simp: reg_ops reg_store_wf_def case_prod_beta Let_def split: option.splits)

definition reg_open :: "reg_store \<Rightarrow> bool" where
  "reg_open st \<longleftrightarrow> RegisteredSideChains st \<noteq> None"

definition reg_lookup :: "reg_store \<Rightarrow> string \<times> string \<Rightarrow> reg_row option" where
  "reg_lookup st k = (case RegisteredSideChains st of None \<Rightarrow> None | Some t \<Rightarrow> row_of reg_key t k)"

definition add_reg :: "wire \<Rightarrow> db_io \<Rightarrow> registered_side_chain_transaction list \<Rightarrow> reg_store \<Rightarrow> reg_store" where
  "add_reg W io txs st = snd (AddRegisteredSideChainTxs W io txs st)"

definition remove_reg :: "db_io \<Rightarrow> (string \<times> string) list \<Rightarrow> reg_store \<Rightarrow> reg_store" where
  "remove_reg io ks st = snd (RemoveRegisteredSideChainTxs io (map fst ks) (map snd ks) st)"

definition reg_arg_key :: "registered_side_chain_transaction \<Rightarrow> string \<times> string" where
  "reg_arg_key tx = (RtTransactionHash tx, RtGenesisBlockAddress tx)"

lemma reg_key_row [simp]: "reg_key (reg_row_of W tx) = reg_arg_key tx"
  by (simp add: reg_key_def reg_row_of_def reg_arg_key_def)

interpretation registrations: keyed_store
    "add_reg W io" reg_lookup "\<lambda>_. reg_row_of W" reg_key reg_arg_key
    "\<lambda>st. good_io io \<and> reg_open st \<and> reg_store_wf st" "remove_reg io" for W io
proof (unfold_locales, goal_cases)
  case (1 s rs)
  then have "reg_store_wf (add_reg W io rs s)"
    using reg_step_wf reg_step.r_adds unfolding add_reg_def by blast
  with 1 show ?case
    by (auto simp: add_reg_def reg_ops reg_open_def with_tx_good case_prod_beta Let_def split: option.split)
next
  case (4 s ks)
  then have "reg_store_wf (remove_reg io ks s)"
    using reg_step_wf reg_step.r_removes unfolding remove_reg_def by blast
  with 4 show ?case
    by (auto simp: remove_reg_def reg_ops reg_open_def indexed_tx_good split: option.split)
next
  case (3 s rs k) then show ?case
    by (auto simp: add_reg_def reg_ops reg_open_def with_tx_good reg_lookup_def row_of_insert_rows good_ioD
        case_prod_beta Let_def)
next
  case (5 s ks k) then show ?case
    by (auto simp: remove_reg_def reg_ops reg_open_def indexed_tx_good reg_lookup_def zip_map_fst_snd
        row_of_delete_rows good_ioD)
qed simp

text \<open>What was registered is read back, when its fields fit the binary form.\<close>

lemma decode_encode_registration:
  assumes "wire_ok W" "registered_side_chain_fits W x"
  shows "decode_registration W (encode_registration W x) = x"
proof -
  have "RegisteredSideChain_Serialize W x [] = (fst (RegisteredSideChain_Serialize W x []), encode_registration W x)"
    by (simp add: encode_registration_def)
  from registered_side_chain.roundtrip [OF _ this, of "[]"] assms show ?thesis
    by (simp add: decode_registration_def)
qed

end
