(* ===== verification/Side_Store.thy ===== *)
theory Side_Store
  imports Store_Common
begin

text \<open>
  \<open>DataStoreSideChainImpl\<close> of \<open>store/datastore.go\<close>: the cache of one side chain with its synced
  height, the withdraw transactions and NFT destroy transactions waiting for the main chain, and the
  deposits to be returned. Every method holds the store's mutex from entry to exit, so each is one
  atomic operation. Row identifiers are never read and are left out.
\<close>

record side_chain_transaction =
  ScTransactionHash :: string
  ScTransaction :: bytes
  ScBlockHeight :: u32

record nft_destroy_transaction =
  NftID :: string
  NftTransaction :: bytes
  NftBlockHeight :: u32

record return_deposit_row =
  RdTransactionHash :: string
  RdGenesisBlockAddress :: string
  RdTransactionData :: bytes
  RdRecordTime :: string

record side_store =
  sideChainName :: string
  genesisBlockAddress :: string
  SideHeightInfo :: "u32 option"
  SideChainTxs :: "side_chain_transaction list"
  NFTDestroyTxs :: "nft_destroy_transaction list"
  ReturnDepositTransactions :: "return_deposit_row list"

text \<open>The tables keep their \<open>UNIQUE\<close> columns; \<open>ReturnDepositTransactions\<close> has none.\<close>

definition side_store_wf :: "side_store \<Rightarrow> bool" where
  "side_store_wf st \<longleftrightarrow> distinct (map ScTransactionHash (SideChainTxs st)) \<and>
     distinct (map NftID (NFTDestroyTxs st))"

section \<open>Creation\<close>

text \<open>
  \<open>CREATE TABLE IF NOT EXISTS\<close> keeps what an existing file holds (\<open>file\<close>), and the height row has a
  primary key. Opening at start drops the error of the \<open>INSERT\<close> of height 0; creation for a newly
  registered chain returns it.
\<close>

definition initSideChainDB :: "db_io \<Rightarrow> side_store \<Rightarrow> go_error + side_store" where
  "initSideChainDB io file =
     (if \<not> query_ok io then Inl DbErr
      else if \<not> prepare_ok io then Inl DbErr
      else Inr (case SideHeightInfo file of
                  Some h \<Rightarrow> file
                | None \<Rightarrow> if exec_ok io 0 then file\<lparr>SideHeightInfo := Some 0\<rparr> else file))"

definition CreateSideChainDBByConfig :: "db_io \<Rightarrow> string \<Rightarrow> string \<Rightarrow> side_store \<Rightarrow> go_error + side_store" where
  "CreateSideChainDBByConfig io name address file =
     (if \<not> query_ok io then Inl DbErr
      else if \<not> prepare_ok io then Inl DbErr
      else (case SideHeightInfo file of
              Some h \<Rightarrow> Inl DbErr
            | None \<Rightarrow>
                if exec_ok io 0
                then Inr (file\<lparr>SideHeightInfo := Some 0, sideChainName := name, genesisBlockAddress := address\<rparr>)
                else Inl DbErr))"

definition CurrentSideHeight :: "db_io \<Rightarrow> u32 \<Rightarrow> side_store \<Rightarrow> u32 \<times> side_store" where
  "CurrentSideHeight io height st =
     (let (h, cell) = height_op io height (SideHeightInfo st) in (h, st\<lparr>SideHeightInfo := cell\<rparr>))"

section \<open>Withdraw transactions\<close>

definition AddSideChainTxs :: "db_io \<Rightarrow> side_chain_transaction list \<Rightarrow> side_store \<Rightarrow> (go_error + unit) \<times> side_store" where
  "AddSideChainTxs io txs st =
     with_tx io (\<lambda>st. ((), st\<lparr>SideChainTxs :=
       snd (insert_rows ScTransactionHash (exec_ok io) 0 txs (SideChainTxs st))\<rparr>)) st"

definition AddSideChainTx :: "db_io \<Rightarrow> side_chain_transaction \<Rightarrow> side_store \<Rightarrow> go_error option \<times> side_store" where
  "AddSideChainTx io tx st =
     (let (e, t) = insert_stmt io ScTransactionHash tx (SideChainTxs st) in (e, st\<lparr>SideChainTxs := t\<rparr>))"

definition HasSideChainTx :: "db_io \<Rightarrow> string \<Rightarrow> side_store \<Rightarrow> go_error + bool" where
  "HasSideChainTx io transactionHash st =
     select_any io (\<lambda>r. ScTransactionHash r = transactionHash) (SideChainTxs st)"

definition RemoveSideChainTxs :: "db_io \<Rightarrow> string list \<Rightarrow> side_store \<Rightarrow> (go_error + unit) \<times> side_store" where
  "RemoveSideChainTxs io transactionHashes st =
     with_tx io (\<lambda>st. ((), st\<lparr>SideChainTxs :=
       delete_rows ScTransactionHash (exec_ok io) 0 transactionHashes (SideChainTxs st)\<rparr>)) st"

definition GetAllSideChainTxHashes :: "db_io \<Rightarrow> side_store \<Rightarrow> go_error + string list" where
  "GetAllSideChainTxHashes io st =
     map_sum id (map ScTransactionHash) (select io (\<lambda>_. True) (SideChainTxs st))"

definition GetAllSideChainTxHashesAndHeights :: "db_io \<Rightarrow> side_store \<Rightarrow> go_error + string list \<times> u32 list" where
  "GetAllSideChainTxHashesAndHeights io st =
     map_sum id (\<lambda>rs. (map ScTransactionHash rs, map ScBlockHeight rs))
       (select io (\<lambda>_. True) (SideChainTxs st))"

definition group_by_hash :: string where "group_by_hash = '' GROUP BY TransactionHash''"
definition group_by_nft :: string where "group_by_nft = '' GROUP BY NFTID''"

text \<open>\<open>tx.Deserialize(reader)\<close> is called for its effect; its error is dropped.\<close>

definition decode_withdraw :: "wire \<Rightarrow> bytes \<Rightarrow> withdraw_tx" where
  "decode_withdraw W data = fst (snd (WithdrawTx_Deserialize W (fresh_withdraw_tx, data)))"

definition GetSideChainTxsFromHashes :: "wire \<Rightarrow> db_io \<Rightarrow> string list \<Rightarrow> side_store \<Rightarrow> go_error + withdraw_tx list" where
  "GetSideChainTxsFromHashes W io transactionHashes st =
     map_sum id (map (decode_withdraw W))
       (select_in io group_by_hash ScTransactionHash ScTransaction transactionHashes (SideChainTxs st))"

section \<open>NFT destroy transactions\<close>

definition AddNFTDestroyTx :: "db_io \<Rightarrow> nft_destroy_transaction \<Rightarrow> side_store \<Rightarrow> go_error option \<times> side_store" where
  "AddNFTDestroyTx io tx st =
     (let (e, t) = insert_stmt io NftID tx (NFTDestroyTxs st) in (e, st\<lparr>NFTDestroyTxs := t\<rparr>))"

definition HasNFTDestroyTx :: "db_io \<Rightarrow> string \<Rightarrow> side_store \<Rightarrow> go_error + bool" where
  "HasNFTDestroyTx io i st = select_any io (\<lambda>r. NftID r = i) (NFTDestroyTxs st)"

definition RemoveNFTDestroyTxs :: "db_io \<Rightarrow> string list \<Rightarrow> side_store \<Rightarrow> (go_error + unit) \<times> side_store" where
  "RemoveNFTDestroyTxs io ids st =
     with_tx io (\<lambda>st. ((), st\<lparr>NFTDestroyTxs := delete_rows NftID (exec_ok io) 0 ids (NFTDestroyTxs st)\<rparr>)) st"

definition AddNFTDestroyTxs :: "db_io \<Rightarrow> nft_destroy_transaction list \<Rightarrow> side_store \<Rightarrow> (go_error + unit) \<times> side_store" where
  "AddNFTDestroyTxs io txs st =
     with_tx io (\<lambda>st. ((), st\<lparr>NFTDestroyTxs :=
       snd (insert_rows NftID (exec_ok io) 0 txs (NFTDestroyTxs st))\<rparr>)) st"

definition GetAllNFTDestroyID :: "db_io \<Rightarrow> side_store \<Rightarrow> go_error + string list" where
  "GetAllNFTDestroyID io st = map_sum id (map NftID) (select io (\<lambda>_. True) (NFTDestroyTxs st))"

definition decode_nft :: "wire \<Rightarrow> bytes \<Rightarrow> nft_destroy_tx" where
  "decode_nft W data = fst (snd (NFTDestroyTx_Deserialize W (fresh_nft_destroy_tx, data)))"

definition GetNFTDestroyTxsFromIDs :: "wire \<Rightarrow> db_io \<Rightarrow> string list \<Rightarrow> side_store \<Rightarrow> go_error + nft_destroy_tx list" where
  "GetNFTDestroyTxsFromIDs W io nftIDs st =
     map_sum id (map (decode_nft W)) (select_in io group_by_nft NftID NftTransaction nftIDs (NFTDestroyTxs st))"

section \<open>Deposits to be returned\<close>

definition AddReturnDepositTx ::
    "db_io \<Rightarrow> string \<Rightarrow> string \<Rightarrow> string \<Rightarrow> bytes \<Rightarrow> side_store \<Rightarrow> go_error option \<times> side_store" where
  "AddReturnDepositTx io now txid address transactionByte st =
     (if \<not> prepare_ok io then (Some DbErr, st)
      else if \<not> exec_ok io 0 then (Some DbErr, st)
      else (None, st\<lparr>ReturnDepositTransactions := ReturnDepositTransactions st @
              [\<lparr>RdTransactionHash = txid, RdGenesisBlockAddress = address,
                RdTransactionData = transactionByte, RdRecordTime = now\<rparr>]\<rparr>))"

text \<open>
  The three readers defer \<open>rows.Close()\<close> before they look at the error of the query: a failed query
  leaves \<open>rows\<close> nil and the deferred call panics.
\<close>

definition close_rows :: "(go_error + 'a) \<Rightarrow> db_io \<Rightarrow> 'a outcome" where
  "close_rows res io =
     (if \<not> query_ok io then Panic else case res of Inl e \<Rightarrow> Fail e | Inr a \<Rightarrow> Done a)"

definition GetAllReturnDepositTx :: "db_io \<Rightarrow> string \<Rightarrow> side_store \<Rightarrow> (bytes list \<times> string list) outcome" where
  "GetAllReturnDepositTx io address st =
     close_rows (map_sum id (\<lambda>rs. (map RdTransactionData rs, map RdTransactionHash rs))
       (select io (\<lambda>r. RdGenesisBlockAddress r = address) (ReturnDepositTransactions st))) io"

definition GetAllReturnDepositTxs :: "db_io \<Rightarrow> side_store \<Rightarrow> string list outcome" where
  "GetAllReturnDepositTxs io st =
     close_rows (map_sum id (map RdTransactionHash) (select io (\<lambda>_. True) (ReturnDepositTransactions st))) io"

definition RemoveReturnDepositTxs :: "db_io \<Rightarrow> string list \<Rightarrow> side_store \<Rightarrow> (go_error + unit) \<times> side_store" where
  "RemoveReturnDepositTxs io transactionHashes st =
     with_tx io (\<lambda>st. ((), st\<lparr>ReturnDepositTransactions :=
       delete_rows RdTransactionHash (exec_ok io) 0 transactionHashes (ReturnDepositTransactions st)\<rparr>)) st"

text \<open>
  A cursor of \<open>database/sql\<close> before its first \<open>Next\<close> has no row, and \<open>Scan\<close> on it returns the error
  "Scan called without calling Next". Rows are consumed only by \<open>rows_next\<close>.
\<close>

type_synonym 'r cursor = "'r option \<times> 'r list"

definition open_rows :: "'r list \<Rightarrow> 'r cursor" where
  "open_rows rs = (None, rs)"

definition rows_next :: "'r cursor \<Rightarrow> bool \<times> 'r cursor" where
  "rows_next c = (case snd c of [] \<Rightarrow> (False, None, []) | r # rs \<Rightarrow> (True, Some r, rs))"

definition rows_scan :: "db_io \<Rightarrow> 'r cursor \<Rightarrow> go_error + 'r" where
  "rows_scan io c =
     (case fst c of None \<Rightarrow> Inl DbErr | Some r \<Rightarrow> if scan_ok io then Inr r else Inl DbErr)"

definition GetReturnDepositTx :: "db_io \<Rightarrow> string \<Rightarrow> side_store \<Rightarrow> bytes outcome" where
  "GetReturnDepositTx io txid st =
     close_rows (map_sum id RdTransactionData
       (rows_scan io (open_rows (arrange io
          (filter (\<lambda>r. RdTransactionHash r = txid) (ReturnDepositTransactions st)))))) io"

section \<open>Facts\<close>

lemmas side_ops = AddSideChainTxs_def AddSideChainTx_def RemoveSideChainTxs_def AddNFTDestroyTx_def
  RemoveNFTDestroyTxs_def AddNFTDestroyTxs_def AddReturnDepositTx_def RemoveReturnDepositTxs_def
  CurrentSideHeight_def

text \<open>Every operation, whatever the driver does, keeps the unique columns unique.\<close>

inductive side_step :: "side_store \<Rightarrow> side_store \<Rightarrow> bool" where
  height: "side_step st (snd (CurrentSideHeight io h st))"
| add_txs: "side_step st (snd (AddSideChainTxs io txs st))"
| add_tx: "side_step st (snd (AddSideChainTx io tx st))"
| remove_txs: "side_step st (snd (RemoveSideChainTxs io hs st))"
| add_nft: "side_step st (snd (AddNFTDestroyTx io n st))"
| add_nfts: "side_step st (snd (AddNFTDestroyTxs io ns st))"
| remove_nfts: "side_step st (snd (RemoveNFTDestroyTxs io ids st))"
| add_return: "side_step st (snd (AddReturnDepositTx io now i a b st))"
| remove_return: "side_step st (snd (RemoveReturnDepositTxs io hs st))"

lemma side_step_wf: "side_step st st' \<Longrightarrow> side_store_wf st \<Longrightarrow> side_store_wf st'"
proof (induction rule: side_step.induct)
  case (add_tx st io tx)
  then show ?case
    using insert_stmt_distinct [of ScTransactionHash "SideChainTxs st" io tx]
    by (simp add: side_ops side_store_wf_def case_prod_beta Let_def)
next
  case (add_nft st io n)
  then show ?case
    using insert_stmt_distinct [of NftID "NFTDestroyTxs st" io n]
    by (simp add: side_ops side_store_wf_def case_prod_beta Let_def)
qed (auto simp: side_ops side_store_wf_def insert_rows_distinct delete_rows_distinct
      case_prod_beta Let_def
      intro!: with_tx_inv [where P = side_store_wf, unfolded side_store_wf_def])

definition side_tx_lookup :: "side_store \<Rightarrow> string \<Rightarrow> side_chain_transaction option" where
  "side_tx_lookup st = row_of ScTransactionHash (SideChainTxs st)"

definition nft_lookup :: "side_store \<Rightarrow> string \<Rightarrow> nft_destroy_transaction option" where
  "nft_lookup st = row_of NftID (NFTDestroyTxs st)"

interpretation side_txs: keyed_store
    "\<lambda>rs st. snd (AddSideChainTxs io rs st)" side_tx_lookup "\<lambda>_ r. r" ScTransactionHash ScTransactionHash
    "\<lambda>st. good_io io \<and> side_store_wf st" "\<lambda>ks st. snd (RemoveSideChainTxs io ks st)" for io
proof (unfold_locales, goal_cases)
  case (1 s rs) then show ?case using side_step_wf side_step.add_txs by blast
next
  case (4 s ks) then show ?case using side_step_wf side_step.remove_txs by blast
next
  case (3 s rs k) then show ?case
    by (simp add: AddSideChainTxs_def with_tx_good side_tx_lookup_def row_of_insert_rows good_ioD
        cong: option.case_cong)
next
  case (5 s ks k) then show ?case
    by (simp add: RemoveSideChainTxs_def with_tx_good side_tx_lookup_def row_of_delete_rows good_ioD)
qed simp

interpretation nft_txs: keyed_store
    "\<lambda>rs st. snd (AddNFTDestroyTxs io rs st)" nft_lookup "\<lambda>_ r. r" NftID NftID
    "\<lambda>st. good_io io \<and> side_store_wf st" "\<lambda>ks st. snd (RemoveNFTDestroyTxs io ks st)" for io
proof (unfold_locales, goal_cases)
  case (1 s rs) then show ?case using side_step_wf side_step.add_nfts by blast
next
  case (4 s ks) then show ?case using side_step_wf side_step.remove_nfts by blast
next
  case (3 s rs k) then show ?case
    by (simp add: AddNFTDestroyTxs_def with_tx_good nft_lookup_def row_of_insert_rows good_ioD
        cong: option.case_cong)
next
  case (5 s ks k) then show ?case
    by (simp add: RemoveNFTDestroyTxs_def with_tx_good nft_lookup_def row_of_delete_rows good_ioD)
qed simp

lemma HasSideChainTx_lookup:
  "good_io io \<Longrightarrow> HasSideChainTx io h st = Inr (side_tx_lookup st h \<noteq> None)"
  by (auto simp: HasSideChainTx_def select_any_def good_ioD side_tx_lookup_def row_of_None filter_empty_conv)

end
