(* ===== verification/Main_Store.thy ===== *)
theory Main_Store
  imports Store_Common Ela_Types
begin

text \<open>
  \<open>DataStoreMainChainImpl\<close> of \<open>store/datastore.go\<close>: the deposits seen on the main chain that wait to
  be sent to a side chain, one row per transaction and side chain, and the synced main chain height.
  The transaction and its merkle proof are values of the ELA library: the record \<open>spv_ops\<close> names the
  library calls the store makes on them.
\<close>

record main_row =
  MrTransactionHash :: string
  MrGenesisBlockAddress :: string
  MrTransactionData :: bytes
  MrMerkleProof :: bytes

record main_store =
  MainInfo :: "u32 option"
  MainChainTxs :: "main_row list"
  mainChainHeight :: u32

type_synonym merkle_proof = bytes     \<comment> \<open>\<open>bloom.MerkleProof\<close>: never looked into here\<close>

record main_chain_transaction =
  McTransactionHash :: string
  McGenesisBlockAddress :: string
  McTransaction :: transaction
  McProof :: merkle_proof

record spv_transaction =
  MainChainTransaction :: transaction
  SpvProof :: merkle_proof

record spv_ops =
  TxBytes :: "transaction \<Rightarrow> bytes"                        \<comment> \<open>what \<open>Serialize\<close> leaves in the buffer\<close>
  TxByBytes :: "bytes \<Rightarrow> (transaction \<times> bytes) option"           \<comment> \<open>\<open>GetTransactionByBytes\<close>, and the rest to read\<close>
  TxFill :: "transaction \<times> bytes \<Rightarrow> transaction"                        \<comment> \<open>the object after \<open>Deserialize\<close>, error dropped\<close>
  ProofBytes :: "merkle_proof \<Rightarrow> bytes"
  ProofFill :: "bytes \<Rightarrow> merkle_proof"

text \<open>The library reads back the transactions and proofs in \<open>P\<close>.\<close>

definition spv_ok :: "(transaction \<times> merkle_proof \<Rightarrow> bool) \<Rightarrow> spv_ops \<Rightarrow> bool" where
  "spv_ok P L \<longleftrightarrow> (\<forall>t p. P (t, p) \<longrightarrow>
     (\<exists>t0 r. TxByBytes L (TxBytes L t) = Some (t0, r) \<and> TxFill L (t0, r) = t) \<and>
     ProofFill L (ProofBytes L p) = p)"

definition main_key :: "main_row \<Rightarrow> string \<times> string" where
  "main_key r = (MrTransactionHash r, MrGenesisBlockAddress r)"

definition main_store_wf :: "main_store \<Rightarrow> bool" where
  "main_store_wf st \<longleftrightarrow> distinct (map main_key (MainChainTxs st))"

section \<open>Operations\<close>

definition initMainChainDB :: "db_io \<Rightarrow> main_store \<Rightarrow> go_error + main_store" where
  "initMainChainDB io file =
     (if \<not> query_ok io then Inl DbErr
      else if \<not> prepare_ok io then Inl DbErr
      else Inr (case MainInfo file of
                  Some h \<Rightarrow> file
                | None \<Rightarrow> if exec_ok io 0 then file\<lparr>MainInfo := Some 0\<rparr> else file))"

text \<open>
  \<open>CurrentHeight\<close> refreshes the cached \<open>mainChainHeight\<close> only on the branch that does not raise the
  stored height.
\<close>

definition Main_CurrentHeight :: "db_io \<Rightarrow> u32 \<Rightarrow> main_store \<Rightarrow> u32 \<times> main_store" where
  "Main_CurrentHeight io height st =
     (let storedHeight = (if query_ok io then (case MainInfo st of Some v \<Rightarrow> v | None \<Rightarrow> 0) else 0);
          (h, cell) = height_op io height (MainInfo st)
      in if storedHeight < height then (h, st\<lparr>MainInfo := cell\<rparr>)
         else (h, st\<lparr>MainInfo := cell, mainChainHeight := storedHeight\<rparr>))"

definition BestHeight :: "db_io \<Rightarrow> main_store \<Rightarrow> u64 \<times> main_store" where
  "BestHeight io st =
     (if mainChainHeight st \<noteq> 0 then (ucast (mainChainHeight st), st)
      else let storedHeight = (if query_ok io then (case MainInfo st of Some v \<Rightarrow> v | None \<Rightarrow> 0) else 0)
           in (ucast storedHeight, st\<lparr>mainChainHeight := storedHeight\<rparr>))"

definition main_row_of :: "spv_ops \<Rightarrow> main_chain_transaction \<Rightarrow> main_row" where
  "main_row_of L tx = \<lparr>MrTransactionHash = McTransactionHash tx,
     MrGenesisBlockAddress = McGenesisBlockAddress tx,
     MrTransactionData = TxBytes L (McTransaction tx), MrMerkleProof = ProofBytes L (McProof tx)\<rparr>"

definition AddMainChainTx ::
    "spv_ops \<Rightarrow> db_io \<Rightarrow> main_chain_transaction \<Rightarrow> main_store \<Rightarrow> go_error option \<times> main_store" where
  "AddMainChainTx L io tx st =
     (let (e, t) = insert_stmt io main_key (main_row_of L tx) (MainChainTxs st)
      in (e, st\<lparr>MainChainTxs := t\<rparr>))"

definition AddMainChainTxs ::
    "spv_ops \<Rightarrow> db_io \<Rightarrow> main_chain_transaction list \<Rightarrow> main_store \<Rightarrow>
     (go_error + bool list) \<times> main_store" where
  "AddMainChainTxs L io txs st =
     with_tx io (\<lambda>st. (let (result, t) = insert_rows main_key (exec_ok io) 0 (map (main_row_of L) txs) (MainChainTxs st)
                      in (result, st\<lparr>MainChainTxs := t\<rparr>))) st"

definition HasMainChainTx :: "db_io \<Rightarrow> string \<Rightarrow> string \<Rightarrow> main_store \<Rightarrow> go_error + bool" where
  "HasMainChainTx io transactionHash genesisBlockAddress st =
     select_any io (\<lambda>r. MrTransactionHash r = transactionHash \<and> MrGenesisBlockAddress r = genesisBlockAddress)
       (MainChainTxs st)"

definition RemoveMainChainTx :: "db_io \<Rightarrow> string \<Rightarrow> string \<Rightarrow> main_store \<Rightarrow> go_error option \<times> main_store" where
  "RemoveMainChainTx io transactionHash genesisBlockAddress st =
     (let (e, t) = delete_stmt io main_key (transactionHash, genesisBlockAddress) (MainChainTxs st)
      in (e, st\<lparr>MainChainTxs := t\<rparr>))"

definition RemoveMainChainTxs ::
    "db_io \<Rightarrow> string list \<Rightarrow> string list \<Rightarrow> main_store \<Rightarrow> unit outcome \<times> main_store" where
  "RemoveMainChainTxs io transactionHashes genesisBlockAddress st =
     indexed_tx io transactionHashes genesisBlockAddress
       (\<lambda>ks st. st\<lparr>MainChainTxs := delete_rows main_key (exec_ok io) 0 ks (MainChainTxs st)\<rparr>) st"

definition GetAllMainChainTxHashes :: "db_io \<Rightarrow> main_store \<Rightarrow> go_error + string list \<times> string list" where
  "GetAllMainChainTxHashes io st =
     map_sum id (\<lambda>rs. (map MrTransactionHash rs, map MrGenesisBlockAddress rs))
       (select io (\<lambda>_. True) (MainChainTxs st))"

text \<open>\<open>GetTransactionByBytes\<close> may fail the whole read; the errors of the two \<open>Deserialize\<close> calls are
  dropped.\<close>

definition decode_spv :: "spv_ops \<Rightarrow> main_row \<Rightarrow> go_error + spv_transaction" where
  "decode_spv L r =
     (case TxByBytes L (MrTransactionData r) of
        None \<Rightarrow> Inl ExtErr
      | Some (tx, rest) \<Rightarrow> Inr \<lparr>MainChainTransaction = TxFill L (tx, rest),
                              SpvProof = ProofFill L (MrMerkleProof r)\<rparr>)"

definition decode_main :: "spv_ops \<Rightarrow> main_row \<Rightarrow> go_error + main_chain_transaction" where
  "decode_main L r =
     map_sum id (\<lambda>s. \<lparr>McTransactionHash = MrTransactionHash r, McGenesisBlockAddress = MrGenesisBlockAddress r,
       McTransaction = MainChainTransaction s, McProof = SpvProof s\<rparr>) (decode_spv L r)"

definition GetAllMainChainTxs ::
    "spv_ops \<Rightarrow> db_io \<Rightarrow> main_store \<Rightarrow> go_error + main_chain_transaction list" where
  "GetAllMainChainTxs L io st = select_decode io (\<lambda>_. True) (decode_main L) (MainChainTxs st)"

definition GetMainChainTxsFromHashes ::
    "spv_ops \<Rightarrow> db_io \<Rightarrow> string list \<Rightarrow> string \<Rightarrow> main_store \<Rightarrow> go_error + spv_transaction list" where
  "GetMainChainTxsFromHashes L io transactionHashes genesisBlockAddresses st =
     query_each (\<lambda>k. select_decode io (\<lambda>r. main_key r = k) (decode_spv L) (MainChainTxs st))
       (map (\<lambda>h. (h, genesisBlockAddresses)) transactionHashes)"

section \<open>Facts\<close>

lemmas main_ops = Main_CurrentHeight_def BestHeight_def AddMainChainTx_def AddMainChainTxs_def
  RemoveMainChainTx_def RemoveMainChainTxs_def

inductive main_step :: "main_store \<Rightarrow> main_store \<Rightarrow> bool" where
  m_height: "main_step st (snd (Main_CurrentHeight io h st))"
| m_best: "main_step st (snd (BestHeight io st))"
| m_add: "main_step st (snd (AddMainChainTx L io tx st))"
| m_adds: "main_step st (snd (AddMainChainTxs L io txs st))"
| m_remove: "main_step st (snd (RemoveMainChainTx io h g st))"
| m_removes: "main_step st (snd (RemoveMainChainTxs io hs gs st))"

lemma main_step_wf: "main_step st st' \<Longrightarrow> main_store_wf st \<Longrightarrow> main_store_wf st'"
proof (induction rule: main_step.induct)
  case (m_add st L io tx)
  then show ?case
    using insert_stmt_distinct [of main_key "MainChainTxs st" io "main_row_of L tx"]
    by (simp add: main_ops main_store_wf_def case_prod_beta Let_def)
next
  case (m_remove st io h g)
  then show ?case
    using delete_stmt_distinct [of main_key "MainChainTxs st" io "(h, g)"]
    by (simp add: main_ops main_store_wf_def case_prod_beta Let_def)
qed (auto simp: main_ops main_store_wf_def insert_rows_distinct delete_rows_distinct case_prod_beta Let_def
      intro!: with_tx_inv [where P = main_store_wf, unfolded main_store_wf_def]
        indexed_tx_inv [where P = main_store_wf, unfolded main_store_wf_def])

definition main_lookup :: "main_store \<Rightarrow> string \<times> string \<Rightarrow> main_row option" where
  "main_lookup st = row_of main_key (MainChainTxs st)"

definition add_main :: "spv_ops \<Rightarrow> db_io \<Rightarrow> main_chain_transaction list \<Rightarrow> main_store \<Rightarrow> main_store" where
  "add_main L io txs st = snd (AddMainChainTxs L io txs st)"

definition remove_main :: "db_io \<Rightarrow> (string \<times> string) list \<Rightarrow> main_store \<Rightarrow> main_store" where
  "remove_main io ks st = snd (RemoveMainChainTxs io (map fst ks) (map snd ks) st)"

definition main_arg_key :: "main_chain_transaction \<Rightarrow> string \<times> string" where
  "main_arg_key tx = (McTransactionHash tx, McGenesisBlockAddress tx)"

lemma main_key_row [simp]: "main_key (main_row_of L tx) = main_arg_key tx"
  by (simp add: main_key_def main_row_of_def main_arg_key_def)

interpretation main_txs: keyed_store
    "add_main L io" main_lookup "\<lambda>_. main_row_of L" main_key main_arg_key
    "\<lambda>st. good_io io \<and> main_store_wf st" "remove_main io" for L io
proof (unfold_locales, goal_cases)
  case (1 s rs) then show ?case using main_step_wf main_step.m_adds unfolding add_main_def by blast
next
  case (4 s ks) then show ?case using main_step_wf main_step.m_removes unfolding remove_main_def by blast
next
  case (3 s rs k) then show ?case
    by (simp add: add_main_def AddMainChainTxs_def with_tx_good main_lookup_def row_of_insert_rows good_ioD
        case_prod_beta Let_def)
next
  case (5 s ks k) then show ?case
    by (simp add: remove_main_def RemoveMainChainTxs_def indexed_tx_good main_lookup_def zip_map_fst_snd
        row_of_delete_rows good_ioD)
qed simp

end
