(* ===== verification/Finished_Store.thy ===== *)
theory Finished_Store
  imports Reg_Store Side_Store Main_Store
begin

text \<open>
  \<open>FinishedTxsDataStoreImpl\<close> of \<open>store/finishedtxstore.go\<close>: the verdict on every transaction the
  arbiter is done with. A failed withdraw refers by row id to the transaction that failed, in the
  table \<open>SideChainTransactions\<close>. The columns \<open>RecordTime\<close> are written and never read; they are left out,
  as are the ids of the other tables.
\<close>

record deposit_row =
  DpTransactionHash :: string
  DpGenesisBlockAddress :: string
  DpSucceed :: bool

record withdraw_row =
  WdTransactionHash :: string
  WdSideChainTransactionId :: nat
  WdSucceed :: bool

record side_tx_row =
  SxId :: nat
  SxTransactionData :: bytes

record register_row =
  RgTransactionHash :: string
  RgGenesisBlockAddress :: string
  RgTransactionData :: "bytes option"      \<comment> \<open>\<open>None\<close> is SQL's \<open>NULL\<close>\<close>
  RgSucceed :: bool

record finished_store =
  DepositTransactions :: "deposit_row list"
  WithdrawTransactions :: "withdraw_row list"
  SideChainTransactions :: "side_tx_row list"
  RegisterTransactions :: "register_row list"

definition deposit_key :: "deposit_row \<Rightarrow> string \<times> string" where
  "deposit_key r = (DpTransactionHash r, DpGenesisBlockAddress r)"

definition register_key :: "register_row \<Rightarrow> string \<times> string" where
  "register_key r = (RgTransactionHash r, RgGenesisBlockAddress r)"

text \<open>Unique keys, row ids below the next id, and every failed withdraw refers to a stored transaction.\<close>

definition max_id :: "side_tx_row list \<Rightarrow> nat" where
  "max_id t = foldr (\<lambda>r m. max (SxId r) m) t 0"

definition finished_wf :: "finished_store \<Rightarrow> bool" where
  "finished_wf st \<longleftrightarrow> distinct (map deposit_key (DepositTransactions st)) \<and>
     distinct (map WdTransactionHash (WithdrawTransactions st)) \<and>
     distinct (map register_key (RegisterTransactions st)) \<and>
     distinct (map SxId (SideChainTransactions st)) \<and>
     (\<forall>r \<in> set (WithdrawTransactions st). \<not> WdSucceed r \<longrightarrow>
        WdSideChainTransactionId r \<in> SxId ` set (SideChainTransactions st))"

section \<open>Registrations\<close>

definition AddFailedRegisterTxs :: "db_io \<Rightarrow> string list \<Rightarrow> string list \<Rightarrow> finished_store \<Rightarrow> unit outcome \<times> finished_store" where
  "AddFailedRegisterTxs io transactionHashes genesisBlockAddresses st =
     indexed_tx io transactionHashes genesisBlockAddresses
       (\<lambda>ks st. st\<lparr>RegisterTransactions := snd (insert_rows register_key (exec_ok io) 0
          (map (\<lambda>(h, g). \<lparr>RgTransactionHash = h, RgGenesisBlockAddress = g, RgTransactionData = None,
                          RgSucceed = False\<rparr>) ks) (RegisterTransactions st))\<rparr>) st"

definition AddSucceedRegisterTx ::
    "db_io \<Rightarrow> string \<Rightarrow> string \<Rightarrow> bytes \<Rightarrow> finished_store \<Rightarrow> go_error option \<times> finished_store" where
  "AddSucceedRegisterTx io transactionHashes genesisBlockAddresses transactionBytes st =
     (let (res, st') = with_tx io (\<lambda>st.
            let (ok, t) = insert_row register_key (exec_ok io 0)
                   \<lparr>RgTransactionHash = transactionHashes, RgGenesisBlockAddress = genesisBlockAddresses,
                    RgTransactionData = Some transactionBytes, RgSucceed = True\<rparr> (RegisterTransactions st)
            in (ok, st\<lparr>RegisterTransactions := t\<rparr>)) st
      in (case res of Inl e \<Rightarrow> Some e | Inr ok \<Rightarrow> if ok then None else Some DbErr, st'))"

definition HasRegisterTx :: "db_io \<Rightarrow> string \<Rightarrow> string \<Rightarrow> finished_store \<Rightarrow> go_error + bool" where
  "HasRegisterTx io transactionHash genesisBlockAddr st =
     select_any io (\<lambda>r. RgTransactionHash r = transactionHash \<and> RgGenesisBlockAddress r = genesisBlockAddr)
       (RegisterTransactions st)"

definition GetRegisterTxByHash :: "db_io \<Rightarrow> string \<Rightarrow> finished_store \<Rightarrow> go_error + bool list \<times> string list" where
  "GetRegisterTxByHash io transactionHash st =
     map_sum id (\<lambda>rs. (map RgSucceed rs, map RgGenesisBlockAddress rs))
       (select io (\<lambda>r. RgTransactionHash r = transactionHash) (RegisterTransactions st))"

text \<open>\<open>if rows.Next() { rows.Scan(..) }\<close>: the first row, if there is one.\<close>

definition select_first :: "db_io \<Rightarrow> ('r \<Rightarrow> bool) \<Rightarrow> 'r list \<Rightarrow> go_error + 'r option" where
  "select_first io P t =
     (if \<not> query_ok io then Inl DbErr
      else (case arrange io (filter P t) of
              [] \<Rightarrow> Inr None | r # _ \<Rightarrow> if scan_ok io then Inr (Some r) else Inl DbErr))"

definition GetRegisterTxByHashAndGenesisAddress :: "db_io \<Rightarrow> string \<Rightarrow> string \<Rightarrow> finished_store \<Rightarrow> go_error + bool" where
  "GetRegisterTxByHashAndGenesisAddress io transactionHash genesisAddress st =
     map_sum id (\<lambda>o1. case o1 of None \<Rightarrow> False | Some r \<Rightarrow> RgSucceed r)
       (select_first io (\<lambda>r. register_key r = (transactionHash, genesisAddress)) (RegisterTransactions st))"

definition GetRegisterTxs ::
    "wire \<Rightarrow> db_io \<Rightarrow> bool \<Rightarrow> finished_store \<Rightarrow> go_error + string list \<times> string list \<times> registered_side_chain list" where
  "GetRegisterTxs W io succeed st =
     map_sum id (\<lambda>rs. (map RgTransactionHash rs, map RgGenesisBlockAddress rs,
         map (\<lambda>r. decode_registration W (case RgTransactionData r of None \<Rightarrow> [] | Some d \<Rightarrow> d)) rs))
       (select io (\<lambda>r. RgSucceed r = succeed) (RegisterTransactions st))"

section \<open>Deposits\<close>

definition deposit_row_of :: "bool \<Rightarrow> string \<times> string \<Rightarrow> deposit_row" where
  "deposit_row_of succeed k =
     \<lparr>DpTransactionHash = fst k, DpGenesisBlockAddress = snd k, DpSucceed = succeed\<rparr>"

definition AddFailedDepositTxs :: "db_io \<Rightarrow> string list \<Rightarrow> string list \<Rightarrow> finished_store \<Rightarrow> unit outcome \<times> finished_store" where
  "AddFailedDepositTxs io transactionHashes genesisBlockAddresses st =
     indexed_tx io transactionHashes genesisBlockAddresses
       (\<lambda>ks st. st\<lparr>DepositTransactions := snd (insert_rows deposit_key (exec_ok io) 0
          (map (deposit_row_of False) ks) (DepositTransactions st))\<rparr>) st"

definition AddSucceedDepositTxs :: "db_io \<Rightarrow> string list \<Rightarrow> string list \<Rightarrow> finished_store \<Rightarrow> unit outcome \<times> finished_store" where
  "AddSucceedDepositTxs io transactionHashes genesisBlockAddresses st =
     indexed_tx io transactionHashes genesisBlockAddresses
       (\<lambda>ks st. st\<lparr>DepositTransactions := snd (insert_rows deposit_key (exec_ok io) 0
          (map (deposit_row_of True) ks) (DepositTransactions st))\<rparr>) st"

definition HasDepositTx :: "db_io \<Rightarrow> string \<Rightarrow> string \<Rightarrow> finished_store \<Rightarrow> go_error + bool" where
  "HasDepositTx io transactionHash genesisBlockAddr st =
     select_any io (\<lambda>r. deposit_key r = (transactionHash, genesisBlockAddr)) (DepositTransactions st)"

definition GetDepositTxByHash :: "db_io \<Rightarrow> string \<Rightarrow> finished_store \<Rightarrow> go_error + bool list \<times> string list" where
  "GetDepositTxByHash io transactionHash st =
     map_sum id (\<lambda>rs. (map DpSucceed rs, map DpGenesisBlockAddress rs))
       (select io (\<lambda>r. DpTransactionHash r = transactionHash) (DepositTransactions st))"

definition GetDepositTxByHashAndGenesisAddress :: "db_io \<Rightarrow> string \<Rightarrow> string \<Rightarrow> finished_store \<Rightarrow> go_error + bool" where
  "GetDepositTxByHashAndGenesisAddress io transactionHash genesisAddress st =
     map_sum id (\<lambda>o1. case o1 of None \<Rightarrow> False | Some r \<Rightarrow> DpSucceed r)
       (select_first io (\<lambda>r. deposit_key r = (transactionHash, genesisAddress)) (DepositTransactions st))"

definition GetDepositTxs :: "db_io \<Rightarrow> bool \<Rightarrow> finished_store \<Rightarrow> go_error + string list \<times> string list" where
  "GetDepositTxs io succeed st =
     map_sum id (\<lambda>rs. (map DpTransactionHash rs, map DpGenesisBlockAddress rs))
       (select io (\<lambda>r. DpSucceed r = succeed) (DepositTransactions st))"

section \<open>Withdraws\<close>

text \<open>
  The row id is the largest id plus one. The insert commits on its own, before the transaction that
  writes the withdraw rows begins.
\<close>

definition insert_side_tx :: "bytes \<Rightarrow> finished_store \<Rightarrow> finished_store" where
  "insert_side_tx data st = st\<lparr>SideChainTransactions := SideChainTransactions st @
     [\<lparr>SxId = max_id (SideChainTransactions st) + 1, SxTransactionData = data\<rparr>]\<rparr>"

definition withdraw_row_of :: "nat \<Rightarrow> bool \<Rightarrow> string \<Rightarrow> withdraw_row" where
  "withdraw_row_of i succeed h = \<lparr>WdTransactionHash = h, WdSideChainTransactionId = i, WdSucceed = succeed\<rparr>"

definition AddFailedWithdrawTxs ::
    "db_io \<Rightarrow> string list \<Rightarrow> bytes \<Rightarrow> finished_store \<Rightarrow> (go_error + unit) \<times> finished_store" where
  "AddFailedWithdrawTxs io transactionHashes transactionByte st =
     (if \<not> exec_ok io 0 then (Inl DbErr, st)
      else let st1 = insert_side_tx transactionByte st
           in if \<not> query_ok io \<or> \<not> scan_ok io then (Inl DbErr, st1)
              else let sideChainTransactionId = max_id (SideChainTransactions st1)
                   in with_tx io (\<lambda>st. ((), st\<lparr>WithdrawTransactions :=
                        snd (insert_rows WdTransactionHash (exec_ok io) 1
                          (map (withdraw_row_of sideChainTransactionId False) transactionHashes)
                          (WithdrawTransactions st))\<rparr>)) st1)"

definition AddSucceedWithdrawTxs :: "db_io \<Rightarrow> string list \<Rightarrow> finished_store \<Rightarrow> (go_error + unit) \<times> finished_store" where
  "AddSucceedWithdrawTxs io transactionHashes st =
     with_tx io (\<lambda>st. ((), st\<lparr>WithdrawTransactions :=
       snd (insert_rows WdTransactionHash (exec_ok io) 0
         (map (withdraw_row_of 0 True) transactionHashes) (WithdrawTransactions st))\<rparr>)) st"

text \<open>\<open>defer rows.Close()\<close> stands before the test of the error here: a failed query panics.\<close>

definition HasWithdrawTx :: "db_io \<Rightarrow> string \<Rightarrow> finished_store \<Rightarrow> bool outcome" where
  "HasWithdrawTx io transactionHash st =
     (if \<not> query_ok io then Panic
      else Done (filter (\<lambda>r. WdTransactionHash r = transactionHash) (WithdrawTransactions st) \<noteq> []))"

definition GetWithdrawTxByHash :: "db_io \<Rightarrow> string \<Rightarrow> finished_store \<Rightarrow> go_error + bool \<times> bytes option" where
  "GetWithdrawTxByHash io transactionHash st =
     (case select_first io (\<lambda>r. WdTransactionHash r = transactionHash) (WithdrawTransactions st) of
        Inl e \<Rightarrow> Inl e
      | Inr None \<Rightarrow> Inl (Err ''get withdraw transaction by hash failed'')
      | Inr (Some r) \<Rightarrow>
          if WdSucceed r then Inr (True, None)
          else (case select_first io (\<lambda>s. SxId s = WdSideChainTransactionId r) (SideChainTransactions st) of
                  Inl e \<Rightarrow> Inl e
                | Inr None \<Rightarrow> Inl (Err ''get withdraw transaction by hash failed, SideChainTransactions table has no record of needed id'')
                | Inr (Some s) \<Rightarrow> Inr (False, Some (SxTransactionData s))))"

definition GetWithdrawTxs :: "db_io \<Rightarrow> bool \<Rightarrow> finished_store \<Rightarrow> go_error + string list" where
  "GetWithdrawTxs io succeed st =
     map_sum id (map WdTransactionHash) (select io (\<lambda>r. WdSucceed r = succeed) (WithdrawTransactions st))"

definition AddSideChainTx_finished :: "db_io \<Rightarrow> bytes \<Rightarrow> finished_store \<Rightarrow> go_error option \<times> finished_store" where
  "AddSideChainTx_finished io transactionByte st =
     (if \<not> prepare_ok io then (Some DbErr, st)
      else if \<not> exec_ok io 0 then (Some DbErr, st)
      else (None, insert_side_tx transactionByte st))"

text \<open>\<open>rows.Scan\<close> without \<open>rows.Next\<close>, on the cursor of the side chain store.\<close>

definition GetSideChainTx :: "db_io \<Rightarrow> nat \<Rightarrow> finished_store \<Rightarrow> bytes outcome" where
  "GetSideChainTx io sideChainTransactionId st =
     close_rows (map_sum id SxTransactionData
       (rows_scan io (open_rows (arrange io
          (filter (\<lambda>r. SxId r = sideChainTransactionId) (SideChainTransactions st)))))) io"

section \<open>Facts\<close>

lemma max_id_upper: "r \<in> set t \<Longrightarrow> SxId r \<le> max_id t"
  unfolding max_id_def by (induction t) auto

lemma max_id_append: "max_id (t @ u) = max (max_id t) (max_id u)"
  unfolding max_id_def by (induction t) auto

lemma max_id_insert_side_tx:
  "max_id (SideChainTransactions (insert_side_tx data st)) = max_id (SideChainTransactions st) + 1"
  by (simp add: insert_side_tx_def max_id_append) (simp add: max_id_def)

lemma finished_wf_insert_side_tx: "finished_wf st \<Longrightarrow> finished_wf (insert_side_tx data st)"
  using max_id_upper [of _ "SideChainTransactions st"]
  by (fastforce simp: finished_wf_def insert_side_tx_def)

lemma withdraw_refs:
  assumes "\<forall>r \<in> set t. \<not> WdSucceed r \<longrightarrow> WdSideChainTransactionId r \<in> I" "b \<or> i \<in> I"
  shows "\<forall>r \<in> set (snd (insert_rows WdTransactionHash ok n (map (withdraw_row_of i b) hs) t)).
    \<not> WdSucceed r \<longrightarrow> WdSideChainTransactionId r \<in> I"
proof -
  obtain new where "snd (insert_rows WdTransactionHash ok n (map (withdraw_row_of i b) hs) t) = t @ new"
    "set new \<subseteq> set (map (withdraw_row_of i b) hs)"
    using insert_rows_prefix [of WdTransactionHash ok n "map (withdraw_row_of i b) hs" t] by blast
  then show ?thesis using assms by (auto simp: withdraw_row_of_def)
qed

lemma finished_wf_withdraws:
  assumes "finished_wf st" "b \<or> i \<in> SxId ` set (SideChainTransactions st)"
  shows "finished_wf (st\<lparr>WithdrawTransactions :=
    snd (insert_rows WdTransactionHash ok n (map (withdraw_row_of i b) hs) (WithdrawTransactions st))\<rparr>)"
proof -
  have "\<forall>r \<in> set (WithdrawTransactions st). \<not> WdSucceed r \<longrightarrow>
      WdSideChainTransactionId r \<in> SxId ` set (SideChainTransactions st)"
    using assms(1) by (simp add: finished_wf_def)
  from withdraw_refs [OF this assms(2), of ok n hs] assms(1) show ?thesis
    by (simp add: finished_wf_def insert_rows_distinct)
qed

lemma AddSucceedWithdrawTxs_wf: "finished_wf st \<Longrightarrow> finished_wf (snd (AddSucceedWithdrawTxs io hs st))"
  unfolding AddSucceedWithdrawTxs_def by (rule with_tx_inv) (simp_all add: finished_wf_withdraws)

lemma AddFailedWithdrawTxs_wf:
  assumes "finished_wf st"
  shows "finished_wf (snd (AddFailedWithdrawTxs io hs data st))"
proof -
  let ?st1 = "insert_side_tx data st"
  have wf: "finished_wf ?st1" by (rule finished_wf_insert_side_tx [OF assms])
  have ref: "max_id (SideChainTransactions ?st1) \<in> SxId ` set (SideChainTransactions ?st1)"
    unfolding max_id_insert_side_tx by (simp add: insert_side_tx_def)
  note wd = with_tx_inv [of finished_wf, OF wf]
  show ?thesis
    using assms wf ref by (simp add: AddFailedWithdrawTxs_def Let_def wd finished_wf_withdraws)
qed

lemma finished_wf_deposits:
  "finished_wf st \<Longrightarrow> finished_wf (st\<lparr>DepositTransactions :=
     snd (insert_rows deposit_key ok n rs (DepositTransactions st))\<rparr>)"
  by (simp add: finished_wf_def insert_rows_distinct)

lemma finished_wf_registers:
  "finished_wf st \<Longrightarrow> finished_wf (st\<lparr>RegisterTransactions :=
     snd (insert_rows register_key ok n rs (RegisterTransactions st))\<rparr>)"
  by (simp add: finished_wf_def insert_rows_distinct)

lemmas finished_pair_ops = AddFailedRegisterTxs_def AddFailedDepositTxs_def AddSucceedDepositTxs_def

inductive finished_step :: "finished_store \<Rightarrow> finished_store \<Rightarrow> bool" where
  f_reg_failed: "finished_step st (snd (AddFailedRegisterTxs io hs gs st))"
| f_reg_succeed: "finished_step st (snd (AddSucceedRegisterTx io h g data st))"
| f_dep_failed: "finished_step st (snd (AddFailedDepositTxs io hs gs st))"
| f_dep_succeed: "finished_step st (snd (AddSucceedDepositTxs io hs gs st))"
| f_wd_failed: "finished_step st (snd (AddFailedWithdrawTxs io hs data st))"
| f_wd_succeed: "finished_step st (snd (AddSucceedWithdrawTxs io hs st))"
| f_side_tx: "finished_step st (snd (AddSideChainTx_finished io data st))"

lemma finished_step_wf: "finished_step st st' \<Longrightarrow> finished_wf st \<Longrightarrow> finished_wf st'"
proof (induction rule: finished_step.induct)
  case (f_reg_succeed st io h g data)
  then show ?case
    by (simp add: AddSucceedRegisterTx_def case_prod_beta Let_def with_tx_def)
      (auto simp: finished_wf_def insert_row_def)
next
  case (f_side_tx st io data)
  then show ?case by (simp add: AddSideChainTx_finished_def finished_wf_insert_side_tx)
qed (auto simp: finished_pair_ops intro!: indexed_tx_inv finished_wf_deposits finished_wf_registers
      AddSucceedWithdrawTxs_wf AddFailedWithdrawTxs_wf)

section \<open>The contract of the finished store\<close>

definition withdraw_lookup :: "finished_store \<Rightarrow> string \<Rightarrow> withdraw_row option" where
  "withdraw_lookup st = row_of WdTransactionHash (WithdrawTransactions st)"

definition deposit_lookup :: "finished_store \<Rightarrow> string \<times> string \<Rightarrow> deposit_row option" where
  "deposit_lookup st = row_of deposit_key (DepositTransactions st)"

definition add_deposits :: "bool \<Rightarrow> db_io \<Rightarrow> (string \<times> string) list \<Rightarrow> finished_store \<Rightarrow> finished_store" where
  "add_deposits succeed io ks st =
     snd ((if succeed then AddSucceedDepositTxs else AddFailedDepositTxs) io (map fst ks) (map snd ks) st)"

lemma with_tx_deposits:
  "good_io io \<Longrightarrow> add_deposits b io ks st = st\<lparr>DepositTransactions :=
     snd (insert_rows deposit_key (\<lambda>_. True) 0 (map (deposit_row_of b) ks) (DepositTransactions st))\<rparr>"
  by (simp add: add_deposits_def finished_pair_ops indexed_tx_good zip_map_fst_snd good_ioD)

lemma withdraws_failed:
  "good_io io \<Longrightarrow> AddFailedWithdrawTxs io hs data st =
     (Inr (), (insert_side_tx data st)\<lparr>WithdrawTransactions := snd (insert_rows WdTransactionHash (\<lambda>_. True) 1
       (map (withdraw_row_of (max_id (SideChainTransactions st) + 1) False) hs) (WithdrawTransactions st))\<rparr>)"
  by (simp add: AddFailedWithdrawTxs_def Let_def with_tx_good max_id_insert_side_tx good_ioD)
    (simp add: insert_side_tx_def)

interpretation succeeded_withdraws: insert_store
    "\<lambda>hs st. snd (AddSucceedWithdrawTxs io hs st)" withdraw_lookup "\<lambda>_. withdraw_row_of 0 True"
    WdTransactionHash "\<lambda>h. h" "\<lambda>st. good_io io \<and> finished_wf st" for io
proof (unfold_locales, goal_cases)
  case (1 s rs) then show ?case using AddSucceedWithdrawTxs_wf by blast
next
  case (3 s rs k) then show ?case
    by (simp add: AddSucceedWithdrawTxs_def with_tx_good withdraw_lookup_def row_of_insert_rows good_ioD)
qed (simp add: withdraw_row_of_def)

interpretation failed_withdraws: insert_store
    "\<lambda>hs st. snd (AddFailedWithdrawTxs io hs data st)" withdraw_lookup
    "\<lambda>st. withdraw_row_of (max_id (SideChainTransactions st) + 1) False"
    WdTransactionHash "\<lambda>h. h" "\<lambda>st. good_io io \<and> finished_wf st" for io data
proof (unfold_locales, goal_cases)
  case (1 s rs) then show ?case using AddFailedWithdrawTxs_wf by blast
next
  case (3 s rs k) then show ?case
    by (simp add: withdraws_failed withdraw_lookup_def row_of_insert_rows cong: option.case_cong)
qed (simp add: withdraw_row_of_def)

interpretation finished_deposits: insert_store
    "add_deposits b io" deposit_lookup "\<lambda>_. deposit_row_of b" deposit_key "\<lambda>k. k"
    "\<lambda>st. good_io io \<and> finished_wf st" for b io
proof (unfold_locales, goal_cases)
  case (1 s rs) then show ?case using finished_wf_deposits by (simp add: with_tx_deposits)
next
  case (3 s rs k) then show ?case
    by (simp add: with_tx_deposits deposit_lookup_def row_of_insert_rows)
qed (simp add: deposit_row_of_def deposit_key_def)

text \<open>The two moves the arbiter makes: a withdraw out of a side chain's cache, a deposit out of the
  main chain's cache.\<close>

interpretation withdraw_move: transfer
    "\<lambda>rs st. snd (AddSideChainTxs io rs st)" side_tx_lookup "\<lambda>_ r. r" ScTransactionHash ScTransactionHash
    "\<lambda>st. good_io io \<and> side_store_wf st" "\<lambda>ks st. snd (RemoveSideChainTxs io ks st)"
    "\<lambda>hs st. snd (AddSucceedWithdrawTxs io hs st)" withdraw_lookup "\<lambda>_. withdraw_row_of 0 True"
    WdTransactionHash "\<lambda>h. h" "\<lambda>st. good_io io \<and> finished_wf st" for io
  by unfold_locales

interpretation deposit_move: transfer
    "add_main L io" main_lookup "\<lambda>_. main_row_of L" main_key main_arg_key
    "\<lambda>st. good_io io \<and> main_store_wf st" "remove_main io"
    "add_deposits b io" deposit_lookup "\<lambda>_. deposit_row_of b" deposit_key "\<lambda>k. k"
    "\<lambda>st. good_io io \<and> finished_wf st" for L io b
  by unfold_locales

text \<open>What \<open>GetWithdrawTxByHash\<close> answers, over the lookup.\<close>

lemma select_first_row_of:
  assumes "good_io io" "distinct (map key t)"
  shows "select_first io (\<lambda>r. key r = k) t = Inr (row_of key t k)"
  using good_ioD [OF assms(1)]
  by (simp add: select_first_def filter_unique [OF assms(2)] arrange_single split: option.split)

lemma GetWithdrawTxByHash_lookup:
  assumes "good_io io" "finished_wf st"
  shows "GetWithdrawTxByHash io h st =
    (case withdraw_lookup st h of
       None \<Rightarrow> Inl (Err ''get withdraw transaction by hash failed'')
     | Some r \<Rightarrow> if WdSucceed r then Inr (True, None)
         else Inr (False, Some (SxTransactionData (the (row_of SxId (SideChainTransactions st)
                                                        (WdSideChainTransactionId r))))))"
proof -
  note wf = assms(2) [unfolded finished_wf_def]
  have sel: "select_first io (\<lambda>r. WdTransactionHash r = h) (WithdrawTransactions st) = Inr (withdraw_lookup st h)"
    using wf by (simp add: withdraw_lookup_def select_first_row_of [OF assms(1), of WdTransactionHash])
  show ?thesis
  proof (cases "withdraw_lookup st h")
    case None
    then show ?thesis by (simp add: GetWithdrawTxByHash_def sel)
  next
    case (Some r)
    then have "r \<in> set (WithdrawTransactions st)"
      unfolding withdraw_lookup_def row_of_def by (metis find_Some_iff nth_mem)
    then have "\<not> WdSucceed r \<Longrightarrow> row_of SxId (SideChainTransactions st) (WdSideChainTransactionId r) \<noteq> None"
      using wf by (simp add: row_of_None)
    then show ?thesis
      using Some select_first_row_of [OF assms(1), of SxId "SideChainTransactions st"] wf
      by (auto simp: GetWithdrawTxByHash_def sel)
  qed
qed

text \<open>Rows are only ever appended, so a verdict stays, whatever the driver does.\<close>

lemma row_of_append_Some: "row_of key t k = Some r \<Longrightarrow> row_of key (t @ u) k = Some r"
  by (simp add: row_of_def find_append)

lemma row_of_insert_any:
  "row_of key t k = Some r \<Longrightarrow> row_of key (snd (insert_rows key ok n rs t)) k = Some r"
  using insert_rows_prefix [of key ok n rs t] row_of_append_Some by metis

lemma finished_step_keeps_withdraw:
  "finished_step st st' \<Longrightarrow> withdraw_lookup st h = Some r \<Longrightarrow> withdraw_lookup st' h = Some r"
proof (induction rule: finished_step.induct)
  case (f_wd_failed st io hs data)
  then show ?case
    by (auto simp: AddFailedWithdrawTxs_def Let_def withdraw_lookup_def with_tx_def insert_side_tx_def row_of_insert_any)
next
  case (f_wd_succeed st io hs)
  then show ?case
    by (auto simp: AddSucceedWithdrawTxs_def withdraw_lookup_def with_tx_def row_of_insert_any)
qed (auto simp: finished_pair_ops indexed_tx_def with_tx_def withdraw_lookup_def Let_def insert_side_tx_def
      AddSucceedRegisterTx_def AddSideChainTx_finished_def case_prod_beta)

end
