(* ===== verification/Props_Store.thy ===== *)
theory Props_Store
  imports Props_Base Finished_Store
begin

text \<open>
  Properties of the four stores and of the moves of a transaction from a cache to the store of
  finished transactions.
\<close>

definition side0 :: side_store where
  "side0 = \<lparr>sideChainName = ''sc'', genesisBlockAddress = ''g'', SideHeightInfo = Some 0, SideChainTxs = [],
     NFTDestroyTxs = [], ReturnDepositTransactions = []\<rparr>"

definition row0 :: side_chain_transaction where
  "row0 = \<lparr>ScTransactionHash = ''h1'', ScTransaction = snd (WithdrawTx_Serialize wire0 wtx0 []), ScBlockHeight = 9\<rparr>"

definition fin0 :: finished_store where
  "fin0 = \<lparr>DepositTransactions = [], WithdrawTransactions = [], SideChainTransactions = [], RegisterTransactions = []\<rparr>"

lemma side0_wf: "side_store_wf side0" and fin0_wf: "finished_wf fin0"
  by (simp_all add: side_store_wf_def side0_def finished_wf_def fin0_def)

section \<open>The side chain cache\<close>

text \<open>When every cached row holds the serialised form of a withdraw transaction within the limits,
  \<open>GetSideChainTxsFromHashes\<close> returns exactly the transactions of the rows whose hash was asked for,
  each once, in the order of the driver.\<close>

lemma cached_withdraws_returned:
  assumes "good_io io" "wire_ok W" "hashes \<noteq> []" "\<forall>h \<in> set hashes. no_quote h"
    and "\<forall>r \<in> set (SideChainTxs st). withdraw_tx_fits W (tx_of (ScTransactionHash r)) \<and>
          ScTransaction r = snd (WithdrawTx_Serialize W (tx_of (ScTransactionHash r)) [])"
  shows "\<exists>txs. GetSideChainTxsFromHashes W io hashes st = Inr txs \<and>
    mset txs = mset (map (\<lambda>r. tx_of (ScTransactionHash r))
      (filter (\<lambda>r. ScTransactionHash r \<in> set hashes) (SideChainTxs st)))"
proof -
  let ?rows = "filter (\<lambda>r. ScTransactionHash r \<in> set hashes) (SideChainTxs st)"
  have dec: "decode_withdraw W (ScTransaction r) = tx_of (ScTransactionHash r)" if "r \<in> set (SideChainTxs st)" for r
  proof -
    let ?t = "tx_of (ScTransactionHash r)"
    have "WithdrawTx_Serialize W ?t [] = (fst (WithdrawTx_Serialize W ?t []), ScTransaction r)" "withdraw_tx_fits W ?t"
      using assms(5) that by simp_all
    from withdraw_tx.roundtrip [OF _ this(1), of "[]"] assms(2) this(2) show ?thesis
      by (simp add: decode_withdraw_def)
  qed
  have "image_mset (decode_withdraw W \<circ> ScTransaction) (mset ?rows) =
      image_mset (\<lambda>r. tx_of (ScTransactionHash r)) (mset ?rows)"
    using dec by (intro image_mset_cong) simp
  then show ?thesis
    using good_ioD [OF assms(1)]
    by (simp add: GetSideChainTxsFromHashes_def select_in_ok [OF assms(1,3,4)] mset_arrange)
qed

lemma cached_withdraws_returned_witness:
  "\<exists>txs. GetSideChainTxsFromHashes wire0 plain_io [''h1''] (side0\<lparr>SideChainTxs := [row0]\<rparr>) = Inr txs \<and>
    mset txs = {#wtx0#}"
proof -
  have "no_quote ''h1''" by (simp add: no_quote_def)
  with cached_withdraws_returned [OF good_plain_io wire0_ok, of "[''h1'']" "side0\<lparr>SideChainTxs := [row0]\<rparr>" "\<lambda>_. wtx0"]
  show ?thesis by (simp add: row0_def wtx0_fits)
qed

text \<open>Asked for no hashes at all, the query text breaks off after the opening bracket and the call fails
  instead of returning an empty list.\<close>

lemma empty_hash_query_fails:
  assumes "other_sql io group_by_hash = None"
  shows "GetSideChainTxsFromHashes W io [] st = Inl DbErr"
proof -
  have "no_quote group_by_hash" by (simp add: no_quote_def group_by_hash_def)
  from select_in_empty [OF this assms, where key = ScTransactionHash and data = ScTransaction and t = "SideChainTxs st"]
  show ?thesis by (simp only: GetSideChainTxsFromHashes_def map_sum.simps id_apply)
qed

lemma empty_hash_query_fails_witness: "GetSideChainTxsFromHashes wire0 plain_io [] side0 = Inl DbErr"
  by (rule empty_hash_query_fails) (simp add: plain_io_def)

text \<open>Whatever the driver does, any sequence of operations on the side chain cache leaves its unique
  columns unique.\<close>

lemma side_store_reachable_wf:
  assumes "side_step\<^sup>*\<^sup>* st st'" "side_store_wf st"
  shows "side_store_wf st'"
  using assms by (induction rule: rtranclp_induct) (auto intro: side_step_wf)

lemma side_store_reachable_wf_witness:
  "side_store_wf (snd (AddSideChainTx plain_io row0 (snd (AddSideChainTx plain_io row0 side0))))"
proof -
  have "side_step\<^sup>*\<^sup>* side0 (snd (AddSideChainTx plain_io row0 side0))" by (rule r_into_rtranclp, rule add_tx)
  then have "side_step\<^sup>*\<^sup>* side0 (snd (AddSideChainTx plain_io row0 (snd (AddSideChainTx plain_io row0 side0))))"
    by (rule rtranclp.rtrancl_into_rtrancl, intro add_tx)
  from side_store_reachable_wf [OF this side0_wf] show ?thesis .
qed

text \<open>Adding withdraw transactions never replaces a cached one, makes every given hash present, and adding
  the same list again changes no answer.\<close>

lemma add_keeps_first:
  assumes "good_io io" "side_store_wf st"
  shows "dom (side_tx_lookup (snd (AddSideChainTxs io txs st))) = dom (side_tx_lookup st) \<union> ScTransactionHash ` set txs \<and>
    (side_tx_lookup st h = Some r \<longrightarrow> side_tx_lookup (snd (AddSideChainTxs io txs st)) h = Some r) \<and>
    side_tx_lookup (snd (AddSideChainTxs io txs (snd (AddSideChainTxs io txs st)))) =
      side_tx_lookup (snd (AddSideChainTxs io txs st))"
  using assms side_txs.add_keys side_txs.first_write_wins side_txs.add_idem by auto

lemma add_keeps_first_witness:
  "dom (side_tx_lookup (snd (AddSideChainTxs plain_io [row0, row0] side0))) = {''h1''}"
proof -
  have "dom (side_tx_lookup side0) = {}" by (simp add: side_tx_lookup_def row_of_def side0_def dom_def)
  then show ?thesis
    using add_keeps_first [OF good_plain_io side0_wf, of "[row0, row0]"] by (simp add: row0_def)
qed

text \<open>\<open>CurrentSideHeight\<close> with a query leaves the height; with a larger height it stores and returns it; with
  the reset code it goes to 0, unless the stored height is the code itself; a smaller one is ignored.\<close>

lemma side_height_effect:
  assumes "good_io io" "SideHeightInfo st = Some v"
  shows "CurrentSideHeight io h st =
    (if h = ResetHeightCode \<and> v \<noteq> ResetHeightCode then (0, st\<lparr>SideHeightInfo := Some 0\<rparr>)
     else (max v h, st\<lparr>SideHeightInfo := Some (max v h)\<rparr>))"
  using height_op_result [OF assms(1), of h v] assms(2) by (simp add: CurrentSideHeight_def)

lemma side_height_effect_witness: "fst (CurrentSideHeight plain_io 7 side0) = 7"
  using side_height_effect [OF good_plain_io, of side0 0 7] by (simp add: side0_def ResetHeightCode_def)

text \<open>\<open>GetReturnDepositTx\<close> scans its rows without ever advancing to the first, so it never returns a
  transaction, even one that was just stored: it is an error, or a panic when the query itself failed.\<close>

lemma return_deposit_never_found:
  "GetReturnDepositTx io txid st = (if query_ok io then Fail DbErr else Panic)"
  by (simp add: GetReturnDepositTx_def close_rows_def rows_scan_def open_rows_def)

section \<open>The main chain cache\<close>

definition spv0 :: spv_ops where
  "spv0 = \<lparr>TxBytes = (\<lambda>_. [9]), TxByBytes = (\<lambda>b. if b = [] then None else Some (tx0, tl b)), TxFill = fst,
     ProofBytes = id, ProofFill = id\<rparr>"

definition main0 :: main_store where
  "main0 = \<lparr>MainInfo = Some 0, MainChainTxs = [], mainChainHeight = 0\<rparr>"

definition mtx0 :: main_chain_transaction where
  "mtx0 = \<lparr>McTransactionHash = ''h1'', McGenesisBlockAddress = ''g'', McTransaction = tx0, McProof = [4]\<rparr>"

text \<open>In a cache with unique keys whose rows hold transactions and proofs the library can read back,
  \<open>GetMainChainTxsFromHashes\<close> gives, for the hashes in the order they were asked for, the transaction and
  proof cached for each hash and side chain, and skips the hashes that are not cached.\<close>

lemma cached_deposits_returned:
  assumes "good_io io" "main_store_wf st" "spv_ok P L"
    and "\<forall>r \<in> set (MainChainTxs st). \<exists>t p. P (t, p) \<and> spv_of (main_key r) = \<lparr>MainChainTransaction = t, SpvProof = p\<rparr> \<and>
          MrTransactionData r = TxBytes L t \<and> MrMerkleProof r = ProofBytes L p"
  shows "GetMainChainTxsFromHashes L io hashes g st =
    Inr (map (\<lambda>h. spv_of (h, g)) (filter (\<lambda>h. main_lookup st (h, g) \<noteq> None) hashes))"
proof -
  have dec: "decode_spv L r = Inr (spv_of (main_key r))" if "r \<in> set (MainChainTxs st)" for r
    using assms(3,4) that by (fastforce simp: decode_spv_def spv_ok_def)
  have key: "main_key r = k" if "row_of main_key (MainChainTxs st) k = Some r" for r k
    using that by (auto simp: row_of_def find_Some_iff)
  have "map (spv_of \<circ> main_key) (List.map_filter (row_of main_key (MainChainTxs st)) (map (\<lambda>h. (h, g)) hashes)) =
      map (\<lambda>h. spv_of (h, g)) (filter (\<lambda>h. main_lookup st (h, g) \<noteq> None) hashes)"
    by (induction hashes) (auto simp: List.map_filter_def main_lookup_def key)
  then show ?thesis
    using query_each_lookup [OF assms(1), of main_key "MainChainTxs st" "decode_spv L" "spv_of \<circ> main_key"]
      assms(2) dec by (simp add: GetMainChainTxsFromHashes_def main_store_wf_def)
qed

lemma cached_deposits_returned_witness:
  "GetMainChainTxsFromHashes spv0 plain_io [''h2'', ''h1''] ''g'' (add_main spv0 plain_io [mtx0] main0) =
     Inr [\<lparr>MainChainTransaction = tx0, SpvProof = [4]\<rparr>]"
proof -
  obtain st where st: "add_main spv0 plain_io [mtx0] main0 = st" by simp
  have rows: "MainChainTxs st = [main_row_of spv0 mtx0]"
    using good_ioD [OF good_plain_io] unfolding st [symmetric]
    by (simp add: add_main_def AddMainChainTxs_def with_tx_good case_prod_beta Let_def main0_def insert_row_def)
  have "main_store_wf st" by (simp add: main_store_wf_def rows)
  moreover have "spv_ok (\<lambda>x. fst x = tx0) spv0" by (simp add: spv_ok_def spv0_def)
  ultimately show ?thesis unfolding st
    using cached_deposits_returned [OF good_plain_io, of st "\<lambda>x. fst x = tx0" spv0
        "\<lambda>_. \<lparr>MainChainTransaction = tx0, SpvProof = [4]\<rparr>" "[''h2'', ''h1'']" "''g''"]
    by (simp add: rows main_lookup_def row_of_def main_row_of_def mtx0_def spv0_def main_key_def)
qed

text \<open>Raising the main chain height does not refresh the height that \<open>BestHeight\<close> reports to the peers: it
  goes on reporting the height it reported before, if that was not 0, until the height is queried.\<close>

lemma best_height_stale:
  assumes "good_io io" "MainInfo st = Some v" "mainChainHeight st = v" "v \<noteq> 0" "v < h" "h \<noteq> ResetHeightCode"
    and "Main_CurrentHeight io h st = (h', st')"
  shows "h' = h \<and> MainInfo st' = Some h \<and> fst (BestHeight io st') = ucast v \<and>
    fst (BestHeight io (snd (Main_CurrentHeight io QueryHeightCode st'))) = ucast h"
proof -
  have "h' = h" "st' = st\<lparr>MainInfo := Some h\<rparr>"
    using assms height_op_result [OF assms(1), of h v] good_ioD [OF assms(1)]
    by (auto simp: Main_CurrentHeight_def max_def Let_def)
  moreover have "h \<noteq> 0" using assms(5) by auto
  ultimately show ?thesis using assms good_ioD [OF assms(1)]
    by (simp add: BestHeight_def Main_CurrentHeight_def height_op_def QueryHeightCode_def Let_def)
qed

lemma best_height_stale_witness:
  "\<exists>st'. MainInfo st' = Some 9 \<and> fst (BestHeight plain_io st') = 5"
  using best_height_stale [OF good_plain_io, of "main0\<lparr>MainInfo := Some 5, mainChainHeight := 5\<rparr>" 5 9
      "fst (Main_CurrentHeight plain_io 9 (main0\<lparr>MainInfo := Some 5, mainChainHeight := 5\<rparr>))"
      "snd (Main_CurrentHeight plain_io 9 (main0\<lparr>MainInfo := Some 5, mainChainHeight := 5\<rparr>))"]
  by (auto simp: ResetHeightCode_def)

section \<open>The registrations\<close>

definition reg0 :: reg_store where "reg0 = \<lparr>RegInfo = None, RegisteredSideChains = Some []\<rparr>"

definition rtx0 :: registered_side_chain_transaction where
  "rtx0 = \<lparr>RtTransactionHash = ''h'', RtGenesisBlockAddress = ''g'',
     RtRegisteredSideChain = fresh_registered_side_chain\<lparr>SideChainName := ''ETHSC'', MagicNumber := 7\<rparr>\<rparr>"

text \<open>A registration that fits the binary form and is new is stored and read back as it was.\<close>

lemma registration_read_back:
  assumes "good_io io" "reg_open st" "reg_store_wf st" "wire_ok W"
    and "registered_side_chain_fits W (RtRegisteredSideChain tx)" "reg_lookup st (reg_arg_key tx) = None"
    and "AddRegisteredSideChainTxs W io [tx] st = (res, st')"
  shows "GetRegisteredSideChainTxsFromHashes W io [RtTransactionHash tx] (RtGenesisBlockAddress tx) st' =
    Inr [RtRegisteredSideChain tx]"
proof -
  have st': "st' = add_reg W io [tx] st" using assms(7) by (simp add: add_reg_def)
  have inv: "good_io io \<and> reg_open st' \<and> reg_store_wf st'"
    using registrations.inv_add [of io st W "[tx]"] assms(1-3) unfolding st' by blast
  have look: "reg_lookup st' (reg_arg_key tx) = Some (reg_row_of W tx)"
    using registrations.lookup_add [of io st W "[tx]" "reg_arg_key tx"] assms(1-3,6)
    by (simp add: st' row_of_def)
  obtain t where t: "RegisteredSideChains st' = Some t" using inv by (auto simp: reg_open_def)
  have "distinct (map reg_key t)" using inv t by (simp add: reg_store_wf_def)
  from query_each_lookup [OF assms(1) this, of "\<lambda>r. Inr (decode_registration W (RrRegisterInfo r))"
      "\<lambda>r. decode_registration W (RrRegisterInfo r)" "[reg_arg_key tx]"]
  show ?thesis
    using look t decode_encode_registration [OF assms(4,5)]
    by (simp add: GetRegisteredSideChainTxsFromHashes_def reg_arg_key_def reg_lookup_def List.map_filter_def reg_row_of_def)
qed

lemma registration_read_back_witness:
  "GetRegisteredSideChainTxsFromHashes wire0 plain_io [''h''] ''g'' (snd (AddRegisteredSideChainTxs wire0 plain_io [rtx0] reg0)) =
     Inr [RtRegisteredSideChain rtx0]"
  using registration_read_back [OF good_plain_io _ _ wire0_ok, of reg0 rtx0
      "fst (AddRegisteredSideChainTxs wire0 plain_io [rtx0] reg0)" "snd (AddRegisteredSideChainTxs wire0 plain_io [rtx0] reg0)"]
  by (simp add: reg0_def reg_open_def reg_store_wf_def rtx0_def registered_side_chain_fits_def
      fresh_registered_side_chain_def wire0_def zero_uint256_def reg_lookup_def row_of_def)

text \<open>The registration store has no height: its file never gets the table \<open>CurrentHeight\<close> works on, so from
  a store as it is opened, \<open>CurrentHeight\<close> answers 0 and changes nothing, whatever height it is given.\<close>

lemma registration_height_lost:
  assumes "initRegisterSideChainDB io \<lparr>RegInfo = None, RegisteredSideChains = None\<rparr> = Inr st"
  shows "Reg_CurrentHeight io' h st = (0, st)"
  using assms by (auto simp: initRegisterSideChainDB_def Reg_CurrentHeight_def split: if_splits)

lemma registration_height_lost_witness: "Reg_CurrentHeight plain_io 42 reg0 = (0, reg0)"
  by (rule registration_height_lost [of plain_io]) (simp add: initRegisterSideChainDB_def reg0_def plain_io_def)

section \<open>Finished transactions\<close>

text \<open>A withdraw recorded as failed for the first time is found again together with the transaction that
  failed.\<close>

lemma failed_withdraw_recorded:
  assumes "good_io io" "finished_wf t" "withdraw_lookup t h = None" "h \<in> set hs"
    and "AddFailedWithdrawTxs io hs data t = (res, t')"
  shows "res = Inr () \<and> GetWithdrawTxByHash io h t' = Inr (False, Some data)"
proof -
  let ?i = "max_id (SideChainTransactions t) + 1"
  have t': "t' = snd (AddFailedWithdrawTxs io hs data t)" "res = Inr ()"
    using assms(5) withdraws_failed [OF assms(1), of hs data t] by auto
  have "row_of WdTransactionHash (map (withdraw_row_of ?i False) hs) h = Some (withdraw_row_of ?i False h)"
    using assms(4) by (induction hs) (auto simp: row_of_def withdraw_row_of_def)
  then have look: "withdraw_lookup t' h = Some (withdraw_row_of ?i False h)"
    using failed_withdraws.lookup_add [of io t hs data h] assms(1-3) by (simp add: t'(1))
  have "SideChainTransactions t' = SideChainTransactions t @ [\<lparr>SxId = ?i, SxTransactionData = data\<rparr>]"
    by (simp add: t'(1) withdraws_failed [OF assms(1)] insert_side_tx_def)
  moreover have "?i \<notin> SxId ` set (SideChainTransactions t)" using max_id_upper by fastforce
  then have "row_of SxId (SideChainTransactions t) ?i = None" by (simp only: row_of_None simp_thms)
  ultimately have "row_of SxId (SideChainTransactions t') ?i = Some \<lparr>SxId = ?i, SxTransactionData = data\<rparr>"
    by (simp add: row_of_def find_append)
  then show ?thesis
    using GetWithdrawTxByHash_lookup [OF assms(1), of t' h] AddFailedWithdrawTxs_wf [OF assms(2), of io hs data] look
    by (simp add: t' withdraw_row_of_def)
qed

lemma failed_withdraw_recorded_witness:
  "GetWithdrawTxByHash plain_io ''h'' (snd (AddFailedWithdrawTxs plain_io [''g'', ''h''] [1, 2] fin0)) = Inr (False, Some [1, 2])"
  using failed_withdraw_recorded [OF good_plain_io fin0_wf, of "''h''" "[''g'', ''h'']" "[1, 2]"
      "fst (AddFailedWithdrawTxs plain_io [''g'', ''h''] [1, 2] fin0)" "snd (AddFailedWithdrawTxs plain_io [''g'', ''h''] [1, 2] fin0)"]
  by (simp add: withdraw_lookup_def row_of_def fin0_def)

text \<open>The first verdict on a withdraw is final: no later sequence of operations, whatever the driver does,
  changes what is recorded for it.\<close>

lemma verdict_final:
  assumes "finished_step\<^sup>*\<^sup>* t t'" "withdraw_lookup t h = Some r"
  shows "withdraw_lookup t' h = Some r"
  using assms by (induction rule: rtranclp_induct) (auto intro: finished_step_keeps_withdraw)

lemma verdict_final_witness:
  "withdraw_lookup (snd (AddFailedWithdrawTxs plain_io [''h''] [1] (fin0\<lparr>WithdrawTransactions := [withdraw_row_of 0 True ''h'']\<rparr>))) ''h'' =
     Some (withdraw_row_of 0 True ''h'')"
proof -
  let ?t = "fin0\<lparr>WithdrawTransactions := [withdraw_row_of 0 True ''h'']\<rparr>"
  have "finished_step\<^sup>*\<^sup>* ?t (snd (AddFailedWithdrawTxs plain_io [''h''] [1] ?t))" by (rule r_into_rtranclp, rule f_wd_failed)
  from verdict_final [OF this] show ?thesis by (simp add: withdraw_lookup_def row_of_def withdraw_row_of_def)
qed

text \<open>C39: After any sequence of operations with any faults of the driver, a lookup of a withdraw without faults
  answers success, or failure with the failed transaction, or that it is not known: never that the
  transaction it refers to is missing.\<close>

theorem no_dangling_withdraw:
  assumes "finished_step\<^sup>*\<^sup>* t t'" "finished_wf t" "good_io io"
  shows "GetWithdrawTxByHash io h t' \<in> {Inr (True, None), Inl (Err ''get withdraw transaction by hash failed'')} \<union>
    {Inr (False, Some (SxTransactionData s)) |s. s \<in> set (SideChainTransactions t')}"
proof -
  have wf: "finished_wf t'" using assms(1,2) by (induction rule: rtranclp_induct) (auto intro: finished_step_wf)
  show ?thesis
  proof (cases "withdraw_lookup t' h")
    case None
    then show ?thesis by (simp add: GetWithdrawTxByHash_lookup [OF assms(3) wf])
  next
    case (Some r)
    then have r: "r \<in> set (WithdrawTransactions t')"
      unfolding withdraw_lookup_def row_of_def by (metis find_Some_iff nth_mem)
    show ?thesis
    proof (cases "WdSucceed r")
      case False
      then have "WdSideChainTransactionId r \<in> SxId ` set (SideChainTransactions t')"
        using wf r by (simp add: finished_wf_def)
      then obtain s where s: "row_of SxId (SideChainTransactions t') (WdSideChainTransactionId r) = Some s"
        using row_of_None [of SxId "SideChainTransactions t'" "WdSideChainTransactionId r"] by auto
      then have "s \<in> set (SideChainTransactions t')"
        unfolding row_of_def by (metis find_Some_iff nth_mem)
      moreover have "GetWithdrawTxByHash io h t' = Inr (False, Some (SxTransactionData s))"
        using Some s False by (simp add: GetWithdrawTxByHash_lookup [OF assms(3) wf])
      ultimately show ?thesis by blast
    next
      case True
      then have "GetWithdrawTxByHash io h t' = Inr (True, None)"
        using Some by (simp only: GetWithdrawTxByHash_lookup [OF assms(3) wf] option.case if_True)
      then show ?thesis by blast
    qed
  qed
qed

theorem no_dangling_withdraw_witness:
  "GetWithdrawTxByHash plain_io ''h'' fin0 \<in> {Inr (True, None), Inl (Err ''get withdraw transaction by hash failed'')} \<union>
    {Inr (False, Some (SxTransactionData s)) |s. s \<in> set (SideChainTransactions fin0)}"
  by (rule no_dangling_withdraw [OF rtranclp.rtrancl_refl fin0_wf good_plain_io])

section \<open>Moving a transaction out of its cache\<close>

text \<open>Moving withdraws from the cache of a side chain to the finished ones loses none and leaves none in
  both: afterwards a hash is cached or finished exactly if it was before or was moved, it is not both
  if it was not before, and every moved hash is finished.\<close>

lemma withdraw_moved:
  assumes "good_io io" "side_store_wf s" "finished_wf t"
    and "RemoveSideChainTxs io hs s = (r1, s')" "AddSucceedWithdrawTxs io hs t = (r2, t')"
  shows "dom (side_tx_lookup s') \<union> dom (withdraw_lookup t') = dom (side_tx_lookup s) \<union> dom (withdraw_lookup t) \<union> set hs \<and>
    (dom (side_tx_lookup s) \<inter> dom (withdraw_lookup t) = {} \<longrightarrow> dom (side_tx_lookup s') \<inter> dom (withdraw_lookup t') = {}) \<and>
    set hs \<subseteq> dom (withdraw_lookup t')"
proof (intro conjI)
  have s': "s' = snd (RemoveSideChainTxs io hs s)" "t' = snd (AddSucceedWithdrawTxs io hs t)" using assms(4,5) by simp_all
  have inv: "good_io io \<and> side_store_wf s" "good_io io \<and> finished_wf t" "(\<lambda>h. h) ` set hs = set hs" using assms(1-3) by simp_all
  show "dom (side_tx_lookup s') \<union> dom (withdraw_lookup t') = dom (side_tx_lookup s) \<union> dom (withdraw_lookup t) \<union> set hs"
    unfolding s' by (rule withdraw_move.transfer_no_loss [OF inv])
  show "dom (side_tx_lookup s) \<inter> dom (withdraw_lookup t) = {} \<longrightarrow> dom (side_tx_lookup s') \<inter> dom (withdraw_lookup t') = {}"
    unfolding s' using withdraw_move.transfer_exclusive [OF inv] by blast
  show "set hs \<subseteq> dom (withdraw_lookup t')"
    unfolding s' using withdraw_move.transfer_keys(2) [OF inv] by blast
qed

lemma withdraw_moved_witness:
  "dom (side_tx_lookup (snd (RemoveSideChainTxs plain_io [''h1''] (side0\<lparr>SideChainTxs := [row0]\<rparr>)))) \<inter>
     dom (withdraw_lookup (snd (AddSucceedWithdrawTxs plain_io [''h1''] fin0))) = {}"
proof -
  have "side_store_wf (side0\<lparr>SideChainTxs := [row0]\<rparr>)" by (simp add: side_store_wf_def side0_def)
  moreover have "dom (withdraw_lookup fin0) = {}" by (simp add: withdraw_lookup_def row_of_def fin0_def dom_def)
  ultimately show ?thesis
    using withdraw_moved [OF good_plain_io _ fin0_wf, of "side0\<lparr>SideChainTxs := [row0]\<rparr>" "[''h1'']"]
    by (metis inf_bot_right prod.collapse)
qed

text \<open>Moving deposits from the main chain cache to the finished ones, as succeeded or as failed, loses none
  and leaves none in both, keyed by transaction and side chain.\<close>

lemma deposit_moved:
  assumes "good_io io" "main_store_wf s" "finished_wf t" "length hs = length gs"
    and "RemoveMainChainTxs io hs gs s = (r1, s')"
    and "(if succeed then AddSucceedDepositTxs else AddFailedDepositTxs) io hs gs t = (r2, t')"
  shows "r1 = Done () \<and> r2 = Done () \<and>
    dom (main_lookup s') \<union> dom (deposit_lookup t') = dom (main_lookup s) \<union> dom (deposit_lookup t) \<union> set (zip hs gs) \<and>
    (dom (main_lookup s) \<inter> dom (deposit_lookup t) = {} \<longrightarrow> dom (main_lookup s') \<inter> dom (deposit_lookup t') = {})"
proof -
  let ?ks = "zip hs gs"
  have s': "s' = remove_main io ?ks s" "t' = add_deposits succeed io ?ks t"
    using assms(4-6) by (simp_all add: remove_main_def add_deposits_def)
  have "r1 = Done ()" "r2 = Done ()"
    using assms(4-6) by (auto simp: RemoveMainChainTxs_def finished_pair_ops indexed_tx_good [OF assms(1)] split: if_splits)
  moreover have inv: "good_io io \<and> main_store_wf s" "good_io io \<and> finished_wf t" "(\<lambda>k. k) ` set ?ks = set ?ks"
    using assms(1-3) by simp_all
  ultimately show ?thesis
    unfolding s' using deposit_move.transfer_no_loss [OF inv] deposit_move.transfer_exclusive [OF inv] by auto
qed

lemma deposit_moved_witness:
  "fst (RemoveMainChainTxs plain_io [''h''] [''g''] main0) = Done () \<and>
   fst (AddSucceedDepositTxs plain_io [''h''] [''g''] fin0) = Done ()"
proof -
  have "main_store_wf main0" by (simp add: main_store_wf_def main0_def)
  from deposit_moved [OF good_plain_io this fin0_wf, of "[''h'']" "[''g'']"
      "fst (RemoveMainChainTxs plain_io [''h''] [''g''] main0)" "snd (RemoveMainChainTxs plain_io [''h''] [''g''] main0)"
      True "fst (AddSucceedDepositTxs plain_io [''h''] [''g''] fin0)" "snd (AddSucceedDepositTxs plain_io [''h''] [''g''] fin0)"]
  show ?thesis by simp
qed

end
