(* ===== verification/Schnorr.thy ===== *)
theory Schnorr
  imports Cs_Item "HOL-Library.AList"
begin

text \<open>
  \<open>arbitration/crypto/schnorr.go\<close>: the arithmetic of the joint Schnorr signature. The curve P-256, SHA-256
  and the Jacobi symbol are the standard library's and stay arguments (record \<open>curve\<close>); numbers are
  the naturals that \<open>big.Int\<close> holds here.
\<close>

record curve =
  CurveAdd :: "nat \<times> nat \<Rightarrow> nat \<times> nat \<Rightarrow> nat \<times> nat"
  ScalarBaseMult :: "nat \<Rightarrow> nat \<times> nat"
  Sha256 :: "bytes \<Rightarrow> bytes"
  CurveN :: nat
  CurveP :: nat
  Jacobi :: "nat \<Rightarrow> nat \<Rightarrow> int"

text \<open>\<open>copy(b1[32-len(b2):], b2)\<close>: longer input is a slice panic, here no value.\<close>

definition IntToByte :: "nat \<Rightarrow> bytes option" where
  "IntToByte i =
     (let b2 = nat_bytes i in if length b2 > 32 then None else Some (replicate (32 - length b2) 0 @ b2))"

text \<open>The compressed point: 2 or 3 for the parity of y, and x in 32 bytes.\<close>

definition Marshal :: "nat \<Rightarrow> nat \<Rightarrow> bytes option" where
  "Marshal x y = map_option (\<lambda>xb. (2 + of_nat (y mod 2)) # xb) (IntToByte x)"

definition getE :: "curve \<Rightarrow> nat \<times> nat \<Rightarrow> bytes \<Rightarrow> bytes \<Rightarrow> nat option" where
  "getE K p rX m =
     map_option (\<lambda>pb. SetBytes (Sha256 K (rX @ pb @ m)) mod CurveN K) (Marshal (fst p) (snd p))"

fun sum_points :: "curve \<Rightarrow> nat \<times> nat \<Rightarrow> (nat \<times> nat) list \<Rightarrow> nat \<times> nat" where
  "sum_points K p [] = p"
| "sum_points K p (q # qs) = sum_points K (CurveAdd K p q) qs"

definition GetE :: "curve \<Rightarrow> krp list \<Rightarrow> bytes \<Rightarrow> nat option" where
  "GetE K rs message =
     (let p = sum_points K (0, 0) (map (\<lambda>r. (Px r, Py r)) rs);
          r = sum_points K (0, 0) (map (\<lambda>r. (Rx r, Ry r)) rs)
      in case IntToByte (fst r) of None \<Rightarrow> None | Some rX \<Rightarrow> getE K p rX message)"

definition GetEMulPrivateKey :: "nat \<Rightarrow> nat \<Rightarrow> nat" where
  "GetEMulPrivateKey privateKey e = e * privateKey"

text \<open>The result is the number \<open>k0\<close> itself, which \<open>k0.Sub(N, k0)\<close> overwrites; see \<open>sum_k\<close> of \<open>Cs_Server\<close>.\<close>

definition GetK :: "curve \<Rightarrow> nat \<Rightarrow> int \<Rightarrow> int" where
  "GetK K ry k0 = (if Jacobi K ry (CurveP K) = 1 then k0 else int (CurveN K) - k0)"

definition GetS :: "curve \<Rightarrow> nat \<Rightarrow> int \<Rightarrow> bytes option" where
  "GetS K rx s =
     (case (IntToByte rx, IntToByte (nat (s mod int (CurveN K)))) of
        (Some a, Some b) \<Rightarrow> Some (a @ b) | _ \<Rightarrow> None)"

text \<open>The key range test, the random \<open>message\<close> and its failure (\<open>None\<close>) as arguments.\<close>

definition GetR :: "curve \<Rightarrow> bytes option \<Rightarrow> nat \<Rightarrow> go_error + krp" where
  "GetR K message privateKey =
     (if privateKey < 1 \<or> privateKey > CurveN K - 1
      then Inl (Err ''the private key must be an integer in the range 1..n-1'')
      else (case (IntToByte privateKey, message) of
              (None, _) \<Rightarrow> Inl GoPanic
            | (_, None) \<Rightarrow> Inl (Err ''random bytes error:'')
            | (Some d, Some m) \<Rightarrow>
                (let k0 = SetBytes (Sha256 K (d @ m)) mod CurveN K
                 in if k0 = 0 then Inl (Err ''k0 is zero'')
                    else Inr \<lparr>K0 = int k0, Rx = fst (ScalarBaseMult K k0), Ry = snd (ScalarBaseMult K k0),
                              Px = fst (ScalarBaseMult K privateKey), Py = snd (ScalarBaseMult K privateKey)\<rparr>)))"

section \<open>Facts\<close>

lemma IntToByte_length: "IntToByte i = Some b \<Longrightarrow> length b = 32"
  by (auto simp: IntToByte_def Let_def split: if_splits)

lemma foldl_zeros: "foldl (\<lambda>a (b :: byte). a * 256 + unat b) 0 (replicate n 0 @ bs) = foldl (\<lambda>a b. a * 256 + unat b) 0 bs"
  by (induction n) auto

lemma SetBytes_IntToByte: "IntToByte i = Some b \<Longrightarrow> SetBytes b = i"
  using foldl_zeros [of "32 - length (nat_bytes i)" "nat_bytes i"] SetBytes_nat_bytes [of i]
  by (auto simp: IntToByte_def Let_def SetBytes_def split: if_splits)

lemma IntToByte_defined: "i < 2 ^ 256 \<Longrightarrow> IntToByte i \<noteq> None"
  using length_nat_bytes [of i 32] by (simp add: IntToByte_def Let_def)

text \<open>
  The heart of the joint signature: the sum of \<open>k + e d\<close> over the signers is the sum of the nonces
  plus \<open>e\<close> times the sum of the keys.
\<close>

lemma sum_shares:
  "sum_list (map (\<lambda>(k, d). k + int (GetEMulPrivateKey d e)) xs) =
    sum_list (map fst xs) + int e * int (sum_list (map snd xs))"
  by (induction xs) (auto simp: GetEMulPrivateKey_def algebra_simps)

text \<open>
  The laws of the curve group the signature rests on, for the multiples of the base point; \<open>(0, 0)\<close> is
  the point at infinity.
\<close>

definition curve_ok :: "curve \<Rightarrow> bool" where
  "curve_ok K \<longleftrightarrow> 0 < CurveN K \<and>
     (\<forall>a. CurveAdd K (0, 0) (ScalarBaseMult K a) = ScalarBaseMult K a) \<and>
     (\<forall>a b. CurveAdd K (ScalarBaseMult K a) (ScalarBaseMult K b) = ScalarBaseMult K (a + b)) \<and>
     (\<forall>a. ScalarBaseMult K (a mod CurveN K) = ScalarBaseMult K a)"

lemma sum_points_from:
  "curve_ok K \<Longrightarrow> sum_points K (ScalarBaseMult K a) (map (ScalarBaseMult K) ks) = ScalarBaseMult K (a + sum_list ks)"
  by (induction ks arbitrary: a) (auto simp: curve_ok_def add.assoc)

lemma sum_points_base:
  "curve_ok K \<Longrightarrow> ks \<noteq> [] \<Longrightarrow> sum_points K (0, 0) (map (ScalarBaseMult K) ks) = ScalarBaseMult K (sum_list ks)"
  by (cases ks) (auto simp: sum_points_from curve_ok_def)

text \<open>The multiple of the base point for a residue of an integer.\<close>

lemma base_mod_int:
  assumes "curve_ok K" "s mod int (CurveN K) = int m mod int (CurveN K)"
  shows "ScalarBaseMult K (nat (s mod int (CurveN K))) = ScalarBaseMult K m"
proof -
  have "nat (s mod int (CurveN K)) = m mod CurveN K" using assms(2) by (simp flip: zmod_int)
  then show ?thesis using assms(1) by (simp add: curve_ok_def)
qed

lemma base_mod_add:
  assumes "curve_ok K" "(s + int r) mod int (CurveN K) = int m mod int (CurveN K)"
  shows "CurveAdd K (ScalarBaseMult K (nat (s mod int (CurveN K)))) (ScalarBaseMult K r) = ScalarBaseMult K m"
proof -
  have N: "0 < int (CurveN K)" using assms(1) by (simp add: curve_ok_def)
  have "int ((nat (s mod int (CurveN K)) + r) mod CurveN K) = (s mod int (CurveN K) + int r) mod int (CurveN K)"
    using N by (simp add: zmod_int)
  also have "\<dots> = int (m mod CurveN K)" using assms(2) by (simp add: zmod_int mod_add_left_eq)
  finally have "(nat (s mod int (CurveN K)) + r) mod CurveN K = m mod CurveN K" by linarith
  then show ?thesis using assms(1) by (metis curve_ok_def)
qed

lemma GetS_parts:
  assumes "GetS K rx s = Some sg"
  shows "length sg = 64 \<and> SetBytes (take 32 sg) = rx \<and> SetBytes (drop 32 sg) = nat (s mod int (CurveN K))"
proof -
  obtain a b where ab: "IntToByte rx = Some a" "IntToByte (nat (s mod int (CurveN K))) = Some b" "sg = a @ b"
    using assms by (auto simp: GetS_def split: option.splits)
  then show ?thesis using IntToByte_length [OF ab(1)] IntToByte_length [OF ab(2)]
      SetBytes_IntToByte [OF ab(1)] SetBytes_IntToByte [OF ab(2)] by simp
qed

end
