(* ===== verification/Cs_Server.thy ===== *)
theory Cs_Server
  imports Schnorr
begin

text \<open>
  \<open>arbitration/cs/distributednodeserver.go\<close>: the proposals of the arbiter on duty. It signs a
  transaction, broadcasts it, merges the signatures that come back and submits the transaction when
  the quorum is reached; and the same in two rounds for a joint Schnorr signature. \<open>withdrawMux\<close> is
  always released by a \<open>defer\<close> and serialises the feedback; \<open>mux\<close> is released by hand on many paths, so
  it is part of the state: to lock it while it is held is to block for ever. \<open>tryInit\<close> has run (it makes
  the maps before every use). Messages sent and contents submitted are recorded in order, last first.
\<close>

record dns =
  unsolvedContents :: "uint256 \<rightharpoonup> content"
  unsolvedContentsSignature :: "uint256 \<rightharpoonup> uint160 set"
  schnorrTransaction :: "uint256 \<rightharpoonup> transaction"
  requestRSigners :: "uint256 \<rightharpoonup> (string \<times> krp) list"
  requestSSigners :: "uint256 \<rightharpoonup> (string \<times> nat) list"
  UnsignedSigners :: "string \<rightharpoonup> u64"
  mux_locked :: bool
  sent :: "bytes list"
  timers :: "uint256 list"             \<comment> \<open>nonce hashes queued to itself by \<open>sendSchnorrItemMsgToSelf\<close>\<close>
  submitted :: "content list"

text \<open>Everything outside this component: library, configuration, account, node, and the outcome of
  \<open>Submit\<close>, which panics when the main chain node is silent (theory \<open>Submit\<close>). \<open>eSort\<close> is what \<open>sort.Slice\<close> makes of the signers with the code's comparison, which is no
  strict order (two signers without an entry are each less than the other).\<close>

record cs_env =
  eC :: crypto
  eW :: wire
  eT :: tx_ops
  eV :: ev_ops
  eK :: curve
  eCfg :: config
  eGroup :: arb_group
  eAcc :: account
  eFunc :: item_func
  eHash :: "bytes \<Rightarrow> uint256"
  eSchnorrScript :: "public_key \<Rightarrow> bytes option"
  eSort :: "string list \<Rightarrow> string list"
  eSubmit :: "content \<Rightarrow> unit outcome"

definition Reset :: "dns \<Rightarrow> dns" where
  "Reset d = d\<lparr>unsolvedContents := Map.empty, unsolvedContentsSignature := Map.empty,
     schnorrTransaction := Map.empty, requestRSigners := Map.empty, requestSSigners := Map.empty\<rparr>"

definition quorum :: "cs_env \<Rightarrow> nat" where
  "quorum E = getTransactionAgreementArbitratorsCount (eCfg E) (currentHeight (eGroup E))
     (length (arbitrators (eGroup E)))"

definition lock :: "(dns \<Rightarrow> 'a outcome \<times> dns) \<Rightarrow> dns \<Rightarrow> 'a outcome \<times> dns" where
  "lock body d = (if mux_locked d then (Blocked, d) else body (d\<lparr>mux_locked := True\<rparr>))"

definition unlock :: "'a \<Rightarrow> dns \<Rightarrow> 'a \<times> dns" where
  "unlock r d = (r, d\<lparr>mux_locked := False\<rparr>)"

definition my_hash :: "cs_env \<Rightarrow> uint168 outcome" where
  "my_hash E =
     (case EncodePoint (eC E) (MyPublicKey (eAcc E)) of
        None \<Rightarrow> Fail ExtErr
      | Some pkBuf \<Rightarrow> (case PublicKeyToStandardProgramHash (eC E) pkBuf of None \<Rightarrow> Fail ExtErr | Some h \<Rightarrow> Done h))"

definition tx_kind :: "transaction \<Rightarrow> byte" where
  "tx_kind tx = (case TxType tx of TxReturnCRDepositCoin \<Rightarrow> ReturnDepositTransaction
     | TxNFTDestroyFromSideChain \<Rightarrow> NFTDestroyTransaction | _ \<Rightarrow> WithdrawTransaction)"

text \<open>The Schnorr broadcasts have no case for NFT transactions.\<close>

definition schnorr_kind :: "transaction \<Rightarrow> byte" where
  "schnorr_kind tx = (case TxType tx of TxReturnCRDepositCoin \<Rightarrow> ReturnDepositTransaction | _ \<Rightarrow> WithdrawTransaction)"

section \<open>Multi-signature proposals\<close>

definition register_proposal :: "cs_env \<Rightarrow> bytes \<Rightarrow> uint160 \<Rightarrow> content \<Rightarrow> dns \<Rightarrow> bytes outcome \<times> dns" where
  "register_proposal E buf codeHash content =
     lock (\<lambda>d.
       let hash = content_Hash (eT E) (eV E) content
       in if unsolvedContents d hash \<noteq> None
          then unlock (Fail (Err ''transaction already in process'')) d
          else unlock (Done buf)
            (d\<lparr>unsolvedContents := (unsolvedContents d)(hash \<mapsto> content),
               unsolvedContentsSignature := (unsolvedContentsSignature d)(hash \<mapsto> {codeHash})\<rparr>))"

definition generateDistributedProposal :: "cs_env \<Rightarrow> byte \<Rightarrow> byte \<Rightarrow> content \<Rightarrow> dns \<Rightarrow> bytes outcome \<times> dns" where
  "generateDistributedProposal E txType cType itemContent d =
     (case my_hash E of
        Done programHash \<Rightarrow>
          (case CreateRedeemScript (eC E) (eCfg E) (eGroup E) of
             Inl e \<Rightarrow> (Fail e, d)
           | Inr script \<Rightarrow>
               (case Sign (eC E) (eT E) (eV E) (eAcc E) False (eFunc E)
                       (fresh_item\<lparr>ItemContent := Some itemContent,
                          TargetArbitratorPublicKey := Some (MyPublicKey (eAcc E)),
                          TargetArbitratorProgramHash := programHash, TransactionType := txType,
                          ItemType := cType, redeemScript := script\<rparr>) of
                  Done transactionItem \<Rightarrow>
                    (case Item_Serialize (eC E) (eW E) (eT E) (eV E) transactionItem [] of
                       (Some e, _) \<Rightarrow> (fail_of e, d)
                     | (None, buf) \<Rightarrow>
                         (case InitSign (signed_bytes transactionItem) itemContent of
                            Done content \<Rightarrow>
                              register_proposal E buf (ToCodeHash (eC E) programHash) content d
                          | other \<Rightarrow> (Panic, d)))
                | Fail e \<Rightarrow> (Fail e, d)
                | other \<Rightarrow> (Panic, d)))
      | Fail e \<Rightarrow> (Fail e, d)
      | other \<Rightarrow> (Panic, d))"

definition sendToArbitrator :: "bytes \<Rightarrow> dns \<Rightarrow> dns" where
  "sendToArbitrator content d = d\<lparr>sent := content # sent d\<rparr>"

definition send_proposal :: "bytes outcome \<times> dns \<Rightarrow> unit outcome \<times> dns" where
  "send_proposal res =
     (case fst res of Done proposal \<Rightarrow> (Done (), sendToArbitrator proposal (snd res))
      | Fail e \<Rightarrow> (Fail e, snd res) | Panic \<Rightarrow> (Panic, snd res) | Blocked \<Rightarrow> (Blocked, snd res))"

definition BroadcastWithdrawProposal :: "cs_env \<Rightarrow> transaction \<Rightarrow> dns \<Rightarrow> unit outcome \<times> dns" where
  "BroadcastWithdrawProposal E txn d =
     send_proposal (generateDistributedProposal E (tx_kind txn) MultisigContent (TxContent txn) d)"

definition BroadcastSidechainIllegalData :: "cs_env \<Rightarrow> illegal_evidence \<Rightarrow> dns \<Rightarrow> unit outcome \<times> dns" where
  "BroadcastSidechainIllegalData E data d =
     send_proposal (generateDistributedProposal E IllegalTransaction IllegalContent (IllegalDistributedContent data) d)"

text \<open>
  The content is merged through its pointer, outside the lock. The write into a signer set that is
  not there is a write to a nil map.
\<close>

definition receiveWithdrawProposalFeedback :: "cs_env \<Rightarrow> item \<Rightarrow> dns \<Rightarrow> unit outcome \<times> dns" where
  "receiveWithdrawProposalFeedback E transactionItem d =
     (case ParseFeedbackSignedData (eC E) (eT E) (eV E) transactionItem of
        Done (newSign, msg) \<Rightarrow>
          if msg \<noteq> [] then (Done (), d)
          else (case ItemContent transactionItem of
            None \<Rightarrow> (Panic, d)
          | Some c \<Rightarrow>
              lock (\<lambda>d0.
                let hash = content_Hash (eT E) (eV E) c; d = d0\<lparr>mux_locked := False\<rparr>
                in case unsolvedContents d hash of
                     None \<Rightarrow> (Fail (Err ''can not find proposal''), d)
                   | Some txn \<Rightarrow>
                       (let targetCodeHash = ToCodeHash (eC E) (TargetArbitratorProgramHash transactionItem)
                        in if (case unsolvedContentsSignature d hash of None \<Rightarrow> False
                               | Some signs \<Rightarrow> targetCodeHash \<in> signs) then (Done (), d)
                           else (case MergeSign (eC E) (eT E) newSign targetCodeHash txn of
                                   Fail e \<Rightarrow> (Fail e, d)
                                 | Panic \<Rightarrow> (Panic, d)
                                 | Blocked \<Rightarrow> (Blocked, d)
                                 | Done (signedCount, txn') \<Rightarrow>
                                     (case unsolvedContentsSignature d hash of
                                        None \<Rightarrow> (Panic, d)
                                      | Some signs \<Rightarrow>
                                          (let d1 = d\<lparr>unsolvedContents := (unsolvedContents d)(hash \<mapsto> txn'),
                                                unsolvedContentsSignature := (unsolvedContentsSignature d)
                                                  (hash \<mapsto> insert targetCodeHash signs)\<rparr>
                                           in if signedCount < quorum E then (Done (), d1)
                                              else (eSubmit E txn',
                                                    d1\<lparr>unsolvedContents := (unsolvedContents d1)(hash := None),
                                                       unsolvedContentsSignature := (unsolvedContentsSignature d1)(hash := None),
                                                       submitted := txn' # submitted d1\<rparr>)))))) d)
      | Fail e \<Rightarrow> (Fail e, d)
      | Panic \<Rightarrow> (Panic, d)
      | Blocked \<Rightarrow> (Blocked, d))"

section \<open>Schnorr proposals\<close>

definition generateDistributedSchnorrProposal2 ::
    "cs_env \<Rightarrow> transaction \<Rightarrow> byte \<Rightarrow> byte \<Rightarrow> request_r \<Rightarrow> dns \<Rightarrow> bytes outcome \<times> dns" where
  "generateDistributedSchnorrProposal2 E txn txType cType content d =
     (case my_hash E of
        Done programHash \<Rightarrow>
          (case Item_Serialize (eC E) (eW E) (eT E) (eV E)
                  (fresh_item\<lparr>TargetArbitratorPublicKey := Some (MyPublicKey (eAcc E)),
                     TargetArbitratorProgramHash := programHash, TransactionType := txType,
                     ItemType := cType, RequestRContent := content\<rparr>) [] of
             (Some e, _) \<Rightarrow> (fail_of e, d)
           | (None, buf) \<Rightarrow>
               lock (\<lambda>d.
                 let hash = eHash E (RNonce content)
                 in if schnorrTransaction d hash \<noteq> None
                    then unlock (Fail (Err ''transaction already in process'')) d
                    else unlock (Done buf)
                      (d\<lparr>schnorrTransaction := (schnorrTransaction d)(hash \<mapsto> txn),
                         requestRSigners := (requestRSigners d)(hash \<mapsto> [])\<rparr>)) d)
      | Fail e \<Rightarrow> (Fail e, d)
      | other \<Rightarrow> (Panic, d))"

definition my_key_string :: "cs_env \<Rightarrow> string option" where
  "my_key_string E = map_option (BytesToHexString (eC E)) (EncodePoint (eC E) (MyPublicKey (eAcc E)))"

text \<open>\<open>GetCurrentArbitratorPublicKey\<close> panics when the own key cannot be encoded.\<close>

definition recordKRPOfMyself :: "cs_env \<Rightarrow> uint256 \<Rightarrow> dns \<Rightarrow> unit outcome \<times> dns" where
  "recordKRPOfMyself E nonceHash d =
     (case my_key_string E of
        None \<Rightarrow> (Panic, d)
      | Some strPK \<Rightarrow>
          (case GetSchnorrR (eAcc E) of
             None \<Rightarrow> (Fail ExtErr, d)
           | Some r \<Rightarrow>
               (case requestRSigners d nonceHash of
                  None \<Rightarrow> (Panic, d)
                | Some signers \<Rightarrow>
                    (Done (), d\<lparr>requestRSigners := (requestRSigners d)(nonceHash \<mapsto> AList.update strPK r signers)\<rparr>))))"

definition BroadcastSchnorrWithdrawProposal2 :: "cs_env \<Rightarrow> transaction \<Rightarrow> dns \<Rightarrow> unit outcome \<times> dns" where
  "BroadcastSchnorrWithdrawProposal2 E txn d =
     (let content = fresh_request_r\<lparr>RNonce := TxHash (eT E) txn\<rparr>; nonceHash = eHash E (RNonce content)
      in case generateDistributedSchnorrProposal2 E txn (schnorr_kind txn) SchnorrMultisigContent2 content d of
           (Done proposal, d1) \<Rightarrow>
             (case recordKRPOfMyself E nonceHash d1 of
                (Done _, d2) \<Rightarrow> (Done (), (sendToArbitrator proposal d2)\<lparr>timers := nonceHash # timers d2\<rparr>)
              | other \<Rightarrow> other)
         | (Fail e, d1) \<Rightarrow> (Fail e, d1)
         | (Panic, d1) \<Rightarrow> (Panic, d1)
         | (Blocked, d1) \<Rightarrow> (Blocked, d1))"

definition receiveSchnorrWithdrawProposal2Feedback :: "cs_env \<Rightarrow> item \<Rightarrow> dns \<Rightarrow> unit outcome \<times> dns" where
  "receiveSchnorrWithdrawProposal2Feedback E transactionItem d =
     (case CheckSchnorrFeedbackRequestRSignedData (eC E) (eW E) transactionItem of
        Done _ \<Rightarrow>
          lock (\<lambda>d.
            let hash = eHash E (RNonce (RequestRContent transactionItem))
            in if schnorrTransaction d hash = None
               then unlock (Fail (Err ''can not find proposal transaction'')) d
               else (case requestRSigners d hash of
                       None \<Rightarrow> unlock (Fail (Err ''can not find RequestR signer'')) d
                     | Some signers \<Rightarrow>
                         (case Option.bind (TargetArbitratorPublicKey transactionItem) (EncodePoint (eC E)) of
                            None \<Rightarrow> unlock (Fail (Err ''invalid TargetArbitratorPublicKey'')) d
                          | Some pkBuf \<Rightarrow>
                              (let strPK = BytesToHexString (eC E) pkBuf
                               in if map_of signers strPK \<noteq> None then unlock (Done ()) d
                                  else unlock (Done ()) (d\<lparr>requestRSigners := (requestRSigners d)
                                    (hash \<mapsto> AList.update strPK (RR (RequestRContent transactionItem)) signers)\<rparr>))))) d
      | Fail e \<Rightarrow> (Fail e, d)
      | other \<Rightarrow> (Panic, d))"

text \<open>Called with \<open>mux\<close> held; it takes no lock of its own.\<close>

definition generateDistributedSchnorrProposal3 ::
    "cs_env \<Rightarrow> transaction \<Rightarrow> byte \<Rightarrow> byte \<Rightarrow> request_s \<Rightarrow> dns \<Rightarrow> bytes outcome \<times> dns" where
  "generateDistributedSchnorrProposal3 E txn txType cType content d =
     (case my_hash E of
        Done programHash \<Rightarrow>
          (case Item_Serialize (eC E) (eW E) (eT E) (eV E)
                  (fresh_item\<lparr>TargetArbitratorPublicKey := Some (MyPublicKey (eAcc E)),
                     TargetArbitratorProgramHash := programHash, TransactionType := txType,
                     ItemType := cType, RequestSContent := content\<rparr>) [] of
             (Some e, _) \<Rightarrow> (fail_of e, d)
           | (None, buf) \<Rightarrow>
               (case STx content of
                  None \<Rightarrow> (Panic, d)
                | Some tx \<Rightarrow>
                    (let hash = TxHash (eT E) tx
                     in if schnorrTransaction d hash \<noteq> None
                        then (Fail (Err ''transaction already in process''), d)
                        else (Done buf, d\<lparr>schnorrTransaction := (schnorrTransaction d)(hash \<mapsto> txn),
                                requestSSigners := (requestSSigners d)(hash \<mapsto> [])\<rparr>))))
      | Fail e \<Rightarrow> (Fail e, d)
      | other \<Rightarrow> (Panic, d))"

definition broadcastSchnorrWithdrawProposal3 ::
    "cs_env \<Rightarrow> uint256 \<Rightarrow> transaction \<Rightarrow> bytes list \<Rightarrow> nat \<Rightarrow> dns \<Rightarrow> unit outcome \<times> dns" where
  "broadcastSchnorrWithdrawProposal3 E nonce txn pks e d =
     send_proposal (generateDistributedSchnorrProposal3 E txn (schnorr_kind txn) SchnorrMultisigContent3
       \<lparr>SNonceHash = nonce, STx = Some txn, SPublickeys = pks, SE = e, SS = 0\<rparr> d)"

definition BroadcastSchnorrWithdrawProposal3 ::
    "cs_env \<Rightarrow> uint256 \<Rightarrow> transaction \<Rightarrow> bytes list \<Rightarrow> nat \<Rightarrow> dns \<Rightarrow> unit outcome \<times> dns" where
  "BroadcastSchnorrWithdrawProposal3 E nonceHash txn pks e d =
     lock (\<lambda>d. case broadcastSchnorrWithdrawProposal3 E nonceHash txn pks e d of (r, d') \<Rightarrow> unlock r d') d"

subsection \<open>Choosing the signers\<close>

text \<open>The loop stops when the map has the wanted size; it never has size 0 after an insert.\<close>

definition pick :: "nat \<Rightarrow> string list \<Rightarrow> string list" where
  "pick minSignersCount sortedSigners =
     (if minSignersCount = 0 then sortedSigners else take minSignersCount sortedSigners)"

text \<open>The chosen signers in the order of the arbiters, with their indexes as bytes.\<close>

fun signer_keys :: "crypto \<Rightarrow> string list \<Rightarrow> nat \<Rightarrow> string list \<Rightarrow> go_error + byte list \<times> bytes list" where
  "signer_keys C chosen i [] = Inr ([], [])"
| "signer_keys C chosen i (a # arbs) =
     (if a \<noteq> [] \<and> a \<in> set chosen then
        (case HexStringToBytes C a of
           None \<Rightarrow> Inl (Err ''invalid arbiter public key'')
         | Some pk \<Rightarrow> map_sum id (\<lambda>(is, pks). (of_nat i # is, pk # pks)) (signer_keys C chosen (Suc i) arbs))
      else signer_keys C chosen (Suc i) arbs)"

fun signer_points :: "crypto \<Rightarrow> (string \<times> krp) list \<Rightarrow> bytes list \<Rightarrow> krp list option" where
  "signer_points C signers [] = Some []"
| "signer_points C signers (pk # pks) =
     (case map_of signers (BytesToHexString C pk) of
        None \<Rightarrow> None
      | Some r \<Rightarrow> map_option ((#) r) (signer_points C signers pks))"

text \<open>The new transaction: the old one read back in its unsigned form, the signers as its payload.\<close>

definition with_signers :: "cs_env \<Rightarrow> byte list \<Rightarrow> transaction \<Rightarrow> go_error + transaction" where
  "with_signers E pksIndex txn =
     (case TxSerialize (eT E) txn of
        (Some e, _) \<Rightarrow> Inl e
      | (None, buf) \<Rightarrow>
          (case GetTransactionByBytes (eT E) buf of
             (Inl _, _) \<Rightarrow> Inl ExtErr
           | (Inr t0, r) \<Rightarrow>
               (case TxDeserializeUnsigned (eT E) t0 r of
                  (Inl _, _) \<Rightarrow> Inl ExtErr
                | (Inr tx, _) \<Rightarrow> Inr (tx\<lparr>Payload := WithdrawFromSideChain pksIndex '''' [] 0\<rparr>))))"

text \<open>The second round: the signers, the transaction that names them, and the challenge.\<close>

definition round_two ::
    "cs_env \<Rightarrow> transaction \<Rightarrow> (string \<times> krp) list \<Rightarrow> (transaction \<times> bytes list \<times> nat) outcome" where
  "round_two E txn signers =
     (let chosen = pick (quorum E) (eSort E (map fst signers))
      in case signer_keys (eC E) chosen 0 (arbitrators (eGroup E)) of
           Inl e \<Rightarrow> Fail e
         | Inr (pksIndex, pks) \<Rightarrow>
             (case with_signers E pksIndex txn of
                Inl e \<Rightarrow> Fail e
              | Inr newTx \<Rightarrow>
                  (case signer_points (eC E) signers pks of
                     None \<Rightarrow> Fail (Err ''invalid public key, not in RequestR signers'')
                   | Some rs \<Rightarrow>
                       (case GetE (eK E) rs (TxHash (eT E) newTx) of
                          None \<Rightarrow> Panic
                        | Some e \<Rightarrow> Done (newTx, pks, e)))))"

definition start_round_two ::
    "cs_env \<Rightarrow> uint256 \<Rightarrow> string \<Rightarrow> transaction \<Rightarrow> (string \<times> krp) list \<Rightarrow> dns \<Rightarrow> unit outcome \<times> dns" where
  "start_round_two E nonceHash myPK txn signers d =
     (case round_two E txn signers of
        Done (newTx, pks, e) \<Rightarrow>
          (case broadcastSchnorrWithdrawProposal3 E nonceHash newTx pks e d of
             (Done _, d1) \<Rightarrow>
               (case requestSSigners d1 (TxHash (eT E) newTx) of
                  None \<Rightarrow> (Panic, d1)
                | Some ss \<Rightarrow> (Done (), d1\<lparr>requestSSigners := (requestSSigners d1)
                    (TxHash (eT E) newTx \<mapsto> AList.update myPK (GetSchnorrS (eAcc E) e) ss)\<rparr>))
           | (Panic, d1) \<Rightarrow> (Panic, d1)
           | (_, d1) \<Rightarrow> (Fail (Err ''failed to BroadcastSchnorrWithdrawProposal2, err:''), d1))
      | Fail e \<Rightarrow> (Fail e, d)
      | _ \<Rightarrow> (Panic, d))"

definition bump :: "string \<Rightarrow> (string \<rightharpoonup> u64) \<Rightarrow> (string \<rightharpoonup> u64)" where
  "bump a m = m(a \<mapsto> (case m a of Some n \<Rightarrow> n + 1 | None \<Rightarrow> 1))"

text \<open>An arbiter that did not sign the first round is counted twice.\<close>

fun count_unsigned :: "string \<Rightarrow> string set \<Rightarrow> string list \<Rightarrow> (string \<rightharpoonup> u64) \<Rightarrow> (string \<rightharpoonup> u64)" where
  "count_unsigned myPK signers [] m = m"
| "count_unsigned myPK signers (a # arbs) m =
     count_unsigned myPK signers arbs
       (if a = [] then m
        else let m1 = (if a \<notin> signers then bump a m else m)
             in if a = myPK then m1 else bump a m1)"

definition ReceiveSendSchnorrWithdrawProposal3 :: "cs_env \<Rightarrow> uint256 \<Rightarrow> dns \<Rightarrow> unit outcome \<times> dns" where
  "ReceiveSendSchnorrWithdrawProposal3 E nonceHash d =
     (case my_key_string E of
        None \<Rightarrow> (Panic, d)
      | Some myPK \<Rightarrow>
          lock (\<lambda>d.
            case schnorrTransaction d nonceHash of
              None \<Rightarrow> unlock (Fail (Err ''can not find proposal transaction'')) d
            | Some txn \<Rightarrow>
                (case requestRSigners d nonceHash of
                   None \<Rightarrow> unlock (Fail (Err ''can not find RequestR signer'')) d
                 | Some signers \<Rightarrow>
                     (case (if quorum E \<le> length signers
                            then start_round_two E nonceHash myPK txn signers d else (Done (), d)) of
                        (Done _, d1) \<Rightarrow>
                          unlock (Done ()) (d1\<lparr>UnsignedSigners :=
                            count_unsigned myPK (fst ` set signers) (arbitrators (eGroup E)) (UnsignedSigners d1)\<rparr>)
                      | (r, d1) \<Rightarrow> unlock r d1))) d)"

subsection \<open>Collecting the second round\<close>

definition CreateSchnonrrRedeemScript :: "cs_env \<Rightarrow> nat \<times> nat \<Rightarrow> bytes outcome" where
  "CreateSchnonrrRedeemScript E p =
     (case Marshal (fst p) (snd p) of
        None \<Rightarrow> Panic
      | Some sumPublicKey \<Rightarrow>
          (case DecodePoint (eC E) sumPublicKey of
             None \<Rightarrow> Fail ExtErr
           | Some publicKey \<Rightarrow> (case eSchnorrScript E publicKey of None \<Rightarrow> Fail ExtErr | Some s \<Rightarrow> Done s)))"

text \<open>
  The shares are summed in the order of the map. \<open>GetK\<close> gives the stored number \<open>K0\<close> itself, so that it and the addition of
  the share change the record of the signer; a signer without a record ends the call, with the changes made so far.
\<close>

fun sum_k :: "curve \<Rightarrow> nat \<Rightarrow> (string \<times> krp) list \<Rightarrow> (string \<times> nat) list \<Rightarrow> int \<Rightarrow> int option \<times> (string \<times> krp) list" where
  "sum_k K ry rs [] s = (Some s, rs)"
| "sum_k K ry rs ((pk, signature) # ss) s =
     (case map_of rs pk of
        None \<Rightarrow> (None, rs)
      | Some r \<Rightarrow> (let k = GetK K ry (K0 r) + int signature in sum_k K ry (AList.update pk (r\<lparr>K0 := k\<rparr>) rs) ss (s + k)))"

definition known_krps :: "(string \<times> krp) list \<Rightarrow> (string \<times> nat) list \<Rightarrow> krp list" where
  "known_krps rs ss = List.map_filter (\<lambda>(pk, _). map_of rs pk) ss"

definition submit_schnorr :: "cs_env \<Rightarrow> uint256 \<Rightarrow> transaction \<Rightarrow> nat \<times> nat \<Rightarrow> nat \<Rightarrow> int \<Rightarrow> dns \<Rightarrow> unit outcome \<times> dns" where
  "submit_schnorr E hash txn p rx s d =
     (case GetS (eK E) rx s of
        None \<Rightarrow> (Panic, d)
      | Some signature \<Rightarrow>
          (case CreateSchnonrrRedeemScript E p of
             Done script \<Rightarrow>
               (let txn' = txn\<lparr>Programs := [\<lparr>Code = script, Parameter = Some signature\<rparr>]\<rparr>
                in (eSubmit E (TxContent txn'),
                    d\<lparr>schnorrTransaction := (schnorrTransaction d)(hash \<mapsto> txn'),
                      submitted := TxContent txn' # submitted d\<rparr>))
           | Fail e \<Rightarrow> (Fail (Err ''failed to CreateSchnonrrRedeemScript, ''), d)
           | other \<Rightarrow> (Panic, d)))"

definition record_share :: "cs_env \<Rightarrow> item \<Rightarrow> transaction \<Rightarrow> uint256 \<Rightarrow> string \<Rightarrow> dns \<Rightarrow> unit outcome \<times> dns" where
  "record_share E transactionItem txn hash strPK d =
     (case requestSSigners d hash of
        None \<Rightarrow> (Panic, d)
      | Some ss0 \<Rightarrow>
          (let content = RequestSContent transactionItem;
               ss = AList.update strPK (SS content) ss0;
               d1 = d\<lparr>requestSSigners := (requestSSigners d)(hash \<mapsto> ss)\<rparr>
           in if length ss \<noteq> length (SPublickeys content) then unlock (Done ()) d1
              else (let rs = (case requestRSigners d1 (SNonceHash content) of None \<Rightarrow> [] | Some rs \<Rightarrow> rs);
                        krps = known_krps rs ss;
                        r = sum_points (eK E) (0, 0) (map (\<lambda>k. (Rx k, Ry k)) krps);
                        p = sum_points (eK E) (0, 0) (map (\<lambda>k. (Px k, Py k)) krps)
                    in case sum_k (eK E) (snd r) rs ss 0 of
                         (res, rs') \<Rightarrow>
                           (let d2 = (if requestRSigners d1 (SNonceHash content) = None then d1
                                      else d1\<lparr>requestRSigners := (requestRSigners d1)(SNonceHash content \<mapsto> rs')\<rparr>)
                            in case res of
                                 None \<Rightarrow> unlock (Fail (Err ''invalid schnorrWithdrawRequestSContentsSigners, not found signature of '')) d2
                               | Some s \<Rightarrow> submit_schnorr E hash txn p (fst r) s (d2\<lparr>mux_locked := False\<rparr>)))))"

text \<open>The return on an unknown or exhausted \<open>UnsignedSigners\<close> entry does not release \<open>mux\<close>.\<close>

definition receiveSchnorrWithdrawProposal3Feedback :: "cs_env \<Rightarrow> item \<Rightarrow> dns \<Rightarrow> unit outcome \<times> dns" where
  "receiveSchnorrWithdrawProposal3Feedback E transactionItem d =
     (case CheckSchnorrFeedbackRequestSSignedData (eC E) (eW E) (eT E) transactionItem of
        Done _ \<Rightarrow>
          (case STx (RequestSContent transactionItem) of
             None \<Rightarrow> (Panic, d)
           | Some tx \<Rightarrow>
          lock (\<lambda>d.
            let hash = TxHash (eT E) tx
            in case schnorrTransaction d hash of
                 None \<Rightarrow> unlock (Fail (Err ''can not find proposal transaction'')) d
               | Some txn \<Rightarrow>
                   (case requestSSigners d (TxHash (eT E) txn) of
                      None \<Rightarrow> unlock (Fail (Err ''can not find RequestS signer'')) d
                    | Some signers \<Rightarrow>
                        (case Option.bind (TargetArbitratorPublicKey transactionItem) (EncodePoint (eC E)) of
                           None \<Rightarrow> unlock (Fail (Err ''invalid TargetArbitratorPublicKey'')) d
                         | Some publickeyBytes \<Rightarrow>
                             (let strPK = BytesToHexString (eC E) publickeyBytes
                              in if map_of signers strPK \<noteq> None then unlock (Done ()) d
                                 else (case UnsignedSigners d strPK of
                                         None \<Rightarrow> (Fail (Err ''not found in UnsignedSigners''), d)
                                       | Some n \<Rightarrow>
                                           if n < 1 then (Fail (Err ''not found in UnsignedSigners''), d)
                                           else record_share E transactionItem txn hash strPK
                                             (d\<lparr>UnsignedSigners := (UnsignedSigners d)(strPK \<mapsto> n - 1)\<rparr>)))))) d)
      | Fail e \<Rightarrow> (Fail e, d)
      | other \<Rightarrow> (Panic, d))"

section \<open>Feedback\<close>

text \<open>\<open>case AnswerIllegalContent:\<close> has an empty body, so feedback on illegal data is dropped.\<close>

definition ReceiveProposalFeedback :: "cs_env \<Rightarrow> bytes \<Rightarrow> dns \<Rightarrow> unit outcome \<times> dns" where
  "ReceiveProposalFeedback E content d =
     (case Item_Deserialize (eC E) (eW E) (eT E) (fresh_item, content) of
        (Some e, _) \<Rightarrow> (Fail e, d)
      | (None, transactionItem, _) \<Rightarrow>
          (case CheckSenderInCurrentArbiters (eC E) (eGroup E) transactionItem of
             Some e \<Rightarrow> (Fail e, d)
           | None \<Rightarrow>
               if ItemType transactionItem = AnswerMultisigContent
               then receiveWithdrawProposalFeedback E transactionItem d
               else if ItemType transactionItem = AnswerSchnorrMultisigContent2
               then receiveSchnorrWithdrawProposal2Feedback E transactionItem d
               else if ItemType transactionItem = AnswerSchnorrMultisigContent3
               then receiveSchnorrWithdrawProposal3Feedback E transactionItem d
               else (Done (), d)))"

section \<open>Facts\<close>

text \<open>A content that carries k signatures, of 65 bytes each when it is a transaction.\<close>

definition content_signed :: "content \<Rightarrow> nat \<Rightarrow> bool" where
  "content_signed c k \<longleftrightarrow>
     (case c of
        TxContent tx \<Rightarrow> (\<exists>p ps param. Programs tx = p # ps \<and> Parameter p = Some param \<and> length param = 65 * k)
      | IllegalDistributedContent ev \<Rightarrow> length (EvSigns ev) = k)"

text \<open>Every content that waits for signatures carries one for each arbiter recorded for it.\<close>

definition dns_wf :: "dns \<Rightarrow> bool" where
  "dns_wf d \<longleftrightarrow> (\<forall>hash c. unsolvedContents d hash = Some c \<longrightarrow>
     (\<exists>S. unsolvedContentsSignature d hash = Some S \<and> finite S \<and> S \<noteq> {} \<and> content_signed c (card S)))"

text \<open>The library's constants, and signatures of 64 bytes.\<close>

definition env_ok :: "cs_env \<Rightarrow> bool" where
  "env_ok E \<longleftrightarrow> crypto_consts (eC E) \<and> (\<forall>m s. SignData (eAcc E) m = Some s \<longrightarrow> length s = 64)"

lemma Sign_first:
  assumes "Sign C T V acc False F i = Done i'" "signedData i = None" "\<forall>m s. SignData acc m = Some s \<longrightarrow> length s = 64"
  shows "length (signed_bytes i') = 65"
  using assms
  by (auto simp: Sign_def appendSignature_def Let_def signed_bytes_def
      split: sum.splits option.splits outcome.splits prod.splits)

lemma InitSign_signed:
  "InitSign sign c = Done c' \<Longrightarrow> length sign = 65 \<Longrightarrow> content_signed c' 1"
  by (auto simp: InitSign_def content_signed_def split: content.splits list.splits)

lemma Parse_length:
  "ParseFeedbackSignedData C T V i = Done (sign, []) \<Longrightarrow> crypto_consts C \<Longrightarrow> length sign = 65"
  by (auto simp: ParseFeedbackSignedData_def crypto_consts_def Let_def
      split: if_splits option.splits prod.splits)

lemma MergeSignToTransaction_appends:
  assumes "MergeSignToTransaction C T sign i tx = Done (n, tx')" "crypto_consts C"
    "Programs tx = p # ps" "Parameter p = Some param"
  shows "n = length (param @ sign) div 64 \<and> tx' = tx\<lparr>Programs := p\<lparr>Parameter := Some (param @ sign)\<rparr> # ps\<rparr>"
  using assms by (auto simp: MergeSignToTransaction_def crypto_consts_def Let_def split: option.splits outcome.splits)

lemma MergeSign_signed:
  assumes "MergeSign C T sign h c = Done (n, c')" "crypto_consts C" "content_signed c k" "length sign = 65"
  shows "content_signed c' (k + 1) \<and> (k + 1 < 64 \<longrightarrow> n = k + 1) \<and> k + 1 \<le> n"
proof (cases c)
  case (TxContent tx)
  then obtain p ps param i tx' where "Programs tx = p # ps" "Parameter p = Some param" "length param = 65 * k"
    "MergeSignToTransaction C T sign i tx = Done (n, tx')" "c' = TxContent tx'"
    using assms by (auto simp: MergeSign_def content_signed_def split: list.splits option.splits outcome.splits)
  with MergeSignToTransaction_appends [OF this(4) assms(2) this(1,2)] assms(4)
  have "content_signed c' (k + 1)" "n = (65 * (k + 1)) div 64"
    by (auto simp: content_signed_def)
  moreover have "(65 * (k + 1)) div 64 = k + 1 + (k + 1) div (64 :: nat)"
    using count_by_64 [of "k + 1"] by (simp add: mult.commute)
  ultimately show ?thesis by simp
next
  case (IllegalDistributedContent ev)
  then show ?thesis using assms by (auto simp: MergeSign_def content_signed_def)
qed

lemma dns_wf_add:
  "dns_wf d \<Longrightarrow> finite S \<Longrightarrow> S \<noteq> {} \<Longrightarrow> content_signed c (card S) \<Longrightarrow>
   unsolvedContents d' = (unsolvedContents d)(hash \<mapsto> c) \<Longrightarrow>
   unsolvedContentsSignature d' = (unsolvedContentsSignature d)(hash \<mapsto> S) \<Longrightarrow> dns_wf d'"
  by (auto simp: dns_wf_def)

lemma dns_wf_remove:
  "dns_wf d \<Longrightarrow> unsolvedContents d' = (unsolvedContents d)(hash := None) \<Longrightarrow>
   unsolvedContentsSignature d' = (unsolvedContentsSignature d)(hash := None) \<Longrightarrow> dns_wf d'"
  by (auto simp: dns_wf_def)

lemma dns_wf_same:
  "unsolvedContents d' = unsolvedContents d \<Longrightarrow> unsolvedContentsSignature d' = unsolvedContentsSignature d \<Longrightarrow>
   dns_wf d' = dns_wf d"
  by (simp add: dns_wf_def)

lemma register_wf:
  assumes "dns_wf d" "content_signed content 1"
  shows "dns_wf (snd (register_proposal E buf h content d))"
  using assms by (auto simp: register_proposal_def lock_def unlock_def Let_def dns_wf_def)

lemma generate_wf:
  assumes "dns_wf d" "env_ok E"
  shows "dns_wf (snd (generateDistributedProposal E ty ct c d))"
  unfolding generateDistributedProposal_def using assms
  by (auto split: outcome.split sum.split prod.split option.split
      intro!: register_wf dest!: Sign_first InitSign_signed simp: env_ok_def fresh_item_def)

text \<open>What a feedback does that is merged: the state after it, and the submission at the quorum.\<close>

definition merged_state :: "cs_env \<Rightarrow> uint256 \<Rightarrow> uint160 \<Rightarrow> uint160 set \<Rightarrow> nat \<Rightarrow> content \<Rightarrow> dns \<Rightarrow> unit outcome \<times> dns" where
  "merged_state E hash h signs n c' d =
     (let d1 = d\<lparr>unsolvedContents := (unsolvedContents d)(hash \<mapsto> c'),
                 unsolvedContentsSignature := (unsolvedContentsSignature d)(hash \<mapsto> insert h signs)\<rparr>
      in if n < quorum E then (Done (), d1)
         else (eSubmit E c',
               d1\<lparr>unsolvedContents := (unsolvedContents d1)(hash := None),
                  unsolvedContentsSignature := (unsolvedContentsSignature d1)(hash := None),
                  submitted := c' # submitted d1\<rparr>))"

lemma receive_cases:
  assumes "receiveWithdrawProposalFeedback E i d = (r, d')" "dns_wf d"
  obtains (same) "unsolvedContents d' = unsolvedContents d" "unsolvedContentsSignature d' = unsolvedContentsSignature d"
      "submitted d' = submitted d"
    | (merged) sign c txn S n c' where "ParseFeedbackSignedData (eC E) (eT E) (eV E) i = Done (sign, [])"
      "ItemContent i = Some c" "unsolvedContents d (content_Hash (eT E) (eV E) c) = Some txn"
      "unsolvedContentsSignature d (content_Hash (eT E) (eV E) c) = Some S"
      "ToCodeHash (eC E) (TargetArbitratorProgramHash i) \<notin> S"
      "MergeSign (eC E) (eT E) sign (ToCodeHash (eC E) (TargetArbitratorProgramHash i)) txn = Done (n, c')"
      "(r, d') = merged_state E (content_Hash (eT E) (eV E) c) (ToCodeHash (eC E) (TargetArbitratorProgramHash i))
         S n c' (d\<lparr>mux_locked := False\<rparr>)"
proof -
  have sig: "\<exists>S. unsolvedContentsSignature d h = Some S" if "unsolvedContents d h = Some txn" for h txn
    using assms(2) that by (auto simp: dns_wf_def)
  show ?thesis
    using assms(1) same merged
    by (auto simp: receiveWithdrawProposalFeedback_def lock_def Let_def merged_state_def
        split: outcome.splits prod.splits if_splits option.splits dest!: sig)
qed

lemma dns_wfD:
  "dns_wf d \<Longrightarrow> unsolvedContents d h = Some c \<Longrightarrow> unsolvedContentsSignature d h = Some S \<Longrightarrow>
   finite S \<and> S \<noteq> {} \<and> content_signed c (card S)"
  by (fastforce simp: dns_wf_def)

lemma merged_wf:
  assumes "dns_wf d" "unsolvedContents d hash = Some txn" "unsolvedContentsSignature d hash = Some S"
    "h \<notin> S" "content_signed c' (card S + 1)"
  shows "dns_wf (snd (merged_state E hash h S n c' (d\<lparr>mux_locked := b\<rparr>)))"
proof -
  have "finite S" using dns_wfD [OF assms(1-3)] by simp
  with assms show ?thesis
    by (auto simp: merged_state_def Let_def dns_wf_def)
qed

lemma receive_wf:
  assumes "dns_wf d" "env_ok E"
  shows "dns_wf (snd (receiveWithdrawProposalFeedback E i d))"
proof (cases rule: receive_cases [of E i d "fst (receiveWithdrawProposalFeedback E i d)"
      "snd (receiveWithdrawProposalFeedback E i d)", case_names eq wf same merged])
  case same
  then show ?thesis using assms(1) dns_wf_same by blast
next
  case (merged sign c txn S n c')
  have "content_signed txn (card S)" using dns_wfD [OF assms(1) merged(3,4)] by simp
  then have "content_signed c' (card S + 1)"
    using MergeSign_signed [OF merged(6)] Parse_length [OF merged(1)] assms(2) by (auto simp: env_ok_def)
  from merged_wf [OF assms(1) merged(3,4,5) this, of E n False] merged(7) show ?thesis
    by (metis snd_conv)
qed (use assms in simp_all)

text \<open>The Schnorr operations leave the multi-signature maps alone.\<close>

abbreviation same_unsolved :: "dns \<Rightarrow> dns \<Rightarrow> bool" where
  "same_unsolved d d' \<equiv> unsolvedContents d' = unsolvedContents d \<and>
     unsolvedContentsSignature d' = unsolvedContentsSignature d"

lemma same_unsolved_generate2: "same_unsolved d (snd (generateDistributedSchnorrProposal2 E t ty ct c d))"
  by (auto simp: generateDistributedSchnorrProposal2_def lock_def unlock_def Let_def
      split: outcome.split prod.split option.split)

lemma same_unsolved_record: "same_unsolved d (snd (recordKRPOfMyself E h d))"
  by (auto simp: recordKRPOfMyself_def split: option.split)

lemma same_unsolved_receive2: "same_unsolved d (snd (receiveSchnorrWithdrawProposal2Feedback E i d))"
  by (auto simp: receiveSchnorrWithdrawProposal2Feedback_def lock_def unlock_def Let_def
      split: outcome.split option.split)

lemma same_unsolved_send: "same_unsolved d (snd x) \<Longrightarrow> same_unsolved d (snd (send_proposal x))"
  by (auto simp: send_proposal_def sendToArbitrator_def split: outcome.split)

lemma same_unsolved_broadcast3: "same_unsolved d (snd (broadcastSchnorrWithdrawProposal3 E h t pks e d))"
  unfolding broadcastSchnorrWithdrawProposal3_def
  by (rule same_unsolved_send)
    (auto simp: generateDistributedSchnorrProposal3_def Let_def split: outcome.split prod.split option.split)

lemma same_unsolved_broadcast2: "same_unsolved d (snd (BroadcastSchnorrWithdrawProposal2 E t d))"
proof -
  obtain r1 d1 where 1: "generateDistributedSchnorrProposal2 E t (schnorr_kind t) SchnorrMultisigContent2
      (fresh_request_r\<lparr>RNonce := TxHash (eT E) t\<rparr>) d = (r1, d1)" by (cases "generateDistributedSchnorrProposal2 E t
      (schnorr_kind t) SchnorrMultisigContent2 (fresh_request_r\<lparr>RNonce := TxHash (eT E) t\<rparr>) d")
  obtain r2 d2 where 2: "recordKRPOfMyself E (eHash E (TxHash (eT E) t)) d1 = (r2, d2)"
    by (cases "recordKRPOfMyself E (eHash E (TxHash (eT E) t)) d1")
  have "same_unsolved d d1" using same_unsolved_generate2 [where d = d] 1 by (metis snd_conv)
  moreover have "same_unsolved d1 d2" using same_unsolved_record [where d = d1] 2 by (metis snd_conv)
  ultimately show ?thesis
    by (auto simp: BroadcastSchnorrWithdrawProposal2_def Let_def 1 2 sendToArbitrator_def split: outcome.split)
qed

lemma same_unsolved_round_two: "same_unsolved d (snd (start_round_two E h pk t ss d))"
  using same_unsolved_broadcast3 [where d = d and E = E]
  by (auto simp: start_round_two_def Let_def split: sum.split prod.split option.split outcome.split)
    (metis snd_conv)+

lemma same_unsolved_receive_send: "same_unsolved d (snd (ReceiveSendSchnorrWithdrawProposal3 E h d))"
  using same_unsolved_round_two [where d = "d\<lparr>mux_locked := True\<rparr>" and E = E and h = h]
  by (auto simp: ReceiveSendSchnorrWithdrawProposal3_def lock_def unlock_def split: option.split outcome.split prod.split)
    (metis snd_conv)+

lemma same_unsolved_share: "same_unsolved d (snd (record_share E i t h pk d))"
  by (auto simp: record_share_def submit_schnorr_def unlock_def Let_def split: option.split outcome.split prod.split)

lemma same_unsolved_receive3: "same_unsolved d (snd (receiveSchnorrWithdrawProposal3Feedback E i d))"
  by (auto simp: receiveSchnorrWithdrawProposal3Feedback_def lock_def unlock_def Let_def same_unsolved_share
      split: outcome.split option.split)

section \<open>The server as a step relation\<close>

text \<open>Every call another part of the arbiter makes, each with its own surroundings.\<close>

inductive server_step :: "dns \<Rightarrow> dns \<Rightarrow> bool" where
  s_propose: "env_ok E \<Longrightarrow> server_step d (snd (BroadcastWithdrawProposal E tx d))"
| s_illegal: "env_ok E \<Longrightarrow> server_step d (snd (BroadcastSidechainIllegalData E ev d))"
| s_feedback: "env_ok E \<Longrightarrow> server_step d (snd (ReceiveProposalFeedback E content d))"
| s_schnorr2: "env_ok E \<Longrightarrow> server_step d (snd (BroadcastSchnorrWithdrawProposal2 E tx d))"
| s_timer: "env_ok E \<Longrightarrow> server_step d (snd (ReceiveSendSchnorrWithdrawProposal3 E h d))"
| s_schnorr3: "env_ok E \<Longrightarrow> server_step d (snd (BroadcastSchnorrWithdrawProposal3 E h tx pks e d))"
| s_reset: "server_step d (Reset d)"

lemma send_wf: "dns_wf (snd x) \<Longrightarrow> dns_wf (snd (send_proposal x))"
  by (auto simp: send_proposal_def sendToArbitrator_def dns_wf_def split: outcome.split)

lemma same_unsolved_wf: "dns_wf d \<Longrightarrow> same_unsolved d d' \<Longrightarrow> dns_wf d'"
  by (simp add: dns_wf_def)

lemma feedback_wf:
  assumes "dns_wf d" "env_ok E"
  shows "dns_wf (snd (ReceiveProposalFeedback E content d))"
  using assms receive_wf same_unsolved_wf [OF assms(1) same_unsolved_receive2]
    same_unsolved_wf [OF assms(1) same_unsolved_receive3]
  by (auto simp: ReceiveProposalFeedback_def split: prod.split option.split)

lemma broadcast3_same: "same_unsolved d (snd (BroadcastSchnorrWithdrawProposal3 E h tx pks e d))"
  using same_unsolved_broadcast3 [where d = "d\<lparr>mux_locked := True\<rparr>" and E = E and h = h and t = tx and pks = pks and e = e]
  by (auto simp: BroadcastSchnorrWithdrawProposal3_def lock_def unlock_def split: prod.split)

lemma server_step_wf: "server_step d d' \<Longrightarrow> dns_wf d \<Longrightarrow> dns_wf d'"
proof (induction rule: server_step.induct)
  case (s_propose E d tx)
  then show ?case unfolding BroadcastWithdrawProposal_def by (intro send_wf generate_wf)
next
  case (s_illegal E d ev)
  then show ?case unfolding BroadcastSidechainIllegalData_def by (intro send_wf generate_wf)
next
  case (s_feedback E d content)
  then show ?case by (intro feedback_wf)
next
  case (s_schnorr2 E d tx)
  then show ?case using same_unsolved_wf same_unsolved_broadcast2 by blast
next
  case (s_timer E d h)
  then show ?case using same_unsolved_wf same_unsolved_receive_send by blast
next
  case (s_schnorr3 E d h tx pks e)
  then show ?case using same_unsolved_wf broadcast3_same by blast
next
  case (s_reset d)
  then show ?case by (simp add: Reset_def dns_wf_def)
qed

text \<open>A state with the lock held blocks every call that takes it.\<close>

lemma lock_blocked: "mux_locked d \<Longrightarrow> lock body d = (Blocked, d)"
  by (simp add: lock_def)

lemma register_blocked: "mux_locked d \<Longrightarrow> register_proposal E buf h c d = (Blocked, d)"
  by (simp add: register_proposal_def lock_def)

lemma timer_blocked:
  "mux_locked d \<Longrightarrow> my_key_string E \<noteq> None \<Longrightarrow> ReceiveSendSchnorrWithdrawProposal3 E h d = (Blocked, d)"
  by (auto simp: ReceiveSendSchnorrWithdrawProposal3_def lock_def)

end
