(* ===== verification/Cs_Client.thy ===== *)
theory Cs_Client
  imports Cs_Server
begin

text \<open>
  \<open>arbitration/cs/distributednodeclient.go\<close>: an arbiter that receives a proposal of the arbiter on duty
  checks it, adds its signature and sends it back. The checks of the contents
  (\<open>TxDistributedContent.Check\<close> and the check of the Schnorr transaction) and the sending to a peer are
  arguments.
\<close>

record client =
  CheckedTransactions :: "uint256 set"
  feedbacks :: "(bytes \<times> bytes) list"       \<comment> \<open>peer and message, the last one first\<close>

record client_env =
  contentCheck :: "content \<Rightarrow> go_error option"
  schnorrCheck :: "transaction \<Rightarrow> go_error option"
  SendMessageToPeer :: "bytes \<Rightarrow> bytes \<Rightarrow> go_error option"

definition answer_type :: "byte \<Rightarrow> byte" where
  "answer_type ty =
     (if ty = MultisigContent then AnswerMultisigContent
      else if ty = IllegalContent then AnswerIllegalContent
      else if ty = SchnorrMultisigContent2 then AnswerSchnorrMultisigContent2
      else if ty = SchnorrMultisigContent3 then AnswerSchnorrMultisigContent3
      else ty)"

text \<open>The item as \<open>Feedback\<close> sends it; a failure to encode the own key is an error.\<close>

definition feedback_item :: "cs_env \<Rightarrow> uint168 \<Rightarrow> item \<Rightarrow> item" where
  "feedback_item E programHash i =
     i\<lparr>TargetArbitratorPublicKey := Some (MyPublicKey (eAcc E)), ItemType := answer_type (ItemType i),
       TargetArbitratorProgramHash := programHash\<rparr>"

definition Feedback :: "cs_env \<Rightarrow> client_env \<Rightarrow> bytes \<Rightarrow> item \<Rightarrow> client \<Rightarrow> unit outcome \<times> client" where
  "Feedback E L pid i cl =
     (case my_hash E of
        Fail e \<Rightarrow> (Fail e, cl)
      | Done programHash \<Rightarrow>
          (case Item_Serialize (eC E) (eW E) (eT E) (eV E) (feedback_item E programHash i) [] of
             (Some e, _) \<Rightarrow> (if e = GoPanic then Panic else Fail (Err ''Send complaint failed.''), cl)
           | (None, buf) \<Rightarrow>
               (case SendMessageToPeer L pid buf of
                  Some e \<Rightarrow> (Fail e, cl)
                | None \<Rightarrow> (Done (), cl\<lparr>feedbacks := (pid, buf) # feedbacks cl\<rparr>)))
      | other \<Rightarrow> (Panic, cl))"

definition send_signed :: "cs_env \<Rightarrow> client_env \<Rightarrow> bytes \<Rightarrow> item outcome \<Rightarrow> client \<Rightarrow> unit outcome \<times> client" where
  "send_signed E L pid signed_item cl =
     (case signed_item of
        Done i \<Rightarrow> Feedback E L pid i cl
      | Fail e \<Rightarrow> (Fail e, cl) | Panic \<Rightarrow> (Panic, cl) | Blocked \<Rightarrow> (Blocked, cl))"

definition SignProposal :: "cs_env \<Rightarrow> item \<Rightarrow> item outcome" where
  "SignProposal E i = Sign (eC E) (eT E) (eV E) (eAcc E) True (eFunc E) i"

definition onReceivedProposal :: "cs_env \<Rightarrow> client_env \<Rightarrow> bytes \<Rightarrow> item \<Rightarrow> client \<Rightarrow> unit outcome \<times> client" where
  "onReceivedProposal E L pid i cl =
     (case ItemContent i of
        None \<Rightarrow> (Panic, cl)
      | Some content \<Rightarrow>
          (case contentCheck L content of
             Some e \<Rightarrow> (Fail e, cl)
           | None \<Rightarrow> send_signed E L pid (SignProposal E i) cl))"

definition onReceivedSchnorrProposal2 :: "cs_env \<Rightarrow> client_env \<Rightarrow> bytes \<Rightarrow> item \<Rightarrow> client \<Rightarrow> unit outcome \<times> client" where
  "onReceivedSchnorrProposal2 E L pid i cl =
     (case GetSchnorrR (eAcc E) of
        None \<Rightarrow> (Fail ExtErr, cl)
      | Some r \<Rightarrow>
          send_signed E L pid
            (SchnorrSign2 (eW E) (eAcc E) (i\<lparr>RequestRContent := (RequestRContent i)\<lparr>RR := r\<rparr>\<rparr>)) cl)"

definition onReceivedSchnorrProposal3 :: "cs_env \<Rightarrow> client_env \<Rightarrow> bytes \<Rightarrow> item \<Rightarrow> client \<Rightarrow> unit outcome \<times> client" where
  "onReceivedSchnorrProposal3 E L pid i cl =
     (case EncodePoint (eC E) (MyPublicKey (eAcc E)) of
        None \<Rightarrow> (Fail ExtErr, cl)
      | Some myself \<Rightarrow>
          if myself \<notin> set (SPublickeys (RequestSContent i))
          then (Fail (Err ''no need to deal with the shcnorr proposal 3''), cl)
          else (case STx (RequestSContent i) of
                  None \<Rightarrow> (Panic, cl)
                | Some tx \<Rightarrow>
                    (let hash = TxHash (eT E) tx
                     in case (if hash \<in> CheckedTransactions cl then None else schnorrCheck L tx) of
                          Some e \<Rightarrow> (Fail e, cl)
                        | None \<Rightarrow>
                            send_signed E L pid
                              (SchnorrSign3 (eW E) (eT E) (eAcc E)
                                (i\<lparr>RequestSContent := (RequestSContent i)
                                     \<lparr>SS := GetSchnorrS (eAcc E) (SE (RequestSContent i))\<rparr>,
                                   ItemType := AnswerSchnorrMultisigContent3\<rparr>))
                              (cl\<lparr>CheckedTransactions := insert hash (CheckedTransactions cl)\<rparr>))))"

definition OnReceivedProposal :: "cs_env \<Rightarrow> client_env \<Rightarrow> bytes \<Rightarrow> bytes \<Rightarrow> client \<Rightarrow> unit outcome \<times> client" where
  "OnReceivedProposal E L pid content cl =
     (case Item_Deserialize (eC E) (eW E) (eT E) (fresh_item, content) of
        (Some e, _) \<Rightarrow> (Fail e, cl)
      | (None, i, _) \<Rightarrow>
          (case CheckMyselfInCurrentArbiters (eC E) (eGroup E) (eAcc E) of
             Some e \<Rightarrow> (Fail e, cl)
           | None \<Rightarrow>
               if ItemType i = MultisigContent then onReceivedProposal E L pid i cl
               else if ItemType i = SchnorrMultisigContent2 then onReceivedSchnorrProposal2 E L pid i cl
               else if ItemType i = SchnorrMultisigContent3 then onReceivedSchnorrProposal3 E L pid i cl
               else (Done (), cl)))"

end
