(* ===== verification/Props_Cs.thy ===== *)
theory Props_Cs
  imports Props_Base Cs_Client
begin

text \<open>
  Properties of the signed items, of the arbiter on duty that collects signatures, and of the arbiters
  that give them.
\<close>

section \<open>Concrete values\<close>

definition item0 :: item where
  "item0 = fresh_item\<lparr>TargetArbitratorPublicKey := Some (50, 0), TargetArbitratorProgramHash := replicate 21 3,
     ItemType := AnswerMultisigContent, ItemContent := Some (TxContent tx0), redeemScript := [1],
     signedData := Some (replicate 130 50)\<rparr>"

lemma item0_fits: "item_fits crypto0 ops0 item0"
proof -
  have "tx_full_ok ops0 tx0" by (auto simp: tx_full_ok_def ops0_def)
  moreover have "MaxRedeemScriptDataSize \<ge> 1" by (simp add: MaxRedeemScriptDataSize_def)
  ultimately show ?thesis
    by (simp add: item_fits_def header_fits_def body_fits_def item0_def fresh_item_def crypto0_def key_bytes_def
        script_fits_def signed_fits_def Let_def)
qed

definition ev_ops0 :: ev_ops where
  "ev_ops0 = \<lparr>EvSerialize = (\<lambda>e. (None, EvBody e)), EvSerializeUnsigned = (\<lambda>e. (None, EvBody e)), Sha256D = (\<lambda>b. b)\<rparr>"

definition curve0 :: curve where
  "curve0 = \<lparr>CurveAdd = (\<lambda>p q. (fst p + fst q, snd p + snd q)), ScalarBaseMult = (\<lambda>k. (k, k)), Sha256 = (\<lambda>b. b),
     CurveN = 101, CurveP = 103, Jacobi = (\<lambda>a b. 1)\<rparr>"

definition env0 :: cs_env where
  "env0 = \<lparr>eC = crypto1, eW = wire0, eT = ops0, eV = ev_ops0, eK = curve0, eCfg = config0, eGroup = group0,
     eAcc = \<lparr>MyPublicKey = (50, 0), SignData = (\<lambda>m. Some (replicate 64 50)), GetSchnorrR = None, GetSchnorrS = (\<lambda>e. e)\<rparr>,
     eFunc = \<lparr>GetCurrentHeight = Inr 5, GetArbitratorGroupInfoByHeight = (\<lambda>_. Inr ([''1'', ''2''], 1))\<rparr>,
     eHash = (\<lambda>b. b), eSchnorrScript = (\<lambda>pk. Some [1]), eSort = (\<lambda>s. s), eSubmit = (\<lambda>c. Done ())\<rparr>"

lemma env0_ok: "env_ok env0"
  by (simp add: env_ok_def env0_def crypto1_def crypto0_def crypto_consts_def)

definition dns0 :: dns where
  "dns0 = \<lparr>unsolvedContents = [replicate 32 1 \<mapsto> TxContent tx0],
     unsolvedContentsSignature = [replicate 32 1 \<mapsto> {replicate 19 0 @ [50]}],
     schnorrTransaction = [replicate 32 1 \<mapsto> tx0], requestRSigners = Map.empty,
     requestSSigners = [replicate 32 1 \<mapsto> []], UnsignedSigners = Map.empty, mux_locked = False, sent = [],
     timers = [], submitted = []\<rparr>"

lemma dns0_wf: "dns_wf dns0"
  by (auto simp: dns_wf_def dns0_def content_signed_def tx0_def prog0_def)

section \<open>Items\<close>

text \<open>C23: An item that carries only the fields of its type, within the limits, and whose key the library can
  encode and decode, is written without an error and read back as it was, with the rest of the input
  left.\<close>

theorem item_roundtrip:
  assumes "wire_ok W" "item_fits C T i" "Item_Serialize C W T V i [] = (err, bs)"
  shows "err = None \<and> Item_Deserialize C W T (fresh_item, bs @ rest) = (None, i, rest)"
  using item.roundtrip [of W C T i V err bs rest] assms by simp

theorem item_roundtrip_witness:
  "\<exists>bs. Item_Deserialize crypto0 wire0 ops0 (fresh_item, bs @ [7]) = (None, item0, [7])"
  using item_roundtrip [OF wire0_ok item0_fits, of ev_ops0 "fst (Item_Serialize crypto0 wire0 ops0 ev_ops0 item0 [])"
      "snd (Item_Serialize crypto0 wire0 ops0 ev_ops0 item0 [])" "[7]"] by auto

text \<open>C24: An item whose transaction the library refuses is accepted all the same: it is read without an error,
  with no content; an arbiter that receives it as a proposal panics.\<close>

theorem bad_transaction_panics:
  assumes "wire_ok W" "header_fits C i" "ItemType i = MultisigContent"
    and "run_steps (put_header C W i) [] = (None, hdr)" "GetTransactionByBytes T body = (Inl e, r)"
    and "CheckMyselfInCurrentArbiters C (eGroup E) (eAcc E) = None" "eC E = C" "eW E = W" "eT E = T"
  shows "Item_Deserialize C W T (fresh_item, hdr @ body) = (None, header_of i, r) \<and>
    OnReceivedProposal E L pid (hdr @ body) cl = (Panic, cl)"
proof -
  obtain bs where bs: "\<And>buf. run_steps (put_header C W i) buf = (None, buf @ bs)"
    "\<And>t. run_steps (get_header C W) (fresh_item, bs @ t) = (None, header_of i, t)"
    using matchedE [OF matched_header [OF assms(1,2)]] by metis
  then have "hdr = bs" using assms(4) by simp
  then have de: "Item_Deserialize C W T (fresh_item, hdr @ body) = (None, header_of i, r)"
    using bs(2) [of body] assms(3,5)
    by (simp add: Item_Deserialize_def run_steps_append get_body_def get_multisig_def)
  have "ItemContent (header_of i) = None" by (simp add: header_of_def fresh_item_def)
  with de assms(3,6-9) show ?thesis by (simp add: OnReceivedProposal_def onReceivedProposal_def)
qed

theorem bad_transaction_panics_witness:
  "\<exists>hdr. OnReceivedProposal env0 \<lparr>contentCheck = (\<lambda>_. None), schnorrCheck = (\<lambda>_. None), SendMessageToPeer = (\<lambda>_ _. None)\<rparr>
     [] (hdr @ [8]) \<lparr>CheckedTransactions = {}, feedbacks = []\<rparr> = (Panic, \<lparr>CheckedTransactions = {}, feedbacks = []\<rparr>)"
proof -
  let ?i = "item0\<lparr>ItemType := MultisigContent\<rparr>"
  have fits: "header_fits crypto1 ?i"
    by (simp add: header_fits_def item0_def crypto1_def crypto0_def key_bytes_def)
  obtain hdr where "run_steps (put_header crypto1 wire0 ?i) [] = (None, hdr)"
    using matchedE [OF matched_header [OF wire0_ok fits]] by (metis append_Nil)
  moreover have "CheckMyselfInCurrentArbiters crypto1 group0 (eAcc env0) = None"
    by (simp add: CheckMyselfInCurrentArbiters_def env0_def crypto1_def crypto0_def key_bytes_def group0_def byte_char_def
        char_of_def bit_iff_odd)
  ultimately show ?thesis
    using bad_transaction_panics [OF wire0_ok fits, of hdr ops0 "[8]" ErrOther "[]" env0]
    by (auto simp: env0_def ops0_def)
qed

section \<open>Collecting signatures\<close>

text \<open>C21: Whatever sequence of proposals and feedback the arbiter on duty goes through, every content that
  waits for the quorum carries exactly one signature for each arbiter recorded as having signed it.\<close>

theorem signatures_match_signers:
  assumes "server_step\<^sup>*\<^sup>* d d'" "dns_wf d" "unsolvedContents d' hash = Some c"
  shows "\<exists>S. unsolvedContentsSignature d' hash = Some S \<and> finite S \<and> content_signed c (card S)"
proof -
  have "dns_wf d'" using assms(1,2) by (induction rule: rtranclp_induct) (auto intro: server_step_wf)
  with assms(3) show ?thesis unfolding dns_wf_def by blast
qed

theorem signatures_match_signers_witness:
  "\<exists>S. unsolvedContentsSignature dns0 (replicate 32 1) = Some S \<and> content_signed (TxContent tx0) (card S)"
  using signatures_match_signers [OF rtranclp.rtrancl_refl dns0_wf, of "replicate 32 1" "TxContent tx0"]
  by (auto simp: dns0_def)

text \<open>C22: A feedback leads to a submission only when the content, with the new signature, carries signatures of
  at least the quorum of different arbiters, provided there are fewer than 63 before; and what was
  submitted is no longer waiting.\<close>

theorem submitted_at_quorum:
  assumes "receiveWithdrawProposalFeedback E i d = (r, d')" "dns_wf d" "env_ok E"
    and "submitted d' \<noteq> submitted d"
    and "\<And>hash S. unsolvedContentsSignature d hash = Some S \<Longrightarrow> card S < 63"
  shows "\<exists>hash S c. unsolvedContentsSignature d hash = Some S \<and>
    ToCodeHash (eC E) (TargetArbitratorProgramHash i) \<notin> S \<and>
    submitted d' = c # submitted d \<and> content_signed c (card S + 1) \<and> quorum E \<le> card S + 1 \<and>
    unsolvedContents d' hash = None \<and> unsolvedContentsSignature d' hash = None"
proof (cases rule: receive_cases [OF assms(1,2), case_names same merged])
  case (merged sign c txn S n c')
  let ?hash = "content_Hash (eT E) (eV E) c"
  have signed: "content_signed c' (card S + 1)" "n = card S + 1"
    using MergeSign_signed [OF merged(6)] Parse_length [OF merged(1)] dns_wfD [OF assms(2) merged(3,4)]
      assms(3) assms(5) [OF merged(4)] by (auto simp: env_ok_def)
  then show ?thesis
    using merged(4,5,7) assms(4)
    by (intro exI [of _ ?hash] exI [of _ S] exI [of _ c'])
      (auto simp: merged_state_def Let_def split: if_splits)
qed (use assms(4) in simp)

definition item1 :: item where
  "item1 = item0\<lparr>TargetArbitratorProgramHash := replicate 20 0 @ [2]\<rparr>"

definition env1 :: cs_env where
  "env1 = env0\<lparr>eGroup := group0\<lparr>arbitrators := [''2'']\<rparr>\<rparr>"

lemma parse1: "ParseFeedbackSignedData (eC env1) (eT env1) (eV env1) item1 = Done (replicate 65 50, [])"
  by (simp add: ParseFeedbackSignedData_def env1_def env0_def crypto1_def crypto0_def item1_def item0_def
      fresh_item_def signed_bytes_def ops0_def content_SerializeUnsigned_def)

lemma merge1:
  "MergeSign (eC env1) (eT env1) (replicate 65 50) (replicate 19 0 @ [2]) (TxContent tx0) =
     Done (2, TxContent (tx0\<lparr>Programs := [prog0\<lparr>Parameter := Some (replicate 65 0 @ replicate 65 50)\<rparr>]\<rparr>))"
proof -
  have "check_not_signed crypto1 [9] [33 # key_bytes (1, 0), 33 # key_bytes (2, 0)] 1 (replicate 65 0) = Done ()"
    by (rule check_one [where pk = "(2, 0)"])
      (simp_all add: crypto1_def crypto0_def key_bytes_def crypto_consts_def replicate_eq_replicate)
  moreover have "GetCorssChainSigners crypto1 [1] = Some [replicate 19 0 @ [1], replicate 19 0 @ [2], replicate 19 0 @ [3]]"
    by (simp add: crypto1_def crypto0_def upt_rec)
  ultimately show ?thesis
    by (simp add: MergeSign_def env1_def env0_def tx0_def prog0_def MergeSignToTransaction_def ops0_def Let_def)
      (simp add: crypto1_def crypto0_def)
qed

lemma receive1:
  "receiveWithdrawProposalFeedback env1 item1 dns0 =
     merged_state env1 (replicate 32 1) (replicate 19 0 @ [2]) {replicate 19 0 @ [50]} 2
       (TxContent (tx0\<lparr>Programs := [prog0\<lparr>Parameter := Some (replicate 65 0 @ replicate 65 50)\<rparr>]\<rparr>)) dns0"
proof -
  have "content_Hash (eT env1) (eV env1) (TxContent tx0) = replicate 32 1" "ItemContent item1 = Some (TxContent tx0)"
    "ToCodeHash (eC env1) (TargetArbitratorProgramHash item1) = replicate 19 0 @ [2]"
    by (simp_all add: content_Hash_def env1_def env0_def ops0_def item1_def item0_def crypto1_def crypto0_def)
  then show ?thesis
    by (simp add: receiveWithdrawProposalFeedback_def parse1 lock_def dns0_def merge1 merged_state_def Let_def
        option.case_eq_if)
qed

theorem submitted_at_quorum_witness:
  "\<exists>S c. unsolvedContentsSignature dns0 (replicate 32 1) = Some S \<and>
     submitted (snd (receiveWithdrawProposalFeedback env1 item1 dns0)) = [c] \<and> content_signed c (card S + 1)"
proof -
  have ok: "env_ok env1" using env0_ok by (simp add: env_ok_def env1_def)
  have q: "quorum env1 = 1"
    by (simp add: quorum_def env1_def env0_def group0_def config0_def getTransactionAgreementArbitratorsCount_def)
  then have "submitted (snd (receiveWithdrawProposalFeedback env1 item1 dns0)) \<noteq> submitted dns0"
    by (simp add: receive1 merged_state_def Let_def)
  moreover have "\<And>hash S. unsolvedContentsSignature dns0 hash = Some S \<Longrightarrow> card S < 63"
    by (auto simp: dns0_def split: if_splits)
  ultimately obtain hash S c where "unsolvedContentsSignature dns0 hash = Some S" "content_signed c (card S + 1)"
    "submitted (snd (receiveWithdrawProposalFeedback env1 item1 dns0)) = c # submitted dns0"
    using submitted_at_quorum [OF prod.collapse [symmetric] dns0_wf ok] by blast
  moreover have "submitted dns0 = []"
    "unsolvedContentsSignature dns0 = [replicate 32 1 \<mapsto> {replicate 19 0 @ [50]}]" by (simp_all add: dns0_def)
  ultimately show ?thesis by (auto simp: fun_upd_def split: if_splits)
qed

text \<open>A second feedback of an arbiter that has already signed changes nothing.\<close>

lemma second_signature_ignored:
  assumes "ParseFeedbackSignedData (eC E) (eT E) (eV E) i = Done (sign, [])" "ItemContent i = Some c"
    and "unsolvedContents d (content_Hash (eT E) (eV E) c) = Some txn"
    and "unsolvedContentsSignature d (content_Hash (eT E) (eV E) c) = Some S"
    and "ToCodeHash (eC E) (TargetArbitratorProgramHash i) \<in> S" "\<not> mux_locked d"
  shows "receiveWithdrawProposalFeedback E i d = (Done (), d)"
proof -
  have "d\<lparr>mux_locked := False\<rparr> = d" using assms(6) by (cases d) simp
  then show ?thesis using assms by (simp add: receiveWithdrawProposalFeedback_def lock_def Let_def)
qed

lemma second_signature_ignored_witness:
  "receiveWithdrawProposalFeedback env1 (item1\<lparr>TargetArbitratorProgramHash := replicate 20 0 @ [50]\<rparr>) dns0 = (Done (), dns0)"
proof (rule second_signature_ignored)
  show "ParseFeedbackSignedData (eC env1) (eT env1) (eV env1) (item1\<lparr>TargetArbitratorProgramHash := replicate 20 0 @ [50]\<rparr>) =
      Done (replicate 65 50, [])"
    by (simp add: ParseFeedbackSignedData_def env1_def env0_def crypto1_def crypto0_def item1_def item0_def
        fresh_item_def signed_bytes_def ops0_def content_SerializeUnsigned_def)
  show "unsolvedContentsSignature dns0 (content_Hash (eT env1) (eV env1) (TxContent tx0)) = Some {replicate 19 0 @ [50]}"
    by (simp add: content_Hash_def env1_def env0_def ops0_def dns0_def)
qed (simp_all add: content_Hash_def env1_def env0_def ops0_def dns0_def item1_def item0_def crypto1_def crypto0_def)

text \<open>C20: The signature of a feedback is checked with the public key in the feedback, and the sender with its
  program hash, and nothing ties the two: whoever puts the program hash of an arbiter that has not
  signed next to a key of its own has its signature merged and counted as that arbiter's.\<close>

theorem foreign_signature_counted:
  assumes "Item_Deserialize (eC E) (eW E) (eT E) (fresh_item, bytes) = (None, i, r)"
    and "ItemType i = AnswerMultisigContent" "arbiter_hashes (eC E) (arbitrators (eGroup E)) = Inr hs"
    and "TargetArbitratorProgramHash i \<in> set hs"
    and "TargetArbitratorPublicKey i = Some foreign" "ItemContent i = Some c"
    and "content_SerializeUnsigned (eT E) (eV E) c = (None, msg)"
    and "crypto_consts (eC E)" "length (signed_bytes i) = 130" "Verify (eC E) foreign msg (drop 66 (signed_bytes i))"
    and "unsolvedContents d (content_Hash (eT E) (eV E) c) = Some txn"
    and "unsolvedContentsSignature d (content_Hash (eT E) (eV E) c) = Some S"
    and "ToCodeHash (eC E) (TargetArbitratorProgramHash i) \<notin> S" "\<not> mux_locked d"
    and "MergeSign (eC E) (eT E) (drop 65 (signed_bytes i)) (ToCodeHash (eC E) (TargetArbitratorProgramHash i)) txn = Done (n, c')"
    and "n < quorum E"
  shows "ReceiveProposalFeedback E bytes d = (Done (),
    d\<lparr>unsolvedContents := (unsolvedContents d)(content_Hash (eT E) (eV E) c \<mapsto> c'),
      unsolvedContentsSignature := (unsolvedContentsSignature d)
        (content_Hash (eT E) (eV E) c \<mapsto> insert (ToCodeHash (eC E) (TargetArbitratorProgramHash i)) S)\<rparr>)"
proof -
  have "CheckSenderInCurrentArbiters (eC E) (eGroup E) i = None"
    using assms(3,4) by (simp add: CheckSenderInCurrentArbiters_def)
  moreover have "tl (drop 65 (signed_bytes i)) = drop 66 (signed_bytes i)"
    using drop_Suc [of 65 "signed_bytes i"] by (simp add: tl_drop)
  then have "ParseFeedbackSignedData (eC E) (eT E) (eV E) i = Done (drop 65 (signed_bytes i), [])"
    using assms(5-10) by (simp add: ParseFeedbackSignedData_def crypto_consts_def Let_def)
  moreover have "d\<lparr>mux_locked := False\<rparr> = d" using assms(14) by (cases d) simp
  ultimately show ?thesis
    using assms(1,2,6,11-16)
    by (simp add: ReceiveProposalFeedback_def receiveWithdrawProposalFeedback_def lock_def Let_def)
qed

definition env2 :: cs_env where
  "env2 = env0\<lparr>eGroup := group0\<lparr>arbitrators := [[byte_char 1], [byte_char 2], [byte_char 3]]\<rparr>\<rparr>"

lemma item1_fits: "item_fits crypto1 ops0 item1"
proof -
  have "tx_full_ok ops0 tx0" by (auto simp: tx_full_ok_def ops0_def)
  moreover have "MaxRedeemScriptDataSize \<ge> 1" by (simp add: MaxRedeemScriptDataSize_def)
  ultimately show ?thesis
    by (simp add: item_fits_def header_fits_def body_fits_def item1_def item0_def fresh_item_def crypto1_def crypto0_def
        key_bytes_def script_fits_def signed_fits_def Let_def)
qed

lemma item1_bytes: "\<exists>bs. Item_Deserialize crypto1 wire0 ops0 (fresh_item, bs) = (None, item1, [])"
  using item.roundtrip [of wire0 crypto1 ops0 item1 ev_ops0 "fst (Item_Serialize crypto1 wire0 ops0 ev_ops0 item1 [])"
      "snd (Item_Serialize crypto1 wire0 ops0 ev_ops0 item1 [])" "[]"] wire0_ok item1_fits by auto

theorem foreign_signature_counted_witness:
  "\<exists>bytes d. ReceiveProposalFeedback env2 bytes dns0 = (Done (), d) \<and>
     unsolvedContentsSignature d (replicate 32 1) = Some {replicate 19 0 @ [2], replicate 19 0 @ [50]}"
proof -
  obtain bs where bs: "Item_Deserialize crypto1 wire0 ops0 (fresh_item, bs) = (None, item1, [])"
    using item1_bytes by blast
  have hs: "arbiter_hashes crypto1 (arbitrators (eGroup env2)) =
      Inr [replicate 20 0 @ [1], replicate 20 0 @ [2], replicate 20 0 @ [3]]"
    by (simp add: env2_def crypto1_def crypto0_def)
  have same: "eC env2 = crypto1" "eW env2 = wire0" "eT env2 = ops0" "eV env2 = ev_ops0" "eC env1 = crypto1" "eT env1 = ops0"
    by (simp_all add: env2_def env1_def env0_def)
  have q: "quorum env2 = 3"
    by (simp add: quorum_def env2_def env0_def group0_def config0_def getTransactionAgreementArbitratorsCount_def)
  have hash: "content_Hash ops0 ev_ops0 (TxContent tx0) = replicate 32 1"
    "unsolvedContents dns0 (replicate 32 1) = Some (TxContent tx0)" "\<not> mux_locked dns0"
    "unsolvedContentsSignature dns0 (replicate 32 1) = Some {replicate 19 0 @ [50]}"
    by (simp_all add: content_Hash_def ops0_def dns0_def)
  have i: "ItemType item1 = AnswerMultisigContent" "TargetArbitratorPublicKey item1 = Some (50, 0)"
    "ItemContent item1 = Some (TxContent tx0)" "signed_bytes item1 = replicate 130 50"
    "TargetArbitratorProgramHash item1 = replicate 20 0 @ [2]"
    by (simp_all add: item1_def item0_def signed_bytes_def)
  have C: "ToCodeHash crypto1 (replicate 20 0 @ [2]) = replicate 19 0 @ [2]" "crypto_consts crypto1"
    "Verify crypto1 (50, 0) [9] (replicate 64 50)"
    by (simp_all add: crypto1_def crypto0_def crypto_consts_def)
  have "ReceiveProposalFeedback env2 bs dns0 = (Done (),
    dns0\<lparr>unsolvedContents := (unsolvedContents dns0)(replicate 32 1 \<mapsto>
        TxContent (tx0\<lparr>Programs := [prog0\<lparr>Parameter := Some (replicate 65 0 @ replicate 65 50)\<rparr>]\<rparr>)),
      unsolvedContentsSignature := (unsolvedContentsSignature dns0)
        (replicate 32 1 \<mapsto> insert (replicate 19 0 @ [2]) {replicate 19 0 @ [50]})\<rparr>)"
    using foreign_signature_counted [of env2 bs item1 "[]" "[replicate 20 0 @ [1], replicate 20 0 @ [2], replicate 20 0 @ [3]]"
        "(50, 0)" "TxContent tx0" "[9]" dns0 "TxContent tx0" "{replicate 19 0 @ [50]}" 2
        "TxContent (tx0\<lparr>Programs := [prog0\<lparr>Parameter := Some (replicate 65 0 @ replicate 65 50)\<rparr>]\<rparr>)"]
      bs hs q hash i C merge1
    by (simp add: same content_SerializeUnsigned_def ops0_def replicate_eq_replicate)
  then show ?thesis by (intro exI conjI) (assumption, simp add: insert_commute)
qed

end
