(* ===== verification/Joint_Signature.thy ===== *)
theory Joint_Signature
  imports Cs_Server
begin

text \<open>
  What the second Schnorr round adds up to: the shares the arbiters send back, the points they sent in
  the first round, the challenge, and the signature that the server in \<open>distributednodeserver.go\<close> makes of them.
\<close>

section \<open>The sums of the server\<close>

abbreviation known :: "(string \<times> krp) list \<Rightarrow> string \<Rightarrow> krp" where
  "known rs pk \<equiv> the (map_of rs pk)"

lemma known_update: "pk \<noteq> pk' \<Longrightarrow> map_of (AList.update pk r rs) pk' = map_of rs pk'"
  by (simp add: update_conv')

lemma sum_k_known:
  "sum_k K ry rs ss a = (Some s, rs') \<Longrightarrow> distinct (map fst ss) \<Longrightarrow>
   (\<forall>x \<in> set ss. map_of rs (fst x) \<noteq> None) \<and>
   s = a + sum_list (map (\<lambda>x. GetK K ry (K0 (known rs (fst x))) + int (snd x)) ss)"
proof (induction K ry rs ss a rule: sum_k.induct)
  case (2 K ry rs pk signature ss a)
  then obtain r where r: "map_of rs pk = Some r" by (auto split: option.splits)
  have other: "map_of (AList.update pk (r\<lparr>K0 := GetK K ry (K0 r) + int signature\<rparr>) rs) (fst x) = map_of rs (fst x)"
    if "x \<in> set ss" for x
    using "2.prems"(2) that by (intro known_update) (auto simp: image_iff)
  have "\<forall>x \<in> set ss. map_of rs (fst x) \<noteq> None"
    "s = (a + (GetK K ry (K0 r) + int signature)) + sum_list (map (\<lambda>x. GetK K ry (K0 (known rs (fst x))) + int (snd x)) ss)"
    using "2.IH" [OF r refl] "2.prems" r other by (auto simp: Let_def cong: map_cong)
  then show ?case using r by simp
qed simp

text \<open>After the sum the records of the signers hold other numbers: a second sum over them comes out differently.\<close>

lemma sum_k_overwrites:
  "sum_k K ry rs ss a = (Some s, rs') \<Longrightarrow> distinct (map fst ss) \<Longrightarrow>
   map_of rs' pk = (case map_of ss pk of
     None \<Rightarrow> map_of rs pk
   | Some share \<Rightarrow> Some ((known rs pk)\<lparr>K0 := GetK K ry (K0 (known rs pk)) + int share\<rparr>))"
proof (induction K ry rs ss a rule: sum_k.induct)
  case (2 K ry rs pk' signature ss a)
  then obtain r where r: "map_of rs pk' = Some r" by (auto split: option.splits)
  have "map_of ss pk' = None" using "2.prems"(2) by (simp add: map_of_eq_None_iff)
  with "2.IH" [OF r refl] "2.prems" r show ?case
    by (cases "pk = pk'") (auto simp: Let_def known_update update_conv' split: option.splits)
qed simp

lemma known_krps_all:
  "\<forall>x \<in> set ss. map_of rs (fst x) \<noteq> None \<Longrightarrow> known_krps rs ss = map (known rs) (map fst ss)"
  by (induction ss) (auto simp: known_krps_def map_filter_simps)

lemma signer_points_known: "signer_points C rs pks = Some ks \<Longrightarrow> ks = map (known rs) (map (BytesToHexString C) pks)"
  by (induction pks arbitrary: ks) (auto split: option.splits)

section \<open>Honest arbiters\<close>

text \<open>Every signer has answered the first round with multiples of the base point, and the second with \<open>e\<close>
  times its private key.\<close>

definition honest_shares :: "curve \<Rightarrow> (string \<Rightarrow> nat) \<Rightarrow> nat \<Rightarrow> (string \<times> krp) list \<Rightarrow> (string \<times> nat) list \<Rightarrow> bool" where
  "honest_shares K key e rs ss \<longleftrightarrow>
     list_all (\<lambda>(pk, r). 0 \<le> K0 r \<and> (Rx r, Ry r) = ScalarBaseMult K (nat (K0 r)) \<and> (Px r, Py r) = ScalarBaseMult K (key pk)) rs \<and>
     list_all (\<lambda>(pk, share). share = GetEMulPrivateKey (key pk) e) ss"

definition nonce_of :: "(string \<times> krp) list \<Rightarrow> string \<Rightarrow> nat" where
  "nonce_of rs pk = nat (K0 (known rs pk))"

lemma honest_known:
  assumes "honest_shares K key e rs ss" "map_of rs pk \<noteq> None"
  shows "(Rx (known rs pk), Ry (known rs pk)) = ScalarBaseMult K (nonce_of rs pk) \<and>
    (Px (known rs pk), Py (known rs pk)) = ScalarBaseMult K (key pk) \<and> K0 (known rs pk) = int (nonce_of rs pk)"
proof -
  obtain r where r: "map_of rs pk = Some r" using assms(2) by auto
  with assms(1) map_of_SomeD [OF r] show ?thesis by (auto simp: honest_shares_def list_all_iff nonce_of_def)
qed

lemma honest_points:
  assumes "curve_ok K" "honest_shares K key e rs ss" "\<forall>pk \<in> set names. map_of rs pk \<noteq> None" "names \<noteq> []"
  shows "sum_points K (0, 0) (map (\<lambda>k. (Rx k, Ry k)) (map (known rs) names)) = ScalarBaseMult K (sum_list (map (nonce_of rs) names))"
    and "sum_points K (0, 0) (map (\<lambda>k. (Px k, Py k)) (map (known rs) names)) = ScalarBaseMult K (sum_list (map key names))"
proof -
  note each = honest_known [OF assms(2)]
  have R: "map (\<lambda>k. (Rx k, Ry k)) (map (known rs) names) = map (ScalarBaseMult K) (map (nonce_of rs) names)"
    and P: "map (\<lambda>k. (Px k, Py k)) (map (known rs) names) = map (ScalarBaseMult K) (map key names)"
    using each assms(3) by simp_all
  show "sum_points K (0, 0) (map (\<lambda>k. (Rx k, Ry k)) (map (known rs) names)) = ScalarBaseMult K (sum_list (map (nonce_of rs) names))"
    "sum_points K (0, 0) (map (\<lambda>k. (Px k, Py k)) (map (known rs) names)) = ScalarBaseMult K (sum_list (map key names))"
    unfolding R P using assms(4) by (auto intro!: sum_points_base [OF assms(1)] simp del: map_map)
qed

lemma sum_GetK:
  "sum_list (map (\<lambda>x. GetK K ry (int (f x)) + g x) xs) =
     (if Jacobi K ry (CurveP K) = 1 then int (sum_list (map f xs)) + sum_list (map g xs)
      else int (CurveN K) * int (length xs) - int (sum_list (map f xs)) + sum_list (map g xs))"
  by (induction xs) (simp_all add: GetK_def algebra_simps)

lemma sum_honest:
  "list_all (\<lambda>(pk, share). share = GetEMulPrivateKey (key pk) e) ss \<Longrightarrow>
   sum_list (map (\<lambda>x. int (snd x)) ss) = int (e * sum_list (map key (map fst ss)))"
  by (induction ss) (auto simp: GetEMulPrivateKey_def algebra_simps)

lemma honest_sum:
  assumes "honest_shares K key e rs ss" "sum_k K ry rs ss 0 = (Some s, rs')" "distinct (map fst ss)"
  shows "s = (if Jacobi K ry (CurveP K) = 1 then int (sum_list (map (nonce_of rs) (map fst ss)) + e * sum_list (map key (map fst ss)))
    else int (CurveN K) * int (length ss) - int (sum_list (map (nonce_of rs) (map fst ss))) + int (e * sum_list (map key (map fst ss))))"
proof -
  note known = sum_k_known [OF assms(2,3)]
  have "map (\<lambda>x. GetK K ry (K0 (known rs (fst x))) + int (snd x)) ss = map (\<lambda>x. GetK K ry (int (nonce_of rs (fst x))) + int (snd x)) ss"
    using known honest_known [OF assms(1)] by simp
  then have "s = sum_list (map (\<lambda>x. GetK K ry (int (nonce_of rs (fst x))) + int (snd x)) ss)" using known by (simp only:)
  moreover have "sum_list (map (\<lambda>x. int (snd x)) ss) = int (e * sum_list (map key (map fst ss)))"
    using assms(1) by (intro sum_honest) (simp add: honest_shares_def)
  ultimately show ?thesis using sum_GetK [of K ry "\<lambda>x. nonce_of rs (fst x)" "\<lambda>x. int (snd x)" ss] by (simp add: comp_def)
qed

section \<open>The verifier\<close>

text \<open>What the node of the main chain does with the signature (the library's \<open>SchnorrVerify\<close>): from the key and the message
  it computes the challenge anew, subtracts its multiple of the key, and compares with the x in the signature.\<close>

fun point_times :: "curve \<Rightarrow> nat \<Rightarrow> nat \<times> nat \<Rightarrow> nat \<times> nat" where
  "point_times K 0 p = (0, 0)"
| "point_times K (Suc n) p = CurveAdd K (point_times K n p) p"

definition neg_point :: "curve \<Rightarrow> nat \<times> nat \<Rightarrow> nat \<times> nat" where
  "neg_point K p = (fst p, CurveP K - snd p)"

definition SchnorrVerify :: "curve \<Rightarrow> nat \<times> nat \<Rightarrow> bytes \<Rightarrow> bytes \<Rightarrow> bool" where
  "SchnorrVerify K P m sg \<longleftrightarrow> length sg = 64 \<and>
     (case getE K P (take 32 sg) m of
        None \<Rightarrow> False
      | Some e \<Rightarrow>
          (let R = CurveAdd K (ScalarBaseMult K (SetBytes (drop 32 sg))) (neg_point K (point_times K e P))
           in R \<noteq> (0, 0) \<and> Jacobi K (snd R) (CurveP K) = 1 \<and> fst R = SetBytes (take 32 sg)))"

text \<open>The laws of negation, for multiples of the base point other than the point at infinity: of a point and its negative
  exactly one has a y that is a square.\<close>

definition curve_laws :: "curve \<Rightarrow> bool" where
  "curve_laws K \<longleftrightarrow> curve_ok K \<and> ScalarBaseMult K 0 = (0, 0) \<and>
     (\<forall>a. a mod CurveN K \<noteq> 0 \<longrightarrow> ScalarBaseMult K a \<noteq> (0, 0) \<and>
        neg_point K (ScalarBaseMult K a) = ScalarBaseMult K (CurveN K - a mod CurveN K) \<and>
        (Jacobi K (snd (neg_point K (ScalarBaseMult K a))) (CurveP K) = 1 \<longleftrightarrow>
         Jacobi K (snd (ScalarBaseMult K a)) (CurveP K) \<noteq> 1))"

lemma point_times_base: "curve_laws K \<Longrightarrow> point_times K e (ScalarBaseMult K a) = ScalarBaseMult K (e * a)"
proof (induction e)
  case (Suc e)
  then have "CurveAdd K (ScalarBaseMult K (e * a)) (ScalarBaseMult K a) = ScalarBaseMult K (e * a + a)"
    unfolding curve_laws_def curve_ok_def by blast
  with Suc show ?case by (simp add: add.commute)
qed (simp add: curve_laws_def)

lemma same_residue: "curve_ok K \<Longrightarrow> a mod CurveN K = b mod CurveN K \<Longrightarrow> ScalarBaseMult K a = ScalarBaseMult K b"
  by (metis curve_ok_def)

lemma subtract_multiple:
  assumes "curve_laws K" "m mod CurveN K \<noteq> 0" "(s - int m) mod int (CurveN K) = int k mod int (CurveN K)"
  shows "CurveAdd K (ScalarBaseMult K (nat (s mod int (CurveN K)))) (neg_point K (ScalarBaseMult K m)) = ScalarBaseMult K k"
proof -
  have K: "curve_ok K" and N: "0 < CurveN K" using assms(1) by (simp_all add: curve_laws_def curve_ok_def)
  have add: "CurveAdd K (ScalarBaseMult K a) (ScalarBaseMult K b) = ScalarBaseMult K (a + b)" for a b
    using K unfolding curve_ok_def by blast
  have "m mod CurveN K \<le> CurveN K" "0 \<le> s mod int (CurveN K)" using N by (simp_all add: less_imp_le)
  then have "int (nat (s mod int (CurveN K)) + (CurveN K - m mod CurveN K)) =
      s mod int (CurveN K) - int m mod int (CurveN K) + int (CurveN K)"
    by (simp only: of_nat_add of_nat_diff int_nat_eq zmod_int if_True)
  then have "int ((nat (s mod int (CurveN K)) + (CurveN K - m mod CurveN K)) mod CurveN K) = int (k mod CurveN K)"
    using assms(3) by (simp add: zmod_int mod_diff_eq)
  then have "(nat (s mod int (CurveN K)) + (CurveN K - m mod CurveN K)) mod CurveN K = k mod CurveN K" by simp
  then have "ScalarBaseMult K (nat (s mod int (CurveN K)) + (CurveN K - m mod CurveN K)) = ScalarBaseMult K k"
    by (rule same_residue [OF K])
  then show ?thesis using assms(1,2) by (simp add: curve_laws_def add)
qed

lemma sum_verifies:
  assumes "curve_laws K" "k mod CurveN K \<noteq> 0" "m mod CurveN K \<noteq> 0" "R = ScalarBaseMult K k"
    and "s = (if Jacobi K (snd R) (CurveP K) = 1 then int (k + m) else int (CurveN K) * int n - int k + int m)"
  shows "let V = CurveAdd K (ScalarBaseMult K (nat (s mod int (CurveN K)))) (neg_point K (ScalarBaseMult K m))
    in V \<noteq> (0, 0) \<and> Jacobi K (snd V) (CurveP K) = 1 \<and> fst V = fst R"
proof (cases "Jacobi K (snd R) (CurveP K) = 1")
  case True
  then have "(s - int m) mod int (CurveN K) = int k mod int (CurveN K)" using assms(5) by simp
  from subtract_multiple [OF assms(1,3) this] True assms(1,2,4) show ?thesis by (simp add: curve_laws_def Let_def)
next
  case False
  have N: "0 < CurveN K" using assms(1) by (simp add: curve_laws_def curve_ok_def)
  have neg: "neg_point K R = ScalarBaseMult K (CurveN K - k mod CurveN K)" "Jacobi K (snd (neg_point K R)) (CurveP K) = 1"
    using assms(1) [unfolded curve_laws_def, THEN conjunct2, THEN conjunct2, THEN spec, of k] assms(2) False unfolding assms(4) by blast+
  have "(CurveN K - k mod CurveN K) mod CurveN K = CurveN K - k mod CurveN K" using assms(2) N by (intro mod_less) linarith
  moreover have "k mod CurveN K < CurveN K" using N by simp
  ultimately have "(CurveN K - k mod CurveN K) mod CurveN K \<noteq> 0" by linarith
  then have "neg_point K R \<noteq> (0, 0)" unfolding neg(1) using assms(1) by (simp add: curve_laws_def)
  moreover have "k mod CurveN K \<le> CurveN K" using N by (simp add: less_imp_le)
  then have "(s - int m) mod int (CurveN K) = int (CurveN K - k mod CurveN K) mod int (CurveN K)"
    using mod_mult_self4 [of "int (CurveN K)" "int n" "- int k"] assms(5) False by (simp add: of_nat_diff zmod_int mod_simps)
  from subtract_multiple [OF assms(1,3) this]
  have "CurveAdd K (ScalarBaseMult K (nat (s mod int (CurveN K)))) (neg_point K (ScalarBaseMult K m)) = neg_point K R"
    by (simp add: neg(1))
  ultimately show ?thesis using neg(2) by (simp add: Let_def) (simp add: neg_point_def)
qed

text \<open>The hash of a transaction is over its unsigned form, without the programs.\<close>

definition hash_of_unsigned :: "tx_ops \<Rightarrow> bool" where
  "hash_of_unsigned T \<longleftrightarrow> (\<forall>tx ps. TxHash T (tx\<lparr>Programs := ps\<rparr>) = TxHash T tx)"

end
