(* ===== verification/Props_Rounds.thy ===== *)
theory Props_Rounds
  imports Props_Cs Joint_Signature
begin

text \<open>
  Properties of the arbiter that answers a proposal, of the two Schnorr rounds, and of the mutex of the
  server of the arbiter on duty.
\<close>

section \<open>The mutex\<close>

lemma blocked_feedback:
  assumes "mux_locked d"
  shows "snd (receiveWithdrawProposalFeedback E i d) = d"
    "snd (receiveSchnorrWithdrawProposal2Feedback E i d) = d"
    "snd (receiveSchnorrWithdrawProposal3Feedback E i d) = d"
  using assms
  by (simp_all add: receiveWithdrawProposalFeedback_def receiveSchnorrWithdrawProposal2Feedback_def
      receiveSchnorrWithdrawProposal3Feedback_def lock_blocked split: outcome.split prod.split option.split)

lemma blocked_step:
  assumes "server_step d d'" "mux_locked d"
  shows "d' = d \<or> d' = Reset d"
  using assms
proof (induction rule: server_step.induct)
  case (s_propose E d tx)
  then show ?case
    by (auto simp: BroadcastWithdrawProposal_def generateDistributedProposal_def register_blocked send_proposal_def
        split: outcome.split sum.split prod.split option.split)
next
  case (s_illegal E d ev)
  then show ?case
    by (auto simp: BroadcastSidechainIllegalData_def generateDistributedProposal_def register_blocked send_proposal_def
        split: outcome.split sum.split prod.split option.split)
next
  case (s_feedback E d content)
  then show ?case
    by (simp add: ReceiveProposalFeedback_def blocked_feedback split: prod.split option.split)
next
  case (s_schnorr2 E d tx)
  then show ?case
    by (auto simp: BroadcastSchnorrWithdrawProposal2_def generateDistributedSchnorrProposal2_def lock_blocked Let_def
        split: outcome.split prod.split option.split)
next
  case (s_timer E d h)
  then show ?case
    by (simp add: ReceiveSendSchnorrWithdrawProposal3_def lock_blocked split: option.split)
next
  case (s_schnorr3 E d h tx pks e)
  then show ?case by (simp add: BroadcastSchnorrWithdrawProposal3_def lock_blocked)
qed simp

lemma blocked_reachable:
  "server_step\<^sup>*\<^sup>* d d' \<Longrightarrow> mux_locked d \<Longrightarrow> mux_locked d' \<and> sent d' = sent d \<and> submitted d' = submitted d"
proof (induction rule: rtranclp_induct)
  case (step y z)
  then show ?case using blocked_step [OF step.hyps(2)] by (auto simp: Reset_def)
qed simp

text \<open>C9: A correctly signed answer to the second Schnorr round from a key that is not counted in
  \<open>UnsignedSigners\<close> makes the server return an error with the mutex held: from then on, whatever is called,
  it sends no message and submits no transaction any more, and the mutex is never released.\<close>

theorem unlisted_signer_stops_server:
  assumes "CheckSchnorrFeedbackRequestSSignedData (eC E) (eW E) (eT E) i = Done ()" "STx (RequestSContent i) = Some tx"
    and "\<not> mux_locked d" "schnorrTransaction d (TxHash (eT E) tx) = Some txn"
    and "requestSSigners d (TxHash (eT E) txn) = Some signers"
    and "TargetArbitratorPublicKey i = Some pk" "EncodePoint (eC E) pk = Some bs"
    and "map_of signers (BytesToHexString (eC E) bs) = None" "UnsignedSigners d (BytesToHexString (eC E) bs) = None"
    and "receiveSchnorrWithdrawProposal3Feedback E i d = (r, d1)" "server_step\<^sup>*\<^sup>* d1 d2"
  shows "r = Fail (Err ''not found in UnsignedSigners'') \<and>
    mux_locked d2 \<and> sent d2 = sent d \<and> submitted d2 = submitted d"
proof -
  have "r = Fail (Err ''not found in UnsignedSigners'')" "d1 = d\<lparr>mux_locked := True\<rparr>"
    using assms(1-10) by (auto simp: receiveSchnorrWithdrawProposal3Feedback_def lock_def Let_def)
  then show ?thesis using blocked_reachable [OF assms(11)] by simp
qed

definition item3 :: item where
  "item3 = fresh_item\<lparr>TargetArbitratorPublicKey := Some (60, 0), TargetArbitratorProgramHash := replicate 20 0 @ [2],
     ItemType := AnswerSchnorrMultisigContent3, signedData := Some (replicate 64 60),
     RequestSContent := \<lparr>SNonceHash = replicate 32 1, STx = Some tx0, SPublickeys = [], SE = 0, SS = 0\<rparr>\<rparr>"

lemma check3: "CheckSchnorrFeedbackRequestSSignedData (eC env0) (eW env0) (eT env0) item3 = Done ()"
proof -
  have "request_s_fits ops0 True (RequestSContent item3)"
    by (auto simp: request_s_fits_def item3_def tx_unsigned_ok_def ops0_def)
  from request_s.ser_total [of wire0 ops0 True "RequestSContent item3" "[]"] this wire0_ok
  obtain bs where "RequestS_Serialize wire0 ops0 True (RequestSContent item3) [] = (None, bs)" by auto
  then show ?thesis
    by (simp add: CheckSchnorrFeedbackRequestSSignedData_def check_schnorr_def env0_def)
      (simp add: item3_def signed_bytes_def crypto1_def crypto0_def)
qed

theorem unlisted_signer_stops_server_witness:
  "\<exists>d1. receiveSchnorrWithdrawProposal3Feedback env0 item3 dns0 = (Fail (Err ''not found in UnsignedSigners''), d1) \<and>
     (\<forall>E tx. env_ok E \<longrightarrow> submitted (snd (BroadcastWithdrawProposal E tx d1)) = [])"
proof -
  obtain r d1 where rd: "receiveSchnorrWithdrawProposal3Feedback env0 item3 dns0 = (r, d1)" by fastforce
  have E: "eT env0 = ops0" "eC env0 = crypto1" by (simp_all add: env0_def)
  note stop = unlisted_signer_stops_server [where E = env0 and i = item3 and d = dns0 and tx = tx0 and txn = tx0 and signers = "[]"
      and pk = "(60, 0)" and bs = "key_bytes (60, 0)", OF check3 _ _ _ _ _ _ _ _ rd]
  have sub: "submitted dns0 = []" by (simp add: dns0_def)
  have all: "r = Fail (Err ''not found in UnsignedSigners'') \<and> mux_locked d2 \<and> sent d2 = sent dns0 \<and> submitted d2 = []"
    if "server_step\<^sup>*\<^sup>* d1 d2" for d2
    using stop [of d2] that
    by (simp add: item3_def dns0_def E ops0_def crypto1_def crypto0_def)
  then have "submitted (snd (BroadcastWithdrawProposal E tx d1)) = []" if "env_ok E" for E tx
    using s_propose [OF that, of d1 tx] by blast
  then show ?thesis using rd all [of d1] by blast
qed

section \<open>Answering a proposal\<close>

lemma Sign_answer:
  assumes "Sign C T V acc True F i = Done i'"
  shows "\<exists>h arbs n pk c msg. GetCurrentHeight F = Inr h \<and> GetArbitratorGroupInfoByHeight F h = Inr (arbs, n) \<and>
    0 \<le> n \<and> nat n < length arbs \<and> PublicKeyFromString C (arbs ! nat n) = Some pk \<and>
    TargetArbitratorPublicKey i = Some pk \<and> ItemContent i = Some c \<and> content_SerializeUnsigned T V c = (None, msg) \<and>
    length (signed_bytes i) = SignatureScriptLength C \<and> Verify C pk msg (tl (signed_bytes i))"
  using assms
  by (auto simp: Sign_def appendSignature_def Let_def split: sum.splits option.splits outcome.splits prod.splits if_splits)

lemma send_signed_feedback:
  "feedbacks (snd (send_signed E L pid s cl)) \<noteq> feedbacks cl \<Longrightarrow> \<exists>i. s = Done i"
  by (auto simp: send_signed_def split: outcome.splits)

text \<open>C12: An arbiter answers a multi-signature proposal only when it is one of the current arbiters, when the
  check of its content passes, and when the proposal is signed, with the key it names, by the arbiter
  that the node says is on duty at the current height.\<close>

theorem answers_only_on_duty:
  assumes "OnReceivedProposal E L pid bytes cl = (r, cl')" "feedbacks cl' \<noteq> feedbacks cl"
    and "Item_Deserialize (eC E) (eW E) (eT E) (fresh_item, bytes) = (None, i, rest)" "ItemType i = MultisigContent"
  shows "CheckMyselfInCurrentArbiters (eC E) (eGroup E) (eAcc E) = None \<and>
    (\<exists>h arbs n pk c msg. GetCurrentHeight (eFunc E) = Inr h \<and> GetArbitratorGroupInfoByHeight (eFunc E) h = Inr (arbs, n) \<and>
      PublicKeyFromString (eC E) (arbs ! nat n) = Some pk \<and> TargetArbitratorPublicKey i = Some pk \<and>
      ItemContent i = Some c \<and> contentCheck L c = None \<and>
      content_SerializeUnsigned (eT E) (eV E) c = (None, msg) \<and> Verify (eC E) pk msg (tl (signed_bytes i)))"
proof -
  have me: "CheckMyselfInCurrentArbiters (eC E) (eGroup E) (eAcc E) = None"
    using assms by (auto simp: OnReceivedProposal_def split: option.splits)
  then have "onReceivedProposal E L pid i cl = (r, cl')" using assms(1,3,4) by (simp add: OnReceivedProposal_def)
  then obtain c where c: "ItemContent i = Some c" "contentCheck L c = None"
    and "send_signed E L pid (SignProposal E i) cl = (r, cl')"
    using assms(2) by (auto simp: onReceivedProposal_def split: option.splits)
  then obtain i' where "SignProposal E i = Done i'"
    using assms(2) send_signed_feedback [of E L pid "SignProposal E i" cl] by auto
  from Sign_answer [OF this [unfolded SignProposal_def]] c me show ?thesis by auto
qed

definition good_client :: client_env where
  "good_client = \<lparr>contentCheck = (\<lambda>_. None), schnorrCheck = (\<lambda>_. None), SendMessageToPeer = (\<lambda>_ _. None)\<rparr>"

definition no_feedbacks :: client where
  "no_feedbacks = \<lparr>CheckedTransactions = {}, feedbacks = []\<rparr>"

text \<open>A proposal of arbiter 2, whose key is 50, and the same arbiter receiving it.\<close>

definition script4 :: bytes where
  "script4 = 0x51 # (33 # key_bytes (50, 0)) @ (33 # key_bytes (49, 0)) @ [0x52, 0xAF]"

definition item4 :: item where
  "item4 = item0\<lparr>ItemType := MultisigContent, TargetArbitratorProgramHash := replicate 20 0 @ [50],
     redeemScript := script4, signedData := Some (replicate 65 50)\<rparr>"

definition signed4 :: item where
  "signed4 = item4\<lparr>signedData := Some (replicate 65 50 @ 64 # replicate 64 50)\<rparr>"

lemma signers4: "getMultiSignSigners crypto1 script4 = Inr [Some (replicate 20 0 @ [50]), Some (replicate 20 0 @ [49])]"
proof -
  have "chunks 34 (concat [33 # key_bytes (50, 0), 33 # key_bytes (49, 0)]) = [33 # key_bytes (50, 0), 33 # key_bytes (49, 0)]"
    by (rule chunks_concat) (auto simp: key_bytes_def)
  then show ?thesis
    by (simp add: getMultiSignSigners_def getMultiSignPublicKeys_def script4_def crypto1_def crypto0_def Let_def butlast_append
        key_bytes_def)
qed

lemma sign4: "SignProposal env0 item4 = Done signed4"
proof -
  have E: "eC env0 = crypto1" "eT env0 = ops0" "eV env0 = ev_ops0" "MyPublicKey (eAcc env0) = (50, 0)"
    "SignData (eAcc env0) [9] = Some (replicate 64 50)" "GetCurrentHeight (eFunc env0) = Inr 5"
    "GetArbitratorGroupInfoByHeight (eFunc env0) 5 = Inr ([''1'', ''2''], 1)" by (simp_all add: env0_def)
  have C: "EncodePoint crypto1 (50, 0) = Some (key_bytes (50, 0))" "SignatureScriptLength crypto1 = 65"
    "PublicKeyToStandardProgramHash crypto1 (key_bytes (50, 0)) = Some (replicate 20 0 @ [50])"
    "Verify crypto1 (50, 0) [9] (replicate 64 50)"
    by (simp_all add: crypto1_def crypto0_def key_bytes_def)
  have I: "redeemScript item4 = script4" "ItemContent item4 = Some (TxContent tx0)" "signedData item4 = Some (replicate 65 50)"
    "TargetArbitratorPublicKey item4 = Some (50, 0)" by (simp_all add: item4_def item0_def)
  have "PublicKeyFromString crypto1 ''2'' = Some (50, 0)"
    using key0 [OF no_space(2)]
    by (simp add: char_byte_def crypto1_def PublicKeyFromString_def) (simp add: crypto0_def)
  moreover have "signer_index (replicate 20 0 @ [50]) [Some (replicate 20 0 @ [50]), Some (replicate 20 0 @ [49])] = Done (Some 0)"
    by (simp add: signer_index_def)
  moreover have "content_SerializeUnsigned ops0 ev_ops0 (TxContent tx0) = (None, [9])"
    by (simp add: content_SerializeUnsigned_def ops0_def)
  ultimately show ?thesis
    by (simp add: SignProposal_def Sign_def appendSignature_def signers4 E C I signed_bytes_def signed4_def)
qed

lemma item4_fits: "item_fits crypto1 ops0 item4" "item_fits crypto1 ops0 (feedback_item env0 (replicate 20 0 @ [50]) signed4)"
proof -
  have "tx_full_ok ops0 tx0" by (auto simp: tx_full_ok_def ops0_def)
  moreover have "71 \<le> MaxRedeemScriptDataSize" by (simp add: MaxRedeemScriptDataSize_def)
  moreover have "length script4 = 71" by (simp add: script4_def key_bytes_def)
  ultimately show "item_fits crypto1 ops0 item4" "item_fits crypto1 ops0 (feedback_item env0 (replicate 20 0 @ [50]) signed4)"
    by (simp_all add: item_fits_def header_fits_def body_fits_def item4_def item0_def fresh_item_def crypto1_def crypto0_def
        key_bytes_def script_fits_def signed_fits_def Let_def signed4_def feedback_item_def answer_type_def content_types
        env0_def)
qed

theorem answers_only_on_duty_witness:
  "\<exists>bytes r cl. OnReceivedProposal env0 good_client [] bytes no_feedbacks = (r, cl) \<and> feedbacks cl \<noteq> [] \<and>
     (\<exists>c msg. content_SerializeUnsigned ops0 ev_ops0 c = (None, msg) \<and> Verify crypto1 (50, 0) msg (replicate 64 50))"
proof -
  have E: "eC env0 = crypto1" "eW env0 = wire0" "eT env0 = ops0" "eV env0 = ev_ops0" by (simp_all add: env0_def)
  obtain bs where bs: "Item_Deserialize crypto1 wire0 ops0 (fresh_item, bs) = (None, item4, [])"
    using item.roundtrip [of wire0 crypto1 ops0 item4 ev_ops0 "fst (Item_Serialize crypto1 wire0 ops0 ev_ops0 item4 [])"
      "snd (Item_Serialize crypto1 wire0 ops0 ev_ops0 item4 [])" "[]"] wire0_ok item4_fits(1) by auto
  obtain buf where buf: "Item_Serialize crypto1 wire0 ops0 ev_ops0 (feedback_item env0 (replicate 20 0 @ [50]) signed4) [] = (None, buf)"
    using item.ser_total [of wire0 crypto1 ops0 "feedback_item env0 (replicate 20 0 @ [50]) signed4" ev_ops0 "[]"]
      wire0_ok item4_fits(2) by auto
  have I: "ItemType item4 = MultisigContent" "ItemContent item4 = Some (TxContent tx0)"
    "TargetArbitratorPublicKey item4 = Some (50, 0)" "signed_bytes item4 = replicate 65 50"
    by (simp_all add: item4_def item0_def signed_bytes_def)
  have "my_hash env0 = Done (replicate 20 0 @ [50])" by (simp add: my_hash_def env0_def crypto1_def crypto0_def key_bytes_def)
  moreover have "CheckMyselfInCurrentArbiters crypto1 (eGroup env0) (eAcc env0) = None"
    by (simp add: CheckMyselfInCurrentArbiters_def env0_def crypto1_def crypto0_def key_bytes_def group0_def byte_char_def
        char_of_def bit_iff_odd)
  ultimately have run: "OnReceivedProposal env0 good_client [] bs no_feedbacks = (Done (), no_feedbacks\<lparr>feedbacks := [([], buf)]\<rparr>)"
    by (simp add: OnReceivedProposal_def E bs I onReceivedProposal_def sign4 send_signed_def Feedback_def buf
        good_client_def no_feedbacks_def)
  have "feedbacks (no_feedbacks\<lparr>feedbacks := [([], buf)]\<rparr>) \<noteq> feedbacks no_feedbacks" by (simp add: no_feedbacks_def)
  from answers_only_on_duty [OF run this] bs I E
  have "\<exists>c msg. content_SerializeUnsigned ops0 ev_ops0 c = (None, msg) \<and> Verify crypto1 (50, 0) msg (replicate 64 50)"
    by auto
  moreover have "feedbacks (no_feedbacks\<lparr>feedbacks := [([], buf)]\<rparr>) \<noteq> []" by simp
  ultimately show ?thesis using run by blast
qed

section \<open>The joint signature\<close>

lemma round_two_challenge:
  assumes "round_two E txn0 signers = Done (txn, pks, e)"
  shows "GetE (eK E) (map (known signers) (map (BytesToHexString (eC E)) pks)) (TxHash (eT E) txn) = Some e"
  using assms signer_points_known
  by (fastforce simp: round_two_def Let_def split: sum.splits prod.splits option.splits)

lemma record_share_submits:
  assumes "record_share E i txn hash pk d = (r, d')" "submitted d' \<noteq> submitted d"
    and "requestSSigners d hash = Some ss0" "requestRSigners d (SNonceHash (RequestSContent i)) = Some rs"
  shows "\<exists>s rs' sg code. let ss = AList.update pk (SS (RequestSContent i)) ss0;
      R = sum_points (eK E) (0, 0) (map (\<lambda>k. (Rx k, Ry k)) (known_krps rs ss));
      P = sum_points (eK E) (0, 0) (map (\<lambda>k. (Px k, Py k)) (known_krps rs ss))
    in sum_k (eK E) (snd R) rs ss 0 = (Some s, rs') \<and> GetS (eK E) (fst R) s = Some sg \<and>
       CreateSchnonrrRedeemScript E P = Done code \<and>
       submitted d' = TxContent (txn\<lparr>Programs := [\<lparr>Code = code, Parameter = Some sg\<rparr>]\<rparr>) # submitted d"
  using assms
  by (auto simp: record_share_def submit_schnorr_def unlock_def Let_def split: if_splits option.splits outcome.splits prod.splits)

lemma honest_verifies:
  assumes K: "curve_laws K" and h: "honest_shares K key e rs ss" and d: "distinct (map fst ss)" and "ss \<noteq> []"
    and perm: "mset names = mset (map fst ss)"
    and e: "GetE K (map (known rs) names) m = Some e"
    and R: "R = sum_points K (0, 0) (map (\<lambda>k. (Rx k, Ry k)) (known_krps rs ss))"
    and s: "sum_k K (snd R) rs ss 0 = (Some s, rs')" and sg: "GetS K (fst R) s = Some sg"
    and nonzero: "sum_list (map (nonce_of rs) names) mod CurveN K \<noteq> 0" "e * sum_list (map key names) mod CurveN K \<noteq> 0"
  shows "SchnorrVerify K (ScalarBaseMult K (sum_list (map key names))) m sg"
    and "sum_points K (0, 0) (map (\<lambda>k. (Px k, Py k)) (known_krps rs ss)) = ScalarBaseMult K (sum_list (map key names))"
proof -
  have ok: "curve_ok K" using K by (simp add: curve_laws_def)
  have all: "\<forall>x \<in> set ss. map_of rs (fst x) \<noteq> None" using sum_k_known [OF s d] by blast
  have sums: "sum_list (map f (map fst ss)) = sum_list (map f names)" for f :: "string \<Rightarrow> nat"
    using perm by (metis mset_map sum_mset_sum_list)
  have "set names = fst ` set ss" using perm by (metis list.set_map mset_eq_setD)
  then have names: "\<forall>pk \<in> set names. map_of rs pk \<noteq> None" "names \<noteq> []" using all assms(4) by auto
  have fsts: "\<forall>pk \<in> set (map fst ss). map_of rs pk \<noteq> None" "map fst ss \<noteq> []" using all assms(4) by auto
  note kn = known_krps_all [OF all]
  have Rk: "R = ScalarBaseMult K (sum_list (map (nonce_of rs) names))"
    unfolding R kn honest_points(1) [OF ok h fsts] sums ..
  show P: "sum_points K (0, 0) (map (\<lambda>k. (Px k, Py k)) (known_krps rs ss)) = ScalarBaseMult K (sum_list (map key names))"
    unfolding kn honest_points(2) [OF ok h fsts] sums ..
  note parts = GetS_parts [OF sg]
  obtain a where a: "IntToByte (fst R) = Some a" "take 32 sg = a"
    using sg IntToByte_length by (auto simp: GetS_def split: option.splits)
  have challenge: "getE K (ScalarBaseMult K (sum_list (map key names))) (take 32 sg) m = Some e"
    using e honest_points [OF ok h names] Rk a by (simp add: GetE_def Let_def comp_def)
  have "s = (if Jacobi K (snd R) (CurveP K) = 1 then int (sum_list (map (nonce_of rs) names) + e * sum_list (map key names))
    else int (CurveN K) * int (length ss) - int (sum_list (map (nonce_of rs) names)) + int (e * sum_list (map key names)))"
    using honest_sum [OF h s d] unfolding sums .
  from sum_verifies [OF K nonzero Rk this] show "SchnorrVerify K (ScalarBaseMult K (sum_list (map key names))) m sg"
    using parts challenge by (simp add: SchnorrVerify_def point_times_base [OF K] Let_def)
qed

text \<open>C8: The signature that the server submits after both Schnorr rounds is valid: when the second round was started for a
  transaction and every one of the chosen arbiters answered honestly, with nonces that are multiples of the base point
  (and that no earlier sum has overwritten) and with shares made from its key and the challenge of the round, then the
  transaction that the server submits carries the script of the sum of their public keys and a signature that the
  verifier accepts, which computes the challenge anew from that key, the signature and the hash of the transaction. The
  curve has the laws of its group, and neither the sum of the nonces nor the challenge times the sum of the keys is 0.\<close>

theorem joint_signature_verifies:
  assumes "round_two E txn0 rs = Done (txn, pks, e)" "names = map (BytesToHexString (eC E)) pks"
    and "record_share E i txn hash pk d = (r, d')" "submitted d' \<noteq> submitted d"
    and "requestRSigners d (SNonceHash (RequestSContent i)) = Some rs" "requestSSigners d hash = Some ss0" "distinct (map fst ss0)"
    and "ss = AList.update pk (SS (RequestSContent i)) ss0" "mset names = mset (map fst ss)" "honest_shares (eK E) key e rs ss"
    and "curve_laws (eK E)" "hash_of_unsigned (eT E)"
    and "sum_list (map (nonce_of rs) names) mod CurveN (eK E) \<noteq> 0" "e * sum_list (map key names) mod CurveN (eK E) \<noteq> 0"
  shows "\<exists>tx sg code. submitted d' = TxContent tx # submitted d \<and>
    tx = txn\<lparr>Programs := [\<lparr>Code = code, Parameter = Some sg\<rparr>]\<rparr> \<and>
    CreateSchnonrrRedeemScript E (ScalarBaseMult (eK E) (sum_list (map key names))) = Done code \<and>
    SchnorrVerify (eK E) (ScalarBaseMult (eK E) (sum_list (map key names))) (TxHash (eT E) tx) sg"
proof -
  have ss: "ss \<noteq> []" "distinct (map fst ss)"
    unfolding assms(8) using assms(7) by (cases ss0, simp_all) (simp_all add: distinct_update)
  define R where "R = sum_points (eK E) (0, 0) (map (\<lambda>k. (Rx k, Ry k)) (known_krps rs ss))"
  obtain s rs' sg code where *: "sum_k (eK E) (snd R) rs ss 0 = (Some s, rs')" "GetS (eK E) (fst R) s = Some sg"
    "CreateSchnonrrRedeemScript E (sum_points (eK E) (0, 0) (map (\<lambda>k. (Px k, Py k)) (known_krps rs ss))) = Done code"
    "submitted d' = TxContent (txn\<lparr>Programs := [\<lparr>Code = code, Parameter = Some sg\<rparr>]\<rparr>) # submitted d"
    using record_share_submits [OF assms(3,4,6,5)] unfolding R_def assms(8) by (auto simp: Let_def)
  have "GetE (eK E) (map (known rs) names) (TxHash (eT E) txn) = Some e"
    using round_two_challenge [OF assms(1)] assms(2) by simp
  from honest_verifies [OF assms(11,10) ss(2,1) assms(9) this R_def *(1,2) assms(13,14)] *(3,4) assms(12)
  show ?thesis by (intro exI conjI) (assumption | simp add: hash_of_unsigned_def)+
qed

text \<open>The residues modulo 101 as a curve, where a residue and its negative have the same x, and the larger one is not a square;
  and three arbiters with keys 3, 5, 7 and nonces 17, 20, 23, whose sum is not a square.\<close>

definition curve1 :: curve where
  "curve1 = (let point = (\<lambda>a. (if a < 51 then a else 101 - a, a)) in
     \<lparr>CurveAdd = (\<lambda>p q. point ((snd p + snd q) mod 101)), ScalarBaseMult = (\<lambda>k. point (k mod 101)),
      Sha256 = (\<lambda>b. [5]), CurveN = 101, CurveP = 101, Jacobi = (\<lambda>a b. if a < 51 then 1 else - 1)\<rparr>)"

lemma curve1_ok: "curve_laws curve1"
proof -
  have "(101 - a mod 101) mod 101 = 101 - a mod 101" if "a mod 101 \<noteq> 0" for a :: nat
    using that by (intro mod_less) linarith
  moreover have "a mod 101 < 101" for a :: nat by simp
  ultimately have "let b = 101 - a mod 101 in a mod 101 \<noteq> 0 \<longrightarrow> b mod 101 = b \<and> 101 - b = a mod 101 \<and> (b < 51 \<longleftrightarrow> \<not> a mod 101 < 51)"
    for a :: nat by (auto simp: Let_def)
  then show ?thesis
    by (simp add: curve_laws_def curve_ok_def curve1_def neg_point_def mod_add_eq Let_def)
qed

definition env5 :: cs_env where
  "env5 = env0\<lparr>eK := curve1, eC := crypto0\<lparr>DecodePoint := (\<lambda>b. Some (1, 1))\<rparr>\<rparr>"

definition rs5 :: "(string \<times> krp) list" where
  "rs5 = map (\<lambda>(name, nonce, key). (name, \<lparr>K0 = int nonce, Rx = fst (ScalarBaseMult curve1 nonce), Ry = snd (ScalarBaseMult curve1 nonce),
     Px = fst (ScalarBaseMult curve1 key), Py = snd (ScalarBaseMult curve1 key)\<rparr>)) [(''1'', 17, 3), (''2'', 20, 5), (''3'', 23, 7)]"

definition item5 :: item where
  "item5 = item3\<lparr>RequestSContent := \<lparr>SNonceHash = replicate 32 1, STx = Some tx0, SPublickeys = [[1], [2], [3]], SE = 5, SS = 35\<rparr>\<rparr>"

definition dns5 :: dns where
  "dns5 = dns0\<lparr>requestRSigners := [replicate 32 1 \<mapsto> rs5], requestSSigners := [replicate 32 1 \<mapsto> [(''2'', 25), (''1'', 15)]]\<rparr>"

definition keys5 :: "string \<Rightarrow> nat" where
  "keys5 n = (if n = ''1'' then 3 else if n = ''2'' then 5 else 7)"

definition tx5 :: transaction where "tx5 = tx0\<lparr>Payload := WithdrawFromSideChain [0, 1, 2] '''' [] 0\<rparr>"

definition pks5 :: "bytes list" where "pks5 = map (\<lambda>b. replicate 32 2 @ [b]) [0x31, 0x32, 0x33]"

lemma bytes5: "n < 101 \<Longrightarrow> \<exists>b. IntToByte n = Some b"
  using IntToByte_defined [of n] by auto

lemma round5: "round_two env5 tx0 rs5 = Done (tx5, pks5, 5)"
proof -
  have E: "eC env5 = crypto0\<lparr>DecodePoint := (\<lambda>b. Some (1, 1))\<rparr>" "eT env5 = ops0" "eK env5 = curve1" "eSort env5 = (\<lambda>s. s)"
    "arbitrators (eGroup env5) = [''1'', ''2'', ''3'']" "quorum env5 = 3"
    by (simp_all add: env5_def env0_def group0_def quorum_def config0_def getTransactionAgreementArbitratorsCount_def)
  have hex: "HexStringToBytes (eC env5) s = Some (replicate 32 2 @ map char_byte s)" "BytesToHexString (eC env5) b = [byte_char (last b)]"
    for s b by (simp_all add: E crypto0_def)
  have chars: "char_byte CHR ''1'' = 0x31" "char_byte CHR ''2'' = 0x32" "char_byte CHR ''3'' = 0x33"
    "byte_char 0x31 = CHR ''1''" "byte_char 0x32 = CHR ''2''" "byte_char 0x33 = CHR ''3''"
    by (simp_all add: char_byte_def byte_char_def char_of_def bit_iff_odd)
  have keys: "signer_keys (eC env5) [''1'', ''2'', ''3''] 0 [''1'', ''2'', ''3''] = Inr ([0, 1, 2], pks5)"
    by (simp add: hex chars pks5_def)
  have tx: "with_signers env5 [0, 1, 2] tx0 = Inr tx5" by (simp add: with_signers_def E ops0_def tx5_def)
  have points: "signer_points (eC env5) rs5 pks5 = Some (map snd rs5)" by (simp add: pks5_def hex chars rs5_def)
  obtain b1 b2 where b: "IntToByte 15 = Some b1" "IntToByte 41 = Some b2" using bytes5 [of 15] bytes5 [of 41] by auto
  have "GetE curve1 (map snd rs5) m = Some 5" for m
    by (simp add: GetE_def Let_def rs5_def) (simp add: curve1_def Let_def b getE_def Marshal_def SetBytes_def)
  then show ?thesis by (simp add: round_two_def E(2-6) keys tx points pick_def rs5_def [THEN arg_cong [of _ _ "map fst"], simplified] Let_def
      del: signer_keys.simps signer_points.simps)
qed

theorem joint_signature_verifies_witness:
  "\<exists>r d' (tx :: transaction) sg. record_share env5 item5 tx5 (replicate 32 1) ''3'' dns5 = (r, d') \<and> submitted d' = [TxContent tx] \<and>
     map Parameter (Programs tx) = [Some sg] \<and> SchnorrVerify curve1 (ScalarBaseMult curve1 (3 + 5 + 7)) (TxHash ops0 tx) sg"
proof -
  have ss: "AList.update ''3'' (SS (RequestSContent item5)) [(''2'', 25), (''1'', 15)] = [(''2'', 25), (''1'', 15), (''3'', 35)]"
    by (simp add: item5_def)
  have E: "eT env5 = ops0" "eK env5 = curve1" by (simp_all add: env5_def env0_def)
  have names: "map (BytesToHexString (eC env5)) pks5 = [''1'', ''2'', ''3'']"
    by (simp add: pks5_def env5_def crypto0_def byte_char_def char_of_def bit_iff_odd)
  have h: "honest_shares (eK env5) keys5 5 rs5 [(''2'', 25), (''1'', 15), (''3'', 35)]"
    by (simp add: honest_shares_def E rs5_def keys5_def GetEMulPrivateKey_def)
  obtain r d' where run: "record_share env5 item5 tx5 (replicate 32 1) ''3'' dns5 = (r, d')" by fastforce
  obtain b1 b2 where b: "IntToByte 15 = Some b1" "IntToByte 41 = Some b2" using bytes5 [of 15] bytes5 [of 41] by auto
  let ?ss = "[(''2'', 25), (''1'', 15), (''3'', 35)] :: (string \<times> nat) list"
  have krps: "map (\<lambda>k. (Rx k, Ry k)) (known_krps rs5 ?ss) = map (ScalarBaseMult curve1) [20, 17, 23]"
    "map (\<lambda>k. (Px k, Py k)) (known_krps rs5 ?ss) = map (ScalarBaseMult curve1) [5, 3, 7]"
    by (simp_all add: known_krps_def map_filter_simps rs5_def)
  have points: "sum_points curve1 (0, 0) (map (ScalarBaseMult curve1) [20, 17, 23]) = (41, 60)"
    "sum_points curve1 (0, 0) (map (ScalarBaseMult curve1) [5, 3, 7]) = (15, 15)" by (simp_all add: curve1_def Let_def)
  have k: "GetK curve1 60 n = 101 - n" for n by (simp add: GetK_def curve1_def)
  have "\<exists>rs'. sum_k curve1 60 rs5 ?ss 0 = (Some 318, rs')" by (simp add: Let_def rs5_def k)
  then obtain rs' where "sum_k curve1 60 rs5 ?ss 0 = (Some 318, rs')" by (elim exE)
  moreover have "GetS curve1 41 318 = Some (b2 @ b1)" by (simp add: GetS_def b) (simp add: curve1_def Let_def b)
  moreover have "CreateSchnonrrRedeemScript env5 (15, 15) = Done [1]"
    by (simp add: CreateSchnonrrRedeemScript_def Marshal_def b env5_def env0_def)
  moreover have "requestSSigners dns5 (replicate 32 1) = Some [(''2'', 25), (''1'', 15)]" "requestRSigners dns5 (replicate 32 1) = Some rs5"
    "SNonceHash (RequestSContent item5) = replicate 32 1" "length (SPublickeys (RequestSContent item5)) = 3"
    "SS (RequestSContent item5) = 35"
    by (simp_all add: dns5_def item5_def)
  ultimately have sub: "submitted d' \<noteq> submitted dns5"
    using run by (auto simp: record_share_def ss E krps points submit_schnorr_def Let_def simp del: map_map list.map sum_k.simps)
  have keys: "sum_list (map (nonce_of rs5) [''1'', ''2'', ''3'']) = 60" "sum_list (map keys5 [''1'', ''2'', ''3'']) = 15"
    by (simp_all add: nonce_of_def rs5_def keys5_def)
  have dns: "requestRSigners dns5 (SNonceHash (RequestSContent item5)) = Some rs5" "submitted dns5 = []"
    "requestSSigners dns5 (replicate 32 1) = Some [(''2'', 25), (''1'', 15)]" "hash_of_unsigned (eT env5)"
    by (simp_all add: dns5_def item5_def dns0_def hash_of_unsigned_def E ops0_def)
  have N: "CurveN curve1 = 101" by (simp add: curve1_def Let_def)
  have nonzero: "sum_list (map (nonce_of rs5) (map (BytesToHexString (eC env5)) pks5)) mod CurveN (eK env5) \<noteq> 0"
    "5 * sum_list (map keys5 (map (BytesToHexString (eC env5)) pks5)) mod CurveN (eK env5) \<noteq> 0"
    by (simp_all only: names keys E N) simp_all
  have perm: "mset (map (BytesToHexString (eC env5)) pks5) = mset (map fst ?ss)" by (simp add: names)
  have laws: "curve_laws (eK env5)" "distinct (map fst [(''2'', 25 :: nat), (''1'', 15)])" using curve1_ok by (simp_all add: E)
  from joint_signature_verifies [OF round5 refl run sub dns(1,3) laws(2) ss [symmetric] perm h laws(1) dns(4) nonzero]
  obtain tx sg code where "submitted d' = [TxContent tx]" "tx = tx5\<lparr>Programs := [\<lparr>Code = code, Parameter = Some sg\<rparr>]\<rparr>"
    "SchnorrVerify curve1 (ScalarBaseMult curve1 (sum_list (map keys5 [''1'', ''2'', ''3'']))) (TxHash ops0 tx) sg"
    unfolding names E dns(2) by (elim exE conjE)
  with run show ?thesis by (intro exI [of _ r] exI [of _ d'] exI [of _ tx] exI [of _ sg]) (simp add: keys5_def)
qed

end
