(* ===== verification/Go_Float.thy ===== *)
theory Go_Float
  imports Prelude_Go
begin

text \<open>
  The conversions \<open>common.Fixed64(float64(x) / exchangeRate)\<close>. A finite \<open>float64\<close> is a pair (m, e) for
  \<open>m * 2^e\<close>; a result is rounded to 53 bits, ties to even, as IEEE 754 has it. Exponents are not bounded
  (amounts are below \<open>2^64\<close> and rates are ordinary numbers, so that nothing overflows or is subnormal), and
  the conversion to an integer out of range, which Go leaves open, wraps.
\<close>

type_synonym float64 = "int \<times> int"

fun bit_length :: "nat \<Rightarrow> nat" where
  "bit_length n = (if n = 0 then 0 else Suc (bit_length (n div 2)))"

declare bit_length.simps [simp del]

definition round_half_even :: "nat \<Rightarrow> nat \<Rightarrow> nat" where
  "round_half_even a b =
     (let q = a div b; r = a mod b in if b < 2 * r \<or> (2 * r = b \<and> odd q) then q + 1 else q)"

definition scaled :: "nat \<Rightarrow> nat \<Rightarrow> int \<Rightarrow> nat \<times> nat" where
  "scaled n d s = (if 0 \<le> s then (n, d * 2 ^ nat s) else (n * 2 ^ nat (- s), d))"

text \<open>The quotient n / d with 53 bits: its exponent is one of two, by the lengths of n and d.\<close>

definition round53 :: "nat \<Rightarrow> nat \<Rightarrow> nat \<times> int" where
  "round53 n d =
     (if n = 0 then (0, 0)
      else let s = int (bit_length n) - int (bit_length d) - 53;
               s' = (case scaled n d s of (a, b) \<Rightarrow> if 2 ^ 53 * b \<le> a then s + 1 else s)
           in (case scaled n d s' of (a, b) \<Rightarrow> (round_half_even a b, s')))"

definition float_of_int :: "int \<Rightarrow> float64" where
  "float_of_int x = (case round53 (nat \<bar>x\<bar>) 1 of (m, e) \<Rightarrow> (sgn x * int m, e))"

definition float_div :: "float64 \<Rightarrow> float64 \<Rightarrow> float64" where
  "float_div x y =
     (case round53 (nat \<bar>fst x\<bar>) (nat \<bar>fst y\<bar>) of
        (m, e) \<Rightarrow> (sgn (fst x) * sgn (fst y) * int m, e + snd x - snd y))"

definition float_trunc :: "float64 \<Rightarrow> int" where
  "float_trunc x = sgn (fst x) *
     (if 0 \<le> snd x then \<bar>fst x\<bar> * 2 ^ nat (snd x) else \<bar>fst x\<bar> div 2 ^ nat (- snd x))"

definition fixed_div :: "64 word \<Rightarrow> float64 \<Rightarrow> 64 word" where
  "fixed_div x rate = of_int (float_trunc (float_div (float_of_int (sint x)) rate))"

section \<open>Exactness for the rate 1\<close>

lemma bit_length_bounds: "0 < n \<Longrightarrow> 2 ^ (bit_length n - 1) \<le> n \<and> n < 2 ^ bit_length n \<and> 0 < bit_length n"
proof (induction n rule: bit_length.induct)
  case (1 n)
  show ?case
  proof (cases "n div 2 = 0")
    case True
    then have "n = 1" using 1(2) by linarith
    then show ?thesis by (simp add: bit_length.simps [of "Suc 0"] bit_length.simps [of 0])
  next
    case False
    then obtain k where k: "bit_length (n div 2) = Suc k" "2 ^ k \<le> n div 2" "n div 2 < 2 * 2 ^ k"
      using 1 by (cases "bit_length (n div 2)") auto
    moreover have "bit_length n = Suc (Suc k)" using 1(2) k(1) by (subst bit_length.simps) simp
    ultimately show ?thesis by auto
  qed
qed

lemma bit_length_le: "0 < n \<Longrightarrow> n < 2 ^ k \<Longrightarrow> bit_length n \<le> k"
proof (rule ccontr)
  assume a: "0 < n" "n < 2 ^ k" "\<not> bit_length n \<le> k"
  then have "(2 :: nat) ^ k \<le> 2 ^ (bit_length n - 1)" by (intro power_increasing) auto
  then show False using bit_length_bounds [OF a(1)] a(2) by linarith
qed

lemma bit_length_1 [simp]: "bit_length (Suc 0) = 1"
  by (simp add: bit_length.simps [of "Suc 0"] bit_length.simps [of 0])

lemma round_exact [simp]: "round_half_even a (Suc 0) = a"
  by (simp add: round_half_even_def)

text \<open>A number below \<open>2^53\<close> is represented exactly, with the top bit set.\<close>

lemma round53_exact:
  assumes "0 < n" "n < 2 ^ 53"
  shows "round53 n 1 = (n * 2 ^ (53 - bit_length n), int (bit_length n) - 53)"
proof -
  define b where "b = bit_length n"
  have b: "0 < b" "b \<le> 53" "2 ^ (b - 1) \<le> n" using bit_length_bounds [OF assms(1)] bit_length_le [OF assms] by (auto simp: b_def)
  have "(2 :: nat) ^ 53 = 2 ^ (b - 1) * 2 ^ (54 - b)" using b by (simp flip: power_add)
  also have "\<dots> \<le> n * 2 ^ (54 - b)" using b(3) by (rule mult_le_mono1)
  finally have "2 ^ 53 \<le> n * 2 ^ (54 - b)" .
  moreover have "nat (54 - int b) = 54 - b" "nat (53 - int b) = 53 - b" using b by linarith+
  ultimately show ?thesis using assms(1) b
    by (simp add: round53_def scaled_def Let_def b_def [symmetric])
qed

lemma normal_bits: "0 < n \<Longrightarrow> n < 2 ^ 53 \<Longrightarrow> bit_length (n * 2 ^ (53 - bit_length n)) = 53"
proof -
  assume n: "0 < n" "n < 2 ^ 53"
  define b where "b = bit_length n"
  have b: "0 < b" "b \<le> 53" "2 ^ (b - 1) \<le> n" "n < 2 ^ b"
    using bit_length_bounds [OF n(1)] bit_length_le [OF n] by (auto simp: b_def)
  have "n * 2 ^ (53 - b) < 2 ^ b * 2 ^ (53 - b)" using b(4) by simp
  also have "\<dots> = 2 ^ 53" using b(2) by (simp flip: power_add)
  finally have hi: "n * 2 ^ (53 - b) < 2 ^ 53" .
  have "(2 :: nat) ^ 52 = 2 ^ (b - 1) * 2 ^ (53 - b)" using b by (simp flip: power_add)
  also have "\<dots> \<le> n * 2 ^ (53 - b)" using b(3) by (rule mult_le_mono1)
  finally have lo: "2 ^ 52 \<le> n * 2 ^ (53 - b)" .
  have pos: "0 < n * 2 ^ (53 - b)" using n(1) by simp
  have "bit_length (n * 2 ^ (53 - b)) \<le> 53" using bit_length_le [OF pos hi] .
  moreover have "\<not> bit_length (n * 2 ^ (53 - b)) \<le> 52"
  proof
    assume "bit_length (n * 2 ^ (53 - b)) \<le> 52"
    then have "(2 :: nat) ^ bit_length (n * 2 ^ (53 - b)) \<le> 2 ^ 52" by (intro power_increasing) auto
    then show False using bit_length_bounds [OF pos] lo by linarith
  qed
  ultimately show ?thesis by (simp add: b_def)
qed
lemma float_of_int_exact:
  assumes "x \<noteq> 0" "\<bar>x\<bar> < 2 ^ 53"
  shows "float_of_int x =
    (sgn x * int (nat \<bar>x\<bar> * 2 ^ (53 - bit_length (nat \<bar>x\<bar>))), int (bit_length (nat \<bar>x\<bar>)) - 53)"
proof -
  have "nat \<bar>x\<bar> < 2 ^ 53" using assms(2) by (simp add: nat_less_iff)
  then show ?thesis using round53_exact [of "nat \<bar>x\<bar>"] assms(1) by (simp add: float_of_int_def)
qed

lemma fixed_div_one:
  assumes "\<bar>sint x\<bar> < 2 ^ 53"
  shows "fixed_div x (1, 0) = x"
proof (cases "sint x = 0")
  case True
  then show ?thesis
    by (simp add: fixed_div_def float_of_int_def float_div_def round53_def float_trunc_def)
      (metis True signed_0 signed_word_eqI)
next
  case False
  define n where "n = nat \<bar>sint x\<bar>"
  define k where "k = 53 - bit_length n"
  have n: "0 < n" "n < 2 ^ 53" using False assms by (auto simp: n_def nat_less_iff)
  have "bit_length n \<le> 53" using bit_length_le [OF n] .
  then have k: "int (bit_length n) - 53 = - int k" by (simp add: k_def)
  have f: "float_of_int (sint x) = (sgn (sint x) * int (n * 2 ^ k), - int k)"
    using float_of_int_exact [OF False assms] by (simp add: n_def [symmetric] k_def [symmetric] k)
  have m: "0 < n * 2 ^ k" "n * 2 ^ k < 2 ^ 53" "bit_length (n * 2 ^ k) = 53"
    using n normal_bits [OF n] bit_length_bounds [of "n * 2 ^ k"] by (auto simp: k_def)
  have "nat \<bar>sgn (sint x) * int (n * 2 ^ k)\<bar> = n * 2 ^ k"
    using False by (simp add: abs_mult nat_mult_distrib nat_power_eq)
  then have "float_div (float_of_int (sint x)) (1, 0) = (sgn (sint x) * int (n * 2 ^ k), - int k)"
    using round53_exact [OF m(1,2)] m(3) False n(1) by (simp add: float_div_def f sgn_mult)
  then have "float_trunc (float_div (float_of_int (sint x)) (1, 0)) = sgn (sint x) * int n"
    using False n(1)
    by (cases k) (simp_all add: float_trunc_def sgn_mult abs_mult nat_mult_distrib nat_add_distrib)
  then show ?thesis using False by (simp add: fixed_div_def n_def mult_sgn_abs)
qed

text \<open>Above \<open>2^53\<close> a Fixed64 is not exact any more, and a rate other than 1 truncates each quotient by itself.\<close>

lemma bit_length_numeral [simp]:
  "bit_length (numeral (num.Bit0 n)) = Suc (bit_length (numeral n))"
  "bit_length (numeral (num.Bit1 n)) = Suc (bit_length (numeral n))"
  by (subst bit_length.simps, simp)+

lemmas float_defs = fixed_div_def float_of_int_def float_div_def float_trunc_def round53_def scaled_def
  round_half_even_def Let_def

lemma fixed_div_inexact: "fixed_div 9007199254740993 (1, 0) = 9007199254740992"
  by (simp add: float_defs)

lemma fixed_div_truncates: "fixed_div 4 (1, 1) = 2" "fixed_div 1 (1, 1) = 0" "fixed_div 3 (1, 1) = 1"
  by (simp_all add: float_defs)

end
