(* ===== verification/Cross_Env.thy ===== *)
theory Cross_Env
  imports Finished_Store Arb_Group Go_Float "HOL-Library.AList"
begin

text \<open>
  What the parts that move money between the chains share: the database cache with its stores
  (\<open>DataStoreImpl\<close> of \<open>store/datastore.go\<close>), the side chains known to the arbiter
  (\<open>arbitration/sidechain\<close>: \<open>SideChainImpl\<close> and the map of \<open>SideChainManagerImpl\<close>), and the answers of
  the nodes and the address functions of the library as arguments.
\<close>

section \<open>The stores\<close>

record db_cache =
  SideChainStore :: "side_store list"
  MainChainStore :: main_store
  RegisteredSideChainStore :: reg_store
  FinishedTxsDbCache :: finished_store

definition GetDataStoreGenesisBlocAddress :: "string \<Rightarrow> db_cache \<Rightarrow> side_store option" where
  "GetDataStoreGenesisBlocAddress address db = find (\<lambda>s. genesisBlockAddress s = address) (SideChainStore db)"

definition GetDataStoreByDBName :: "string \<Rightarrow> db_cache \<Rightarrow> side_store option" where
  "GetDataStoreByDBName name db = find (\<lambda>s. sideChainName s = name) (SideChainStore db)"

text \<open>An operation through the pointer that a lookup returned: the first store that fits is changed.\<close>

fun at_first :: "('a \<Rightarrow> bool) \<Rightarrow> ('a \<Rightarrow> 'a) \<Rightarrow> 'a list \<Rightarrow> 'a list" where
  "at_first P f [] = []"
| "at_first P f (x # xs) = (if P x then f x # xs else x # at_first P f xs)"

lemma at_first_id: "find P xs = Some x \<Longrightarrow> f x = x \<Longrightarrow> at_first P f xs = xs"
  by (induction xs) (auto split: if_splits)

lemma find_at_first:
  "find P xs = Some x \<Longrightarrow> P (f x) \<Longrightarrow> find P (at_first P f xs) = Some (f x)"
  by (induction xs) (auto split: if_splits)

lemma length_at_first [simp]: "length (at_first P f xs) = length xs"
  by (induction xs) auto

definition on_address :: "string \<Rightarrow> (side_store \<Rightarrow> side_store) \<Rightarrow> db_cache \<Rightarrow> db_cache" where
  "on_address address f db =
     db\<lparr>SideChainStore := at_first (\<lambda>s. genesisBlockAddress s = address) f (SideChainStore db)\<rparr>"

definition on_name :: "string \<Rightarrow> (side_store \<Rightarrow> side_store) \<Rightarrow> db_cache \<Rightarrow> db_cache" where
  "on_name name f db = db\<lparr>SideChainStore := at_first (\<lambda>s. sideChainName s = name) f (SideChainStore db)\<rparr>"

section \<open>Side chains\<close>

record side_config =
  CfgName :: string
  CfgExchangeRate :: float64
  GenesisBlockAddress :: string
  GenesisBlock :: string
  PowChain :: bool
  EffectiveHeight :: u32
  SyncStartHeight :: u32
  SupportQuickRecharge :: bool
  SupportInvalidDeposit :: bool
  SupportInvalidWithdraw :: bool
  SupportNFT :: bool

record side_chain =
  Key :: string
  CurrentConfig :: "side_config option"

definition getCurrentConfig :: "side_config list \<Rightarrow> side_chain \<Rightarrow> side_config option" where
  "getCurrentConfig sideNodeList sc =
     (case CurrentConfig sc of
        Some c \<Rightarrow> Some c
      | None \<Rightarrow> find (\<lambda>c. Key sc = GenesisBlockAddress c) sideNodeList)"

definition GetExchangeRate :: "side_config list \<Rightarrow> side_chain \<Rightarrow> go_error + float64" where
  "GetExchangeRate sideNodeList sc =
     (case getCurrentConfig sideNodeList sc of
        None \<Rightarrow> Inl (Err ''get exchange rate failed, side chain has no config'')
      | Some c \<Rightarrow> if fst (CfgExchangeRate c) \<le> 0 then Inl (Err ''get exchange rate failed, invalid exchange rate'')
                  else Inr (CfgExchangeRate c))"

section \<open>The surroundings\<close>

record rpc_resp =
  RespError :: bool         \<comment> \<open>\<open>resp.Error != nil\<close>\<close>
  RespCode :: int
  RespResult :: bool        \<comment> \<open>\<open>resp.Result != nil\<close>\<close>

record withdraw_output_info =
  CrossChainAddress :: string
  InfoCrossChainAmount :: string
  OutputAmount :: string
  InfoTargetData :: bytes

record withdraw_tx_info =
  InfoTxID :: string
  CrossChainAssets :: "withdraw_output_info list"

record nft_destroy_info =
  TokenID :: string
  InfoOwnerStakeAddress :: string

record illegal_info =
  InfoIllegalType :: byte
  InfoEvidence :: string
  InfoCompareEvidence :: string
  InfoIllegalSigner :: string

record utxo_info =
  UtxoTxid :: string
  UtxoVOut :: u32
  UtxoAmount :: string

record address_utxo =
  UtxoInput :: tx_input
  UtxoValue :: fixed64

text \<open>The answers of the main chain node, and of the node of the side chain with a given key.\<close>

record nodes =
  GetAmountByInputs :: "tx_input list \<Rightarrow> go_error + fixed64"
  GetTransaction :: "string \<Rightarrow> go_error + transaction"
  SendRawTransaction :: "string \<Rightarrow> go_error + rpc_resp"
  GetWithdrawUTXOs :: "string \<Rightarrow> fixed64 \<Rightarrow> go_error + utxo_info list"
  MainNodeHeight :: "go_error + u32"
  GetExistWithdrawTransactions :: "string list \<Rightarrow> go_error + string list"
  GetWithdrawTransaction :: "string \<Rightarrow> string \<Rightarrow> go_error + withdraw_tx_info"
  GetFailedDepositTransaction :: "string \<Rightarrow> string \<Rightarrow> go_error + bool"
  GetExistDepositTransactions :: "string \<Rightarrow> string list \<Rightarrow> go_error + string list"
  SendTransaction :: "string \<Rightarrow> uint256 \<Rightarrow> go_error + rpc_resp"
  GetRegisterTransactionByHeight :: "go_error + registered_side_chain_transaction list"
  GetExistReturnDepositTransactions :: "string list \<Rightarrow> go_error + string list"
  GetCanNFTDestroyIDs :: "string list \<Rightarrow> string \<Rightarrow> go_error + string list"
  SideNodeHeight :: "string \<Rightarrow> go_error + u32"
  GetWithdrawTransactionByHeight :: "string \<Rightarrow> u32 \<Rightarrow> go_error + withdraw_tx_info list"
  GetIllegalEvidenceByHeight :: "string \<Rightarrow> u32 \<Rightarrow> go_error + illegal_info list"
  GetFailedDepositTransactions :: "string \<Rightarrow> u32 \<Rightarrow> go_error + string list"
  GetNFTDestroyTransactionByHeight :: "string \<Rightarrow> u32 \<Rightarrow> go_error + nft_destroy_info list"

record addr_ops =
  HashString :: "uint256 \<Rightarrow> string"
  Uint256FromHexString :: "string \<Rightarrow> uint256 option"
  Uint256FromBytes :: "bytes \<Rightarrow> uint256 option"
  BytesReverse :: "bytes \<Rightarrow> bytes"
  ToAddress :: "uint168 \<Rightarrow> string option"
  Uint168FromAddress :: "string \<Rightarrow> uint168 option"
  StringToFixed64 :: "string \<Rightarrow> fixed64 option"
  PrefixCrossChain :: byte
  PrefixDPoSV2 :: byte
  TransferCrossChainVersion :: byte
  TransferCrossChainVersionV1 :: byte
  WithdrawFromSideChainVersionV1 :: byte
  WithdrawFromSideChainVersionV2 :: byte
  ReturnSideChainDepositCoinVersion :: byte
  NFTDestroyFromSideChainVersion :: byte
  ReturnSideChainDepositCoinVersionV1 :: byte

record cross_env =
  xW :: wire
  xC :: crypto
  xT :: tx_ops
  xL :: spv_ops
  xA :: addr_ops
  xN :: nodes
  xCfg :: config
  xGroup :: arb_group
  FrozenAddresses :: "string list"
  ReturnDepositTransactionFee :: fixed64
  MaxTxsPerWithdrawTx :: nat
  MaxBlockContextSize :: nat
  SideNodeList :: "side_config list"
  SortUTXOs :: "address_utxo list \<Rightarrow> address_utxo list"    \<comment> \<open>\<open>sort.Sort\<close> with the comparison of the amounts\<close>
  SideChains :: "(string \<times> side_chain) list"   \<comment> \<open>the map of the manager, in the order Go ranges over it\<close>

definition GetChain :: "cross_env \<Rightarrow> string \<Rightarrow> side_chain option" where
  "GetChain X key = map_of (SideChains X) key"

definition GetAllChains :: "cross_env \<Rightarrow> side_chain list" where
  "GetAllChains X = map snd (SideChains X)"

definition GetSideChainAndExchangeRate :: "cross_env \<Rightarrow> string \<Rightarrow> go_error + side_chain \<times> float64" where
  "GetSideChainAndExchangeRate X genesisAddress =
     (case GetChain X genesisAddress of
        None \<Rightarrow> Inl (Err ''GetSideChainAndExchangeRate Get side chain from genesis address failed.'')
      | Some sc \<Rightarrow>
          (case GetExchangeRate (SideNodeList X) sc of Inl e \<Rightarrow> Inl e | Inr rate \<Rightarrow> Inr (sc, rate)))"

text \<open>The address of the chain with the genesis hash that an NFT transaction names; the last one that
  fits. A chain without a configuration is a nil pointer.\<close>

fun chain_of_hash :: "side_config list \<Rightarrow> string \<Rightarrow> side_chain list \<Rightarrow> string \<Rightarrow> string option" where
  "chain_of_hash nl hash [] acc = Some acc"
| "chain_of_hash nl hash (sc # scs) acc =
     (case getCurrentConfig nl sc of
        None \<Rightarrow> None
      | Some c \<Rightarrow> chain_of_hash nl hash scs (if GenesisBlock c = hash then GenesisBlockAddress c else acc))"

text \<open>Sums per key, as a Go map from addresses to amounts.\<close>

definition add_amount :: "string \<Rightarrow> fixed64 \<Rightarrow> (string \<times> fixed64) list \<Rightarrow> (string \<times> fixed64) list" where
  "add_amount a v m = AList.update a ((case map_of m a of Some x \<Rightarrow> x | None \<Rightarrow> 0) + v) m"

definition sum_at :: "string \<Rightarrow> (string \<times> fixed64) list \<Rightarrow> fixed64" where
  "sum_at a m = (case map_of m a of Some x \<Rightarrow> x | None \<Rightarrow> 0)"

definition amounts_of :: "(string \<times> fixed64) list \<Rightarrow> (string \<times> fixed64) list" where
  "amounts_of xs = foldl (\<lambda>m (a, v). add_amount a v m) [] xs"

lemma map_of_add_amount: "map_of (add_amount a v m) = (map_of m)(a \<mapsto> sum_at a m + v)"
  by (simp add: add_amount_def sum_at_def update_conv')

lemma distinct_add_amount: "distinct (map fst m) \<Longrightarrow> distinct (map fst (add_amount a v m))"
  by (simp add: add_amount_def distinct_update)

lemma sum_at_add [simp]: "sum_at b (add_amount a v m) = (if a = b then sum_at b m + v else sum_at b m)"
  by (simp add: sum_at_def map_of_add_amount)

lemma keys_add [simp]: "fst ` set (add_amount a v m) = insert a (fst ` set m)"
  by (simp flip: dom_map_of_conv_image_fst add: map_of_add_amount)

lemma foldl_sum_at:
  "sum_at b (foldl (\<lambda>m (a, v). add_amount a v m) m xs) = sum_at b m + fx_sum (map snd (filter (\<lambda>x. fst x = b) xs))"
  by (induction xs arbitrary: m) (simp_all add: case_prod_beta add.assoc)

lemma foldl_keys: "fst ` set (foldl (\<lambda>m (a, v). add_amount a v m) m xs) = fst ` set m \<union> fst ` set xs"
  by (induction xs arbitrary: m) (simp_all add: case_prod_beta)

lemma foldl_distinct:
  "distinct (map fst m) \<Longrightarrow> distinct (map fst (foldl (\<lambda>m (a, v). add_amount a v m) m xs))"
  by (induction xs arbitrary: m) (simp_all add: case_prod_beta distinct_add_amount)

lemma sum_at_amounts: "sum_at b (amounts_of xs) = fx_sum (map snd (filter (\<lambda>x. fst x = b) xs))"
  using foldl_sum_at [of b "[]" xs] by (simp add: amounts_of_def sum_at_def)

lemma keys_amounts: "fst ` set (amounts_of xs) = fst ` set xs"
  using foldl_keys [of "[]" xs] by (simp add: amounts_of_def)

lemma distinct_amounts [simp]: "distinct (map fst (amounts_of xs))"
  using foldl_distinct [of "[]" xs] by (simp add: amounts_of_def)

lemma map_of_amounts: "map_of (amounts_of xs) a = (if a \<in> fst ` set xs then Some (sum_at a (amounts_of xs)) else None)"
  using keys_amounts [of xs] by (auto simp: sum_at_def map_of_eq_None_iff split: option.split)

lemma length_amounts: "length (amounts_of xs) = card (fst ` set xs)"
  using distinct_card [OF distinct_amounts [of xs]] keys_amounts [of xs] by simp

end
