(* ===== verification/Tx_Check.thy ===== *)
theory Tx_Check
  imports Cross_Env
begin

text \<open>
  The checks of \<open>arbitration/cs/txdistributedcontent.go\<close> that an arbiter makes before it signs a
  transaction another arbiter proposes. A check is the error it returns, or none; \<open>GoPanic\<close> is a nil
  pointer or an index out of range.
\<close>

section \<open>Withdraw transactions from the side chain node\<close>

text \<open>The frozen addresses are tested here only by the old check.\<close>

definition rpc_asset :: "cross_env \<Rightarrow> string list \<Rightarrow> withdraw_output_info \<Rightarrow> go_error + withdraw_asset" where
  "rpc_asset X frozen c =
     (case StringToFixed64 (xA X) (InfoCrossChainAmount c) of
        None \<Rightarrow> Inl (Err ''[checkWithdrawTransaction] invalid cross chain amount in tx'')
      | Some csAmount \<Rightarrow>
          (case StringToFixed64 (xA X) (OutputAmount c) of
             None \<Rightarrow> Inl (Err ''[checkWithdrawTransaction] invalid output amount in tx'')
           | Some opAmount \<Rightarrow>
               if CrossChainAddress c \<in> set frozen
               then Inl (Err ''[checkWithdrawTransaction] invalid cross chain address in tx: frozen address, '')
               else Inr \<lparr>TargetAddress = CrossChainAddress c, Amount = opAmount, CrossChainAmount = csAmount,
                         TargetData = []\<rparr>))"

text \<open>Loops that stop at the first error.\<close>

fun collect :: "('a \<Rightarrow> go_error + 'b) \<Rightarrow> 'a list \<Rightarrow> go_error + 'b list" where
  "collect f [] = Inr []"
| "collect f (x # xs) = (case f x of Inl e \<Rightarrow> Inl e | Inr y \<Rightarrow> map_sum id ((#) y) (collect f xs))"

lemma collect_Inr: "collect f xs = Inr ys \<Longrightarrow> list_all2 (\<lambda>x y. f x = Inr y) xs ys"
  by (induction xs arbitrary: ys) (auto split: sum.splits simp: map_sum_def)

lemma collect_map: "(\<And>x. x \<in> set xs \<Longrightarrow> f x = Inr (g x)) \<Longrightarrow> collect f xs = Inr (map g xs)"
  by (induction xs) auto

definition rpc_tx :: "cross_env \<Rightarrow> string list \<Rightarrow> string \<Rightarrow> string \<Rightarrow> go_error + withdraw_tx" where
  "rpc_tx X frozen key txHash =
     (case GetWithdrawTransaction (xN X) key txHash of
        Inl e \<Rightarrow> Inl (Err ''[checkWithdrawTransaction] failed, unknown side chain transactions'')
      | Inr info \<Rightarrow>
          (case Uint256FromHexString (xA X) (InfoTxID info) of
             None \<Rightarrow> Inl (Err ''[checkWithdrawTransaction] failed, invalid txID'')
           | Some txID \<Rightarrow>
               (case collect (rpc_asset X frozen) (CrossChainAssets info) of
                  Inl e \<Rightarrow> Inl e
                | Inr assets \<Rightarrow> Inr \<lparr>Txid = Some txID, WithdrawInfo = Some \<lparr>WithdrawAssets = assets\<rparr>\<rparr>)))"

text \<open>The cache answers when it has as many transactions as hashes were asked for; the node otherwise.\<close>

definition known_withdraws ::
    "cross_env \<Rightarrow> db_io \<Rightarrow> string list \<Rightarrow> side_store \<Rightarrow> string \<Rightarrow> string list \<Rightarrow> go_error + withdraw_tx list" where
  "known_withdraws X io frozen st key transactionHashes =
     (case GetSideChainTxsFromHashes (xW X) io transactionHashes st of
        Inr txs \<Rightarrow> if length txs = length transactionHashes then Inr txs
                   else collect (rpc_tx X frozen key) transactionHashes
      | Inl e \<Rightarrow> collect (rpc_tx X frozen key) transactionHashes)"

section \<open>Amounts\<close>

text \<open>What is paid to each address that is not a side chain's.\<close>

definition paid :: "addr_ops \<Rightarrow> tx_output list \<Rightarrow> (string \<times> fixed64) list" where
  "paid A outs = List.map_filter (\<lambda>o1.
     if take 1 (OutProgramHash o1) = [PrefixCrossChain A] then None
     else map_option (\<lambda>a. (a, OutValue o1)) (ToAddress A (OutProgramHash o1))) outs"

definition bad_amounts :: "withdraw_asset \<Rightarrow> bool" where
  "bad_amounts w \<longleftrightarrow> CrossChainAmount w <s 0 \<or> Amount w \<le>s 0 \<or> Amount w - CrossChainAmount w \<le>s 0 \<or>
     Amount w \<le>s CrossChainAmount w"

text \<open>The amounts owed, converted; the fees, converted; and the amounts per address, not converted. Only the
  new check tests the frozen addresses here.\<close>

fun owed_assets :: "string list \<Rightarrow> float64 \<Rightarrow> withdraw_asset list \<Rightarrow>
    go_error + fixed64 \<times> fixed64 \<times> (string \<times> fixed64) list" where
  "owed_assets frozen rate [] = Inr (0, 0, [])"
| "owed_assets frozen rate (w # ws) =
     (if TargetAddress w \<in> set frozen
      then Inl (Err ''[checkWithdrawTransaction] invalid cross chain address in tx: frozen address, '')
      else if bad_amounts w
      then Inl (Err ''check withdraw transaction failed, cross chain amount less than 0'')
      else map_sum id (\<lambda>(ori, fee, l). (fixed_div (CrossChainAmount w) rate + ori,
             fixed_div (Amount w - CrossChainAmount w) rate + fee, (TargetAddress w, CrossChainAmount w) # l))
             (owed_assets frozen rate ws))"

fun owed :: "string list \<Rightarrow> float64 \<Rightarrow> withdraw_tx list \<Rightarrow>
    go_error + fixed64 \<times> fixed64 \<times> (string \<times> fixed64) list" where
  "owed frozen rate [] = Inr (0, 0, [])"
| "owed frozen rate (t # ts) =
     (case WithdrawInfo t of
        None \<Rightarrow> Inl GoPanic
      | Some info \<Rightarrow>
          (case owed_assets frozen rate (WithdrawAssets info) of
             Inl e \<Rightarrow> Inl e
           | Inr (ori, fee, l) \<Rightarrow>
               map_sum id (\<lambda>(ori', fee', l'). (ori + ori', fee + fee', l @ l')) (owed frozen rate ts)))"

definition check_totals ::
    "cross_env \<Rightarrow> string list \<Rightarrow> float64 \<Rightarrow> string \<Rightarrow> transaction \<Rightarrow> withdraw_tx list \<Rightarrow> go_error option" where
  "check_totals X frozen rate genesisAddress txn txs =
     (case GetAmountByInputs (xN X) (Inputs txn) of
        Inl e \<Rightarrow> Some (Err ''get spender's UTXOs failed'')
      | Inr inputTotalAmount \<Rightarrow>
          (let outputTotalAmount = fx_sum (map OutValue (Outputs txn));
               withdrawOutputsMap = amounts_of (paid (xA X) (Outputs txn))
           in case owed frozen rate txs of
                Inl e \<Rightarrow> Some e
              | Inr (oriOutputAmount, totalFee, assets) \<Rightarrow>
                  (let crossChainOutputsMap = amounts_of assets
                   in if inputTotalAmount \<noteq> outputTotalAmount + totalFee
                      then Some (Err ''check withdraw transaction failed, input amount not equal output amount'')
                      else (case Uint168FromAddress (xA X) genesisAddress of
                              None \<Rightarrow> Some (Err ''check withdraw transaction failed, genesis block address to program hash failed'')
                            | Some genesisBlockProgramHash \<Rightarrow>
                                (let outs = filter (\<lambda>o1. OutProgramHash o1 \<noteq> genesisBlockProgramHash) (Outputs txn)
                                 in if length assets \<noteq> length outs \<or>
                                       length crossChainOutputsMap \<noteq> length withdrawOutputsMap
                                    then Some (Err ''check withdraw transaction failed, cross chain amount not equal withdraw total amount'')
                                    else if \<not> list_all (\<lambda>(k, v). case map_of crossChainOutputsMap k of
                                         None \<Rightarrow> False | Some amount \<Rightarrow> fixed_div amount rate = v) withdrawOutputsMap
                                    then Some (Err ''check withdraw transaction failed, addr amount is invalid'')
                                    else if oriOutputAmount \<noteq> fx_sum (map OutValue outs)
                                    then Some (Err ''check withdraw transaction failed, exchange rate verify failed'')
                                    else None)))))"

section \<open>The checks\<close>

text \<open>Before \<open>NewCrossChainTransactionHeight\<close>: the chain and the withdraw transactions stand in the payload.\<close>

definition checkWithdrawFromSidechainPayload ::
    "cross_env \<Rightarrow> db_io \<Rightarrow> db_cache \<Rightarrow> transaction \<Rightarrow> string \<Rightarrow> uint256 list \<Rightarrow> go_error option" where
  "checkWithdrawFromSidechainPayload X io db txn genesis sideChainTransactionHashes =
     (case GetSideChainAndExchangeRate X genesis of
        Inl e \<Rightarrow> Some e
      | Inr (sc, exchangeRate) \<Rightarrow>
          (case GetDataStoreGenesisBlocAddress genesis db of
             None \<Rightarrow> Some (Err ''can't find db store by genesis block address'')
           | Some st \<Rightarrow>
               (case known_withdraws X io (FrozenAddresses X) st (Key sc)
                       (map (HashString (xA X)) sideChainTransactionHashes) of
                  Inl e \<Rightarrow> Some e
                | Inr txs \<Rightarrow> check_totals X [] exchangeRate genesis txn txs)))"

text \<open>After it: they stand in the payloads of the outputs.\<close>

fun withdraw_payloads ::
    "cross_env \<Rightarrow> tx_output list \<Rightarrow> (side_chain \<times> float64) option \<Rightarrow>
     go_error + string list \<times> (side_chain \<times> float64) option" where
  "withdraw_payloads X [] chain = Inr ([], chain)"
| "withdraw_payloads X (o1 # outs) chain =
     (if OutType o1 \<noteq> OTWithdrawFromSideChain then withdraw_payloads X outs chain
      else (case OutPayload o1 of
              Withdraw genesis txHash targetData \<Rightarrow>
                (case (case chain of
                         None \<Rightarrow> map_sum id Some (GetSideChainAndExchangeRate X genesis)
                       | Some (sc, rate) \<Rightarrow>
                           if Key sc \<noteq> genesis then Inl (Err ''invalid withdraw transaction GenesisBlockAddress'')
                           else Inr chain) of
                   Inl e \<Rightarrow> Inl e
                 | Inr chain' \<Rightarrow>
                     map_sum id (\<lambda>(hs, c). (HashString (xA X) txHash # hs, c)) (withdraw_payloads X outs chain'))
            | _ \<Rightarrow> Inl (Err ''invalid withdraw transaction output payload'')))"

definition checkWithdrawFromSideChainPayload ::
    "cross_env \<Rightarrow> db_io \<Rightarrow> db_cache \<Rightarrow> transaction \<Rightarrow> go_error option" where
  "checkWithdrawFromSideChainPayload X io db txn =
     (case withdraw_payloads X (Outputs txn) None of
        Inl e \<Rightarrow> Some e
      | Inr (transactionHashes, None) \<Rightarrow> Some (Err ''invalid withdraw transaction count'')
      | Inr (transactionHashes, Some (sc, exchangeRate)) \<Rightarrow>
          (case GetDataStoreGenesisBlocAddress (Key sc) db of
             None \<Rightarrow> Some (Err ''can't find db store by genesis block address'')
           | Some st \<Rightarrow>
               (case known_withdraws X io [] st (Key sc) transactionHashes of
                  Inl e \<Rightarrow> Some e
                | Inr txs \<Rightarrow> check_totals X (FrozenAddresses X) exchangeRate (Key sc) txn txs)))"

definition checkWithdrawFromSideChainPayloadV1 ::
    "cross_env \<Rightarrow> db_io \<Rightarrow> db_cache \<Rightarrow> transaction \<Rightarrow> go_error option" where
  "checkWithdrawFromSideChainPayloadV1 X io db txn =
     (if PayloadVersion txn \<noteq> WithdrawFromSideChainVersionV1 (xA X)
      then Some (Err ''invalid withdraw payload version, not WithdrawFromSideChainVersionV1'')
      else checkWithdrawFromSideChainPayload X io db txn)"
text \<open>
  A refund. Outputs of other types are skipped. When the node does not give the transaction that the
  deposit spent, the loop is left with \<open>break\<close> and the check passes.
\<close>

datatype loop_step = Continue | Break | Stop go_error

definition check_return_output :: "cross_env \<Rightarrow> tx_output \<Rightarrow> loop_step" where
  "check_return_output X o1 =
     (if OutType o1 \<noteq> OTReturnSideChainDepositCoin then Continue
      else (case OutPayload o1 of
        ReturnSideChainDeposit genesis depositHash \<Rightarrow>
          (case GetSideChainAndExchangeRate X genesis of
             Inl e \<Rightarrow> Stop e
           | Inr (sc, _) \<Rightarrow>
             (case GetFailedDepositTransaction (xN X) (Key sc) (HashString (xA X) depositHash) of
                Inl e \<Rightarrow> Stop (Err ''[checkReturnDepositTxPayload] failed, unknown side chain transactions'')
              | Inr exist \<Rightarrow>
                if \<not> exist then Stop (Err ''[checkReturnDepositTxPayload] failed, unknown side chain transactions'')
                else (case HexStringToBytes (xC X) (HashString (xA X) depositHash) of
                  None \<Rightarrow> Stop (Err ''[checkReturnDepositTxPayload] tx hash can not reversed'')
                | Some txnBytes \<Rightarrow>
                  (case GetTransaction (xN X) (BytesToHexString (xC X) (BytesReverse (xA X) txnBytes)) of
                     Inl e \<Rightarrow> Stop (Err ''[checkReturnDepositTxPayload] failed to get origin tx from main chain:'')
                   | Inr originTx \<Rightarrow>
                     (case Inputs originTx of
                        [] \<Rightarrow> Stop GoPanic
                      | i # _ \<Rightarrow>
                        (case GetTransaction (xN X)
                                (BytesToHexString (xC X) (BytesReverse (xA X) (OpTxID (Previous i)))) of
                           Inl e \<Rightarrow> Break
                         | Inr referTxn \<Rightarrow>
                           (case Payload originTx of
                              TransferCrossChainAsset _ _ _ \<Rightarrow>
                                if length (Outputs referTxn) \<le> unat (OpIndex (Previous i)) then Stop GoPanic
                                else (case ToAddress (xA X) (OutProgramHash (Outputs referTxn ! unat (OpIndex (Previous i)))) of
                                  None \<Rightarrow> Stop (Err ''[checkReturnDepositTxPayload] ProgramHash can not transfer to address'')
                                | Some address \<Rightarrow>
                                  (case Uint168FromAddress (xA X) genesis of
                                     None \<Rightarrow> Stop ExtErr
                                   | Some crossChainHash \<Rightarrow>
                                     (let depositAmount = fx_sum (map OutValue (filter (\<lambda>x.
                                            take 1 (OutProgramHash x) = [PrefixCrossChain (xA X)] \<and>
                                            OutProgramHash x = crossChainHash) (Outputs originTx)))
                                      in if OutValue o1 \<noteq> depositAmount - ReturnDepositTransactionFee X
                                         then Stop (Err ''[checkReturnDepositTxPayload] invalid output amount'')
                                         else (case ToAddress (xA X) (OutProgramHash o1) of
                                           None \<Rightarrow> Stop (Err ''[checkReturnDepositTxPayload] invalid output address'')
                                         | Some outputAddr \<Rightarrow>
                                           if outputAddr \<noteq> address
                                           then Stop (Err ''[checkReturnDepositTxPayload] address is:'')
                                           else Continue))))
                            | _ \<Rightarrow> Stop (Err ''[checkReturnDepositTxPayload] invalid payload type need TransferCrossChainAsset''))))))))
      | _ \<Rightarrow> Stop (Err ''[checkReturnDepositTxPayload], invalid output payload'')))"

fun check_return_outputs :: "cross_env \<Rightarrow> tx_output list \<Rightarrow> go_error option" where
  "check_return_outputs X [] = None"
| "check_return_outputs X (o1 # outs) =
     (case check_return_output X o1 of
        Continue \<Rightarrow> check_return_outputs X outs | Break \<Rightarrow> None | Stop e \<Rightarrow> Some e)"

definition checkReturnDepositTxPayload :: "cross_env \<Rightarrow> transaction \<Rightarrow> go_error option" where
  "checkReturnDepositTxPayload X txn = check_return_outputs X (Outputs txn)"

definition checkReturnDepositTxPayloadV0 :: "cross_env \<Rightarrow> transaction \<Rightarrow> go_error option" where
  "checkReturnDepositTxPayloadV0 X txn =
     (if PayloadVersion txn \<noteq> ReturnSideChainDepositCoinVersion (xA X)
      then Some (Err ''invalid schnorr return deposit payload version, not ReturnSideChainDepositCoinVersion'')
      else checkReturnDepositTxPayload X txn)"

text \<open>Of an NFT transaction only the side chain is looked at.\<close>

definition checkNFTDestroyFromSideChainPayload :: "cross_env \<Rightarrow> uint256 \<Rightarrow> go_error option" where
  "checkNFTDestroyFromSideChainPayload X genesisBlockHash =
     (case chain_of_hash (SideNodeList X) (HashString (xA X) genesisBlockHash) (GetAllChains X) [] of
        None \<Rightarrow> Some GoPanic
      | Some genesis \<Rightarrow>
          (case GetSideChainAndExchangeRate X genesis of Inl e \<Rightarrow> Some e | Inr _ \<Rightarrow> None))"

definition checkNFTDestroyFromSideChainTxPayload :: "cross_env \<Rightarrow> transaction \<Rightarrow> uint256 \<Rightarrow> go_error option" where
  "checkNFTDestroyFromSideChainTxPayload X txn genesisBlockHash =
     (if PayloadVersion txn \<noteq> NFTDestroyFromSideChainVersion (xA X)
      then Some (Err ''invalid NFTDestroyFromSideChain Tx payload version, not NFTDestroyFromSideChainVersion'')
      else checkNFTDestroyFromSideChainPayload X genesisBlockHash)"

definition checkWithdrawTransaction ::
    "cross_env \<Rightarrow> db_io \<Rightarrow> db_cache \<Rightarrow> transaction \<Rightarrow> u32 \<Rightarrow> go_error option" where
  "checkWithdrawTransaction X io db txn height =
     (case Payload txn of
        WithdrawFromSideChain _ genesis hashes _ \<Rightarrow>
          if NewCrossChainTransactionHeight (xCfg X) \<le> height
          then checkWithdrawFromSideChainPayloadV1 X io db txn
          else checkWithdrawFromSidechainPayload X io db txn genesis hashes
      | ReturnSideChainDepositCoin _ \<Rightarrow> checkReturnDepositTxPayloadV0 X txn
      | NFTDestroyFromSideChain _ _ genesisBlockHash \<Rightarrow>
          if height < NFTStartHeight (xCfg X) then Some (Err ''NFT function not opened'')
          else checkNFTDestroyFromSideChainTxPayload X txn genesisBlockHash
      | _ \<Rightarrow> Some (Err ''check withdraw transaction failed, unknown payload type''))"

text \<open>The height comes from the main chain store, whose cached height the query refreshes.\<close>

definition Check :: "cross_env \<Rightarrow> db_io \<Rightarrow> db_cache \<Rightarrow> transaction \<Rightarrow> go_error option \<times> db_cache" where
  "Check X io db txn =
     (case Main_CurrentHeight io QueryHeightCode (MainChainStore db) of
        (height, st) \<Rightarrow> (let db' = db\<lparr>MainChainStore := st\<rparr> in (checkWithdrawTransaction X io db' txn height, db')))"

section \<open>Facts\<close>

text \<open>What is owed, in closed form: all assets of the transactions, or an error.\<close>

definition assets_of :: "withdraw_tx list \<Rightarrow> withdraw_asset list" where
  "assets_of txs = concat (map (\<lambda>t. case WithdrawInfo t of None \<Rightarrow> [] | Some info \<Rightarrow> WithdrawAssets info) txs)"

definition payable :: "string list \<Rightarrow> withdraw_asset \<Rightarrow> bool" where
  "payable frozen w \<longleftrightarrow> TargetAddress w \<notin> set frozen \<and> \<not> bad_amounts w"

definition owed_sums :: "float64 \<Rightarrow> withdraw_asset list \<Rightarrow> fixed64 \<times> fixed64 \<times> (string \<times> fixed64) list" where
  "owed_sums rate ws =
     (fx_sum (map (\<lambda>w. fixed_div (CrossChainAmount w) rate) ws),
      fx_sum (map (\<lambda>w. fixed_div (Amount w - CrossChainAmount w) rate) ws),
      map (\<lambda>w. (TargetAddress w, CrossChainAmount w)) ws)"

lemma owed_assets_payable:
  "list_all (payable frozen) ws \<Longrightarrow> owed_assets frozen rate ws = Inr (owed_sums rate ws)"
  by (induction ws) (auto simp: payable_def owed_sums_def)

lemma owed_assets_Inr:
  "owed_assets frozen rate ws = Inr r \<Longrightarrow> list_all (payable frozen) ws \<and> r = owed_sums rate ws"
proof (induction ws arbitrary: r)
  case (Cons w ws)
  then obtain r' where "owed_assets frozen rate ws = Inr r'" "payable frozen w"
    by (cases "owed_assets frozen rate ws") (auto simp: payable_def split: if_splits)
  with Cons show ?case by (auto simp: payable_def owed_sums_def)
qed (simp add: owed_sums_def)

lemma owed_payable:
  "list_all (\<lambda>t. WithdrawInfo t \<noteq> None) txs \<Longrightarrow> list_all (payable frozen) (assets_of txs) \<Longrightarrow>
   owed frozen rate txs = Inr (owed_sums rate (assets_of txs))"
proof (induction txs)
  case (Cons t ts)
  then obtain info where "WithdrawInfo t = Some info" by auto
  with Cons show ?case by (simp add: assets_of_def owed_assets_payable) (simp add: owed_sums_def)
qed (simp add: assets_of_def owed_sums_def)

lemma owed_Inr:
  "owed frozen rate txs = Inr r \<Longrightarrow> list_all (payable frozen) (assets_of txs) \<and> r = owed_sums rate (assets_of txs)"
proof (induction txs arbitrary: r)
  case (Cons t ts)
  obtain info where t: "WithdrawInfo t = Some info" using Cons.prems by (cases "WithdrawInfo t") auto
  obtain x where x: "owed_assets frozen rate (WithdrawAssets info) = Inr x"
    using Cons.prems t by (cases "owed_assets frozen rate (WithdrawAssets info)") auto
  obtain y where y: "owed frozen rate ts = Inr y"
    using Cons.prems t x by (cases "owed frozen rate ts") (auto split: prod.splits)
  show ?case using Cons.prems Cons.IH [OF y] owed_assets_Inr [OF x] t x y
    by (simp add: assets_of_def owed_sums_def split: prod.splits)
qed (simp add: assets_of_def owed_sums_def)

lemma owed_sums_mset:
  assumes "mset ws = mset ws'"
  shows "fst (owed_sums rate ws) = fst (owed_sums rate ws')" "fst (snd (owed_sums rate ws)) = fst (snd (owed_sums rate ws'))"
    "mset (snd (snd (owed_sums rate ws))) = mset (snd (snd (owed_sums rate ws')))"
  using assms by (auto simp: owed_sums_def intro!: fx_sum_mset)

end
