(* ===== verification/Submit.thy ===== *)
theory Submit
  imports Tx_Check Cs_Item
begin

text \<open>
  \<open>Submit\<close> of \<open>arbitration/cs/txdistributedcontent.go\<close>: the transaction with enough signatures goes to the
  main chain node, and what the node answers decides what becomes of the cached transactions. Each
  call of a store has its own driver faults (\<open>ios i\<close> for the i-th).
\<close>

definition MCErrDoubleSpend :: int where "MCErrDoubleSpend = 45010"
definition MCErrSidechainTxDuplicate :: int where "MCErrSidechainTxDuplicate = 45012"

definition SendWithdrawTransaction :: "cross_env \<Rightarrow> transaction \<Rightarrow> go_error + rpc_resp" where
  "SendWithdrawTransaction X txn =
     (case TxSerialize (xT X) txn of
        (Some e, _) \<Rightarrow> Inl e
      | (None, buf) \<Rightarrow> SendRawTransaction (xN X) (BytesToHexString (xC X) buf))"

datatype verdict = Crash | Failed | Succeeded | Resend

text \<open>The two conditions in the order of the code. An error of the call satisfies the first one, but then
  \<open>resp\<close> is empty, \<open>resp.Error\<close> is nil, and the log line behind the condition reads \<open>resp.Code\<close>
  through it: a nil pointer.\<close>

definition mc_verdict :: "go_error + rpc_resp \<Rightarrow> verdict" where
  "mc_verdict res =
     (case res of
        Inl e \<Rightarrow> Crash
      | Inr resp \<Rightarrow>
          if RespError resp \<and> RespCode resp \<noteq> MCErrDoubleSpend then Failed
          else if \<not> RespError resp \<and> RespResult resp \<or>
                  RespError resp \<and> RespCode resp = MCErrSidechainTxDuplicate then Succeeded
          else Resend)"

section \<open>Withdraw transactions\<close>

text \<open>The side chain that the outputs name; no output of the type leaves none, which is a nil pointer.\<close>

fun submit_chain :: "cross_env \<Rightarrow> tx_output list \<Rightarrow> side_chain option \<Rightarrow> go_error + side_chain option" where
  "submit_chain X [] chain = Inr chain"
| "submit_chain X (o1 # outs) chain =
     (if OutType o1 \<noteq> OTWithdrawFromSideChain then submit_chain X outs chain
      else (case OutPayload o1 of
              Withdraw genesis _ _ \<Rightarrow>
                (case chain of
                   None \<Rightarrow>
                     (case GetChain X genesis of
                        None \<Rightarrow> Inl (Err ''SubmitWithdrawTransaction Get side chain from genesis address failed.'')
                      | Some sc \<Rightarrow> submit_chain X outs (Some sc))
                 | Some sc \<Rightarrow>
                     if Key sc \<noteq> genesis then Inl (Err ''invalid withdraw transaction GenesisBlockAddress'')
                     else submit_chain X outs chain)
            | _ \<Rightarrow> Inl (Err ''invalid withdraw transaction output payload'')))"

definition submit_address :: "cross_env \<Rightarrow> transaction \<Rightarrow> string \<Rightarrow> go_error + string" where
  "submit_address X txn genesis =
     (if PayloadVersion txn = WithdrawFromSideChainVersionV1 (xA X) \<or>
         PayloadVersion txn = WithdrawFromSideChainVersionV2 (xA X)
      then (case submit_chain X (Outputs txn) None of
              Inl e \<Rightarrow> Inl e
            | Inr None \<Rightarrow> Inl GoPanic
            | Inr (Some sc) \<Rightarrow> Inr (Key sc))
      else Inr genesis)"

text \<open>Removal from the cache comes first; when the record of the verdict fails after it, nothing puts the
  transactions back.\<close>

definition move_withdraws ::
    "string \<Rightarrow> (nat \<Rightarrow> db_io) \<Rightarrow> string \<Rightarrow> side_store \<Rightarrow> string list \<Rightarrow>
     (finished_store \<Rightarrow> (go_error + unit) \<times> finished_store) \<Rightarrow> db_cache \<Rightarrow> unit outcome \<times> db_cache" where
  "move_withdraws kind ios address st transactionHashes record_verdict db =
     (case RemoveSideChainTxs (ios 0) transactionHashes st of
        (res, st') \<Rightarrow>
          (let db1 = on_address address (\<lambda>_. st') db
           in case res of
                Inl e \<Rightarrow> (Fail (Err (''remove '' @ kind @ '' withdraw transaction from db failed'')), db1)
              | Inr _ \<Rightarrow>
                  (case record_verdict (FinishedTxsDbCache db1) of
                     (res2, fin) \<Rightarrow>
                       (case res2 of Inl e \<Rightarrow> Fail (Err (''add '' @ kind @ '' withdraw transaction into finished db failed'')) | Inr _ \<Rightarrow> Done (),
                        db1\<lparr>FinishedTxsDbCache := fin\<rparr>))))"

definition SubmitWithdrawTransaction ::
    "cross_env \<Rightarrow> (nat \<Rightarrow> db_io) \<Rightarrow> transaction \<Rightarrow> db_cache \<Rightarrow> unit outcome \<times> db_cache" where
  "SubmitWithdrawTransaction X ios txn db =
     (let res = SendWithdrawTransaction X txn
      in case Payload txn of
           WithdrawFromSideChain _ genesis hashes _ \<Rightarrow>
             (let transactionHashes = map (HashString (xA X)) hashes
              in case submit_address X txn genesis of
                   Inl e \<Rightarrow> (fail_of e, db)
                 | Inr address \<Rightarrow>
                     (case GetDataStoreGenesisBlocAddress address db of
                        None \<Rightarrow> (Fail (Err ''can't find db by genesis block hash ''), db)
                      | Some st \<Rightarrow>
                          (case mc_verdict res of
                             Crash \<Rightarrow> (Panic, db)
                           | Failed \<Rightarrow>
                               (case TxSerialize (xT X) txn of
                                  (Some e, _) \<Rightarrow> (Fail (Err ''send withdraw transaction faild, invalid transaction''), db)
                                | (None, buf) \<Rightarrow> move_withdraws ''failed'' ios address st transactionHashes
                                    (AddFailedWithdrawTxs (ios 1) transactionHashes buf) db)
                           | Succeeded \<Rightarrow> move_withdraws ''succeed'' ios address st transactionHashes
                               (AddSucceedWithdrawTxs (ios 1) transactionHashes) db
                           | Resend \<Rightarrow> (Done (), db))))
         | _ \<Rightarrow> (Fail (Err ''invalid payload''), db))"

section \<open>NFT transactions\<close>

definition SubmitNFTDestroyTransaction ::
    "cross_env \<Rightarrow> (nat \<Rightarrow> db_io) \<Rightarrow> transaction \<Rightarrow> db_cache \<Rightarrow> unit outcome \<times> db_cache" where
  "SubmitNFTDestroyTransaction X ios txn db =
     (let res = SendWithdrawTransaction X txn
      in case Payload txn of
           NFTDestroyFromSideChain ids _ genesisBlockHash \<Rightarrow>
             (case chain_of_hash (SideNodeList X) (HashString (xA X) genesisBlockHash) (GetAllChains X) [] of
                None \<Rightarrow> (Panic, db)
              | Some address \<Rightarrow>
                  (case GetDataStoreGenesisBlocAddress address db of
                     None \<Rightarrow> (Fail (Err ''can't find db by genesis block hash ''), db)
                   | Some st \<Rightarrow>
                       if mc_verdict res = Crash then (Panic, db)
                       else if mc_verdict res = Resend then (Done (), db)
                       else (case RemoveNFTDestroyTxs (ios 0) (map (HashString (xA X)) ids) st of
                               (r, st') \<Rightarrow>
                                 (case r of Inl e \<Rightarrow> Fail (Err (if mc_verdict res = Failed then ''remove failed NFTDestroy transaction from db failed''
                                    else ''remove succeed withdraw transaction from db failed'')) | Inr _ \<Rightarrow> Done (),
                                  on_address address (\<lambda>_. st') db))))
         | _ \<Rightarrow> (Fail (Err ''invalid payload''), db))"

section \<open>Refunds\<close>

fun returned_deposits :: "cross_env \<Rightarrow> tx_output list \<Rightarrow> (string list \<times> string list) option" where
  "returned_deposits X [] = Some ([], [])"
| "returned_deposits X (o1 # outs) =
     (if OutType o1 \<noteq> OTReturnSideChainDepositCoin then returned_deposits X outs
      else (case OutPayload o1 of
              ReturnSideChainDeposit genesis txHash \<Rightarrow>
                map_option (\<lambda>(hs, gs). (HashString (xA X) txHash # hs, genesis # gs)) (returned_deposits X outs)
            | _ \<Rightarrow> None))"

text \<open>Whatever the verdict, nothing is recorded as finished (the code has two todo comments there).\<close>

definition SubmitReturnSideChainDepositCoin ::
    "cross_env \<Rightarrow> (nat \<Rightarrow> db_io) \<Rightarrow> transaction \<Rightarrow> db_cache \<Rightarrow> unit outcome \<times> db_cache" where
  "SubmitReturnSideChainDepositCoin X ios txn db =
     (let res = SendWithdrawTransaction X txn;
          remove = (\<lambda>kind hs gs. case RemoveMainChainTxs (ios 0) hs gs (MainChainStore db) of
            (r, st) \<Rightarrow> (case r of Fail e \<Rightarrow> 
              Fail (Err (''failed to remove '' @ kind @ '' send return side chain deposit coin transaction from db''))
                        | other \<Rightarrow> other, db\<lparr>MainChainStore := st\<rparr>))
      in case Payload txn of
           ReturnSideChainDepositCoin _ \<Rightarrow>
             (case returned_deposits X (Outputs txn) of
                None \<Rightarrow> (Fail (Err ''invalid payload''), db)
              | Some (hs, gs) \<Rightarrow>
                  (case mc_verdict res of
                     Crash \<Rightarrow> (Panic, db)
                   | Failed \<Rightarrow>
                       (case TxSerialize (xT X) txn of
                          (Some e, _) \<Rightarrow> (Fail (Err ''failed to send return side chain deposit coin transaction , invalid transaction''), db)
                        | (None, buf) \<Rightarrow> remove ''failed'' hs gs)
                   | Succeeded \<Rightarrow> remove ''succeed'' hs gs
                   | Resend \<Rightarrow> (Done (), db)))
         | _ \<Rightarrow> (Fail (Err ''invalid payload''), db))"

definition Submit :: "cross_env \<Rightarrow> (nat \<Rightarrow> db_io) \<Rightarrow> transaction \<Rightarrow> db_cache \<Rightarrow> unit outcome \<times> db_cache" where
  "Submit X ios txn db =
     (case Payload txn of
        WithdrawFromSideChain _ _ _ _ \<Rightarrow> SubmitWithdrawTransaction X ios txn db
      | ReturnSideChainDepositCoin _ \<Rightarrow> SubmitReturnSideChainDepositCoin X ios txn db
      | NFTDestroyFromSideChain _ _ _ \<Rightarrow> SubmitNFTDestroyTransaction X ios txn db
      | _ \<Rightarrow> (Fail (Err ''received proposal feed back but transaction has invalid payload''), db))"
end
