(* ===== verification/Main_Chain.thy ===== *)
theory Main_Chain
  imports Cross_Env
begin

text \<open>
  The transactions that the arbiter on duty builds for the main chain
  (\<open>arbitration/mainchain/mainchainImpl.go\<close>) and the choice of unspent outputs
  (\<open>arbitration/arbitrator/mainchain.go\<close>). The version of a transaction and its nonce attribute are read
  by nothing here and left out; \<open>elatx.CreateTransaction\<close> puts its arguments into the fields.
\<close>

section \<open>Unspent outputs\<close>

definition utxo_of_info :: "cross_env \<Rightarrow> utxo_info \<Rightarrow> go_error + address_utxo" where
  "utxo_of_info X u =
     (case HexStringToBytes (xC X) (UtxoTxid u) of
        None \<Rightarrow> Inl ExtErr
      | Some bs \<Rightarrow>
          (case Uint256FromBytes (xA X) (BytesReverse (xA X) bs) of
             None \<Rightarrow> Inl ExtErr
           | Some txid \<Rightarrow>
               (case StringToFixed64 (xA X) (UtxoAmount u) of
                  None \<Rightarrow> Inl ExtErr
                | Some amount \<Rightarrow>
                    Inr \<lparr>UtxoInput = \<lparr>Previous = \<lparr>OpTxID = txid, OpIndex = ucast (UtxoVOut u)\<rparr>, Sequence = 0\<rparr>,
                         UtxoValue = amount\<rparr>)))"

fun collect_utxos :: "cross_env \<Rightarrow> utxo_info list \<Rightarrow> go_error + address_utxo list" where
  "collect_utxos X [] = Inr []"
| "collect_utxos X (u # us) =
     (case utxo_of_info X u of Inl e \<Rightarrow> Inl e | Inr a \<Rightarrow> map_sum id ((#) a) (collect_utxos X us))"

definition GetWithdrawAddressUTXOsByAmount :: "cross_env \<Rightarrow> string \<Rightarrow> fixed64 \<Rightarrow> go_error + address_utxo list" where
  "GetWithdrawAddressUTXOsByAmount X genesis amount =
     (case GetWithdrawUTXOs (xN X) genesis amount of Inl e \<Rightarrow> Inl e | Inr infos \<Rightarrow> collect_utxos X infos)"

text \<open>Locked outputs are those with a sequence; one whose lock is over gets the sequence \<open>MaxUint32 - 1\<close>.\<close>

fun unlocked :: "u32 \<Rightarrow> address_utxo list \<Rightarrow> address_utxo list" where
  "unlocked height [] = []"
| "unlocked height (u # us) =
     (if 0 < Sequence (UtxoInput u) then
        (if height \<le> Sequence (UtxoInput u) then unlocked height us
         else u\<lparr>UtxoInput := (UtxoInput u)\<lparr>Sequence := 0xFFFFFFFE\<rparr>\<rparr> # unlocked height us)
      else u # unlocked height us)"

definition GetWithdrawUTXOsByAmount ::
    "cross_env \<Rightarrow> db_io \<Rightarrow> string \<Rightarrow> fixed64 \<Rightarrow> main_store \<Rightarrow> (go_error + address_utxo list) \<times> main_store" where
  "GetWithdrawUTXOsByAmount X io bank amount st =
     (case GetWithdrawAddressUTXOsByAmount X bank amount of
        Inl e \<Rightarrow> (Inl (Err ''get spender's UTXOs failed, err:''), st)
      | Inr utxos \<Rightarrow>
          (case Main_CurrentHeight io QueryHeightCode st of
             (height, st') \<Rightarrow> (Inr (SortUTXOs X (unlocked height utxos)), st')))"

text \<open>Inputs until the amount is covered; what is over is the change. The result: the inputs, what is still
  missing, and the change.\<close>

fun select_inputs :: "address_utxo list \<Rightarrow> fixed64 \<Rightarrow> tx_input list \<times> fixed64 \<times> fixed64 option" where
  "select_inputs [] amt = ([], amt, None)"
| "select_inputs (u # us) amt =
     (if UtxoValue u <s amt
      then (case select_inputs us (amt - UtxoValue u) of (ins, r, c) \<Rightarrow> (UtxoInput u # ins, r, c))
      else if UtxoValue u = amt then ([UtxoInput u], 0, None)
      else ([UtxoInput u], 0, Some (UtxoValue u - amt)))"

section \<open>Outputs\<close>

text \<open>One entry per asset, with the hash of its transaction; nil pointers are no value.\<close>

fun parseUserWithdrawTransactions :: "withdraw_tx list \<Rightarrow> (withdraw_asset \<times> uint256) list option" where
  "parseUserWithdrawTransactions [] = Some []"
| "parseUserWithdrawTransactions (t # ts) =
     (case WithdrawInfo t of
        None \<Rightarrow> None
      | Some info \<Rightarrow>
          (case (WithdrawAssets info, Txid t) of
             ([], _) \<Rightarrow> parseUserWithdrawTransactions ts
           | (w # ws, None) \<Rightarrow> None
           | (w # ws, Some h) \<Rightarrow>
               map_option (\<lambda>rest. map (\<lambda>a. (a, h)) (w # ws) @ rest) (parseUserWithdrawTransactions ts)))"

text \<open>The output of one asset: with a payload that names the chain and the transaction, or plain before
  \<open>NewCrossChainTransactionHeight\<close>.\<close>

definition withdraw_output ::
    "cross_env \<Rightarrow> bool \<Rightarrow> string \<Rightarrow> float64 \<Rightarrow> withdraw_asset \<times> uint256 \<Rightarrow> go_error + tx_output" where
  "withdraw_output X typed bank rate a =
     (case Uint168FromAddress (xA X) (TargetAddress (fst a)) of
        None \<Rightarrow> Inl ExtErr
      | Some programhash \<Rightarrow>
          Inr \<lparr>OutProgramHash = programhash, OutValue = fixed_div (CrossChainAmount (fst a)) rate,
               OutType = (if typed then OTWithdrawFromSideChain else OTNone),
               OutPayload = (if typed then Withdraw bank (snd a) (TargetData (fst a)) else NilOutputPayload)\<rparr>)"

fun build_outputs :: "('a \<Rightarrow> go_error + tx_output) \<Rightarrow> 'a list \<Rightarrow> go_error + tx_output list" where
  "build_outputs f [] = Inr []"
| "build_outputs f (x # xs) = (case f x of Inl e \<Rightarrow> Inl e | Inr y \<Rightarrow> map_sum id ((#) y) (build_outputs f xs))"

definition change_output :: "bool \<Rightarrow> uint168 \<Rightarrow> fixed64 \<Rightarrow> tx_output" where
  "change_output typed programHash v =
     \<lparr>OutProgramHash = programHash, OutValue = v, OutType = OTNone,
      OutPayload = (if typed then DefaultOutput else NilOutputPayload)\<rparr>"

text \<open>Inputs and outputs with the change; an error when the outputs cannot be paid.\<close>

definition fund ::
    "cross_env \<Rightarrow> db_io \<Rightarrow> bool \<Rightarrow> string \<Rightarrow> fixed64 \<Rightarrow> tx_output list \<Rightarrow> db_cache \<Rightarrow>
     (go_error + tx_input list \<times> tx_output list) \<times> db_cache" where
  "fund X io typed bank amt outs db =
     (case GetWithdrawUTXOsByAmount X io bank amt (MainChainStore db) of
        (res, st) \<Rightarrow>
          (case res of
             Inl e \<Rightarrow> Inl e
           | Inr utxos \<Rightarrow>
               (case select_inputs utxos amt of
                  (ins, missing, change) \<Rightarrow>
                    (case change of
                       Some v \<Rightarrow>
                         (case Uint168FromAddress (xA X) bank of
                            None \<Rightarrow> Inl ExtErr
                          | Some programHash \<Rightarrow> Inr (ins, outs @ [change_output typed programHash v]))
                     | None \<Rightarrow> if 0 <s missing then Inl (Err ''available token is not enough'') else Inr (ins, outs))),
           db\<lparr>MainChainStore := st\<rparr>))"

section \<open>Transactions\<close>

definition withdraw_parts ::
    "cross_env \<Rightarrow> db_io \<Rightarrow> bool \<Rightarrow> side_chain \<Rightarrow> withdraw_tx list \<Rightarrow> db_cache \<Rightarrow>
     (go_error + uint256 list \<times> tx_input list \<times> tx_output list) \<times> db_cache" where
  "withdraw_parts X io typed sc withdrawTxs db =
     (case GetExchangeRate (SideNodeList X) sc of
        Inl e \<Rightarrow> (Inl e, db)
      | Inr rate \<Rightarrow>
          (case parseUserWithdrawTransactions withdrawTxs of
             None \<Rightarrow> (Inl GoPanic, db)
           | Some assets \<Rightarrow>
               (case build_outputs (withdraw_output X typed (Key sc) rate) assets of
                  Inl e \<Rightarrow> (Inl e, db)
                | Inr outs \<Rightarrow>
                    (case fund X io typed (Key sc) (fx_sum (map (\<lambda>a. fixed_div (Amount (fst a)) rate) assets)) outs db of
                       (res, db') \<Rightarrow> (map_sum id (\<lambda>(ins, outs'). (map snd assets, ins, outs')) res, db')))))"

definition CreateSchnorrWithdrawTransaction ::
    "cross_env \<Rightarrow> db_io \<Rightarrow> side_chain \<Rightarrow> withdraw_tx list \<Rightarrow> db_cache \<Rightarrow> (go_error + transaction) \<times> db_cache" where
  "CreateSchnorrWithdrawTransaction X io sc withdrawTxs db =
     (case withdraw_parts X io True sc withdrawTxs db of
        (Inl e, db') \<Rightarrow> (Inl e, db')
      | (Inr (_, ins, outs), db') \<Rightarrow>
          (Inr \<lparr>TxType = TxWithdrawFromSideChain, PayloadVersion = WithdrawFromSideChainVersionV2 (xA X),
                Payload = WithdrawFromSideChain [] '''' [] 0, Inputs = ins, Outputs = outs, Programs = []\<rparr>, db'))"

definition CreateWithdrawTransactionV1 ::
    "cross_env \<Rightarrow> db_io \<Rightarrow> side_chain \<Rightarrow> withdraw_tx list \<Rightarrow> db_cache \<Rightarrow> (go_error + transaction) \<times> db_cache" where
  "CreateWithdrawTransactionV1 X io sc withdrawTxs db =
     (case withdraw_parts X io True sc withdrawTxs db of
        (Inl e, db') \<Rightarrow> (Inl e, db')
      | (Inr (_, ins, outs), db') \<Rightarrow>
          (case CreateRedeemScript (xC X) (xCfg X) (xGroup X) of
             Inl e \<Rightarrow> (Inl e, db')
           | Inr script \<Rightarrow>
               (Inr \<lparr>TxType = TxWithdrawFromSideChain, PayloadVersion = WithdrawFromSideChainVersionV1 (xA X),
                     Payload = WithdrawFromSideChain [] '''' [] 0, Inputs = ins, Outputs = outs,
                     Programs = [\<lparr>Code = script, Parameter = None\<rparr>]\<rparr>, db')))"

text \<open>The old form carries the version of the new one.\<close>

definition CreateWithdrawTransactionV0 ::
    "cross_env \<Rightarrow> db_io \<Rightarrow> side_chain \<Rightarrow> withdraw_tx list \<Rightarrow> db_cache \<Rightarrow> (go_error + transaction) \<times> db_cache" where
  "CreateWithdrawTransactionV0 X io sc withdrawTxs db =
     (case withdraw_parts X io False sc withdrawTxs db of
        (Inl e, db') \<Rightarrow> (Inl e, db')
      | (Inr (txHashes, ins, outs), db') \<Rightarrow>
          (case CreateRedeemScript (xC X) (xCfg X) (xGroup X) of
             Inl e \<Rightarrow> (Inl e, db')
           | Inr script \<Rightarrow>
               (case MainNodeHeight (xN X) of
                  Inl e \<Rightarrow> (Inl e, db')
                | Inr chainHeight \<Rightarrow>
                    (Inr \<lparr>TxType = TxWithdrawFromSideChain, PayloadVersion = WithdrawFromSideChainVersionV1 (xA X),
                          Payload = WithdrawFromSideChain [] (Key sc) txHashes chainHeight, Inputs = ins, Outputs = outs,
                          Programs = [\<lparr>Code = script, Parameter = None\<rparr>]\<rparr>, db'))))"

definition failed_deposit_output ::
    "cross_env \<Rightarrow> string \<Rightarrow> float64 \<Rightarrow> failed_deposit_tx \<Rightarrow> go_error + tx_output" where
  "failed_deposit_output X bank rate t =
     (case DepositInfo t of
        None \<Rightarrow> Inl GoPanic
      | Some info \<Rightarrow>
          (case Uint168FromAddress (xA X) (DepTargetAddress info) of
             None \<Rightarrow> Inl ExtErr
           | Some programhash \<Rightarrow>
               (case FailedTxid t of
                  None \<Rightarrow> Inl GoPanic
                | Some h \<Rightarrow>
                    Inr \<lparr>OutProgramHash = programhash,
                         OutValue = fixed_div (DepAmount info - ReturnDepositTransactionFee X) rate,
                         OutType = OTReturnSideChainDepositCoin, OutPayload = ReturnSideChainDeposit bank h\<rparr>)))"

definition CreateFailedDepositTransaction ::
    "cross_env \<Rightarrow> db_io \<Rightarrow> side_chain \<Rightarrow> failed_deposit_tx list \<Rightarrow> db_cache \<Rightarrow> (go_error + transaction) \<times> db_cache" where
  "CreateFailedDepositTransaction X io sc failedDepositTxs db =
     (case GetExchangeRate (SideNodeList X) sc of
        Inl e \<Rightarrow> (Inl e, db)
      | Inr rate \<Rightarrow>
          (case build_outputs (failed_deposit_output X (Key sc) rate) failedDepositTxs of
             Inl e \<Rightarrow> (Inl e, db)
           | Inr outs \<Rightarrow>
               (case fund X io True (Key sc) (fx_sum (map (\<lambda>t. case DepositInfo t of
                       None \<Rightarrow> 0 | Some info \<Rightarrow> fixed_div (DepAmount info) rate) failedDepositTxs)) outs db of
                  (Inl e, db') \<Rightarrow> (Inl e, db')
                | (Inr (ins, outs'), db') \<Rightarrow>
                    (case CreateRedeemScript (xC X) (xCfg X) (xGroup X) of
                       Inl e \<Rightarrow> (Inl e, db')
                     | Inr script \<Rightarrow>
                         (Inr \<lparr>TxType = TxReturnSideChainDepositCoin, PayloadVersion = 0,
                               Payload = ReturnSideChainDepositCoin [], Inputs = ins, Outputs = outs',
                               Programs = [\<lparr>Code = script, Parameter = None\<rparr>]\<rparr>, db')))))"

definition CreateNFTDestroyFromSideChainTx ::
    "cross_env \<Rightarrow> side_chain \<Rightarrow> nft_destroy_tx list \<Rightarrow> go_error + transaction" where
  "CreateNFTDestroyFromSideChainTx X sc nftDestroyTxs =
     (case CreateRedeemScript (xC X) (xCfg X) (xGroup X) of
        Inl e \<Rightarrow> Inl e
      | Inr script \<Rightarrow>
          (case getCurrentConfig (SideNodeList X) sc of
             None \<Rightarrow> Inl GoPanic
           | Some c \<Rightarrow>
               (case Uint256FromHexString (xA X) (GenesisBlock c) of
                  None \<Rightarrow> Inl ExtErr
                | Some genesisBlockHash \<Rightarrow>
                    Inr \<lparr>TxType = TxNFTDestroyFromSideChain, PayloadVersion = NFTDestroyFromSideChainVersion (xA X),
                         Payload = NFTDestroyFromSideChain (map ID nftDestroyTxs) (map OwnerStakeAddress nftDestroyTxs)
                           genesisBlockHash,
                         Inputs = [], Outputs = [], Programs = [\<lparr>Code = script, Parameter = None\<rparr>]\<rparr>)))"
section \<open>Facts\<close>

lemma sint_diff_nonneg:
  fixes a b :: "64 word"
  assumes "0 \<le> sint b" "sint b < sint a"
  shows "sint (a - b) = sint a - sint b"
proof -
  have "sint a < 2 ^ 63" using sint_lt [of a] by simp
  then have "- (2 ^ 63) \<le> sint a - sint b" "sint a - sint b < 2 ^ 63" using assms by linarith+
  then have "signed_take_bit 63 (sint a - sint b) = sint a - sint b" by (intro signed_take_bit_int_eq_self) simp_all
  then show ?thesis by (simp add: sint_word_ariths)
qed

text \<open>Chosen are the first k outputs, and they pay the amount except for what is missing, plus the change.\<close>

lemma select_inputs_sum:
  "select_inputs us amt = (ins, r, c) \<Longrightarrow>
   \<exists>k. ins = map UtxoInput (take k us) \<and>
     fx_sum (map UtxoValue (take k us)) + r = amt + (case c of None \<Rightarrow> 0 | Some v \<Rightarrow> v)"
proof (induction us amt arbitrary: ins r c rule: select_inputs.induct)
  case (1 total)
  then show ?case by (intro exI [of _ 0]) auto
next
  case (2 u us amt)
  show ?case
  proof (cases "UtxoValue u <s amt")
    case True
    obtain ins' where s: "select_inputs us (amt - UtxoValue u) = (ins', r, c)" "ins = UtxoInput u # ins'"
      using 2(2) True by (auto split: prod.splits)
    obtain k where "ins' = map UtxoInput (take k us)"
      "fx_sum (map UtxoValue (take k us)) + r = amt - UtxoValue u + (case c of None \<Rightarrow> 0 | Some v \<Rightarrow> v)"
      using "2.IH" [OF True s(1)] by blast
    then show ?thesis using s(2) by (intro exI [of _ "Suc k"]) (auto simp: algebra_simps)
  next
    case False
    then show ?thesis using 2(2) by (intro exI [of _ 1]) (auto split: if_splits)
  qed
qed

lemma select_inputs_missing:
  "select_inputs us amt = (ins, r, None) \<Longrightarrow> \<forall>u \<in> set us. 0 \<le>s UtxoValue u \<Longrightarrow> 0 \<le>s amt \<Longrightarrow> r = 0 \<or> 0 <s r"
proof (induction us amt arbitrary: ins r rule: select_inputs.induct)
  case (1 amt)
  moreover have "sint r = 0 \<Longrightarrow> r = 0" by (metis signed_0 signed_word_eqI)
  ultimately show ?case by (auto simp: word_sless_alt word_sle_eq)
next
  case (2 u us amt)
  show ?case
  proof (cases "UtxoValue u <s amt")
    case True
    then obtain ins' where s: "select_inputs us (amt - UtxoValue u) = (ins', r, None)" using 2(2) by (auto split: prod.splits)
    have "sint (amt - UtxoValue u) = sint amt - sint (UtxoValue u)"
      using True 2(3) by (intro sint_diff_nonneg) (auto simp: word_sless_alt word_sle_eq)
    then have "0 \<le>s amt - UtxoValue u" using True by (simp add: word_sless_alt word_sle_eq)
    with "2.IH" [OF True s] 2(3) show ?thesis by simp
  qed (use 2(2) in \<open>auto split: if_splits\<close>)
qed

lemma fund_conserves:
  assumes "fund X io typed bank amt outs db = (Inr (ins, outs'), db')"
    and "GetWithdrawUTXOsByAmount X io bank amt (MainChainStore db) = (Inr utxos, st)"
    and "\<forall>u \<in> set utxos. 0 \<le>s UtxoValue u" "0 \<le>s amt"
  shows "\<exists>k. ins = map UtxoInput (take k utxos) \<and>
    fx_sum (map UtxoValue (take k utxos)) + fx_sum (map OutValue outs) = amt + fx_sum (map OutValue outs') \<and>
    (outs' = outs \<or> (\<exists>h v. Uint168FromAddress (xA X) bank = Some h \<and> outs' = outs @ [change_output typed h v]))"
proof -
  obtain r c where s: "select_inputs utxos amt = (ins, r, c)"
    and c: "case c of None \<Rightarrow> \<not> 0 <s r \<and> outs' = outs
      | Some v \<Rightarrow> \<exists>h. Uint168FromAddress (xA X) bank = Some h \<and> outs' = outs @ [change_output typed h v]"
    using assms(1,2) by (cases "select_inputs utxos amt")
      (auto simp: fund_def split: option.splits if_splits)
  obtain k where k: "ins = map UtxoInput (take k utxos)"
    "fx_sum (map UtxoValue (take k utxos)) + r = amt + (case c of None \<Rightarrow> 0 | Some v \<Rightarrow> v)"
    using select_inputs_sum [OF s] by blast
  show ?thesis
  proof (cases c)
    case None
    then have "r = 0" using c select_inputs_missing [OF _ assms(3,4), of ins r] s by auto
    then show ?thesis using k c None by (intro exI [of _ k]) simp
  next
    case (Some v)
    then have "r = 0" using s
    proof -
      have "select_inputs us a = (i, r', Some v') \<Longrightarrow> r' = 0" for us a i r' v'
        by (induction us a arbitrary: i rule: select_inputs.induct) (auto split: if_splits prod.splits)
      then show ?thesis using s Some by blast
    qed
    then show ?thesis using k c Some by (intro exI [of _ k]) (auto simp: change_output_def algebra_simps)
  qed
qed

end
