(* ===== verification/Props_Cross.thy ===== *)
theory Props_Cross
  imports Props_Store Submit Main_Chain
begin

text \<open>
  Properties of the transactions between the chains: what the arbiter on duty builds, what the other
  arbiters accept, and what submitting does to the stores.
\<close>

section \<open>Facts\<close>

lemma paid_append: "paid A (xs @ ys) = paid A xs @ paid A ys"
  by (simp add: paid_def map_filter_def)

lemma check_totals_spec:
  assumes "check_totals X frozen rate genesis txn txs = None"
  shows "\<exists>inp ori fee assets. GetAmountByInputs (xN X) (Inputs txn) = Inr inp \<and> owed frozen rate txs = Inr (ori, fee, assets) \<and>
    inp = fx_sum (map OutValue (Outputs txn)) + fee \<and>
    fst ` set (paid (xA X) (Outputs txn)) = fst ` set assets \<and>
    (\<forall>a \<in> fst ` set assets. fx_sum (map snd (filter (\<lambda>x. fst x = a) (paid (xA X) (Outputs txn)))) =
       fixed_div (fx_sum (map snd (filter (\<lambda>x. fst x = a) assets))) rate)"
proof -
  obtain inp ori fee assets where *: "GetAmountByInputs (xN X) (Inputs txn) = Inr inp" "owed frozen rate txs = Inr (ori, fee, assets)"
    "inp = fx_sum (map OutValue (Outputs txn)) + fee"
    "length (amounts_of assets) = length (amounts_of (paid (xA X) (Outputs txn)))"
    "list_all (\<lambda>(k, v). case map_of (amounts_of assets) k of None \<Rightarrow> False | Some amount \<Rightarrow> fixed_div amount rate = v)
       (amounts_of (paid (xA X) (Outputs txn)))"
    using assms by (auto simp: check_totals_def Let_def split: sum.splits option.splits if_splits)
  have each: "a \<in> fst ` set assets \<and> v = fixed_div (sum_at a (amounts_of assets)) rate"
    if "(a, v) \<in> set (amounts_of (paid (xA X) (Outputs txn)))" for a v
    using *(5) that by (fastforce simp: list_all_iff map_of_amounts split: if_splits)
  then have "fst ` set (paid (xA X) (Outputs txn)) \<subseteq> fst ` set assets"
    using keys_amounts [of "paid (xA X) (Outputs txn)"] by force
  then have keys: "fst ` set (paid (xA X) (Outputs txn)) = fst ` set assets"
    using *(4) by (intro card_subset_eq) (auto simp: length_amounts)
  have "sum_at a (amounts_of (paid (xA X) (Outputs txn))) = fixed_div (sum_at a (amounts_of assets)) rate"
    if "a \<in> fst ` set assets" for a
  proof -
    have "map_of (amounts_of (paid (xA X) (Outputs txn))) a = Some (sum_at a (amounts_of (paid (xA X) (Outputs txn))))"
      using that keys by (simp add: map_of_amounts)
    from map_of_SomeD [OF this] each show ?thesis by blast
  qed
  then show ?thesis using * keys by (intro exI conjI) (auto simp: sum_at_amounts)
qed
section \<open>What an accepted withdraw pays\<close>

text \<open>The outputs pay what the withdraws that they name owe, from inputs that cover outputs and fees.\<close>

definition pays_owed :: "cross_env \<Rightarrow> db_io \<Rightarrow> db_cache \<Rightarrow> transaction \<Rightarrow> bool" where
  "pays_owed X io db txn \<longleftrightarrow> (\<exists>hs sc rate st txs inp. withdraw_payloads X (Outputs txn) None = Inr (hs, Some (sc, rate)) \<and>
    GetDataStoreGenesisBlocAddress (Key sc) db = Some st \<and> known_withdraws X io [] st (Key sc) hs = Inr txs \<and>
    list_all (payable (FrozenAddresses X)) (assets_of txs) \<and> GetAmountByInputs (xN X) (Inputs txn) = Inr inp \<and>
    inp = fx_sum (map OutValue (Outputs txn)) +
      fx_sum (map (\<lambda>w. fixed_div (Amount w - CrossChainAmount w) rate) (assets_of txs)) \<and>
    fst ` set (paid (xA X) (Outputs txn)) = TargetAddress ` set (assets_of txs) \<and>
    (\<forall>a \<in> TargetAddress ` set (assets_of txs).
      fx_sum (map snd (filter (\<lambda>x. fst x = a) (paid (xA X) (Outputs txn)))) =
      fixed_div (fx_sum (map CrossChainAmount (filter (\<lambda>w. TargetAddress w = a) (assets_of txs)))) rate))"

lemma accepted_pays_owed:
  assumes "checkWithdrawFromSideChainPayload X io db txn = None"
  shows "pays_owed X io db txn"
proof -
  obtain hs sc rate st txs where *: "withdraw_payloads X (Outputs txn) None = Inr (hs, Some (sc, rate))"
    "GetDataStoreGenesisBlocAddress (Key sc) db = Some st" "known_withdraws X io [] st (Key sc) hs = Inr txs"
    "check_totals X (FrozenAddresses X) rate (Key sc) txn txs = None"
    using assms
    by (auto simp: checkWithdrawFromSideChainPayload_def
        split: if_splits sum.splits option.splits prod.splits)
  from check_totals_spec [OF *(4)] obtain inp ori fee assets where **:
    "GetAmountByInputs (xN X) (Inputs txn) = Inr inp" "owed (FrozenAddresses X) rate txs = Inr (ori, fee, assets)"
    "inp = fx_sum (map OutValue (Outputs txn)) + fee" "fst ` set (paid (xA X) (Outputs txn)) = fst ` set assets"
    "\<forall>a \<in> fst ` set assets. fx_sum (map snd (filter (\<lambda>x. fst x = a) (paid (xA X) (Outputs txn)))) =
       fixed_div (fx_sum (map snd (filter (\<lambda>x. fst x = a) assets))) rate"
    by (elim exE conjE) (rule that)
  have s: "(ori, fee, assets) = owed_sums rate (assets_of txs)" "list_all (payable (FrozenAddresses X)) (assets_of txs)"
    using owed_Inr [OF **(2)] by simp_all
  then have keys: "fst ` set assets = TargetAddress ` set (assets_of txs)" by (simp add: owed_sums_def image_image)
  have "map snd (filter (\<lambda>x. fst x = a) assets) = map CrossChainAmount (filter (\<lambda>w. TargetAddress w = a) (assets_of txs))" for a
    using s(1) by (simp add: owed_sums_def filter_map comp_def)
  then have each: "\<forall>a \<in> TargetAddress ` set (assets_of txs).
      fx_sum (map snd (filter (\<lambda>x. fst x = a) (paid (xA X) (Outputs txn)))) =
      fixed_div (fx_sum (map CrossChainAmount (filter (\<lambda>w. TargetAddress w = a) (assets_of txs)))) rate"
    using **(5) keys by metis
  have "inp = fx_sum (map OutValue (Outputs txn)) +
      fx_sum (map (\<lambda>w. fixed_div (Amount w - CrossChainAmount w) rate) (assets_of txs))"
    using **(3) s(1) by (simp add: owed_sums_def)
  moreover have "fst ` set (paid (xA X) (Outputs txn)) = TargetAddress ` set (assets_of txs)" using **(4) keys by simp
  ultimately show ?thesis unfolding pays_owed_def using *(1-3) s(2) **(1) each by blast
qed

text \<open>C4: A withdraw transaction that an arbiter accepts pays out, to every address that is not a side
  chain's, exactly the converted sum of what the withdraw transactions named in its outputs owe that
  address, and nothing to any other; no address is frozen, no cross chain amount is negative and each
  is below the amount taken on the side chain, which is positive, so that every fee is positive; and its
  inputs are its outputs plus the converted fees.\<close>

theorem accepted_withdraw_pays_owed:
  assumes "checkWithdrawFromSideChainPayloadV1 X io db txn = None"
  shows "\<exists>hs sc rate st txs inp. withdraw_payloads X (Outputs txn) None = Inr (hs, Some (sc, rate)) \<and>
    GetDataStoreGenesisBlocAddress (Key sc) db = Some st \<and> known_withdraws X io [] st (Key sc) hs = Inr txs \<and>
    list_all (payable (FrozenAddresses X)) (assets_of txs) \<and> GetAmountByInputs (xN X) (Inputs txn) = Inr inp \<and>
    inp = fx_sum (map OutValue (Outputs txn)) +
      fx_sum (map (\<lambda>w. fixed_div (Amount w - CrossChainAmount w) rate) (assets_of txs)) \<and>
    fst ` set (paid (xA X) (Outputs txn)) = TargetAddress ` set (assets_of txs) \<and>
    (\<forall>a \<in> TargetAddress ` set (assets_of txs).
      fx_sum (map snd (filter (\<lambda>x. fst x = a) (paid (xA X) (Outputs txn)))) =
      fixed_div (fx_sum (map CrossChainAmount (filter (\<lambda>w. TargetAddress w = a) (assets_of txs)))) rate)"
  using assms accepted_pays_owed [of X io db txn]
  by (simp add: checkWithdrawFromSideChainPayloadV1_def pays_owed_def split: if_splits)

section \<open>What the arbiter on duty builds\<close>

lemma build_outputs_Inr: "build_outputs f xs = Inr ys \<Longrightarrow> list_all2 (\<lambda>x y. f x = Inr y) xs ys"
  by (induction xs arbitrary: ys) (auto split: sum.splits simp: map_sum_def)

lemma withdraw_parts_Inr:
  assumes "withdraw_parts X io typed sc txs db = (Inr (hs, ins, outs'), db')"
  shows "\<exists>rate assets outs. GetExchangeRate (SideNodeList X) sc = Inr rate \<and> parseUserWithdrawTransactions txs = Some assets \<and>
    build_outputs (withdraw_output X typed (Key sc) rate) assets = Inr outs \<and> hs = map snd assets \<and>
    fund X io typed (Key sc) (fx_sum (map (\<lambda>a. fixed_div (Amount (fst a)) rate) assets)) outs db = (Inr (ins, outs'), db')"
  using assms
  by (auto simp: withdraw_parts_def map_sum_def split: sum.splits option.splits prod.splits)

lemma outputs_value:
  "build_outputs (withdraw_output X typed bank rate) assets = Inr outs \<Longrightarrow>
   map OutValue outs = map (\<lambda>a. fixed_div (CrossChainAmount (fst a)) rate) assets"
proof (induction assets arbitrary: outs)
  case (Cons a assets)
  then show ?case by (auto simp: withdraw_output_def map_sum_def split: sum.splits option.splits)
qed simp

lemma parse_assets:
  "parseUserWithdrawTransactions txs = Some l \<Longrightarrow> map fst l = assets_of txs"
proof (induction txs arbitrary: l)
  case (Cons t ts)
  then show ?case
    by (auto simp: assets_of_def comp_def split: option.splits prod.splits list.splits)
qed (simp add: assets_of_def)

lemma fx_sum_diff: "fx_sum (map (\<lambda>w. f w - g w) ws) = fx_sum (map f ws) - fx_sum (map g ws)"
  by (induction ws) (auto simp: algebra_simps)

text \<open>The parts common to the two forms with payloads in the outputs.\<close>

definition built_withdraw :: "cross_env \<Rightarrow> db_io \<Rightarrow> side_chain \<Rightarrow> withdraw_tx list \<Rightarrow> db_cache \<Rightarrow> transaction \<Rightarrow> bool" where
  "built_withdraw X io sc txs db tx \<longleftrightarrow>
     fst (CreateWithdrawTransactionV1 X io sc txs db) = Inr tx \<or> fst (CreateSchnorrWithdrawTransaction X io sc txs db) = Inr tx"

lemma built_parts:
  "built_withdraw X io sc txs db tx \<Longrightarrow>
   \<exists>hs db'. withdraw_parts X io True sc txs db = (Inr (hs, Inputs tx, Outputs tx), db')"
  by (auto simp: built_withdraw_def CreateWithdrawTransactionV1_def CreateSchnorrWithdrawTransaction_def
      split: prod.splits sum.splits)

text \<open>C13: The withdraw transaction that the arbiter on duty builds, for the multi-signature and for the Schnorr
  form, spends the first k of the unspent outputs, and what they hold is exactly what its outputs pay,
  change included, plus the converted amounts less the converted cross chain amounts, the fees.\<close>

theorem built_withdraw_conserves:
  assumes "built_withdraw X io sc txs db tx" "GetExchangeRate (SideNodeList X) sc = Inr rate"
    and "amount = fx_sum (map (\<lambda>w. fixed_div (Amount w) rate) (assets_of txs))" "0 \<le>s amount"
    and "GetWithdrawUTXOsByAmount X io (Key sc) amount (MainChainStore db) = (Inr utxos, st)"
    and "\<forall>u \<in> set utxos. 0 \<le>s UtxoValue u"
  shows "\<exists>k. Inputs tx = map UtxoInput (take k utxos) \<and>
    fx_sum (map UtxoValue (take k utxos)) = fx_sum (map OutValue (Outputs tx)) +
      fx_sum (map (\<lambda>w. fixed_div (Amount w) rate - fixed_div (CrossChainAmount w) rate) (assets_of txs))"
proof -
  obtain hs db' where "withdraw_parts X io True sc txs db = (Inr (hs, Inputs tx, Outputs tx), db')"
    using built_parts [OF assms(1)] by blast
  from withdraw_parts_Inr [OF this] assms(2) obtain assets outs where
    p: "parseUserWithdrawTransactions txs = Some assets" "build_outputs (withdraw_output X True (Key sc) rate) assets = Inr outs"
    "fund X io True (Key sc) (fx_sum (map (\<lambda>a. fixed_div (Amount (fst a)) rate) assets)) outs db = (Inr (Inputs tx, Outputs tx), db')"
    by auto
  have ws: "map fst assets = assets_of txs" by (rule parse_assets [OF p(1)])
  have amt: "fx_sum (map (\<lambda>a. fixed_div (Amount (fst a)) rate) assets) = amount"
    unfolding assms(3) ws [symmetric] by (simp add: comp_def)
  have val: "map OutValue outs = map (\<lambda>w. fixed_div (CrossChainAmount w) rate) (assets_of txs)"
    unfolding outputs_value [OF p(2)] ws [symmetric] by simp
  from fund_conserves [OF p(3) [unfolded amt] assms(5,6,4)] obtain k where
    "Inputs tx = map UtxoInput (take k utxos)"
    "fx_sum (map UtxoValue (take k utxos)) + fx_sum (map OutValue outs) = amount + fx_sum (map OutValue (Outputs tx))"
    by blast
  then show ?thesis unfolding val fx_sum_diff assms(3) by (intro exI [of _ k]) (simp add: algebra_simps)
qed

section \<open>The other arbiters accept what the one on duty builds\<close>

text \<open>An asset that can be paid: an address the library can translate, no side chain's, amounts in order.\<close>

definition plain_asset :: "cross_env \<Rightarrow> withdraw_asset \<Rightarrow> bool" where
  "plain_asset X w \<longleftrightarrow> payable (FrozenAddresses X) w \<and>
     (\<exists>p. Uint168FromAddress (xA X) (TargetAddress w) = Some p \<and> ToAddress (xA X) p = Some (TargetAddress w) \<and>
        take 1 p \<noteq> [PrefixCrossChain (xA X)])"

definition single_asset :: "cross_env \<Rightarrow> withdraw_tx \<Rightarrow> bool" where
  "single_asset X t \<longleftrightarrow> (\<exists>h w. t = \<lparr>Txid = Some h, WithdrawInfo = Some \<lparr>WithdrawAssets = [w]\<rparr>\<rparr> \<and> plain_asset X w)"

abbreviation asset :: "withdraw_tx \<Rightarrow> withdraw_asset" where "asset t \<equiv> hd (WithdrawAssets (the (WithdrawInfo t)))"
abbreviation one :: float64 where "one \<equiv> (1, 0)"

lemma single_parse:
  "list_all (single_asset X) txs \<Longrightarrow>
   parseUserWithdrawTransactions txs = Some (map (\<lambda>t. (asset t, the (Txid t))) txs) \<and> assets_of txs = map asset txs"
  by (induction txs) (auto simp: single_asset_def assets_of_def)

definition built_output :: "cross_env \<Rightarrow> string \<Rightarrow> withdraw_tx \<Rightarrow> tx_output" where
  "built_output X bank t =
     \<lparr>OutProgramHash = the (Uint168FromAddress (xA X) (TargetAddress (asset t))),
      OutValue = fixed_div (CrossChainAmount (asset t)) one, OutType = OTWithdrawFromSideChain,
      OutPayload = Withdraw bank (the (Txid t)) (TargetData (asset t))\<rparr>"

lemma single_outputs:
  "list_all (single_asset X) txs \<Longrightarrow>
   build_outputs (withdraw_output X True bank one) (map (\<lambda>t. (asset t, the (Txid t))) txs) = Inr (map (built_output X bank) txs)"
  by (induction txs) (auto simp: single_asset_def plain_asset_def withdraw_output_def built_output_def)

lemma payloads_of_built:
  assumes "GetSideChainAndExchangeRate X (Key sc) = Inr (sc, rate)" "list_all (\<lambda>o1. OutType o1 \<noteq> OTWithdrawFromSideChain) rest"
  shows "withdraw_payloads X (map (built_output X (Key sc)) txs @ rest) (Some (sc, rate)) =
      Inr (map (\<lambda>t. HashString (xA X) (the (Txid t))) txs, Some (sc, rate))"
    and "txs \<noteq> [] \<Longrightarrow> withdraw_payloads X (map (built_output X (Key sc)) txs @ rest) None =
      Inr (map (\<lambda>t. HashString (xA X) (the (Txid t))) txs, Some (sc, rate))"
proof -
  have rest: "withdraw_payloads X rest c = Inr ([], c)" for c using assms(2) by (induction rest) auto
  show some: "withdraw_payloads X (map (built_output X (Key sc)) txs @ rest) (Some (sc, rate)) =
      Inr (map (\<lambda>t. HashString (xA X) (the (Txid t))) txs, Some (sc, rate))" for txs
    by (induction txs) (auto simp: rest built_output_def)
  assume "txs \<noteq> []"
  then show "withdraw_payloads X (map (built_output X (Key sc)) txs @ rest) None =
      Inr (map (\<lambda>t. HashString (xA X) (the (Txid t))) txs, Some (sc, rate))"
    using assms(1) some [of "tl txs"] by (cases txs) (auto simp: built_output_def)
qed

lemma paid_built:
  "list_all (single_asset X) txs \<Longrightarrow>
   paid (xA X) (map (built_output X bank) txs) = map (\<lambda>t. (TargetAddress (asset t), fixed_div (CrossChainAmount (asset t)) one)) txs"
  by (induction txs) (auto simp: paid_def map_filter_simps single_asset_def plain_asset_def built_output_def)

text \<open>Amounts small enough to be exact.\<close>

definition small_amounts :: "withdraw_asset list \<Rightarrow> bool" where
  "small_amounts ws \<longleftrightarrow> list_all (\<lambda>w. 0 \<le> sint (CrossChainAmount w) \<and> sint (CrossChainAmount w) < sint (Amount w)) ws \<and>
     sum_list (map (\<lambda>w. sint (Amount w)) ws) < 2 ^ 53"

lemma small_amount:
  assumes "small_amounts ws" "w \<in> set ws"
  shows "fixed_div (Amount w) one = Amount w" "fixed_div (CrossChainAmount w) one = CrossChainAmount w"
    "fixed_div (Amount w - CrossChainAmount w) one = Amount w - CrossChainAmount w"
proof -
  have w: "0 \<le> sint (CrossChainAmount w)" "sint (CrossChainAmount w) < sint (Amount w)"
    using assms by (auto simp: small_amounts_def list_all_iff)
  have "\<forall>x \<in> set ws. 0 \<le> sint (Amount x)" using assms(1) by (fastforce simp: small_amounts_def list_all_iff)
  then have "sint (Amount w) \<le> sum_list (map (\<lambda>w. sint (Amount w)) ws)" using assms(2)
    by (intro member_le_sum_list) auto
  then have A: "sint (Amount w) < 2 ^ 53" using assms(1) by (simp add: small_amounts_def)
  show "fixed_div (Amount w) one = Amount w" "fixed_div (CrossChainAmount w) one = CrossChainAmount w"
    using A w by (intro fixed_div_one; simp)+
  have "sint (Amount w - CrossChainAmount w) = sint (Amount w) - sint (CrossChainAmount w)"
    using w by (intro sint_diff_nonneg)
  then show "fixed_div (Amount w - CrossChainAmount w) one = Amount w - CrossChainAmount w"
    using A w by (intro fixed_div_one) simp
qed

lemma small_sum:
  assumes "small_amounts ws"
  shows "fixed_div (fx_sum (map CrossChainAmount (filter P ws))) one = fx_sum (map CrossChainAmount (filter P ws))"
proof -
  have all: "list_all (\<lambda>w. 0 \<le> sint (CrossChainAmount w) \<and> sint (CrossChainAmount w) < sint (Amount w)) ws"
    "sum_list (map (\<lambda>w. sint (Amount w)) ws) < 2 ^ 53" using assms by (simp_all add: small_amounts_def)
  have le: "sum_list (map (\<lambda>w. sint (CrossChainAmount w)) (filter P ws)) \<le> sum_list (map (\<lambda>w. sint (Amount w)) ws)"
    using all(1) by (induction ws) auto
  have nonneg: "0 \<le> sum_list (map (\<lambda>w. sint (CrossChainAmount w)) (filter P ws))"
    using all(1) by (intro sum_list_nonneg) (auto simp: list_all_iff)
  have "sint (fx_sum (map CrossChainAmount (filter P ws))) = sum_list (map sint (map CrossChainAmount (filter P ws)))"
    using all le by (intro sint_fx_sum) (auto simp: list_all_iff comp_def)
  also have "map sint (map CrossChainAmount (filter P ws)) = map (\<lambda>w. sint (CrossChainAmount w)) (filter P ws)" by simp
  finally show ?thesis using le nonneg all(2) by (intro fixed_div_one) simp
qed

lemma check_totals_built:
  assumes single: "list_all (single_asset X) txs" and small: "small_amounts (map asset txs)"
    and G: "Uint168FromAddress (xA X) bank = Some G" "take 1 G = [PrefixCrossChain (xA X)]"
    and outs: "Outputs tx = map (built_output X bank) txs @ rest" "list_all (\<lambda>o1. OutProgramHash o1 = G) rest"
    and ins: "GetAmountByInputs (xN X) (Inputs tx) =
      Inr (fx_sum (map OutValue (Outputs tx)) + fx_sum (map (\<lambda>t. Amount (asset t) - CrossChainAmount (asset t)) txs))"
    and known: "mset known = mset txs"
  shows "check_totals X (FrozenAddresses X) one bank tx known = None"
proof -
  have k: "list_all (single_asset X) known" using single known by (metis list_all_iff set_mset_mset)
  define ws where "ws = map asset txs"
  define vs where "vs = map asset known"
  have mvs: "mset vs = mset ws" unfolding ws_def vs_def using known by simp
  have conv: "w \<in> set ws \<Longrightarrow> fixed_div (CrossChainAmount w) one = CrossChainAmount w"
    "w \<in> set ws \<Longrightarrow> fixed_div (Amount w - CrossChainAmount w) one = Amount w - CrossChainAmount w" for w
    using small_amount [OF small] unfolding ws_def by auto
  have set_vs: "set vs = set ws" using mvs by (metis set_mset_mset)
  have "list_all (\<lambda>t. WithdrawInfo t \<noteq> None) known" "list_all (payable (FrozenAddresses X)) vs"
    using k by (auto simp: list_all_iff single_asset_def plain_asset_def vs_def)
  then have owed: "owed (FrozenAddresses X) one known = Inr (owed_sums one vs)"
    using owed_payable [of known] single_parse [OF k] by (simp add: vs_def)
  have sums: "owed_sums one vs = (fx_sum (map CrossChainAmount vs), fx_sum (map (\<lambda>w. Amount w - CrossChainAmount w) vs),
      map (\<lambda>w. (TargetAddress w, CrossChainAmount w)) vs)"
  proof -
    have "map (\<lambda>w. fixed_div (CrossChainAmount w) one) vs = map CrossChainAmount vs"
      "map (\<lambda>w. fixed_div (Amount w - CrossChainAmount w) one) vs = map (\<lambda>w. Amount w - CrossChainAmount w) vs"
      using conv set_vs by simp_all
    then show ?thesis by (simp only: owed_sums_def)
  qed
  have perm: "fx_sum (map f vs) = fx_sum (map f ws)" for f using mvs by (intro fx_sum_mset) simp
  have paid: "paid (xA X) (Outputs tx) = map (\<lambda>w. (TargetAddress w, CrossChainAmount w)) ws"
  proof -
    have "paid (xA X) rest = []" using outs(2) G(2) by (induction rest) (auto simp: paid_def map_filter_simps)
    moreover have "map (\<lambda>t. (TargetAddress (asset t), fixed_div (CrossChainAmount (asset t)) one)) txs =
        map (\<lambda>w. (TargetAddress w, CrossChainAmount w)) ws" using conv by (simp add: ws_def)
    ultimately show ?thesis using paid_built [OF single, of bank] by (simp add: outs(1) paid_append)
  qed
  have "OutProgramHash (built_output X bank t) \<noteq> G" if "t \<in> set txs" for t
    using single that G(2) by (auto simp: list_all_iff single_asset_def plain_asset_def built_output_def)
  then have others: "filter (\<lambda>o1. OutProgramHash o1 \<noteq> G) (Outputs tx) = map (built_output X bank) txs"
    using outs by (auto simp: filter_id_conv list_all_iff)
  have paid_out: "fx_sum (map OutValue (map (built_output X bank) txs)) = fx_sum (map CrossChainAmount ws)"
  proof -
    have "map OutValue (map (built_output X bank) txs) = map CrossChainAmount ws"
      using conv(1) by (simp add: built_output_def ws_def)
    then show ?thesis by (simp only:)
  qed
  have len: "length vs = length txs" using mvs by (metis length_map size_mset ws_def)
  have amounts: "length (amounts_of (map (\<lambda>w. (TargetAddress w, CrossChainAmount w)) vs)) =
      length (amounts_of (map (\<lambda>w. (TargetAddress w, CrossChainAmount w)) ws))"
    using set_vs by (simp add: length_amounts image_image)
  have each: "list_all (\<lambda>(k, v). case map_of (amounts_of (map (\<lambda>w. (TargetAddress w, CrossChainAmount w)) vs)) k of
      None \<Rightarrow> False | Some amount \<Rightarrow> fixed_div amount one = v) (amounts_of (map (\<lambda>w. (TargetAddress w, CrossChainAmount w)) ws))"
    unfolding list_all_iff
  proof clarify
    fix a v assume "(a, v) \<in> set (amounts_of (map (\<lambda>w. (TargetAddress w, CrossChainAmount w)) ws))"
    then have m: "map_of (amounts_of (map (\<lambda>w. (TargetAddress w, CrossChainAmount w)) ws)) a = Some v" by simp
    have sum: "sum_at a (amounts_of (map (\<lambda>w. (TargetAddress w, CrossChainAmount w)) us)) =
        fx_sum (map CrossChainAmount (filter (\<lambda>w. TargetAddress w = a) us))" for us
      by (simp add: sum_at_amounts filter_map comp_def)
    have "fx_sum (map CrossChainAmount (filter (\<lambda>w. TargetAddress w = a) vs)) =
        fx_sum (map CrossChainAmount (filter (\<lambda>w. TargetAddress w = a) ws))"
      using mvs by (intro fx_sum_mset) simp
    then have "sum_at a (amounts_of (map (\<lambda>w. (TargetAddress w, CrossChainAmount w)) vs)) = v"
      "fixed_div v one = v" "a \<in> TargetAddress ` set vs"
      using m set_vs small_sum [OF small, of "\<lambda>w. TargetAddress w = a"]
      by (auto simp: map_of_amounts sum ws_def [symmetric] image_image split: if_splits)
    then show "case map_of (amounts_of (map (\<lambda>w. (TargetAddress w, CrossChainAmount w)) vs)) a of
        None \<Rightarrow> False | Some amount \<Rightarrow> fixed_div amount one = v"
      by (simp add: map_of_amounts image_image)
  qed
  have fee: "map (\<lambda>t. Amount (asset t) - CrossChainAmount (asset t)) txs = map (\<lambda>w. Amount w - CrossChainAmount w) ws"
    by (simp add: ws_def)
  show ?thesis
    using ins owed sums others paid_out amounts each len
    by (simp add: check_totals_def Let_def paid G(1) perm fee)
qed

lemma payloads_accepted:
  assumes "CreateWithdrawTransactionV1 X io sc txs db = (Inr tx, db1)"
    and "GetSideChainAndExchangeRate X (Key sc) = Inr (sc, (1, 0))"
    and "txs \<noteq> []" "list_all (single_asset X) txs" "small_amounts (assets_of txs)"
    and "Uint168FromAddress (xA X) (Key sc) = Some G" "take 1 G = [PrefixCrossChain (xA X)]"
    and "GetWithdrawUTXOsByAmount X io (Key sc) (fx_sum (map Amount (assets_of txs))) (MainChainStore db) = (Inr utxos, st)"
    and "\<forall>u \<in> set utxos. 0 \<le>s UtxoValue u"
    and "\<forall>k. GetAmountByInputs (xN X) (map UtxoInput (take k utxos)) = Inr (fx_sum (map UtxoValue (take k utxos)))"
    and "GetDataStoreGenesisBlocAddress (Key sc) db2 = Some st2"
    and "known_withdraws X io2 [] st2 (Key sc) (map (\<lambda>t. HashString (xA X) (the (Txid t))) txs) = Inr known"
    and "mset known = mset txs"
  shows "withdraw_payloads X (Outputs tx) None = Inr (map (\<lambda>t. HashString (xA X) (the (Txid t))) txs, Some (sc, one)) \<and>
    checkWithdrawFromSideChainPayloadV1 X io2 db2 tx = None"
proof -
  note single = assms(4)
  have ws: "assets_of txs = map asset txs" using single_parse [OF single] by simp
  then have small: "small_amounts (map asset txs)" using assms(5) by simp
  have rate: "GetExchangeRate (SideNodeList X) sc = Inr one"
    using assms(2) by (auto simp: GetSideChainAndExchangeRate_def split: option.splits sum.splits)
  have version: "PayloadVersion tx = WithdrawFromSideChainVersionV1 (xA X)" and b: "built_withdraw X io sc txs db tx"
    using assms(1) by (auto simp: CreateWithdrawTransactionV1_def built_withdraw_def split: prod.splits sum.splits)
  have conv: "map (\<lambda>w. fixed_div (Amount w) one) (assets_of txs) = map Amount (assets_of txs)"
    using small_amount(1) [OF small] by (simp add: ws)
  have "sint (fx_sum (map Amount (map asset txs))) = sum_list (map sint (map Amount (map asset txs)))"
    using small by (intro sint_fx_sum) (fastforce simp: small_amounts_def list_all_iff comp_def)+
  moreover have "0 \<le> sum_list (map sint (map Amount (map asset txs)))"
    using small by (intro sum_list_nonneg) (fastforce simp: small_amounts_def list_all_iff)
  ultimately have pos: "0 \<le>s fx_sum (map Amount (assets_of txs))" by (simp add: word_sle_eq ws)
  obtain hs db' where "withdraw_parts X io True sc txs db = (Inr (hs, Inputs tx, Outputs tx), db')"
    using built_parts [OF b] by blast
  from withdraw_parts_Inr [OF this] rate single_parse [OF single] single_outputs [OF single, of "Key sc"]
  have "fund X io True (Key sc) (fx_sum (map (\<lambda>w. fixed_div (Amount w) one) (assets_of txs))) (map (built_output X (Key sc)) txs) db =
      (Inr (Inputs tx, Outputs tx), db')" by (auto simp: comp_def)
  from fund_conserves [OF this [unfolded conv] assms(8,9) pos] obtain k where
    ins: "Inputs tx = map UtxoInput (take k utxos)" and
    sum: "fx_sum (map UtxoValue (take k utxos)) + fx_sum (map OutValue (map (built_output X (Key sc)) txs)) =
      fx_sum (map Amount (assets_of txs)) + fx_sum (map OutValue (Outputs tx))" and
    change: "Outputs tx = map (built_output X (Key sc)) txs \<or>
      (\<exists>h v. Uint168FromAddress (xA X) (Key sc) = Some h \<and>
        Outputs tx = map (built_output X (Key sc)) txs @ [change_output True h v])" by blast
  obtain rest where outs: "Outputs tx = map (built_output X (Key sc)) txs @ rest"
      "list_all (\<lambda>o1. OutProgramHash o1 = G \<and> OutType o1 \<noteq> OTWithdrawFromSideChain) rest"
  proof (cases "Outputs tx = map (built_output X (Key sc)) txs")
    case True
    then show ?thesis using that [of "[]"] by simp
  next
    case False
    then obtain v where "Outputs tx = map (built_output X (Key sc)) txs @ [change_output True G v]"
      using change assms(6) by auto
    then show ?thesis using that [of "[change_output True G v]"] by (simp add: change_output_def)
  qed
  have val: "map OutValue (map (built_output X (Key sc)) txs) = map CrossChainAmount (assets_of txs)"
    using small_amount(2) [OF small] by (simp add: built_output_def ws)
  have "fx_sum (map UtxoValue (take k utxos)) =
      fx_sum (map OutValue (Outputs tx)) + fx_sum (map (\<lambda>t. Amount (asset t) - CrossChainAmount (asset t)) txs)"
  proof -
    have shift: "a + c = d + b \<Longrightarrow> c + e = d \<Longrightarrow> a = b + e" for a b c d e :: fixed64
    proof -
      assume "a + c = d + b" "c + e = d"
      then have "a + c = (b + e) + c" by (auto simp: ac_simps)
      then show "a = b + e" by simp
    qed
    show ?thesis
      using fx_sum_diff [of Amount CrossChainAmount "map asset txs"]
      by (intro shift [OF sum [unfolded val]]) (simp add: ws comp_def)
  qed
  then have "check_totals X (FrozenAddresses X) one (Key sc) tx known = None"
    using check_totals_built [OF single small assms(6,7) outs(1) _ _ assms(13)] outs(2) assms(10) ins
    by (simp add: list_all_iff)
  moreover have "withdraw_payloads X (Outputs tx) None =
      Inr (map (\<lambda>t. HashString (xA X) (the (Txid t))) txs, Some (sc, one))"
    unfolding outs(1) using payloads_of_built(2) [OF assms(2) _ assms(3)] outs(2) by (simp add: list_all_iff)
  ultimately show ?thesis
    using version assms(11,12)
    by (simp add: checkWithdrawFromSideChainPayloadV1_def checkWithdrawFromSideChainPayload_def)
qed

lemma accepted_of_built:
  assumes "CreateWithdrawTransactionV1 X io sc txs db = (Inr tx, db1)"
    and "GetSideChainAndExchangeRate X (Key sc) = Inr (sc, (1, 0))"
    and "txs \<noteq> []" "list_all (single_asset X) txs" "small_amounts (assets_of txs)"
    and "Uint168FromAddress (xA X) (Key sc) = Some G" "take 1 G = [PrefixCrossChain (xA X)]"
    and "GetWithdrawUTXOsByAmount X io (Key sc) (fx_sum (map Amount (assets_of txs))) (MainChainStore db) = (Inr utxos, st)"
    and "\<forall>u \<in> set utxos. 0 \<le>s UtxoValue u"
    and "\<forall>k. GetAmountByInputs (xN X) (map UtxoInput (take k utxos)) = Inr (fx_sum (map UtxoValue (take k utxos)))"
    and "GetDataStoreGenesisBlocAddress (Key sc) db2 = Some st2"
    and "known_withdraws X io2 [] st2 (Key sc) (map (\<lambda>t. HashString (xA X) (the (Txid t))) txs) = Inr known"
    and "mset known = mset txs"
  shows "checkWithdrawFromSideChainPayloadV1 X io2 db2 tx = None"
  using payloads_accepted [OF assms] by simp

text \<open>C5: With the exchange rate 1, withdraws of one asset each and amounts that are exact, the transaction
  that the arbiter on duty builds passes the check of every arbiter that knows the same withdraws, from
  its cache or from the node, in whatever order, provided the node reports the inputs' amounts.\<close>

theorem built_withdraw_accepted:
  assumes "CreateWithdrawTransactionV1 X io sc txs db = (Inr tx, db1)"
    and "GetSideChainAndExchangeRate X (Key sc) = Inr (sc, (1, 0))"
    and "txs \<noteq> []" "list_all (single_asset X) txs" "small_amounts (assets_of txs)"
    and "Uint168FromAddress (xA X) (Key sc) = Some G" "take 1 G = [PrefixCrossChain (xA X)]"
    and "GetWithdrawUTXOsByAmount X io (Key sc) (fx_sum (map Amount (assets_of txs))) (MainChainStore db) = (Inr utxos, st)"
    and "\<forall>u \<in> set utxos. 0 \<le>s UtxoValue u"
    and "\<forall>k. GetAmountByInputs (xN X) (map UtxoInput (take k utxos)) = Inr (fx_sum (map UtxoValue (take k utxos)))"
    and "GetDataStoreGenesisBlocAddress (Key sc) db2 = Some st2"
    and "known_withdraws X io2 [] st2 (Key sc) (map (\<lambda>t. HashString (xA X) (the (Txid t))) txs) = Inr known"
    and "mset known = mset txs"
  shows "checkWithdrawFromSideChainPayloadV1 X io2 db2 tx = None"
  using assms by (rule accepted_of_built)

text \<open>A side chain whose address is K, the prefix of side chain addresses; one unspent output of 10; the
  node gives every withdraw as 4 of 5 for address a.\<close>

definition addr0 :: addr_ops where
  "addr0 = \<lparr>HashString = map byte_char, Uint256FromHexString = (\<lambda>s. Some (map char_byte s)), Uint256FromBytes = Some,
     BytesReverse = rev, ToAddress = (\<lambda>p. Some (map byte_char p)), Uint168FromAddress = (\<lambda>s. Some (map char_byte s)),
     StringToFixed64 = (\<lambda>s. Some (of_nat (length s))), PrefixCrossChain = 0x4B, PrefixDPoSV2 = 0x3F,
     TransferCrossChainVersion = 0, TransferCrossChainVersionV1 = 1, WithdrawFromSideChainVersionV1 = 1,
     WithdrawFromSideChainVersionV2 = 2, ReturnSideChainDepositCoinVersion = 0, NFTDestroyFromSideChainVersion = 0,
     ReturnSideChainDepositCoinVersionV1 = 1\<rparr>"

definition nodes0 :: nodes where
  "nodes0 = \<lparr>GetAmountByInputs = (\<lambda>ins. Inr (10 * of_nat (length ins))), GetTransaction = (\<lambda>_. Inl ExtErr),
     SendRawTransaction = (\<lambda>_. Inr \<lparr>RespError = False, RespCode = 0, RespResult = True\<rparr>),
     GetWithdrawUTXOs = (\<lambda>_ _. Inr [\<lparr>UtxoTxid = ''x'', UtxoVOut = 0, UtxoAmount = replicate 10 CHR ''0''\<rparr>]),
     MainNodeHeight = Inr 5, GetExistWithdrawTransactions = (\<lambda>_. Inr []),
     GetWithdrawTransaction = (\<lambda>_ h. Inr \<lparr>InfoTxID = h, CrossChainAssets =
       [\<lparr>CrossChainAddress = ''a'', InfoCrossChainAmount = ''4444'', OutputAmount = ''55555'', InfoTargetData = []\<rparr>]\<rparr>),
     GetFailedDepositTransaction = (\<lambda>_ _. Inr True), GetExistDepositTransactions = (\<lambda>_ _. Inr []),
     SendTransaction = (\<lambda>_ _. Inr \<lparr>RespError = False, RespCode = 0, RespResult = True\<rparr>),
     GetRegisterTransactionByHeight = Inr [], GetExistReturnDepositTransactions = (\<lambda>_. Inr []),
     GetCanNFTDestroyIDs = (\<lambda>ids _. Inr ids), SideNodeHeight = (\<lambda>_. Inr 9),
     GetWithdrawTransactionByHeight = (\<lambda>_ _. Inr []), GetIllegalEvidenceByHeight = (\<lambda>_ _. Inr []),
     GetFailedDepositTransactions = (\<lambda>_ _. Inr []), GetNFTDestroyTransactionByHeight = (\<lambda>_ _. Inr [])\<rparr>"

definition chain0 :: side_chain where
  "chain0 = \<lparr>Key = ''K'', CurrentConfig = Some \<lparr>CfgName = ''sc'', CfgExchangeRate = (1, 0), GenesisBlockAddress = ''K'',
     GenesisBlock = ''b'', PowChain = False, EffectiveHeight = 0, SyncStartHeight = 0, SupportQuickRecharge = True,
     SupportInvalidDeposit = True, SupportInvalidWithdraw = True, SupportNFT = True\<rparr>\<rparr>"

definition xenv0 :: cross_env where
  "xenv0 = \<lparr>xW = wire0, xC = crypto0, xT = ops0, xL = spv0, xA = addr0, xN = nodes0, xCfg = config0, xGroup = group0,
     FrozenAddresses = [''f''], ReturnDepositTransactionFee = 1, MaxTxsPerWithdrawTx = 1000, MaxBlockContextSize = 8000000, SideNodeList = [],
     SortUTXOs = id, SideChains = [(''K'', chain0)]\<rparr>"

definition db0 :: db_cache where
  "db0 = \<lparr>SideChainStore = [side0\<lparr>genesisBlockAddress := ''K''\<rparr>], MainChainStore = main0,
     RegisteredSideChainStore = reg0, FinishedTxsDbCache = fin0\<rparr>"

definition asset4 :: withdraw_asset where
  "asset4 = \<lparr>TargetAddress = ''a'', Amount = 5, CrossChainAmount = 4, TargetData = []\<rparr>"

definition wtx4 :: withdraw_tx where
  "wtx4 = \<lparr>Txid = Some [1, 2], WithdrawInfo = Some \<lparr>WithdrawAssets = [asset4]\<rparr>\<rparr>"

lemma xenv0_sel [simp]: "xA xenv0 = addr0" "xN xenv0 = nodes0" "xC xenv0 = crypto0" "xT xenv0 = ops0" "xCfg xenv0 = config0"
  "xGroup xenv0 = group0" "xW xenv0 = wire0" "SideNodeList xenv0 = []" "FrozenAddresses xenv0 = [''f'']"
  "SideChains xenv0 = [(''K'', chain0)]" "ReturnDepositTransactionFee xenv0 = 1" "SortUTXOs xenv0 = id"
  by (simp_all add: xenv0_def)

lemma char0: "char_byte CHR ''a'' = 0x61" "char_byte CHR ''K'' = 0x4B" "char_byte CHR ''x'' = 0x78"
  by (simp_all add: char_byte_def)

lemma address0 [simp]: "Uint168FromAddress addr0 s = Some (map char_byte s)" "ToAddress addr0 p = Some (map byte_char p)"
  "PrefixCrossChain addr0 = 0x4B" "HashString addr0 h = map byte_char h"
  by (simp_all add: addr0_def)

lemma asset4_plain: "plain_asset xenv0 asset4"
proof -
  have "payable [''f''] asset4"
    by (simp add: payable_def bad_amounts_def asset4_def word_sless_alt word_sle_eq)
  then show ?thesis by (simp add: plain_asset_def comp_def) (simp add: asset4_def char0)
qed

lemma wtx4_single: "single_asset xenv0 wtx4"
  using asset4_plain by (simp add: single_asset_def wtx4_def)

lemma wtx4_small: "small_amounts (assets_of [wtx4])"
  by (simp add: small_amounts_def assets_of_def wtx4_def asset4_def)

lemma rate0: "GetExchangeRate nl chain0 = Inr (1, 0)"
  by (simp add: chain0_def GetExchangeRate_def getCurrentConfig_def)

lemma chain0_found: "GetSideChainAndExchangeRate xenv0 (Key chain0) = Inr (chain0, (1, 0))" "Key chain0 = ''K''"
  by (simp_all add: GetSideChainAndExchangeRate_def GetChain_def chain0_def GetExchangeRate_def getCurrentConfig_def)

definition utxo4 :: address_utxo where
  "utxo4 = \<lparr>UtxoInput = \<lparr>Previous = \<lparr>OpTxID = rev (replicate 32 2 @ [0x78]), OpIndex = 0\<rparr>, Sequence = 0\<rparr>, UtxoValue = 10\<rparr>"

definition like0 :: "cross_env \<Rightarrow> bool" where
  "like0 X \<longleftrightarrow> xA X = addr0 \<and> xC X = crypto0 \<and> xCfg X = config0 \<and> xGroup X = group0 \<and> SideNodeList X = [] \<and> SortUTXOs X = id \<and>
     GetWithdrawUTXOs (xN X) = GetWithdrawUTXOs nodes0"

lemma like_xenv0 [simp]: "like0 xenv0" by (simp add: like0_def)

lemma utxos0: "like0 X \<Longrightarrow> GetWithdrawUTXOsByAmount X plain_io bank amt main0 = (Inr [utxo4], main0)"
  by (simp add: GetWithdrawUTXOsByAmount_def GetWithdrawAddressUTXOsByAmount_def utxo_of_info_def nodes0_def like0_def)
    (simp add: addr0_def utxo4_def crypto0_def char0 Main_CurrentHeight_def main0_def plain_io_def height_op_def QueryHeightCode_def)

lemma known4: "known_withdraws xenv0 plain_io [] (side0\<lparr>genesisBlockAddress := ''K''\<rparr>) ''K'' [map byte_char [1, 2]] = Inr [wtx4]"
proof -
  have "no_quote (map byte_char [1, 2])" by (simp add: no_quote_def byte_char_def char_of_def bit_iff_odd)
  then have "GetSideChainTxsFromHashes wire0 plain_io [map byte_char [1, 2]] (side0\<lparr>genesisBlockAddress := ''K''\<rparr>) = Inr []"
    unfolding GetSideChainTxsFromHashes_def
    by (subst select_in_ok [OF good_plain_io]) (simp_all add: side0_def arrange_def good_ioD [OF good_plain_io] plain_io_def)
  then show ?thesis
    by (simp add: known_withdraws_def rpc_tx_def nodes0_def) (simp add: rpc_asset_def addr0_def wtx4_def asset4_def)
qed

lemma script0: "\<exists>script. CreateRedeemScript crypto0 config0 group0 = Inr script"
  using redeem_script_layout [OF crypto0_encode]
  by (simp add: CreateRedeemScript_def group0_def key0 no_space)

lemma built_like:
  assumes "like0 X" "parseUserWithdrawTransactions txs = Some (replicate n (asset4, h))" "n = 1 \<or> n = 2"
  shows "\<exists>tx db. CreateWithdrawTransactionV1 X plain_io chain0 txs db0 = (Inr tx, db)"
proof -
  have "(5 :: fixed64) <s 10 \<longleftrightarrow> True" "\<not> (10 :: fixed64) <s 5" "\<not> (10 :: fixed64) <s 10" by (simp_all add: word_sless_alt)
  moreover have "fixed_div 5 one = 5" "fixed_div 4 one = 4" by (intro fixed_div_one; simp)+
  moreover have "GetExchangeRate (SideNodeList X) chain0 = Inr one" by (rule rate0)
  moreover have "replicate 2 (asset4, h) = [(asset4, h), (asset4, h)]" by (simp add: numeral_2_eq_2)
  ultimately show ?thesis
    using script0 assms(3) by (auto simp: CreateWithdrawTransactionV1_def withdraw_parts_def assms(2)
        asset4_def withdraw_output_def fund_def db0_def utxos0 [OF assms(1)] utxo4_def assms(1) [unfolded like0_def])
qed

lemma built4: "\<exists>tx db. CreateWithdrawTransactionV1 xenv0 plain_io chain0 [wtx4] db0 = (Inr tx, db)"
  using built_like [OF like_xenv0, of "[wtx4]" 1 "[1, 2]"] by (simp add: wtx4_def)

lemma conditions4:
  shows "[wtx4] \<noteq> []" "list_all (single_asset xenv0) [wtx4]" "small_amounts (assets_of [wtx4])"
    "Uint168FromAddress (xA xenv0) (Key chain0) = Some [0x4B]" "take 1 [0x4B :: byte] = [PrefixCrossChain (xA xenv0)]"
    "GetWithdrawUTXOsByAmount xenv0 plain_io (Key chain0) (fx_sum (map Amount (assets_of [wtx4]))) (MainChainStore db0) =
      (Inr [utxo4], main0)"
    "\<forall>u \<in> set [utxo4]. 0 \<le>s UtxoValue u"
    "\<forall>k. GetAmountByInputs (xN xenv0) (map UtxoInput (take k [utxo4])) = Inr (fx_sum (map UtxoValue (take k [utxo4])))"
    "GetDataStoreGenesisBlocAddress (Key chain0) db0 = Some (side0\<lparr>genesisBlockAddress := ''K''\<rparr>)"
    "known_withdraws xenv0 plain_io [] (side0\<lparr>genesisBlockAddress := ''K''\<rparr>) (Key chain0)
      (map (\<lambda>t. HashString (xA xenv0) (the (Txid t))) [wtx4]) = Inr [wtx4]"
    "mset [wtx4] = mset [wtx4]"
proof -
  show "\<forall>k. GetAmountByInputs (xN xenv0) (map UtxoInput (take k [utxo4])) = Inr (fx_sum (map UtxoValue (take k [utxo4])))"
  proof
    fix k show "GetAmountByInputs (xN xenv0) (map UtxoInput (take k [utxo4])) = Inr (fx_sum (map UtxoValue (take k [utxo4])))"
      by (cases k) (simp_all add: nodes0_def utxo4_def)
  qed
  show "known_withdraws xenv0 plain_io [] (side0\<lparr>genesisBlockAddress := ''K''\<rparr>) (Key chain0)
      (map (\<lambda>t. HashString (xA xenv0) (the (Txid t))) [wtx4]) = Inr [wtx4]"
    using known4 by (simp add: chain0_found wtx4_def)
qed (use wtx4_single wtx4_small in
    \<open>simp_all add: chain0_found char0 word_sle_eq GetDataStoreGenesisBlocAddress_def db0_def utxos0 utxo4_def\<close>)

lemma accepted4:
  assumes "CreateWithdrawTransactionV1 xenv0 plain_io chain0 [wtx4] db0 = (Inr tx, db)"
  shows "checkWithdrawFromSideChainPayloadV1 xenv0 plain_io db0 tx = None"
    "withdraw_payloads xenv0 (Outputs tx) None = Inr ([map byte_char [1, 2]], Some (chain0, one))"
  using payloads_accepted [OF assms chain0_found(1) conditions4] by (simp_all add: wtx4_def)

theorem built_withdraw_accepted_witness:
  "\<exists>tx db. CreateWithdrawTransactionV1 xenv0 plain_io chain0 [wtx4] db0 = (Inr tx, db) \<and>
     checkWithdrawFromSideChainPayloadV1 xenv0 plain_io db0 tx = None"
  using built4 built_withdraw_accepted [OF _ chain0_found(1) conditions4] by blast

theorem accepted_withdraw_pays_owed_witness:
  "\<exists>(tx :: transaction) db. CreateWithdrawTransactionV1 xenv0 plain_io chain0 [wtx4] db0 = (Inr tx, db) \<and>
     checkWithdrawFromSideChainPayloadV1 xenv0 plain_io db0 tx = None \<and> fst ` set (paid addr0 (Outputs tx)) = {''a''} \<and>
     fx_sum (map snd (filter (\<lambda>x. fst x = ''a'') (paid addr0 (Outputs tx)))) = 4"
proof -
  obtain tx db where tx: "CreateWithdrawTransactionV1 xenv0 plain_io chain0 [wtx4] db0 = (Inr tx, db)" using built4 by blast
  have ws: "assets_of [wtx4] = [asset4]" by (simp add: assets_of_def wtx4_def)
  have st: "GetDataStoreGenesisBlocAddress ''K'' db0 = Some (side0\<lparr>genesisBlockAddress := ''K''\<rparr>)"
    by (simp add: GetDataStoreGenesisBlocAddress_def db0_def)
  have four: "fixed_div 4 one = 4" by (rule fixed_div_one) simp
  from accepted_withdraw_pays_owed [OF accepted4(1) [OF tx]] obtain hs sc rate st txs where
    p: "withdraw_payloads xenv0 (Outputs tx) None = Inr (hs, Some (sc, rate))"
    "GetDataStoreGenesisBlocAddress (Key sc) db0 = Some st" "known_withdraws xenv0 plain_io [] st (Key sc) hs = Inr txs" and
    c: "fst ` set (paid (xA xenv0) (Outputs tx)) = TargetAddress ` set (assets_of txs)"
    "\<forall>a \<in> TargetAddress ` set (assets_of txs).
      fx_sum (map snd (filter (\<lambda>x. fst x = a) (paid (xA xenv0) (Outputs tx)))) =
      fixed_div (fx_sum (map CrossChainAmount (filter (\<lambda>w. TargetAddress w = a) (assets_of txs)))) rate"
    by (elim exE conjE) (rule that)
  have q: "hs = [map byte_char [1, 2]]" "sc = chain0" "rate = one" using p(1) unfolding accepted4(2) [OF tx] by simp_all
  have "st = side0\<lparr>genesisBlockAddress := ''K''\<rparr>" using p(2) unfolding q chain0_found st by simp
  then have "txs = [wtx4]" using p(3) unfolding q chain0_found known4 by (simp only: known4 sum.inject)
  then have t: "assets_of txs = [asset4]" using ws by (simp only:)
  have a: "TargetAddress asset4 = ''a''" "CrossChainAmount asset4 = 4" by (simp_all add: asset4_def)
  have keys: "fst ` set (paid addr0 (Outputs tx)) = {''a''}"
    using c(1) unfolding t xenv0_sel by (simp only: list.set image_insert image_empty a)
  have "fx_sum (map CrossChainAmount (filter (\<lambda>w. TargetAddress w = ''a'') [asset4])) = 4" by (simp add: a)
  then have "fx_sum (map snd (filter (\<lambda>x. fst x = ''a'') (paid addr0 (Outputs tx)))) = 4"
    using bspec [OF c(2) [unfolded t xenv0_sel], of "''a''"] by (simp only: list.set image_insert image_empty a insertI1 q four simp_thms)
  with tx accepted4(1) [OF tx] keys show ?thesis by blast
qed

theorem built_withdraw_conserves_witness:
  "\<exists>(tx :: transaction) k. Inputs tx = map UtxoInput (take k [utxo4]) \<and>
     fx_sum (map UtxoValue (take k [utxo4])) = fx_sum (map OutValue (Outputs tx)) + (5 - 4)"
proof -
  obtain tx db where "CreateWithdrawTransactionV1 xenv0 plain_io chain0 [wtx4] db0 = (Inr tx, db)" using built4 by blast
  then have b: "built_withdraw xenv0 plain_io chain0 [wtx4] db0 tx" by (simp add: built_withdraw_def)
  have "fixed_div 5 one = 5" "fixed_div 4 one = 4" by (intro fixed_div_one; simp)+
  then have amounts: "fx_sum (map (\<lambda>w. fixed_div (Amount w) one) (assets_of [wtx4])) = 5"
    "fx_sum (map (\<lambda>w. fixed_div (Amount w) one - fixed_div (CrossChainAmount w) one) (assets_of [wtx4])) = 5 - 4"
    by (simp_all add: assets_of_def wtx4_def asset4_def)
  have five: "0 \<le>s fx_sum (map (\<lambda>w. fixed_div (Amount w) one) (assets_of [wtx4]))"
    unfolding amounts by (simp add: word_sle_eq)
  have utxos: "GetWithdrawUTXOsByAmount xenv0 plain_io (Key chain0)
      (fx_sum (map (\<lambda>w. fixed_div (Amount w) one) (assets_of [wtx4]))) (MainChainStore db0) = (Inr [utxo4], main0)"
    by (simp add: db0_def utxos0)
  from built_withdraw_conserves [OF b rate0 refl five utxos conditions4(7)] show ?thesis
    unfolding amounts by - (rule exI [of _ tx])
qed

end
