(* ===== verification/Props_Submit.thy ===== *)
theory Props_Submit
  imports Props_Cross
begin

text \<open>
  Properties of what happens to the transactions of the arbiters at the end: what the checks let through
  beyond an honest transaction, and what submitting does to the stores.
\<close>

section \<open>Transactions built for withdrawals\<close>

lemma fund_outputs:
  "fund X io typed bank amt outs db = (Inr (ins, outs'), db') \<Longrightarrow>
   outs' = outs \<or> (\<exists>h v. Uint168FromAddress (xA X) bank = Some h \<and> outs' = outs @ [change_output typed h v])"
  by (auto simp: fund_def split: prod.splits sum.splits option.splits if_splits)

lemma build_withdraw_outputs:
  "build_outputs (withdraw_output X True bank rate) assets = Inr outs \<Longrightarrow>
   map (\<lambda>o1. (OutType o1, OutPayload o1)) outs =
     map (\<lambda>a. (OTWithdrawFromSideChain, Withdraw bank (snd a) (TargetData (fst a)))) assets"
proof (induction assets arbitrary: outs)
  case (Cons a assets)
  then show ?case by (auto simp: withdraw_output_def map_sum_def split: sum.splits option.splits)
qed simp

text \<open>The typed outputs of a built transaction are its assets, all with the payload of the one side chain.\<close>

lemma built_outputs:
  assumes "built_withdraw X io sc txs db tx"
  shows "\<exists>assets outs rest. Outputs tx = outs @ rest \<and> parseUserWithdrawTransactions txs = Some assets \<and>
    map (\<lambda>o1. (OutType o1, OutPayload o1)) outs =
      map (\<lambda>a. (OTWithdrawFromSideChain, Withdraw (Key sc) (snd a) (TargetData (fst a)))) assets \<and>
    (rest = [] \<or> (\<exists>h v. Uint168FromAddress (xA X) (Key sc) = Some h \<and> rest = [change_output True h v]))"
proof -
  obtain hs db' where "withdraw_parts X io True sc txs db = (Inr (hs, Inputs tx, Outputs tx), db')"
    using built_parts [OF assms] by blast
  from withdraw_parts_Inr [OF this] obtain rate assets outs where
    *: "parseUserWithdrawTransactions txs = Some assets" "build_outputs (withdraw_output X True (Key sc) rate) assets = Inr outs"
    "fund X io True (Key sc) (fx_sum (map (\<lambda>a. fixed_div (Amount (fst a)) rate) assets)) outs db = (Inr (Inputs tx, Outputs tx), db')"
    by auto
  from fund_outputs [OF *(3)] show ?thesis
  proof (elim disjE exE conjE)
    assume "Outputs tx = outs"
    then show ?thesis using *(1) build_withdraw_outputs [OF *(2)] 
      by - (rule exI [of _ assets], rule exI [of _ outs], rule exI [of _ "[]"], simp)
  next
    fix h v assume "Uint168FromAddress (xA X) (Key sc) = Some h" "Outputs tx = outs @ [change_output True h v]"
    then show ?thesis using *(1) build_withdraw_outputs [OF *(2)]
      by - (rule exI [of _ assets], rule exI [of _ outs], rule exI [of _ "[change_output True h v]"], auto)
  qed
qed

lemma submit_chain_same:
  "map (\<lambda>o1. (OutType o1, OutPayload o1)) outs = map (\<lambda>a. (OTWithdrawFromSideChain, Withdraw (Key sc) (f a) (g a))) assets \<Longrightarrow>
   submit_chain X (outs @ rest) (Some sc) = submit_chain X rest (Some sc)"
proof (induction outs arbitrary: assets)
  case (Cons o1 outs)
  then obtain a as where "assets = a # as" by (cases assets) auto
  with Cons show ?case by simp
qed simp

lemma submit_chain_first:
  assumes "map (\<lambda>o1. (OutType o1, OutPayload o1)) outs =
      map (\<lambda>a. (OTWithdrawFromSideChain, Withdraw (Key sc) (f a) (g a))) assets"
    and "assets \<noteq> []" "GetChain X (Key sc) = Some sc" "\<forall>o1 \<in> set rest. OutType o1 \<noteq> OTWithdrawFromSideChain"
  shows "submit_chain X (outs @ rest) None = Inr (Some sc)"
proof -
  have rest: "submit_chain X rest (Some sc) = Inr (Some sc)" using assms(4) by (induction rest) auto
  obtain a as where a: "assets = a # as" using assms(2) by (cases assets) auto
  then obtain o1 os where o: "outs = o1 # os" using assms(1) by (cases outs) auto
  then have "map (\<lambda>o1. (OutType o1, OutPayload o1)) os =
      map (\<lambda>a. (OTWithdrawFromSideChain, Withdraw (Key sc) (f a) (g a))) as" using assms(1) a by simp
  from submit_chain_same [OF this] show ?thesis using assms(1,3) a o rest by simp
qed

lemma built_form:
  "built_withdraw X io sc txs db tx \<Longrightarrow> Payload tx = WithdrawFromSideChain [] '''' [] 0 \<and>
   PayloadVersion tx \<in> {WithdrawFromSideChainVersionV1 (xA X), WithdrawFromSideChainVersionV2 (xA X)}"
  by (auto simp: built_withdraw_def CreateWithdrawTransactionV1_def CreateSchnorrWithdrawTransaction_def
      split: prod.splits sum.splits)

lemma built_address:
  assumes "built_withdraw X io sc txs db tx" "assets_of txs \<noteq> []" "GetChain X (Key sc) = Some sc"
  shows "submit_address X tx genesis = Inr (Key sc)"
proof -
  obtain assets outs rest where *: "Outputs tx = outs @ rest" "parseUserWithdrawTransactions txs = Some assets"
    "map (\<lambda>o1. (OutType o1, OutPayload o1)) outs =
      map (\<lambda>a. (OTWithdrawFromSideChain, Withdraw (Key sc) (snd a) (TargetData (fst a)))) assets"
    "rest = [] \<or> (\<exists>h v. Uint168FromAddress (xA X) (Key sc) = Some h \<and> rest = [change_output True h v])"
    using built_outputs [OF assms(1)] by (elim exE conjE) (rule that)
  have "assets \<noteq> []" using assms(2) parse_assets [OF *(2)] by auto
  moreover have "\<forall>o1 \<in> set rest. OutType o1 \<noteq> OTWithdrawFromSideChain" using *(4) by (auto simp: change_output_def)
  ultimately have "submit_chain X (Outputs tx) None = Inr (Some sc)"
    unfolding *(1) using submit_chain_first [OF *(3)] assms(3) by blast
  then show ?thesis using built_form [OF assms(1)] by (auto simp: submit_address_def)
qed

section \<open>Submitting\<close>

text \<open>When the call of the main chain node fails, submitting a withdraw transaction that an arbiter has
  built panics before anything is recorded: the log line reads the error code through the empty answer.\<close>

lemma unreachable_node_panics:
  assumes "built_withdraw X io sc txs db0 tx" "assets_of txs \<noteq> []" "GetChain X (Key sc) = Some sc"
    and "GetDataStoreGenesisBlocAddress (Key sc) db = Some st" "SendWithdrawTransaction X tx = Inl e"
  shows "Submit X ios tx db = (Panic, db)"
  using built_form [OF assms(1)] built_address [OF assms(1-3)] assms(4,5)
  by (auto simp: Submit_def SubmitWithdrawTransaction_def mc_verdict_def Let_def)

text \<open>When the main chain node takes a withdraw transaction that an arbiter has built, submitting it
  changes no store: the payload names no side chain transactions, so that none is taken out of the cache
  and none is recorded as finished.\<close>

lemma submitted_withdraw_stays_cached:
  assumes "built_withdraw X io sc txs db0 tx" "assets_of txs \<noteq> []" "GetChain X (Key sc) = Some sc"
    and "GetDataStoreGenesisBlocAddress (Key sc) db = Some st" "mc_verdict (SendWithdrawTransaction X tx) = Succeeded"
    and "\<forall>i. good_io (ios i)"
  shows "Submit X ios tx db = (Done (), db)"
proof -
  have remove: "RemoveSideChainTxs (ios 0) [] st = (Inr (), st)" and add: "AddSucceedWithdrawTxs (ios 1) [] fin = (Inr (), fin)" for fin
    using assms(6) by (simp_all add: RemoveSideChainTxs_def AddSucceedWithdrawTxs_def with_tx_good)
  have "on_address (Key sc) (\<lambda>_. st) db = db"
    using assms(4) at_first_id [of "\<lambda>s. genesisBlockAddress s = Key sc" "SideChainStore db" st "\<lambda>_. st"]
    by (simp add: on_address_def GetDataStoreGenesisBlocAddress_def)
  then show ?thesis
    using built_form [OF assms(1)] built_address [OF assms(1-3)] assms(4,5) remove add
    by (auto simp: Submit_def SubmitWithdrawTransaction_def move_withdraws_def Let_def)
qed

section \<open>What the checks let through\<close>

text \<open>There are as many outputs to others as assets.\<close>

lemma check_totals_count:
  assumes "check_totals X frozen rate bank tx txs = None"
  shows "\<exists>G. Uint168FromAddress (xA X) bank = Some G \<and>
    length (assets_of txs) = length (filter (\<lambda>o1. OutProgramHash o1 \<noteq> G) (Outputs tx))"
proof -
  obtain inp where inp: "GetAmountByInputs (xN X) (Inputs tx) = Inr inp"
    using assms by (cases "GetAmountByInputs (xN X) (Inputs tx)") (simp_all add: check_totals_def)
  obtain ori fee assets where o: "owed frozen rate txs = Inr (ori, fee, assets)"
    using assms inp by (cases "owed frozen rate txs") (auto simp: check_totals_def)
  obtain G where G: "Uint168FromAddress (xA X) bank = Some G"
    using assms inp o by (cases "Uint168FromAddress (xA X) bank") (auto simp: check_totals_def Let_def split: if_splits)
  have "length assets = length (assets_of txs)" using owed_Inr [OF o] by (simp add: owed_sums_def)
  then show ?thesis using assms inp o G by (simp add: check_totals_def Let_def split: if_splits)
qed

text \<open>A hash that is asked for more than once has at most one row, so that the node is asked each time.\<close>

lemma repeated_from_node:
  assumes "side_store_wf st" "good_io io" "no_quote h" "2 \<le> n" "rpc_tx X [] key h = Inr t"
  shows "known_withdraws X io [] st key (replicate n h) = Inr (replicate n t)"
proof -
  have hs: "replicate n h \<noteq> []" "set (replicate n h) = {h}" using assms(4) by (auto simp: set_replicate_conv_if)
  define rows where "rows = arrange io (filter (\<lambda>r. ScTransactionHash r \<in> {h}) (SideChainTxs st))"
  have "GetSideChainTxsFromHashes (xW X) io (replicate n h) st = Inr (map (decode_withdraw (xW X)) (map ScTransaction rows))"
    unfolding GetSideChainTxsFromHashes_def using hs assms(3)
    by (subst select_in_ok [OF assms(2)]) (simp_all only: rows_def hs map_sum.simps, simp_all)
  moreover have "length rows \<le> 1"
    using filter_unique [of ScTransactionHash "SideChainTxs st" h] assms(1) good_ioD(8) [OF assms(2)]
    by (cases "row_of ScTransactionHash (SideChainTxs st) h") (simp_all add: rows_def side_store_wf_def length_arrange)
  moreover have "collect (rpc_tx X [] key) (replicate n h) = Inr (map (\<lambda>_. t) (replicate n h))"
    using assms(5) by (intro collect_map) simp
  ultimately show ?thesis using assms(4) by (simp add: known_withdraws_def map_replicate_const)
qed

text \<open>C18: An arbiter accepts a transaction that pays one withdraw of the side chain twice: two outputs name the
  same side chain transaction, its cache has one row for the two, so it asks the node once for each
  output and adds up what the two answers owe.\<close>

theorem same_withdraw_paid_twice:
  assumes "CreateWithdrawTransactionV1 X io sc [t, t] db = (Inr tx, db1)"
    and "GetSideChainAndExchangeRate X (Key sc) = Inr (sc, (1, 0))"
    and "single_asset X t" "small_amounts (assets_of [t, t])"
    and "Uint168FromAddress (xA X) (Key sc) = Some G" "take 1 G = [PrefixCrossChain (xA X)]"
    and "GetWithdrawUTXOsByAmount X io (Key sc) (fx_sum (map Amount (assets_of [t, t]))) (MainChainStore db) = (Inr utxos, st)"
    and "\<forall>u \<in> set utxos. 0 \<le>s UtxoValue u"
    and "\<forall>k. GetAmountByInputs (xN X) (map UtxoInput (take k utxos)) = Inr (fx_sum (map UtxoValue (take k utxos)))"
    and "GetDataStoreGenesisBlocAddress (Key sc) db2 = Some st2" "side_store_wf st2" "good_io io2"
    and "no_quote (HashString (xA X) (the (Txid t)))" "rpc_tx X [] (Key sc) (HashString (xA X) (the (Txid t))) = Inr t"
  shows "checkWithdrawFromSideChainPayloadV1 X io2 db2 tx = None"
proof (rule accepted_of_built [OF assms(1,2) _ _ assms(4-10)])
  show "list_all (single_asset X) [t, t]" using assms(3) by simp
  show "known_withdraws X io2 [] st2 (Key sc) (map (\<lambda>t. HashString (xA X) (the (Txid t))) [t, t]) = Inr [t, t]"
    using repeated_from_node [OF assms(11-13) _ assms(14), of 2] by (simp add: numeral_2_eq_2)
qed simp_all

text \<open>A transaction built for one withdraw with several assets passes no check: the checking arbiter
  collects the hash once for every output, cannot match its one cached row, and asks the node for the
  whole withdraw as often as it has assets.\<close>

lemma multi_asset_withdraw_rejected:
  assumes "CreateWithdrawTransactionV1 X io sc [t] db = (Inr tx, db1)"
    and "GetSideChainAndExchangeRate X (Key sc) = Inr (sc, rate)"
    and "t = \<lparr>Txid = Some h, WithdrawInfo = Some \<lparr>WithdrawAssets = ws\<rparr>\<rparr>" "2 \<le> length ws"
    and "GetDataStoreGenesisBlocAddress (Key sc) db2 = Some st2" "side_store_wf st2" "good_io io2"
    and "no_quote (HashString (xA X) h)" "rpc_tx X [] (Key sc) (HashString (xA X) h) = Inr t"
  shows "checkWithdrawFromSideChainPayloadV1 X io2 db2 tx \<noteq> None"
proof
  assume accepted: "checkWithdrawFromSideChainPayloadV1 X io2 db2 tx = None"
  have built: "built_withdraw X io sc [t] db tx" using assms(1) by (simp add: built_withdraw_def)
  have parse: "parseUserWithdrawTransactions [t] = Some (map (\<lambda>w. (w, h)) ws)"
    using assms(3,4) by (cases ws) auto
  obtain outs rest where o: "Outputs tx = outs @ rest"
    "map (\<lambda>o1. (OutType o1, OutPayload o1)) outs =
      map (\<lambda>a. (OTWithdrawFromSideChain, Withdraw (Key sc) (snd a) (TargetData (fst a)))) (map (\<lambda>w. (w, h)) ws)"
    "rest = [] \<or> (\<exists>G v. Uint168FromAddress (xA X) (Key sc) = Some G \<and> rest = [change_output True G v])"
    using built_outputs [OF built] unfolding parse by auto
  have rest: "withdraw_payloads X rest c = Inr ([], c)" for c using o(3) by (auto simp: change_output_def)
  have later: "withdraw_payloads X (os @ rest) (Some (sc, rate)) = Inr (replicate (length as) (HashString (xA X) h), Some (sc, rate))"
    if "map (\<lambda>o1. (OutType o1, OutPayload o1)) os =
      map (\<lambda>a. (OTWithdrawFromSideChain, Withdraw (Key sc) (snd a) (TargetData (fst a)))) (map (\<lambda>w. (w, h)) as)" for os as
    using that
  proof (induction os arbitrary: as)
    case (Cons o1 os)
    then obtain a as' where "as = a # as'" by (cases as) auto
    with Cons show ?case by simp
  qed (simp add: rest)
  obtain w ws' where w: "ws = w # ws'" using assms(4) by (cases ws) auto
  then obtain o1 os where o1: "outs = o1 # os" using o(2) by (cases outs) auto
  have "withdraw_payloads X (Outputs tx) None = Inr (replicate (length ws) (HashString (xA X) h), Some (sc, rate))"
    using later [of os ws'] o(1,2) w o1 assms(2) by simp
  then obtain txs where txs: "known_withdraws X io2 [] st2 (Key sc) (replicate (length ws) (HashString (xA X) h)) = Inr txs"
    "check_totals X (FrozenAddresses X) rate (Key sc) tx txs = None"
    using accepted assms(5)
    by (auto simp: checkWithdrawFromSideChainPayloadV1_def checkWithdrawFromSideChainPayload_def
        split: if_splits sum.splits)
  then have "txs = replicate (length ws) t"
    using repeated_from_node [OF assms(6-8,4,9)] by simp
  then have "length (assets_of txs) = length ws * length ws"
    by (simp add: assets_of_def assms(3) length_concat sum_list_replicate)
  moreover have "\<exists>G. Uint168FromAddress (xA X) (Key sc) = Some G \<and>
      length (assets_of txs) = length (filter (\<lambda>o1. OutProgramHash o1 \<noteq> G) (Outputs tx))"
    using txs(2)
    by (rule check_totals_count)
  ultimately obtain G where G: "Uint168FromAddress (xA X) (Key sc) = Some G"
    "length ws * length ws = length (filter (\<lambda>o1. OutProgramHash o1 \<noteq> G) (Outputs tx))" by auto
  have "filter (\<lambda>o1. OutProgramHash o1 \<noteq> G) rest = []" using o(3) G(1) by (auto simp: change_output_def)
  then have "length ws * length ws \<le> length outs" using G(2) o(1) by (simp add: length_filter_le)
  moreover have "length outs = length ws" using map_eq_imp_length_eq [OF o(2)] by simp
  ultimately show False using assms(4) by (cases "length ws") auto
qed

section \<open>Refunds and NFT transactions\<close>

text \<open>An output pays back a deposit: what the deposit paid to the side chain, less the fee, to the address
  whose output the deposit's first input spent. Outputs of other types are not meant.\<close>

definition pays_depositor :: "cross_env \<Rightarrow> tx_output \<Rightarrow> bool" where
  "pays_depositor X o1 \<longleftrightarrow> OutType o1 \<noteq> OTReturnSideChainDepositCoin \<or>
     (\<exists>genesis h bs originTx i ins referTxn G a. OutPayload o1 = ReturnSideChainDeposit genesis h \<and>
        HexStringToBytes (xC X) (HashString (xA X) h) = Some bs \<and>
        GetTransaction (xN X) (BytesToHexString (xC X) (BytesReverse (xA X) bs)) = Inr originTx \<and>
        Inputs originTx = i # ins \<and>
        GetTransaction (xN X) (BytesToHexString (xC X) (BytesReverse (xA X) (OpTxID (Previous i)))) = Inr referTxn \<and>
        unat (OpIndex (Previous i)) < length (Outputs referTxn) \<and> Uint168FromAddress (xA X) genesis = Some G \<and>
        OutValue o1 = fx_sum (map OutValue (filter (\<lambda>x. take 1 (OutProgramHash x) = [PrefixCrossChain (xA X)] \<and>
          OutProgramHash x = G) (Outputs originTx))) - ReturnDepositTransactionFee X \<and>
        ToAddress (xA X) (OutProgramHash o1) = Some a \<and>
        ToAddress (xA X) (OutProgramHash (Outputs referTxn ! unat (OpIndex (Previous i)))) = Some a)"

lemma continue_pays_depositor:
  assumes "check_return_output X o1 = Continue"
  shows "pays_depositor X o1"
proof (cases "OutType o1 = OTReturnSideChainDepositCoin")
  case True
  obtain genesis h where p: "OutPayload o1 = ReturnSideChainDeposit genesis h"
    using assms True by (cases "OutPayload o1") (simp_all add: check_return_output_def)
  obtain bs where bs: "HexStringToBytes (xC X) (HashString (xA X) h) = Some bs"
    using assms True p by (auto simp: check_return_output_def split: sum.splits option.splits if_splits prod.splits)
  obtain originTx where origin: "GetTransaction (xN X) (BytesToHexString (xC X) (BytesReverse (xA X) bs)) = Inr originTx"
    using assms True p bs by (cases "GetTransaction (xN X) (BytesToHexString (xC X) (BytesReverse (xA X) bs))")
      (auto simp: check_return_output_def split: sum.splits if_splits prod.splits)
  obtain i ins where i: "Inputs originTx = i # ins"
    using assms True p bs origin by (cases "Inputs originTx")
      (auto simp: check_return_output_def split: sum.splits if_splits prod.splits)
  obtain referTxn where refer:
    "GetTransaction (xN X) (BytesToHexString (xC X) (BytesReverse (xA X) (OpTxID (Previous i)))) = Inr referTxn"
    using assms True p bs origin i
    by (cases "GetTransaction (xN X) (BytesToHexString (xC X) (BytesReverse (xA X) (OpTxID (Previous i))))")
      (auto simp: check_return_output_def split: sum.splits if_splits prod.splits)
  show ?thesis using assms True p bs origin i refer
    unfolding pays_depositor_def
    by (auto simp: check_return_output_def Let_def not_le split: sum.splits if_splits prod.splits payload.splits option.splits)
qed (simp add: pays_depositor_def)

lemma check_return_outputs_continue:
  "check_return_outputs X outs = None \<Longrightarrow> \<forall>o1 \<in> set outs. check_return_output X o1 \<noteq> Break \<Longrightarrow>
   \<forall>o1 \<in> set outs. check_return_output X o1 = Continue"
  by (induction outs) (auto split: loop_step.splits)

text \<open>C19: Unless the check of a refund breaks off, every refund output of a transaction that an arbiter accepts
  pays what the deposit sent to the side chain, less the fee, to the address the deposit came from.\<close>

theorem accepted_refund_pays_depositor:
  assumes "checkReturnDepositTxPayloadV0 X tx = None"
    and "\<forall>o1 \<in> set (Outputs tx). check_return_output X o1 \<noteq> Break"
  shows "\<forall>o1 \<in> set (Outputs tx). pays_depositor X o1"
  using check_return_outputs_continue [OF _ assms(2)] assms(1) continue_pays_depositor
  by (auto simp: checkReturnDepositTxPayloadV0_def checkReturnDepositTxPayload_def split: if_splits)

text \<open>The check of a refund looks at nothing but the refund outputs: with other inputs and with any further
  outputs of other types, a transaction is accepted or rejected as before.\<close>

lemma refund_check_ignores_rest:
  assumes "\<forall>o1 \<in> set extra. OutType o1 \<noteq> OTReturnSideChainDepositCoin"
  shows "checkReturnDepositTxPayloadV0 X (tx\<lparr>Inputs := ins, Outputs := Outputs tx @ extra\<rparr>) =
    checkReturnDepositTxPayloadV0 X tx"
proof -
  have "check_return_outputs X extra = None" using assms by (induction extra) (auto simp: check_return_output_def)
  then have "check_return_outputs X (outs @ extra) = check_return_outputs X outs" for outs
    by (induction outs) (auto split: loop_step.split)
  then show ?thesis by (simp add: checkReturnDepositTxPayloadV0_def checkReturnDepositTxPayload_def)
qed

text \<open>When the node does not give the transaction whose output a deposit spent, the check of the refund
  breaks off and accepts, whatever the refund output pays, to whom, and whatever outputs follow it.\<close>

lemma refund_check_breaks_off:
  assumes "PayloadVersion tx = ReturnSideChainDepositCoinVersion (xA X)" "Outputs tx = o1 # outs"
    and "OutType o1 = OTReturnSideChainDepositCoin" "OutPayload o1 = ReturnSideChainDeposit genesis h"
    and "GetSideChainAndExchangeRate X genesis = Inr (sc, rate)"
    and "GetFailedDepositTransaction (xN X) (Key sc) (HashString (xA X) h) = Inr True"
    and "HexStringToBytes (xC X) (HashString (xA X) h) = Some bs"
    and "GetTransaction (xN X) (BytesToHexString (xC X) (BytesReverse (xA X) bs)) = Inr originTx" "Inputs originTx = i # ins"
    and "GetTransaction (xN X) (BytesToHexString (xC X) (BytesReverse (xA X) (OpTxID (Previous i)))) = Inl e"
  shows "checkReturnDepositTxPayloadV0 X tx = None"
  using assms by (simp add: checkReturnDepositTxPayloadV0_def checkReturnDepositTxPayload_def check_return_output_def)

text \<open>Of an NFT transaction the check reads only its version and the genesis hash: which tokens it
  destroys, and for whom, does not matter.\<close>

lemma nft_check_ignores_tokens:
  assumes "Payload tx = NFTDestroyFromSideChain ids owners genesis" "Payload tx' = NFTDestroyFromSideChain ids' owners' genesis"
    and "PayloadVersion tx = PayloadVersion tx'"
  shows "checkWithdrawTransaction X io db tx height = checkWithdrawTransaction X io db tx' height"
  using assms by (simp add: checkWithdrawTransaction_def checkNFTDestroyFromSideChainTxPayload_def)

section \<open>Witnesses\<close>

text \<open>A deposit of 10 by address a, and its refund of 9.\<close>

definition input5 :: "byte \<Rightarrow> tx_input" where
  "input5 b = \<lparr>Previous = \<lparr>OpTxID = [b], OpIndex = 0\<rparr>, Sequence = 0\<rparr>"

definition output5 :: "byte \<Rightarrow> fixed64 \<Rightarrow> output_type \<Rightarrow> output_payload \<Rightarrow> tx_output" where
  "output5 b v ty p = \<lparr>OutProgramHash = [b], OutValue = v, OutType = ty, OutPayload = p\<rparr>"

definition tx5 :: "payload \<Rightarrow> tx_input list \<Rightarrow> tx_output list \<Rightarrow> transaction" where
  "tx5 p ins outs = \<lparr>TxType = TxOther, PayloadVersion = 0, Payload = p, Inputs = ins, Outputs = outs, Programs = []\<rparr>"

definition origin5 :: transaction where
  "origin5 = tx5 (TransferCrossChainAsset [] [] []) [input5 3] [output5 0x4B 10 OTCrossChain DefaultOutput]"

definition xenv5 :: "(go_error + transaction) \<Rightarrow> cross_env" where
  "xenv5 refer = xenv0\<lparr>xN := nodes0\<lparr>GetTransaction := (\<lambda>s. if s = [byte_char 2] then Inr origin5 else refer)\<rparr>\<rparr>"

definition refund5 :: "fixed64 \<Rightarrow> tx_output" where
  "refund5 v = output5 0x61 v OTReturnSideChainDepositCoin (ReturnSideChainDeposit ''K'' [1, 2])"

lemma xenv5_sel [simp]: "xA (xenv5 r) = addr0" "xC (xenv5 r) = crypto0" "ReturnDepositTransactionFee (xenv5 r) = 1"
  "GetSideChainAndExchangeRate (xenv5 r) ''K'' = Inr (chain0, (1, 0))"
  by (simp_all add: xenv5_def GetSideChainAndExchangeRate_def GetChain_def rate0)

lemma nodes5: "GetTransaction (xN (xenv5 r)) s = (if s = [byte_char 2] then Inr origin5 else r)"
  "GetFailedDepositTransaction (xN (xenv5 r)) k h = Inr True"
  by (simp_all add: xenv5_def nodes0_def)

definition bytes5 :: bytes where "bytes5 = replicate 32 2 @ [1, 2]"

lemma hex5: "BytesToHexString crypto0 [3] = [byte_char 3]" "HexStringToBytes crypto0 [byte_char 1, byte_char 2] = Some bytes5"
  "BytesToHexString crypto0 (rev bytes5) = [byte_char 2]" "BytesReverse addr0 = rev" "ReturnSideChainDepositCoinVersion addr0 = 0"
  by (simp_all add: crypto0_def addr0_def bytes5_def)

lemma other5: "byte_char 3 \<noteq> byte_char 2"
  proof
  assume "byte_char 3 = byte_char 2"
  then have "char_byte (byte_char 3) = char_byte (byte_char 2)" by simp
  then show False by simp
qed

theorem accepted_refund_pays_depositor_witness:
  "pays_depositor (xenv5 (Inr (tx5 OtherPayload [] [output5 0x61 20 OTNone DefaultOutput]))) (refund5 9)"
proof -
  let ?X = "xenv5 (Inr (tx5 OtherPayload [] [output5 0x61 20 OTNone DefaultOutput]))"
  have "check_return_output ?X (refund5 9) = Continue"
    by (simp add: check_return_output_def refund5_def output5_def nodes5 hex5 other5 origin5_def tx5_def input5_def char0 chain0_found)
  then have "checkReturnDepositTxPayloadV0 ?X (tx5 (ReturnSideChainDepositCoin []) [] [refund5 9]) = None"
    "\<forall>o1 \<in> set (Outputs (tx5 (ReturnSideChainDepositCoin []) [] [refund5 9])). check_return_output ?X o1 \<noteq> Break"
    by (simp_all add: checkReturnDepositTxPayloadV0_def checkReturnDepositTxPayload_def tx5_def hex5)
  from accepted_refund_pays_depositor [OF this] show ?thesis by (simp add: tx5_def)
qed

lemma refund_check_ignores_rest_witness:
  "checkReturnDepositTxPayloadV0 xenv0 (tx5 (ReturnSideChainDepositCoin []) [] [refund5 9, output5 0x62 1000 OTNone DefaultOutput]) =
     checkReturnDepositTxPayloadV0 xenv0 (tx5 (ReturnSideChainDepositCoin []) [] [refund5 9])"
  using refund_check_ignores_rest [of "[output5 0x62 1000 OTNone DefaultOutput]" xenv0
      "tx5 (ReturnSideChainDepositCoin []) [] [refund5 9]" "[]"]
  by (simp add: tx5_def output5_def)

lemma refund_check_breaks_off_witness:
  "checkReturnDepositTxPayloadV0 (xenv5 (Inl ExtErr)) (tx5 (ReturnSideChainDepositCoin []) [] [refund5 1000000]) = None"
  by (rule refund_check_breaks_off [where ?o1.0 = "refund5 1000000" and outs = "[]" and genesis = "''K''" and h = "[1, 2]"
        and sc = chain0 and rate = "(1, 0)" and bs = bytes5 and originTx = origin5 and i = "input5 3"
        and ins = "[]" and e = ExtErr])
    (simp_all add: tx5_def refund5_def output5_def nodes5 hex5 other5 origin5_def input5_def)

lemma nft_check_ignores_tokens_witness:
  "checkWithdrawTransaction X io db (tx5 (NFTDestroyFromSideChain [[1]] [[2]] [7]) [] []) height =
     checkWithdrawTransaction X io db (tx5 (NFTDestroyFromSideChain [[8]] [[9]] [7]) [] []) height"
  by (rule nft_check_ignores_tokens [where ids = "[[1]]" and owners = "[[2]]" and genesis = "[7]" and ids' = "[[8]]" and owners' = "[[9]]"])
    (simp_all add: tx5_def)

text \<open>The environment with other answers of the main chain node, or of the node of the side chain.\<close>

definition send_env :: "(go_error + rpc_resp) \<Rightarrow> cross_env" where
  "send_env r = xenv0\<lparr>xN := nodes0\<lparr>SendRawTransaction := (\<lambda>_. r)\<rparr>\<rparr>"

lemma send_env_like: "like0 (send_env r)" "GetChain (send_env r) ''K'' = Some chain0"
  "SendWithdrawTransaction (send_env r) tx = (case TxSerialize ops0 tx of (Some e, _) \<Rightarrow> Inl e | (None, buf) \<Rightarrow> r)"
  by (simp_all add: like0_def send_env_def GetChain_def SendWithdrawTransaction_def split: prod.split option.split)

lemma store0: "GetDataStoreGenesisBlocAddress ''K'' db0 = Some (side0\<lparr>genesisBlockAddress := ''K''\<rparr>)"
  by (simp add: GetDataStoreGenesisBlocAddress_def db0_def)

lemma sent_built: "\<exists>tx. built_withdraw (send_env r) plain_io chain0 [wtx4] db0 tx"
  using built_like [OF send_env_like(1), of "[wtx4]" 1 "[1, 2]" r] by (force simp: wtx4_def built_withdraw_def)

lemma wtx4_assets: "assets_of [wtx4] \<noteq> []"
  by (simp add: assets_of_def wtx4_def)

lemma unreachable_node_panics_witness:
  "\<exists>tx. Submit (send_env (Inl ExtErr)) (\<lambda>_. plain_io) tx db0 = (Panic, db0)"
proof -
  obtain tx where "built_withdraw (send_env (Inl ExtErr)) plain_io chain0 [wtx4] db0 tx" using sent_built by blast
  from unreachable_node_panics [OF this wtx4_assets _ _ , where e = ExtErr, unfolded chain0_found(2), OF send_env_like(2) store0]
  have "Submit (send_env (Inl ExtErr)) (\<lambda>_. plain_io) tx db0 = (Panic, db0)"
    by (simp add: send_env_like ops0_def)
  then show ?thesis by blast
qed

lemma submitted_withdraw_stays_cached_witness:
  "\<exists>tx. Submit (send_env (Inr \<lparr>RespError = False, RespCode = 0, RespResult = True\<rparr>)) (\<lambda>_. plain_io) tx db0 = (Done (), db0)"
proof -
  let ?r = "Inr \<lparr>RespError = False, RespCode = 0, RespResult = True\<rparr>"
  obtain tx where b: "built_withdraw (send_env ?r) plain_io chain0 [wtx4] db0 tx" using sent_built by blast
  have "mc_verdict (SendWithdrawTransaction (send_env ?r) tx) = Succeeded"
    by (simp add: send_env_like ops0_def mc_verdict_def)
  from submitted_withdraw_stays_cached [OF b wtx4_assets, unfolded chain0_found(2), OF send_env_like(2) store0 this]
  show ?thesis by (metis good_plain_io)
qed

theorem same_withdraw_paid_twice_witness:
  "\<exists>tx db. CreateWithdrawTransactionV1 xenv0 plain_io chain0 [wtx4, wtx4] db0 = (Inr tx, db) \<and>
     checkWithdrawFromSideChainPayloadV1 xenv0 plain_io db0 tx = None"
proof -
  obtain tx db where tx: "CreateWithdrawTransactionV1 xenv0 plain_io chain0 [wtx4, wtx4] db0 = (Inr tx, db)"
    using built_like [OF like_xenv0, of "[wtx4, wtx4]" 2 "[1, 2]"] by (auto simp: wtx4_def numeral_2_eq_2)
  have small: "small_amounts (assets_of [wtx4, wtx4])" by (simp add: small_amounts_def assets_of_def wtx4_def asset4_def)
  have utxos: "GetWithdrawUTXOsByAmount xenv0 plain_io (Key chain0) (fx_sum (map Amount (assets_of [wtx4, wtx4]))) (MainChainStore db0) =
      (Inr [utxo4], main0)" by (simp add: db0_def utxos0)
  have wf: "side_store_wf (side0\<lparr>genesisBlockAddress := ''K''\<rparr>)" by (simp add: side_store_wf_def side0_def)
  have h: "no_quote (HashString (xA xenv0) (the (Txid wtx4)))"
    by (simp add: wtx4_def no_quote_def byte_char_def char_of_def bit_iff_odd)
  have node: "rpc_tx xenv0 [] (Key chain0) (HashString (xA xenv0) (the (Txid wtx4))) = Inr wtx4"
    by (simp add: rpc_tx_def nodes0_def wtx4_def) (simp add: rpc_asset_def addr0_def asset4_def)
  have single: "single_asset xenv0 wtx4" by (rule wtx4_single)
  show ?thesis
    using tx same_withdraw_paid_twice [OF tx chain0_found(1) single small conditions4(4,5) utxos conditions4(7,8,9) wf
        good_plain_io h node] by blast
qed

definition wtx6 :: withdraw_tx where
  "wtx6 = \<lparr>Txid = Some [1, 2], WithdrawInfo = Some \<lparr>WithdrawAssets = [asset4, asset4]\<rparr>\<rparr>"

definition xenv6 :: cross_env where
  "xenv6 = xenv0\<lparr>xN := nodes0\<lparr>GetWithdrawTransaction := (\<lambda>_ h. Inr \<lparr>InfoTxID = h, CrossChainAssets =
     replicate 2 \<lparr>CrossChainAddress = ''a'', InfoCrossChainAmount = ''4444'', OutputAmount = ''55555'', InfoTargetData = []\<rparr>\<rparr>)\<rparr>\<rparr>"

lemma multi_asset_withdraw_rejected_witness:
  "\<exists>tx db. CreateWithdrawTransactionV1 xenv6 plain_io chain0 [wtx6] db0 = (Inr tx, db) \<and>
     checkWithdrawFromSideChainPayloadV1 xenv6 plain_io db0 tx \<noteq> None"
proof -
  have like: "like0 xenv6" by (simp add: like0_def xenv6_def)
  obtain tx db where tx: "CreateWithdrawTransactionV1 xenv6 plain_io chain0 [wtx6] db0 = (Inr tx, db)"
    using built_like [OF like, of "[wtx6]" 2 "[1, 2]"] by (auto simp: wtx6_def numeral_2_eq_2)
  have chain: "GetSideChainAndExchangeRate xenv6 (Key chain0) = Inr (chain0, (1, 0))"
    by (simp add: GetSideChainAndExchangeRate_def GetChain_def xenv6_def chain0_found(2) rate0)
  have wf: "side_store_wf (side0\<lparr>genesisBlockAddress := ''K''\<rparr>)" by (simp add: side_store_wf_def side0_def)
  have h: "no_quote (HashString (xA xenv6) [1, 2])"
    by (simp add: xenv6_def no_quote_def byte_char_def char_of_def bit_iff_odd)
  have node: "rpc_tx xenv6 [] (Key chain0) (HashString (xA xenv6) [1, 2]) = Inr wtx6"
    by (simp add: rpc_tx_def xenv6_def wtx6_def numeral_2_eq_2) (simp add: rpc_asset_def addr0_def asset4_def)
  show ?thesis
    using tx multi_asset_withdraw_rejected [OF tx chain wtx6_def _ conditions4(9) wf good_plain_io h node] by auto
qed

end
