(* ===== verification/Deposits.thy ===== *)
theory Deposits
  imports Cross_Env
begin

text \<open>
  Deposits, the transactions from the main chain to a side chain: they wait in the main chain cache, are
  sent to the node of the side chain by the arbiter on duty (\<open>SendDepositTransactions\<close> of
  \<open>arbitration/arbitrator/arbitrator.go\<close>), and are taken out of the cache when the node has them
  (\<open>arbitration/mainchain/mainchainImpl.go\<close>). Each call of a store has its own driver faults: \<open>ios i\<close>
  are those of the i-th call. Errors that the code only logs leave no trace.
\<close>

definition SCErrMainchainTxDuplicate :: int where "SCErrMainchainTxDuplicate = 45013"
definition ErrInvalidMainchainTx :: int where "ErrInvalidMainchainTx = 45022"

section \<open>Sending\<close>

datatype deposit_verdict = DepositFailed | DepositSucceeded | DepositResend

text \<open>The two conditions in the order of the code.\<close>

definition deposit_verdict :: "go_error + rpc_resp \<Rightarrow> deposit_verdict" where
  "deposit_verdict res =
     (case res of
        Inl e \<Rightarrow> DepositFailed
      | Inr resp \<Rightarrow>
          if RespError resp \<and> RespCode resp \<noteq> ErrInvalidMainchainTx then DepositFailed
          else if \<not> RespError resp \<and> RespResult resp \<or> RespError resp \<and> RespCode resp = SCErrMainchainTxDuplicate
          then DepositSucceeded
          else DepositResend)"

definition send_deposit :: "cross_env \<Rightarrow> side_chain \<Rightarrow> spv_transaction \<Rightarrow> string \<times> deposit_verdict" where
  "send_deposit X sc tx =
     (let hash = TxHash (xT X) (MainChainTransaction tx)
      in (HashString (xA X) hash, deposit_verdict (SendTransaction (xN X) (Key sc) hash)))"

text \<open>One removal from the cache and one entry in the store of finished transactions. Both lists have one
  entry per hash, so that neither call runs out of its second list.\<close>

definition move_deposits ::
    "(db_io \<Rightarrow> string list \<Rightarrow> string list \<Rightarrow> finished_store \<Rightarrow> unit outcome \<times> finished_store) \<Rightarrow>
     (nat \<Rightarrow> db_io) \<Rightarrow> nat \<Rightarrow> string list \<Rightarrow> string list \<Rightarrow> db_cache \<Rightarrow> db_cache" where
  "move_deposits record_verdict ios k hashes addresses db =
     db\<lparr>MainChainStore := snd (RemoveMainChainTxs (ios k) hashes addresses (MainChainStore db)),
        FinishedTxsDbCache := snd (record_verdict (ios (k + 1)) hashes addresses (FinishedTxsDbCache db))\<rparr>"

text \<open>The loop runs once per hash, but each time over all of them.\<close>

fun move_times ::
    "(db_io \<Rightarrow> string list \<Rightarrow> string list \<Rightarrow> finished_store \<Rightarrow> unit outcome \<times> finished_store) \<Rightarrow>
     (nat \<Rightarrow> db_io) \<Rightarrow> nat \<Rightarrow> nat \<Rightarrow> string list \<Rightarrow> string list \<Rightarrow> db_cache \<Rightarrow> db_cache" where
  "move_times record_verdict ios k 0 hashes addresses db = db"
| "move_times record_verdict ios k (Suc n) hashes addresses db =
     move_times record_verdict ios (k + 2) n hashes addresses (move_deposits record_verdict ios k hashes addresses db)"

definition SendDepositTransactions ::
    "cross_env \<Rightarrow> (nat \<Rightarrow> db_io) \<Rightarrow> spv_transaction list \<Rightarrow> string \<Rightarrow> db_cache \<Rightarrow> unit outcome \<times> db_cache" where
  "SendDepositTransactions X ios spvTxs genesisAddress db =
     (case GetChain X genesisAddress of
        None \<Rightarrow> (Done (), db)
      | Some sc \<Rightarrow>
          if CurrentConfig sc = None \<and> spvTxs \<noteq> [] then (Panic, db)
          else (let answers = map (send_deposit X sc) spvTxs;
                    failed = map fst (filter (\<lambda>a. snd a = DepositFailed) answers);
                    succeeded = map fst (filter (\<lambda>a. snd a = DepositSucceeded) answers);
                    db1 = move_times AddFailedDepositTxs ios 0 (length failed) failed
                      (map (\<lambda>_. genesisAddress) failed) db
                in (Done (), move_times AddSucceedDepositTxs ios (2 * length failed) (length succeeded) succeeded
                      (map (\<lambda>_. genesisAddress) succeeded) db1)))"

definition createAndSendDepositTransactionsInDB ::
    "cross_env \<Rightarrow> (nat \<Rightarrow> db_io) \<Rightarrow> side_chain \<Rightarrow> string list \<Rightarrow> db_cache \<Rightarrow> unit outcome \<times> db_cache" where
  "createAndSendDepositTransactionsInDB X ios sc txHashes db =
     (if CurrentConfig sc = None then (Panic, db)
      else (case GetExistDepositTransactions (xN X) (Key sc) txHashes of
        Inl e \<Rightarrow> (Done (), db)
      | Inr receivedTxs \<Rightarrow>
          (let unsolvedTxs = SubstractTransactionHashes txHashes receivedTxs;
               db1 = move_deposits AddSucceedDepositTxs ios 0 receivedTxs (map (\<lambda>_. Key sc) receivedTxs) db
           in case GetMainChainTxsFromHashes (xL X) (ios 2) unsolvedTxs (Key sc) (MainChainStore db1) of
                Inl e \<Rightarrow> (Done (), db1)
              | Inr spvTxs \<Rightarrow> SendDepositTransactions X (\<lambda>i. ios (i + 3)) spvTxs (Key sc) db1)))"

section \<open>All cached deposits\<close>

text \<open>The hashes per side chain; a deposit for an unknown chain is left out.\<close>

definition add_hash :: "side_chain \<Rightarrow> string \<Rightarrow> (side_chain \<times> string list) list \<Rightarrow> (side_chain \<times> string list) list" where
  "add_hash sc h m = AList.update sc ((case map_of m sc of None \<Rightarrow> [] | Some hs \<Rightarrow> hs) @ [h]) m"

fun hashes_per_chain ::
    "cross_env \<Rightarrow> main_chain_transaction list \<Rightarrow> (side_chain \<times> string list) list \<Rightarrow> (side_chain \<times> string list) list" where
  "hashes_per_chain X [] m = m"
| "hashes_per_chain X (tx # txs) m =
     (case GetChain X (McGenesisBlockAddress tx) of
        None \<Rightarrow> hashes_per_chain X txs m
      | Some sc \<Rightarrow> hashes_per_chain X txs (add_hash sc (McTransactionHash tx) m))"

text \<open>\<open>SyncMainChainCachedTxs\<close> starts one goroutine per chain; the result says which.\<close>

definition SyncMainChainCachedTxs ::
    "cross_env \<Rightarrow> db_io \<Rightarrow> db_cache \<Rightarrow> go_error + (side_chain \<times> string list) list" where
  "SyncMainChainCachedTxs X io db =
     (case GetAllMainChainTxs (xL X) io (MainChainStore db) of
        Inl e \<Rightarrow> Inl (Err ''[SyncMainChainCachedTxs]'')
      | Inr [] \<Rightarrow> Inl (Err ''[SyncMainChainCachedTxs] No main chain tx in dbcache'')
      | Inr txs \<Rightarrow> Inr (hashes_per_chain X txs []))"

fun remove_received ::
    "cross_env \<Rightarrow> (nat \<Rightarrow> db_io) \<Rightarrow> nat \<Rightarrow> (side_chain \<times> string list) list \<Rightarrow> db_cache \<Rightarrow> unit outcome \<times> db_cache" where
  "remove_received X ios k [] db = (Done (), db)"
| "remove_received X ios k ((sc, hashes) # groups) db =
     (if CurrentConfig sc = None then (Panic, db)
      else (case GetExistDepositTransactions (xN X) (Key sc) hashes of
        Inl e \<Rightarrow> remove_received X ios k groups db
      | Inr receivedTxs \<Rightarrow>
          (let addresses = map (\<lambda>_. Key sc) receivedTxs
           in case RemoveMainChainTxs (ios k) receivedTxs addresses (MainChainStore db) of
                (Done _, st) \<Rightarrow>
                  remove_received X ios (k + 2) groups (db\<lparr>MainChainStore := st,
                    FinishedTxsDbCache :=
                      snd (AddSucceedDepositTxs (ios (k + 1)) receivedTxs addresses (FinishedTxsDbCache db))\<rparr>)
              | (other, st) \<Rightarrow> (other, db\<lparr>MainChainStore := st\<rparr>))))"

text \<open>The chains in the order in which Go ranges over the map, \<open>range_order\<close>.\<close>

definition CheckAndRemoveDepositTransactionsFromDB ::
    "cross_env \<Rightarrow> (nat \<Rightarrow> db_io) \<Rightarrow> ((side_chain \<times> string list) list \<Rightarrow> (side_chain \<times> string list) list) \<Rightarrow>
     db_cache \<Rightarrow> unit outcome \<times> db_cache" where
  "CheckAndRemoveDepositTransactionsFromDB X ios range_order db =
     (case GetAllMainChainTxs (xL X) (ios 0) (MainChainStore db) of
        Inl e \<Rightarrow> (Fail e, db)
      | Inr txs \<Rightarrow> remove_received X ios 1 (range_order (hashes_per_chain X txs [])) db)"

section \<open>Following the main chain\<close>

definition main_needSyncBlocks :: "cross_env \<Rightarrow> db_io \<Rightarrow> db_cache \<Rightarrow> (u32 \<times> u32 \<times> bool) \<times> db_cache" where
  "main_needSyncBlocks X io db =
     (case MainNodeHeight (xN X) of
        Inl e \<Rightarrow> ((0, 0, False), db)
      | Inr chainHeight \<Rightarrow>
          (case Main_CurrentHeight io QueryHeightCode (MainChainStore db) of
             (height, st) \<Rightarrow>
               ((chainHeight, height, \<not> chainHeight \<le> height), db\<lparr>MainChainStore := st\<rparr>)))"

text \<open>For each registration that is not yet stored, all of them are inserted once more.\<close>

fun store_registrations ::
    "wire \<Rightarrow> (nat \<Rightarrow> db_io) \<Rightarrow> nat \<Rightarrow> registered_side_chain_transaction list \<Rightarrow> registered_side_chain_transaction list \<Rightarrow>
     reg_store \<Rightarrow> bool \<times> reg_store" where
  "store_registrations W ios k all [] st = (True, st)"
| "store_registrations W ios k all (v # vs) st =
     (case HasRegisteredSideChainTx (ios k) (RtTransactionHash v) (RtGenesisBlockAddress v) st of
        Inl e \<Rightarrow> (False, st)
      | Inr True \<Rightarrow> store_registrations W ios (k + 2) all vs st
      | Inr False \<Rightarrow>
          store_registrations W ios (k + 2) all vs (snd (AddRegisteredSideChainTxs W (ios (k + 1)) all st)))"

text \<open>The main chain's height is stored last, and only when the registrations could be stored. The peers
  that are updated before are no part of the state.\<close>

definition SyncChainData :: "cross_env \<Rightarrow> (nat \<Rightarrow> db_io) \<Rightarrow> db_cache \<Rightarrow> u32 \<times> db_cache" where
  "SyncChainData X ios db =
     (case main_needSyncBlocks X (ios 0) db of
        ((chainHeight, height, needSync), db1) \<Rightarrow>
          if \<not> needSync then (height, db1)
          else (case GetRegisterTransactionByHeight (xN X) of
            Inl e \<Rightarrow> (height, db1)
          | Inr transactions \<Rightarrow>
              (case store_registrations (xW X) ios 2 transactions transactions (RegisteredSideChainStore db1) of
                 (ok, reg) \<Rightarrow>
                   (let db2 = db1\<lparr>RegisteredSideChainStore := reg\<rparr>
                    in if \<not> ok then (height, db2)
                       else (case Main_CurrentHeight (ios 1) chainHeight (MainChainStore db2) of
                               (height', st) \<Rightarrow> (height', db2\<lparr>MainChainStore := st\<rparr>))))))"

end
