(* ===== verification/Props_Deposit.thy ===== *)
theory Props_Deposit
  imports Props_Submit Deposits
begin

text \<open>
  Properties of the deposits: none is lost between the cache and the finished transactions, and what the
  answer of the side chain's node makes of a deposit.
\<close>

section \<open>Where a deposit is\<close>

definition deposits_wf :: "db_cache \<Rightarrow> bool" where
  "deposits_wf db \<longleftrightarrow> main_store_wf (MainChainStore db) \<and> finished_wf (FinishedTxsDbCache db)"

abbreviation cached :: "db_cache \<Rightarrow> string \<times> string \<Rightarrow> main_row option" where
  "cached db \<equiv> main_lookup (MainChainStore db)"
abbreviation finished :: "db_cache \<Rightarrow> string \<times> string \<Rightarrow> deposit_row option" where
  "finished db \<equiv> deposit_lookup (FinishedTxsDbCache db)"

definition known_deposits :: "db_cache \<Rightarrow> (string \<times> string) set" where
  "known_deposits db = dom (cached db) \<union> dom (finished db)"

abbreviation record_as where
  "record_as succeed \<equiv> (if succeed then AddSucceedDepositTxs else AddFailedDepositTxs)"

text \<open>One move, and any number of the same moves, in terms of the lookups.\<close>

definition moved :: "bool \<Rightarrow> (string \<times> string) set \<Rightarrow> db_cache \<Rightarrow> db_cache \<Rightarrow> bool" where
  "moved succeed ks db db' \<longleftrightarrow> deposits_wf db' \<and>
     (\<forall>k. cached db' k = (if k \<in> ks then None else cached db k) \<and>
          finished db' k = (case finished db k of Some r \<Rightarrow> Some r
            | None \<Rightarrow> if k \<in> ks then Some (deposit_row_of succeed k) else None))"

lemma movedD:
  assumes "moved b ks db db'"
  shows "cached db' k = (if k \<in> ks then None else cached db k)"
    "finished db' k = (case finished db k of Some r \<Rightarrow> Some r | None \<Rightarrow> if k \<in> ks then Some (deposit_row_of b k) else None)"
    "deposits_wf db'"
  using assms unfolding moved_def by blast+

lemma moved_keeps:
  assumes "moved b ks db db'"
  shows "known_deposits db \<subseteq> known_deposits db'"
proof
  fix k assume "k \<in> known_deposits db"
  then have "cached db k \<noteq> None \<or> finished db k \<noteq> None" by (simp add: known_deposits_def domIff)
  then have "cached db' k \<noteq> None \<or> finished db' k \<noteq> None"
    using movedD(1,2) [OF assms, of k] by (cases "finished db k") (simp_all split: if_splits)
  then show "k \<in> known_deposits db'" by (simp add: known_deposits_def domIff)
qed

lemma moved_refl: "deposits_wf db \<Longrightarrow> moved b {} db db"
  unfolding moved_def by (simp split: option.split)

lemma moved_again:
  assumes "moved b ks db db1" "moved b ks db1 db2"
  shows "moved b ks db db2"
  unfolding moved_def
proof (intro conjI allI)
  fix k
  show "cached db2 k = (if k \<in> ks then None else cached db k)"
    using movedD(1) [OF assms(1), of k] movedD(1) [OF assms(2), of k] by simp
  show "finished db2 k = (case finished db k of Some r \<Rightarrow> Some r | None \<Rightarrow> if k \<in> ks then Some (deposit_row_of b k) else None)"
    using movedD(2) [OF assms(1), of k] movedD(2) [OF assms(2), of k] by (cases "finished db k") simp_all
qed (rule movedD(3) [OF assms(2)])

lemma row_of_deposit_rows:
  "row_of deposit_key (map (deposit_row_of b) ks) k = (if k \<in> set ks then Some (deposit_row_of b k) else None)"
  by (induction ks) (auto simp: row_of_def deposit_row_of_def deposit_key_def)

lemma move_deposits_moved:
  assumes "good_io (ios k)" "good_io (ios (k + 1))" "deposits_wf db" "length hs = length gs"
  shows "moved b (set (zip hs gs)) db (move_deposits (record_as b) ios k hs gs db)"
proof -
  let ?ks = "zip hs gs"
  let ?st = "MainChainStore db" and ?fin = "FinishedTxsDbCache db"
  have m: "snd (RemoveMainChainTxs (ios k) hs gs ?st) = remove_main (ios k) ?ks ?st"
    and f: "snd (record_as b (ios (k + 1)) hs gs ?fin) = add_deposits b (ios (k + 1)) ?ks ?fin"
    using assms(4) by (simp_all add: remove_main_def add_deposits_def)
  have inv: "good_io (ios k) \<and> main_store_wf ?st" "good_io (ios (k + 1)) \<and> finished_wf ?fin"
    using assms(1-3) by (simp_all add: deposits_wf_def)
  have "deposits_wf (move_deposits (record_as b) ios k hs gs db)"
    unfolding deposits_wf_def move_deposits_def m f
    using main_txs.inv_remove [OF inv(1)] finished_deposits.inv_add [OF inv(2)] by simp
  moreover have "main_lookup (remove_main (ios k) ?ks ?st) x = (if x \<in> set ?ks then None else main_lookup ?st x)" for x
    by (rule main_txs.lookup_remove [OF inv(1)])
  moreover have "deposit_lookup (add_deposits b (ios (k + 1)) ?ks ?fin) x =
      (case deposit_lookup ?fin x of Some r \<Rightarrow> Some r | None \<Rightarrow> if x \<in> set ?ks then Some (deposit_row_of b x) else None)" for x
    unfolding finished_deposits.lookup_add [OF inv(2)] row_of_deposit_rows ..
  ultimately show ?thesis unfolding moved_def move_deposits_def m f by simp
qed

lemma move_times_moved:
  assumes "\<forall>i. good_io (ios i)" "deposits_wf db" "length hs = length gs"
  shows "moved b (if n = 0 then {} else set (zip hs gs)) db (move_times (record_as b) ios k n hs gs db)"
  using assms(2)
proof (induction n arbitrary: k db)
  case 0
  then show ?case by (simp add: moved_refl)
next
  case (Suc n)
  let ?db = "move_deposits (record_as b) ios k hs gs db"
  have one: "moved b (set (zip hs gs)) db ?db" using move_deposits_moved assms(1,3) Suc.prems by blast
  then have "deposits_wf ?db" by (simp add: moved_def)
  from Suc.IH [OF this, of "k + 2"] one moved_again [OF one] show ?case
    by (cases "n = 0") auto
qed

section \<open>Sending\<close>

definition answered :: "cross_env \<Rightarrow> side_chain \<Rightarrow> spv_transaction list \<Rightarrow> deposit_verdict \<Rightarrow> string \<Rightarrow> (string \<times> string) set" where
  "answered X sc txs v g = {(h, g) |h. (h, v) \<in> set (map (send_deposit X sc) txs)}"

lemma zip_const: "set (zip hs (map (\<lambda>_. g) hs)) = {(h, g) |h. h \<in> set hs}"
  by (induction hs) auto

text \<open>A batch is recorded in two moves, the failed ones first.\<close>

lemma send_moved:
  assumes "\<forall>i. good_io (ios i)" "deposits_wf db" "GetChain X g = Some sc" "CurrentConfig sc \<noteq> None"
    and "SendDepositTransactions X ios txs g db = (r, db')"
  shows "r = Done () \<and> (\<exists>db1. moved False (answered X sc txs DepositFailed g) db db1 \<and>
    moved True (answered X sc txs DepositSucceeded g) db1 db')"
proof -
  define hs where "hs v = map fst (filter (\<lambda>a. snd a = v) (map (send_deposit X sc) txs))" for v
  have keys: "(if length (hs v) = 0 then {} else set (zip (hs v) (map (\<lambda>_. g) (hs v)))) = answered X sc txs v g" for v
  proof -
    have "set (hs v) = {h. (h, v) \<in> set (map (send_deposit X sc) txs)}" by (auto simp: hs_def image_iff)
    then show ?thesis unfolding zip_const answered_def by auto
  qed
  let ?db1 = "move_times (record_as False) ios 0 (length (hs DepositFailed)) (hs DepositFailed) (map (\<lambda>_. g) (hs DepositFailed)) db"
  have one: "moved False (answered X sc txs DepositFailed g) db ?db1"
    unfolding keys [symmetric] using assms(1,2) by (intro move_times_moved) simp_all
  then have "deposits_wf ?db1" by (simp add: moved_def)
  then have "moved True (answered X sc txs DepositSucceeded g) ?db1
      (move_times (record_as True) ios (2 * length (hs DepositFailed)) (length (hs DepositSucceeded)) (hs DepositSucceeded)
        (map (\<lambda>_. g) (hs DepositSucceeded)) ?db1)"
    unfolding keys [symmetric] using assms(1) by (intro move_times_moved) simp_all
  with one show ?thesis using assms(3-5) by (auto simp: SendDepositTransactions_def Let_def hs_def)
qed

lemma answered_same:
  assumes "inj (HashString (xA X))" "tx \<in> set txs"
  shows "(fst (send_deposit X sc tx), g) \<in> answered X sc txs v g \<longleftrightarrow> snd (send_deposit X sc tx) = v"
  using assms(2) by (force simp: answered_def send_deposit_def Let_def image_iff dest: injD [OF assms(1)])

text \<open>C25: While the database answers, and different deposits have different hash texts: after a batch of deposits has been
  sent, the answer of the side chain's node decides each of them that was not finished before. What the node takes is
  recorded as succeeded and what it refuses as failed, both out of the cache; what is to be sent again stays as it was.\<close>

theorem sent_deposit_recorded:
  assumes "\<forall>i. good_io (ios i)" "deposits_wf db" "GetChain X g = Some sc" "CurrentConfig sc \<noteq> None"
    and "SendDepositTransactions X ios txs g db = (r, db')" "inj (HashString (xA X))" "tx \<in> set txs"
    and "send_deposit X sc tx = (h, v)" "deposit_lookup (FinishedTxsDbCache db) (h, g) = None"
  shows "main_lookup (MainChainStore db') (h, g) =
      (if v = DepositResend then main_lookup (MainChainStore db) (h, g) else None) \<and>
    deposit_lookup (FinishedTxsDbCache db') (h, g) =
      (if v = DepositResend then None else Some (deposit_row_of (v = DepositSucceeded) (h, g)))"
proof -
  obtain db1 where m: "moved False (answered X sc txs DepositFailed g) db db1"
    "moved True (answered X sc txs DepositSucceeded g) db1 db'"
    using send_moved [OF assms(1-5)] by blast
  have a: "(h, g) \<in> answered X sc txs w g \<longleftrightarrow> v = w" for w
    using answered_same [OF assms(6,7), of sc g w] assms(8) by simp
  show ?thesis
    using movedD(1,2) [OF m(1), of "(h, g)"] movedD(1,2) [OF m(2), of "(h, g)"] assms(9) unfolding a
    by (cases v) simp_all
qed

text \<open>A deposit that the side chain already has, and a deposit whose sending fails because the node cannot
  be reached, is recorded as failed and taken out of the cache: the test for the duplicate comes behind
  one that catches every error code but another one.\<close>

lemma duplicate_deposit_recorded_failed:
  assumes "\<forall>i. good_io (ios i)" "deposits_wf db" "GetChain X g = Some sc" "CurrentConfig sc \<noteq> None"
    and "SendDepositTransactions X ios txs g db = (r, db')" "inj (HashString (xA X))" "tx \<in> set txs"
    and "SendTransaction (xN X) (Key sc) (TxHash (xT X) (MainChainTransaction tx)) = Inl e \<or>
      (\<exists>resp. SendTransaction (xN X) (Key sc) (TxHash (xT X) (MainChainTransaction tx)) = Inr resp \<and>
        RespError resp \<and> RespCode resp = SCErrMainchainTxDuplicate)"
    and "h = HashString (xA X) (TxHash (xT X) (MainChainTransaction tx))"
    and "deposit_lookup (FinishedTxsDbCache db) (h, g) = None" "good_io io"
  shows "GetDepositTxByHashAndGenesisAddress io h g (FinishedTxsDbCache db') = Inr False \<and>
    HasMainChainTx io h g (MainChainStore db') = Inr False"
proof -
  obtain db1 where m: "moved False (answered X sc txs DepositFailed g) db db1"
    "moved True (answered X sc txs DepositSucceeded g) db1 db'"
    using send_moved [OF assms(1-5)] by blast
  have v: "send_deposit X sc tx = (h, DepositFailed)"
    using assms(8,9) by (auto simp: send_deposit_def deposit_verdict_def SCErrMainchainTxDuplicate_def ErrInvalidMainchainTx_def Let_def)
  have a: "(h, g) \<in> answered X sc txs w g \<longleftrightarrow> DepositFailed = w" for w
    using answered_same [OF assms(6,7), of sc g w] v by simp
  have l: "cached db' (h, g) = None" "finished db' (h, g) = Some (deposit_row_of False (h, g))"
    using movedD(1,2) [OF m(1), of "(h, g)"] movedD(1,2) [OF m(2), of "(h, g)"] assms(10) unfolding a by simp_all
  have wf: "deposits_wf db'" using m(2) by (simp add: moved_def)
  then have "select_first io (\<lambda>r. deposit_key r = (h, g)) (DepositTransactions (FinishedTxsDbCache db')) =
      Inr (Some (deposit_row_of False (h, g)))"
    using l(2) select_first_row_of [OF assms(11), of deposit_key] by (simp add: deposits_wf_def finished_wf_def deposit_lookup_def)
  moreover have "(h, g) \<notin> main_key ` set (MainChainTxs (MainChainStore db'))"
    using l(1) by (simp add: main_lookup_def row_of_None)
  then have "filter (\<lambda>r. MrTransactionHash r = h \<and> MrGenesisBlockAddress r = g) (MainChainTxs (MainChainStore db')) = []"
    by (auto simp: filter_empty_conv main_key_def)
  ultimately show ?thesis
    using good_ioD [OF assms(11)]
    by (simp add: GetDepositTxByHashAndGenesisAddress_def HasMainChainTx_def select_any_def deposit_row_of_def)
qed

section \<open>No deposit is lost\<close>

definition keeps :: "db_cache \<Rightarrow> db_cache \<Rightarrow> bool" where
  "keeps db db' \<longleftrightarrow> (deposits_wf db \<longrightarrow> deposits_wf db' \<and> known_deposits db \<subseteq> known_deposits db')"

lemma keeps_refl [simp]: "keeps db db" by (simp add: keeps_def)

lemma keeps_trans [trans]: "keeps db db1 \<Longrightarrow> keeps db1 db2 \<Longrightarrow> keeps db db2"
  by (auto simp: keeps_def)

lemma keeps_moved: "(deposits_wf db \<Longrightarrow> moved b ks db db') \<Longrightarrow> keeps db db'"
  unfolding keeps_def using moved_keeps movedD(3) by blast

lemma keeps_main:
  assumes "main_store_wf (MainChainStore db) \<Longrightarrow> main_store_wf st"
    and "dom (main_lookup (MainChainStore db)) \<subseteq> dom (main_lookup st)"
  shows "keeps db (db\<lparr>MainChainStore := st\<rparr>)"
  using assms by (auto simp: keeps_def deposits_wf_def known_deposits_def)

lemma keeps_height: "keeps db (db\<lparr>MainChainStore := snd (Main_CurrentHeight io h (MainChainStore db))\<rparr>)"
  by (rule keeps_main) (auto simp: Main_CurrentHeight_def Let_def case_prod_beta main_store_wf_def main_lookup_def)

lemma keeps_send:
  assumes "\<forall>i. good_io (ios i)"
  shows "keeps db (snd (SendDepositTransactions X ios txs g db))"
proof (cases "\<exists>sc. GetChain X g = Some sc \<and> CurrentConfig sc \<noteq> None")
  case True
  then obtain sc where sc: "GetChain X g = Some sc" "CurrentConfig sc \<noteq> None" by blast
  show ?thesis
    unfolding keeps_def
  proof
    assume wf: "deposits_wf db"
    obtain r db' where s: "SendDepositTransactions X ios txs g db = (r, db')" by fastforce
    obtain db1 where m: "moved False (answered X sc txs DepositFailed g) db db1"
      "moved True (answered X sc txs DepositSucceeded g) db1 db'"
      using send_moved [OF assms wf sc s] by blast
    show "deposits_wf (snd (SendDepositTransactions X ios txs g db)) \<and>
        known_deposits db \<subseteq> known_deposits (snd (SendDepositTransactions X ios txs g db))"
      using moved_keeps [OF m(1)] moved_keeps [OF m(2)] m(2) by (auto simp: s moved_def)
  qed
next
  case False
  then show ?thesis by (auto simp: SendDepositTransactions_def split: option.splits)
qed

lemma keeps_move:
  assumes "\<forall>i. good_io (ios i)"
  shows "keeps db (move_deposits AddSucceedDepositTxs ios k hs (map (\<lambda>_. g) hs) db)"
  using move_deposits_moved [of ios k _ hs "map (\<lambda>_. g) hs" True] assms by (intro keeps_moved) simp

lemma keeps_create:
  assumes "\<forall>i. good_io (ios i)"
  shows "keeps db (snd (createAndSendDepositTransactionsInDB X ios sc hs db))"
  using keeps_trans [OF keeps_move [OF assms] keeps_send [of "\<lambda>i. ios (i + 3)"]] keeps_move [OF assms] assms
  by (auto simp: createAndSendDepositTransactionsInDB_def Let_def split: sum.split)

lemma keeps_remove_received:
  assumes "\<forall>i. good_io (ios i)"
  shows "keeps db (snd (remove_received X ios k groups db))"
proof (induction groups arbitrary: k db)
  case (Cons x groups)
  obtain sc hashes where x: "x = (sc, hashes)" by (cases x)
  show ?case
  proof (cases "\<exists>c received. CurrentConfig sc = Some c \<and> GetExistDepositTransactions (xN X) (Key sc) hashes = Inr received")
    case True
    then obtain c received where *: "CurrentConfig sc = Some c" "GetExistDepositTransactions (xN X) (Key sc) hashes = Inr received"
      by blast
    let ?db = "move_deposits AddSucceedDepositTxs ios k received (map (\<lambda>_. Key sc) received) db"
    have "fst (RemoveMainChainTxs (ios k) received (map (\<lambda>_. Key sc) received) (MainChainStore db)) = Done ()"
      using assms by (simp add: RemoveMainChainTxs_def indexed_tx_good)
    then have "remove_received X ios k (x # groups) db = remove_received X ios (k + 2) groups ?db"
      using * by (cases "RemoveMainChainTxs (ios k) received (map (\<lambda>_. Key sc) received) (MainChainStore db)")
        (simp add: x move_deposits_def Let_def)
    then show ?thesis using keeps_trans [OF keeps_move [OF assms, of db k received "Key sc"] Cons.IH] by simp
  next
    case False
    then show ?thesis using Cons.IH by (auto simp: x split: sum.splits)
  qed
qed simp

lemma keeps_sync: "keeps db (snd (SyncChainData X ios db))"
proof -
  have reg: "keeps db (db\<lparr>RegisteredSideChainStore := reg\<rparr>)" for db reg
    by (simp add: keeps_def deposits_wf_def known_deposits_def)
  obtain chainHeight height need db1 where n: "main_needSyncBlocks X (ios 0) db = ((chainHeight, height, need), db1)"
    by (cases "main_needSyncBlocks X (ios 0) db") auto
  have one: "keeps db db1"
    using n keeps_height [of db "ios 0" QueryHeightCode]
    by (cases "MainNodeHeight (xN X)") (auto simp: main_needSyncBlocks_def split: prod.splits)
  show ?thesis
  proof (cases "need \<and> (\<exists>regs. GetRegisterTransactionByHeight (xN X) = Inr regs)")
    case True
    then obtain regs where regs: "need" "GetRegisterTransactionByHeight (xN X) = Inr regs" by blast
    obtain ok reg where s: "store_registrations (xW X) ios 2 regs regs (RegisteredSideChainStore db1) = (ok, reg)" by fastforce
    obtain h st where c: "Main_CurrentHeight (ios 1) chainHeight (MainChainStore db1) = (h, st)" by fastforce
    have two: "keeps db (db1\<lparr>RegisteredSideChainStore := reg\<rparr>)" using keeps_trans [OF one reg] .
    moreover have "keeps db (db1\<lparr>RegisteredSideChainStore := reg, MainChainStore := st\<rparr>)"
      using keeps_trans [OF two keeps_height [of "db1\<lparr>RegisteredSideChainStore := reg\<rparr>" "ios 1" chainHeight]] c by simp
    ultimately show ?thesis using n regs s c by (simp add: SyncChainData_def Let_def)
  next
    case False
    then show ?thesis using n one by (auto simp: SyncChainData_def split: sum.splits)
  qed
qed

lemma keeps_add:
  assumes "good_io io"
  shows "keeps db (db\<lparr>MainChainStore := snd (AddMainChainTxs L io txs (MainChainStore db))\<rparr>)"
proof (rule keeps_main)
  show "main_store_wf (MainChainStore db) \<Longrightarrow> main_store_wf (snd (AddMainChainTxs L io txs (MainChainStore db)))"
    using main_step_wf main_step.m_adds by blast
  show "dom (main_lookup (MainChainStore db)) \<subseteq> dom (main_lookup (snd (AddMainChainTxs L io txs (MainChainStore db))))"
    using assms by (auto simp: AddMainChainTxs_def with_tx_good main_lookup_def row_of_insert_rows good_ioD
        case_prod_beta Let_def split: option.split)
qed

text \<open>What happens to deposits, with a driver without faults: new ones are cached, cached ones are sent or
  found on their side chain, the main chain is followed, withdraws are recorded.\<close>

inductive deposit_step :: "cross_env \<Rightarrow> db_cache \<Rightarrow> db_cache \<Rightarrow> bool" for X where
  d_add: "good_io io \<Longrightarrow> deposit_step X db (db\<lparr>MainChainStore := snd (AddMainChainTxs L io txs (MainChainStore db))\<rparr>)"
| d_send: "\<forall>i. good_io (ios i) \<Longrightarrow> deposit_step X db (snd (createAndSendDepositTransactionsInDB X ios sc hs db))"
| d_check: "\<forall>i. good_io (ios i) \<Longrightarrow> deposit_step X db (snd (CheckAndRemoveDepositTransactionsFromDB X ios ord db))"
| d_sync: "deposit_step X db (snd (SyncChainData X ios db))"
| d_finished: "finished_step (FinishedTxsDbCache db) fin \<Longrightarrow> deposit_step X db (db\<lparr>FinishedTxsDbCache := fin\<rparr>)"

lemma deposit_rows_stay:
  "dom (deposit_lookup st) \<subseteq>
   dom (deposit_lookup (st\<lparr>DepositTransactions := snd (insert_rows deposit_key ok i rs (DepositTransactions st))\<rparr>))"
proof
  fix k assume "k \<in> dom (deposit_lookup st)"
  then have "k \<in> deposit_key ` set (DepositTransactions st)" by (metis deposit_lookup_def domIff row_of_None)
  then have "k \<in> deposit_key ` set (snd (insert_rows deposit_key ok i rs (DepositTransactions st)))"
    using insert_rows_prefix [of deposit_key ok i rs "DepositTransactions st"] by auto
  then show "k \<in> dom (deposit_lookup (st\<lparr>DepositTransactions := snd (insert_rows deposit_key ok i rs (DepositTransactions st))\<rparr>))"
    by (simp add: deposit_lookup_def domIff row_of_None)
qed

lemma finished_step_keeps_deposits: "finished_step st st' \<Longrightarrow> dom (deposit_lookup st) \<subseteq> dom (deposit_lookup st')"
proof (induction rule: finished_step.induct)
  case (f_dep_failed st io hs gs)
  show ?case
    by (simp add: AddFailedDepositTxs_def indexed_tx_def with_tx_def case_prod_beta Let_def)
      (use deposit_rows_stay in auto)
next
  case (f_dep_succeed st io hs gs)
  show ?case
    by (simp add: AddSucceedDepositTxs_def indexed_tx_def with_tx_def case_prod_beta Let_def)
      (use deposit_rows_stay in auto)
qed (auto simp: AddFailedRegisterTxs_def AddSucceedRegisterTx_def AddFailedWithdrawTxs_def AddSucceedWithdrawTxs_def
    AddSideChainTx_finished_def insert_side_tx_def indexed_tx_def with_tx_def deposit_lookup_def case_prod_beta Let_def)

lemma deposit_step_keeps: "deposit_step X db db' \<Longrightarrow> keeps db db'"
proof (induction rule: deposit_step.induct)
  case (d_check ios db ord)
  then show ?case
    using keeps_remove_received by (auto simp: CheckAndRemoveDepositTransactionsFromDB_def split: sum.split)
next
  case (d_finished db fin)
  then show ?case
    using finished_step_keeps_deposits finished_step_wf by (fastforce simp: keeps_def deposits_wf_def known_deposits_def)
qed (use keeps_add keeps_create keeps_sync in \<open>simp_all\<close>)

text \<open>With a driver without faults no deposit is lost: whatever the arbiter does, a deposit that is in the
  cache or among the finished ones stays in one of them, keyed by its hash and its side chain.\<close>

lemma no_deposit_lost:
  assumes "(deposit_step X)\<^sup>*\<^sup>* db db'" "deposits_wf db"
  shows "known_deposits db \<subseteq> known_deposits db'"
proof -
  have "keeps db db'" using assms(1)
    by (induction rule: rtranclp_induct) (auto intro: keeps_trans deposit_step_keeps)
  then show ?thesis using assms(2) by (simp add: keeps_def)
qed

text \<open>When the second store fails while deposits are moved, they are in neither: they have been taken out of
  the cache before, and the error is only logged.\<close>

lemma deposit_lost_on_fault:
  assumes "good_io (ios k)" "\<not> begin_ok (ios (k + 1))" "deposits_wf db" "length hs = length gs"
    and "x \<in> set (zip hs gs)" "deposit_lookup (FinishedTxsDbCache db) x = None"
  shows "x \<notin> known_deposits (move_deposits (if succeed then AddSucceedDepositTxs else AddFailedDepositTxs) ios k hs gs db)"
proof -
  have "snd (RemoveMainChainTxs (ios k) hs gs (MainChainStore db)) = remove_main (ios k) (zip hs gs) (MainChainStore db)"
    using assms(4) by (simp add: remove_main_def)
  moreover have "good_io (ios k) \<and> main_store_wf (MainChainStore db)" using assms(1,3) by (simp add: deposits_wf_def)
  from main_txs.lookup_remove [OF this] assms(5)
  have "main_lookup (remove_main (ios k) (zip hs gs) (MainChainStore db)) x = None" by simp
  moreover have "snd (record_as succeed (ios (k + 1)) hs gs (FinishedTxsDbCache db)) = FinishedTxsDbCache db"
    using assms(2) by (simp add: finished_pair_ops indexed_tx_def with_tx_def)
  ultimately show ?thesis using assms(6) by (simp add: known_deposits_def move_deposits_def domIff)
qed

section \<open>Witnesses\<close>

definition main_row0 :: main_row where
  "main_row0 = \<lparr>MrTransactionHash = ''h'', MrGenesisBlockAddress = ''K'', MrTransactionData = [], MrMerkleProof = []\<rparr>"

definition db5 :: db_cache where
  "db5 = db0\<lparr>MainChainStore := main0\<lparr>MainChainTxs := [main_row0]\<rparr>\<rparr>"

definition deposit_env :: "(go_error + rpc_resp) \<Rightarrow> cross_env" where
  "deposit_env r = xenv0\<lparr>xN := nodes0\<lparr>SendTransaction := (\<lambda>_ _. r)\<rparr>,
     xT := ops0\<lparr>TxHash := (\<lambda>tx. if PayloadVersion tx = 0 then [1] else [2])\<rparr>, xA := addr0\<lparr>HashString := map byte_char\<rparr>\<rparr>"

lemma db5_wf: "deposits_wf db5"
  using fin0_wf by (simp add: deposits_wf_def db5_def db0_def main_store_wf_def)

lemma deposit_env_sel: "GetChain (deposit_env r) ''K'' = Some chain0" "CurrentConfig chain0 \<noteq> None" "Key chain0 = ''K''"
  "SendTransaction (xN (deposit_env r)) k h = r" "TxHash (xT (deposit_env r)) tx = (if PayloadVersion tx = 0 then [1] else [2])"
  "HashString (xA (deposit_env r)) = map byte_char"
  by (simp_all add: deposit_env_def GetChain_def chain0_def)

lemma inj_hash: "inj (HashString (xA (deposit_env r)))"
proof -
  have "inj byte_char" by (rule inj_on_inverseI [of _ char_byte]) simp
  then show ?thesis by (simp add: deposit_env_sel inj_map)
qed

definition spv5 :: spv_transaction where
  "spv5 = \<lparr>MainChainTransaction = origin5, SpvProof = [4]\<rparr>"

lemma not_finished5: "deposit_lookup (FinishedTxsDbCache db5) x = None"
  by (simp add: deposit_lookup_def row_of_def db5_def db0_def fin0_def)

theorem sent_deposit_recorded_witness:
  "\<exists>db' :: db_cache. deposit_lookup (FinishedTxsDbCache db') ([byte_char 1], ''K'') = Some (deposit_row_of True ([byte_char 1], ''K''))"
proof -
  let ?X = "deposit_env (Inr \<lparr>RespError = False, RespCode = 0, RespResult = True\<rparr>)"
  obtain r db' where s: "SendDepositTransactions ?X (\<lambda>_. plain_io) [spv5] ''K'' db5 = (r, db')" by fastforce
  have v: "send_deposit ?X chain0 spv5 = ([byte_char 1], DepositSucceeded)"
    by (simp add: send_deposit_def deposit_env_sel deposit_verdict_def spv5_def origin5_def tx5_def)
  have good: "\<forall>i. good_io ((\<lambda>_ :: nat. plain_io) i)" and tx: "spv5 \<in> set [spv5]" by simp_all
  from sent_deposit_recorded [OF good db5_wf deposit_env_sel(1,2) s inj_hash tx v not_finished5]
  show ?thesis by auto
qed

lemma duplicate_deposit_recorded_failed_witness:
  "\<exists>db' :: db_cache. GetDepositTxByHashAndGenesisAddress plain_io [byte_char 1] ''K'' (FinishedTxsDbCache db') = Inr False"
proof -
  let ?r = "\<lparr>RespError = True, RespCode = SCErrMainchainTxDuplicate, RespResult = False\<rparr>"
  let ?X = "deposit_env (Inr ?r)"
  obtain r db' where s: "SendDepositTransactions ?X (\<lambda>_. plain_io) [spv5] ''K'' db5 = (r, db')" by fastforce
  have good: "\<forall>i. good_io ((\<lambda>_ :: nat. plain_io) i)" and tx: "spv5 \<in> set [spv5]" by simp_all
  have answer: "SendTransaction (xN ?X) (Key chain0) (TxHash (xT ?X) (MainChainTransaction spv5)) = Inl ExtErr \<or>
      (\<exists>resp. SendTransaction (xN ?X) (Key chain0) (TxHash (xT ?X) (MainChainTransaction spv5)) = Inr resp \<and>
        RespError resp \<and> RespCode resp = SCErrMainchainTxDuplicate)"
    by (simp add: deposit_env_sel)
  have h: "[byte_char 1] = HashString (xA ?X) (TxHash (xT ?X) (MainChainTransaction spv5))"
    by (simp add: deposit_env_sel spv5_def origin5_def tx5_def)
  from duplicate_deposit_recorded_failed [OF good db5_wf deposit_env_sel(1,2) s inj_hash tx answer h not_finished5 good_plain_io]
  show ?thesis by blast
qed

lemma no_deposit_lost_witness:
  "(''h'', ''K'') \<in> known_deposits (snd (createAndSendDepositTransactionsInDB xenv0 (\<lambda>_. plain_io) chain0 [''h''] db5))"
proof -
  have "(deposit_step xenv0)\<^sup>*\<^sup>* db5 (snd (createAndSendDepositTransactionsInDB xenv0 (\<lambda>_. plain_io) chain0 [''h''] db5))"
    by (rule r_into_rtranclp, rule d_send) simp
  from no_deposit_lost [OF this db5_wf] show ?thesis
    by (auto simp: known_deposits_def db5_def main_lookup_def row_of_def main_key_def main_row0_def domIff)
qed

lemma deposit_lost_on_fault_witness:
  "(''h'', ''K'') \<in> known_deposits db5 \<and>
   (''h'', ''K'') \<notin> known_deposits (move_deposits AddSucceedDepositTxs
     (\<lambda>i. if i = 0 then plain_io else plain_io\<lparr>begin_ok := False\<rparr>) 0 [''h''] [''K''] db5)"
proof -
  have "(''h'', ''K'') \<in> known_deposits db5"
    by (auto simp: known_deposits_def db5_def main_lookup_def row_of_def main_key_def main_row0_def domIff)
  moreover have "(''h'', ''K'') \<notin> known_deposits (move_deposits (record_as True)
     (\<lambda>i. if i = 0 then plain_io else plain_io\<lparr>begin_ok := False\<rparr>) 0 [''h''] [''K''] db5)"
    by (rule deposit_lost_on_fault) (simp_all add: db5_wf not_finished5)
  ultimately show ?thesis by simp
qed

end
