(* ===== verification/Side_Chains.thy ===== *)
theory Side_Chains
  imports Main_Chain
begin

text \<open>
  The side chains and their manager (\<open>arbitration/sidechain/sidechainimpl.go\<close>, \<open>sidechainmanager.go\<close>):
  what the monitor reports goes into the cache of the side chain; the arbiter on duty makes proposals of
  what waits there; what the main chain has is moved to the finished transactions. An operation returns
  its outcome, the transactions it proposes, and the stores; errors that are only logged leave no trace.
\<close>

datatype proposal = MultisigProposal transaction | SchnorrProposal transaction

section \<open>What the monitor reports\<close>

text \<open>A transaction that cannot be written is left out. The hash is a pointer.\<close>

fun withdraw_rows :: "cross_env \<Rightarrow> u32 \<Rightarrow> withdraw_tx list \<Rightarrow> side_chain_transaction list option" where
  "withdraw_rows X blockHeight [] = Some []"
| "withdraw_rows X blockHeight (t # ts) =
     (case WithdrawTx_Serialize (xW X) t [] of
        (Some e, _) \<Rightarrow> if e = GoPanic then None else withdraw_rows X blockHeight ts
      | (None, buf) \<Rightarrow>
          (case Txid t of
             None \<Rightarrow> None
           | Some h \<Rightarrow>
               map_option ((#) \<lparr>ScTransactionHash = HashString (xA X) h, ScTransaction = buf, ScBlockHeight = blockHeight\<rparr>)
                 (withdraw_rows X blockHeight ts)))"

definition OnUTXOChanged ::
    "cross_env \<Rightarrow> db_io \<Rightarrow> side_chain \<Rightarrow> withdraw_tx list \<Rightarrow> u32 \<Rightarrow> db_cache \<Rightarrow> unit outcome \<times> db_cache" where
  "OnUTXOChanged X io sc withdrawTxs blockHeight db =
     (if withdrawTxs = [] then (Fail (Err ''[OnUTXOChanged] received withdrawTx, but size is 0''), db)
      else (case (withdraw_rows X blockHeight withdrawTxs, CurrentConfig sc) of
        (Some txs, Some c) \<Rightarrow>
          (case GetDataStoreByDBName (CfgName c) db of
             None \<Rightarrow> (Fail (Err ''can't find db by genesis side chain name:''), db)
           | Some st \<Rightarrow>
               (case AddSideChainTxs io txs st of
                  (res, st') \<Rightarrow> (case res of Inl e \<Rightarrow> Fail e | Inr _ \<Rightarrow> Done (), on_name (CfgName c) (\<lambda>_. st') db)))
      | _ \<Rightarrow> (Panic, db)))"

fun nft_rows :: "cross_env \<Rightarrow> u32 \<Rightarrow> nft_destroy_tx list \<Rightarrow> nft_destroy_transaction list" where
  "nft_rows X blockHeight [] = []"
| "nft_rows X blockHeight (t # ts) =
     (case NFTDestroyTx_Serialize (xW X) t [] of
        (Some e, _) \<Rightarrow> nft_rows X blockHeight ts
      | (None, buf) \<Rightarrow>
          \<lparr>NftID = HashString (xA X) (ID t), NftTransaction = buf, NftBlockHeight = blockHeight\<rparr> # nft_rows X blockHeight ts)"

definition OnNFTChanged ::
    "cross_env \<Rightarrow> db_io \<Rightarrow> side_chain \<Rightarrow> nft_destroy_tx list \<Rightarrow> u32 \<Rightarrow> db_cache \<Rightarrow> unit outcome \<times> db_cache" where
  "OnNFTChanged X io sc nftDestroyTxs blockHeight db =
     (if nftDestroyTxs = [] then (Fail (Err ''[OnUTXOChanged] received destroy NFT tx, but size is 0''), db)
      else (case CurrentConfig sc of
        None \<Rightarrow> (Panic, db)
      | Some c \<Rightarrow>
          (case GetDataStoreByDBName (CfgName c) db of
             None \<Rightarrow> (Fail (Err ''can't find db by genesis side chain name:''), db)
           | Some st \<Rightarrow>
               (case AddNFTDestroyTxs io (nft_rows X blockHeight nftDestroyTxs) st of
                  (res, st') \<Rightarrow> (case res of Inl e \<Rightarrow> Fail e | Inr _ \<Rightarrow> Done (), on_name (CfgName c) (\<lambda>_. st') db)))))"

section \<open>Proposals of withdrawals\<close>

definition MinCrossChainTxFee :: fixed64 where "MinCrossChainTxFee = 10000"

text \<open>What is not worth a proposal: an asset without amount, with too small a fee, for an address that is
  none or frozen.\<close>

definition ignored_asset :: "cross_env \<Rightarrow> withdraw_asset \<Rightarrow> bool" where
  "ignored_asset X w \<longleftrightarrow> CrossChainAmount w \<le>s 0 \<or> Amount w - CrossChainAmount w <s MinCrossChainTxFee \<or>
     Uint168FromAddress (xA X) (TargetAddress w) = None \<or> TargetAddress w \<in> set (FrozenAddresses X)"

fun target_transactions :: "cross_env \<Rightarrow> withdraw_tx list \<Rightarrow> withdraw_tx list option" where
  "target_transactions X [] = Some []"
| "target_transactions X (t # ts) =
     (case WithdrawInfo t of
        None \<Rightarrow> None
      | Some info \<Rightarrow>
          if list_ex (ignored_asset X) (WithdrawAssets info) \<or> WithdrawAssets info = [] then target_transactions X ts
          else map_option ((#) t) (target_transactions X ts))"

text \<open>
  Proposals of the first 100, 200, .. transactions and of all of them; the last one that is not too large is
  kept. An error of the builder is logged and skipped.
\<close>

function grow ::
    "(nat \<Rightarrow> 'a list \<Rightarrow> db_cache \<Rightarrow> (go_error + transaction) \<times> db_cache) \<Rightarrow> (transaction \<Rightarrow> bool) \<Rightarrow>
     'a list \<Rightarrow> nat \<Rightarrow> transaction option \<Rightarrow> db_cache \<Rightarrow> transaction option outcome \<times> db_cache" where
  "grow create fits xs i wTx db =
     (if length xs \<le> i then (Done wTx, db)
      else (case create i (take (i + 100) xs) db of
              (Inl e, db') \<Rightarrow> if e = GoPanic then (Panic, db') else grow create fits xs (i + 100) wTx db'
            | (Inr tx, db') \<Rightarrow> grow create fits xs (i + 100) (if fits tx then Some tx else wTx) db'))"
  by pat_completeness auto
termination by (relation "measure (\<lambda>(_, _, xs, i, _, _). length xs - i)") auto

declare grow.simps [simp del]

definition CreateAndBroadcastWithdrawProposal ::
    "cross_env \<Rightarrow> (nat \<Rightarrow> db_io) \<Rightarrow> side_chain \<Rightarrow> string list \<Rightarrow> db_cache \<Rightarrow> unit outcome \<times> proposal list \<times> db_cache" where
  "CreateAndBroadcastWithdrawProposal X ios sc txnHashes db =
     (case CurrentConfig sc of
        None \<Rightarrow> (Panic, [], db)
      | Some c \<Rightarrow>
     (case GetDataStoreByDBName (CfgName c) db of
        None \<Rightarrow> (Fail (Err ''can't find db by genesis side chain name:''), [], db)
      | Some st \<Rightarrow>
     (case GetSideChainTxsFromHashes (xW X) (ios 0) txnHashes st of
        Inl e \<Rightarrow> (Fail e, [], db)
      | Inr unsolvedTransactions \<Rightarrow>
     (if unsolvedTransactions = [] then (Done (), [], db)
      else (case target_transactions X unsolvedTransactions of
        None \<Rightarrow> (Panic, [], db)
      | Some targetTransactions \<Rightarrow>
     (case Main_CurrentHeight (ios 1) QueryHeightCode (MainChainStore db) of
        (mcHeight, ms) \<Rightarrow>
          (let schnorr = SchnorrStartHeight (xCfg X) \<le> mcHeight;
               create = (\<lambda>i txs db'.
                 if schnorr then CreateSchnorrWithdrawTransaction X (ios (i + 2)) sc txs db'
                 else if NewCrossChainTransactionHeight (xCfg X) \<le> mcHeight
                 then CreateWithdrawTransactionV1 X (ios (i + 2)) sc txs db'
                 else CreateWithdrawTransactionV0 X (ios (i + 2)) sc txs db')
           in case grow create (\<lambda>tx. TxGetSize (xT X) tx < MaxBlockContextSize X) targetTransactions 0 None
                     (db\<lparr>MainChainStore := ms\<rparr>) of
                (Done (Some wTx), db') \<Rightarrow> (Done (), [if schnorr then SchnorrProposal wTx else MultisigProposal wTx], db')
              | (Done None, db') \<Rightarrow> (Fail (Err ''[CreateAndBroadcastWithdrawProposal] failed''), [], db')
              | (_, db') \<Rightarrow> (Panic, [], db'))))))))"

text \<open>The argument of the height is not used by the code. The database object is looked up once.\<close>

definition SendCachedWithdrawTxs ::
    "cross_env \<Rightarrow> (nat \<Rightarrow> db_io) \<Rightarrow> side_chain \<Rightarrow> db_cache \<Rightarrow> unit outcome \<times> proposal list \<times> db_cache" where
  "SendCachedWithdrawTxs X ios sc db =
     (case CurrentConfig sc of
        None \<Rightarrow> (Panic, [], db)
      | Some c \<Rightarrow>
     (case GetDataStoreByDBName (CfgName c) db of
        None \<Rightarrow> (Done (), [], db)
      | Some st \<Rightarrow>
     (case GetAllSideChainTxHashesAndHeights (ios 0) st of
        Inl e \<Rightarrow> (Done (), [], db)
      | Inr (allHashes, blockHeights) \<Rightarrow>
     (if allHashes = [] then (Done (), [], db)
      else (let txHashes = take (MaxTxsPerWithdrawTx X) allHashes
            in case GetExistWithdrawTransactions (xN X) txHashes of
                 Inl e \<Rightarrow> (Done (), [], db)
               | Inr receivedTxs \<Rightarrow>
     (case SubstractTransactionHashesAndBlockHeights txHashes blockHeights receivedTxs of
        Done (unsolvedTxs, _) \<Rightarrow>
          (case (if unsolvedTxs \<noteq> [] then CreateAndBroadcastWithdrawProposal X (\<lambda>i. ios (i + 3)) sc unsolvedTxs db
                 else (Done (), [], db)) of
             (Panic, ps, db1) \<Rightarrow> (Panic, ps, db1)
           | (_, ps, db1) \<Rightarrow>
               if receivedTxs = [] then (Done (), ps, db1)
               else (case RemoveSideChainTxs (ios 1) receivedTxs st of
                 (res, st') \<Rightarrow>
                   (let db2 = on_name (CfgName c) (\<lambda>_. st') db1
                    in case res of
                         Inl e \<Rightarrow> (Done (), ps, db2)
                       | Inr _ \<Rightarrow> (Done (), ps, db2\<lparr>FinishedTxsDbCache :=
                           snd (AddSucceedWithdrawTxs (ios 2) receivedTxs (FinishedTxsDbCache db2))\<rparr>))))
      | _ \<Rightarrow> (Panic, [], db)))))))"

section \<open>Proposals of NFT transactions and refunds\<close>

definition CreateAndBroadcastNFTDestroyProposal ::
    "cross_env \<Rightarrow> (nat \<Rightarrow> db_io) \<Rightarrow> side_chain \<Rightarrow> string list \<Rightarrow> db_cache \<Rightarrow> unit outcome \<times> proposal list \<times> db_cache" where
  "CreateAndBroadcastNFTDestroyProposal X ios sc nftIDs db =
     (case CurrentConfig sc of
        None \<Rightarrow> (Panic, [], db)
      | Some c \<Rightarrow>
     (case GetDataStoreByDBName (CfgName c) db of
        None \<Rightarrow> (Fail (Err ''can't find db by genesis side chain name:''), [], db)
      | Some st \<Rightarrow>
     (case GetNFTDestroyTxsFromIDs (xW X) (ios 0) nftIDs st of
        Inl e \<Rightarrow> (Fail e, [], db)
      | Inr unsolvedTransactions \<Rightarrow>
     (if unsolvedTransactions = [] then (Done (), [], db)
      else (case Main_CurrentHeight (ios 1) QueryHeightCode (MainChainStore db) of
        (mcHeight, ms) \<Rightarrow>
          (case grow (\<lambda>_ txs db'. (CreateNFTDestroyFromSideChainTx X sc txs, db'))
                  (\<lambda>tx. TxGetSize (xT X) tx < MaxBlockContextSize X) unsolvedTransactions 0 None
                  (db\<lparr>MainChainStore := ms\<rparr>) of
             (Done (Some wTx), db') \<Rightarrow> (Done (), [MultisigProposal wTx], db')
           | (Done None, db') \<Rightarrow> (Fail (Err ''[CreateAndBroadcastWithdrawProposal] failed''), [], db')
           | (_, db') \<Rightarrow> (Panic, [], db')))))))"

definition SendCachedNFTDestroyTxs ::
    "cross_env \<Rightarrow> (nat \<Rightarrow> db_io) \<Rightarrow> side_chain \<Rightarrow> u32 \<Rightarrow> db_cache \<Rightarrow> unit outcome \<times> proposal list \<times> db_cache" where
  "SendCachedNFTDestroyTxs X ios sc height db =
     (case CurrentConfig sc of
        None \<Rightarrow> (Panic, [], db)
      | Some c \<Rightarrow>
     (if \<not> SupportNFT c \<or> height < NFTStartHeight (xCfg X) then (Done (), [], db)
      else (case GetDataStoreByDBName (CfgName c) db of
        None \<Rightarrow> (Done (), [], db)
      | Some st \<Rightarrow>
     (case GetAllNFTDestroyID (ios 0) st of
        Inl e \<Rightarrow> (Done (), [], db)
      | Inr ids \<Rightarrow>
     (if ids = [] then (Done (), [], db)
      else (let needDestoryNFTIDs = take (MaxTxsPerWithdrawTx X) ids
            in case GetCanNFTDestroyIDs (xN X) needDestoryNFTIDs (GenesisBlock c) of
                 Inl e \<Rightarrow> (Done (), [], db)
               | Inr canDestroyIDs \<Rightarrow>
                   (let canDestroyNFTIDs = GetCanDestroyNFTIDs canDestroyIDs needDestoryNFTIDs
                    in if canDestroyNFTIDs = [] then (Done (), [], db)
                       else (case CreateAndBroadcastNFTDestroyProposal X (\<lambda>i. ios (i + 1)) sc canDestroyNFTIDs db of
                               (Panic, ps, db') \<Rightarrow> (Panic, ps, db')
                             | (_, ps, db') \<Rightarrow> (Done (), ps, db')))))))))"

definition CreateAndBroadcastFailedDepositTxsProposal ::
    "cross_env \<Rightarrow> (nat \<Rightarrow> db_io) \<Rightarrow> side_chain \<Rightarrow> failed_deposit_tx list \<Rightarrow> db_cache \<Rightarrow> unit outcome \<times> proposal list \<times> db_cache" where
  "CreateAndBroadcastFailedDepositTxsProposal X ios sc failedTxs db =
     (if failedTxs = [] then (Done (), [], db)
      else (case grow (\<lambda>i txs db'. CreateFailedDepositTransaction X (ios i) sc txs db')
                  (\<lambda>tx. TxGetSize (xT X) tx < MaxBlockContextSize X) failedTxs 0 None db of
              (Done (Some rtx), db') \<Rightarrow> (Done (), [MultisigProposal rtx], db')
            | (Done None, db') \<Rightarrow> (Fail (Err ''[CreateAndBroadcastFailedDepositTxsProposal] failed''), [], db')
            | (_, db') \<Rightarrow> (Panic, [], db')))"

text \<open>The stored bytes at the positions of the unsolved hashes.\<close>

fun read_failed_deposits :: "wire \<Rightarrow> bytes list \<Rightarrow> nat list \<Rightarrow> failed_deposit_tx list option" where
  "read_failed_deposits W txBytes [] = Some []"
| "read_failed_deposits W txBytes (j # js) =
     (if length txBytes \<le> j then None
      else (case FailedDepositTx_Deserialize W (fresh_failed_deposit_tx, txBytes ! j) of
              (Some e, _) \<Rightarrow> None
            | (None, (t, _)) \<Rightarrow> map_option ((#) t) (read_failed_deposits W txBytes js)))"

definition SendCachedReturnDepositTxs ::
    "cross_env \<Rightarrow> (nat \<Rightarrow> db_io) \<Rightarrow> side_chain \<Rightarrow> db_cache \<Rightarrow> unit outcome \<times> proposal list \<times> db_cache" where
  "SendCachedReturnDepositTxs X ios sc db =
     (case CurrentConfig sc of
        None \<Rightarrow> (Panic, [], db)
      | Some c \<Rightarrow>
     (case GetDataStoreByDBName (CfgName c) db of
        None \<Rightarrow> (Done (), [], db)
      | Some st \<Rightarrow>
     (case GetAllReturnDepositTx (ios 0) (Key sc) st of
        Done (txBytes, txHashes) \<Rightarrow>
          (if txHashes = [] then (Done (), [], db)
           else (case GetExistReturnDepositTransactions (xN X) txHashes of
             Inl e \<Rightarrow> (Done (), [], db)
           | Inr receivedTxs \<Rightarrow>
               (case SubstractReturnDepositTransactionHashes txHashes receivedTxs of
                  (unsolvedTxs, indexes) \<Rightarrow>
                    (case (if unsolvedTxs = [] then Some (Done (), [], db)
                           else (case read_failed_deposits (xW X) txBytes indexes of
                                   None \<Rightarrow> None
                                 | Some failedTxs \<Rightarrow>
                                     Some (CreateAndBroadcastFailedDepositTxsProposal X (\<lambda>i. ios (i + 2)) sc failedTxs db))) of
                       None \<Rightarrow> (Done (), [], db)
                     | Some (Done _, ps, db1) \<Rightarrow>
                         if receivedTxs = [] then (Done (), ps, db1)
                         else (Done (), ps, on_name (CfgName c) (\<lambda>_. snd (RemoveReturnDepositTxs (ios 1) receivedTxs st)) db1)
                     | Some (Panic, ps, db1) \<Rightarrow> (Panic, ps, db1)
                     | Some (_, ps, db1) \<Rightarrow> (Done (), ps, db1)))))
      | Panic \<Rightarrow> (Panic, [], db)
      | _ \<Rightarrow> (Done (), [], db))))"

section \<open>The manager\<close>

text \<open>A side chain whose cache is empty ends the whole round (\<open>return nil\<close>).\<close>

fun remove_withdraws_of ::
    "cross_env \<Rightarrow> (nat \<Rightarrow> db_io) \<Rightarrow> nat \<Rightarrow> side_store list \<Rightarrow> finished_store \<Rightarrow>
     unit outcome \<times> side_store list \<times> finished_store" where
  "remove_withdraws_of X ios k [] fin = (Done (), [], fin)"
| "remove_withdraws_of X ios k (s # ss) fin =
     (case GetAllSideChainTxHashes (ios k) s of
        Inl e \<Rightarrow> (Fail e, s # ss, fin)
      | Inr txHashes \<Rightarrow>
          if txHashes = [] then (Done (), s # ss, fin)
          else (case GetExistWithdrawTransactions (xN X) txHashes of
            Inl e \<Rightarrow> (Fail e, s # ss, fin)
          | Inr receivedTxs \<Rightarrow>
              if receivedTxs = [] then
                (case remove_withdraws_of X ios (k + 3) ss fin of (r, ss', fin') \<Rightarrow> (r, s # ss', fin'))
              else (case RemoveSideChainTxs (ios (k + 1)) receivedTxs s of
                (Inl e, s') \<Rightarrow> (Fail e, s' # ss, fin)
              | (Inr _, s') \<Rightarrow>
                  (case AddSucceedWithdrawTxs (ios (k + 2)) receivedTxs fin of
                     (Inl e, fin1) \<Rightarrow> (Fail e, s' # ss, fin1)
                   | (Inr _, fin1) \<Rightarrow>
                       (case remove_withdraws_of X ios (k + 3) ss fin1 of (r, ss', fin') \<Rightarrow> (r, s' # ss', fin'))))))"

definition CheckAndRemoveWithdrawTransactionsFromDB ::
    "cross_env \<Rightarrow> (nat \<Rightarrow> db_io) \<Rightarrow> db_cache \<Rightarrow> unit outcome \<times> db_cache" where
  "CheckAndRemoveWithdrawTransactionsFromDB X ios db =
     (case remove_withdraws_of X ios 0 (SideChainStore db) (FinishedTxsDbCache db) of
        (r, ss, fin) \<Rightarrow> (r, db\<lparr>SideChainStore := ss, FinishedTxsDbCache := fin\<rparr>))"

fun remove_returns_of ::
    "cross_env \<Rightarrow> (nat \<Rightarrow> db_io) \<Rightarrow> nat \<Rightarrow> side_store list \<Rightarrow> unit outcome \<times> side_store list" where
  "remove_returns_of X ios k [] = (Done (), [])"
| "remove_returns_of X ios k (s # ss) =
     (case GetAllReturnDepositTxs (ios k) s of
        Done txHashes \<Rightarrow>
          if txHashes = [] then (Done (), s # ss)
          else (case GetExistReturnDepositTransactions (xN X) txHashes of
            Inl e \<Rightarrow> (Fail e, s # ss)
          | Inr receivedTxs \<Rightarrow>
              if receivedTxs = [] then
                (case remove_returns_of X ios (k + 2) ss of (r, ss') \<Rightarrow> (r, s # ss'))
              else (case RemoveReturnDepositTxs (ios (k + 1)) receivedTxs s of
                (Inl e, s') \<Rightarrow> (Fail e, s' # ss)
              | (Inr _, s') \<Rightarrow> (case remove_returns_of X ios (k + 2) ss of (r, ss') \<Rightarrow> (r, s' # ss'))))
      | Fail e \<Rightarrow> (Fail e, s # ss)
      | Panic \<Rightarrow> (Panic, s # ss)
      | Blocked \<Rightarrow> (Blocked, s # ss))"

definition CheckAndRemoveReturnDepositTransactionsFromDB ::
    "cross_env \<Rightarrow> (nat \<Rightarrow> db_io) \<Rightarrow> db_cache \<Rightarrow> unit outcome \<times> db_cache" where
  "CheckAndRemoveReturnDepositTransactionsFromDB X ios db =
     (case remove_returns_of X ios 0 (SideChainStore db) of (r, ss) \<Rightarrow> (r, db\<lparr>SideChainStore := ss\<rparr>))"

definition AddChain :: "string \<Rightarrow> side_chain \<Rightarrow> (string \<times> side_chain) list \<Rightarrow> (string \<times> side_chain) list" where
  "AddChain key chain m = AList.update key chain m"

text \<open>At the start every configured chain is added under its address.\<close>

definition Init_chains :: "side_config list \<Rightarrow> (string \<times> side_chain) list" where
  "Init_chains sideNodeList =
     foldl (\<lambda>m c. AddChain (GenesisBlockAddress c) \<lparr>Key = GenesisBlockAddress c, CurrentConfig = Some c\<rparr> m) [] sideNodeList"

end
