(* ===== verification/Monitor.thy ===== *)
theory Monitor
  imports Side_Chains
begin

text \<open>
  The monitor of the side chains (\<open>arbitration/sidechain/sidechainaccountmoniter.go\<close>): block by block it
  asks the node of a side chain for withdraws, evidence of illegal behaviour, failed deposits and NFT
  transactions, and puts them into the caches. The calls of the stores take their driver faults from
  \<open>ios\<close> one after the other; the number of calls so far is part of the state.
\<close>

section \<open>Listeners\<close>

text \<open>The map from addresses to listeners; \<open>None\<close> is the nil map.\<close>

type_synonym listeners = "(string \<times> side_chain) list option"

definition AddListener :: "side_chain \<Rightarrow> listeners \<Rightarrow> listeners" where
  "AddListener sc m = Some (AList.update (Key sc) sc (case m of None \<Rightarrow> [] | Some l \<Rightarrow> l))"

definition RemoveListener :: "string \<Rightarrow> listeners \<Rightarrow> go_error option \<times> listeners" where
  "RemoveListener account m =
     (case m of
        None \<Rightarrow> (None, m)
      | Some l \<Rightarrow>
          if map_of l account = None then (Some (Err ''do not exist listener''), m)
          else (None, Some (AList.delete account l)))"

definition fireUTXOChanged ::
    "cross_env \<Rightarrow> listeners \<Rightarrow> db_io \<Rightarrow> withdraw_tx list \<Rightarrow> string \<Rightarrow> u32 \<Rightarrow> db_cache \<Rightarrow> unit outcome \<times> db_cache" where
  "fireUTXOChanged X m io withdrawTxs address blockHeight db =
     (case m of
        None \<Rightarrow> (Done (), db)
      | Some l \<Rightarrow>
          (case map_of l address of
             None \<Rightarrow> (Fail (Err ''fired unknown listener''), db)
           | Some item \<Rightarrow> OnUTXOChanged X io item withdrawTxs blockHeight db))"

definition fireNFTChanged ::
    "cross_env \<Rightarrow> listeners \<Rightarrow> db_io \<Rightarrow> nft_destroy_tx list \<Rightarrow> string \<Rightarrow> u32 \<Rightarrow> db_cache \<Rightarrow> unit outcome \<times> db_cache" where
  "fireNFTChanged X m io nftDestroyTxs address blockHeight db =
     (case m of
        None \<Rightarrow> (Done (), db)
      | Some l \<Rightarrow>
          (case map_of l address of
             None \<Rightarrow> (Fail (Err ''fired unknown listener''), db)
           | Some item \<Rightarrow> OnNFTChanged X io item nftDestroyTxs blockHeight db))"

section \<open>Withdraws of one block\<close>

text \<open>An asset that cannot be paid is left out.\<close>

definition monitored_asset :: "cross_env \<Rightarrow> withdraw_output_info \<Rightarrow> withdraw_asset option" where
  "monitored_asset X w =
     (case (StringToFixed64 (xA X) (OutputAmount w), StringToFixed64 (xA X) (InfoCrossChainAmount w),
            Uint168FromAddress (xA X) (CrossChainAddress w)) of
        (Some opAmount, Some csAmount, Some programHash) \<Rightarrow>
          if CrossChainAddress w \<in> set (FrozenAddresses X) then None
          else if ToAddress (xA X) programHash \<noteq> Some (CrossChainAddress w) then None
          else Some \<lparr>TargetAddress = CrossChainAddress w, Amount = opAmount, CrossChainAmount = csAmount,
                     TargetData = InfoTargetData w\<rparr>
      | _ \<Rightarrow> None)"

definition monitored_hash :: "cross_env \<Rightarrow> string \<Rightarrow> uint256 option" where
  "monitored_hash X txID =
     (case HexStringToBytes (xC X) txID of
        None \<Rightarrow> None
      | Some bs \<Rightarrow> Uint256FromBytes (xA X) (BytesReverse (xA X) bs))"

definition monitored_tx :: "cross_env \<Rightarrow> withdraw_tx_info \<Rightarrow> withdraw_tx option" where
  "monitored_tx X txn =
     (case monitored_hash X (InfoTxID txn) of
        None \<Rightarrow> None
      | Some hash \<Rightarrow>
          (let withdrawAssets = List.map_filter (monitored_asset X) (CrossChainAssets txn)
           in if withdrawAssets = [] then None
              else Some \<lparr>Txid = Some hash, WithdrawInfo = Some \<lparr>WithdrawAssets = withdrawAssets\<rparr>\<rparr>))"

text \<open>The hash under which the cache is asked is the hexadecimal form of the reversed bytes.\<close>

definition cache_hash :: "cross_env \<Rightarrow> withdraw_tx_info \<Rightarrow> string" where
  "cache_hash X txn =
     BytesToHexString (xC X) (BytesReverse (xA X) (the (HexStringToBytes (xC X) (InfoTxID txn))))"

fun new_withdraws ::
    "cross_env \<Rightarrow> (nat \<Rightarrow> db_io) \<Rightarrow> nat \<Rightarrow> side_store option \<Rightarrow> withdraw_tx_info list \<Rightarrow> withdraw_tx list \<times> nat" where
  "new_withdraws X ios k st [] = ([], k)"
| "new_withdraws X ios k st (txn # txns) =
     (case (monitored_tx X txn, st) of
        (Some t, Some s) \<Rightarrow>
          (case new_withdraws X ios (k + 1) st txns of
             (ts, k') \<Rightarrow> (if HasSideChainTx (ios k) (cache_hash X txn) s = Inr True then ts else t # ts, k'))
      | _ \<Rightarrow> new_withdraws X ios k st txns)"

record scan_state =
  ScanHeight :: u32
  ScanCount :: u32
  ScanDb :: db_cache
  ScanTick :: nat

definition processTransactions ::
    "cross_env \<Rightarrow> listeners \<Rightarrow> (nat \<Rightarrow> db_io) \<Rightarrow> withdraw_tx_info list \<Rightarrow> string \<Rightarrow> u32 \<Rightarrow> scan_state \<Rightarrow>
     unit outcome \<times> scan_state" where
  "processTransactions X m ios transactions address blockHeight s =
     (case new_withdraws X ios (ScanTick s) (GetDataStoreGenesisBlocAddress address (ScanDb s)) transactions of
        (withdrawTxs, k) \<Rightarrow>
          if withdrawTxs = [] then (Done (), s\<lparr>ScanTick := k\<rparr>)
          else (case fireUTXOChanged X m (ios k) withdrawTxs address blockHeight (ScanDb s) of
                  (r, db) \<Rightarrow> (case r of Panic \<Rightarrow> Panic | _ \<Rightarrow> Done (), s\<lparr>ScanDb := db, ScanTick := k + 1\<rparr>)))"

section \<open>NFT transactions of one block\<close>

definition monitored_nft :: "cross_env \<Rightarrow> nft_destroy_info \<Rightarrow> nft_destroy_tx option" where
  "monitored_nft X txn =
     (case HexStringToBytes (xC X) (TokenID txn) of
        None \<Rightarrow> None
      | Some bs \<Rightarrow>
          (case (Uint256FromBytes (xA X) bs, Uint168FromAddress (xA X) (InfoOwnerStakeAddress txn)) of
             (Some nftID, Some programHash) \<Rightarrow>
               if ToAddress (xA X) programHash = None \<or> take 1 programHash \<noteq> [PrefixDPoSV2 (xA X)] then None
               else Some \<lparr>ID = nftID, OwnerStakeAddress = programHash\<rparr>
           | _ \<Rightarrow> None))"

fun new_nfts ::
    "cross_env \<Rightarrow> (nat \<Rightarrow> db_io) \<Rightarrow> nat \<Rightarrow> side_store option \<Rightarrow> nft_destroy_info list \<Rightarrow> nft_destroy_tx list \<times> nat" where
  "new_nfts X ios k st [] = ([], k)"
| "new_nfts X ios k st (txn # txns) =
     (case (monitored_nft X txn, st) of
        (Some t, Some s) \<Rightarrow>
          (case new_nfts X ios (k + 1) st txns of
             (ts, k') \<Rightarrow> (if HasNFTDestroyTx (ios k) (HashString (xA X) (ID t)) s = Inr True then ts else t # ts, k'))
      | _ \<Rightarrow> new_nfts X ios k st txns)"

definition processNFTDestroyTxs ::
    "cross_env \<Rightarrow> listeners \<Rightarrow> (nat \<Rightarrow> db_io) \<Rightarrow> nft_destroy_info list \<Rightarrow> string \<Rightarrow> u32 \<Rightarrow> scan_state \<Rightarrow>
     unit outcome \<times> scan_state" where
  "processNFTDestroyTxs X m ios transactions address blockHeight s =
     (case new_nfts X ios (ScanTick s) (GetDataStoreGenesisBlocAddress address (ScanDb s)) transactions of
        (nftDestroyTxs, k) \<Rightarrow>
          if nftDestroyTxs = [] then (Done (), s\<lparr>ScanTick := k\<rparr>)
          else (case fireNFTChanged X m (ios k) nftDestroyTxs address blockHeight (ScanDb s) of
                  (r, db) \<Rightarrow> (case r of Panic \<Rightarrow> Panic | _ \<Rightarrow> Done (), s\<lparr>ScanDb := db, ScanTick := k + 1\<rparr>)))"

section \<open>Evidence of one block\<close>

record sidechain_illegal_data =
  IllegalType :: byte
  IllegalHeight :: u32
  IllegalSigner :: bytes
  Evidence :: uint256
  CompareEvidence :: uint256
  IllegalGenesisBlockAddress :: string

fun string_less :: "string \<Rightarrow> string \<Rightarrow> bool" where
  "string_less [] [] = False"
| "string_less [] (y # ys) = True"
| "string_less (x # xs) [] = False"
| "string_less (x # xs) (y # ys) =
     (if (of_char x :: nat) < of_char y then True else if x = y then string_less xs ys else False)"

text \<open>The smaller one of the two hashes stands first.\<close>

definition evidence_of :: "cross_env \<Rightarrow> string \<Rightarrow> u32 \<Rightarrow> illegal_info \<Rightarrow> sidechain_illegal_data option" where
  "evidence_of X address height e =
     (case (Uint256FromHexString (xA X) (InfoEvidence e), Uint256FromHexString (xA X) (InfoCompareEvidence e),
            HexStringToBytes (xC X) (InfoIllegalSigner e)) of
        (Some se, Some sce, Some illegalSigner) \<Rightarrow>
          (let swap = string_less (HashString (xA X) sce) (HashString (xA X) se)
           in Some \<lparr>IllegalType = InfoIllegalType e, IllegalHeight = height, IllegalSigner = illegalSigner,
                    Evidence = (if swap then sce else se), CompareEvidence = (if swap then se else sce),
                    IllegalGenesisBlockAddress = address\<rparr>)
      | _ \<Rightarrow> None)"

text \<open>What the listener hands to the server for broadcasting.\<close>

definition fired_evidence :: "listeners \<Rightarrow> sidechain_illegal_data list \<Rightarrow> sidechain_illegal_data list" where
  "fired_evidence m es =
     (case m of None \<Rightarrow> [] | Some l \<Rightarrow> filter (\<lambda>e. map_of l (IllegalGenesisBlockAddress e) \<noteq> None) es)"

section \<open>Failed deposits of one block\<close>

text \<open>Deposited and cross chain amounts by the version of the deposit's payload; \<open>None\<close> is an index out of
  range, and the inner \<open>None\<close> a payload of another type, which is left out.\<close>

fun amounts_v0 ::
    "uint168 \<Rightarrow> tx_output list \<Rightarrow> u64 list \<Rightarrow> fixed64 list \<Rightarrow> (fixed64 \<times> fixed64) option" where
  "amounts_v0 chainHash outs idxs [] = Some (0, 0)"
| "amounts_v0 chainHash outs [] (cca # ccas) = None"
| "amounts_v0 chainHash outs (idx # idxs) (cca # ccas) =
     (if length outs \<le> unat idx then None
      else map_option (\<lambda>(d, c). if OutProgramHash (outs ! unat idx) = chainHash
                                then (OutValue (outs ! unat idx) + d, cca + c) else (d, c))
             (amounts_v0 chainHash outs idxs ccas))"

definition amounts_v1 :: "uint168 \<Rightarrow> tx_output list \<Rightarrow> fixed64 \<times> fixed64" where
  "amounts_v1 chainHash outs =
     (let own = List.map_filter (\<lambda>o1.
            if OutType o1 = OTCrossChain \<and> OutProgramHash o1 = chainHash
            then (case OutPayload o1 of CrossChainOutput _ target _ \<Rightarrow> Some (OutValue o1, target) | _ \<Rightarrow> None)
            else None) outs
      in (fx_sum (map fst own), fx_sum (map snd own)))"

definition deposit_amounts :: "cross_env \<Rightarrow> uint168 \<Rightarrow> transaction \<Rightarrow> (fixed64 \<times> fixed64) option option" where
  "deposit_amounts X chainHash originTx =
     (if PayloadVersion originTx = TransferCrossChainVersion (xA X)
      then (case Payload originTx of
              TransferCrossChainAsset _ idxs ccas \<Rightarrow> map_option Some (amounts_v0 chainHash (Outputs originTx) idxs ccas)
            | _ \<Rightarrow> Some None)
      else if PayloadVersion originTx = TransferCrossChainVersionV1 (xA X)
      then (case Payload originTx of
              TransferCrossChainAsset _ _ _ \<Rightarrow> Some (Some (amounts_v1 chainHash (Outputs originTx)))
            | _ \<Rightarrow> Some None)
      else Some (Some (0, 0)))"

text \<open>The refund of one failed deposit: to the address that the first input of the deposit spent. \<open>Inl ()\<close>
  is a panic; \<open>Inr None\<close> a deposit that is left out.\<close>

definition failed_deposit_of :: "cross_env \<Rightarrow> string \<Rightarrow> string \<Rightarrow> unit + failed_deposit_tx option" where
  "failed_deposit_of X address tx =
     (case HexStringToBytes (xC X) tx of
        None \<Rightarrow> Inr None
      | Some txnBytes \<Rightarrow>
     (case GetTransaction (xN X) (BytesToHexString (xC X) (BytesReverse (xA X) txnBytes)) of
        Inl e \<Rightarrow> Inr None
      | Inr originTx \<Rightarrow>
     (case Inputs originTx of
        [] \<Rightarrow> Inl ()
      | i # _ \<Rightarrow>
     (case GetTransaction (xN X) (BytesToHexString (xC X) (BytesReverse (xA X) (OpTxID (Previous i)))) of
        Inl e \<Rightarrow> Inr None
      | Inr referTxn \<Rightarrow>
     (if length (Outputs referTxn) \<le> unat (OpIndex (Previous i)) then Inl ()
      else (case (ToAddress (xA X) (OutProgramHash (Outputs referTxn ! unat (OpIndex (Previous i)))),
                  Uint168FromAddress (xA X) address) of
        (Some target, Some chainHash) \<Rightarrow>
          (case deposit_amounts X chainHash originTx of
             None \<Rightarrow> Inl ()
           | Some None \<Rightarrow> Inr None
           | Some (Some (d, c)) \<Rightarrow>
               Inr (Some \<lparr>FailedTxid = Some (TxHash (xT X) originTx), DepositInfo = Some
                 \<lparr>DepTargetAddress = target, DepAmount = d, DepCrossChainAmount = c\<rparr>\<rparr>))
      | _ \<Rightarrow> Inr None))))))"

text \<open>Found refunds go into the store of the chain, through the pointer taken at the start.\<close>

fun store_failed_deposits ::
    "cross_env \<Rightarrow> (nat \<Rightarrow> db_io) \<Rightarrow> string \<Rightarrow> string \<Rightarrow> string list \<Rightarrow> scan_state \<Rightarrow> unit outcome \<times> scan_state" where
  "store_failed_deposits X ios now address [] s = (Done (), s)"
| "store_failed_deposits X ios now address (tx # txs) s =
     (case failed_deposit_of X address tx of
        Inl _ \<Rightarrow> (Panic, s)
      | Inr None \<Rightarrow> store_failed_deposits X ios now address txs s
      | Inr (Some failedTx) \<Rightarrow>
          (case FailedDepositTx_Serialize (xW X) failedTx [] of
             (Some e, _) \<Rightarrow> store_failed_deposits X ios now address txs s
           | (None, buf) \<Rightarrow>
               store_failed_deposits X ios now address txs
                 (s\<lparr>ScanDb := on_address address (\<lambda>st. snd (AddReturnDepositTx (ios (ScanTick s)) now tx address buf st)) (ScanDb s),
                    ScanTick := ScanTick s + 1\<rparr>)))"

section \<open>One block\<close>

definition sideChainHeightInterval :: u32 where "sideChainHeightInterval = 1000"

definition store_height :: "(nat \<Rightarrow> db_io) \<Rightarrow> string \<Rightarrow> scan_state \<Rightarrow> scan_state" where
  "store_height ios address s =
     (case GetDataStoreGenesisBlocAddress address (ScanDb s) of
        None \<Rightarrow> s
      | Some st \<Rightarrow>
          (case CurrentSideHeight (ios (ScanTick s)) (ScanHeight s) st of
             (h, st') \<Rightarrow> s\<lparr>ScanHeight := h, ScanDb := on_address address (\<lambda>_. st') (ScanDb s),
                          ScanTick := ScanTick s + 1\<rparr>))"

datatype loop_end = Next | Leave

text \<open>The withdraws of the block six below the next one, and the evidence of the next one: an error leaves
  the loop before the height grows.\<close>

definition scan_withdraws ::
    "cross_env \<Rightarrow> listeners \<Rightarrow> (nat \<Rightarrow> db_io) \<Rightarrow> string \<Rightarrow> scan_state \<Rightarrow> loop_end outcome \<times> scan_state" where
  "scan_withdraws X m ios address s =
     (if ScanHeight s < 6 then (Done Next, s)
      else (case GetWithdrawTransactionByHeight (xN X) address (ScanHeight s + 1 - 6) of
        Inl e \<Rightarrow> (Done Leave, s)
      | Inr transactions \<Rightarrow>
          (case processTransactions X m ios transactions address (ScanHeight s + 1 - 6) s of
             (Panic, s') \<Rightarrow> (Panic, s') | (_, s') \<Rightarrow> (Done Next, s'))))"

text \<open>After the height has grown: the failed deposits of the new height, where an error goes on with the next
  block, and the NFT transactions, where an error leaves the loop.\<close>

definition scan_failed_deposits ::
    "cross_env \<Rightarrow> (nat \<Rightarrow> db_io) \<Rightarrow> string \<Rightarrow> string \<Rightarrow> scan_state \<Rightarrow> bool outcome \<times> scan_state" where
  "scan_failed_deposits X ios now address s =
     (case GetFailedDepositTransactions (xN X) address (ScanHeight s) of
        Inl e \<Rightarrow> (Done False, s)
      | Inr fTxs \<Rightarrow>
          (case store_failed_deposits X ios now address fTxs s of
             (Panic, s') \<Rightarrow> (Panic, s') | (_, s') \<Rightarrow> (Done True, s')))"

definition scan_nfts ::
    "cross_env \<Rightarrow> listeners \<Rightarrow> (nat \<Rightarrow> db_io) \<Rightarrow> string \<Rightarrow> scan_state \<Rightarrow> loop_end outcome \<times> scan_state" where
  "scan_nfts X m ios address s =
     (if ScanHeight s < 6 then (Done Next, s)
      else (case GetNFTDestroyTransactionByHeight (xN X) address (ScanHeight s + 1 - 6) of
        Inl e \<Rightarrow> (Done Leave, s)
      | Inr nftDestroyTXs \<Rightarrow>
          if nftDestroyTXs = [] then (Done Next, s)
          else (case processNFTDestroyTxs X m ios nftDestroyTXs address (ScanHeight s + 1 - 6) s of
             (Panic, s') \<Rightarrow> (Panic, s') | (_, s') \<Rightarrow> (Done Next, s'))))"

definition scan_after ::
    "cross_env \<Rightarrow> listeners \<Rightarrow> (nat \<Rightarrow> db_io) \<Rightarrow> string \<Rightarrow> side_config \<Rightarrow> scan_state \<Rightarrow> loop_end outcome \<times> scan_state" where
  "scan_after X m ios now c s =
     (case (if SupportInvalidDeposit c then scan_failed_deposits X ios now (GenesisBlockAddress c) s else (Done True, s)) of
        (Done True, s1) \<Rightarrow> if SupportNFT c then scan_nfts X m ios (GenesisBlockAddress c) s1 else (Done Next, s1)
      | (Done False, s1) \<Rightarrow> (Done Next, s1)
      | (_, s1) \<Rightarrow> (Panic, s1))"

definition scan_block ::
    "cross_env \<Rightarrow> listeners \<Rightarrow> (nat \<Rightarrow> db_io) \<Rightarrow> string \<Rightarrow> side_config \<Rightarrow> scan_state \<Rightarrow>
     loop_end outcome \<times> sidechain_illegal_data list \<times> scan_state" where
  "scan_block X m ios now c s =
     (case scan_withdraws X m ios (GenesisBlockAddress c) s of
        (Done Next, s1) \<Rightarrow>
          (case GetIllegalEvidenceByHeight (xN X) (GenesisBlockAddress c) (ScanHeight s1 + 1) of
             Inl e \<Rightarrow> (Done Leave, [], s1)
           | Inr evidences \<Rightarrow>
               (let fired = fired_evidence m (List.map_filter (evidence_of X (GenesisBlockAddress c) (ScanHeight s1 + 1)) evidences);
                    s2 = s1\<lparr>ScanHeight := ScanHeight s1 + 1, ScanCount := ScanCount s1 + 1\<rparr>;
                    s3 = (if ScanCount s2 mod sideChainHeightInterval = 0 then store_height ios (GenesisBlockAddress c) s2 else s2)
                in case scan_after X m ios now c s3 of (r, s4) \<Rightarrow> (r, fired, s4)))
      | (r, s1) \<Rightarrow> (r, [], s1))"

section \<open>Rounds\<close>

text \<open>The loop over the blocks up to the height of the chain. When the driver fails it may go back to
  height 0, so that nothing bounds it; \<open>fuel\<close> is the number of blocks, \<open>None\<close> that it was not enough.\<close>

fun scan_blocks ::
    "cross_env \<Rightarrow> listeners \<Rightarrow> (nat \<Rightarrow> db_io) \<Rightarrow> string \<Rightarrow> side_config \<Rightarrow> u32 \<Rightarrow> nat \<Rightarrow> scan_state \<Rightarrow>
     (unit outcome \<times> sidechain_illegal_data list \<times> scan_state) option" where
  "scan_blocks X m ios now c chainHeight fuel s =
     (if \<not> ScanHeight s < chainHeight then Some (Done (), [], s)
      else (case fuel of
        0 \<Rightarrow> None
      | Suc n \<Rightarrow>
          (case scan_block X m ios now c s of
             (Done Next, es, s') \<Rightarrow>
               map_option (\<lambda>(r, es', s''). (r, es @ es', s'')) (scan_blocks X m ios now c chainHeight n s')
           | (Done Leave, es, s') \<Rightarrow> Some (Done (), es, s')
           | (_, es, s') \<Rightarrow> Some (Panic, es, s'))))"

declare scan_blocks.simps [simp del]

definition side_needSyncBlocks ::
    "cross_env \<Rightarrow> db_io \<Rightarrow> string \<Rightarrow> db_cache \<Rightarrow> (u32 \<times> u32 \<times> bool) \<times> db_cache" where
  "side_needSyncBlocks X io address db =
     (case SideNodeHeight (xN X) address of
        Inl e \<Rightarrow> ((0, 0, False), db)
      | Inr chainHeight \<Rightarrow>
          (case GetDataStoreGenesisBlocAddress address db of
             None \<Rightarrow> ((0, 0, False), db)
           | Some st \<Rightarrow>
               (case CurrentSideHeight io QueryHeightCode st of
                  (height, st') \<Rightarrow> ((chainHeight, height, \<not> chainHeight \<le> height), on_address address (\<lambda>_. st') db))))"

text \<open>One round of \<open>SyncChainData\<close>, after its sleep and its waiting for the start of the program; the last
  component says whether the mining of the side chain is started.\<close>

definition sync_round ::
    "cross_env \<Rightarrow> listeners \<Rightarrow> (nat \<Rightarrow> db_io) \<Rightarrow> string \<Rightarrow> side_config \<Rightarrow> bool \<Rightarrow> nat \<Rightarrow> db_cache \<Rightarrow>
     (unit outcome \<times> sidechain_illegal_data list \<times> db_cache \<times> bool) option" where
  "sync_round X m ios now c onDuty fuel db =
     (case side_needSyncBlocks X (ios 0) (GenesisBlockAddress c) db of
        ((chainHeight, height, needSync), db1) \<Rightarrow>
          if \<not> needSync then Some (Done (), [], db1, False)
          else (let s = \<lparr>ScanHeight = max height (SyncStartHeight c), ScanCount = 1, ScanDb = db1, ScanTick = 1\<rparr>
                in case scan_blocks X m ios now c chainHeight fuel s of
                     None \<Rightarrow> None
                   | Some (Done _, es, s') \<Rightarrow>
                       (let s'' = store_height ios (GenesisBlockAddress c) s'
                        in Some (Done (), es, ScanDb s'', onDuty \<and> GetChain X (GenesisBlockAddress c) \<noteq> None))
                   | Some (r, es, s') \<Rightarrow> Some (r, es, ScanDb s', False)))"

end
