(* ===== verification/Props_Monitor.thy ===== *)
theory Props_Monitor
  imports Props_Deposit Monitor
begin

text \<open>
  Properties of the monitor of the side chains: with a node and a driver that answer, the scan ends at
  the height of the chain and has cached every withdraw it passed; and what a failing answer makes it
  lose.
\<close>

section \<open>The store of one side chain\<close>

text \<open>The stores are found by their name and by their address; the first one with the name n is the first one
  with the address a.\<close>

definition linked :: "string \<Rightarrow> string \<Rightarrow> db_cache \<Rightarrow> bool" where
  "linked n a db \<longleftrightarrow> list_all (\<lambda>s. sideChainName s = n \<longleftrightarrow> genesisBlockAddress s = a) (SideChainStore db)"

definition same_keys :: "(side_store \<Rightarrow> side_store) \<Rightarrow> bool" where
  "same_keys f \<longleftrightarrow> (\<forall>s. sideChainName (f s) = sideChainName s \<and> genesisBlockAddress (f s) = genesisBlockAddress s)"

lemma find_linked: "linked n a db \<Longrightarrow> GetDataStoreByDBName n db = GetDataStoreGenesisBlocAddress a db"
  unfolding linked_def GetDataStoreByDBName_def GetDataStoreGenesisBlocAddress_def
  by (intro find_cong) (auto simp: list_all_iff)

lemma at_first_cong: "(\<And>x. x \<in> set xs \<Longrightarrow> P x = Q x) \<Longrightarrow> at_first P f xs = at_first Q f xs"
  by (induction xs) auto

lemma on_name_linked: "linked n a db \<Longrightarrow> on_name n f db = on_address a f db"
  unfolding linked_def on_name_def on_address_def
  by (intro arg_cong [of _ _ "\<lambda>x. db\<lparr>SideChainStore := x\<rparr>"] at_first_cong) (auto simp: list_all_iff)

lemma at_first_all: "list_all P xs \<Longrightarrow> (\<And>x. x \<in> set xs \<Longrightarrow> P x \<Longrightarrow> P (f x)) \<Longrightarrow> list_all P (at_first Q f xs)"
  by (induction xs) auto

lemma linked_on_address: "same_keys f \<Longrightarrow> linked n a db \<Longrightarrow> linked n a (on_address b f db)"
  by (auto simp: linked_def on_address_def same_keys_def intro: at_first_all)

lemma found_on_address:
  assumes "same_keys f" "GetDataStoreGenesisBlocAddress a db = Some st"
  shows "GetDataStoreGenesisBlocAddress a (on_address a f db) = Some (f st)"
proof -
  have "genesisBlockAddress st = a"
    using assms(2) by (simp add: GetDataStoreGenesisBlocAddress_def find_Some_iff) blast
  then show ?thesis using assms find_at_first [of "\<lambda>s. genesisBlockAddress s = a" "SideChainStore db" st f]
    by (simp add: GetDataStoreGenesisBlocAddress_def on_address_def same_keys_def)
qed

text \<open>An operation through the pointer to the store, given by its result.\<close>

lemma found_on_const:
  assumes "GetDataStoreGenesisBlocAddress a db = Some st" "sideChainName st' = sideChainName st"
    "genesisBlockAddress st' = genesisBlockAddress st"
  shows "GetDataStoreGenesisBlocAddress a (on_address a (\<lambda>_. st') db) = Some st'"
    "linked n a db \<Longrightarrow> linked n a (on_address a (\<lambda>_. st') db)"
proof -
  have a: "genesisBlockAddress st = a" "st \<in> set (SideChainStore db)"
    using assms(1) by (simp_all add: GetDataStoreGenesisBlocAddress_def find_Some_iff) (blast, metis nth_mem)
  then show "GetDataStoreGenesisBlocAddress a (on_address a (\<lambda>_. st') db) = Some st'"
    using assms find_at_first [of "\<lambda>s. genesisBlockAddress s = a" "SideChainStore db" st "\<lambda>_. st'"]
    by (simp add: GetDataStoreGenesisBlocAddress_def on_address_def)
  assume l: "linked n a db"
  then have "sideChainName st' = n \<longleftrightarrow> genesisBlockAddress st' = a" using assms(2,3) a by (auto simp: linked_def list_all_iff)
  then show "linked n a (on_address a (\<lambda>_. st') db)"
    using l unfolding linked_def on_address_def by (simp add: at_first_all)
qed

text \<open>What the scan does to the store between two heights: rows are added, the height stays.\<close>

definition grows :: "string \<Rightarrow> string \<Rightarrow> db_cache \<Rightarrow> db_cache \<Rightarrow> bool" where
  "grows n a db db' \<longleftrightarrow> (\<forall>st. linked n a db \<longrightarrow> GetDataStoreGenesisBlocAddress a db = Some st \<longrightarrow>
     linked n a db' \<and> (\<exists>st'. GetDataStoreGenesisBlocAddress a db' = Some st' \<and> SideHeightInfo st' = SideHeightInfo st \<and>
       ScTransactionHash ` set (SideChainTxs st) \<subseteq> ScTransactionHash ` set (SideChainTxs st')))"

lemma grows_refl [simp]: "grows n a db db" by (simp add: grows_def)

lemma grows_trans:
  assumes "grows n a db db1" "grows n a db1 db2"
  shows "grows n a db db2"
  unfolding grows_def
proof (intro allI impI)
  fix st assume l: "linked n a db" "GetDataStoreGenesisBlocAddress a db = Some st"
  then obtain st1 where st1: "linked n a db1" "GetDataStoreGenesisBlocAddress a db1 = Some st1" "SideHeightInfo st1 = SideHeightInfo st"
    "ScTransactionHash ` set (SideChainTxs st) \<subseteq> ScTransactionHash ` set (SideChainTxs st1)"
    using assms(1) unfolding grows_def by blast
  then obtain st2 where "linked n a db2" "GetDataStoreGenesisBlocAddress a db2 = Some st2" "SideHeightInfo st2 = SideHeightInfo st1"
    "ScTransactionHash ` set (SideChainTxs st1) \<subseteq> ScTransactionHash ` set (SideChainTxs st2)"
    using assms(2) unfolding grows_def by blast
  with st1 show "linked n a db2 \<and> (\<exists>st'. GetDataStoreGenesisBlocAddress a db2 = Some st' \<and> SideHeightInfo st' = SideHeightInfo st \<and>
      ScTransactionHash ` set (SideChainTxs st) \<subseteq> ScTransactionHash ` set (SideChainTxs st'))"
    by - (rule conjI, assumption, rule exI [of _ st2], auto)
qed

lemma grows_store:
  assumes "GetDataStoreGenesisBlocAddress a db = Some st" "sideChainName st' = sideChainName st"
    "genesisBlockAddress st' = genesisBlockAddress st" "SideHeightInfo st' = SideHeightInfo st"
    "ScTransactionHash ` set (SideChainTxs st) \<subseteq> ScTransactionHash ` set (SideChainTxs st')"
  shows "grows n a db (on_address a (\<lambda>_. st') db)"
  using found_on_const [OF assms(1-3)] assms by (auto simp: grows_def)

section \<open>One block\<close>

text \<open>What the listener of the chain, the node and the library have to do with each other.\<close>

definition listens :: "listeners \<Rightarrow> string \<Rightarrow> string \<Rightarrow> bool" where
  "listens m n a \<longleftrightarrow> (\<exists>l sc c. m = Some l \<and> map_of l a = Some sc \<and> CurrentConfig sc = Some c \<and> CfgName c = n)"

definition hashes_agree :: "cross_env \<Rightarrow> bool" where
  "hashes_agree X \<longleftrightarrow> (\<forall>bs h. Uint256FromBytes (xA X) bs = Some h \<longrightarrow> HashString (xA X) h = BytesToHexString (xC X) bs) \<and>
     (\<forall>txn t. monitored_tx X txn = Some t \<longrightarrow> fst (WithdrawTx_Serialize (xW X) t []) = None)"

lemma monitored_hash_cached:
  assumes "hashes_agree X" "monitored_tx X txn = Some t"
  shows "\<exists>h. Txid t = Some h \<and> HashString (xA X) h = cache_hash X txn"
  using assms
  by (auto simp: hashes_agree_def monitored_tx_def monitored_hash_def cache_hash_def Let_def split: option.splits if_splits)

lemma withdraw_rows_of:
  assumes "\<forall>t \<in> set ts. fst (WithdrawTx_Serialize (xW X) t []) = None \<and> Txid t \<noteq> None"
  shows "\<exists>rows. withdraw_rows X bh ts = Some rows \<and>
    ScTransactionHash ` set rows = (\<lambda>t. HashString (xA X) (the (Txid t))) ` set ts"
  using assms
proof (induction ts)
  case (Cons t ts)
  then obtain rows where "withdraw_rows X bh ts = Some rows"
    "ScTransactionHash ` set rows = (\<lambda>t. HashString (xA X) (the (Txid t))) ` set ts" by auto
  with Cons.prems show ?case by (cases "WithdrawTx_Serialize (xW X) t []") auto
qed simp

lemma new_withdraws_spec:
  assumes "\<forall>i. good_io (ios i)"
  shows "fst (new_withdraws X ios k (Some st) txns) =
    List.map_filter (\<lambda>txn. if cache_hash X txn \<in> ScTransactionHash ` set (SideChainTxs st) then None else monitored_tx X txn) txns"
proof (induction txns arbitrary: k)
  case (Cons txn txns)
  have "HasSideChainTx (ios k) (cache_hash X txn) st =
      Inr (cache_hash X txn \<in> ScTransactionHash ` set (SideChainTxs st))"
    using good_ioD(6) [of "ios k"] assms by (auto simp: HasSideChainTx_def select_any_def filter_empty_conv intro: rev_image_eqI)
  then show ?case using Cons.IH [of "k + 1"] Cons.IH [of k]
    by (cases "monitored_tx X txn") (auto simp: map_filter_simps case_prod_beta)
qed (simp add: map_filter_simps)

lemma processTransactions_caches:
  assumes "\<forall>i. good_io (ios i)" "listens m n a" "hashes_agree X" "linked n a (ScanDb s)"
    and "GetDataStoreGenesisBlocAddress a (ScanDb s) = Some st"
  shows "\<exists>s' st'. processTransactions X m ios txns a bh s = (Done (), s') \<and> ScanHeight s' = ScanHeight s \<and>
    ScanCount s' = ScanCount s \<and> grows n a (ScanDb s) (ScanDb s') \<and> GetDataStoreGenesisBlocAddress a (ScanDb s') = Some st' \<and>
    (\<forall>txn \<in> set txns. monitored_tx X txn \<noteq> None \<longrightarrow> cache_hash X txn \<in> ScTransactionHash ` set (SideChainTxs st'))"
proof -
  obtain ts k where new: "new_withdraws X ios (ScanTick s) (Some st) txns = (ts, k)" by fastforce
  have ts: "ts = List.map_filter (\<lambda>txn. if cache_hash X txn \<in> ScTransactionHash ` set (SideChainTxs st) then None
      else monitored_tx X txn) txns"
    using new_withdraws_spec [OF assms(1), of X "ScanTick s" st txns] new by simp
  have found: "cache_hash X txn \<in> ScTransactionHash ` set (SideChainTxs st) \<or>
      (\<exists>t \<in> set ts. HashString (xA X) (the (Txid t)) = cache_hash X txn)"
    if mem: "txn \<in> set txns" and mon: "monitored_tx X txn \<noteq> None" for txn
  proof (cases "cache_hash X txn \<in> ScTransactionHash ` set (SideChainTxs st)")
    case False
    obtain t where t: "monitored_tx X txn = Some t" using mon by blast
    then have "t \<in> set ts" using mem False unfolding ts by (force simp: map_filter_def)
    moreover have "HashString (xA X) (the (Txid t)) = cache_hash X txn" using monitored_hash_cached [OF assms(3) t] by auto
    ultimately show ?thesis by blast
  qed simp
  show ?thesis
  proof (cases "ts = []")
    case True
    then show ?thesis using new found assms(5)
      by (intro exI [of _ "s\<lparr>ScanTick := k\<rparr>"] exI [of _ st]) (auto simp: processTransactions_def)
  next
    case False
    obtain l sc c where m: "m = Some l" "map_of l a = Some sc" "CurrentConfig sc = Some c" "CfgName c = n"
      using assms(2) by (auto simp: listens_def)
    have "\<forall>t \<in> set ts. fst (WithdrawTx_Serialize (xW X) t []) = None \<and> Txid t \<noteq> None"
      using assms(3) monitored_hash_cached [OF assms(3)]
      unfolding ts by (fastforce simp: hashes_agree_def map_filter_def split: if_splits)
    then obtain rows where rows: "withdraw_rows X bh ts = Some rows"
      "ScTransactionHash ` set rows = (\<lambda>t. HashString (xA X) (the (Txid t))) ` set ts"
      using withdraw_rows_of by blast
    define st' where "st' = snd (AddSideChainTxs (ios k) rows st)"
    have st': "ScTransactionHash ` set (SideChainTxs st') = ScTransactionHash ` set (SideChainTxs st) \<union> ScTransactionHash ` set rows"
      "sideChainName st' = sideChainName st" "genesisBlockAddress st' = genesisBlockAddress st" "SideHeightInfo st' = SideHeightInfo st"
      "AddSideChainTxs (ios k) rows st = (Inr (), st')"
      using assms(1) by (simp_all add: st'_def AddSideChainTxs_def with_tx_good insert_rows_keys good_ioD)
    have "fireUTXOChanged X m (ios k) ts a bh (ScanDb s) = (Done (), on_address a (\<lambda>_. st') (ScanDb s))"
      using m rows(1) False st'(5) find_linked [OF assms(4)] on_name_linked [OF assms(4)] assms(5)
      by (simp add: fireUTXOChanged_def OnUTXOChanged_def)
    then have "processTransactions X m ios txns a bh s =
        (Done (), s\<lparr>ScanDb := on_address a (\<lambda>_. st') (ScanDb s), ScanTick := k + 1\<rparr>)"
      using new assms(5) False by (simp add: processTransactions_def)
    moreover have "grows n a (ScanDb s) (on_address a (\<lambda>_. st') (ScanDb s))"
      using grows_store [OF assms(5) st'(2-4)] st'(1) by simp
    moreover have "GetDataStoreGenesisBlocAddress a (on_address a (\<lambda>_. st') (ScanDb s)) = Some st'"
      by (rule found_on_const(1) [OF assms(5) st'(2,3)])
    moreover have "cache_hash X txn \<in> ScTransactionHash ` set (SideChainTxs st')"
      if "txn \<in> set txns" "monitored_tx X txn \<noteq> None" for txn
      using found [OF that] unfolding st'(1) rows(2) by (metis UnI1 UnI2 imageI)
    ultimately show ?thesis
      by (intro exI [of _ "s\<lparr>ScanDb := on_address a (\<lambda>_. st') (ScanDb s), ScanTick := k + 1\<rparr>"] exI [of _ st']) simp
  qed
qed

lemma processNFTDestroyTxs_grows:
  assumes "listens m n a" "linked n a (ScanDb s)" "GetDataStoreGenesisBlocAddress a (ScanDb s) = Some st"
  shows "\<exists>s'. processNFTDestroyTxs X m ios txns a bh s = (Done (), s') \<and> ScanHeight s' = ScanHeight s \<and>
    ScanCount s' = ScanCount s \<and> grows n a (ScanDb s) (ScanDb s')"
proof -
  obtain ts k where new: "new_nfts X ios (ScanTick s) (Some st) txns = (ts, k)" by fastforce
  obtain l sc c where m: "m = Some l" "map_of l a = Some sc" "CurrentConfig sc = Some c" "CfgName c = n"
    using assms(1) by (auto simp: listens_def)
  show ?thesis
  proof (cases "ts = []")
    case True
    then show ?thesis using new assms(3) by (simp add: processNFTDestroyTxs_def)
  next
    case False
    obtain res st' where add: "AddNFTDestroyTxs (ios k) (nft_rows X bh ts) st = (res, st')" by fastforce
    then have st': "sideChainName st' = sideChainName st" "genesisBlockAddress st' = genesisBlockAddress st"
      "SideHeightInfo st' = SideHeightInfo st" "SideChainTxs st' = SideChainTxs st"
      by (auto simp: AddNFTDestroyTxs_def with_tx_def Let_def split: if_splits)
    have "fireNFTChanged X m (ios k) ts a bh (ScanDb s) =
        (case res of Inl e \<Rightarrow> Fail e | Inr _ \<Rightarrow> Done (), on_address a (\<lambda>_. st') (ScanDb s))"
      using m False add find_linked [OF assms(2)] on_name_linked [OF assms(2)] assms(3)
      by (simp add: fireNFTChanged_def OnNFTChanged_def)
    then have "processNFTDestroyTxs X m ios txns a bh s =
        (Done (), s\<lparr>ScanDb := on_address a (\<lambda>_. st') (ScanDb s), ScanTick := k + 1\<rparr>)"
      using new assms(3) False by (cases res) (simp_all add: processNFTDestroyTxs_def)
    moreover have "grows n a (ScanDb s) (on_address a (\<lambda>_. st') (ScanDb s))"
      using grows_store [OF assms(3) st'(1-3)] st'(4) by simp
    ultimately show ?thesis by simp
  qed
qed

lemma grows_found:
  "grows n a db db' \<Longrightarrow> linked n a db \<Longrightarrow> GetDataStoreGenesisBlocAddress a db = Some st \<Longrightarrow>
   linked n a db' \<and> (\<exists>st'. GetDataStoreGenesisBlocAddress a db' = Some st')"
  unfolding grows_def by blast

lemma grown_found:
  assumes "grows n a db db'" "linked n a db" "GetDataStoreGenesisBlocAddress a db = Some st"
  obtains st' where "GetDataStoreGenesisBlocAddress a db' = Some st'" "SideHeightInfo st' = SideHeightInfo st"
    "ScTransactionHash ` set (SideChainTxs st) \<subseteq> ScTransactionHash ` set (SideChainTxs st')"
  using assms unfolding grows_def by blast

lemma store_failed_deposits_grows:
  assumes "\<forall>tx. failed_deposit_of X a tx \<noteq> Inl ()" "linked n a (ScanDb s)" "GetDataStoreGenesisBlocAddress a (ScanDb s) = Some st"
  shows "\<exists>s'. store_failed_deposits X ios now a txs s = (Done (), s') \<and> ScanHeight s' = ScanHeight s \<and>
    ScanCount s' = ScanCount s \<and> grows n a (ScanDb s) (ScanDb s')"
  using assms(2,3)
proof (induction txs arbitrary: s st)
  case Nil
  then show ?case by simp
next
  case (Cons tx txs)
  obtain r where r: "failed_deposit_of X a tx = Inr r" using assms(1) by (cases "failed_deposit_of X a tx") auto
  show ?case
  proof (cases "\<exists>t buf. r = Some t \<and> FailedDepositTx_Serialize (xW X) t [] = (None, buf)")
    case False
    then have "store_failed_deposits X ios now a (tx # txs) s = store_failed_deposits X ios now a txs s"
      using r by (cases r) (auto split: prod.split option.split)
    then show ?thesis using Cons.IH [OF Cons.prems] by simp
  next
    case True
    then obtain t buf where t: "r = Some t" "FailedDepositTx_Serialize (xW X) t [] = (None, buf)" by blast
    define f where "f = (\<lambda>st. snd (AddReturnDepositTx (ios (ScanTick s)) now tx a buf st))"
    define s1 where "s1 = s\<lparr>ScanDb := on_address a f (ScanDb s), ScanTick := ScanTick s + 1\<rparr>"
    have f: "same_keys f" "SideHeightInfo (f x) = SideHeightInfo x" "SideChainTxs (f x) = SideChainTxs x" for x
      by (simp_all add: same_keys_def f_def AddReturnDepositTx_def)
    have one: "grows n a (ScanDb s) (ScanDb s1)"
      unfolding grows_def s1_def using found_on_address [OF f(1)] linked_on_address [OF f(1)] f(2,3) by auto
    obtain st1 where st1: "linked n a (ScanDb s1)" "GetDataStoreGenesisBlocAddress a (ScanDb s1) = Some st1"
      using grows_found [OF one Cons.prems] by blast
    have "store_failed_deposits X ios now a (tx # txs) s = store_failed_deposits X ios now a txs s1"
      using r t by (simp add: s1_def f_def)
    with Cons.IH [OF st1] one grows_trans show ?thesis by (fastforce simp: s1_def)
  qed
qed

text \<open>The height is stored as it is, when the stored one is not above it and it is not the code for a reset.\<close>

lemma height_stored:
  assumes "good_io io" "SideHeightInfo st = Some v" "v \<le> h" "h < ResetHeightCode"
  shows "CurrentSideHeight io h st = (h, st\<lparr>SideHeightInfo := Some h\<rparr>)"
proof -
  have "height_op io h (Some v) = (h, Some h)" using height_op_result [of io h v] assms(1,3,4) by (auto simp: max_def)
  then show ?thesis using assms(2) by (simp add: CurrentSideHeight_def)
qed

lemma store_height_keeps:
  assumes "\<forall>i. good_io (ios i)" "linked n a (ScanDb s)" "GetDataStoreGenesisBlocAddress a (ScanDb s) = Some st"
    and "SideHeightInfo st = Some v" "v \<le> ScanHeight s" "ScanHeight s < ResetHeightCode"
  shows "\<exists>s' st'. store_height ios a s = s' \<and> ScanHeight s' = ScanHeight s \<and> ScanCount s' = ScanCount s \<and>
    linked n a (ScanDb s') \<and> GetDataStoreGenesisBlocAddress a (ScanDb s') = Some st' \<and>
    SideHeightInfo st' = Some (ScanHeight s) \<and> SideChainTxs st' = SideChainTxs st"
proof -
  have c: "CurrentSideHeight (ios (ScanTick s)) (ScanHeight s) st = (ScanHeight s, st\<lparr>SideHeightInfo := Some (ScanHeight s)\<rparr>)"
    using height_stored assms(1,4-6) by blast
  show ?thesis
    using found_on_const [OF assms(3), of "st\<lparr>SideHeightInfo := Some (ScanHeight s)\<rparr>"] assms(2,3) c
    by (simp add: store_height_def)
qed

section \<open>The scan\<close>

text \<open>A node that answers every question; \<open>blocks\<close> are its withdraws by height.\<close>

definition node_answers :: "cross_env \<Rightarrow> string \<Rightarrow> (u32 \<Rightarrow> withdraw_tx_info list) \<Rightarrow> bool" where
  "node_answers X a blocks \<longleftrightarrow> (\<forall>h. GetWithdrawTransactionByHeight (xN X) a h = Inr (blocks h)) \<and>
     (\<forall>h e. GetIllegalEvidenceByHeight (xN X) a h \<noteq> Inl e) \<and> (\<forall>h e. GetNFTDestroyTransactionByHeight (xN X) a h \<noteq> Inl e) \<and>
     (\<forall>tx. failed_deposit_of X a tx \<noteq> Inl ())"

text \<open>The store of the chain is there, its height is not above the one of the scan.\<close>

definition scan_ready :: "string \<Rightarrow> string \<Rightarrow> scan_state \<Rightarrow> bool" where
  "scan_ready n a s \<longleftrightarrow> linked n a (ScanDb s) \<and>
     (\<exists>st v. GetDataStoreGenesisBlocAddress a (ScanDb s) = Some st \<and> SideHeightInfo st = Some v \<and> v \<le> ScanHeight s)"

definition is_cached :: "string \<Rightarrow> string \<Rightarrow> db_cache \<Rightarrow> bool" where
  "is_cached a h db \<longleftrightarrow> (\<exists>st. GetDataStoreGenesisBlocAddress a db = Some st \<and> h \<in> ScTransactionHash ` set (SideChainTxs st))"

lemma scan_ready_grows:
  "scan_ready n a s \<Longrightarrow> grows n a (ScanDb s) (ScanDb s') \<Longrightarrow> ScanHeight s \<le> ScanHeight s' \<Longrightarrow> scan_ready n a s'"
  unfolding scan_ready_def grows_def by fastforce

lemma is_cached_grows:
  "grows n a db db' \<Longrightarrow> linked n a db \<Longrightarrow> is_cached a h db \<Longrightarrow> is_cached a h db'"
  unfolding is_cached_def grows_def by blast

lemma scan_after_grows:
  assumes "listens m n (GenesisBlockAddress c)" "node_answers X (GenesisBlockAddress c) blocks" "scan_ready n (GenesisBlockAddress c) s"
  shows "\<exists>s'. scan_after X m ios now c s = (Done Next, s') \<and> ScanHeight s' = ScanHeight s \<and>
    grows n (GenesisBlockAddress c) (ScanDb s) (ScanDb s')"
proof -
  let ?a = "GenesisBlockAddress c"
  obtain st where st: "linked n ?a (ScanDb s)" "GetDataStoreGenesisBlocAddress ?a (ScanDb s) = Some st"
    using assms(3) by (auto simp: scan_ready_def)
  have "\<exists>b s1. (if SupportInvalidDeposit c then scan_failed_deposits X ios now ?a s else (Done True, s)) = (Done b, s1) \<and>
      ScanHeight s1 = ScanHeight s \<and> grows n ?a (ScanDb s) (ScanDb s1)"
  proof (cases "SupportInvalidDeposit c \<and> (\<exists>l. GetFailedDepositTransactions (xN X) ?a (ScanHeight s) = Inr l)")
    case True
    then obtain l where l: "GetFailedDepositTransactions (xN X) ?a (ScanHeight s) = Inr l" by blast
    obtain s1 where "store_failed_deposits X ios now ?a l s = (Done (), s1)" "ScanHeight s1 = ScanHeight s"
      "grows n ?a (ScanDb s) (ScanDb s1)"
      using store_failed_deposits_grows [OF _ st, of X ios now l] assms(2) by (auto simp: node_answers_def)
    then show ?thesis using True l by (intro exI [of _ True] exI [of _ s1]) (simp add: scan_failed_deposits_def)
  next
    case False
    then show ?thesis by (cases "GetFailedDepositTransactions (xN X) ?a (ScanHeight s)") (auto simp: scan_failed_deposits_def)
  qed
  then obtain b s1 where b: "(if SupportInvalidDeposit c then scan_failed_deposits X ios now ?a s else (Done True, s)) = (Done b, s1)"
    "ScanHeight s1 = ScanHeight s" "grows n ?a (ScanDb s) (ScanDb s1)" by blast
  obtain st1 where st1: "linked n ?a (ScanDb s1)" "GetDataStoreGenesisBlocAddress ?a (ScanDb s1) = Some st1"
    using grows_found [OF b(3) st] by blast
  have nft: "\<exists>s2. scan_nfts X m ios ?a s1 = (Done Next, s2) \<and> ScanHeight s2 = ScanHeight s1 \<and> grows n ?a (ScanDb s1) (ScanDb s2)"
  proof (cases "GetNFTDestroyTransactionByHeight (xN X) ?a (ScanHeight s1 + 1 - 6)")
    case (Inl e)
    then show ?thesis using assms(2) by (simp add: node_answers_def)
  next
    case (Inr l)
    obtain s2 where "processNFTDestroyTxs X m ios l ?a (ScanHeight s1 + 1 - 6) s1 = (Done (), s2)" "ScanHeight s2 = ScanHeight s1"
      "grows n ?a (ScanDb s1) (ScanDb s2)"
      using processNFTDestroyTxs_grows [OF assms(1) st1] by blast
    with Inr show ?thesis by (simp add: scan_nfts_def)
  qed
  show ?thesis
  proof (cases "b \<and> SupportNFT c")
    case True
    then show ?thesis using b nft grows_trans [OF b(3)] by (force simp: scan_after_def)
  next
    case False
    then show ?thesis using b by (auto simp: scan_after_def split: bool.split)
  qed
qed

lemma height_step: "(h :: u32) < c \<Longrightarrow> unat (h + 1) = unat h + 1"
  using unsigned_less [of c, where ?'a = nat] by (simp add: word_less_nat_alt unat_word_ariths)

lemma height_up: "(h :: u32) < c \<Longrightarrow> h \<le> h + 1"
  by (simp add: word_le_nat_alt height_step)

lemma scan_block_next:
  assumes "\<forall>i. good_io (ios i)" "listens m n (GenesisBlockAddress c)" "hashes_agree X"
    and "node_answers X (GenesisBlockAddress c) blocks" "scan_ready n (GenesisBlockAddress c) s" "ScanHeight s + 1 < ResetHeightCode"
    and "ScanHeight s < chainHeight"
  shows "\<exists>es s'. scan_block X m ios now c s = (Done Next, es, s') \<and> ScanHeight s' = ScanHeight s + 1 \<and>
    scan_ready n (GenesisBlockAddress c) s' \<and>
    (\<forall>h. is_cached (GenesisBlockAddress c) h (ScanDb s) \<longrightarrow> is_cached (GenesisBlockAddress c) h (ScanDb s')) \<and>
    (6 \<le> ScanHeight s \<longrightarrow> (\<forall>txn \<in> set (blocks (ScanHeight s + 1 - 6)). monitored_tx X txn \<noteq> None \<longrightarrow>
      is_cached (GenesisBlockAddress c) (cache_hash X txn) (ScanDb s')))"
proof -
  let ?a = "GenesisBlockAddress c"
  obtain st v where st: "linked n ?a (ScanDb s)" "GetDataStoreGenesisBlocAddress ?a (ScanDb s) = Some st"
    "SideHeightInfo st = Some v" "v \<le> ScanHeight s" using assms(5) by (auto simp: scan_ready_def)
  have up: "ScanHeight s \<le> ScanHeight s + 1" using assms(7) by (rule height_up)
  have "\<exists>s1. scan_withdraws X m ios ?a s = (Done Next, s1) \<and> ScanHeight s1 = ScanHeight s \<and>
      grows n ?a (ScanDb s) (ScanDb s1) \<and> (6 \<le> ScanHeight s \<longrightarrow> (\<forall>txn \<in> set (blocks (ScanHeight s + 1 - 6)).
        monitored_tx X txn \<noteq> None \<longrightarrow> is_cached ?a (cache_hash X txn) (ScanDb s1)))"
  proof (cases "ScanHeight s < 6")
    case True
    then show ?thesis by (auto simp: scan_withdraws_def)
  next
    case False
    obtain s1 st1 where "processTransactions X m ios (blocks (ScanHeight s + 1 - 6)) ?a (ScanHeight s + 1 - 6) s = (Done (), s1)"
      "ScanHeight s1 = ScanHeight s" "grows n ?a (ScanDb s) (ScanDb s1)" "GetDataStoreGenesisBlocAddress ?a (ScanDb s1) = Some st1"
      "\<forall>txn \<in> set (blocks (ScanHeight s + 1 - 6)). monitored_tx X txn \<noteq> None \<longrightarrow>
        cache_hash X txn \<in> ScTransactionHash ` set (SideChainTxs st1)"
      using processTransactions_caches [OF assms(1-3) st(1,2)] by blast
    then show ?thesis using False assms(4) by (auto simp: scan_withdraws_def node_answers_def is_cached_def)
  qed
  then obtain s1 where s1: "scan_withdraws X m ios ?a s = (Done Next, s1)" "ScanHeight s1 = ScanHeight s"
    "grows n ?a (ScanDb s) (ScanDb s1)"
    "6 \<le> ScanHeight s \<longrightarrow> (\<forall>txn \<in> set (blocks (ScanHeight s + 1 - 6)). monitored_tx X txn \<noteq> None \<longrightarrow>
        is_cached ?a (cache_hash X txn) (ScanDb s1))" by blast
  obtain es where es: "GetIllegalEvidenceByHeight (xN X) ?a (ScanHeight s1 + 1) = Inr es"
    using assms(4) by (cases "GetIllegalEvidenceByHeight (xN X) ?a (ScanHeight s1 + 1)") (simp_all add: node_answers_def)
  define s2 where "s2 = s1\<lparr>ScanHeight := ScanHeight s1 + 1, ScanCount := ScanCount s1 + 1\<rparr>"
  define s3 where "s3 = (if ScanCount s2 mod sideChainHeightInterval = 0 then store_height ios ?a s2 else s2)"
  have s2: "linked n ?a (ScanDb s2)" "ScanHeight s2 = ScanHeight s + 1" "grows n ?a (ScanDb s1) (ScanDb s2)"
    using grows_found [OF s1(3) st(1,2)] s1(2) by (auto simp: s2_def grows_def)
  obtain st2 where st2: "GetDataStoreGenesisBlocAddress ?a (ScanDb s2) = Some st2" "SideHeightInfo st2 = Some v"
    "ScTransactionHash ` set (SideChainTxs st) \<subseteq> ScTransactionHash ` set (SideChainTxs st2)"
    using grown_found [OF s1(3) st(1,2)] st(3) by (auto simp: s2_def)
  have "scan_ready n ?a s3 \<and> ScanHeight s3 = ScanHeight s + 1 \<and>
      (\<forall>h. is_cached ?a h (ScanDb s1) \<longrightarrow> is_cached ?a h (ScanDb s3))"
  proof (cases "ScanCount s2 mod sideChainHeightInterval = 0")
    case True
    have "v \<le> ScanHeight s2" "ScanHeight s2 < ResetHeightCode" using st(4) up s2(2) assms(6) by auto
    then obtain st3 where "ScanHeight (store_height ios ?a s2) = ScanHeight s2" "linked n ?a (ScanDb (store_height ios ?a s2))"
      "GetDataStoreGenesisBlocAddress ?a (ScanDb (store_height ios ?a s2)) = Some st3"
      "SideHeightInfo st3 = Some (ScanHeight s2)" "SideChainTxs st3 = SideChainTxs st2"
      using store_height_keeps [OF assms(1) s2(1) st2(1,2)] by blast
    then show ?thesis using True s2(2) st2(1) by (auto simp: s3_def s2_def scan_ready_def is_cached_def)
  next
    case False
    then show ?thesis using s2 st2 st(4) up by (auto simp: s3_def s2_def scan_ready_def is_cached_def)
  qed
  then have s3: "scan_ready n ?a s3" "ScanHeight s3 = ScanHeight s + 1"
    "\<And>h. is_cached ?a h (ScanDb s1) \<Longrightarrow> is_cached ?a h (ScanDb s3)" by blast+
  obtain s4 where s4: "scan_after X m ios now c s3 = (Done Next, s4)" "ScanHeight s4 = ScanHeight s3"
    "grows n ?a (ScanDb s3) (ScanDb s4)"
    using scan_after_grows [OF assms(2,4) s3(1)] by blast
  have keep: "is_cached ?a h (ScanDb s1) \<Longrightarrow> is_cached ?a h (ScanDb s4)" for h
    using is_cached_grows [OF s4(3)] s3 by (simp add: scan_ready_def)
  have "scan_ready n ?a s4" using scan_ready_grows [OF s3(1) s4(3)] s4(2) by simp
  moreover have "\<exists>fired. scan_block X m ios now c s = (Done Next, fired, s4)"
    using s1(1) es s4(1) by (simp add: scan_block_def Let_def s2_def [symmetric] s3_def [symmetric])
  ultimately show ?thesis
    using keep s1(4) s4(2) s3(2) is_cached_grows [OF s1(3) st(1)] by metis
qed

lemma scan_blocks_caches:
  assumes "\<forall>i. good_io (ios i)" "listens m n (GenesisBlockAddress c)" "hashes_agree X"
    and "node_answers X (GenesisBlockAddress c) blocks" "chainHeight < ResetHeightCode"
    and "scan_ready n (GenesisBlockAddress c) s" "ScanHeight s \<le> chainHeight" "unat chainHeight - unat (ScanHeight s) \<le> fuel"
  shows "\<exists>es s'. scan_blocks X m ios now c chainHeight fuel s = Some (Done (), es, s') \<and> ScanHeight s' = chainHeight \<and>
    scan_ready n (GenesisBlockAddress c) s' \<and> (\<forall>h. is_cached (GenesisBlockAddress c) h (ScanDb s) \<longrightarrow> is_cached (GenesisBlockAddress c) h (ScanDb s')) \<and>
    (\<forall>h txn. ScanHeight s \<le> h \<longrightarrow> h < chainHeight \<longrightarrow> 6 \<le> h \<longrightarrow> txn \<in> set (blocks (h + 1 - 6)) \<longrightarrow>
       monitored_tx X txn \<noteq> None \<longrightarrow> is_cached (GenesisBlockAddress c) (cache_hash X txn) (ScanDb s'))"
  using assms(6-8)
proof (induction fuel arbitrary: s)
  case (0 s)
  then have "ScanHeight s = chainHeight" by (simp add: word_le_nat_alt word_unat_eq_iff)
  then show ?case using "0.prems"(1) by (auto simp: scan_blocks.simps)
next
  case (Suc fuel s)
  show ?case
  proof (cases "ScanHeight s < chainHeight")
    case False
    then show ?thesis using Suc.prems(1,2) by (auto simp: scan_blocks.simps)
  next
    case True
    then have "unat (ScanHeight s + 1) \<le> unat chainHeight" by (simp add: height_step word_less_nat_alt)
    then have le: "ScanHeight s + 1 \<le> chainHeight" by (simp add: word_le_nat_alt)
    then have "ScanHeight s + 1 < ResetHeightCode" using assms(5) by simp
    then obtain es s1 where one: "scan_block X m ios now c s = (Done Next, es, s1)" "ScanHeight s1 = ScanHeight s + 1"
      "scan_ready n (GenesisBlockAddress c) s1"
      "\<And>h. is_cached (GenesisBlockAddress c) h (ScanDb s) \<Longrightarrow> is_cached (GenesisBlockAddress c) h (ScanDb s1)"
      "\<And>txn. 6 \<le> ScanHeight s \<Longrightarrow> txn \<in> set (blocks (ScanHeight s + 1 - 6)) \<Longrightarrow> monitored_tx X txn \<noteq> None \<Longrightarrow>
        is_cached (GenesisBlockAddress c) (cache_hash X txn) (ScanDb s1)"
      using scan_block_next [OF assms(1-4) Suc.prems(1) _ True] by blast
    have "unat chainHeight - unat (ScanHeight s1) \<le> fuel" using Suc.prems(3) True by (simp add: one(2) height_step)
    then obtain es' s' where rest: "scan_blocks X m ios now c chainHeight fuel s1 = Some (Done (), es', s')" "ScanHeight s' = chainHeight"
      "scan_ready n (GenesisBlockAddress c) s'" "\<And>h. is_cached (GenesisBlockAddress c) h (ScanDb s1) \<Longrightarrow> is_cached (GenesisBlockAddress c) h (ScanDb s')"
      "\<And>h txn. ScanHeight s1 \<le> h \<Longrightarrow> h < chainHeight \<Longrightarrow> 6 \<le> h \<Longrightarrow> txn \<in> set (blocks (h + 1 - 6)) \<Longrightarrow>
         monitored_tx X txn \<noteq> None \<Longrightarrow> is_cached (GenesisBlockAddress c) (cache_hash X txn) (ScanDb s')"
      using Suc.IH [OF one(3)] le one(2) by metis
    have "is_cached (GenesisBlockAddress c) (cache_hash X txn) (ScanDb s')"
      if "ScanHeight s \<le> h" "h < chainHeight" "6 \<le> h" "txn \<in> set (blocks (h + 1 - 6))" "monitored_tx X txn \<noteq> None" for h txn
    proof (cases "h = ScanHeight s")
      case True
      then show ?thesis using one(5) rest(4) that by blast
    next
      case False
      then have "ScanHeight s1 \<le> h" using that(1) True one(2) by (simp add: word_le_nat_alt height_step word_unat_eq_iff)
      then show ?thesis using rest(5) that by blast
    qed
    moreover have "scan_blocks X m ios now c chainHeight (Suc fuel) s = Some (Done (), es @ es', s')"
      using True one(1) rest(1) by (simp add: scan_blocks.simps)
    ultimately show ?thesis using rest(2-4) one(4) by blast
  qed
qed

lemma height_asked:
  assumes "good_io io" "SideHeightInfo st = Some v"
  shows "CurrentSideHeight io QueryHeightCode st = (v, st)"
proof -
  have "QueryHeightCode \<noteq> ResetHeightCode" "max v QueryHeightCode = v"
    by (simp_all add: QueryHeightCode_def ResetHeightCode_def max_def)
  then have "height_op io QueryHeightCode (Some v) = (v, Some v)"
    using height_op_result [of io QueryHeightCode v] assms(1) by simp
  then show ?thesis using assms(2) by (simp add: CurrentSideHeight_def)
qed

text \<open>C14: A round of the monitor misses no withdraw: when the node and the database answer and the height of
  the chain is above the stored one, \<open>SyncChainData\<close> ends its loop (as much fuel as the height of the chain is
  enough), stores the height of the chain, and the withdraws of every block from the stored height (or the
  configured start) on, six blocks behind, are in the cache under the hash of their transaction.\<close>

theorem no_withdraw_missed:
  assumes "\<forall>i. good_io (ios i)" "listens m n (GenesisBlockAddress c)" "hashes_agree X"
    and "node_answers X (GenesisBlockAddress c) blocks" "SideNodeHeight (xN X) (GenesisBlockAddress c) = Inr chainHeight"
    and "linked n (GenesisBlockAddress c) db" "GetDataStoreGenesisBlocAddress (GenesisBlockAddress c) db = Some st"
    and "SideHeightInfo st = Some v" "v < chainHeight" "SyncStartHeight c \<le> chainHeight" "chainHeight < ResetHeightCode"
    and "unat chainHeight \<le> fuel"
  shows "\<exists>es db' mining. sync_round X m ios now c onDuty fuel db = Some (Done (), es, db', mining) \<and>
    (\<exists>st'. GetDataStoreGenesisBlocAddress (GenesisBlockAddress c) db' = Some st' \<and> SideHeightInfo st' = Some chainHeight) \<and>
    (\<forall>h txn. max v (SyncStartHeight c) \<le> h \<longrightarrow> h < chainHeight \<longrightarrow> 6 \<le> h \<longrightarrow> txn \<in> set (blocks (h + 1 - 6)) \<longrightarrow>
       monitored_tx X txn \<noteq> None \<longrightarrow> is_cached (GenesisBlockAddress c) (cache_hash X txn) db')"
proof -
  let ?a = "GenesisBlockAddress c" and ?h = "max v (SyncStartHeight c)"
  have "CurrentSideHeight (ios 0) QueryHeightCode st = (v, st)" using height_asked assms(1,8) by blast
  then have sync: "side_needSyncBlocks X (ios 0) ?a db = ((chainHeight, v, True), on_address ?a (\<lambda>_. st) db)"
    using assms(5,7,9) by (simp add: side_needSyncBlocks_def)
  define s where "s = \<lparr>ScanHeight = ?h, ScanCount = 1, ScanDb = on_address ?a (\<lambda>_. st) db, ScanTick = 1\<rparr>"
  have "scan_ready n ?a s"
    using found_on_const [OF assms(7), of st] assms(6,8) by (auto simp: s_def scan_ready_def)
  moreover have "ScanHeight s \<le> chainHeight" using assms(9,10) by (simp add: s_def)
  moreover have "unat chainHeight - unat (ScanHeight s) \<le> fuel" using assms(12) by simp
  ultimately obtain es s' where run: "scan_blocks X m ios now c chainHeight fuel s = Some (Done (), es, s')"
    "ScanHeight s' = chainHeight" "scan_ready n ?a s'"
    "\<And>h txn. ?h \<le> h \<Longrightarrow> h < chainHeight \<Longrightarrow> 6 \<le> h \<Longrightarrow> txn \<in> set (blocks (h + 1 - 6)) \<Longrightarrow>
       monitored_tx X txn \<noteq> None \<Longrightarrow> is_cached ?a (cache_hash X txn) (ScanDb s')"
    using scan_blocks_caches [OF assms(1-4,11), of s fuel now] by (auto simp: s_def)
  obtain st2 v2 where st2: "linked n ?a (ScanDb s')" "GetDataStoreGenesisBlocAddress ?a (ScanDb s') = Some st2"
    "SideHeightInfo st2 = Some v2" "v2 \<le> ScanHeight s'" using run(3) by (auto simp: scan_ready_def)
  obtain st3 where st3: "GetDataStoreGenesisBlocAddress ?a (ScanDb (store_height ios ?a s')) = Some st3"
    "SideHeightInfo st3 = Some chainHeight" "SideChainTxs st3 = SideChainTxs st2"
    using store_height_keeps [OF assms(1) st2] assms(11) run(2) by metis
  have "sync_round X m ios now c onDuty fuel db =
      Some (Done (), es, ScanDb (store_height ios ?a s'), onDuty \<and> GetChain X ?a \<noteq> None)"
    using sync run(1) by (simp add: sync_round_def Let_def s_def)
  moreover have "is_cached ?a h (ScanDb s') \<Longrightarrow> is_cached ?a h (ScanDb (store_height ios ?a s'))" for h
    using st2(2) st3(1,3) by (simp add: is_cached_def)
  ultimately show ?thesis using run(4) st3(1,2) by blast
qed

section \<open>A node that does not tell the failed deposits\<close>

definition tells_no_refunds :: "cross_env \<Rightarrow> string \<Rightarrow> bool" where
  "tells_no_refunds X a \<longleftrightarrow> (\<forall>h. GetWithdrawTransactionByHeight (xN X) a h = Inr []) \<and>
     (\<forall>h. GetIllegalEvidenceByHeight (xN X) a h = Inr []) \<and> (\<forall>h. GetFailedDepositTransactions (xN X) a h = Inl ExtErr)"

definition only_height :: "string \<Rightarrow> side_store \<Rightarrow> scan_state \<Rightarrow> bool" where
  "only_height a st s \<longleftrightarrow> (\<exists>v. v \<le> ScanHeight s \<and>
     GetDataStoreGenesisBlocAddress a (ScanDb s) = Some (st\<lparr>SideHeightInfo := Some v\<rparr>))"

lemma store_only_height:
  assumes "\<forall>i. good_io (ios i)" "only_height a st s" "ScanHeight s < ResetHeightCode"
  shows "ScanHeight (store_height ios a s) = ScanHeight s \<and>
    GetDataStoreGenesisBlocAddress a (ScanDb (store_height ios a s)) = Some (st\<lparr>SideHeightInfo := Some (ScanHeight s)\<rparr>)"
proof -
  obtain v where v: "v \<le> ScanHeight s" "GetDataStoreGenesisBlocAddress a (ScanDb s) = Some (st\<lparr>SideHeightInfo := Some v\<rparr>)"
    using assms(2) by (auto simp: only_height_def)
  have "CurrentSideHeight (ios (ScanTick s)) (ScanHeight s) (st\<lparr>SideHeightInfo := Some v\<rparr>) =
      (ScanHeight s, st\<lparr>SideHeightInfo := Some (ScanHeight s)\<rparr>)"
    using height_stored [of "ios (ScanTick s)" "st\<lparr>SideHeightInfo := Some v\<rparr>" v "ScanHeight s"] assms(1,3) v(1) by simp
  then show ?thesis
    using found_on_const [OF v(2), of "st\<lparr>SideHeightInfo := Some (ScanHeight s)\<rparr>"] v(2) by (simp add: store_height_def)
qed

lemma scan_block_only_height:
  assumes "\<forall>i. good_io (ios i)" "tells_no_refunds X (GenesisBlockAddress c)" "SupportInvalidDeposit c"
    and "only_height (GenesisBlockAddress c) st s" "ScanHeight s + 1 < ResetHeightCode" "ScanHeight s < chainHeight"
  shows "\<exists>s'. scan_block X m ios now c s = (Done Next, [], s') \<and> ScanHeight s' = ScanHeight s + 1 \<and>
    only_height (GenesisBlockAddress c) st s'"
proof -
  let ?a = "GenesisBlockAddress c"
  define s1 where "s1 = (if ScanHeight s < 6 then s else s\<lparr>ScanTick := ScanTick s\<rparr>)"
  define s2 where "s2 = s1\<lparr>ScanHeight := ScanHeight s1 + 1, ScanCount := ScanCount s1 + 1\<rparr>"
  define s3 where "s3 = (if ScanCount s2 mod sideChainHeightInterval = 0 then store_height ios ?a s2 else s2)"
  have w: "scan_withdraws X m ios ?a s = (Done Next, s1)"
    using assms(2) by (simp add: scan_withdraws_def tells_no_refunds_def processTransactions_def s1_def)
  have "fired_evidence m [] = []" by (simp add: fired_evidence_def split: option.split)
  then have b: "scan_block X m ios now c s = (case scan_after X m ios now c s3 of (r, s4) \<Rightarrow> (r, [], s4))"
    using w assms(2) by (simp add: scan_block_def tells_no_refunds_def Let_def s2_def [symmetric] map_filter_def)
      (simp add: s3_def s2_def)
  have h2: "ScanHeight s2 = ScanHeight s + 1" by (simp add: s2_def s1_def)
  have "only_height ?a st s2"
    using assms(4) height_up [OF assms(6)] order_trans by (fastforce simp: only_height_def s2_def s1_def)
  then have "ScanHeight s3 = ScanHeight s + 1 \<and> only_height ?a st s3"
    using store_only_height [OF assms(1), of ?a st s2] h2 assms(5) by (auto simp: s3_def only_height_def)
  moreover have "scan_after X m ios now c s3 = (Done Next, s3)"
    using assms(2,3) by (simp add: scan_after_def scan_failed_deposits_def tells_no_refunds_def)
  ultimately show ?thesis using b by simp
qed

lemma scan_blocks_only_height:
  assumes "\<forall>i. good_io (ios i)" "tells_no_refunds X (GenesisBlockAddress c)" "SupportInvalidDeposit c" "chainHeight < ResetHeightCode"
    and "only_height (GenesisBlockAddress c) st s" "ScanHeight s \<le> chainHeight" "unat chainHeight - unat (ScanHeight s) \<le> fuel"
  shows "\<exists>s'. scan_blocks X m ios now c chainHeight fuel s = Some (Done (), [], s') \<and> ScanHeight s' = chainHeight \<and>
    only_height (GenesisBlockAddress c) st s'"
  using assms(5-7)
proof (induction fuel arbitrary: s)
  case (0 s)
  then have "ScanHeight s = chainHeight" by (simp add: word_le_nat_alt word_unat_eq_iff)
  then show ?case using "0.prems"(1) by (auto simp: scan_blocks.simps)
next
  case (Suc fuel s)
  show ?case
  proof (cases "ScanHeight s < chainHeight")
    case False
    then show ?thesis using Suc.prems(1,2) by (auto simp: scan_blocks.simps)
  next
    case True
    then have "unat (ScanHeight s + 1) \<le> unat chainHeight" by (simp add: height_step word_less_nat_alt)
    then have le: "ScanHeight s + 1 \<le> chainHeight" by (simp add: word_le_nat_alt)
    then have "ScanHeight s + 1 < ResetHeightCode" using assms(4) by simp
    then obtain s1 where one: "scan_block X m ios now c s = (Done Next, [], s1)" "ScanHeight s1 = ScanHeight s + 1"
      "only_height (GenesisBlockAddress c) st s1"
      using scan_block_only_height [OF assms(1-3) Suc.prems(1) _ True] by blast
    have "unat chainHeight - unat (ScanHeight s1) \<le> fuel" using Suc.prems(3) True by (simp add: one(2) height_step)
    then obtain s' where "scan_blocks X m ios now c chainHeight fuel s1 = Some (Done (), [], s')" "ScanHeight s' = chainHeight"
      "only_height (GenesisBlockAddress c) st s'"
      using Suc.IH [OF one(3)] le one(2) by auto
    then show ?thesis using True one(1) by (simp add: scan_blocks.simps)
  qed
qed

text \<open>Refunds are lost when the node does not answer for them: an error of the query for the failed
  deposits of a block does not stop the scan, the height of the chain is stored at the end of the round, so that
  the blocks are not asked again, and neither a refund nor an NFT transaction of them is in the cache.\<close>

lemma unanswered_refunds_skipped:
  assumes "\<forall>i. good_io (ios i)" "tells_no_refunds X (GenesisBlockAddress c)" "SupportInvalidDeposit c"
    and "SideNodeHeight (xN X) (GenesisBlockAddress c) = Inr chainHeight"
    and "GetDataStoreGenesisBlocAddress (GenesisBlockAddress c) db = Some st"
    and "SideHeightInfo st = Some v" "v < chainHeight" "SyncStartHeight c \<le> chainHeight" "chainHeight < ResetHeightCode"
    and "unat chainHeight \<le> fuel"
  shows "\<exists>db' mining. sync_round X m ios now c onDuty fuel db = Some (Done (), [], db', mining) \<and>
    GetDataStoreGenesisBlocAddress (GenesisBlockAddress c) db' = Some (st\<lparr>SideHeightInfo := Some chainHeight\<rparr>)"
proof -
  let ?a = "GenesisBlockAddress c" and ?h = "max v (SyncStartHeight c)"
  have "CurrentSideHeight (ios 0) QueryHeightCode st = (v, st)" using height_asked assms(1,6) by blast
  then have sync: "side_needSyncBlocks X (ios 0) ?a db = ((chainHeight, v, True), on_address ?a (\<lambda>_. st) db)"
    using assms(4,5,7) by (simp add: side_needSyncBlocks_def)
  define s where "s = \<lparr>ScanHeight = ?h, ScanCount = 1, ScanDb = on_address ?a (\<lambda>_. st) db, ScanTick = 1\<rparr>"
  have "st = st\<lparr>SideHeightInfo := Some v\<rparr>" using assms(6) by simp
  then have "only_height ?a st s"
    using found_on_const(1) [OF assms(5), of st] by (auto simp: s_def only_height_def intro!: exI [of _ v])
  moreover have "ScanHeight s \<le> chainHeight" "unat chainHeight - unat (ScanHeight s) \<le> fuel"
    using assms(7,8,10) by (simp_all add: s_def)
  ultimately obtain s' where run: "scan_blocks X m ios now c chainHeight fuel s = Some (Done (), [], s')"
    "ScanHeight s' = chainHeight" "only_height ?a st s'"
    using scan_blocks_only_height [OF assms(1-3,9)] by blast
  have "sync_round X m ios now c onDuty fuel db =
      Some (Done (), [], ScanDb (store_height ios ?a s'), onDuty \<and> GetChain X ?a \<noteq> None)"
    using sync run(1) by (simp add: sync_round_def Let_def s_def)
  then show ?thesis using store_only_height [OF assms(1) run(3)] assms(9) run(2) by auto
qed

section \<open>A concrete node\<close>

text \<open>Hexadecimal text is the bytes themselves; one withdraw in block 2 of a chain of height 9.\<close>

definition info8 :: withdraw_tx_info where
  "info8 = \<lparr>InfoTxID = ''ab'', CrossChainAssets =
     [\<lparr>CrossChainAddress = ''a'', InfoCrossChainAmount = ''4444'', OutputAmount = ''55555'', InfoTargetData = []\<rparr>]\<rparr>"

definition blocks8 :: "u32 \<Rightarrow> withdraw_tx_info list" where
  "blocks8 h = (if h = 2 then [info8] else [])"

definition xenv8 :: cross_env where
  "xenv8 = xenv0\<lparr>xC := crypto0\<lparr>HexStringToBytes := (\<lambda>s. Some (map char_byte s)), BytesToHexString := map byte_char\<rparr>,
     xN := nodes0\<lparr>GetWithdrawTransactionByHeight := (\<lambda>_ h. Inr (blocks8 h))\<rparr>\<rparr>"

definition xenv9 :: cross_env where
  "xenv9 = xenv0\<lparr>xN := nodes0\<lparr>GetFailedDepositTransactions := (\<lambda>_ _. Inl ExtErr)\<rparr>\<rparr>"

definition config8 :: side_config where "config8 = the (CurrentConfig chain0)"

lemma config8_sel [simp]: "CfgName config8 = ''sc''" "GenesisBlockAddress config8 = ''K''" "SyncStartHeight config8 = 0"
  "SupportInvalidDeposit config8" "CurrentConfig chain0 = Some config8"
  by (simp_all add: config8_def chain0_def)

lemma steps_pass: "list_all (\<lambda>f. \<forall>s. fst (f s) = None) fs \<Longrightarrow> fst (run_steps fs s) = None"
proof (induction fs arbitrary: s)
  case (Cons f fs)
  then have "fst (f s) = None" by simp
  with Cons show ?case by (cases "f s") simp
qed simp

lemma serialize0: "fst (WithdrawTx_Serialize wire0 \<lparr>Txid = Some h, WithdrawInfo = Some i\<rparr> b) = None"
proof -
  have put: "fst (wput (put_string s) e x) = None" "fst (wput (put_word (w :: 64 word)) e x) = None"
    "fst (wput (put_bytes bs) e x) = None" for s e x w bs
    by (simp_all add: wput_def put_string_def put_word_def put_bytes_def)
  have "fst (run_steps (asset_writes wire0 w) x) = None" for w x
    by (rule steps_pass) (simp add: asset_writes_def wire0_def put)
  then have "fst (WithdrawInfo_Serialize wire0 i x) = None" for x
    unfolding WithdrawInfo_Serialize_def by (intro steps_pass) (simp add: list_all_iff wire0_def put)
  then show ?thesis unfolding WithdrawTx_Serialize_def
    by (intro steps_pass) (auto simp: wire0_def put split: prod.split option.split intro: prod_eqI dest: arg_cong [of _ _ fst])
qed

lemma hashes8: "hashes_agree xenv8"
  by (auto simp: hashes_agree_def xenv8_def addr0_def monitored_tx_def Let_def serialize0 split: option.splits if_splits)

lemma node8: "node_answers xenv8 ''K'' blocks8"
  by (simp add: node_answers_def xenv8_def nodes0_def failed_deposit_of_def split: option.split)

lemma db0_linked: "linked ''sc'' ''K'' db0" "GetDataStoreGenesisBlocAddress ''K'' db0 = Some (side0\<lparr>genesisBlockAddress := ''K''\<rparr>)"
  by (simp_all add: linked_def db0_def side0_def GetDataStoreGenesisBlocAddress_def)

lemma monitored8: "monitored_tx xenv8 info8 \<noteq> None" "cache_hash xenv8 info8 = ''ba''"
  by (simp_all add: monitored_tx_def monitored_hash_def xenv8_def info8_def addr0_def monitored_asset_def List.map_filter_def
      xenv0_def cache_hash_def comp_def)

theorem no_withdraw_missed_witness:
  "\<exists>es (db' :: db_cache) mining. sync_round xenv8 (Some [(''K'', chain0)]) (\<lambda>_. plain_io) ''now'' config8 False 9 db0 =
     Some (Done (), es, db', mining) \<and> is_cached ''K'' ''ba'' db'"
proof -
  have "\<forall>i. good_io ((\<lambda>_ :: nat. plain_io) i)" by simp
  moreover have "listens (Some [(''K'', chain0)]) ''sc'' (GenesisBlockAddress config8)" by (simp add: listens_def)
  moreover note hashes8
  moreover have "node_answers xenv8 (GenesisBlockAddress config8) blocks8" by (simp add: node8)
  moreover have "SideNodeHeight (xN xenv8) (GenesisBlockAddress config8) = Inr 9" by (simp add: xenv8_def nodes0_def)
  moreover have "linked ''sc'' (GenesisBlockAddress config8) db0" by (simp add: db0_linked)
  moreover have "GetDataStoreGenesisBlocAddress (GenesisBlockAddress config8) db0 = Some (side0\<lparr>genesisBlockAddress := ''K''\<rparr>)"
    by (simp add: db0_linked)
  moreover have "SideHeightInfo (side0\<lparr>genesisBlockAddress := ''K''\<rparr>) = Some 0" by (simp add: side0_def)
  moreover have "(0 :: u32) < 9" "SyncStartHeight config8 \<le> 9" "(9 :: u32) < ResetHeightCode" "unat (9 :: u32) \<le> 9"
    by (simp_all add: ResetHeightCode_def)
  ultimately obtain es db' mining where run:
    "sync_round xenv8 (Some [(''K'', chain0)]) (\<lambda>_. plain_io) ''now'' config8 False 9 db0 = Some (Done (), es, db', mining)"
    "\<forall>h txn. max 0 (SyncStartHeight config8) \<le> h \<longrightarrow> h < 9 \<longrightarrow> 6 \<le> h \<longrightarrow> txn \<in> set (blocks8 (h + 1 - 6)) \<longrightarrow>
       monitored_tx xenv8 txn \<noteq> None \<longrightarrow> is_cached (GenesisBlockAddress config8) (cache_hash xenv8 txn) db'"
    using no_withdraw_missed [where ios = "\<lambda>_. plain_io" and m = "Some [(''K'', chain0)]" and n = "''sc''" and c = config8
      and X = xenv8 and blocks = blocks8] by blast
  have "info8 \<in> set (blocks8 (7 + 1 - 6))" by (simp add: blocks8_def)
  then have "is_cached ''K'' ''ba'' db'" using run(2) [rule_format, of 7 info8] monitored8 by simp
  with run(1) show ?thesis by blast
qed

lemma unanswered_refunds_skipped_witness:
  "\<exists>(db' :: db_cache) mining. sync_round xenv9 None (\<lambda>_. plain_io) ''now'' config8 False 9 db0 = Some (Done (), [], db', mining)"
proof -
  have "\<forall>i. good_io ((\<lambda>_ :: nat. plain_io) i)" by simp
  moreover have "tells_no_refunds xenv9 (GenesisBlockAddress config8)" by (simp add: tells_no_refunds_def xenv9_def nodes0_def)
  moreover have "SupportInvalidDeposit config8" by simp
  moreover have "SideNodeHeight (xN xenv9) (GenesisBlockAddress config8) = Inr 9" by (simp add: xenv9_def nodes0_def)
  moreover have "GetDataStoreGenesisBlocAddress (GenesisBlockAddress config8) db0 = Some (side0\<lparr>genesisBlockAddress := ''K''\<rparr>)"
    by (simp add: db0_linked)
  moreover have "SideHeightInfo (side0\<lparr>genesisBlockAddress := ''K''\<rparr>) = Some 0" by (simp add: side0_def)
  moreover have "(0 :: u32) < 9" "SyncStartHeight config8 \<le> 9" "(9 :: u32) < ResetHeightCode" "unat (9 :: u32) \<le> 9"
    by (simp_all add: ResetHeightCode_def)
  ultimately show ?thesis
    using unanswered_refunds_skipped [where ios = "\<lambda>_. plain_io" and c = config8 and X = xenv9] by blast
qed

end
