(* ===== verification/Props_Chains.thy ===== *)
theory Props_Chains
  imports Props_Monitor
begin

text \<open>
  Properties of the side chains: what a proposal pays, how much of the waiting transactions it takes, what
  stands in the way of the others, and what the clean-up of the caches removes.
\<close>

section \<open>Proposals of withdraws\<close>

lemma target_transactions_filter:
  "target_transactions X ts = Some us \<Longrightarrow>
   us = filter (\<lambda>t. \<exists>info. WithdrawInfo t = Some info \<and> WithdrawAssets info \<noteq> [] \<and> \<not> list_ex (ignored_asset X) (WithdrawAssets info)) ts"
  by (induction ts arbitrary: us) (auto split: option.splits if_splits)

text \<open>What \<open>grow\<close> returns was built from a prefix of the list and is not too large.\<close>

lemma grow_built:
  assumes "grow create fits xs i wTx db = (Done (Some tx), db')"
    and "wTx = None \<or> (\<exists>j n db1 db2. create j (take n xs) db1 = (Inr (the wTx), db2) \<and> fits (the wTx))"
  shows "\<exists>j n db1 db2. create j (take n xs) db1 = (Inr tx, db2) \<and> fits tx"
  using assms
proof (induction create fits xs i wTx db rule: grow.induct)
  case (1 create fits xs i wTx db)
  show ?case
  proof (cases "length xs \<le> i")
    case True
    then show ?thesis using "1.prems" by (simp add: grow.simps [of create])
  next
    case False
    show ?thesis
    proof (cases "create i (take (i + 100) xs) db")
      case (Pair r db1)
      show ?thesis
      proof (cases r)
        case (Inl e)
        then have "e \<noteq> GoPanic" "grow create fits xs (i + 100) wTx db1 = (Done (Some tx), db')"
          using "1.prems"(1) False Pair by (auto simp: grow.simps [of create _ _ i] split: if_splits)
        then show ?thesis using "1.IH"(1) [OF False Pair [symmetric] Inl] "1.prems"(2) by blast
      next
        case (Inr t)
        then have "grow create fits xs (i + 100) (if fits t then Some t else wTx) db1 = (Done (Some tx), db')"
          using "1.prems"(1) False Pair by (simp add: grow.simps [of create _ _ i])
        moreover have "(if fits t then Some t else wTx) = None \<or>
            (\<exists>j n db1 db2. create j (take n xs) db1 = (Inr (the (if fits t then Some t else wTx)), db2) \<and>
              fits (the (if fits t then Some t else wTx)))"
          using "1.prems"(2) Pair Inr by auto
        ultimately show ?thesis using "1.IH"(2) [OF False Pair [symmetric] Inr] by blast
      qed
    qed
  qed
qed

lemma build_outputs_from: "build_outputs f xs = Inr ys \<Longrightarrow> y \<in> set ys \<Longrightarrow> \<exists>x \<in> set xs. f x = Inr y"
proof (induction xs arbitrary: ys)
  case (Cons x xs)
  then show ?case by (cases "f x"; cases "build_outputs f xs") auto
qed simp

lemma built_outputs_pay:
  assumes "withdraw_parts X io typed sc ts db = (Inr (hs, ins, outs), db')" "out \<in> set outs"
  shows "Uint168FromAddress (xA X) (Key sc) = Some (OutProgramHash out) \<or>
    (\<exists>w \<in> set (assets_of ts). \<exists>rate. Uint168FromAddress (xA X) (TargetAddress w) = Some (OutProgramHash out) \<and>
       GetExchangeRate (SideNodeList X) sc = Inr rate \<and> OutValue out = fixed_div (CrossChainAmount w) rate)"
proof -
  from withdraw_parts_Inr [OF assms(1)] obtain rate assets outs0 where
    p: "GetExchangeRate (SideNodeList X) sc = Inr rate" "parseUserWithdrawTransactions ts = Some assets"
      "build_outputs (withdraw_output X typed (Key sc) rate) assets = Inr outs0"
      "fund X io typed (Key sc) (fx_sum (map (\<lambda>a. fixed_div (Amount (fst a)) rate) assets)) outs0 db = (Inr (ins, outs), db')"
    by blast
  have "outs = outs0 \<or> (\<exists>h v. Uint168FromAddress (xA X) (Key sc) = Some h \<and> outs = outs0 @ [change_output typed h v])"
    by (rule fund_outputs [OF p(4)])
  then consider "out \<in> set outs0" | "Uint168FromAddress (xA X) (Key sc) = Some (OutProgramHash out)"
    using assms(2) by (auto simp: change_output_def)
  then show ?thesis
  proof cases
    case 1
    then obtain a where a: "a \<in> set assets" "withdraw_output X typed (Key sc) rate a = Inr out"
      using build_outputs_from [OF p(3)] by blast
    then have "fst a \<in> set (assets_of ts)" unfolding parse_assets [OF p(2), symmetric] by simp
    then show ?thesis using a(2) p(1) by (auto simp: withdraw_output_def split: option.splits)
  qed simp
qed

lemma builders_parts:
  "CreateSchnorrWithdrawTransaction X io sc ts db = (Inr tx, db') \<Longrightarrow>
     \<exists>hs db1. withdraw_parts X io True sc ts db = (Inr (hs, Inputs tx, Outputs tx), db1)"
  "CreateWithdrawTransactionV1 X io sc ts db = (Inr tx, db') \<Longrightarrow>
     \<exists>hs db1. withdraw_parts X io True sc ts db = (Inr (hs, Inputs tx, Outputs tx), db1)"
  "CreateWithdrawTransactionV0 X io sc ts db = (Inr tx, db') \<Longrightarrow>
     \<exists>hs db1. withdraw_parts X io False sc ts db = (Inr (hs, Inputs tx, Outputs tx), db1)"
  by (auto simp: CreateSchnorrWithdrawTransaction_def CreateWithdrawTransactionV1_def CreateWithdrawTransactionV0_def
      split: prod.splits sum.splits)

lemma hashes_decoded:
  assumes "good_io io" "hs \<noteq> []" "\<forall>h \<in> set hs. no_quote h"
  shows "GetSideChainTxsFromHashes W io hs st = Inr (map (\<lambda>row. decode_withdraw W (ScTransaction row))
    (arrange io (filter (\<lambda>row. ScTransactionHash row \<in> set hs) (SideChainTxs st))))"
  by (simp add: GetSideChainTxsFromHashes_def select_in_ok [OF assms])

text \<open>The transaction of a proposal, whatever its form.\<close>

fun proposed :: "proposal \<Rightarrow> transaction" where
  "proposed (MultisigProposal tx) = tx"
| "proposed (SchnorrProposal tx) = tx"

text \<open>One of the three builders made the transaction.\<close>

definition built_by :: "cross_env \<Rightarrow> db_io \<Rightarrow> side_chain \<Rightarrow> withdraw_tx list \<Rightarrow> db_cache \<Rightarrow> transaction \<Rightarrow> bool" where
  "built_by X io sc ts db tx \<longleftrightarrow>
     (\<exists>build \<in> {CreateSchnorrWithdrawTransaction, CreateWithdrawTransactionV1, CreateWithdrawTransactionV0}.
        fst (build X io sc ts db) = Inr tx)"

lemma built_by_parts:
  "built_by X io sc ts db tx \<Longrightarrow> \<exists>typed hs db'. withdraw_parts X io typed sc ts db = (Inr (hs, Inputs tx, Outputs tx), db')"
  unfolding built_by_def using builders_parts by (metis (no_types, lifting) empty_iff insert_iff prod.collapse)

lemma withdraw_proposal_built:
  assumes "CreateAndBroadcastWithdrawProposal X ios sc hs db = (r, ps, db')" "p \<in> set ps"
    and "CurrentConfig sc = Some c" "GetDataStoreByDBName (CfgName c) db = Some st"
  shows "\<exists>txs targets n io db1. GetSideChainTxsFromHashes (xW X) (ios 0) hs st = Inr txs \<and>
    target_transactions X txs = Some targets \<and> TxGetSize (xT X) (proposed p) < MaxBlockContextSize X \<and>
    built_by X io sc (take n targets) db1 (proposed p)"
proof -
  obtain txs where txs: "GetSideChainTxsFromHashes (xW X) (ios 0) hs st = Inr txs" "txs \<noteq> []"
    using assms by (auto simp: CreateAndBroadcastWithdrawProposal_def split: sum.splits if_splits)
  obtain targets where targets: "target_transactions X txs = Some targets"
    using assms txs by (cases "target_transactions X txs") (auto simp: CreateAndBroadcastWithdrawProposal_def)
  obtain h ms where h: "Main_CurrentHeight (ios 1) QueryHeightCode (MainChainStore db) = (h, ms)" by fastforce
  define create where "create = (\<lambda>i txs db'.
     if SchnorrStartHeight (xCfg X) \<le> h then CreateSchnorrWithdrawTransaction X (ios (i + 2)) sc txs db'
     else if NewCrossChainTransactionHeight (xCfg X) \<le> h then CreateWithdrawTransactionV1 X (ios (i + 2)) sc txs db'
     else CreateWithdrawTransactionV0 X (ios (i + 2)) sc txs db')"
  define fits where "fits = (\<lambda>tx. TxGetSize (xT X) tx < MaxBlockContextSize X)"
  obtain g dbg where g: "grow create fits targets 0 None (db\<lparr>MainChainStore := ms\<rparr>) = (g, dbg)" by fastforce
  have "g = Done (Some (proposed p))"
    using assms txs targets h g [unfolded create_def fits_def]
    by (auto simp: CreateAndBroadcastWithdrawProposal_def Let_def split: outcome.splits option.splits if_splits)
  from grow_built [OF g [unfolded this]] obtain j n db1 db2 where
    b: "create j (take n targets) db1 = (Inr (proposed p), db2)" "fits (proposed p)" by auto
  have "built_by X (ios (j + 2)) sc (take n targets) db1 (proposed p)"
    using b(1) by (auto simp: create_def built_by_def split: if_splits)
  then show ?thesis using txs(1) targets b(2) unfolding fits_def by blast
qed

lemma unsolved_hashes:
  assumes "length hs \<le> length heights"
  obtains us hts where "SubstractTransactionHashesAndBlockHeights hs heights sub = Done (us, hts)" "set us \<subseteq> set hs - set sub"
proof -
  let ?ys = "filter (\<lambda>(h, _). h \<notin> set sub) (zip hs heights)"
  have "set (map fst ?ys) \<subseteq> set hs - set sub" by (auto dest: set_zip_leftD)
  then show thesis using that SubstractHeights_zip [OF assms, of sub] by blast
qed

text \<open>What is proposed is built from some of the cached withdraws that the main chain has not received and that are worth it.\<close>

definition worth_it :: "cross_env \<Rightarrow> withdraw_tx \<Rightarrow> bool" where
  "worth_it X t \<longleftrightarrow> (\<exists>info. WithdrawInfo t = Some info \<and> WithdrawAssets info \<noteq> [] \<and> \<not> list_ex (ignored_asset X) (WithdrawAssets info))"

lemma sent_from_rows:
  assumes "\<forall>i. good_io (ios i)" "CurrentConfig sc = Some c" "GetDataStoreByDBName (CfgName c) db = Some st"
    and "\<forall>row \<in> set (SideChainTxs st). no_quote (ScTransactionHash row)"
    and "SendCachedWithdrawTxs X ios sc db = (r, ps, db')" "p \<in> set ps"
  shows "\<exists>hashes received ts io db1. GetExistWithdrawTransactions (xN X) hashes = Inr received \<and> length hashes \<le> MaxTxsPerWithdrawTx X \<and>
    TxGetSize (xT X) (proposed p) < MaxBlockContextSize X \<and> built_by X io sc ts db1 (proposed p) \<and>
    (\<forall>t \<in> set ts. worth_it X t \<and> (\<exists>row \<in> set (SideChainTxs st). ScTransactionHash row \<in> set hashes - set received \<and>
       t = decode_withdraw (xW X) (ScTransaction row)))"
proof -
  define rows where "rows = arrange (ios 0) (SideChainTxs st)"
  have all: "GetAllSideChainTxHashesAndHeights (ios 0) st = Inr (map ScTransactionHash rows, map ScBlockHeight rows)"
    using good_ioD [of "ios 0"] assms(1) by (simp add: GetAllSideChainTxHashesAndHeights_def select_def rows_def)
  have sub: "set rows \<subseteq> set (SideChainTxs st)" using assms(1) by (simp add: rows_def set_arrange good_ioD)
  define hashes where "hashes = take (MaxTxsPerWithdrawTx X) (map ScTransactionHash rows)"
  have "map ScTransactionHash rows \<noteq> []" using assms all by (auto simp: SendCachedWithdrawTxs_def)
  then obtain received where rec: "GetExistWithdrawTransactions (xN X) hashes = Inr received"
    using assms all by (cases "GetExistWithdrawTransactions (xN X) hashes") (auto simp: SendCachedWithdrawTxs_def hashes_def Let_def)
  have len: "length hashes \<le> length (map ScBlockHeight rows)" by (simp add: hashes_def)
  obtain unsolved hts where sub2: "SubstractTransactionHashesAndBlockHeights hashes (map ScBlockHeight rows) received = Done (unsolved, hts)"
    "set unsolved \<subseteq> set hashes - set received"
    by (rule unsolved_hashes [OF len])
  obtain r1 ps1 db1 where c: "CreateAndBroadcastWithdrawProposal X (\<lambda>i. ios (i + 3)) sc unsolved db = (r1, ps1, db1)" by (metis prod_cases3)
  have p: "unsolved \<noteq> []" "p \<in> set ps1"
    using assms(2,3,5,6) all rec sub2(1) c \<open>map ScTransactionHash rows \<noteq> []\<close>
    by (auto simp: SendCachedWithdrawTxs_def hashes_def [symmetric] Let_def
        split: outcome.splits if_splits sum.splits prod.splits)
  from withdraw_proposal_built [OF c p(2) assms(2,3)] obtain txs targets n io dba where
    b: "GetSideChainTxsFromHashes (xW X) (ios 3) unsolved st = Inr txs" "target_transactions X txs = Some targets"
      "TxGetSize (xT X) (proposed p) < MaxBlockContextSize X" "built_by X io sc (take n targets) dba (proposed p)" by auto
  have "set hashes \<subseteq> ScTransactionHash ` set (SideChainTxs st)" using sub by (fastforce simp: hashes_def dest!: in_set_takeD)
  then have "\<forall>h \<in> set unsolved. no_quote h" using sub2(2) assms(4) by blast
  then have txs: "txs = map (\<lambda>row. decode_withdraw (xW X) (ScTransaction row))
      (arrange (ios 3) (filter (\<lambda>row. ScTransactionHash row \<in> set unsolved) (SideChainTxs st)))"
    using b(1) hashes_decoded [of "ios 3" unsolved] assms(1) p(1) by auto
  have "worth_it X t \<and> (\<exists>row \<in> set (SideChainTxs st). ScTransactionHash row \<in> set hashes - set received \<and>
      t = decode_withdraw (xW X) (ScTransaction row))" if t: "t \<in> set (take n targets)" for t
  proof
    from t have t: "t \<in> set targets" by (rule in_set_takeD)
    then show "worth_it X t" using target_transactions_filter [OF b(2)] by (simp add: worth_it_def)
    from t obtain row where row: "row \<in> set (SideChainTxs st)" "ScTransactionHash row \<in> set unsolved"
      "t = decode_withdraw (xW X) (ScTransaction row)"
      using target_transactions_filter [OF b(2)] assms(1) by (auto simp: txs set_arrange good_ioD)
    then show "\<exists>row \<in> set (SideChainTxs st). ScTransactionHash row \<in> set hashes - set received \<and>
      t = decode_withdraw (xW X) (ScTransaction row)" using sub2(2) by blast
  qed
  with b(3,4) rec show ?thesis
    by (intro exI [of _ hashes] exI [of _ received] exI [of _ "take n targets"] exI [of _ io] exI [of _ dba]) (simp add: hashes_def)
qed

text \<open>C16: What the arbiter on duty proposes for a side chain pays waiting withdraws only: every output goes back to
  the address of the side chain, or pays the converted cross chain amount of an asset of a cached withdraw that
  the main chain did not report as received, and such an asset has an amount, the least fee, and a target that is
  an address and not frozen. The transaction is below the size limit of a block.\<close>

theorem proposals_pay_waiting:
  assumes "\<forall>i. good_io (ios i)" "CurrentConfig sc = Some c" "GetDataStoreByDBName (CfgName c) db = Some st"
    and "\<forall>row \<in> set (SideChainTxs st). no_quote (ScTransactionHash row)"
    and "SendCachedWithdrawTxs X ios sc db = (r, ps, db')" "p \<in> set ps"
  shows "TxGetSize (xT X) (proposed p) < MaxBlockContextSize X \<and>
    (\<exists>hashes received. GetExistWithdrawTransactions (xN X) hashes = Inr received \<and> length hashes \<le> MaxTxsPerWithdrawTx X \<and>
      (\<forall>out \<in> set (Outputs (proposed p)). Uint168FromAddress (xA X) (Key sc) = Some (OutProgramHash out) \<or>
        (\<exists>row \<in> set (SideChainTxs st). ScTransactionHash row \<in> set hashes - set received \<and>
          (\<exists>w \<in> set (assets_of [decode_withdraw (xW X) (ScTransaction row)]). \<not> ignored_asset X w \<and>
            Uint168FromAddress (xA X) (TargetAddress w) = Some (OutProgramHash out) \<and>
            (\<exists>rate. GetExchangeRate (SideNodeList X) sc = Inr rate \<and> OutValue out = fixed_div (CrossChainAmount w) rate)))))"
proof -
  from sent_from_rows [OF assms] obtain hashes received ts io db1 where
    s: "GetExistWithdrawTransactions (xN X) hashes = Inr received" "length hashes \<le> MaxTxsPerWithdrawTx X"
      "TxGetSize (xT X) (proposed p) < MaxBlockContextSize X" "built_by X io sc ts db1 (proposed p)" and
    ts: "\<forall>t \<in> set ts. worth_it X t \<and> (\<exists>row \<in> set (SideChainTxs st). ScTransactionHash row \<in> set hashes - set received \<and>
       t = decode_withdraw (xW X) (ScTransaction row))" by (elim exE conjE)
  from built_by_parts [OF s(4)] obtain typed hs' dbb where
    parts: "withdraw_parts X io typed sc ts db1 = (Inr (hs', Inputs (proposed p), Outputs (proposed p)), dbb)" by blast
  have "Uint168FromAddress (xA X) (Key sc) = Some (OutProgramHash out) \<or>
      (\<exists>row \<in> set (SideChainTxs st). ScTransactionHash row \<in> set hashes - set received \<and>
        (\<exists>w \<in> set (assets_of [decode_withdraw (xW X) (ScTransaction row)]). \<not> ignored_asset X w \<and>
          Uint168FromAddress (xA X) (TargetAddress w) = Some (OutProgramHash out) \<and>
          (\<exists>rate. GetExchangeRate (SideNodeList X) sc = Inr rate \<and> OutValue out = fixed_div (CrossChainAmount w) rate)))"
    if out: "out \<in> set (Outputs (proposed p))" for out
    using built_outputs_pay [OF parts out]
  proof (elim disjE bexE exE conjE)
    fix w rate
    assume w: "w \<in> set (assets_of ts)" "Uint168FromAddress (xA X) (TargetAddress w) = Some (OutProgramHash out)"
      "GetExchangeRate (SideNodeList X) sc = Inr rate" "OutValue out = fixed_div (CrossChainAmount w) rate"
    then obtain t where t: "t \<in> set ts" "w \<in> set (assets_of [t])" by (auto simp: assets_of_def)
    then have "\<not> ignored_asset X w" using ts by (fastforce simp: assets_of_def list_ex_iff worth_it_def)
    moreover obtain row where "row \<in> set (SideChainTxs st)" "ScTransactionHash row \<in> set hashes - set received"
      "t = decode_withdraw (xW X) (ScTransaction row)" using ts t(1) by blast
    ultimately show ?thesis using w(2-) t(2)
      by (intro disjI2 bexI [of _ row] conjI bexI [of _ w] exI [of _ rate]) simp_all
  qed simp
  with s(1-3) show ?thesis by blast
qed

section \<open>How much a proposal takes\<close>

text \<open>With a builder that does not touch the stores and does not panic, the loop is a search from the largest
  batch down.\<close>

lemma grow_pure:
  assumes "\<And>ys. f ys \<noteq> Inl GoPanic"
  shows "grow (\<lambda>_ ys db. (f ys, db)) fits xs (100 * k) wTx db =
    (Done (case find fits (rev (List.map_filter (\<lambda>j. case f (take (100 * j) xs) of Inr tx \<Rightarrow> Some tx | Inl _ \<Rightarrow> None)
             [Suc k..<Suc ((length xs + 99) div 100)])) of None \<Rightarrow> wTx | Some tx \<Rightarrow> Some tx), db)"
proof (induction "length xs - 100 * k" arbitrary: k wTx rule: less_induct)
  case less
  show ?case
  proof (cases "length xs \<le> 100 * k")
    case True
    then have "[Suc k..<Suc ((length xs + 99) div 100)] = []" by simp
    then show ?thesis using True by (simp only: grow.simps [of _ _ _ "100 * k"] if_True List.map_filter_simps list.map rev.simps find.simps option.case)
  next
    case False
    then have next_k: "Suc k < Suc ((length xs + 99) div 100)" "length xs - 100 * Suc k < length xs - 100 * k" by auto
    have step: "100 * k + 100 = 100 * Suc k" by simp
    show ?thesis
    proof (cases "f (take (100 * Suc k) xs)")
      case (Inl e)
      then have "e \<noteq> GoPanic" using assms by metis
      then have "grow (\<lambda>_ ys db. (f ys, db)) fits xs (100 * k) wTx db = grow (\<lambda>_ ys db. (f ys, db)) fits xs (100 * Suc k) wTx db"
        unfolding grow.simps [of _ _ _ "100 * k"] step using False Inl by simp
      then show ?thesis unfolding upt_conv_Cons [OF next_k(1)] using less [OF next_k(2)] Inl by (simp add: List.map_filter_simps)
    next
      case (Inr tx)
      then have "grow (\<lambda>_ ys db. (f ys, db)) fits xs (100 * k) wTx db =
          grow (\<lambda>_ ys db. (f ys, db)) fits xs (100 * Suc k) (if fits tx then Some tx else wTx) db"
        unfolding grow.simps [of _ _ _ "100 * k"] step using False by simp
      then show ?thesis unfolding upt_conv_Cons [OF next_k(1)] using less [OF next_k(2)] Inr
        by (simp add: List.map_filter_simps find_append split: option.split)
    qed
  qed
qed

definition nft_batch :: "cross_env \<Rightarrow> program \<Rightarrow> uint256 \<Rightarrow> nft_destroy_tx list \<Rightarrow> transaction" where
  "nft_batch X prog g ts =
     \<lparr>TxType = TxNFTDestroyFromSideChain, PayloadVersion = NFTDestroyFromSideChainVersion (xA X),
      Payload = NFTDestroyFromSideChain (map ID ts) (map OwnerStakeAddress ts) g,
      Inputs = [], Outputs = [], Programs = [prog]\<rparr>"

text \<open>C37: The proposal of NFT transactions is the largest batch that fits: of the first 100, 200, .. waiting ones and
  of all of them it takes the last one below the size limit of a block, and there is no proposal when none is.\<close>

theorem nft_proposal_largest_batch:
  assumes "CreateRedeemScript (xC X) (xCfg X) (xGroup X) = Inr script" "CurrentConfig sc = Some c"
    and "Uint256FromHexString (xA X) (GenesisBlock c) = Some g" "GetDataStoreByDBName (CfgName c) db = Some st"
    and "GetNFTDestroyTxsFromIDs (xW X) (ios 0) ids st = Inr ts" "ts \<noteq> []"
  shows "\<exists>db'. CreateAndBroadcastNFTDestroyProposal X ios sc ids db =
    (case find (\<lambda>tx. TxGetSize (xT X) tx < MaxBlockContextSize X)
        (rev (map (\<lambda>j. nft_batch X \<lparr>Code = script, Parameter = None\<rparr> g (take (100 * j) ts)) [1..<Suc ((length ts + 99) div 100)])) of
       None \<Rightarrow> (Fail (Err ''[CreateAndBroadcastWithdrawProposal] failed''), [], db')
     | Some tx \<Rightarrow> (Done (), [MultisigProposal tx], db'))"
proof -
  let ?b = "nft_batch X \<lparr>Code = script, Parameter = None\<rparr> g" and ?fits = "\<lambda>tx. TxGetSize (xT X) tx < MaxBlockContextSize X"
  have f: "CreateNFTDestroyFromSideChainTx X sc ys = Inr (?b ys)" for ys
    using assms(1-3) by (simp add: CreateNFTDestroyFromSideChainTx_def nft_batch_def getCurrentConfig_def)
  have "List.map_filter (\<lambda>j. Some (?b (take (100 * j) ts))) js = map (\<lambda>j. ?b (take (100 * j) ts)) js" for js
    by (induction js) (simp_all add: List.map_filter_simps)
  then have g: "grow (\<lambda>_ ys db. (CreateNFTDestroyFromSideChainTx X sc ys, db)) ?fits ts 0 None d =
      (Done (find ?fits (rev (map (\<lambda>j. ?b (take (100 * j) ts)) [1..<Suc ((length ts + 99) div 100)]))), d)" for d
    using grow_pure [of "\<lambda>ys. CreateNFTDestroyFromSideChainTx X sc ys" ?fits ts 0 None d]
    by (simp only: f sum.distinct sum.case mult_0_right One_nat_def option.case_eq_if not_False_eq_True simp_thms) (simp split: option.split)
  obtain h ms where "Main_CurrentHeight (ios 1) QueryHeightCode (MainChainStore db) = (h, ms)" by fastforce
  then show ?thesis
    using assms(2,4-6) g [of "db\<lparr>MainChainStore := ms\<rparr>"]
    by (intro exI [of _ "db\<lparr>MainChainStore := ms\<rparr>"]) (simp add: CreateAndBroadcastNFTDestroyProposal_def split: option.split)
qed

section \<open>What stands in the way\<close>

definition stuck :: "cross_env \<Rightarrow> withdraw_tx \<Rightarrow> bool" where
  "stuck X t \<longleftrightarrow> (\<exists>info. WithdrawInfo t = Some info \<and> (WithdrawAssets info = [] \<or> list_ex (ignored_asset X) (WithdrawAssets info)))"

lemma target_transactions_stuck: "\<forall>t \<in> set ts. stuck X t \<Longrightarrow> target_transactions X ts = Some []"
  by (induction ts) (auto simp: stuck_def)

lemma CreateAndBroadcast_stuck:
  assumes "CurrentConfig sc = Some c" "GetDataStoreByDBName (CfgName c) db = Some st"
    and "GetSideChainTxsFromHashes (xW X) (ios 0) hs st = Inr txs" "\<forall>t \<in> set txs. stuck X t"
  shows "\<exists>r ms. CreateAndBroadcastWithdrawProposal X ios sc hs db = (r, [], db\<lparr>MainChainStore := ms\<rparr>) \<and> r \<noteq> Panic"
proof (cases "txs = []")
  case True
  then show ?thesis
    using assms by (intro exI [of _ "Done ()"] exI [of _ "MainChainStore db"]) (simp add: CreateAndBroadcastWithdrawProposal_def)
next
  case False
  obtain h ms where "Main_CurrentHeight (ios 1) QueryHeightCode (MainChainStore db) = (h, ms)" by fastforce
  then show ?thesis
    using assms False target_transactions_stuck [OF assms(4)]
    by (auto simp: CreateAndBroadcastWithdrawProposal_def Let_def grow.simps)
qed

text \<open>Withdraws that are never worth a proposal block all others: when every one of the first
  \<open>MaxTxsPerWithdrawTx\<close> cached ones holds an ignored asset and the main chain has none of them, nothing is
  proposed and the caches stay as they are, so that the next round looks at the same ones again, whatever waits
  behind them.\<close>

lemma stuck_withdraws_block_others:
  assumes "\<forall>i. good_io (ios i)" "side_store_wf st" "CurrentConfig sc = Some c" "GetDataStoreByDBName (CfgName c) db = Some st"
    and "\<forall>row \<in> set (SideChainTxs st). no_quote (ScTransactionHash row)"
    and "first = take (MaxTxsPerWithdrawTx X) (arrange (ios 0) (SideChainTxs st))"
    and "\<forall>row \<in> set first. stuck X (decode_withdraw (xW X) (ScTransaction row))"
    and "GetExistWithdrawTransactions (xN X) (map ScTransactionHash first) = Inr []"
  shows "\<exists>ms. SendCachedWithdrawTxs X ios sc db = (Done (), [], db\<lparr>MainChainStore := ms\<rparr>)"
proof (cases "first = []")
  case True
  define rows where "rows = arrange (ios 0) (SideChainTxs st)"
  have "GetAllSideChainTxHashesAndHeights (ios 0) st = Inr (map ScTransactionHash rows, map ScBlockHeight rows)"
    using good_ioD [of "ios 0"] assms(1) by (simp add: GetAllSideChainTxHashesAndHeights_def select_def rows_def)
  moreover have "rows = [] \<or> take (MaxTxsPerWithdrawTx X) (map ScTransactionHash rows) = []"
    using True assms(6) by (auto simp: rows_def)
  ultimately show ?thesis
    using True assms(3,4,8)
    by (intro exI [of _ "MainChainStore db"]) (auto simp: SendCachedWithdrawTxs_def Let_def split: list.split)
next
  case False
  define rows where "rows = arrange (ios 0) (SideChainTxs st)"
  define hs where "hs = map ScTransactionHash first"
  have sub: "set first \<subseteq> set (SideChainTxs st)" "set rows = set (SideChainTxs st)"
    using assms(1,6) by (auto simp: rows_def set_arrange good_ioD dest: in_set_takeD)
  have all: "GetAllSideChainTxHashesAndHeights (ios 0) st = Inr (map ScTransactionHash rows, map ScBlockHeight rows)"
    using good_ioD [of "ios 0"] assms(1) by (simp add: GetAllSideChainTxHashesAndHeights_def select_def rows_def)
  have hs: "take (MaxTxsPerWithdrawTx X) (map ScTransactionHash rows) = hs" "hs \<noteq> []" "rows \<noteq> []"
    using False assms(6) by (auto simp: hs_def rows_def take_map)
  have len: "length hs \<le> length (map ScBlockHeight rows)" by (simp add: hs(1) [symmetric])
  obtain hts where un: "SubstractTransactionHashesAndBlockHeights hs (map ScBlockHeight rows) [] = Done (hs, hts)"
    using SubstractHeights_zip [OF len, of "[]"] len by (auto simp: case_prod_beta map_fst_zip_take)
  have "\<forall>h \<in> set hs. no_quote h" using sub assms(5) by (auto simp: hs_def)
  then have txs: "GetSideChainTxsFromHashes (xW X) (ios 3) hs st = Inr (map (\<lambda>row. decode_withdraw (xW X) (ScTransaction row))
      (arrange (ios 3) (filter (\<lambda>row. ScTransactionHash row \<in> set hs) (SideChainTxs st))))"
    using hashes_decoded [of "ios 3" hs] assms(1) hs(2) by simp
  have "row \<in> set first" if "row \<in> set (SideChainTxs st)" "ScTransactionHash row \<in> set hs" for row
    using that sub(1) assms(2) by (auto simp: hs_def side_store_wf_def distinct_map dest: inj_onD)
  then have "\<forall>t \<in> set (map (\<lambda>row. decode_withdraw (xW X) (ScTransaction row))
      (arrange (ios 3) (filter (\<lambda>row. ScTransactionHash row \<in> set hs) (SideChainTxs st)))). stuck X t"
    using assms(1,7) by (auto simp: set_arrange good_ioD)
  from CreateAndBroadcast_stuck [where ios = "\<lambda>i. ios (i + 3)" and hs = hs, OF assms(3,4) _ this] txs obtain r ms where
    c: "CreateAndBroadcastWithdrawProposal X (\<lambda>i. ios (i + 3)) sc hs db = (r, [], db\<lparr>MainChainStore := ms\<rparr>)" "r \<noteq> Panic" by auto
  show ?thesis
    using assms(3,4) all hs un c assms(8) [folded hs_def]
    by (intro exI [of _ ms]) (cases r; simp add: SendCachedWithdrawTxs_def Let_def)
qed

section \<open>Cleaning the caches\<close>

text \<open>The clean-up ends at the first side chain whose cache is empty: whatever the driver and the node answer,
  the caches of the chains behind it stay as they are.\<close>

lemma empty_cache_stops_cleaning:
  assumes "CheckAndRemoveWithdrawTransactionsFromDB X ios db = (r, db')"
    and "SideChainStore db = before @ s # behind" "SideChainTxs s = []" "\<forall>i. order_law (ios i)"
  shows "\<exists>before'. SideChainStore db' = before' @ s # behind \<and> length before' = length before"
proof -
  have "\<exists>before'. fst (snd (remove_withdraws_of X ios k (bs @ s # behind) fin)) = before' @ s # behind \<and> length before' = length bs"
    for bs k fin
  proof (induction bs arbitrary: k fin)
    case Nil
    have "GetAllSideChainTxHashes (ios k) s = Inl DbErr \<or> GetAllSideChainTxHashes (ios k) s = Inr []"
      using assms(3,4) by (auto simp: GetAllSideChainTxHashes_def select_def)
    then show ?case by (auto intro: exI [of _ "[]"])
  next
    case (Cons b bs)
    have rest: "\<exists>before'. fst (snd (remove_withdraws_of X ios (k + 3) (bs @ s # behind) fin')) = before' @ s # behind \<and>
        length before' = length bs" for fin' using Cons.IH by blast
    have stay: "\<exists>before'. x # bs @ s # behind = before' @ s # behind \<and> length before' = Suc (length bs)" for x
      by (intro exI [of _ "x # bs"]) simp
    have go: "\<exists>before'. x # fst (snd (remove_withdraws_of X ios (k + 3) (bs @ s # behind) fin')) = before' @ s # behind \<and>
        length before' = Suc (length bs)" for x fin'
    proof -
      obtain bs' where "fst (snd (remove_withdraws_of X ios (k + 3) (bs @ s # behind) fin')) = bs' @ s # behind" "length bs' = length bs"
        using rest by blast
      then show ?thesis by (intro exI [of _ "x # bs'"]) simp
    qed
    show ?case
      using stay go by (auto simp: case_prod_beta split: sum.split)
  qed
  from this [of 0 before "FinishedTxsDbCache db"] show ?thesis
    using assms(1,2) by (auto simp: CheckAndRemoveWithdrawTransactionsFromDB_def case_prod_beta)
qed

text \<open>What a run of the clean-up may take out of a cache: a hash that the main chain has, and it is finished then.\<close>

definition main_has :: "cross_env \<Rightarrow> string \<Rightarrow> bool" where
  "main_has X h \<longleftrightarrow> (\<exists>hs received. GetExistWithdrawTransactions (xN X) hs = Inr received \<and> h \<in> set received)"

definition cleaned :: "cross_env \<Rightarrow> finished_store \<Rightarrow> side_store \<Rightarrow> side_store \<Rightarrow> bool" where
  "cleaned X fin s s' \<longleftrightarrow> (\<forall>h. side_tx_lookup s h \<noteq> None \<longrightarrow> side_tx_lookup s' h = side_tx_lookup s h \<or>
     side_tx_lookup s' h = None \<and> withdraw_lookup fin h \<noteq> None \<and> main_has X h)"

lemma cleaned_refl [simp]: "cleaned X fin s s" by (simp add: cleaned_def)

lemma cleaned_mono:
  "cleaned X fin s s' \<Longrightarrow> dom (withdraw_lookup fin) \<subseteq> dom (withdraw_lookup fin') \<Longrightarrow> cleaned X fin' s s'"
  unfolding cleaned_def by blast

lemma removed_lookup:
  "good_io io \<Longrightarrow> side_tx_lookup (snd (RemoveSideChainTxs io hs s)) h = (if h \<in> set hs then None else side_tx_lookup s h)"
  by (simp add: RemoveSideChainTxs_def with_tx_good side_tx_lookup_def row_of_delete_rows good_ioD)

lemma remove_withdraws_cleaned:
  assumes "\<forall>i. good_io (ios i)" "finished_wf fin" "\<forall>s \<in> set ss. side_store_wf s"
    and "remove_withdraws_of X ios k ss fin = (r, ss', fin')"
  shows "list_all2 (cleaned X fin') ss ss' \<and> dom (withdraw_lookup fin) \<subseteq> dom (withdraw_lookup fin')"
  using assms(2-4)
proof (induction ss arbitrary: k fin r ss' fin')
  case (Cons s ss)
  have all: "GetAllSideChainTxHashes (ios k) s = Inr (map ScTransactionHash (arrange (ios k) (SideChainTxs s)))"
    using good_ioD [of "ios k"] assms(1) by (simp add: GetAllSideChainTxHashes_def select_def)
  define hs where "hs = map ScTransactionHash (arrange (ios k) (SideChainTxs s))"
  note step = Cons.prems(3) [unfolded remove_withdraws_of.simps all [folded hs_def]]
  have same: "list_all2 (cleaned X fin) ss ss" by (simp add: list.rel_refl)
  show ?case
  proof (cases "hs = []")
    case True
    then show ?thesis using step same by auto
  next
    case False
    note step = step [unfolded sum.case, simplified False if_False]
    show ?thesis
    proof (cases "GetExistWithdrawTransactions (xN X) hs")
      case (Inl e)
      then show ?thesis using step same by auto
    next
      case (Inr received)
      show ?thesis
      proof (cases "received = []")
        case True
        then obtain ss1 where ss1: "remove_withdraws_of X ios (k + 3) ss fin = (r, ss1, fin')" "ss' = s # ss1"
          using step Inr by (cases "remove_withdraws_of X ios (k + 3) ss fin") auto
        then show ?thesis using Cons.IH [OF Cons.prems(1) _ ss1(1)] Cons.prems(2) by simp
      next
        case False
        define s1 where "s1 = snd (RemoveSideChainTxs (ios (k + 1)) received s)"
        define fin1 where "fin1 = snd (AddSucceedWithdrawTxs (ios (k + 2)) received fin)"
        have io: "good_io (ios (k + 1)) \<and> side_store_wf s" "good_io (ios (k + 2)) \<and> finished_wf fin"
          using assms(1) Cons.prems(1,2) by simp_all
        have "RemoveSideChainTxs (ios (k + 1)) received s = (Inr (), s1)" "AddSucceedWithdrawTxs (ios (k + 2)) received fin = (Inr (), fin1)"
          using io by (simp_all add: s1_def fin1_def RemoveSideChainTxs_def AddSucceedWithdrawTxs_def with_tx_good)
        then obtain ss1 where ss1: "remove_withdraws_of X ios (k + 3) ss fin1 = (r, ss1, fin')" "ss' = s1 # ss1"
          using step Inr False by (cases "remove_withdraws_of X ios (k + 3) ss fin1") auto
        have fin1: "finished_wf fin1" "dom (withdraw_lookup fin1) = dom (withdraw_lookup fin) \<union> set received"
          using AddSucceedWithdrawTxs_wf Cons.prems(1) succeeded_withdraws.add_keys [OF io(2), of received] by (auto simp: fin1_def)
        have rest: "list_all2 (cleaned X fin') ss ss1" "dom (withdraw_lookup fin1) \<subseteq> dom (withdraw_lookup fin')"
          using Cons.IH [OF fin1(1) _ ss1(1)] Cons.prems(2) by simp_all
        have "cleaned X fin1 s s1"
          using removed_lookup io(1) Inr fin1(2) by (auto simp: cleaned_def s1_def main_has_def)
        then show ?thesis using rest fin1(2) ss1(2) cleaned_mono by auto
      qed
    qed
  qed
qed simp

text \<open>C17: While the database answers, the clean-up loses no withdraw: however far it gets, every cached one is afterwards still
  cached in the same store with the same row, or it is gone because the main chain has it and it is in the finished
  transactions.\<close>

theorem cleaning_keeps_unsettled:
  assumes "\<forall>i. good_io (ios i)" "finished_wf (FinishedTxsDbCache db)" "\<forall>s \<in> set (SideChainStore db). side_store_wf s"
    and "CheckAndRemoveWithdrawTransactionsFromDB X ios db = (r, db')"
  shows "list_all2 (cleaned X (FinishedTxsDbCache db')) (SideChainStore db) (SideChainStore db')"
  using assms(4) remove_withdraws_cleaned [OF assms(1-3)]
  by (auto simp: CheckAndRemoveWithdrawTransactionsFromDB_def split: prod.splits)

section \<open>Concrete runs\<close>

text \<open>One withdraw of 20005 with a fee of 20000 waits; the node has an unspent output of 30000. A second
  withdraw has no fee worth the trouble.\<close>

definition tx9 :: "fixed64 \<Rightarrow> withdraw_tx" where
  "tx9 v = \<lparr>Txid = Some (replicate 32 7), WithdrawInfo = Some \<lparr>WithdrawAssets =
     [\<lparr>TargetAddress = ''a'', Amount = v, CrossChainAmount = 5, TargetData = []\<rparr>]\<rparr>\<rparr>"

definition row9 :: "fixed64 \<Rightarrow> side_chain_transaction" where
  "row9 v = \<lparr>ScTransactionHash = ''h9'', ScTransaction = snd (WithdrawTx_Serialize wire0 (tx9 v) []), ScBlockHeight = 9\<rparr>"

definition side9 :: "fixed64 \<Rightarrow> side_store" where
  "side9 v = side0\<lparr>genesisBlockAddress := ''K'', SideChainTxs := [row9 v]\<rparr>"

definition db9 :: "fixed64 \<Rightarrow> db_cache" where
  "db9 v = db0\<lparr>SideChainStore := [side9 v]\<rparr>"

definition xenv10 :: cross_env where
  "xenv10 = xenv0\<lparr>xCfg := config0\<lparr>SchnorrStartHeight := 0\<rparr>,
     xN := nodes0\<lparr>GetWithdrawUTXOs := (\<lambda>_ _. Inr [\<lparr>UtxoTxid = ''x'', UtxoVOut = 0, UtxoAmount = replicate 30000 CHR ''0''\<rparr>])\<rparr>\<rparr>"

lemma xenv10_sel [simp]: "xA xenv10 = addr0" "xC xenv10 = crypto0" "xT xenv10 = ops0" "xW xenv10 = wire0" "SideNodeList xenv10 = []"
  "MaxTxsPerWithdrawTx xenv10 = 1000" "MaxBlockContextSize xenv10 = 8000000" "SortUTXOs xenv10 = id" "FrozenAddresses xenv10 = [''f'']"
  "GetExistWithdrawTransactions (xN xenv10) = (\<lambda>_. Inr [])" "SchnorrStartHeight (xCfg xenv10) = 0"
  "GetWithdrawUTXOs (xN xenv10) = (\<lambda>_ _. Inr [\<lparr>UtxoTxid = ''x'', UtxoVOut = 0, UtxoAmount = replicate 30000 CHR ''0''\<rparr>])"
  by (simp_all add: xenv10_def xenv0_def nodes0_def)

lemma decode9: "decode_withdraw wire0 (ScTransaction (row9 v)) = tx9 v"
proof -
  have "WithdrawTx_Serialize wire0 (tx9 v) [] = (fst (WithdrawTx_Serialize wire0 (tx9 v) []), ScTransaction (row9 v))"
    "withdraw_tx_fits wire0 (tx9 v)"
    by (simp_all add: row9_def withdraw_tx_fits_def tx9_def info_fits_def asset_fits_def wire0_def MaxTargetDataSize_def)
  from withdraw_tx.roundtrip [OF _ this(1), of "[]"] wire0_ok this(2) show ?thesis by (simp add: decode_withdraw_def)
qed

lemma store9: "CurrentConfig chain0 = Some config8" "GetDataStoreByDBName (CfgName config8) (db9 v) = Some (side9 v)"
  "SideChainTxs (side9 v) = [row9 v]" "ScTransactionHash (row9 v) = ''h9''" "no_quote ''h9''" "side_store_wf (side9 v)"
  by (simp_all add: db9_def side9_def db0_def side0_def GetDataStoreByDBName_def row9_def no_quote_def side_store_wf_def)

lemma proposal9: "\<exists>r p db'. SendCachedWithdrawTxs xenv10 (\<lambda>_. plain_io) chain0 (db9 20005) = (r, [p], db')"
proof -
  have txs: "GetSideChainTxsFromHashes wire0 plain_io [''h9''] (side9 20005) = Inr [tx9 20005]"
    using hashes_decoded [OF good_plain_io, of "[''h9'']" wire0 "side9 20005"] store9 decode9 by simp
  have "\<not> ignored_asset xenv10 \<lparr>TargetAddress = ''a'', Amount = 20005, CrossChainAmount = 5, TargetData = []\<rparr>"
    by (simp add: ignored_asset_def MinCrossChainTxFee_def word_sle_eq word_sless_alt)
  then have target: "target_transactions xenv10 [tx9 20005] = Some [tx9 20005]" by (simp add: tx9_def)
  have utxo: "\<exists>u st. GetWithdrawUTXOsByAmount xenv10 plain_io b a main0 = (Inr [u], main0) \<and> UtxoValue u = 30000" for a b
    by (simp add: GetWithdrawUTXOsByAmount_def GetWithdrawAddressUTXOsByAmount_def utxo_of_info_def)
      (simp add: addr0_def crypto0_def Main_CurrentHeight_def main0_def plain_io_def height_op_def QueryHeightCode_def)
  have div: "fixed_div 20005 one = 20005" "fixed_div 5 one = 5" by (intro fixed_div_one; simp)+
  have less: "\<not> (30000 :: fixed64) <s 20005" by (simp add: word_sless_alt)
  have "\<exists>tx. CreateSchnorrWithdrawTransaction xenv10 plain_io chain0 [tx9 20005] (db9 20005) = (Inr tx, db9 20005)"
    using utxo [of "Key chain0" 20005] rate0 [of "[]"] div less
    by (auto simp: CreateSchnorrWithdrawTransaction_def withdraw_parts_def tx9_def withdraw_output_def fund_def db9_def db0_def)
  then obtain tx where tx: "CreateSchnorrWithdrawTransaction xenv10 plain_io chain0 [tx9 20005] (db9 20005) = (Inr tx, db9 20005)" by blast
  have h: "\<exists>h. Main_CurrentHeight plain_io QueryHeightCode (MainChainStore (db9 20005)) = (h, MainChainStore (db9 20005))"
    by (simp add: db9_def db0_def Main_CurrentHeight_def main0_def plain_io_def height_op_def QueryHeightCode_def)
  have "CreateAndBroadcastWithdrawProposal xenv10 (\<lambda>_. plain_io) chain0 [''h9''] (db9 20005) =
      (Done (), [SchnorrProposal tx], db9 20005)"
    using h txs target tx store9(1) store9(2) [of 20005]
    by (auto simp: CreateAndBroadcastWithdrawProposal_def Let_def grow.simps ops0_def)
  then show ?thesis
    using store9(1) store9(2-4) [of 20005]
    by (simp add: SendCachedWithdrawTxs_def GetAllSideChainTxHashesAndHeights_def select_def Let_def good_ioD [OF good_plain_io])
qed

theorem proposals_pay_waiting_witness:
  "\<exists>r p (db' :: db_cache). SendCachedWithdrawTxs xenv10 (\<lambda>_. plain_io) chain0 (db9 20005) = (r, [p], db') \<and>
     TxGetSize ops0 (proposed p) < 8000000"
proof -
  obtain r p db' where s: "SendCachedWithdrawTxs xenv10 (\<lambda>_. plain_io) chain0 (db9 20005) = (r, [p], db')"
    using proposal9 by blast
  have "\<forall>i. good_io ((\<lambda>_ :: nat. plain_io) i)" "\<forall>row \<in> set (SideChainTxs (side9 20005)). no_quote (ScTransactionHash row)"
    "p \<in> set [p]" by (simp_all add: store9)
  from proposals_pay_waiting [OF this(1) store9(1,2) this(2) s this(3)] s show ?thesis by auto
qed

lemma stuck_withdraws_block_others_witness:
  "\<exists>ms. SendCachedWithdrawTxs xenv10 (\<lambda>_. plain_io) chain0 (db9 6) = (Done (), [], (db9 6)\<lparr>MainChainStore := ms\<rparr>)"
proof -
  have "ignored_asset xenv10 \<lparr>TargetAddress = ''a'', Amount = 6, CrossChainAmount = 5, TargetData = []\<rparr>"
    by (simp add: ignored_asset_def MinCrossChainTxFee_def word_sle_eq word_sless_alt)
  then have "stuck xenv10 (tx9 6)" by (simp add: stuck_def tx9_def)
  then show ?thesis
    by (intro stuck_withdraws_block_others [where first = "[row9 6]", OF _ store9(6,1,2)]) (simp_all add: store9 decode9)
qed

lemma empty_cache_stops_cleaning_witness:
  "\<exists>before'. SideChainStore (snd (CheckAndRemoveWithdrawTransactionsFromDB xenv10 (\<lambda>_. plain_io)
     (db0\<lparr>SideChainStore := [side0, side9 6]\<rparr>))) = before' @ [side0, side9 6]"
proof -
  let ?db = "db0\<lparr>SideChainStore := [side0, side9 6]\<rparr>"
  have c: "CheckAndRemoveWithdrawTransactionsFromDB xenv10 (\<lambda>_. plain_io) ?db =
      (fst (CheckAndRemoveWithdrawTransactionsFromDB xenv10 (\<lambda>_. plain_io) ?db),
       snd (CheckAndRemoveWithdrawTransactionsFromDB xenv10 (\<lambda>_. plain_io) ?db))" by simp
  have "SideChainStore ?db = [] @ side0 # [side9 6]" "SideChainTxs side0 = []" "\<forall>i. order_law ((\<lambda>_ :: nat. plain_io) i)"
    using good_ioD [OF good_plain_io] by (simp_all add: side0_def)
  from empty_cache_stops_cleaning [OF c this] show ?thesis by blast
qed

theorem nft_proposal_largest_batch_witness:
  "\<exists>script ps (db' :: db_cache). CreateRedeemScript crypto0 config0 group0 = Inr script \<and>
     CreateAndBroadcastNFTDestroyProposal xenv0 (\<lambda>_. plain_io) chain0 [''n''] (db0\<lparr>SideChainStore :=
       [side0\<lparr>NFTDestroyTxs := [\<lparr>NftID = ''n'', NftTransaction = [], NftBlockHeight = 9\<rparr>]\<rparr>]\<rparr>) = (Done (), [MultisigProposal ps], db')"
proof -
  let ?st = "side0\<lparr>NFTDestroyTxs := [\<lparr>NftID = ''n'', NftTransaction = [], NftBlockHeight = 9\<rparr>]\<rparr>"
  obtain script where script: "CreateRedeemScript (xC xenv0) (xCfg xenv0) (xGroup xenv0) = Inr script" using script0 by auto
  have db: "GetDataStoreByDBName (CfgName config8) (db0\<lparr>SideChainStore := [?st]\<rparr>) = Some ?st"
    by (simp add: GetDataStoreByDBName_def side0_def)
  have "no_quote ''n''" by (simp add: no_quote_def)
  then obtain t where t: "GetNFTDestroyTxsFromIDs (xW xenv0) plain_io [''n''] ?st = Inr [t]"
    using good_ioD [OF good_plain_io] by (simp add: GetNFTDestroyTxsFromIDs_def select_in_ok [OF good_plain_io])
  have g: "\<exists>g. Uint256FromHexString (xA xenv0) (GenesisBlock config8) = Some g" by (simp add: addr0_def)
  then obtain g where g: "Uint256FromHexString (xA xenv0) (GenesisBlock config8) = Some g" by blast
  have ne: "[t] \<noteq> []" by simp
  show ?thesis
    using nft_proposal_largest_batch [where ios = "\<lambda>_. plain_io", OF script store9(1) g db t ne] script
    by (auto simp: ops0_def xenv0_def)
qed

theorem cleaning_keeps_unsettled_witness:
  "list_all2 (cleaned xenv10 (FinishedTxsDbCache (snd (CheckAndRemoveWithdrawTransactionsFromDB xenv10 (\<lambda>_. plain_io) (db9 6)))))
     [side9 6] (SideChainStore (snd (CheckAndRemoveWithdrawTransactionsFromDB xenv10 (\<lambda>_. plain_io) (db9 6))))"
proof -
  have c: "CheckAndRemoveWithdrawTransactionsFromDB xenv10 (\<lambda>_. plain_io) (db9 6) =
      (fst (CheckAndRemoveWithdrawTransactionsFromDB xenv10 (\<lambda>_. plain_io) (db9 6)),
       snd (CheckAndRemoveWithdrawTransactionsFromDB xenv10 (\<lambda>_. plain_io) (db9 6)))" by simp
  have "\<forall>i. good_io ((\<lambda>_ :: nat. plain_io) i)" "finished_wf (FinishedTxsDbCache (db9 6))"
    "\<forall>s \<in> set (SideChainStore (db9 6)). side_store_wf s"
    by (simp_all add: db9_def db0_def fin0_wf store9)
  from cleaning_keeps_unsettled [OF this c] show ?thesis by (simp add: db9_def)
qed

end
