(* ===== verification/Mining.thy ===== *)
theory Mining
  imports Main_Chain Tx_Check
begin

text \<open>
  The mining of the side chains (\<open>sideauxpow/\<close>): the arbiter on duty asks the node of a side chain for a block to
  mine, announces it by a transaction on the main chain, and hands the main chain's proof back to the
  side chain. The transactions are paid from the mining accounts of the configuration, which are filled up from
  the main account. A library call that fails returns nil.
\<close>

section \<open>The surroundings\<close>

text \<open>The fields of \<open>base.UTXOInfo\<close> and \<open>config.SideNodeConfig\<close> that only this part reads.\<close>

record unspent_info = utxo_info +
  InfoOutputLock :: u32

record mining_config = side_config +
  MiningAddr :: string
  PayToAddr :: string

record side_aux_block =
  AuxGenesisHash :: string
  AuxHeight :: u32
  AuxHash :: string

text \<open>The nodes, the keystore and the parameters.\<close>

record mining_env =
  mX :: cross_env
  MiningNodes :: "mining_config list"                          \<comment> \<open>\<open>config.Parameters.SideNodeList\<close>\<close>
  GetUnspentUtxo :: "string list \<Rightarrow> go_error + unspent_info list"
  CreateAuxBlock :: "string \<Rightarrow> string \<Rightarrow> go_error + side_aux_block option"
  SubmitSideAuxBlock :: "string \<Rightarrow> string \<Rightarrow> string \<Rightarrow> go_error + unit"
  SendRawResult :: "string \<Rightarrow> go_error + unit"                 \<comment> \<open>\<open>CallAndUnmarshal\<close> of sendrawtransaction\<close>
  PowHead :: "u32 \<Rightarrow> uint256 \<Rightarrow> uint256 \<Rightarrow> bytes"               \<comment> \<open>the first 68 bytes of the payload\<close>
  ArbiterSign :: "bytes \<Rightarrow> bytes option"
  AccountScript :: "uint160 \<Rightarrow> bytes option"                   \<comment> \<open>\<open>GetAccountByCodeHash\<close>, its redeem script\<close>
  MainAddress :: string
  MainScript :: bytes
  SignTransaction :: "transaction \<Rightarrow> transaction \<times> (go_error + transaction)"
    \<comment> \<open>\<open>client.Sign\<close>: what it leaves of its argument, and its result\<close>
  SortUnspent :: "address_utxo list \<Rightarrow> address_utxo list"
  SideAuxPowFee :: int
  MinThreshold :: int
  DepositAmount :: int

section \<open>Unspent outputs\<close>

record unspent =
  Op :: out_point
  UnspentAmount :: fixed64
  LockTime :: u32

definition unspent_of_info :: "cross_env \<Rightarrow> unspent_info \<Rightarrow> go_error + unspent" where
  "unspent_of_info X u =
     (case HexStringToBytes (xC X) (UtxoTxid u) of
        None \<Rightarrow> Inl ExtErr
      | Some bs \<Rightarrow>
          (case Uint256FromBytes (xA X) (BytesReverse (xA X) bs) of
             None \<Rightarrow> Inl ExtErr
           | Some txid \<Rightarrow>
               (case StringToFixed64 (xA X) (UtxoAmount u) of
                  None \<Rightarrow> Inl ExtErr
                | Some amount \<Rightarrow>
                    Inr \<lparr>Op = \<lparr>OpTxID = txid, OpIndex = ucast (UtxoVOut u)\<rparr>, UnspentAmount = amount,
                         LockTime = InfoOutputLock u\<rparr>)))"

definition GetAddressUTXOs :: "mining_env \<Rightarrow> uint168 \<Rightarrow> go_error + unspent list" where
  "GetAddressUTXOs M programHash =
     (case ToAddress (xA (mX M)) programHash of
        None \<Rightarrow> Inl ExtErr
      | Some address \<Rightarrow>
          (case GetUnspentUtxo M [address] of
             Inl e \<Rightarrow> Inl e
           | Inr utxoInfos \<Rightarrow> collect (unspent_of_info (mX M)) utxoInfos))"

text \<open>An output that was locked is spent with a sequence of its own.\<close>

definition removeLockedUTXOs :: "u32 \<Rightarrow> unspent list \<Rightarrow> unspent list" where
  "removeLockedUTXOs height utxos =
     List.map_filter (\<lambda>u. if 0 < LockTime u
                          then if height \<le> LockTime u then None else Some (u\<lparr>LockTime := - 2\<rparr>)
                          else Some u) utxos"

definition input_of :: "unspent \<Rightarrow> address_utxo" where
  "input_of u = \<lparr>UtxoInput = \<lparr>Previous = Op u, Sequence = LockTime u\<rparr>, UtxoValue = UnspentAmount u\<rparr>"

section \<open>Building transactions\<close>

text \<open>The loop over the sorted outputs, common to both builders.\<close>

definition wallet_inputs ::
    "mining_env \<Rightarrow> uint168 \<Rightarrow> fixed64 \<Rightarrow> tx_output list \<Rightarrow> u32 \<Rightarrow> go_error + tx_input list \<times> tx_output list" where
  "wallet_inputs M spender amt outs height =
     (case GetAddressUTXOs M spender of
        Inl e \<Rightarrow> Inl (Err ''[Wallet], Get spender's UTXOs failed'')
      | Inr utxos \<Rightarrow>
          (case select_inputs (SortUnspent M (map input_of (removeLockedUTXOs height utxos))) amt of
             (ins, missing, change) \<Rightarrow>
               (case change of
                  Some v \<Rightarrow> Inr (ins, outs @ [change_output False spender v])
                | None \<Rightarrow> if 0 <s missing then Inl (Err ''[Wallet], Available token is not enough'') else Inr (ins, outs))))"

definition newTransaction :: "tx_type \<Rightarrow> payload \<Rightarrow> bytes \<Rightarrow> tx_input list \<Rightarrow> tx_output list \<Rightarrow> transaction" where
  "newTransaction txType txPayload script ins outs =
     \<lparr>TxType = txType, PayloadVersion = 0, Payload = txPayload, Inputs = ins, Outputs = outs,
      Programs = [\<lparr>Code = script, Parameter = None\<rparr>]\<rparr>"

record transfer =
  TransferAddress :: string
  TransferAmount :: fixed64

definition transfer_output :: "cross_env \<Rightarrow> transfer \<Rightarrow> go_error + tx_output" where
  "transfer_output X t =
     (case Uint168FromAddress (xA X) (TransferAddress t) of
        None \<Rightarrow> Inl (Err ''[Wallet], Invalid receiver address: '')
      | Some receiver \<Rightarrow>
          Inr \<lparr>OutProgramHash = receiver, OutValue = TransferAmount t, OutType = OTNone, OutPayload = NilOutputPayload\<rparr>)"

definition createTransaction ::
    "mining_env \<Rightarrow> tx_type \<Rightarrow> payload \<Rightarrow> string \<Rightarrow> fixed64 \<Rightarrow> bytes \<Rightarrow> u32 \<Rightarrow> transfer list \<Rightarrow> go_error + transaction" where
  "createTransaction M txType txPayload fromAddress fee redeemScript height outputs =
     (if outputs = [] then Inl (Err ''[Wallet], Invalid transaction target'')
      else (case Uint168FromAddress (xA (mX M)) fromAddress of
        None \<Rightarrow> Inl (Err ''[Wallet], Invalid spender address: '')
      | Some spender \<Rightarrow>
          (case collect (transfer_output (mX M)) outputs of
             Inl e \<Rightarrow> Inl e
           | Inr txOutputs \<Rightarrow>
               (case wallet_inputs M spender (fee + fx_sum (map TransferAmount outputs)) txOutputs height of
                  Inl e \<Rightarrow> Inl e
                | Inr (ins, outs) \<Rightarrow> Inr (newTransaction txType txPayload redeemScript ins outs)))))"

text \<open>Without a change an output of nothing is added.\<close>

definition createAuxpowTransaction ::
    "mining_env \<Rightarrow> tx_type \<Rightarrow> payload \<Rightarrow> string \<Rightarrow> fixed64 \<Rightarrow> bytes \<Rightarrow> u32 \<Rightarrow> go_error + transaction" where
  "createAuxpowTransaction M txType txPayload fromAddress fee redeemScript height =
     (case Uint168FromAddress (xA (mX M)) fromAddress of
        None \<Rightarrow> Inl (Err ''[Wallet], Invalid spender address: '')
      | Some spender \<Rightarrow>
          (case wallet_inputs M spender fee [] height of
             Inl e \<Rightarrow> Inl e
           | Inr (ins, outs) \<Rightarrow>
               Inr (newTransaction txType txPayload redeemScript ins
                      (if outs = [] then [change_output False spender 0] else outs))))"

section \<open>Filling up the mining accounts\<close>

text \<open>A nil program hash is dereferenced.\<close>

fun checkSideChainPowAccounts :: "mining_env \<Rightarrow> string list \<Rightarrow> (string \<times> fixed64) list outcome" where
  "checkSideChainPowAccounts M [] = Done []"
| "checkSideChainPowAccounts M (addr # addresses) =
     (case Uint168FromAddress (xA (mX M)) addr of
        None \<Rightarrow> Panic
      | Some programHash \<Rightarrow>
          (case GetAddressUTXOs M programHash of
             Inl e \<Rightarrow> Fail (Err ''get UTXOs failed'')
           | Inr utxos \<Rightarrow>
               (let available = fx_sum (map UnspentAmount
                      (filter (\<lambda>u. LockTime u < currentHeight (xGroup (mX M))) utxos))
                in case checkSideChainPowAccounts M addresses of
                     Done warned \<Rightarrow>
                       Done (if available <s word_of_int (MinThreshold M) then (addr, available) # warned else warned)
                   | other \<Rightarrow> other)))"

text \<open>The call of \<open>client.Sign\<close> and what follows it. Only the log looks at the transaction that it returns, at its
  first program; what is sent is its argument. An error of \<open>Serialize\<close> is not looked at.\<close>

definition sign_and_send :: "mining_env \<Rightarrow> transaction \<Rightarrow> unit outcome \<times> transaction option" where
  "sign_and_send M txn =
     (case SignTransaction M txn of
        (_, Inl e) \<Rightarrow> (Fail e, None)
      | (stx, Inr res) \<Rightarrow>
          if Programs res = [] then (Panic, None)
          else (case SendRawResult M (BytesToHexString (xC (mX M)) (snd (TxSerialize (xT (mX M)) stx))) of
                  Inl e \<Rightarrow> (Fail e, Some stx)
                | Inr _ \<Rightarrow> (Done (), Some stx)))"

definition divideTransfer :: "mining_env \<Rightarrow> transfer list \<Rightarrow> unit outcome \<times> transaction option" where
  "divideTransfer M outputs =
     (case createTransaction M TxTransferAsset TransferAsset (MainAddress M) 100000 (MainScript M)
             (currentHeight (xGroup (mX M))) outputs of
        Inl e \<Rightarrow> (Fail (Err ''create divide transaction failed: ''), None)
      | Inr txn \<Rightarrow> sign_and_send M txn)"

text \<open>One round; its errors are logged.\<close>

definition SidechainAccountDivide :: "mining_env \<Rightarrow> unit outcome \<times> transaction option" where
  "SidechainAccountDivide M =
     (case checkSideChainPowAccounts M (map MiningAddr (filter PowChain (MiningNodes M))) of
        Done warned \<Rightarrow>
          if warned = [] then (Done (), None)
          else (case divideTransfer M (map (\<lambda>(a, _). \<lparr>TransferAddress = a, TransferAmount = word_of_int (DepositAmount M)\<rparr>) warned) of
                  (Panic, tx) \<Rightarrow> (Panic, tx) | (_, tx) \<Rightarrow> (Done (), tx))
      | Fail e \<Rightarrow> (Done (), None)
      | other \<Rightarrow> (Panic, None))"

section \<open>Announcing blocks\<close>

text \<open>The three maps from genesis blocks to heights.\<close>

record mining_state =
  lastSendSideMiningHeight :: "uint256 \<rightharpoonup> u32"
  lastNotifySideMiningHeight :: "uint256 \<rightharpoonup> u32"
  lastSubmitAuxpowHeight :: "uint256 \<rightharpoonup> u32"

definition Init_mining :: mining_state where
  "Init_mining = \<lparr>lastSendSideMiningHeight = (\<lambda>_. None), lastNotifySideMiningHeight = (\<lambda>_. None),
                  lastSubmitAuxpowHeight = (\<lambda>_. None)\<rparr>"

definition UpdateLastNotifySideMiningHeight :: "mining_env \<Rightarrow> uint256 \<Rightarrow> mining_state \<Rightarrow> mining_state" where
  "UpdateLastNotifySideMiningHeight M h st =
     st\<lparr>lastNotifySideMiningHeight := (lastNotifySideMiningHeight st)(h \<mapsto> currentHeight (xGroup (mX M)))\<rparr>"

definition UpdateLastSubmitAuxpowHeight :: "mining_env \<Rightarrow> uint256 \<Rightarrow> mining_state \<Rightarrow> mining_state" where
  "UpdateLastSubmitAuxpowHeight M h st =
     st\<lparr>lastSubmitAuxpowHeight := (lastSubmitAuxpowHeight st)(h \<mapsto> currentHeight (xGroup (mX M)))\<rparr>"

text \<open>The errors of the conversions are dropped, the nil pointer is dereferenced.\<close>

definition aux_hash :: "cross_env \<Rightarrow> string \<Rightarrow> uint256 option" where
  "aux_hash X s = Uint256FromBytes (xA X) (case HexStringToBytes (xC X) s of None \<Rightarrow> [] | Some bs \<Rightarrow> bs)"

text \<open>The transaction that announces the block of a side chain.\<close>

definition aux_transaction :: "mining_env \<Rightarrow> mining_config \<Rightarrow> payload \<Rightarrow> go_error + transaction" where
  "aux_transaction M c txPayload =
     (if SideAuxPowFee M \<le> 0 then Inl (Err ''[sideChainPowTransfer] invalid side aux pow fee'')
      else if MiningAddr c = [] then Inl (Err ''[sideChainPowTransfer] get side chain mining address failed:'')
      else (case Uint168FromAddress (xA (mX M)) (MiningAddr c) of
        None \<Rightarrow> Inl (Err ''[sideChainPowTransfer] invalid miningAddr'')
      | Some programHash \<Rightarrow>
          (case AccountScript M (ToCodeHash (xC (mX M)) programHash) of
             None \<Rightarrow> Inl (Err ''[sideChainPowTransfer] not found miningAddr in keystore'')
           | Some script \<Rightarrow>
               (case createAuxpowTransaction M TxSideChainPow txPayload (MiningAddr c) (word_of_int (SideAuxPowFee M)) script
                       (currentHeight (xGroup (mX M))) of
                  Inl e \<Rightarrow> Inl (Err ''[sideChainPowTransfer] create transaction failed: '')
                | Inr txn \<Rightarrow> Inr txn))))"

definition sideChainPowTransfer ::
    "mining_env \<Rightarrow> mining_config \<Rightarrow> mining_state \<Rightarrow> unit outcome \<times> transaction option \<times> mining_state" where
  "sideChainPowTransfer M c st =
     (if PayToAddr c = [] then (Fail (Err ''[sideChainPowTransfer] has no side aux pow paytoaddr''), None, st)
      else (case CreateAuxBlock M (GenesisBlockAddress c) (PayToAddr c) of
        Inl e \<Rightarrow> (Fail e, None, st)
      | Inr None \<Rightarrow> (Done (), None, st)
      | Inr (Some b) \<Rightarrow>
          (case (aux_hash (mX M) (AuxHash b), aux_hash (mX M) (AuxGenesisHash b)) of
             (Some sideBlockHash, Some sideGenesisHash) \<Rightarrow>
               (case ArbiterSign M (PowHead M (AuxHeight b) sideBlockHash sideGenesisHash) of
                  None \<Rightarrow> (Fail ExtErr, None, st)
                | Some signature \<Rightarrow>
                    (case aux_transaction M c (SideChainPow (AuxHeight b) sideBlockHash sideGenesisHash signature) of
                       Inl e \<Rightarrow> (Fail e, None, st)
                     | Inr txn \<Rightarrow>
                         (case sign_and_send M txn of
                            (Done _, tx) \<Rightarrow>
                              (Done (), tx, st\<lparr>lastSendSideMiningHeight :=
                                 (lastSendSideMiningHeight st)(sideGenesisHash \<mapsto> currentHeight (xGroup (mX M)))\<rparr>)
                          | (r, tx) \<Rightarrow> (r, tx, st))))
           | _ \<Rightarrow> (Panic, None, st))))"

text \<open>\<open>StartSideChainMining\<close> of a side chain: errors are logged.\<close>

definition StartSideChainMining ::
    "mining_env \<Rightarrow> mining_config \<Rightarrow> mining_state \<Rightarrow> unit outcome \<times> transaction option \<times> mining_state" where
  "StartSideChainMining M c st =
     (if \<not> PowChain c then (Done (), None, st)
      else (case sideChainPowTransfer M c st of
              (Panic, tx, st') \<Rightarrow> (Panic, tx, st') | (_, tx, st') \<Rightarrow> (Done (), tx, st')))"

text \<open>The configured hash with its bytes reversed (\<open>config/config.go\<close>); the error of the conversion is dropped.\<close>

definition GetGenesisBlock :: "cross_env \<Rightarrow> mining_config \<Rightarrow> string" where
  "GetGenesisBlock X c =
     BytesToHexString (xC X) (BytesReverse (xA X) (case HexStringToBytes (xC X) (GenesisBlock c) of None \<Rightarrow> [] | Some bs \<Rightarrow> bs))"

text \<open>The last node of the list with the genesis block gets the proof.\<close>

definition SubmitAuxpow :: "mining_env \<Rightarrow> string \<Rightarrow> string \<Rightarrow> string \<Rightarrow> go_error option" where
  "SubmitAuxpow M genesishash blockhash submitauxpow =
     (case find (\<lambda>c. GetGenesisBlock (mX M) c = genesishash) (rev (MiningNodes M)) of
        None \<Rightarrow> Some (Err ''invalid side node'')
      | Some c \<Rightarrow>
          (case SubmitSideAuxBlock M (GenesisBlockAddress c) blockhash submitauxpow of
             Inl e \<Rightarrow> Some e | Inr _ \<Rightarrow> None))"

end
