(* ===== verification/Props_Mining.thy ===== *)
theory Props_Mining
  imports Mining Props_Cross
begin

text \<open>
  Properties of the mining of the side chains: what the transactions of the mining accounts spend.
\<close>

section \<open>What is spent\<close>

lemma removeLocked_spendable:
  assumes "a \<in> set (removeLockedUTXOs height utxos)"
  shows "\<exists>u \<in> set utxos. Op a = Op u \<and> UnspentAmount a = UnspentAmount u \<and> (LockTime u = 0 \<or> LockTime u < height)"
  using assms
proof (induction utxos)
  case (Cons u us)
  then show ?case
    by (cases "LockTime u = 0") (auto simp: removeLockedUTXOs_def map_filter_simps not_le word_gt_0 split: if_splits)
qed (simp add: removeLockedUTXOs_def map_filter_simps)

definition spendable :: "u32 \<Rightarrow> unspent list \<Rightarrow> address_utxo \<Rightarrow> bool" where
  "spendable height utxos a \<longleftrightarrow>
     (\<exists>u \<in> set utxos. Previous (UtxoInput a) = Op u \<and> UtxoValue a = UnspentAmount u \<and>
        (LockTime u = 0 \<or> LockTime u < height))"

lemma select_inputs_change: "select_inputs us a = (i, r, Some v) \<Longrightarrow> r = 0"
  by (induction us a arbitrary: i rule: select_inputs.induct) (auto split: if_splits prod.splits)

lemma wallet_inputs_balanced:
  assumes res: "wallet_inputs M spender amt outs height = Inr (ins, outs')"
    and utxos: "GetAddressUTXOs M spender = Inr utxos" "\<forall>u \<in> set utxos. 0 \<le>s UnspentAmount u"
    and sort: "\<And>us. mset (SortUnspent M us) = mset us" and amt: "0 \<le>s amt"
  shows "\<exists>chosen. mset chosen \<subseteq># mset (map input_of (removeLockedUTXOs height utxos)) \<and>
    list_all (spendable height utxos) chosen \<and> ins = map UtxoInput chosen \<and>
    fx_sum (map UtxoValue chosen) + fx_sum (map OutValue outs) = amt + fx_sum (map OutValue outs') \<and>
    (outs' = outs \<or> (\<exists>v. outs' = outs @ [change_output False spender v]))"
proof -
  define free where "free = map input_of (removeLockedUTXOs height utxos)"
  define us where "us = SortUnspent M free"
  have same: "set us = set free" unfolding us_def using sort mset_eq_setD by blast
  have ok: "spendable height utxos a" if "a \<in> set us" for a
    using that removeLocked_spendable [of _ height utxos]
    unfolding same spendable_def free_def by (fastforce simp: input_of_def)
  have nonneg: "\<forall>u \<in> set us. 0 \<le>s UtxoValue u" using ok utxos(2) unfolding spendable_def by metis
  obtain r c where s: "select_inputs us amt = (ins, r, c)"
    and c: "case c of None \<Rightarrow> \<not> 0 <s r \<and> outs' = outs | Some v \<Rightarrow> outs' = outs @ [change_output False spender v]"
    using res utxos(1) unfolding us_def free_def
    by (auto simp: wallet_inputs_def split: option.splits if_splits prod.splits)
  obtain k where k: "ins = map UtxoInput (take k us)"
    "fx_sum (map UtxoValue (take k us)) + r = amt + (case c of None \<Rightarrow> 0 | Some v \<Rightarrow> v)"
    using select_inputs_sum [OF s] by blast
  have r: "r = 0"
  proof (cases c)
    case None
    then show ?thesis using select_inputs_missing [OF _ nonneg amt] s c by auto
  next
    case (Some v)
    then show ?thesis using select_inputs_change s by blast
  qed
  have "mset (take k us) \<subseteq># mset free" using sort [of free] unfolding us_def [symmetric]
    by (metis append_take_drop_id mset_append mset_subset_eq_add_left)
  moreover have "list_all (spendable height utxos) (take k us)" using ok set_take_subset by (fastforce simp: list_all_iff)
  moreover have "fx_sum (map UtxoValue (take k us)) + fx_sum (map OutValue outs) = amt + fx_sum (map OutValue outs')"
    using k(2) r c by (cases c) (auto simp: change_output_def algebra_simps)
  moreover have "outs' = outs \<or> (\<exists>v. outs' = outs @ [change_output False spender v])" using c by (cases c) auto
  ultimately show ?thesis using k(1) unfolding free_def by blast
qed

text \<open>C34: The transaction that announces a block of a side chain costs its mining account the fee and nothing
  else: it spends outputs of the account that are not locked, and what it does not pay as a fee goes back to the account.\<close>

theorem announcement_costs_fee:
  assumes "aux_transaction M c p = Inr txn"
    and "Uint168FromAddress (xA (mX M)) (MiningAddr c) = Some account"
    and "GetAddressUTXOs M account = Inr utxos" "\<forall>u \<in> set utxos. 0 \<le>s UnspentAmount u"
    and "\<forall>us. mset (SortUnspent M us) = mset us" "SideAuxPowFee M < 2 ^ 63"
  shows "Payload txn = p \<and> list_all (\<lambda>out. OutProgramHash out = account) (Outputs txn) \<and>
    (\<exists>chosen. mset chosen \<subseteq># mset (map input_of (removeLockedUTXOs (currentHeight (xGroup (mX M))) utxos)) \<and>
      list_all (spendable (currentHeight (xGroup (mX M))) utxos) chosen \<and> Inputs txn = map UtxoInput chosen \<and>
      fx_sum (map UtxoValue chosen) = word_of_int (SideAuxPowFee M) + fx_sum (map OutValue (Outputs txn)))"
proof -
  let ?h = "currentHeight (xGroup (mX M))" and ?fee = "word_of_int (SideAuxPowFee M) :: fixed64"
  have pos: "0 < SideAuxPowFee M" using assms(1) by (auto simp: aux_transaction_def split: if_splits)
  then have "signed_take_bit 63 (SideAuxPowFee M) = SideAuxPowFee M"
    using assms(6) by (intro signed_take_bit_int_eq_self) auto
  then have fee: "0 \<le>s ?fee" using pos by (simp add: word_sle_eq sint_sbintrunc')
  obtain script ins outs where w: "wallet_inputs M account ?fee [] ?h = Inr (ins, outs)"
    and txn: "txn = newTransaction TxSideChainPow p script ins (if outs = [] then [change_output False account 0] else outs)"
    using assms(1,2) by (auto simp: aux_transaction_def createAuxpowTransaction_def split: if_splits option.splits sum.splits)
  show ?thesis
    using wallet_inputs_balanced [OF w assms(3,4) _ fee] assms(5) unfolding txn newTransaction_def
    by (auto simp: change_output_def)
qed

section \<open>A concrete case\<close>

text \<open>A mining account m with an output of 10, and a chain at address K.\<close>

definition mining_config0 :: mining_config where
  "mining_config0 = \<lparr>CfgName = ''sc'', CfgExchangeRate = (1, 0), GenesisBlockAddress = ''K'', GenesisBlock = ''b'',
     PowChain = True, EffectiveHeight = 0, SyncStartHeight = 0, SupportQuickRecharge = True, SupportInvalidDeposit = True,
     SupportInvalidWithdraw = True, SupportNFT = True, MiningAddr = ''m'', PayToAddr = ''p''\<rparr>"

definition mining_env0 :: mining_env where
  "mining_env0 = \<lparr>mX = xenv0, MiningNodes = [mining_config0],
     GetUnspentUtxo = (\<lambda>_. Inr [\<lparr>UtxoTxid = ''x'', UtxoVOut = 0, UtxoAmount = replicate 10 CHR ''0'', InfoOutputLock = 0\<rparr>]),
     CreateAuxBlock = (\<lambda>_ _. Inr None), SubmitSideAuxBlock = (\<lambda>_ _ _. Inr ()), SendRawResult = (\<lambda>_. Inr ()),
     PowHead = (\<lambda>_ _ _. []), ArbiterSign = Some, AccountScript = (\<lambda>_. Some [1]), MainAddress = ''q'', MainScript = [2],
     SignTransaction = (\<lambda>tx. (tx, Inr tx)), SortUnspent = id, SideAuxPowFee = 3, MinThreshold = 5, DepositAmount = 100\<rparr>"

definition unspent0 :: unspent where
  "unspent0 = \<lparr>Op = \<lparr>OpTxID = rev (replicate 32 2 @ [0x78]), OpIndex = 0\<rparr>, UnspentAmount = 10, LockTime = 0\<rparr>"

lemma mining_env0_sel [simp]: "mX mining_env0 = xenv0" "MiningNodes mining_env0 = [mining_config0]" "SideAuxPowFee mining_env0 = 3"
  "SortUnspent mining_env0 = id" "ArbiterSign mining_env0 = Some" "AccountScript mining_env0 a = Some [1]"
  "MiningAddr mining_config0 = ''m''" "GenesisBlockAddress mining_config0 = ''K''" "GenesisBlock mining_config0 = ''b''"
  by (simp_all add: mining_env0_def mining_config0_def)

lemma mining_utxos0: "GetAddressUTXOs mining_env0 account = Inr [unspent0]"
  by (simp add: GetAddressUTXOs_def unspent_of_info_def)
    (simp add: mining_env0_def unspent_of_info_def addr0_def crypto0_def unspent0_def char0)

lemma aux_transaction0:
  "\<exists>txn. aux_transaction mining_env0 mining_config0 p = Inr txn \<and> map OutValue (Outputs txn) = [7]"
proof -
  have "\<not> (10 :: fixed64) <s 3" by (simp add: word_sless_alt)
  then show ?thesis
    by (simp add: aux_transaction_def createAuxpowTransaction_def wallet_inputs_def mining_utxos0 removeLockedUTXOs_def map_filter_simps
        input_of_def newTransaction_def change_output_def) (simp add: unspent0_def)
qed

theorem announcement_costs_fee_witness:
  "\<exists>txn :: transaction. aux_transaction mining_env0 mining_config0 OtherPayload = Inr txn \<and> map OutValue (Outputs txn) = [7] \<and>
     list_all (\<lambda>out. OutProgramHash out = map char_byte ''m'') (Outputs txn)"
proof -
  obtain txn where txn: "aux_transaction mining_env0 mining_config0 OtherPayload = Inr txn" "map OutValue (Outputs txn) = [7]"
    using aux_transaction0 [of OtherPayload] by (elim exE conjE)
  have a: "Uint168FromAddress (xA (mX mining_env0)) (MiningAddr mining_config0) = Some (map char_byte ''m'')"
    by (simp only: mining_env0_sel xenv0_sel address0)
  have nonneg: "\<forall>u \<in> set [unspent0]. 0 \<le>s UnspentAmount u" by (simp add: unspent0_def word_sle_eq)
  have sort: "\<forall>us. mset (SortUnspent mining_env0 us) = mset us" and fee: "SideAuxPowFee mining_env0 < 2 ^ 63" by simp_all
  show ?thesis
    using announcement_costs_fee [OF txn(1) a mining_utxos0 nonneg sort fee] txn by (intro exI [of _ txn]) (elim conjE, intro conjI)
qed

end
