(* ===== verification/Listeners.thy ===== *)
theory Listeners
  imports Mining Deposits Side_Chains
begin

text \<open>
  What the arbiter does with the transactions that the SPV module and the nodes tell it of: the listeners of
  deposits and of announced side chain blocks (\<open>arbitration/arbitrator/depositlistener.go\<close>, \<open>auxpowlistener.go\<close>)
  with the queue that both read, the monitor of withdrawals that cannot be paid
  (\<open>invalidwithdrawlistener.go\<close>), and the one of small transfers (\<open>smalltransferlistener.go\<close>).
\<close>

section \<open>The queue of a listener\<close>

text \<open>\<open>Notify\<close> puts a task into the channel; the goroutine of \<open>start\<close> collects what is there and hands it on as one
  batch when the channel is empty or the batch is full. \<open>Waiting\<close> is the receive after the batch,
  \<open>Batches\<close> the arguments of \<open>ProcessNotifyData\<close> so far.\<close>

record 'a notify_queue =
  Channel :: "'a list"
  Tasks :: "'a list"
  Waiting :: bool
  Batches :: "'a list list"

definition queue_size :: nat where "queue_size = 10000"

definition new_queue :: "'a notify_queue" where
  "new_queue = \<lparr>Channel = [], Tasks = [], Waiting = False, Batches = []\<rparr>"

text \<open>A full channel blocks the caller.\<close>

definition notify :: "'a \<Rightarrow> 'a notify_queue \<Rightarrow> 'a notify_queue option" where
  "notify t q = (if length (Channel q) < queue_size then Some (q\<lparr>Channel := Channel q @ [t]\<rparr>) else None)"

text \<open>One turn of the loop; none when it waits for a task.\<close>

definition loop_turn :: "'a notify_queue \<Rightarrow> 'a notify_queue option" where
  "loop_turn q =
     (case Channel q of
        [] \<Rightarrow> if Waiting q then None
              else Some (q\<lparr>Waiting := True, Tasks := [],
                          Batches := (if Tasks q = [] then Batches q else Batches q @ [Tasks q])\<rparr>)
      | t # ts \<Rightarrow>
          if Waiting q then Some (q\<lparr>Channel := ts, Tasks := Tasks q @ [t], Waiting := False\<rparr>)
          else if queue_size \<le> length (Tasks q @ [t])
          then Some (q\<lparr>Channel := ts, Tasks := [], Batches := Batches q @ [Tasks q @ [t]]\<rparr>)
          else Some (q\<lparr>Channel := ts, Tasks := Tasks q @ [t]\<rparr>))"

text \<open>What happens to a queue: a caller notifies it of a task, or its loop takes a turn, in any order. An event that would
  block gives none.\<close>

datatype 'a queue_event = Notified 'a | Turn

definition queue_act :: "'a queue_event \<Rightarrow> 'a notify_queue \<Rightarrow> 'a notify_queue option" where
  "queue_act e q = (case e of Notified t \<Rightarrow> notify t q | Turn \<Rightarrow> loop_turn q)"

fun run_queue :: "'a queue_event list \<Rightarrow> 'a notify_queue \<Rightarrow> 'a notify_queue option" where
  "run_queue [] q = Some q"
| "run_queue (e # es) q = (case queue_act e q of None \<Rightarrow> None | Some q' \<Rightarrow> run_queue es q')"

section \<open>Deposits\<close>

record notify_task =
  TaskId :: uint256
  TaskProof :: merkle_proof
  TaskTx :: transaction

definition main_chain_tx_of :: "cross_env \<Rightarrow> string \<Rightarrow> notify_task \<Rightarrow> main_chain_transaction" where
  "main_chain_tx_of X address t =
     \<lparr>McTransactionHash = HashString (xA X) (TxHash (xT X) (TaskTx t)), McGenesisBlockAddress = address,
      McTransaction = TaskTx t, McProof = TaskProof t\<rparr>"

text \<open>The result: the receipts given to the SPV module, the outcome, and the stores. Only deposits that are new in
  the cache are sent.\<close>

definition DepositListener_ProcessNotifyData ::
    "cross_env \<Rightarrow> (nat \<Rightarrow> db_io) \<Rightarrow> bool \<Rightarrow> string \<Rightarrow> notify_task list \<Rightarrow> db_cache \<Rightarrow>
     (uint256 \<times> uint256) list \<times> unit outcome \<times> db_cache" where
  "DepositListener_ProcessNotifyData X ios onDuty address tasks db =
     (case AddMainChainTxs (xL X) (ios 0) (map (main_chain_tx_of X address) tasks) (MainChainStore db) of
        (Inl e, st) \<Rightarrow> ([], Done (), db\<lparr>MainChainStore := st\<rparr>)
      | (Inr result, st) \<Rightarrow>
          (let receipts = map (\<lambda>t. (TaskId t, TxHash (xT X) (TaskTx t))) tasks;
               spvTxs = map (\<lambda>(t, _). \<lparr>MainChainTransaction = TaskTx t, SpvProof = TaskProof t\<rparr>)
                          (filter snd (zip tasks result))
           in if \<not> onDuty then (receipts, Done (), db\<lparr>MainChainStore := st\<rparr>)
              else (receipts, SendDepositTransactions X (\<lambda>i. ios (Suc i)) spvTxs address (db\<lparr>MainChainStore := st\<rparr>))))"

section \<open>Announced blocks\<close>

type_synonym spv_header = bytes     \<comment> \<open>a header of the main chain: never looked into here\<close>

record listen_env =
  lM :: mining_env
  VerifyProof :: "merkle_proof \<Rightarrow> transaction \<Rightarrow> bool"
  GetHeader :: "merkle_proof \<Rightarrow> spv_header option"                   \<comment> \<open>of the block of the proof\<close>
  GetTxMerkleBranch :: "spv_header \<Rightarrow> merkle_proof \<Rightarrow> uint256 \<Rightarrow> (uint256 list \<times> int) option"
  ElaHeader :: "spv_header \<Rightarrow> bytes option option"                   \<comment> \<open>no \<open>iutil.Header\<close>; it cannot be written\<close>
  ProcessInvalidWithdrawHeight :: u32
  GetProcessedInvalidWithdrawTransactions :: "string \<Rightarrow> string list \<Rightarrow> go_error + string list"
  ToReversedString :: "uint256 \<Rightarrow> string"
  FromReversedString :: "string \<Rightarrow> bytes option"
  GetSmallCrossTransferTxs :: "go_error + string list"
  HexDecode :: "string \<Rightarrow> bytes option"
  HexEncode :: "bytes \<Rightarrow> string"
  IsSmallTransfer :: "transaction \<Rightarrow> bool"                           \<comment> \<open>below the configured threshold\<close>
  SendSmall :: "string \<Rightarrow> string \<Rightarrow> string \<Rightarrow> string \<Rightarrow> go_error + bool \<times> bool"
    \<comment> \<open>the answer has an error; its result is \<open>true\<close>\<close>

abbreviation lX :: "listen_env \<Rightarrow> cross_env" where "lX E \<equiv> mX (lM E)"

text \<open>The proof for the side chain: the transaction, its merkle branch and the header.\<close>

definition aux_proof :: "listen_env \<Rightarrow> spv_header \<Rightarrow> uint256 list \<Rightarrow> int \<Rightarrow> transaction \<Rightarrow> string outcome" where
  "aux_proof E header branches index tx =
     (case TxSerialize (xT (lX E)) tx of
        (Some e, _) \<Rightarrow> Fail e
      | (None, buf) \<Rightarrow>
          (case run_steps ([wput (WriteUint32 (xW (lX E)) (of_nat (length branches))) ExtErr] @
                  map (\<lambda>b. wput (WriteUint256 (xW (lX E)) b) ExtErr) branches @
                  [wput (WriteUint32 (xW (lX E)) (word_of_int index)) ExtErr]) buf of
             (Some e, _) \<Rightarrow> Fail e
           | (None, buf') \<Rightarrow>
               (case ElaHeader E header of
                  None \<Rightarrow> Panic
                | Some None \<Rightarrow> Fail ExtErr
                | Some (Some h) \<Rightarrow> Done (BytesToHexString (xC (lX E)) (buf' @ h)))))"

text \<open>The last configured chain with the genesis block; a chain at another height ends the search.\<close>

fun aux_chain :: "mining_env \<Rightarrow> string \<Rightarrow> u32 \<Rightarrow> mining_config list \<Rightarrow> side_chain option \<Rightarrow> side_chain option outcome" where
  "aux_chain M hash blockHeight [] found = Done found"
| "aux_chain M hash blockHeight (c # cs) found =
     (if GenesisBlock c \<noteq> hash then aux_chain M hash blockHeight cs found
      else (case GetChain (mX M) (GenesisBlockAddress c) of
        None \<Rightarrow> aux_chain M hash blockHeight cs found
      | Some sc \<Rightarrow>
          (case getCurrentConfig (SideNodeList (mX M)) sc of
             None \<Rightarrow> Panic
           | Some k \<Rightarrow>
               (case SideNodeHeight (xN (mX M)) (GenesisBlockAddress k) of
                  Inl e \<Rightarrow> Fail e
                | Inr h \<Rightarrow> if h = blockHeight then aux_chain M hash blockHeight cs (Some sc)
                            else Fail (Err ''No need to submit auxpow, current side chain height:'')))))"

text \<open>Only the last task counts. Errors are logged.\<close>

definition AuxpowListener_ProcessNotifyData ::
    "listen_env \<Rightarrow> notify_task list \<Rightarrow> mining_state \<Rightarrow> unit outcome \<times> mining_state" where
  "AuxpowListener_ProcessNotifyData E tasks st =
     (if tasks = [] then (Panic, st)
      else (let tx = TaskTx (last tasks); proof = TaskProof (last tasks) in
       if \<not> VerifyProof E proof tx then (Done (), st)
       else (case GetHeader E proof of
         None \<Rightarrow> (Done (), st)
       | Some header \<Rightarrow>
      (case GetTxMerkleBranch E header proof (TxHash (xT (lX E)) tx) of
         None \<Rightarrow> (Done (), st)
       | Some (branches, index) \<Rightarrow>
      (case aux_proof E header branches index tx of
         Done sideAuxpow \<Rightarrow>
           (case Payload tx of
              SideChainPow blockHeight sideBlock genesis signature \<Rightarrow>
                (let genesishash = HashString (xA (lX E)) genesis
                 in case aux_chain (lM E) genesishash blockHeight (MiningNodes (lM E)) None of
                      Done (Some sc) \<Rightarrow>
                        (let st1 = UpdateLastNotifySideMiningHeight (lM E) genesis st
                         in case SubmitAuxpow (lM E) genesishash (HashString (xA (lX E)) sideBlock) sideAuxpow of
                              Some e \<Rightarrow> (Done (), st1)
                            | None \<Rightarrow> (Done (), UpdateLastSubmitAuxpowHeight (lM E) genesis st1))
                    | Done None \<Rightarrow> (Done (), st)
                    | Fail e \<Rightarrow> (Done (), st)
                    | other \<Rightarrow> (Panic, st))
            | _ \<Rightarrow> (Done (), st))
       | Fail e \<Rightarrow> (Done (), st)
       | other \<Rightarrow> (Panic, st))))))"

section \<open>Withdrawals that cannot be paid\<close>

text \<open>The asset that makes a withdrawal invalid, and the invalid ones of a list.\<close>

definition invalid_asset :: "cross_env \<Rightarrow> withdraw_asset \<Rightarrow> bool" where
  "invalid_asset X w \<longleftrightarrow> CrossChainAmount w \<le>s 0 \<or> Amount w - CrossChainAmount w <s MinCrossChainTxFee \<or>
     Uint168FromAddress (xA X) (TargetAddress w) = None"

fun invalid_transactions :: "cross_env \<Rightarrow> withdraw_tx list \<Rightarrow> withdraw_tx list option" where
  "invalid_transactions X [] = Some []"
| "invalid_transactions X (t # ts) =
     (case WithdrawInfo t of
        None \<Rightarrow> None
      | Some info \<Rightarrow>
          if list_ex (invalid_asset X) (WithdrawAssets info) \<or> WithdrawAssets info = []
          then map_option ((#) t) (invalid_transactions X ts)
          else invalid_transactions X ts)"

text \<open>The loop over the invalid transactions: those that the side chain has processed are to be left out, but the
  hashes it names are reversed and those they are compared with are not. The result: the signed hashes sent to the chain.\<close>

fun send_invalid :: "listen_env \<Rightarrow> string list \<Rightarrow> withdraw_tx list \<Rightarrow> unit outcome \<times> (bytes \<times> string) list" where
  "send_invalid E processedTxs [] = (Done (), [])"
| "send_invalid E processedTxs (t # ts) =
     (case Txid t of
        None \<Rightarrow> (Panic, [])
      | Some h \<Rightarrow>
          if HashString (xA (lX E)) h \<in> set processedTxs then send_invalid E processedTxs ts
          else (case Uint256FromHexString (xA (lX E)) (ToReversedString E h) of
            None \<Rightarrow> (Panic, [])
          | Some withdrawTxHash \<Rightarrow>
              (case WriteUint256 (xW (lX E)) withdrawTxHash of
                 None \<Rightarrow> send_invalid E processedTxs ts
               | Some buf \<Rightarrow>
                   (case ArbiterSign (lM E) buf of
                      None \<Rightarrow> send_invalid E processedTxs ts
                    | Some signature \<Rightarrow>
                        (case send_invalid E processedTxs ts of
                           (r, sent) \<Rightarrow> (r, (signature, ToReversedString E h) # sent))))))"

text \<open>The round of one chain. The calls of its store use \<open>ios k\<close> and the two after it.\<close>

definition invalid_withdraws_of ::
    "listen_env \<Rightarrow> (nat \<Rightarrow> db_io) \<Rightarrow> nat \<Rightarrow> side_chain \<Rightarrow> db_cache \<Rightarrow> unit outcome \<times> (bytes \<times> string) list \<times> db_cache" where
  "invalid_withdraws_of E ios k sc db =
     (case getCurrentConfig (SideNodeList (lX E)) sc of
        None \<Rightarrow> (Panic, [], db)
      | Some c \<Rightarrow>
     (if \<not> SupportInvalidWithdraw c then (Done (), [], db)
      else (case GetDataStoreByDBName (CfgName c) db of
        None \<Rightarrow> (Done (), [], db)
      | Some st \<Rightarrow>
     (case GetAllSideChainTxHashesAndHeights (ios k) st of
        Inl e \<Rightarrow> (Done (), [], db)
      | Inr (txHashes, _) \<Rightarrow>
     (if txHashes = [] then (Done (), [], db)
      else (case GetSideChainTxsFromHashes (xW (lX E)) (ios (k + 1)) txHashes st of
        Inl e \<Rightarrow> (Done (), [], db)
      | Inr unsolvedTransactions \<Rightarrow>
     (if unsolvedTransactions = [] then (Done (), [], db)
      else (case invalid_transactions (lX E) unsolvedTransactions of
        None \<Rightarrow> (Panic, [], db)
      | Some invalidTransactions \<Rightarrow>
     (if list_ex (\<lambda>t. Txid t = None) invalidTransactions then (Panic, [], db)
      else (case GetProcessedInvalidWithdrawTransactions E (Key sc)
                   (map (\<lambda>t. ToReversedString E (the (Txid t))) invalidTransactions) of
        Inl e \<Rightarrow> (Done (), [], db)
      | Inr processedTxs \<Rightarrow>
          (let reversed = List.map_filter (\<lambda>t. map_option (BytesToHexString (xC (lX E))) (FromReversedString E t)) processedTxs;
               db' = on_name (CfgName c) (\<lambda>_. snd (RemoveSideChainTxs (ios (k + 2)) reversed st)) db
           in case send_invalid E processedTxs invalidTransactions of (r, sent) \<Rightarrow> (r, sent, db'))))))))))))"

fun invalid_withdraws ::
    "listen_env \<Rightarrow> (nat \<Rightarrow> db_io) \<Rightarrow> nat \<Rightarrow> side_chain list \<Rightarrow> db_cache \<Rightarrow>
     unit outcome \<times> (string \<times> (bytes \<times> string) list) list \<times> db_cache" where
  "invalid_withdraws E ios k [] db = (Done (), [], db)"
| "invalid_withdraws E ios k (sc # scs) db =
     (case invalid_withdraws_of E ios k sc db of
        (Done _, sent, db') \<Rightarrow>
          (case invalid_withdraws E ios (k + 3) scs db' of (r, rest, db'') \<Rightarrow> (r, (Key sc, sent) # rest, db''))
      | (r, sent, db') \<Rightarrow> (r, [(Key sc, sent)], db'))"

definition MonitorInvalidWithdrawTransaction ::
    "listen_env \<Rightarrow> (nat \<Rightarrow> db_io) \<Rightarrow> db_cache \<Rightarrow> unit outcome \<times> (string \<times> (bytes \<times> string) list) list \<times> db_cache" where
  "MonitorInvalidWithdrawTransaction E ios db =
     (case Main_CurrentHeight (ios 0) QueryHeightCode (MainChainStore db) of
        (mcHeight, st) \<Rightarrow>
          if mcHeight < ProcessInvalidWithdrawHeight E then (Done (), [], db\<lparr>MainChainStore := st\<rparr>)
          else invalid_withdraws E ios 1 (GetAllChains (lX E)) (db\<lparr>MainChainStore := st\<rparr>))"

section \<open>Small transfers\<close>

text \<open>\<open>DoneSmallCrs\<close> of each chain, by its key; \<open>None\<close> is a nil map, which can be read and not written.\<close>

type_synonym done_small = "string \<Rightarrow> string list option"

definition IsSendSmallCrxTx :: "side_chain \<Rightarrow> string \<Rightarrow> done_small \<Rightarrow> bool" where
  "IsSendSmallCrxTx sc hash don \<longleftrightarrow> (case don (Key sc) of None \<Rightarrow> False | Some hs \<Rightarrow> hash \<in> set hs)"

definition SendSmallCrossTransaction ::
    "listen_env \<Rightarrow> side_chain \<Rightarrow> string \<Rightarrow> bytes \<Rightarrow> string \<Rightarrow> done_small \<Rightarrow> unit outcome \<times> done_small" where
  "SendSmallCrossTransaction E sc rawTx signature hash don =
     (if CurrentConfig sc = None then (Panic, don)
      else (case SendSmall E (Key sc) (HexEncode E signature) rawTx hash of
        Inl e \<Rightarrow> (Fail e, don)
      | Inr (err, result_true) \<Rightarrow>
          if \<not> err \<and> result_true
          then (case don (Key sc) of
                  None \<Rightarrow> (Panic, don) | Some hs \<Rightarrow> (Done (), don(Key sc := Some (List.insert hash hs))))
          else (Done (), don)))"

text \<open>The result names the hashes that were sent.\<close>

fun send_small :: "listen_env \<Rightarrow> side_chain \<Rightarrow> (transaction \<times> bytes) list \<Rightarrow> done_small \<Rightarrow>
    unit outcome \<times> string list \<times> done_small" where
  "send_small E sc [] don = (Done (), [], don)"
| "send_small E sc ((tx, signature) # txs) don =
     (let hash = HashString (xA (lX E)) (TxHash (xT (lX E)) tx) in
      if IsSendSmallCrxTx sc hash don then send_small E sc txs don
      else (case SendSmallCrossTransaction E sc (HexEncode E (snd (TxSerialize (xT (lX E)) tx))) signature hash don of
              (Panic, don') \<Rightarrow> (Panic, [hash], don')
            | (_, don') \<Rightarrow> (case send_small E sc txs don' of (r, sent, don'') \<Rightarrow> (r, hash # sent, don''))))"

definition SendSmallCrossDepositTransactions ::
    "listen_env \<Rightarrow> (transaction \<times> bytes) list \<Rightarrow> string \<Rightarrow> done_small \<Rightarrow> unit outcome \<times> string list \<times> done_small" where
  "SendSmallCrossDepositTransactions E knownTx genesisAddress don =
     (case GetChain (lX E) genesisAddress of None \<Rightarrow> (Done (), [], don) | Some sc \<Rightarrow> send_small E sc knownTx don)"

text \<open>What the node has, with the addresses; the first transaction that is not as expected ends the loop.\<close>

fun small_transfers :: "listen_env \<Rightarrow> string list \<Rightarrow> (string \<times> transaction) list outcome" where
  "small_transfers E [] = Done []"
| "small_transfers E (r # rs) =
     (case HexDecode E r of
        None \<Rightarrow> Done []
      | Some buf \<Rightarrow>
     (case GetTransactionByBytes (xT (lX E)) buf of
        (Inl e, _) \<Rightarrow> Done []
      | (Inr blank, rest) \<Rightarrow>
     (case TxDeserialize (xT (lX E)) blank rest of
        (Inl e, _) \<Rightarrow> Done []
      | (Inr txn, _) \<Rightarrow>
     (case Outputs txn of
        [] \<Rightarrow> Panic
      | out # _ \<Rightarrow>
     (case ToAddress (xA (lX E)) (OutProgramHash out) of
        None \<Rightarrow> Done []
      | Some xAddr \<Rightarrow>
     (case GetChain (lX E) xAddr of
        None \<Rightarrow> Done []
      | Some side \<Rightarrow>
          (if \<not> IsSmallTransfer E txn then small_transfers E rs
           else (case getCurrentConfig (SideNodeList (lX E)) side of
             None \<Rightarrow> Panic
           | Some c \<Rightarrow>
               if \<not> SupportQuickRecharge c then small_transfers E rs
               else (case small_transfers E rs of Done txs \<Rightarrow> Done ((xAddr, txn) # txs) | other \<Rightarrow> other)))))))))"

fun sign_small :: "listen_env \<Rightarrow> (string \<times> transaction) list \<Rightarrow> (string \<times> (transaction \<times> bytes) list) list \<Rightarrow>
    (string \<times> (transaction \<times> bytes) list) list" where
  "sign_small E [] m = m"
| "sign_small E ((xAddr, txn) # txs) m =
     (let knownTxs = (case map_of m xAddr of None \<Rightarrow> [] | Some l \<Rightarrow> l)
      in case ArbiterSign (lM E) (snd (TxSerialize (xT (lX E)) txn)) of
           None \<Rightarrow> AList.update xAddr knownTxs m
         | Some signature \<Rightarrow> sign_small E txs (AList.update xAddr (knownTxs @ [(txn, signature)]) m))"

fun send_small_groups :: "listen_env \<Rightarrow> (string \<times> (transaction \<times> bytes) list) list \<Rightarrow> done_small \<Rightarrow>
    unit outcome \<times> string list \<times> done_small" where
  "send_small_groups E [] don = (Done (), [], don)"
| "send_small_groups E ((xAddr, knownTxs) # groups) don =
     (case SendSmallCrossDepositTransactions E knownTxs xAddr don of
        (Done _, sent, don') \<Rightarrow>
          (case send_small_groups E groups don' of (r, rest, don'') \<Rightarrow> (r, sent @ rest, don''))
      | other \<Rightarrow> other)"

text \<open>One round; the chains in the order in which Go ranges over the map, \<open>range_order\<close>.\<close>

definition MonitorSmallCrossTransfer ::
    "listen_env \<Rightarrow> ((string \<times> (transaction \<times> bytes) list) list \<Rightarrow> (string \<times> (transaction \<times> bytes) list) list) \<Rightarrow>
     done_small \<Rightarrow> unit outcome \<times> string list \<times> done_small" where
  "MonitorSmallCrossTransfer E range_order don =
     (case GetSmallCrossTransferTxs E of
        Inl e \<Rightarrow> (Done (), [], don)
      | Inr rawTxs \<Rightarrow>
          (case small_transfers E rawTxs of
             Done txs \<Rightarrow> send_small_groups E (range_order (sign_small E txs [])) don
           | Fail e \<Rightarrow> (Done (), [], don)
           | other \<Rightarrow> (Panic, [], don)))"

end
