(* ===== verification/Props_Listeners.thy ===== *)
theory Props_Listeners
  imports Listeners Props_Deposit Props_Mining
begin

text \<open>
  Properties of the listeners: the queue hands every task on, in order and in batches of bounded size; a receipt
  is given for what is recorded; which withdrawals are reported as invalid; what the listener of announced
  blocks does not do.
\<close>

section \<open>The queue\<close>

text \<open>What the queue promises: a work list, where tasks arrive at the end, and some are served from the front as one
  batch, at least one and at most 10000.\<close>

record 'a work_list =
  Pending :: "'a list"
  Served :: "'a list list"

definition empty_work :: "'a work_list" where "empty_work = \<lparr>Pending = [], Served = []\<rparr>"

datatype 'a work_event = Arrive 'a | Serve nat

definition work_act :: "'a work_event \<Rightarrow> 'a work_list \<Rightarrow> 'a work_list option" where
  "work_act e w =
     (case e of
        Arrive t \<Rightarrow> Some (w\<lparr>Pending := Pending w @ [t]\<rparr>)
      | Serve n \<Rightarrow>
          if 0 < n \<and> n \<le> queue_size \<and> n \<le> length (Pending w)
          then Some (w\<lparr>Pending := drop n (Pending w), Served := Served w @ [take n (Pending w)]\<rparr>) else None)"

fun work_run :: "'a work_event list \<Rightarrow> 'a work_list \<Rightarrow> 'a work_list option" where
  "work_run [] w = Some w"
| "work_run (e # es) w = (case work_act e w of None \<Rightarrow> None | Some w' \<Rightarrow> work_run es w')"

text \<open>What the work list does for an event of the queue: the task that the queue is notified of arrives; a turn serves a
  batch, or the work list sees nothing of it.\<close>

inductive implements :: "'a queue_event \<Rightarrow> 'a work_event list \<Rightarrow> bool" where
  "implements (Notified t) [Arrive t]"
| "implements Turn [Serve n]"
| "implements Turn []"

fun arrivals :: "'a queue_event list \<Rightarrow> 'a list" where
  "arrivals [] = []"
| "arrivals (Notified t # es) = t # arrivals es"
| "arrivals (Turn # es) = arrivals es"

definition work_of :: "'a notify_queue \<Rightarrow> 'a work_list" where
  "work_of q = \<lparr>Pending = Tasks q @ Channel q, Served = Batches q\<rparr>"

definition all_tasks :: "'a notify_queue \<Rightarrow> 'a list" where
  "all_tasks q = concat (Batches q) @ Tasks q @ Channel q"

definition queue_wf :: "'a notify_queue \<Rightarrow> bool" where
  "queue_wf q \<longleftrightarrow> length (Channel q) \<le> queue_size \<and> length (Tasks q) < queue_size \<and> (Waiting q \<longrightarrow> Tasks q = [])"

lemma queue_size_gt [simp]: "Suc 0 < queue_size" "0 < queue_size" by (simp_all add: queue_size_def)

lemma loop_turn_wf: "queue_wf q \<Longrightarrow> loop_turn q = Some q' \<Longrightarrow> queue_wf q'"
  by (auto simp: queue_wf_def loop_turn_def split: list.splits if_splits)

lemma notify_wf: "queue_wf q \<Longrightarrow> notify t q = Some q' \<Longrightarrow> queue_wf q'"
  by (auto simp: notify_def queue_wf_def split: if_splits)

lemma queue_act_wf: "queue_act e q = Some q' \<Longrightarrow> queue_wf q \<Longrightarrow> queue_wf q'"
  by (cases e) (auto simp: queue_act_def intro: loop_turn_wf notify_wf)

lemma new_queue_wf: "queue_wf new_queue"
  by (simp add: queue_wf_def new_queue_def)

lemma run_queue_wf: "run_queue es q = Some q' \<Longrightarrow> queue_wf q \<Longrightarrow> queue_wf q'"
  by (induction es arbitrary: q) (auto split: option.splits dest: queue_act_wf)

lemma work_run_append:
  "work_run (es @ es') w = (case work_run es w of None \<Rightarrow> None | Some w' \<Rightarrow> work_run es' w')"
  by (induction es arbitrary: w) (auto split: option.split)

lemma loop_turn_work:
  assumes "queue_wf q" "loop_turn q = Some q'"
  shows "work_of q' = work_of q \<or> (\<exists>n. work_act (Serve n) (work_of q) = Some (work_of q'))"
proof -
  have served: "work_act (Serve (length b)) (work_of q) = Some \<lparr>Pending = r, Served = Batches q @ [b]\<rparr>"
    if "Tasks q @ Channel q = b @ r" "b \<noteq> []" "length b \<le> queue_size" for b r
    using that by (simp add: work_act_def work_of_def)
  show ?thesis
  proof (cases "Channel q")
    case Nil
    with assms served [of "Tasks q" "[]"] show ?thesis
      by (auto simp: loop_turn_def work_of_def queue_wf_def split: if_splits)
  next
    case (Cons t ts)
    with assms served [of "Tasks q @ [t]" ts] show ?thesis
      by (auto simp: loop_turn_def work_of_def queue_wf_def split: if_splits)
  qed
qed

lemma loop_turn_keeps: "loop_turn q = Some q' \<Longrightarrow> all_tasks q' = all_tasks q"
  by (auto simp: loop_turn_def all_tasks_def split: list.splits if_splits)

text \<open>One event: the simulation, and the tasks.\<close>

lemma act_simulated:
  assumes "queue_wf q" "queue_act e q = Some q'"
  shows "\<exists>ws. implements e ws \<and> work_run ws (work_of q) = Some (work_of q')" "all_tasks q' = all_tasks q @ arrivals [e]"
proof -
  show "\<exists>ws. implements e ws \<and> work_run ws (work_of q) = Some (work_of q')"
  proof (cases e)
    case (Notified t)
    with assms(2) have "work_run [Arrive t] (work_of q) = Some (work_of q')"
      by (auto simp: queue_act_def notify_def work_of_def work_act_def split: if_splits)
    with Notified implements.intros(1) [of t] show ?thesis by (intro exI [of _ "[Arrive t]"]) simp
  next
    case Turn
    with assms loop_turn_work [of q q'] consider "work_of q' = work_of q" | n where "work_act (Serve n) (work_of q) = Some (work_of q')"
      by (auto simp: queue_act_def)
    then show ?thesis
    proof cases
      case 1
      with Turn implements.intros(3) show ?thesis by (intro exI [of _ "[]"]) simp
    next
      case 2
      with Turn implements.intros(2) [of n] show ?thesis by (intro exI [of _ "[Serve n]"]) simp
    qed
  qed
  show "all_tasks q' = all_tasks q @ arrivals [e]"
  proof (cases e)
    case (Notified t)
    with assms(2) show ?thesis by (auto simp: queue_act_def notify_def all_tasks_def split: if_splits)
  next
    case Turn
    with assms(2) loop_turn_keeps [of q q'] show ?thesis by (simp add: queue_act_def)
  qed
qed

lemma run_simulated:
  assumes "run_queue es q = Some q'" "queue_wf q"
  shows "\<exists>wss. list_all2 implements es wss \<and> work_run (concat wss) (work_of q) = Some (work_of q')"
    "all_tasks q' = all_tasks q @ arrivals es"
proof -
  have "(\<exists>wss. list_all2 implements es wss \<and> work_run (concat wss) (work_of q) = Some (work_of q')) \<and>
      all_tasks q' = all_tasks q @ arrivals es"
    using assms
  proof (induction es arbitrary: q)
    case Nil
    then show ?case by simp
  next
    case (Cons e es)
    then obtain q1 where q1: "queue_act e q = Some q1" "run_queue es q1 = Some q'" by (auto split: option.splits)
    from act_simulated [OF Cons.prems(2) q1(1)] obtain ws where
      ws: "implements e ws" "work_run ws (work_of q) = Some (work_of q1)" "all_tasks q1 = all_tasks q @ arrivals [e]" by blast
    from Cons.IH [OF q1(2) queue_act_wf [OF q1(1) Cons.prems(2)]] obtain wss where
      wss: "list_all2 implements es wss" "work_run (concat wss) (work_of q1) = Some (work_of q')"
      "all_tasks q' = all_tasks q1 @ arrivals es" by blast
    have "arrivals (e # es) = arrivals [e] @ arrivals es" by (cases e) simp_all
    then have "all_tasks q' = all_tasks q @ arrivals (e # es)" using ws(3) wss(3) by simp
    moreover have "list_all2 implements (e # es) (ws # wss)" using ws(1) wss(1) by simp
    moreover have "work_run (concat (ws # wss)) (work_of q) = Some (work_of q')" using ws(2) wss(2) by (simp add: work_run_append)
    ultimately show ?case by blast
  qed
  then show "\<exists>wss. list_all2 implements es wss \<and> work_run (concat wss) (work_of q) = Some (work_of q')"
    "all_tasks q' = all_tasks q @ arrivals es" by blast+
qed

text \<open>C15: The channel and the loop of a listener implement a work list, event by event: a notification is the arrival of
  that task at the end, a turn of the loop serves a batch of at least one and at most 10000 tasks from the front, or nothing
  that the work list sees; the batches are those that are handed on. No task is lost, handed on twice or out of order: the
  batches, then the tasks collected, then the channel are at every moment the tasks of the notifications so far.\<close>

theorem queue_refines_work_list:
  assumes "run_queue es new_queue = Some q"
  shows "(\<exists>wss. list_all2 implements es wss \<and> work_run (concat wss) empty_work = Some (work_of q)) \<and> Served (work_of q) = Batches q \<and>
    concat (Batches q) @ Tasks q @ Channel q = arrivals es"
proof -
  have new: "work_of new_queue = empty_work" "all_tasks new_queue = []"
    by (simp_all add: work_of_def new_queue_def empty_work_def all_tasks_def)
  show ?thesis using run_simulated [OF assms new_queue_wf] unfolding new by (simp add: all_tasks_def work_of_def)
qed

text \<open>Turns of the loop without arrivals.\<close>

fun loop_turns :: "nat \<Rightarrow> 'a notify_queue \<Rightarrow> 'a notify_queue" where
  "loop_turns 0 q = q"
| "loop_turns (Suc n) q = (case loop_turn q of None \<Rightarrow> q | Some q' \<Rightarrow> loop_turns n q')"

definition turns_left :: "'a notify_queue \<Rightarrow> nat" where
  "turns_left q = 2 * length (Channel q) + (if Waiting q then 0 else 1)"

lemma loop_turn_less: "loop_turn q = Some q' \<Longrightarrow> turns_left q' < turns_left q"
  by (auto simp: loop_turn_def turns_left_def split: list.splits if_splits)

lemma loop_turn_None: "loop_turn q = None \<longleftrightarrow> Channel q = [] \<and> Waiting q"
  by (auto simp: loop_turn_def split: list.splits if_splits)

lemma loop_turns_rest: "loop_turn q = None \<Longrightarrow> loop_turns n q = q"
  by (cases n) simp_all

lemma queue_drains_wf:
  assumes "queue_wf q" "turns_left q \<le> n"
  shows "loop_turn (loop_turns n q) = None \<and> Tasks (loop_turns n q) = [] \<and>
    concat (Batches (loop_turns n q)) = concat (Batches q) @ Tasks q @ Channel q"
  using assms
proof (induction n arbitrary: q)
  case 0
  then show ?case by (auto simp: turns_left_def loop_turn_None queue_wf_def split: if_splits)
next
  case (Suc n)
  show ?case
  proof (cases "loop_turn q")
    case None
    then have "Channel q = []" "Waiting q" by (simp_all add: loop_turn_None)
    with Suc.prems(1) show ?thesis
      unfolding loop_turns_rest [OF None] by (simp add: None queue_wf_def)
  next
    case (Some q')
    then have "turns_left q' \<le> n" using loop_turn_less [OF Some] Suc.prems(2) by simp
    from Suc.IH [OF loop_turn_wf [OF Suc.prems(1) Some] this] show ?thesis
      using loop_turn_keeps [OF Some] by (simp add: Some all_tasks_def)
  qed
qed

text \<open>When no task arrives any more, the loop of a listener comes to rest within two turns per task
  that is in the channel and one more; by then it has handed on every task, each once and in the order of arrival.\<close>

lemma queue_drains:
  assumes "run_queue es new_queue = Some q" "2 * length (Channel q) + 1 \<le> n"
  shows "loop_turn (loop_turns n q) = None \<and> Channel (loop_turns n q) = [] \<and> Tasks (loop_turns n q) = [] \<and>
    concat (Batches (loop_turns n q)) = concat (Batches q) @ Tasks q @ Channel q"
proof -
  have "turns_left q \<le> n" using assms(2) by (simp add: turns_left_def)
  from queue_drains_wf [OF run_queue_wf [OF assms(1) new_queue_wf] this] show ?thesis by (simp add: loop_turn_None)
qed

section \<open>Receipts\<close>

lemma processed_known:
  assumes "\<forall>i. good_io (ios i)" "deposits_wf db"
    and "DepositListener_ProcessNotifyData X ios onDuty address tasks db = (receipts, r, db')"
  shows "deposits_wf db' \<and> known_deposits db \<subseteq> known_deposits db' \<and>
    main_arg_key ` main_chain_tx_of X address ` set tasks \<subseteq> known_deposits db'"
proof -
  define txs where "txs = map (main_chain_tx_of X address) tasks"
  define db1 where "db1 = db\<lparr>MainChainStore := add_main (xL X) (ios 0) txs (MainChainStore db)\<rparr>"
  have good: "good_io (ios 0)" "\<forall>i. good_io (ios (Suc i))" using assms(1) by simp_all
  have inv: "good_io (ios 0) \<and> main_store_wf (MainChainStore db)" using good assms(2) by (simp add: deposits_wf_def)
  have one: "keeps db db1" unfolding db1_def add_main_def by (rule keeps_add [OF good(1)])
  have new: "main_arg_key ` set txs \<subseteq> known_deposits db1"
    using main_txs.add_keys [OF inv, of "xL X" txs] by (auto simp: db1_def known_deposits_def)
  obtain result st where a: "AddMainChainTxs (xL X) (ios 0) txs (MainChainStore db) = (Inr result, st)"
    by (simp add: AddMainChainTxs_def with_tx_good [OF good(1)] case_prod_beta Let_def)
  then have "db1 = db\<lparr>MainChainStore := st\<rparr>" by (simp add: db1_def add_main_def)
  moreover define spvTxs where "spvTxs = map (\<lambda>(t, _). \<lparr>MainChainTransaction = TaskTx t, SpvProof = TaskProof t\<rparr>)
    (filter snd (zip tasks result))"
  ultimately have "db' = db1 \<or> db' = snd (SendDepositTransactions X (\<lambda>i. ios (Suc i)) spvTxs address db1)"
    using assms(3) a by (auto simp: DepositListener_ProcessNotifyData_def txs_def Let_def split: if_splits)
  then have "keeps db1 db'" using keeps_send [OF good(2)] by auto
  with one new assms(2) show ?thesis unfolding keeps_def txs_def by auto
qed

text \<open>C27: While the database answers, the listener of deposits gives the SPV module a receipt only for deposits that it has
  recorded: each of them waits in the cache or, if the arbiter is on duty and has sent it, is among the finished ones. What was
  recorded before stays recorded.\<close>

theorem receipts_are_recorded:
  assumes "\<forall>i. good_io (ios i)" "deposits_wf db"
    and "DepositListener_ProcessNotifyData X ios onDuty address tasks db = (receipts, r, db')"
    and "(i, h) \<in> set receipts"
  shows "(HashString (xA X) h, address) \<in> known_deposits db' \<and> known_deposits db \<subseteq> known_deposits db'"
proof -
  have "\<exists>t \<in> set tasks. h = TxHash (xT X) (TaskTx t)"
    using assms(3,4) by (auto simp: DepositListener_ProcessNotifyData_def Let_def split: prod.splits sum.splits if_splits)
  then obtain t where t: "t \<in> set tasks" "h = TxHash (xT X) (TaskTx t)" by blast
  have "main_arg_key (main_chain_tx_of X address t) = (HashString (xA X) h, address)"
    by (simp add: main_arg_key_def main_chain_tx_of_def t(2))
  with t(1) processed_known [OF assms(1-3)] show ?thesis by (metis imageI subsetD)
qed

lemma failed_inserts: "\<forall>i. \<not> ok i \<Longrightarrow> snd (insert_rows key ok n rs t) = t"
  by (induction rs arbitrary: n t) (simp_all add: insert_row_def insert_rows.simps case_prod_beta)

text \<open>When the database refuses the rows of a batch of deposits, they are taken for known ones: the SPV module gets
  its receipts, and the deposits are recorded nowhere.\<close>

lemma receipts_without_record:
  assumes "DepositListener_ProcessNotifyData X ios onDuty address tasks db = (receipts, r, db')"
    and "begin_ok (ios 0)" "prepare_ok (ios 0)" "commit_ok (ios 0)" "\<forall>i. \<not> exec_ok (ios 0) i"
    and "\<not> onDuty" "t \<in> set tasks"
    and "(HashString (xA X) (TxHash (xT X) (TaskTx t)), address) \<notin> known_deposits db"
  shows "(TaskId t, TxHash (xT X) (TaskTx t)) \<in> set receipts \<and>
    (HashString (xA X) (TxHash (xT X) (TaskTx t)), address) \<notin> known_deposits db'"
proof -
  have "\<exists>result. AddMainChainTxs (xL X) (ios 0) (map (main_chain_tx_of X address) tasks) (MainChainStore db) =
      (Inr result, MainChainStore db)"
    using assms(2-5) by (simp add: AddMainChainTxs_def with_tx_def failed_inserts case_prod_beta Let_def)
  then have "db' = db" "receipts = map (\<lambda>t. (TaskId t, TxHash (xT X) (TaskTx t))) tasks"
    using assms(1,6) by (auto simp: DepositListener_ProcessNotifyData_def Let_def)
  with assms(7,8) show ?thesis by auto
qed

section \<open>Announced blocks\<close>

lemma aux_chain_found:
  "aux_chain M hash h cs found = Done (Some sc) \<Longrightarrow> found = Some sc \<or> (\<exists>c \<in> set cs. GenesisBlock c = hash)"
  by (induction M hash h cs found rule: aux_chain.induct) (auto split: if_splits option.splits sum.splits)

lemma SubmitAuxpow_unknown:
  "\<forall>c \<in> set (MiningNodes M). GetGenesisBlock (mX M) c \<noteq> g \<Longrightarrow> SubmitAuxpow M g b p = Some (Err ''invalid side node'')"
proof -
  assume "\<forall>c \<in> set (MiningNodes M). GetGenesisBlock (mX M) c \<noteq> g"
  then have "find (\<lambda>c. GetGenesisBlock (mX M) c = g) (rev (MiningNodes M)) = None" by (simp add: find_None_iff)
  then show ?thesis by (simp add: SubmitAuxpow_def)
qed

lemma never_submitted_aux:
  assumes "\<forall>c \<in> set (MiningNodes M). \<forall>c' \<in> set (MiningNodes M). GetGenesisBlock (mX M) c \<noteq> GenesisBlock c'"
    and "aux_chain M g h (MiningNodes M) None = Done (Some sc)"
  shows "SubmitAuxpow M g block aux = Some (Err ''invalid side node'')"
  by (rule SubmitAuxpow_unknown) (use aux_chain_found [OF assms(2)] assms(1) in auto)

lemma aux_keeps_submitted:
  assumes "\<forall>c \<in> set (MiningNodes (lM E)). \<forall>c' \<in> set (MiningNodes (lM E)). GetGenesisBlock (lX E) c \<noteq> GenesisBlock c'"
    and "AuxpowListener_ProcessNotifyData E tasks st = (r, st')"
  shows "lastSubmitAuxpowHeight st' = lastSubmitAuxpowHeight st"
  using assms(2) never_submitted_aux [OF assms(1)]
  by (auto simp: AuxpowListener_ProcessNotifyData_def UpdateLastNotifySideMiningHeight_def Let_def
      split: if_splits option.splits prod.splits outcome.splits payload.splits)

text \<open>C28: The proof of an announced block does not reach its side chain: the listener looks for the chain by the configured
  hash of its genesis block and the submission by the reversed one, so that it ends with an error unless the reversed hash of one
  chain is the hash of one.\<close>

theorem aux_proof_not_submitted:
  assumes "\<forall>c \<in> set (MiningNodes (lM E)). \<forall>c' \<in> set (MiningNodes (lM E)). GetGenesisBlock (lX E) c \<noteq> GenesisBlock c'"
    and "AuxpowListener_ProcessNotifyData E tasks st = (r, st')"
  shows "lastSubmitAuxpowHeight st' = lastSubmitAuxpowHeight st \<and>
    (aux_chain (lM E) g h (MiningNodes (lM E)) None = Done (Some sc) \<longrightarrow>
      SubmitAuxpow (lM E) g block aux = Some (Err ''invalid side node''))"
  using aux_keeps_submitted [OF assms] never_submitted_aux [OF assms(1)] by blast

section \<open>Withdrawals that cannot be paid\<close>

lemma invalid_transactions_set:
  "invalid_transactions X ts = Some us \<Longrightarrow> set us = {t \<in> set ts. \<exists>info. WithdrawInfo t = Some info \<and>
     (list_ex (invalid_asset X) (WithdrawAssets info) \<or> WithdrawAssets info = [])}"
  by (induction ts arbitrary: us) (auto split: option.splits if_splits)

lemma ignored_invalid: "ignored_asset X w \<longleftrightarrow> invalid_asset X w \<or> TargetAddress w \<in> set (FrozenAddresses X)"
  by (auto simp: ignored_asset_def invalid_asset_def)

lemma send_invalid_from:
  "send_invalid E processed refused = (r, sent) \<Longrightarrow> (s, x) \<in> set sent \<Longrightarrow>
   \<exists>t \<in> set refused. \<exists>h. Txid t = Some h \<and> x = ToReversedString E h"
proof (induction refused arbitrary: r sent)
  case (Cons t ts)
  obtain r1 sent1 where "send_invalid E processed ts = (r1, sent1)" by fastforce
  with Cons show ?case by (auto split: option.splits if_splits)
qed simp

text \<open>A withdrawal that the side chain reports as refused already is reported to it once more: the hashes it names
  are reversed, those they are compared with are not.\<close>

lemma refused_withdraw_sent_again:
  assumes "send_invalid E processed refused = (Done (), sent)" "t \<in> set refused" "Txid t = Some h"
    and "ToReversedString E h \<in> set processed" "HashString (xA (lX E)) h \<notin> set processed"
    and "Uint256FromHexString (xA (lX E)) (ToReversedString E h) = Some h'" "WriteUint256 (xW (lX E)) h' = Some buf"
    and "ArbiterSign (lM E) buf = Some signature"
  shows "(signature, ToReversedString E h) \<in> set sent"
  using assms
proof (induction refused arbitrary: sent)
  case (Cons u us)
  obtain r1 sent1 where "send_invalid E processed us = (r1, sent1)" by fastforce
  with Cons show ?case by (cases "u = t") (auto split: option.splits if_splits)
qed simp

section \<open>Small transfers\<close>

text \<open>A transaction for an address that is no side chain's ends the loop over the small transfers: when it comes
  first, the round sends nothing.\<close>

lemma unknown_chain_stops_small_transfers:
  assumes "GetSmallCrossTransferTxs E = Inr (raw # raws)" "HexDecode E raw = Some buf"
    and "GetTransactionByBytes (xT (lX E)) buf = (Inr blank, rest)" "TxDeserialize (xT (lX E)) blank rest = (Inr txn, rest')"
    and "Outputs txn = out # outs" "ToAddress (xA (lX E)) (OutProgramHash out) = Some address"
    and "GetChain (lX E) address = None" "\<forall>m. mset (range_order m) = mset m"
  shows "MonitorSmallCrossTransfer E range_order don = (Done (), [], don)"
proof -
  have "range_order [] = []" using assms(8) by (metis mset_zero_iff)
  then show ?thesis using assms(1-7) by (simp add: MonitorSmallCrossTransfer_def)
qed

lemma send_small_done:
  "send_small E sc txs don = (r, sent, don') \<Longrightarrow>
   (\<forall>h. IsSendSmallCrxTx sc h don \<longrightarrow> h \<notin> set sent \<and> IsSendSmallCrxTx sc h don')"
proof (induction txs arbitrary: don r sent don')
  case (Cons p txs)
  obtain tx signature where p: "p = (tx, signature)" by (cases p)
  let ?h = "HashString (xA (lX E)) (TxHash (xT (lX E)) tx)"
  let ?raw = "HexEncode E (snd (TxSerialize (xT (lX E)) tx))"
  show ?case
  proof (cases "IsSendSmallCrxTx sc ?h don")
    case True
    then show ?thesis using Cons unfolding p by (simp add: Let_def)
  next
    case False
    obtain r1 don1 where one: "SendSmallCrossTransaction E sc ?raw signature ?h don = (r1, don1)" by fastforce
    have keep: "IsSendSmallCrxTx sc h don \<Longrightarrow> IsSendSmallCrxTx sc h don1" for h
      using one by (auto simp: SendSmallCrossTransaction_def IsSendSmallCrxTx_def split: if_splits sum.splits option.splits)
    show ?thesis
    proof (cases "r1 = Panic")
      case True
      then show ?thesis using Cons.prems False one keep unfolding p by (auto simp: Let_def)
    next
      case no_panic: False
      obtain r2 sent2 don2 where two: "send_small E sc txs don1 = (r2, sent2, don2)" by (metis prod_cases3)
      then have "sent = ?h # sent2" "don' = don2"
        using Cons.prems False one no_panic unfolding p by (auto simp: Let_def split: outcome.splits)
      with Cons.IH [OF two] keep False show ?thesis by auto
    qed
  qed
qed simp

text \<open>A small transfer that the side chain has taken is not sent to it again.\<close>

lemma small_transfer_sent_once:
  assumes "GetChain (lX E) address = Some sc" "CurrentConfig sc \<noteq> None" "don (Key sc) = Some hs"
    and "SendSmall E (Key sc) (HexEncode E signature) raw h = Inr (False, True)"
    and "SendSmallCrossTransaction E sc raw signature h don = (r, don1)"
    and "SendSmallCrossDepositTransactions E knownTx address don1 = (r', sent, don2)"
  shows "r = Done () \<and> h \<notin> set sent \<and> IsSendSmallCrxTx sc h don2"
proof -
  have one: "r = Done ()" "don1 = don(Key sc := Some (List.insert h hs))"
    using assms(2-5) by (auto simp: SendSmallCrossTransaction_def split: if_splits)
  then have "IsSendSmallCrxTx sc h don1" by (simp add: IsSendSmallCrxTx_def)
  moreover have "send_small E sc knownTx don1 = (r', sent, don2)"
    using assms(1,6) by (simp add: SendSmallCrossDepositTransactions_def)
  ultimately show ?thesis using send_small_done one(1) by blast
qed

section \<open>Concrete cases\<close>

lemma char_byte_eq: "c = byte_char b \<longleftrightarrow> char_byte c = b" "byte_char b = c \<longleftrightarrow> char_byte c = b"
  by (metis char_byte_char byte_char_byte)+

theorem queue_refines_work_list_witness:
  "\<exists>(q :: nat notify_queue) wss. run_queue [Notified 7, Turn, Notified 8, Turn, Turn, Notified 9] new_queue = Some q \<and>
     list_all2 implements [Notified 7, Turn, Notified 8, Turn, Turn, Notified 9] wss \<and>
     work_run (concat wss) empty_work = Some (work_of q) \<and> Batches q = [[7, 8]] \<and> Channel q = [9] \<and>
     concat (Batches q) @ Tasks q @ Channel q = [7, 8, 9]"
proof -
  let ?q = "\<lparr>Channel = [9 :: nat], Tasks = [], Waiting = True, Batches = [[7, 8]]\<rparr>"
  have run: "run_queue [Notified 7, Turn, Notified 8, Turn, Turn, Notified 9] new_queue = Some ?q"
    by (simp add: queue_act_def notify_def loop_turn_def new_queue_def queue_size_def)
  from queue_refines_work_list [OF this] obtain wss where
    "list_all2 implements [Notified 7, Turn, Notified 8, Turn, Turn, Notified (9 :: nat)] wss"
    "work_run (concat wss) empty_work = Some (work_of ?q)" by (elim conjE exE)
  with run show ?thesis by (intro exI [of _ ?q] exI [of _ wss]) simp
qed

lemma queue_drains_witness:
  "concat (Batches (loop_turns 3 \<lparr>Channel = [7 :: nat], Tasks = [], Waiting = False, Batches = []\<rparr>)) = [7]"
proof -
  have "run_queue [Notified 7] new_queue = Some \<lparr>Channel = [7 :: nat], Tasks = [], Waiting = False, Batches = []\<rparr>"
    by (simp add: queue_act_def notify_def new_queue_def queue_size_def)
  from queue_drains [OF this, of 3] show ?thesis by simp
qed

text \<open>A batch of one deposit, of the transaction \<open>origin5\<close> to the chain at K.\<close>

definition task0 :: notify_task where
  "task0 = \<lparr>TaskId = [7], TaskProof = [4], TaskTx = origin5\<rparr>"

definition yes_env :: cross_env where
  "yes_env = deposit_env (Inr \<lparr>RespError = False, RespCode = 0, RespResult = True\<rparr>)"

theorem receipts_are_recorded_witness:
  "\<exists>r (db' :: db_cache). DepositListener_ProcessNotifyData yes_env (\<lambda>_. plain_io) True ''K'' [task0] db5 = ([([7], [1])], r, db') \<and>
     ([byte_char 1], ''K'') \<in> known_deposits db'"
proof -
  have h: "TxHash (xT yes_env) origin5 = [1]" "HashString (xA yes_env) [1] = [byte_char 1]"
    by (simp_all add: yes_env_def deposit_env_sel origin5_def tx5_def)
  obtain result st where a: "AddMainChainTxs (xL yes_env) plain_io [main_chain_tx_of yes_env ''K'' task0] (MainChainStore db5) = (Inr result, st)"
    by (simp add: AddMainChainTxs_def with_tx_good [OF good_plain_io] case_prod_beta Let_def)
  have "fst (DepositListener_ProcessNotifyData yes_env (\<lambda>_. plain_io) True ''K'' [task0] db5) = [([7], [1])]"
    using a h(1) by (simp add: DepositListener_ProcessNotifyData_def Let_def) (simp add: task0_def)
  then obtain r db' where p: "DepositListener_ProcessNotifyData yes_env (\<lambda>_. plain_io) True ''K'' [task0] db5 = ([([7], [1])], r, db')"
    by (metis prod.collapse)
  have good: "\<forall>i. good_io ((\<lambda>_ :: nat. plain_io) i)" and "([7], [1]) \<in> set [([7], [1])]" by simp_all
  from receipts_are_recorded [OF good db5_wf p this(2)] p h(2) show ?thesis by auto
qed

lemma receipts_without_record_witness:
  "\<exists>r (db' :: db_cache). DepositListener_ProcessNotifyData yes_env (\<lambda>_. plain_io\<lparr>exec_ok := \<lambda>_. False\<rparr>) False ''K'' [task0] db5 =
       ([([7], [1])], r, db') \<and> ([byte_char 1], ''K'') \<notin> known_deposits db'"
proof -
  have h: "TxHash (xT yes_env) origin5 = [1]" "HashString (xA yes_env) [1] = [byte_char 1]"
    by (simp_all add: yes_env_def deposit_env_sel origin5_def tx5_def)
  let ?io = "plain_io\<lparr>exec_ok := \<lambda>_. False\<rparr>"
  obtain result st where a: "AddMainChainTxs (xL yes_env) ?io [main_chain_tx_of yes_env ''K'' task0] (MainChainStore db5) = (Inr result, st)"
    by (simp add: AddMainChainTxs_def with_tx_def failed_inserts plain_io_def case_prod_beta Let_def)
  obtain r db' where p: "DepositListener_ProcessNotifyData yes_env (\<lambda>_. ?io) False ''K'' [task0] db5 = ([([7], [1])], r, db')"
    using a h(1) by (auto simp: DepositListener_ProcessNotifyData_def Let_def task0_def)
  have new: "(HashString (xA yes_env) (TxHash (xT yes_env) (TaskTx task0)), ''K'') \<notin> known_deposits db5"
    using h not_finished5 by (simp add: task0_def known_deposits_def db5_def db0_def fin0_def main_lookup_def row_of_def main_key_def
        main_row0_def domIff deposit_lookup_def char_byte_eq char_byte_def)
  have io: "begin_ok ?io" "prepare_ok ?io" "commit_ok ?io" "\<forall>i. \<not> exec_ok ?io i" "\<not> False" "task0 \<in> set [task0]"
    by (simp_all add: plain_io_def)
  from receipts_without_record [OF p io new] p h show ?thesis by (auto simp: task0_def)
qed

definition listen_env0 :: listen_env where
  "listen_env0 = \<lparr>lM = mining_env0, VerifyProof = (\<lambda>_ _. True), GetHeader = (\<lambda>_. Some []), GetTxMerkleBranch = (\<lambda>_ _ _. Some ([], 0)),
     ElaHeader = (\<lambda>_. Some (Some [])), ProcessInvalidWithdrawHeight = 0,
     GetProcessedInvalidWithdrawTransactions = (\<lambda>_ _. Inr []), ToReversedString = (\<lambda>h. map byte_char (rev h)),
     FromReversedString = (\<lambda>s. Some (rev (map char_byte s))), GetSmallCrossTransferTxs = Inr [''9''],
     HexDecode = (\<lambda>_. Some [9]), HexEncode = map byte_char, IsSmallTransfer = (\<lambda>_. True),
     SendSmall = (\<lambda>_ _ _ _. Inr (False, True))\<rparr>"

lemma listen_env0_sel [simp]: "lM listen_env0 = mining_env0" by (simp add: listen_env0_def)

theorem aux_proof_not_submitted_witness:
  "lastSubmitAuxpowHeight (snd (AuxpowListener_ProcessNotifyData listen_env0 [task0] Init_mining)) = lastSubmitAuxpowHeight Init_mining \<and>
   aux_chain mining_env0 ''b'' 9 [mining_config0] None = Done (Some chain0) \<and>
   SubmitAuxpow mining_env0 ''b'' ''x'' ''p'' = Some (Err ''invalid side node'')"
proof -
  have "GetGenesisBlock xenv0 mining_config0 \<noteq> ''b''"
    by (simp add: GetGenesisBlock_def) (simp add: crypto0_def addr0_def char_byte_eq char_byte_def)
  then have reversed: "\<forall>c \<in> set (MiningNodes (lM listen_env0)). \<forall>c' \<in> set (MiningNodes (lM listen_env0)).
      GetGenesisBlock (lX listen_env0) c \<noteq> GenesisBlock c'" by simp
  have found: "aux_chain (lM listen_env0) ''b'' 9 (MiningNodes (lM listen_env0)) None = Done (Some chain0)"
    by (simp add: GetChain_def chain0_def getCurrentConfig_def nodes0_def)
  have "AuxpowListener_ProcessNotifyData listen_env0 [task0] Init_mining =
      (fst (AuxpowListener_ProcessNotifyData listen_env0 [task0] Init_mining), snd (AuxpowListener_ProcessNotifyData listen_env0 [task0] Init_mining))"
    by simp
  from aux_proof_not_submitted [OF reversed this, of "''b''" 9 chain0 "''x''" "''p''"] found show ?thesis by simp
qed

lemma refused_withdraw_sent_again_witness:
  "\<exists>s. send_invalid listen_env0 [map byte_char [2, 1]] [wtx4] = (Done (), [(s, map byte_char [2, 1])])"
proof -
  let ?s = "map byte_char [2, 1]"
  obtain buf where w: "WriteUint256 wire0 [2, 1] = Some buf" by (simp add: wire0_def put_bytes_def)
  have rev: "ToReversedString listen_env0 [1, 2] = ?s" "Txid wtx4 = Some [1, 2]" by (simp_all add: listen_env0_def wtx4_def)
  have ne: "HashString (xA (lX listen_env0)) [1, 2] \<notin> set [?s]" by (simp add: byte_char_def)
  have hex: "Uint256FromHexString (xA (lX listen_env0)) (ToReversedString listen_env0 [1, 2]) = Some [2, 1]"
    by (simp add: rev addr0_def)
  have sent: "send_invalid listen_env0 [?s] [wtx4] = (Done (), [(buf, ?s)])"
    using ne hex w rev by simp
  have "(buf, ToReversedString listen_env0 [1, 2]) \<in> set [(buf, ?s)]"
    by (rule refused_withdraw_sent_again [OF sent _ rev(2) _ ne hex])
      (simp_all add: rev w)
  with sent show ?thesis by blast
qed

lemma unknown_chain_stops_small_transfers_witness:
  "MonitorSmallCrossTransfer (listen_env0\<lparr>lM := mining_env0\<lparr>mX := xenv0\<lparr>SideChains := [],
     xT := ops0\<lparr>TxDeserialize := (\<lambda>t r. (Inr origin5, r))\<rparr>\<rparr>\<rparr>\<rparr>) id (\<lambda>_. None) = (Done (), [], \<lambda>_. None)"
  by (rule unknown_chain_stops_small_transfers [where raw = "''9''" and raws = "[]" and buf = "[9]" and blank = tx0 and rest = "[]" and
        rest' = "[]" and txn = origin5 and out = "output5 0x4B 10 OTCrossChain DefaultOutput" and outs = "[]" and
        address = "[byte_char 0x4B]"])
    (simp_all add: listen_env0_def ops0_def origin5_def tx5_def output5_def GetChain_def)

lemma small_transfer_sent_once_witness:
  "\<exists>don r' sent (don' :: done_small). SendSmallCrossTransaction listen_env0 chain0 ''9'' [5] ''h'' (\<lambda>_. Some []) = (Done (), don) \<and>
     SendSmallCrossDepositTransactions listen_env0 [(origin5, [5])] ''K'' don = (r', sent, don') \<and> ''h'' \<notin> set sent"
proof -
  have c: "GetChain (lX listen_env0) ''K'' = Some chain0" "CurrentConfig chain0 \<noteq> None" "(\<lambda>_. Some []) (Key chain0) = Some []"
    by (simp_all add: GetChain_def chain0_def)
  have s: "SendSmall listen_env0 (Key chain0) (HexEncode listen_env0 [5]) ''9'' ''h'' = Inr (False, True)"
    by (simp add: listen_env0_def)
  obtain r don where one: "SendSmallCrossTransaction listen_env0 chain0 ''9'' [5] ''h'' (\<lambda>_. Some []) = (r, don)" by fastforce
  obtain r' sent don' where two: "SendSmallCrossDepositTransactions listen_env0 [(origin5, [5])] ''K'' don = (r', sent, don')"
    by (metis prod_cases3)
  from small_transfer_sent_once [OF c s one two] one two show ?thesis by auto
qed

end
