(* ===== verification/Registrations.thy ===== *)
theory Registrations
  imports Monitor
begin

text \<open>
  The manager of the side chains and the registration of new ones
  (\<open>arbitration/sidechain/sidechainmanager.go\<close>): a registration seen on the main chain waits in a store until
  somebody gives the arbiter the access data of the chain's node; then the chain gets a cache, a place in the manager's map,
  a listener, a monitor and an entry of the configuration file.
\<close>

section \<open>State\<close>

text \<open>\<open>config.RpcConfig\<close>; \<open>base.RegisterSidechainRpcInfo\<close> has the genesis hash besides.\<close>

record rpc_config =
  IpAddress :: string
  RpcHttpJsonPort :: int
  RpcUser :: string
  RpcPass :: string

record register_info = rpc_config +
  GenesisBlockHash :: string

text \<open>The configuration of a chain with the access data of its node beside it. \<open>StartedMonitors\<close> are the goroutines
  of the monitor, by the address of the chain and the height from which on they work.\<close>

record manager_state =
  MgrChains :: "(string \<times> side_chain) list"
  MgrNodeList :: "(side_config \<times> rpc_config) list"
  MgrDoneSmall :: "string \<Rightarrow> string list option"
  MgrListeners :: listeners
  StartedMonitors :: "(string \<times> u32) list"
  ConfigFile :: "(side_config \<times> rpc_config) list"
  MgrDb :: db_cache

text \<open>\<open>SideFile\<close> is what the database file of a name holds, \<open>ParseRate\<close> the float that the text of an amount denotes.\<close>

record manager_env =
  gX :: cross_env
  ParseRate :: "fixed64 \<Rightarrow> float64 option"
  ReversedString :: "uint256 \<Rightarrow> string"
  SideFile :: "string \<Rightarrow> side_store"
  ConfigWritable :: bool
  CrossChainRedeemScript :: "uint256 \<Rightarrow> bytes"
  ToProgramHash :: "byte \<Rightarrow> bytes \<Rightarrow> uint168"

section \<open>Operations\<close>

definition registered_config :: "manager_env \<Rightarrow> registered_side_chain_transaction \<Rightarrow> go_error + side_config" where
  "registered_config G t =
     (let r = RtRegisteredSideChain t in
      case ParseRate G (ExchangeRate r) of
        None \<Rightarrow> Inl (Err ''[OnReceivedRegisteredSideChain] exchangeRate convert error:'')
      | Some rate \<Rightarrow>
          (case Uint256FromHexString (xA (gX G)) (ReversedString G (GenesisHash r)) of
             None \<Rightarrow> Inl (Err ''[OnReceivedRegisteredSideChain] reverse genesis block hash error:'')
           | Some h \<Rightarrow>
               Inr \<lparr>CfgName = SideChainName r, CfgExchangeRate = rate, GenesisBlockAddress = RtGenesisBlockAddress t,
                    GenesisBlock = HashString (xA (gX G)) h, PowChain = False,
                    side_config.EffectiveHeight = registered_side_chain.EffectiveHeight r,
                    SyncStartHeight = 0, SupportQuickRecharge = True, SupportInvalidDeposit = True,
                    SupportInvalidWithdraw = True, SupportNFT = False\<rparr>))"

text \<open>One registration that fits; what was done before an error stays.\<close>

definition activate ::
    "manager_env \<Rightarrow> (nat \<Rightarrow> db_io) \<Rightarrow> nat \<Rightarrow> register_info \<Rightarrow> registered_side_chain_transaction \<Rightarrow> manager_state \<Rightarrow>
     go_error option \<times> manager_state" where
  "activate G ios k info t st =
     (case registered_config G t of
        Inl e \<Rightarrow> (Some e, st)
      | Inr c \<Rightarrow>
     (case CreateSideChainDBByConfig (ios k) (CfgName c) (GenesisBlockAddress c) (SideFile G (CfgName c)) of
        Inl e \<Rightarrow> (Some (Err ''[OnReceivedRegisteredSideChain] CreateSideChainDBByConfig err:%s''), st)
      | Inr store \<Rightarrow>
          (let key = RtGenesisBlockAddress t;
               side = \<lparr>Key = key, CurrentConfig = Some c\<rparr>;
               db = MgrDb st;
               st1 = st\<lparr>MgrDb := db\<lparr>SideChainStore := SideChainStore db @ [store]\<rparr>,
                        MgrChains := AddChain key side (MgrChains st),
                        MgrDoneSmall := (MgrDoneSmall st)(key := Some []),
                        MgrListeners := AddListener side (MgrListeners st),
                        StartedMonitors := StartedMonitors st @ [(key, registered_side_chain.EffectiveHeight (RtRegisteredSideChain t))]\<rparr>
           in case RemoveRegisteredSideChainTx (ios (k + 1)) (RtTransactionHash t) key (RegisteredSideChainStore db) of
                (Some e, reg) \<Rightarrow>
                  (Some (Err ''[OnReceivedRegisteredSideChain] RemoveRegisteredSideChainTx %s''),
                   st1\<lparr>MgrDb := (MgrDb st1)\<lparr>RegisteredSideChainStore := reg\<rparr>\<rparr>)
              | (None, reg) \<Rightarrow>
                  (case AddSucceedRegisterTx (ios (k + 2)) (RtTransactionHash t) key
                          (encode_registration (xW (gX G)) (RtRegisteredSideChain t)) (FinishedTxsDbCache db) of
                     (e, fin) \<Rightarrow>
                       (let st2 = st1\<lparr>MgrDb := (MgrDb st1)\<lparr>RegisteredSideChainStore := reg, FinishedTxsDbCache := fin\<rparr>\<rparr>
                        in if e \<noteq> None then (Some (Err ''[OnReceivedRegisteredSideChain] AddSucceedRegisterTxs %s''), st2)
                           else (let nodes = MgrNodeList st @ [(c, rpc_config.truncate info)]
                                 in (None, st2\<lparr>MgrNodeList := nodes,
                                               ConfigFile := (if ConfigWritable G then nodes else ConfigFile st)\<rparr>)))))))"

text \<open>The list is read once, before the loop.\<close>

fun activate_all ::
    "manager_env \<Rightarrow> (nat \<Rightarrow> db_io) \<Rightarrow> nat \<Rightarrow> register_info \<Rightarrow> registered_side_chain_transaction list \<Rightarrow> manager_state \<Rightarrow>
     go_error option \<times> manager_state" where
  "activate_all G ios k info [] st = (None, st)"
| "activate_all G ios k info (t # ts) st =
     (if HashString (xA (gX G)) (GenesisHash (RtRegisteredSideChain t)) \<noteq> GenesisBlockHash info
      then activate_all G ios k info ts st
      else (case activate G ios k info t st of
              (Some e, st') \<Rightarrow> (Some e, st')
            | (None, st') \<Rightarrow> activate_all G ios (k + 3) info ts st'))"

definition OnReceivedRegisteredSideChain ::
    "manager_env \<Rightarrow> (nat \<Rightarrow> db_io) \<Rightarrow> register_info \<Rightarrow> manager_state \<Rightarrow> go_error option \<times> manager_state" where
  "OnReceivedRegisteredSideChain G ios info st =
     (case GetAllRegisteredSideChainTxs (xW (gX G)) (ios 0) (RegisteredSideChainStore (MgrDb st)) of
        Inl e \<Rightarrow> (Some (Err ''[OnReceivedRegisteredSideChain] %s''), st)
      | Inr txs \<Rightarrow> activate_all G ios 1 info txs st)"

text \<open>The address of a chain from the hash of its genesis block (\<open>GetGenesisAddress\<close> of \<open>arbitration/base/txutils.go\<close>), and
  the last loop of \<open>Initialize\<close> in \<open>config/config.go\<close>: at the start every configured chain gets its address anew; an
  error ends the loop.\<close>

definition GetGenesisAddress :: "manager_env \<Rightarrow> uint256 \<Rightarrow> string option" where
  "GetGenesisAddress G genesisHash =
     ToAddress (xA (gX G)) (ToProgramHash G (PrefixCrossChain (xA (gX G))) (CrossChainRedeemScript G genesisHash))"

definition config_address :: "manager_env \<Rightarrow> string \<Rightarrow> string option" where
  "config_address G genesisBlock =
     (case HexStringToBytes (xC (gX G)) genesisBlock of
        None \<Rightarrow> None
      | Some genesisBytes \<Rightarrow>
          (case Uint256FromHexString (xA (gX G)) (BytesToHexString (xC (gX G)) (BytesReverse (xA (gX G)) genesisBytes)) of
             None \<Rightarrow> None
           | Some genesisBlockHash \<Rightarrow> GetGenesisAddress G genesisBlockHash))"

fun Initialize_addresses :: "manager_env \<Rightarrow> (side_config \<times> rpc_config) list \<Rightarrow> (side_config \<times> rpc_config) list" where
  "Initialize_addresses G [] = []"
| "Initialize_addresses G ((c, rpc) # nodes) =
     (case config_address G (GenesisBlock c) of
        None \<Rightarrow> (c, rpc) # nodes
      | Some address \<Rightarrow> (c\<lparr>GenesisBlockAddress := address\<rparr>, rpc) # Initialize_addresses G nodes)"

text \<open>\<open>Init\<close> adds the configured chains to an empty map.\<close>

definition Init_manager :: "manager_state \<Rightarrow> manager_state" where
  "Init_manager st =
     st\<lparr>MgrChains := Init_chains (map fst (MgrNodeList st)),
        MgrDoneSmall := (\<lambda>key. if key \<in> set (map (GenesisBlockAddress \<circ> fst) (MgrNodeList st)) then Some [] else None)\<rparr>"

text \<open>\<open>LoadRegisterSideChain\<close>, which nothing calls: the finished registrations with default values for the rate and
  the flags. The map \<open>DoneSmallCrs\<close> is not made.\<close>

definition loaded_config :: "manager_env \<Rightarrow> string \<Rightarrow> registered_side_chain \<Rightarrow> side_config" where
  "loaded_config G address r =
     \<lparr>CfgName = SideChainName r, CfgExchangeRate = (1, 0), GenesisBlockAddress = address,
      GenesisBlock = HashString (xA (gX G)) (GenesisHash r), PowChain = False, side_config.EffectiveHeight = 0,
      SyncStartHeight = 0, SupportQuickRecharge = False, SupportInvalidDeposit = False,
      SupportInvalidWithdraw = False, SupportNFT = False\<rparr>"

definition load_one :: "manager_env \<Rightarrow> string \<Rightarrow> registered_side_chain \<Rightarrow> manager_state \<Rightarrow> manager_state" where
  "load_one G address r st =
     (let c = loaded_config G address r
      in st\<lparr>MgrChains := AddChain address \<lparr>Key = address, CurrentConfig = Some c\<rparr> (MgrChains st),
            MgrDoneSmall := (MgrDoneSmall st)(address := None),
            MgrNodeList := MgrNodeList st @ [(c, \<lparr>IpAddress = IpAddr r, RpcHttpJsonPort = uint (HttpJsonPort r),
              RpcUser = User r, RpcPass = Pass r\<rparr>)]\<rparr>)"

definition LoadRegisterSideChain :: "manager_env \<Rightarrow> db_io \<Rightarrow> manager_state \<Rightarrow> manager_state" where
  "LoadRegisterSideChain G io st =
     (case GetRegisterTxs (xW (gX G)) io True (FinishedTxsDbCache (MgrDb st)) of
        Inl e \<Rightarrow> st
      | Inr (_, addresses, txData) \<Rightarrow> fold (\<lambda>(a, r). load_one G a r) (zip addresses txData) st)"

end
