(* ===== verification/Props_Registrations.thy ===== *)
theory Props_Registrations
  imports Registrations Props_Monitor
begin

text \<open>
  Properties of the manager of the side chains: the shape of its map, and what a registration does.
\<close>

section \<open>The map of the chains\<close>

text \<open>Every chain stands under its own key, and its configuration has that address.\<close>

definition chain_ok :: "string \<Rightarrow> side_chain \<Rightarrow> bool" where
  "chain_ok key sc \<longleftrightarrow> Key sc = key \<and> (\<exists>c. CurrentConfig sc = Some c \<and> GenesisBlockAddress c = key)"

definition chains_ok :: "(string \<times> side_chain) list \<Rightarrow> bool" where
  "chains_ok m \<longleftrightarrow> distinct (map fst m) \<and> (\<forall>(key, sc) \<in> set m. chain_ok key sc)"

lemma chains_ok_AddChain:
  assumes "chains_ok m" "chain_ok key sc"
  shows "chains_ok (AddChain key sc m)"
  unfolding chains_ok_def AddChain_def
proof (intro conjI ballI)
  show "distinct (map fst (AList.update key sc m))" using assms(1) by (simp add: chains_ok_def distinct_update)
  fix x assume x: "x \<in> set (AList.update key sc m)"
  obtain k s where p: "x = (k, s)" by (cases x)
  then have "(k, s) \<in> set m \<or> (k = key \<and> s = sc)"
    using x assms(1) by (induction m) (auto split: if_splits simp: chains_ok_def)
  with assms show "case x of (k, s) \<Rightarrow> chain_ok k s" unfolding p chains_ok_def by auto
qed

lemma chains_ok_Init: "chains_ok (Init_chains cs)"
proof -
  have "chains_ok m \<Longrightarrow> chains_ok (foldl (\<lambda>m c. AddChain (GenesisBlockAddress c)
      \<lparr>Key = GenesisBlockAddress c, CurrentConfig = Some c\<rparr> m) m cs)" for m
    by (induction cs arbitrary: m) (simp_all add: chains_ok_AddChain chain_ok_def)
  moreover have "chains_ok []" by (simp add: chains_ok_def)
  ultimately show ?thesis unfolding Init_chains_def by blast
qed

inductive manager_step :: "manager_state \<Rightarrow> manager_state \<Rightarrow> bool" where
  m_init: "manager_step st (Init_manager st)"
| m_received: "manager_step st (snd (OnReceivedRegisteredSideChain G ios info st))"
| m_load: "manager_step st (LoadRegisterSideChain G io st)"

lemma registered_address: "registered_config G t = Inr c \<Longrightarrow> GenesisBlockAddress c = RtGenesisBlockAddress t"
  by (auto simp: registered_config_def Let_def split: option.splits)

lemma activate_chains:
  assumes "chains_ok (MgrChains st)"
  shows "chains_ok (MgrChains (snd (activate G ios k info t st)))"
proof (cases "registered_config G t")
  case (Inr c)
  have "chain_ok (RtGenesisBlockAddress t) \<lparr>Key = RtGenesisBlockAddress t, CurrentConfig = Some c\<rparr>"
    using registered_address [OF Inr] by (simp add: chain_ok_def)
  from chains_ok_AddChain [OF assms this] assms show ?thesis
    by (auto simp: activate_def Inr Let_def split: sum.split prod.split option.split)
qed (use assms in \<open>simp add: activate_def\<close>)

lemma activate_all_chains: "chains_ok (MgrChains st) \<Longrightarrow> chains_ok (MgrChains (snd (activate_all G ios k info ts st)))"
proof (induction ts arbitrary: k st)
  case (Cons t ts)
  have "chains_ok (MgrChains (snd (activate G ios k info t st)))" using Cons.prems by (rule activate_chains)
  with Cons.IH Cons.prems show ?case by (cases "activate G ios k info t st") (simp split: option.split)
qed simp

lemma load_chains: "chains_ok (MgrChains st) \<Longrightarrow> chains_ok (MgrChains (load_one G a r st))"
  by (simp add: load_one_def loaded_config_def Let_def chains_ok_AddChain chain_ok_def)

lemma manager_step_chains: "manager_step st st' \<Longrightarrow> chains_ok (MgrChains st) \<Longrightarrow> chains_ok (MgrChains st')"
proof (induction rule: manager_step.induct)
  case (m_init st)
  show ?case by (simp add: Init_manager_def chains_ok_Init)
next
  case (m_received st G ios info)
  then show ?case by (auto simp: OnReceivedRegisteredSideChain_def activate_all_chains split: sum.split)
next
  case (m_load st G io)
  have "chains_ok (MgrChains s) \<Longrightarrow> chains_ok (MgrChains (fold (\<lambda>(a, r). load_one G a r) xs s))" for s xs
    by (induction xs arbitrary: s) (auto simp: load_chains)
  with m_load show ?case by (auto simp: LoadRegisterSideChain_def split: sum.split)
qed

text \<open>C33: In every state of the manager a chain is found under its own key only, and it has a configuration with
  that address, whichever of the start, a registration or a reload has put it there.\<close>

theorem chains_under_own_key:
  assumes "manager_step\<^sup>*\<^sup>* (Init_manager st0) st" "map_of (MgrChains st) key = Some sc"
  shows "Key sc = key \<and> (\<exists>c. CurrentConfig sc = Some c \<and> GenesisBlockAddress c = key) \<and> distinct (map fst (MgrChains st))"
proof -
  have "chains_ok (MgrChains st)"
    using assms(1)
    by (induction rule: rtranclp_induct) (simp_all add: Init_manager_def chains_ok_Init manager_step_chains)
  with map_of_SomeD [OF assms(2)] show ?thesis by (auto simp: chains_ok_def chain_ok_def)
qed

section \<open>Registration\<close>

lemma removed_registration:
  assumes "good_io io" "RegisteredSideChains reg = Some rows"
  shows "RemoveRegisteredSideChainTx io h g reg =
    (None, reg\<lparr>RegisteredSideChains := Some (filter (\<lambda>r. reg_key r \<noteq> (h, g)) rows)\<rparr>)"
  using assms(2) good_ioD [OF assms(1)] by (simp add: RemoveRegisteredSideChainTx_def delete_stmt_def)

lemma added_registration:
  assumes "good_io io" "(h, g) \<notin> register_key ` set (RegisterTransactions fin)"
  shows "\<exists>fin'. AddSucceedRegisterTx io h g d fin = (None, fin') \<and> (h, g) \<in> register_key ` set (RegisterTransactions fin')"
  using assms good_ioD [OF assms(1)]
  by (simp add: AddSucceedRegisterTx_def with_tx_good insert_row_def register_key_def)

lemma registration_of_good:
  assumes "good_io (ios (k + 1))" "good_io (ios (k + 2))" "registered_config G t = Inr c"
    and "CreateSideChainDBByConfig (ios k) (CfgName c) (GenesisBlockAddress c) (SideFile G (CfgName c)) = Inr store"
    and "RegisteredSideChains (RegisteredSideChainStore (MgrDb st)) = Some rows"
    and "(RtTransactionHash t, RtGenesisBlockAddress t) \<notin> register_key ` set (RegisterTransactions (FinishedTxsDbCache (MgrDb st)))"
  shows "\<exists>st'. activate G ios k info t st = (None, st') \<and>
    map_of (MgrChains st') (RtGenesisBlockAddress t) = Some \<lparr>Key = RtGenesisBlockAddress t, CurrentConfig = Some c\<rparr> \<and>
    ParseRate G (ExchangeRate (RtRegisteredSideChain t)) = Some (CfgExchangeRate c) \<and>
    SideChainStore (MgrDb st') = SideChainStore (MgrDb st) @ [store] \<and>
    (c, rpc_config.truncate info) \<in> set (MgrNodeList st') \<and>
    RegisteredSideChains (RegisteredSideChainStore (MgrDb st')) =
      Some (filter (\<lambda>r. reg_key r \<noteq> (RtTransactionHash t, RtGenesisBlockAddress t)) rows) \<and>
    (RtTransactionHash t, RtGenesisBlockAddress t) \<in> register_key ` set (RegisterTransactions (FinishedTxsDbCache (MgrDb st')))"
proof -
  obtain fin where fin: "AddSucceedRegisterTx (ios (k + 2)) (RtTransactionHash t) (RtGenesisBlockAddress t)
      (encode_registration (xW (gX G)) (RtRegisteredSideChain t)) (FinishedTxsDbCache (MgrDb st)) = (None, fin)"
    "(RtTransactionHash t, RtGenesisBlockAddress t) \<in> register_key ` set (RegisterTransactions fin)"
    using added_registration [OF assms(2,6)] by blast
  have rate: "ParseRate G (ExchangeRate (RtRegisteredSideChain t)) = Some (CfgExchangeRate c)"
    using assms(3) by (auto simp: registered_config_def Let_def split: option.splits)
  from assms(1) have "good_io (ios (Suc k))" by simp
  then show ?thesis
    unfolding activate_def assms(3) sum.case assms(4)
    using fin by (simp add: Let_def removed_registration assms(5) AddChain_def update_conv' rate)
qed

lemma activated_node:
  assumes "activate G ios k info t st = (None, st')"
  shows "\<exists>c. registered_config G t = Inr c \<and> MgrNodeList st' = MgrNodeList st @ [(c, rpc_config.truncate info)] \<and>
    (ConfigWritable G \<longrightarrow> ConfigFile st' = MgrNodeList st') \<and>
    MgrChains st' = AddChain (RtGenesisBlockAddress t) \<lparr>Key = RtGenesisBlockAddress t, CurrentConfig = Some c\<rparr> (MgrChains st)"
  using assms by (auto simp: activate_def Let_def split: sum.splits prod.splits option.splits if_splits)

text \<open>The registrations that the access data is for.\<close>

abbreviation info_matches :: "manager_env \<Rightarrow> register_info \<Rightarrow> registered_side_chain_transaction \<Rightarrow> bool" where
  "info_matches G info t \<equiv> HashString (xA (gX G)) (GenesisHash (RtRegisteredSideChain t)) = GenesisBlockHash info"

lemma activate_all_none: "filter (info_matches G info) ts = [] \<Longrightarrow> activate_all G ios k info ts st = (None, st)"
  by (induction ts) (auto split: if_splits)

lemma activate_all_one:
  "filter (info_matches G info) ts = [t] \<Longrightarrow> activate_all G ios k info ts st = activate G ios k info t st"
proof (induction ts)
  case (Cons u ts)
  then show ?case using activate_all_none [of G info ts ios "k + 3"]
    by (auto split: if_splits prod.split option.split)
qed simp

text \<open>C31: When the access data of a node arrives and one of the waiting registrations has the genesis hash it names, the chain of
  that registration becomes known: it is found in the manager's map under its address with the registered rate, has a cache,
  is configured with that access data, and has gone from the waiting registrations to the finished ones; every other chain and
  every other registration stays as it was. This is under the conditions that the driver answers, the configuration can be
  read off the registration, the file of the new cache can be made (it is not there yet), and the registration was not finished
  before. Access data that fits no registration changes nothing.\<close>

theorem registration_activates_chain:
  assumes "\<forall>i. good_io (ios i)" "RegisteredSideChains (RegisteredSideChainStore (MgrDb st)) = Some rows"
    and "matching = filter (info_matches G info) (map (decode_reg_row (xW (gX G))) (arrange (ios 0) rows))"
  shows "(matching = [] \<longrightarrow> OnReceivedRegisteredSideChain G ios info st = (None, st)) \<and>
    (\<forall>t c store. matching = [t] \<and> registered_config G t = Inr c \<and>
       CreateSideChainDBByConfig (ios 1) (CfgName c) (GenesisBlockAddress c) (SideFile G (CfgName c)) = Inr store \<and>
       (RtTransactionHash t, RtGenesisBlockAddress t) \<notin> register_key ` set (RegisterTransactions (FinishedTxsDbCache (MgrDb st))) \<longrightarrow>
     (\<exists>st'. OnReceivedRegisteredSideChain G ios info st = (None, st') \<and>
       map_of (MgrChains st') (RtGenesisBlockAddress t) = Some \<lparr>Key = RtGenesisBlockAddress t, CurrentConfig = Some c\<rparr> \<and>
       (\<forall>key. key \<noteq> RtGenesisBlockAddress t \<longrightarrow> map_of (MgrChains st') key = map_of (MgrChains st) key) \<and>
       ParseRate G (ExchangeRate (RtRegisteredSideChain t)) = Some (CfgExchangeRate c) \<and>
       SideChainStore (MgrDb st') = SideChainStore (MgrDb st) @ [store] \<and>
       MgrNodeList st' = MgrNodeList st @ [(c, rpc_config.truncate info)] \<and>
       RegisteredSideChains (RegisteredSideChainStore (MgrDb st')) =
         Some (filter (\<lambda>r. reg_key r \<noteq> (RtTransactionHash t, RtGenesisBlockAddress t)) rows) \<and>
       (RtTransactionHash t, RtGenesisBlockAddress t) \<in> register_key ` set (RegisterTransactions (FinishedTxsDbCache (MgrDb st')))))"
proof -
  let ?txs = "map (decode_reg_row (xW (gX G))) (arrange (ios 0) rows)"
  have all: "OnReceivedRegisteredSideChain G ios info st = activate_all G ios 1 info ?txs st"
    using assms(2) good_ioD [of "ios 0"] assms(1)
    by (simp add: OnReceivedRegisteredSideChain_def GetAllRegisteredSideChainTxs_def select_def)
  show ?thesis
  proof (intro conjI impI allI)
    assume "matching = []"
    then show "OnReceivedRegisteredSideChain G ios info st = (None, st)"
      using activate_all_none [of G info ?txs ios 1 st] by (simp add: all assms(3))
  next
    fix t c store
    assume t: "matching = [t] \<and> registered_config G t = Inr c \<and>
       CreateSideChainDBByConfig (ios 1) (CfgName c) (GenesisBlockAddress c) (SideFile G (CfgName c)) = Inr store \<and>
       (RtTransactionHash t, RtGenesisBlockAddress t) \<notin> register_key ` set (RegisterTransactions (FinishedTxsDbCache (MgrDb st)))"
    have one: "OnReceivedRegisteredSideChain G ios info st = activate G ios 1 info t st"
      using activate_all_one [of G info ?txs t ios 1 st] t by (simp add: all assms(3))
    have io: "good_io (ios (1 + 1))" "good_io (ios (1 + 2))" using assms(1) by simp_all
    from t registration_of_good [OF io _ _ assms(2), of G t c store info] obtain st' where
      a: "activate G ios 1 info t st = (None, st')"
      "map_of (MgrChains st') (RtGenesisBlockAddress t) = Some \<lparr>Key = RtGenesisBlockAddress t, CurrentConfig = Some c\<rparr>"
      "ParseRate G (ExchangeRate (RtRegisteredSideChain t)) = Some (CfgExchangeRate c)"
      "SideChainStore (MgrDb st') = SideChainStore (MgrDb st) @ [store]"
      "RegisteredSideChains (RegisteredSideChainStore (MgrDb st')) =
        Some (filter (\<lambda>r. reg_key r \<noteq> (RtTransactionHash t, RtGenesisBlockAddress t)) rows)"
      "(RtTransactionHash t, RtGenesisBlockAddress t) \<in> register_key ` set (RegisterTransactions (FinishedTxsDbCache (MgrDb st')))"
      by (elim conjE) blast
    have n: "MgrNodeList st' = MgrNodeList st @ [(c, rpc_config.truncate info)]"
      "MgrChains st' = AddChain (RtGenesisBlockAddress t) \<lparr>Key = RtGenesisBlockAddress t, CurrentConfig = Some c\<rparr> (MgrChains st)"
      using activated_node [OF a(1)] t by auto
    have "\<forall>key. key \<noteq> RtGenesisBlockAddress t \<longrightarrow> map_of (MgrChains st') key = map_of (MgrChains st) key"
      by (simp add: n(2) AddChain_def update_conv')
    with a(2-) n(1) show "\<exists>st'. OnReceivedRegisteredSideChain G ios info st = (None, st') \<and>
       map_of (MgrChains st') (RtGenesisBlockAddress t) = Some \<lparr>Key = RtGenesisBlockAddress t, CurrentConfig = Some c\<rparr> \<and>
       (\<forall>key. key \<noteq> RtGenesisBlockAddress t \<longrightarrow> map_of (MgrChains st') key = map_of (MgrChains st) key) \<and>
       ParseRate G (ExchangeRate (RtRegisteredSideChain t)) = Some (CfgExchangeRate c) \<and>
       SideChainStore (MgrDb st') = SideChainStore (MgrDb st) @ [store] \<and>
       MgrNodeList st' = MgrNodeList st @ [(c, rpc_config.truncate info)] \<and>
       RegisteredSideChains (RegisteredSideChainStore (MgrDb st')) =
         Some (filter (\<lambda>r. reg_key r \<noteq> (RtTransactionHash t, RtGenesisBlockAddress t)) rows) \<and>
       (RtTransactionHash t, RtGenesisBlockAddress t) \<in> register_key ` set (RegisterTransactions (FinishedTxsDbCache (MgrDb st')))"
      unfolding one a(1) by blast
  qed
qed

text \<open>When an activation has been broken off after the cache of the chain was made, the chain is never
  activated: a further attempt finds the file of the cache with its height and ends with an error before it changes anything.\<close>

lemma broken_registration_stays:
  assumes "CreateSideChainDBByConfig io (CfgName c) (GenesisBlockAddress c) file = Inr store"
    and "SideFile G (CfgName c) = store" "registered_config G t = Inr c"
  shows "activate G ios k info t st =
    (Some (Err ''[OnReceivedRegisteredSideChain] CreateSideChainDBByConfig err:%s''), st)"
proof -
  have "SideHeightInfo store = Some 0"
    using assms(1) by (auto simp: CreateSideChainDBByConfig_def split: if_splits option.splits)
  then show ?thesis using assms(2,3) by (auto simp: activate_def CreateSideChainDBByConfig_def)
qed

section \<open>The next start\<close>

lemma Init_chains_append:
  "Init_chains (cs @ [c]) = AddChain (GenesisBlockAddress c) \<lparr>Key = GenesisBlockAddress c, CurrentConfig = Some c\<rparr> (Init_chains cs)"
  by (simp add: Init_chains_def)

lemma addresses_append:
  "\<forall>(c, rpc) \<in> set nodes. config_address G (GenesisBlock c) \<noteq> None \<Longrightarrow>
   Initialize_addresses G (nodes @ added) = Initialize_addresses G nodes @ Initialize_addresses G added"
  by (induction nodes) (auto split: option.splits)

text \<open>Documented behaviour of the hexadecimal text of hashes: \<open>String\<close> writes the bytes in order, \<open>ToReversedString\<close> in reverse.\<close>

definition hex_laws :: "manager_env \<Rightarrow> bool" where
  "hex_laws G \<longleftrightarrow>
     (\<forall>b. HexStringToBytes (xC (gX G)) (BytesToHexString (xC (gX G)) b) = Some b) \<and>
     (\<forall>b. length b = 32 \<longrightarrow> Uint256FromHexString (xA (gX G)) (BytesToHexString (xC (gX G)) b) = Some b) \<and>
     (\<forall>h. HashString (xA (gX G)) h = BytesToHexString (xC (gX G)) h) \<and>
     (\<forall>h. ReversedString G h = BytesToHexString (xC (gX G)) (BytesReverse (xA (gX G)) h)) \<and>
     (\<forall>b. BytesReverse (xA (gX G)) b = rev b)"

lemma registered_address_again:
  assumes "hex_laws G" "registered_config G t = Inr c" "length (GenesisHash (RtRegisteredSideChain t)) = 32"
  shows "config_address G (GenesisBlock c) = GetGenesisAddress G (GenesisHash (RtRegisteredSideChain t))"
  using assms by (auto simp: registered_config_def Let_def config_address_def hex_laws_def split: option.splits)

text \<open>C32: A registered chain survives the next start: from the configuration file that the registration has written, the
  arbiter computes the same address and finds the chain under it with the configuration it had.\<close>

theorem restart_keeps_chain:
  assumes "activate G ios k info t st = (None, st')" "ConfigWritable G" "hex_laws G"
    and "length (GenesisHash (RtRegisteredSideChain t)) = 32"
    and "GetGenesisAddress G (GenesisHash (RtRegisteredSideChain t)) = Some (RtGenesisBlockAddress t)"
    and "\<forall>(c, rpc) \<in> set (MgrNodeList st). config_address G (GenesisBlock c) \<noteq> None"
  shows "map_of (MgrChains (Init_manager (st''\<lparr>MgrNodeList := Initialize_addresses G (ConfigFile st')\<rparr>))) (RtGenesisBlockAddress t) =
      map_of (MgrChains st') (RtGenesisBlockAddress t) \<and>
    map_of (MgrChains st') (RtGenesisBlockAddress t) \<noteq> None"
proof -
  obtain c where c: "registered_config G t = Inr c" "ConfigFile st' = MgrNodeList st @ [(c, rpc_config.truncate info)]"
    "MgrChains st' = AddChain (RtGenesisBlockAddress t) \<lparr>Key = RtGenesisBlockAddress t, CurrentConfig = Some c\<rparr> (MgrChains st)"
    using activated_node [OF assms(1)] assms(2) by auto
  have address: "GenesisBlockAddress c = RtGenesisBlockAddress t" using registered_address [OF c(1)] .
  have "config_address G (GenesisBlock c) = Some (RtGenesisBlockAddress t)"
    using registered_address_again [OF assms(3) c(1) assms(4)] assms(5) by simp
  moreover have "c\<lparr>GenesisBlockAddress := RtGenesisBlockAddress t\<rparr> = c" using address by (cases c) simp
  ultimately have nodes: "Initialize_addresses G (ConfigFile st') =
      Initialize_addresses G (MgrNodeList st) @ [(c, rpc_config.truncate info)]"
    unfolding c(2) using addresses_append [OF assms(6)] by simp
  show ?thesis
    unfolding c(3) by (simp add: Init_manager_def nodes Init_chains_append address) (simp add: AddChain_def update_conv')
qed

section \<open>A concrete case\<close>

text \<open>The registration \<open>rtx0\<close> of a chain at address g, whose rate reads as 1.\<close>

definition manager_env0 :: manager_env where
  "manager_env0 = \<lparr>gX = xenv0, ParseRate = (\<lambda>_. Some (1, 0)), ReversedString = (\<lambda>h. map byte_char (rev h)),
     SideFile = (\<lambda>_. side0\<lparr>SideHeightInfo := None\<rparr>), ConfigWritable = True,
     CrossChainRedeemScript = id, ToProgramHash = (#)\<rparr>"

definition manager0 :: manager_state where
  "manager0 = \<lparr>MgrChains = [], MgrNodeList = [], MgrDoneSmall = (\<lambda>_. None), MgrListeners = Some [], StartedMonitors = [],
     ConfigFile = [], MgrDb = db0\<rparr>"

definition register_info0 :: register_info where
  "register_info0 = \<lparr>IpAddress = ''1'', RpcHttpJsonPort = 2, RpcUser = ''u'', RpcPass = ''p'', GenesisBlockHash = ''g''\<rparr>"

lemma registered0: "\<exists>c. registered_config manager_env0 rtx0 = Inr c"
  by (simp add: registered_config_def manager_env0_def Let_def addr0_def)

lemma created0: "\<exists>store. CreateSideChainDBByConfig plain_io n a (side0\<lparr>SideHeightInfo := None\<rparr>) = Inr store"
  by (simp add: CreateSideChainDBByConfig_def plain_io_def)

theorem chains_under_own_key_witness:
  "\<exists>c. CurrentConfig chain0 = Some c \<and> GenesisBlockAddress c = ''K''"
proof -
  let ?st = "manager0\<lparr>MgrNodeList := [(the (CurrentConfig chain0), rpc_config.truncate register_info0)]\<rparr>"
  have "map_of (MgrChains (Init_manager ?st)) ''K'' = Some chain0"
    by (simp add: Init_manager_def Init_chains_def AddChain_def chain0_def)
  from chains_under_own_key [OF rtranclp.rtrancl_refl this] show ?thesis by blast
qed

definition other_rtx :: registered_side_chain_transaction where
  "other_rtx = rtx0\<lparr>RtTransactionHash := ''o'', RtRegisteredSideChain := (RtRegisteredSideChain rtx0)\<lparr>GenesisHash := replicate 32 5\<rparr>\<rparr>"

lemma reg_rows_decoded: "t = rtx0 \<or> t = other_rtx \<Longrightarrow> decode_reg_row wire0 (reg_row_of wire0 t) = t"
proof -
  assume t: "t = rtx0 \<or> t = other_rtx"
  have "MaxVarStringLength wire0 = 1000" by (simp add: wire0_def)
  with t have "registered_side_chain_fits wire0 (RtRegisteredSideChain t)"
    by (auto simp: other_rtx_def rtx0_def registered_side_chain_fits_def fresh_registered_side_chain_def zero_uint256_def)
  then show ?thesis using decode_encode_registration [OF wire0_ok] by (simp add: decode_reg_row_def reg_row_of_def)
qed

theorem registration_activates_chain_witness:
  "\<exists>(st :: manager_state) c st'. RegisteredSideChains (RegisteredSideChainStore (MgrDb st)) = Some [reg_row_of wire0 other_rtx, reg_row_of wire0 rtx0] \<and>
     OnReceivedRegisteredSideChain manager_env0 (\<lambda>_. plain_io)
       (register_info0\<lparr>GenesisBlockHash := map byte_char (GenesisHash (RtRegisteredSideChain rtx0))\<rparr>) st = (None, st') \<and>
     map_of (MgrChains st') ''g'' = Some \<lparr>Key = ''g'', CurrentConfig = Some c\<rparr> \<and>
     RegisteredSideChains (RegisteredSideChainStore (MgrDb st')) = Some [reg_row_of wire0 other_rtx]"
proof -
  let ?st = "manager0\<lparr>MgrDb := db0\<lparr>RegisteredSideChainStore := reg0\<lparr>RegisteredSideChains := Some [reg_row_of wire0 other_rtx, reg_row_of wire0 rtx0]\<rparr>\<rparr>\<rparr>"
  let ?info = "register_info0\<lparr>GenesisBlockHash := map byte_char (GenesisHash (RtRegisteredSideChain rtx0))\<rparr>"
  obtain c where c: "registered_config manager_env0 rtx0 = Inr c" using registered0 by blast
  obtain store where store: "CreateSideChainDBByConfig ((\<lambda>_. plain_io) (1 :: nat)) (CfgName c) (GenesisBlockAddress c)
      (SideFile manager_env0 (CfgName c)) = Inr store" using created0 by (auto simp: manager_env0_def)
  have rows: "RegisteredSideChains (RegisteredSideChainStore (MgrDb ?st)) = Some [reg_row_of wire0 other_rtx, reg_row_of wire0 rtx0]" by simp
  have io: "\<forall>i. good_io ((\<lambda>_. plain_io) (i :: nat))" by simp
  have "byte_char 5 \<noteq> byte_char 0" by (simp add: byte_char_def char_of_def bit_iff_odd)
  then have "filter (info_matches manager_env0 ?info) (map (decode_reg_row (xW (gX manager_env0)))
      (arrange ((\<lambda>_. plain_io) (0 :: nat)) [reg_row_of wire0 other_rtx, reg_row_of wire0 rtx0])) = [rtx0]"
    by (simp add: arrange_def plain_io_def manager_env0_def reg_rows_decoded)
      (simp add: other_rtx_def rtx0_def fresh_registered_side_chain_def zero_uint256_def register_info0_def)
  from registration_activates_chain [OF io rows this [symmetric]] c store obtain st' where
    st': "OnReceivedRegisteredSideChain manager_env0 (\<lambda>_. plain_io) ?info ?st = (None, st')"
      "map_of (MgrChains st') (RtGenesisBlockAddress rtx0) = Some \<lparr>Key = RtGenesisBlockAddress rtx0, CurrentConfig = Some c\<rparr>"
      "RegisteredSideChains (RegisteredSideChainStore (MgrDb st')) =
         Some (filter (\<lambda>r. reg_key r \<noteq> (RtTransactionHash rtx0, RtGenesisBlockAddress rtx0)) [reg_row_of wire0 other_rtx, reg_row_of wire0 rtx0])"
    by (auto simp: manager0_def db0_def reg0_def fin0_def)
  then have "RegisteredSideChains (RegisteredSideChainStore (MgrDb st')) = Some [reg_row_of wire0 other_rtx]"
    by (simp add: reg_row_of_def reg_key_def other_rtx_def rtx0_def)
  moreover have "RtGenesisBlockAddress rtx0 = ''g''" by (simp add: rtx0_def)
  ultimately show ?thesis using rows st'(1,2) by (intro exI [of _ ?st] exI [of _ c] exI [of _ st']) simp
qed

lemma broken_registration_stays_witness:
  "\<exists>(c :: side_config) store e. CreateSideChainDBByConfig plain_io (CfgName c) (GenesisBlockAddress c) (side0\<lparr>SideHeightInfo := None\<rparr>) = Inr store \<and>
     activate (manager_env0\<lparr>SideFile := (\<lambda>_. store)\<rparr>) (\<lambda>_. plain_io) 0 register_info0 rtx0 manager0 = (Some e, manager0)"
proof -
  obtain c where c: "registered_config manager_env0 rtx0 = Inr c" using registered0 by blast
  obtain store where store: "CreateSideChainDBByConfig plain_io (CfgName c) (GenesisBlockAddress c) (side0\<lparr>SideHeightInfo := None\<rparr>) = Inr store"
    using created0 by blast
  have "registered_config (manager_env0\<lparr>SideFile := (\<lambda>_. store)\<rparr>) rtx0 = Inr c"
    using c by (simp add: registered_config_def Let_def manager_env0_def addr0_def)
  from broken_registration_stays [OF store _ this, of "\<lambda>_. plain_io" 0 register_info0 manager0] store
  show ?thesis by (intro exI conjI) auto
qed


text \<open>A hexadecimal form that keeps its argument, and a genesis hash whose address is g.\<close>

definition hex_env :: manager_env where
  "hex_env = manager_env0\<lparr>gX := xenv0\<lparr>xC := crypto0\<lparr>HexStringToBytes := (\<lambda>s. Some (map char_byte s)), BytesToHexString := map byte_char\<rparr>,
     xA := addr0\<lparr>ToAddress := (\<lambda>_. Some ''g'')\<rparr>\<rparr>\<rparr>"

definition rtx1 :: registered_side_chain_transaction where
  "rtx1 = rtx0\<lparr>RtRegisteredSideChain := (RtRegisteredSideChain rtx0)\<lparr>GenesisHash := replicate 32 5\<rparr>\<rparr>"

lemma hex_env_laws: "hex_laws hex_env"
  by (simp add: hex_laws_def hex_env_def addr0_def comp_def) (simp add: manager_env0_def rev_map)

theorem restart_keeps_chain_witness:
  "\<exists>st' :: manager_state. map_of (MgrChains (Init_manager (manager0\<lparr>MgrNodeList := Initialize_addresses hex_env (ConfigFile st')\<rparr>))) ''g'' =
     map_of (MgrChains st') ''g'' \<and> map_of (MgrChains st') ''g'' \<noteq> None"
proof -
  obtain c where c: "registered_config hex_env rtx1 = Inr c"
    by (simp add: registered_config_def hex_env_def manager_env0_def Let_def addr0_def)
  obtain store where store: "CreateSideChainDBByConfig ((\<lambda>_. plain_io) (0 :: nat)) (CfgName c) (GenesisBlockAddress c)
      (SideFile hex_env (CfgName c)) = Inr store" using created0 by (auto simp: hex_env_def manager_env0_def)
  have io: "good_io ((\<lambda>_. plain_io) (0 + 1 :: nat))" "good_io ((\<lambda>_. plain_io) (0 + 2 :: nat))" by simp_all
  have db: "RegisteredSideChains (RegisteredSideChainStore (MgrDb manager0)) = Some []"
    "(RtTransactionHash rtx1, RtGenesisBlockAddress rtx1) \<notin> register_key ` set (RegisterTransactions (FinishedTxsDbCache (MgrDb manager0)))"
    by (simp_all add: manager0_def db0_def reg0_def fin0_def)
  obtain st' where st': "activate hex_env (\<lambda>_. plain_io) 0 register_info0 rtx1 manager0 = (None, st')"
    using registration_of_good [OF io c store db, where info = register_info0 and k = 0] by (elim exE conjE)
  have g: "RtGenesisBlockAddress rtx1 = ''g''" "length (GenesisHash (RtRegisteredSideChain rtx1)) = 32"
    "GetGenesisAddress hex_env (GenesisHash (RtRegisteredSideChain rtx1)) = Some (RtGenesisBlockAddress rtx1)"
    "ConfigWritable hex_env" "\<forall>(c, rpc) \<in> set (MgrNodeList manager0). config_address hex_env (GenesisBlock c) \<noteq> None"
    by (simp_all add: rtx1_def rtx0_def GetGenesisAddress_def hex_env_def manager_env0_def manager0_def)
  from restart_keeps_chain [OF st' g(4) hex_env_laws g(2,3,5), of manager0] g(1) show ?thesis by auto
qed

end
