(* ===== verification/Arbiter.thy ===== *)
theory Arbiter
  imports Listeners Cs_Server
begin

text \<open>
  The arbiter itself (\<open>ArbitratorImpl\<close> of \<open>arbitration/arbitrator/arbitrator.go\<close>): what it starts when it comes on duty,
  and the loop that takes settled transactions out of the caches. The work for a chain is started as a goroutine
  of its own; it is a value here, and \<open>run_job\<close> says what it does.
\<close>

record arbiter_state =
  isOnDuty :: bool
  arbiter_db :: db_cache
  arbiter_server :: dns

datatype duty_job =
    SendDeposits side_chain "string list"
  | SendWithdraws side_chain
  | SendNFTDestroys side_chain u32
  | SendReturnDeposits side_chain
  | MineSideChain side_chain

section \<open>Coming on duty\<close>

text \<open>An error, also that of an empty cache, is logged.\<close>

definition ProcessDepositTransactions :: "cross_env \<Rightarrow> db_io \<Rightarrow> db_cache \<Rightarrow> duty_job list" where
  "ProcessDepositTransactions X io db =
     (case SyncMainChainCachedTxs X io db of Inl e \<Rightarrow> [] | Inr groups \<Rightarrow> map (\<lambda>(sc, hs). SendDeposits sc hs) groups)"

definition processWithdrawTransactions :: "cross_env \<Rightarrow> duty_job list" where
  "processWithdrawTransactions X = map SendWithdraws (GetAllChains X)"

definition processNFTDestroyTransactions :: "cross_env \<Rightarrow> u32 \<Rightarrow> duty_job list" where
  "processNFTDestroyTransactions X height = map (\<lambda>sc. SendNFTDestroys sc height) (GetAllChains X)"

definition processReturnDepositTransactions :: "cross_env \<Rightarrow> u32 \<Rightarrow> duty_job list" where
  "processReturnDepositTransactions X start_height =
     (if currentHeight (xGroup X) < start_height then [] else map SendReturnDeposits (GetAllChains X))"

definition ProcessSideChainPowTransaction :: "cross_env \<Rightarrow> duty_job list" where
  "ProcessSideChainPowTransaction X = map MineSideChain (GetAllChains X)"

text \<open>\<open>start_height\<close> is the configured \<open>ReturnCrossChainCoinStartHeight\<close>. \<open>mainChainImpl.Reset\<close> resets the server.\<close>

definition OnDutyArbitratorChanged ::
    "cross_env \<Rightarrow> (nat \<Rightarrow> db_io) \<Rightarrow> u32 \<Rightarrow> bool \<Rightarrow> arbiter_state \<Rightarrow> duty_job list \<times> arbiter_state" where
  "OnDutyArbitratorChanged X ios start_height onDuty ar =
     (if \<not> onDuty then ([], ar\<lparr>isOnDuty := False\<rparr>)
      else (case Main_CurrentHeight (ios 0) QueryHeightCode (MainChainStore (arbiter_db ar)) of
        (height, ms) \<Rightarrow>
          (let db = (arbiter_db ar)\<lparr>MainChainStore := ms\<rparr>
           in (ProcessDepositTransactions X (ios 1) db @ processWithdrawTransactions X @
                 processNFTDestroyTransactions X height @ processReturnDepositTransactions X start_height @
                 ProcessSideChainPowTransaction X,
               ar\<lparr>isOnDuty := True, arbiter_db := db, arbiter_server := Reset (arbiter_server ar)\<rparr>))))"

text \<open>What the goroutine of a job does: the transactions it proposes, the outcome, and the state. The mining fields of a
  chain's configuration are those of its entry in the list.\<close>

fun run_job ::
    "mining_env \<Rightarrow> (nat \<Rightarrow> db_io) \<Rightarrow> duty_job \<Rightarrow> db_cache \<times> mining_state \<Rightarrow> unit outcome \<times> proposal list \<times> db_cache \<times> mining_state" where
  "run_job M ios (SendDeposits sc hashes) (db, ms) =
     (case createAndSendDepositTransactionsInDB (mX M) ios sc hashes db of (r, db') \<Rightarrow> (r, [], db', ms))"
| "run_job M ios (SendWithdraws sc) (db, ms) =
     (case SendCachedWithdrawTxs (mX M) ios sc db of (r, ps, db') \<Rightarrow> (r, ps, db', ms))"
| "run_job M ios (SendNFTDestroys sc height) (db, ms) =
     (case SendCachedNFTDestroyTxs (mX M) ios sc height db of (r, ps, db') \<Rightarrow> (r, ps, db', ms))"
| "run_job M ios (SendReturnDeposits sc) (db, ms) =
     (case SendCachedReturnDepositTxs (mX M) ios sc db of (r, ps, db') \<Rightarrow> (r, ps, db', ms))"
| "run_job M ios (MineSideChain sc) (db, ms) =
     (case (CurrentConfig sc, find (\<lambda>c. GenesisBlockAddress c = Key sc) (MiningNodes M)) of
        (Some _, Some c) \<Rightarrow> (case StartSideChainMining M c ms of (r, _, ms') \<Rightarrow> (r, [], db, ms'))
      | _ \<Rightarrow> (Panic, [], db, ms))"

section \<open>Cleaning the caches\<close>

text \<open>One turn of the loop; an error is logged and the next step goes on, a panic or a block ends it.\<close>

definition CheckAndRemoveCrossChainTransactions ::
    "cross_env \<Rightarrow> (nat \<Rightarrow> nat \<Rightarrow> db_io) \<Rightarrow> ((side_chain \<times> string list) list \<Rightarrow> (side_chain \<times> string list) list) \<Rightarrow>
     db_cache \<Rightarrow> unit outcome \<times> db_cache" where
  "CheckAndRemoveCrossChainTransactions X ios range_order db =
     (case CheckAndRemoveDepositTransactionsFromDB X (ios 0) range_order db of
        (Panic, db1) \<Rightarrow> (Panic, db1) | (Blocked, db1) \<Rightarrow> (Blocked, db1)
      | (_, db1) \<Rightarrow>
          (case CheckAndRemoveWithdrawTransactionsFromDB X (ios 1) db1 of
             (Panic, db2) \<Rightarrow> (Panic, db2) | (Blocked, db2) \<Rightarrow> (Blocked, db2)
           | (_, db2) \<Rightarrow>
               (case CheckAndRemoveReturnDepositTransactionsFromDB X (ios 2) db2 of
                  (Panic, db3) \<Rightarrow> (Panic, db3) | (Blocked, db3) \<Rightarrow> (Blocked, db3)
                | (_, db3) \<Rightarrow> (Done (), db3))))"

end
