(* ===== verification/Props_Arbiter.thy ===== *)
theory Props_Arbiter
  imports Arbiter Props_Listeners Submit Props_Registrations
begin

text \<open>
  Properties of the arbiter as a whole: every operation of it on the stores, in whatever order, keeps the deposits.
\<close>

section \<open>What the operations do to the deposits\<close>

lemma keeps_side: "keeps db (db\<lparr>SideChainStore := ss\<rparr>)" "keeps db (on_name name f db)" "keeps db (on_address address f db)"
  by (simp_all add: keeps_def deposits_wf_def known_deposits_def on_name_def on_address_def)

lemma keeps_finished:
  assumes "finished_step (FinishedTxsDbCache db) fin"
  shows "keeps db (db\<lparr>FinishedTxsDbCache := fin\<rparr>)"
  using finished_step_keeps_deposits [OF assms] finished_step_wf [OF assms]
  by (auto simp: keeps_def deposits_wf_def known_deposits_def)

lemmas keeps_rules = keeps_side keeps_height keeps_finished [OF f_wd_succeed] keeps_finished [OF f_wd_failed]

lemma keeps_fund: "fund X io typed bank amt outs db = (r, db') \<Longrightarrow> keeps db db'"
  using keeps_height [of db io QueryHeightCode]
  by (auto simp: fund_def GetWithdrawUTXOsByAmount_def split: sum.splits prod.splits)

lemma keeps_withdraw_parts: "withdraw_parts X io typed sc txs db = (r, db') \<Longrightarrow> keeps db db'"
  by (auto simp: withdraw_parts_def intro: keeps_fund split: sum.splits option.splits prod.splits)

lemma keeps_builders:
  "CreateSchnorrWithdrawTransaction X io sc txs db = (r, db') \<Longrightarrow> keeps db db'"
  "CreateWithdrawTransactionV1 X io sc txs db = (r, db') \<Longrightarrow> keeps db db'"
  "CreateWithdrawTransactionV0 X io sc txs db = (r, db') \<Longrightarrow> keeps db db'"
  by (auto simp: CreateSchnorrWithdrawTransaction_def CreateWithdrawTransactionV1_def CreateWithdrawTransactionV0_def
      intro: keeps_withdraw_parts split: sum.splits prod.splits)

lemma keeps_failed_deposit: "CreateFailedDepositTransaction X io sc txs db = (r, db') \<Longrightarrow> keeps db db'"
  by (auto simp: CreateFailedDepositTransaction_def intro: keeps_fund split: sum.splits prod.splits)

lemma keeps_grow:
  assumes "\<And>i xs db r db'. create i xs db = (r, db') \<Longrightarrow> keeps db db'"
  shows "grow create fits xs i wTx db = (r, db') \<Longrightarrow> keeps db db'"
proof (induction "length xs - i" arbitrary: i wTx db rule: less_induct)
  case less
  show ?case
  proof (cases "length xs \<le> i")
    case True
    then show ?thesis using less.prems by (simp add: grow.simps)
  next
    case False
    obtain res db1 where c: "create i (take (i + 100) xs) db = (res, db1)" by fastforce
    have "db' = db1 \<or> (\<exists>w. grow create fits xs (i + 100) w db1 = (r, db'))"
      using less.prems False c by (subst (asm) grow.simps) (auto split: sum.splits if_splits)
    then have "keeps db1 db'" using less.hyps [of "i + 100"] False by auto
    with assms [OF c] show ?thesis by (rule keeps_trans)
  qed
qed

lemma keeps_grown:
  assumes "grow create fits xs 0 None (db\<lparr>MainChainStore := ms\<rparr>) = (w, db')"
    and "Main_CurrentHeight io QueryHeightCode (MainChainStore db) = (h, ms)"
    and "\<And>i xs db r db'. create i xs db = (r, db') \<Longrightarrow> keeps db db'"
  shows "keeps db db'"
  using keeps_trans [OF keeps_height [of db io QueryHeightCode] keeps_grow [OF assms(3), of create]] assms(1,2)
  by fastforce

lemma keeps_withdraw_proposal: "CreateAndBroadcastWithdrawProposal X ios sc hs db = (r, ps, db') \<Longrightarrow> keeps db db'"
  by (auto simp: CreateAndBroadcastWithdrawProposal_def Let_def
      split: option.splits sum.splits if_splits prod.splits outcome.splits
      elim!: keeps_grown intro: keeps_builders)

lemma keeps_nft_proposal: "CreateAndBroadcastNFTDestroyProposal X ios sc ids db = (r, ps, db') \<Longrightarrow> keeps db db'"
  by (auto simp: CreateAndBroadcastNFTDestroyProposal_def
      split: option.splits sum.splits if_splits prod.splits outcome.splits elim!: keeps_grown)

lemma keeps_refund_proposal: "CreateAndBroadcastFailedDepositTxsProposal X ios sc txs db = (r, ps, db') \<Longrightarrow> keeps db db'"
  by (auto simp: CreateAndBroadcastFailedDepositTxsProposal_def split: option.splits if_splits prod.splits outcome.splits
      elim!: keeps_grow [rotated] intro: keeps_failed_deposit)

lemma keeps_moved_withdraws:
  assumes "keeps db db1"
  shows "keeps db (on_name name f db1)" "keeps db ((on_name name f db1)\<lparr>FinishedTxsDbCache :=
    snd (AddSucceedWithdrawTxs io hs (FinishedTxsDbCache (on_name name f db1)))\<rparr>)"
  using assms keeps_trans keeps_rules by (meson keeps_trans keeps_rules(2,5))+

lemma keeps_withdraws: "SendCachedWithdrawTxs X ios sc db = (r, ps, db') \<Longrightarrow> keeps db db'"
  by (auto simp: SendCachedWithdrawTxs_def Let_def
      split: option.splits sum.splits if_splits prod.splits outcome.splits
      intro!: keeps_moved_withdraws intro: keeps_withdraw_proposal)

lemma keeps_nfts: "SendCachedNFTDestroyTxs X ios sc h db = (r, ps, db') \<Longrightarrow> keeps db db'"
  by (auto simp: SendCachedNFTDestroyTxs_def Let_def
      split: option.splits sum.splits if_splits prod.splits outcome.splits intro: keeps_nft_proposal)

lemma keeps_on_name: "keeps db db1 \<Longrightarrow> keeps db (on_name name f db1)"
  using keeps_trans keeps_side(2) by blast

lemma keeps_returns: "SendCachedReturnDepositTxs X ios sc db = (r, ps, db') \<Longrightarrow> keeps db db'"
  by (auto simp: SendCachedReturnDepositTxs_def Let_def
      split: option.splits sum.splits if_splits prod.splits outcome.splits
      intro!: keeps_on_name intro: keeps_refund_proposal)

lemma keeps_job:
  assumes "\<forall>i. good_io (ios i)" "run_job M ios job (db, ms) = (r, ps, db', ms')"
  shows "keeps db db'"
proof (cases job)
  case (SendDeposits sc hs)
  then show ?thesis using assms(2) keeps_create [OF assms(1), of db "mX M" sc hs] by (auto split: prod.splits)
qed (use assms(2) in \<open>auto split: prod.splits option.splits dest: keeps_withdraws keeps_nfts keeps_returns\<close>)

lemma removed_withdraws_steps:
  "remove_withdraws_of X ios k ss fin = (r, ss', fin') \<Longrightarrow> finished_step\<^sup>*\<^sup>* fin fin'"
proof (induction ss arbitrary: k fin r ss' fin')
  case (Cons s ss)
  have step: "AddSucceedWithdrawTxs io hs fin = (x, fin1) \<Longrightarrow> finished_step fin fin1" for io hs x fin1
    using f_wd_succeed [of fin io hs] by simp
  obtain r1 ss1 fin1 where rest: "remove_withdraws_of X ios (k + 3) ss fin = (r1, ss1, fin1)" by (metis prod_cases3)
  from Cons show ?case
    by (auto split: sum.splits if_splits prod.splits dest!: step intro: converse_rtranclp_into_rtranclp)
qed simp

lemma keeps_finished_steps: "finished_step\<^sup>*\<^sup>* (FinishedTxsDbCache db) fin \<Longrightarrow> keeps db (db\<lparr>FinishedTxsDbCache := fin\<rparr>)"
proof (induction rule: rtranclp_induct)
  case (step f g)
  then have "keeps (db\<lparr>FinishedTxsDbCache := f\<rparr>) (db\<lparr>FinishedTxsDbCache := f, FinishedTxsDbCache := g\<rparr>)"
    by (intro keeps_finished) simp
  with step show ?case using keeps_trans by fastforce
qed simp

lemma keeps_side_finished:
  "keeps db (db\<lparr>FinishedTxsDbCache := fin\<rparr>) \<Longrightarrow> keeps db (db\<lparr>SideChainStore := ss, FinishedTxsDbCache := fin\<rparr>)"
  by (simp add: keeps_def deposits_wf_def known_deposits_def)

lemma keeps_clean_withdraws: "CheckAndRemoveWithdrawTransactionsFromDB X ios db = (r, db') \<Longrightarrow> keeps db db'"
  by (auto simp: CheckAndRemoveWithdrawTransactionsFromDB_def split: prod.splits
      dest!: removed_withdraws_steps keeps_finished_steps intro: keeps_side_finished)

lemma keeps_clean_returns: "CheckAndRemoveReturnDepositTransactionsFromDB X ios db = (r, db') \<Longrightarrow> keeps db db'"
  by (auto simp: CheckAndRemoveReturnDepositTransactionsFromDB_def keeps_side split: prod.splits)

lemma keeps_clean_deposits:
  assumes "\<forall>i. good_io (ios i)" "CheckAndRemoveDepositTransactionsFromDB X ios ord db = (r, db')"
  shows "keeps db db'"
  using deposit_step_keeps [OF d_check [OF assms(1), of X db ord]] assms(2) by simp

lemma keeps_clean:
  assumes "\<forall>j i. good_io (ios j i)" "CheckAndRemoveCrossChainTransactions X ios ord db = (r, db')"
  shows "keeps db db'"
proof -
  obtain r1 db1 where 1: "CheckAndRemoveDepositTransactionsFromDB X (ios 0) ord db = (r1, db1)" by fastforce
  obtain r2 db2 where 2: "CheckAndRemoveWithdrawTransactionsFromDB X (ios (Suc 0)) db1 = (r2, db2)" by fastforce
  obtain r3 db3 where 3: "CheckAndRemoveReturnDepositTransactionsFromDB X (ios 2) db2 = (r3, db3)" by fastforce
  have k: "keeps db db1" "keeps db1 db2" "keeps db2 db3"
    using keeps_clean_deposits [OF _ 1] assms(1) keeps_clean_withdraws [OF 2] keeps_clean_returns [OF 3] by simp_all
  have "db' = db1 \<or> db' = db2 \<or> db' = db3"
    using assms(2) by (auto simp: CheckAndRemoveCrossChainTransactions_def 1 2 3 split: outcome.splits)
  with k show ?thesis using keeps_trans by blast
qed

lemma keeps_invalid_of: "invalid_withdraws_of E ios k sc db = (r, msgs, db') \<Longrightarrow> keeps db db'"
  by (auto simp: invalid_withdraws_of_def Let_def split: option.splits sum.splits if_splits prod.splits intro: keeps_side)

lemma keeps_invalid: "invalid_withdraws E ios k scs db = (r, msgs, db') \<Longrightarrow> keeps db db'"
proof (induction scs arbitrary: k db r msgs db')
  case (Cons sc scs)
  obtain r1 msgs1 db1 where one: "invalid_withdraws_of E ios k sc db = (r1, msgs1, db1)" by (metis prod_cases3)
  have "db' = db1 \<or> (\<exists>rest r2. invalid_withdraws E ios (k + 3) scs db1 = (r2, rest, db'))"
    using Cons.prems one by (auto split: outcome.splits prod.splits)
  then have "keeps db1 db'" using Cons.IH by auto
  with keeps_invalid_of [OF one] show ?case by (rule keeps_trans)
qed simp

lemma keeps_monitor_invalid: "MonitorInvalidWithdrawTransaction E ios db = (r, msgs, db') \<Longrightarrow> keeps db db'"
  using keeps_height [of db "ios 0" QueryHeightCode]
  by (auto simp: MonitorInvalidWithdrawTransaction_def split: prod.splits if_splits dest!: keeps_invalid intro: keeps_trans)

lemma keeps_notified:
  assumes "\<forall>i. good_io (ios i)" "DepositListener_ProcessNotifyData X ios onDuty address tasks db = (receipts, r, db')"
  shows "keeps db db'"
  using processed_known [OF assms(1) _ assms(2)] by (auto simp: keeps_def)

lemma keeps_duty: "OnDutyArbitratorChanged X ios h onDuty ar = (jobs, ar') \<Longrightarrow> keeps (arbiter_db ar) (arbiter_db ar')"
  using keeps_height [of "arbiter_db ar" "ios 0" QueryHeightCode]
  by (auto simp: OnDutyArbitratorChanged_def Let_def split: if_splits prod.splits)

lemma keeps_move_withdraws:
  assumes "\<And>fin. finished_step fin (snd (record_verdict fin))" "move_withdraws kind ios a st hs record_verdict db = (r, db')"
  shows "keeps db db'"
proof -
  have "keeps db (on_address a f db)" for f by (rule keeps_side)
  moreover have "keeps (on_address a f db) ((on_address a f db)\<lparr>FinishedTxsDbCache :=
      snd (record_verdict (FinishedTxsDbCache (on_address a f db)))\<rparr>)" for f
    by (rule keeps_finished) (rule assms(1))
  ultimately show ?thesis using assms(2) keeps_trans
    by (auto simp: move_withdraws_def Let_def split: prod.splits sum.splits) (metis snd_conv)+
qed

lemma keeps_submit_withdraw: "SubmitWithdrawTransaction X ios txn db = (r, db') \<Longrightarrow> keeps db db'"
  by (auto simp: SubmitWithdrawTransaction_def Let_def
      split: payload.splits sum.splits option.splits verdict.splits prod.splits
      elim!: keeps_move_withdraws [rotated] intro: f_wd_failed f_wd_succeed)

lemma keeps_submit_nft: "SubmitNFTDestroyTransaction X ios txn db = (r, db') \<Longrightarrow> keeps db db'"
  by (auto simp: SubmitNFTDestroyTransaction_def Let_def keeps_side
      split: payload.splits sum.splits option.splits if_splits prod.splits)

section \<open>The monitor changes the caches of the side chains only\<close>

definition only_sides :: "db_cache \<Rightarrow> db_cache \<Rightarrow> bool" where
  "only_sides db db' \<longleftrightarrow> (\<exists>ss. db' = db\<lparr>SideChainStore := ss\<rparr>)"

lemma only_sides_rules:
  "only_sides db db" "only_sides db (on_name n f db)" "only_sides db (on_address a f db)"
  "only_sides db db1 \<Longrightarrow> only_sides db1 db2 \<Longrightarrow> only_sides db db2"
  "only_sides db db' \<Longrightarrow> keeps db db'"
proof -
  show "only_sides db db" unfolding only_sides_def by (rule exI [of _ "SideChainStore db"]) simp
qed (auto simp: only_sides_def on_name_def on_address_def keeps_side)

lemma fired_sides:
  "fireUTXOChanged X m io txs a h db = (r, db') \<Longrightarrow> only_sides db db'"
  "fireNFTChanged X m io nfts a h db = (r, db') \<Longrightarrow> only_sides db db'"
  by (auto simp: fireUTXOChanged_def OnUTXOChanged_def fireNFTChanged_def OnNFTChanged_def only_sides_rules
      split: option.splits if_splits prod.splits)

lemma stored_sides: "store_failed_deposits X ios now a txs s = (r, s') \<Longrightarrow> only_sides (ScanDb s) (ScanDb s')"
proof (induction txs arbitrary: s)
  case (Cons tx txs)
  then show ?case
    by (auto split: sum.splits option.splits prod.splits simp: only_sides_rules
        intro: only_sides_rules(4) [OF only_sides_rules(3)] dest!: Cons.IH)
qed (simp add: only_sides_rules)

lemma height_sides: "only_sides (ScanDb s) (ScanDb (store_height ios a s))"
  by (auto simp: store_height_def only_sides_rules split: option.splits prod.splits)

lemma scan_sides:
  "scan_withdraws X m ios a s = (r, s') \<Longrightarrow> only_sides (ScanDb s) (ScanDb s')"
  "scan_nfts X m ios a s = (r, s') \<Longrightarrow> only_sides (ScanDb s) (ScanDb s')"
  "scan_failed_deposits X ios now a s = (b, s') \<Longrightarrow> only_sides (ScanDb s) (ScanDb s')"
  by (auto simp: scan_withdraws_def scan_nfts_def scan_failed_deposits_def processTransactions_def processNFTDestroyTxs_def
      only_sides_rules(1) split: sum.splits if_splits prod.splits outcome.splits dest!: fired_sides stored_sides)

lemma after_sides: "scan_after X m ios now c s = (r, s') \<Longrightarrow> only_sides (ScanDb s) (ScanDb s')"
  by (auto simp: scan_after_def only_sides_rules(1) split: if_splits prod.splits outcome.splits bool.splits
      dest!: scan_sides intro: only_sides_rules(4))

lemma block_sides:
  assumes "scan_block X m ios now c s = (r, es, s')"
  shows "only_sides (ScanDb s) (ScanDb s')"
proof -
  obtain r1 s1 where one: "scan_withdraws X m ios (GenesisBlockAddress c) s = (r1, s1)" by fastforce
  define s2 where "s2 = s1\<lparr>ScanHeight := ScanHeight s1 + 1, ScanCount := ScanCount s1 + 1\<rparr>"
  define s3 where "s3 = (if ScanCount s2 mod sideChainHeightInterval = 0 then store_height ios (GenesisBlockAddress c) s2 else s2)"
  have "ScanDb s2 = ScanDb s1" by (simp add: s2_def)
  then have "only_sides (ScanDb s1) (ScanDb s3)" using height_sides [of s2] only_sides_rules(1) by (auto simp: s3_def)
  with scan_sides(1) [OF one] have up: "only_sides (ScanDb s) (ScanDb s1)" "only_sides (ScanDb s) (ScanDb s3)"
    using only_sides_rules(4) by blast+
  have "s' = s1 \<or> (\<exists>r2. scan_after X m ios now c s3 = (r2, s'))"
    using assms one
    by (auto simp: scan_block_def Let_def s2_def [symmetric] s3_def [symmetric] split: outcome.splits loop_end.splits sum.splits prod.splits)
  with up show ?thesis using after_sides only_sides_rules(4) by blast
qed

lemma blocks_sides: "scan_blocks X m ios now c h fuel s = Some (r, es, s') \<Longrightarrow> only_sides (ScanDb s) (ScanDb s')"
proof (induction fuel arbitrary: s r es s')
  case 0
  then show ?case by (subst (asm) scan_blocks.simps) (auto simp: only_sides_rules split: if_splits)
next
  case (Suc n)
  obtain r1 es1 s1 where one: "scan_block X m ios now c s = (r1, es1, s1)" by (metis prod_cases3)
  have "s' = s \<or> s' = s1 \<or> (\<exists>r2 es2. scan_blocks X m ios now c h n s1 = Some (r2, es2, s'))"
    using Suc.prems one by (subst (asm) scan_blocks.simps) (auto split: if_splits outcome.splits loop_end.splits)
  then show ?case using Suc.IH block_sides [OF one] only_sides_rules(1,4) by blast
qed

lemma round_sides: "sync_round X m ios now c onDuty fuel db = Some (r, es, db', mine) \<Longrightarrow> only_sides db db'"
proof -
  obtain a b need db1 where n: "side_needSyncBlocks X (ios 0) (GenesisBlockAddress c) db = ((a, b, need), db1)"
    by (cases "side_needSyncBlocks X (ios 0) (GenesisBlockAddress c) db") auto
  then have one: "only_sides db db1"
    by (auto simp: side_needSyncBlocks_def only_sides_rules split: sum.splits option.splits prod.splits)
  define s0 where "s0 = \<lparr>ScanHeight = max b (SyncStartHeight c), ScanCount = 1, ScanDb = db1, ScanTick = 1\<rparr>"
  assume "sync_round X m ios now c onDuty fuel db = Some (r, es, db', mine)"
  then have "db' = db1 \<or> (\<exists>r2 es2 s'. scan_blocks X m ios now c a fuel s0 = Some (r2, es2, s') \<and>
      (db' = ScanDb s' \<or> db' = ScanDb (store_height ios (GenesisBlockAddress c) s')))"
    using n by (auto simp: sync_round_def Let_def s0_def split: if_splits option.splits outcome.splits prod.splits)
  moreover have "ScanDb s0 = db1" by (simp add: s0_def)
  ultimately have "only_sides db1 db'"
    using blocks_sides only_sides_rules(1,4) height_sides by metis
  with one show ?thesis using only_sides_rules(4) by blast
qed

section \<open>The whole arbiter\<close>

text \<open>A submitted refund takes the deposits that its outputs name out of the cache when the main chain node accepts it, and
  also when the node refuses it (nothing is recorded then); \<open>refunds\<close> tells the two apart.\<close>

definition refunds :: "cross_env \<Rightarrow> transaction \<Rightarrow> (verdict \<times> string \<times> string) set" where
  "refunds X txn = (case Payload txn of
     ReturnSideChainDepositCoin _ \<Rightarrow>
       (case returned_deposits X (Outputs txn) of
          None \<Rightarrow> {}
        | Some (hs, gs) \<Rightarrow> Pair (mc_verdict (SendWithdrawTransaction X txn)) ` set (zip hs gs))
   | _ \<Rightarrow> {}) \<inter> {Succeeded, Failed} \<times> UNIV"

definition keeps_but :: "(string \<times> string) set \<Rightarrow> db_cache \<Rightarrow> db_cache \<Rightarrow> bool" where
  "keeps_but ks db db' \<longleftrightarrow> (deposits_wf db \<longrightarrow> deposits_wf db' \<and> known_deposits db \<subseteq> known_deposits db' \<union> ks)"

lemma keeps_keeps_but: "keeps db db' \<Longrightarrow> keeps_but ks db db'"
  by (auto simp: keeps_def keeps_but_def)

lemma returned_lengths: "returned_deposits X outs = Some (hs, gs) \<Longrightarrow> length hs = length gs"
  by (induction outs arbitrary: hs gs) (auto split: if_splits output_payload.splits)

lemma keeps_but_remove:
  assumes "good_io io" "length hs = length gs"
  shows "keeps_but (set (zip hs gs)) db (db\<lparr>MainChainStore := snd (RemoveMainChainTxs io hs gs (MainChainStore db))\<rparr>)"
  unfolding keeps_but_def
proof
  assume wf: "deposits_wf db"
  then have inv: "good_io io \<and> main_store_wf (MainChainStore db)" using assms(1) by (simp add: deposits_wf_def)
  have m: "snd (RemoveMainChainTxs io hs gs (MainChainStore db)) = remove_main io (zip hs gs) (MainChainStore db)"
    using assms(2) by (simp add: remove_main_def)
  let ?db = "db\<lparr>MainChainStore := remove_main io (zip hs gs) (MainChainStore db)\<rparr>"
  have "cached ?db k = (if k \<in> set (zip hs gs) then None else cached db k)" for k
    using main_txs.lookup_remove [OF inv] by simp
  then have "dom (cached db) \<subseteq> dom (cached ?db) \<union> set (zip hs gs)" by (auto simp: domIff)
  then have "known_deposits db \<subseteq> known_deposits ?db \<union> set (zip hs gs)" by (auto simp: known_deposits_def)
  then show "deposits_wf (db\<lparr>MainChainStore := snd (RemoveMainChainTxs io hs gs (MainChainStore db))\<rparr>) \<and>
      known_deposits db \<subseteq> known_deposits (db\<lparr>MainChainStore := snd (RemoveMainChainTxs io hs gs (MainChainStore db))\<rparr>) \<union> set (zip hs gs)"
    unfolding m using main_txs.inv_remove [OF inv] wf by (simp add: deposits_wf_def)
qed

lemma keeps_but_refund:
  assumes "good_io (ios 0)" "SubmitReturnSideChainDepositCoin X ios txn db = (r, db')"
  shows "keeps_but (snd ` refunds X txn) db db'"
proof -
  have "db' = db \<or> (\<exists>s hs gs. Payload txn = ReturnSideChainDepositCoin s \<and> returned_deposits X (Outputs txn) = Some (hs, gs) \<and>
      mc_verdict (SendWithdrawTransaction X txn) \<in> {Succeeded, Failed} \<and>
      db' = db\<lparr>MainChainStore := snd (RemoveMainChainTxs (ios 0) hs gs (MainChainStore db))\<rparr>)"
    using assms(2)
    by (auto simp: SubmitReturnSideChainDepositCoin_def Let_def
        split: payload.splits option.splits verdict.splits prod.splits outcome.splits)
  then show ?thesis
  proof (elim disjE exE conjE)
    fix s hs gs assume p: "Payload txn = ReturnSideChainDepositCoin s" "returned_deposits X (Outputs txn) = Some (hs, gs)"
      "mc_verdict (SendWithdrawTransaction X txn) \<in> {Succeeded, Failed}"
      "db' = db\<lparr>MainChainStore := snd (RemoveMainChainTxs (ios 0) hs gs (MainChainStore db))\<rparr>"
    then have "refunds X txn = Pair (mc_verdict (SendWithdrawTransaction X txn)) ` set (zip hs gs)" by (auto simp: refunds_def)
    then have "snd ` refunds X txn = set (zip hs gs)" by (simp add: image_image)
    then show ?thesis using keeps_but_remove [OF assms(1) returned_lengths [OF p(2)]] p(4) by simp
  qed (simp add: keeps_keeps_but [OF keeps_refl])
qed

lemma keeps_activate: "activate G ios k info t st = (e, st') \<Longrightarrow> keeps (MgrDb st) (MgrDb st')"
proof -
  let ?db = "MgrDb st"
  have k: "keeps ?db (?db\<lparr>SideChainStore := ss, RegisteredSideChainStore := reg\<rparr>)" for ss reg
    by (simp add: keeps_def deposits_wf_def known_deposits_def)
  have "keeps ?db (?db\<lparr>SideChainStore := ss, RegisteredSideChainStore := reg, FinishedTxsDbCache := fin\<rparr>)"
    if "AddSucceedRegisterTx io h g d (FinishedTxsDbCache ?db) = (x, fin)" for ss reg fin io h g d x
  proof (rule keeps_trans [OF k])
    show "keeps (?db\<lparr>SideChainStore := ss, RegisteredSideChainStore := reg\<rparr>)
        (?db\<lparr>SideChainStore := ss, RegisteredSideChainStore := reg, FinishedTxsDbCache := fin\<rparr>)"
      using f_reg_succeed [of "FinishedTxsDbCache ?db" io h g d] that by (intro keeps_finished) simp
  qed
  then show "activate G ios k info t st = (e, st') \<Longrightarrow> keeps (MgrDb st) (MgrDb st')"
    using k keeps_side(1)
    by (auto simp: activate_def Let_def split: sum.splits option.splits prod.splits if_splits)
qed

lemma keeps_registered: "OnReceivedRegisteredSideChain G ios info st = (e, st') \<Longrightarrow> keeps (MgrDb st) (MgrDb st')"
proof -
  have "activate_all G ios k info ts st = (e, st') \<Longrightarrow> keeps (MgrDb st) (MgrDb st')" for k ts st
  proof (induction ts arbitrary: k st)
    case (Cons t ts)
    obtain e1 st1 where "activate G ios k info t st = (e1, st1)" by fastforce
    with Cons show ?case using keeps_activate keeps_trans
      by (auto split: if_splits option.splits) blast+
  qed simp
  then show "OnReceivedRegisteredSideChain G ios info st = (e, st') \<Longrightarrow> keeps (MgrDb st) (MgrDb st')"
    by (auto simp: OnReceivedRegisteredSideChain_def split: sum.splits)
qed

text \<open>Every operation of the arbiter on the stores, with a driver without faults; what the nodes answer may change from
  step to step. The set names the deposits of the refunds that are submitted, with the verdict of the main chain node.\<close>

inductive arbiter_step :: "(verdict \<times> string \<times> string) set \<Rightarrow> db_cache \<Rightarrow> db_cache \<Rightarrow> bool" where
  s_notify: "\<forall>i. good_io (ios i) \<Longrightarrow>
    DepositListener_ProcessNotifyData X ios onDuty address tasks db = (receipts, r, db') \<Longrightarrow> arbiter_step {} db db'"
| s_duty: "OnDutyArbitratorChanged X ios h onDuty ar = (jobs, ar') \<Longrightarrow> arbiter_step {} (arbiter_db ar) (arbiter_db ar')"
| s_job: "\<forall>i. good_io (ios i) \<Longrightarrow> run_job M ios job (db, ms) = (r, ps, db', ms') \<Longrightarrow> arbiter_step {} db db'"
| s_clean: "\<forall>j i. good_io (ios2 j i) \<Longrightarrow>
    CheckAndRemoveCrossChainTransactions X ios2 range_order db = (r, db') \<Longrightarrow> arbiter_step {} db db'"
| s_monitor: "sync_round X m ios now c onDuty fuel db = Some (r, es, db', mine) \<Longrightarrow> arbiter_step {} db db'"
| s_follow: "arbiter_step {} db (snd (SyncChainData X ios db))"
| s_invalid: "MonitorInvalidWithdrawTransaction E ios db = (r, msgs, db') \<Longrightarrow> arbiter_step {} db db'"
| s_register: "OnReceivedRegisteredSideChain G ios info st = (e, st') \<Longrightarrow> arbiter_step {} (MgrDb st) (MgrDb st')"
| s_submit: "\<forall>i. good_io (ios i) \<Longrightarrow> Submit X ios txn db = (r, db') \<Longrightarrow> arbiter_step (refunds X txn) db db'"

inductive arbiter_run :: "(verdict \<times> string \<times> string) set \<Rightarrow> db_cache \<Rightarrow> db_cache \<Rightarrow> bool" where
  run_start: "arbiter_run {} db db"
| run_step: "arbiter_run R db db1 \<Longrightarrow> arbiter_step ks db1 db2 \<Longrightarrow> arbiter_run (R \<union> ks) db db2"

lemma arbiter_step_keeps: "arbiter_step ks db db' \<Longrightarrow> keeps_but (snd ` ks) db db'"
proof (induction rule: arbiter_step.induct)
  case (s_submit ios X txn db r db')
  then show ?case
    using keeps_but_refund [of ios X txn db r db'] keeps_submit_withdraw [of X ios txn db r db'] keeps_submit_nft [of X ios txn db r db']
    by (auto simp: Submit_def intro: keeps_keeps_but split: payload.splits)
qed (auto intro!: keeps_keeps_but keeps_sync dest: keeps_notified keeps_duty keeps_job keeps_clean round_sides
    keeps_monitor_invalid keeps_registered only_sides_rules(5))

lemma arbiter_run_verdicts: "arbiter_run R db db' \<Longrightarrow> fst ` R \<subseteq> {Succeeded, Failed}"
proof (induction rule: arbiter_run.induct)
  case (run_step R db db1 ks db2)
  have "fst ` ks \<subseteq> {Succeeded, Failed}" using run_step(2) by cases (auto simp: refunds_def)
  with run_step show ?case by auto
qed simp

lemma arbiter_run_keeps:
  assumes "arbiter_run R db db'" "deposits_wf db"
  shows "deposits_wf db' \<and> known_deposits db \<subseteq> known_deposits db' \<union> snd ` R"
  using assms
proof (induction rule: arbiter_run.induct)
  case (run_step R db db1 ks db2)
  then show ?case using arbiter_step_keeps [OF run_step(2)] by (auto simp: keeps_but_def)
qed simp

text \<open>C7: Whatever the arbiter does, and in whatever order, as long as its database does not fail: a deposit that is waiting or
  finished stays in one of the two stores, unless a refund that names it was submitted and the main chain node either
  accepted it (then the depositor has been paid) or refused it (then the deposit is given up without a record).\<close>

theorem deposits_leave_by_refund:
  assumes "arbiter_run R db db'" "deposits_wf db"
  shows "deposits_wf db' \<and> known_deposits db \<subseteq> known_deposits db' \<union> {k. (Succeeded, k) \<in> R} \<union> {k. (Failed, k) \<in> R}"
  using arbiter_run_keeps [OF assms] arbiter_run_verdicts [OF assms(1)] by fastforce

text \<open>A notified deposit and a synchronisation keep what is stored; then a refund of it is refused.\<close>

definition refusing_env :: cross_env where
  "refusing_env = xenv0\<lparr>xN := nodes0\<lparr>SendRawTransaction := (\<lambda>_. Inr \<lparr>RespError = True, RespCode = 0, RespResult = False\<rparr>)\<rparr>\<rparr>"

definition refund7 :: transaction where
  "refund7 = tx0\<lparr>Payload := ReturnSideChainDepositCoin [], Outputs := [\<lparr>OutProgramHash = [], OutValue = 1,
     OutType = OTReturnSideChainDepositCoin, OutPayload = ReturnSideChainDeposit ''K'' [0x68]\<rparr>]\<rparr>"

lemma refund7_refused: "refunds refusing_env refund7 = {(Failed, ''h'', ''K'')}"
proof -
  have "byte_char 0x68 = CHR ''h''" by (simp add: byte_char_def char_of_def bit_iff_odd)
  then show ?thesis
    by (simp add: refunds_def refund7_def refusing_env_def SendWithdrawTransaction_def ops0_def mc_verdict_def MCErrDoubleSpend_def
        nodes0_def)
qed

theorem deposits_leave_by_refund_witness:
  "\<exists>(db :: db_cache) db'. arbiter_run {} db5 db \<and> (''h'', ''K'') \<in> known_deposits db \<and>
     arbiter_run {(Failed, ''h'', ''K'')} db5 db' \<and> known_deposits db5 \<subseteq> known_deposits db' \<union> {(''h'', ''K'')}"
proof -
  obtain receipts r db1 where "DepositListener_ProcessNotifyData yes_env (\<lambda>_. plain_io) True ''K'' [task0] db5 = (receipts, r, db1)"
    by (metis prod_cases3)
  then have "arbiter_step {} db5 db1" by (intro s_notify) auto
  moreover have "arbiter_step {} db1 (snd (SyncChainData yes_env (\<lambda>_. plain_io) db1))" by (rule s_follow)
  ultimately obtain db where run: "arbiter_run {} db5 db"
    using run_step [OF run_step [OF run_start]] by fastforce
  obtain r' db' where "Submit refusing_env (\<lambda>_. plain_io) refund7 db = (r', db')" by fastforce
  then have "arbiter_step (refunds refusing_env refund7) db db'" by (intro s_submit) auto
  with run_step [OF run] have run': "arbiter_run {(Failed, ''h'', ''K'')} db5 db'" by (simp add: refund7_refused)
  have "(''h'', ''K'') \<in> known_deposits db5"
    by (simp add: known_deposits_def db5_def main_lookup_def row_of_def main_key_def main_row0_def domIff)
  with deposits_leave_by_refund [OF run db5_wf] deposits_leave_by_refund [OF run' db5_wf] run run' show ?thesis by blast
qed

end
