(* ===== verification/Rpc_Client.thy ===== *)
theory Rpc_Client
  imports Monitor
begin

text \<open>
  The JSON-RPC client (\<open>rpc/jsonrpc.go\<close>, \<open>rpc/parameter.go\<close>): what the arbiter asks the nodes and how it reads their answers.
  An answer is what comes over HTTP: nothing, or a text and what \<open>json.Unmarshal\<close> reads in it. \<open>rpc_nodes\<close> puts the calls
  together to the record \<open>nodes\<close> that the rest of the development takes as an argument.
\<close>

section \<open>JSON\<close>

text \<open>The values of an \<open>interface{}\<close> that \<open>json.Unmarshal\<close> makes.\<close>

datatype json = JNull | JBool bool | JNum float64 | JStr string | JArr "json list" | JObj "(string \<times> json) list"

record rpc_error =
  ErrorCode :: int
  Message :: string

record rpc_response =
  Result :: json
  RpcError :: "rpc_error option"

datatype http_answer = NoAnswer | Answer string "rpc_response option"

text \<open>Decimal digits of a number, as \<open>strconv.FormatUint\<close> writes them.\<close>

fun decimal :: "nat \<Rightarrow> string" where
  "decimal n = (if n < 10 then [char_of (48 + n)] else decimal (n div 10) @ [char_of (48 + n mod 10)])"

declare decimal.simps [simp del]

text \<open>\<open>Param\<close> with a number makes a string of it.\<close>

definition Param_nat :: "string \<Rightarrow> nat \<Rightarrow> (string \<times> json) list" where
  "Param_nat key n = [(key, JStr (decimal n))]"

definition Param_string :: "string \<Rightarrow> string \<Rightarrow> (string \<times> json) list" where
  "Param_string key s = [(key, JStr s)]"

section \<open>The surroundings\<close>

text \<open>\<open>'c\<close> is the access data of a node. The decoders are those of the structures by their JSON tags.\<close>

record 'c rpc_env =
  rC :: crypto
  rA :: addr_ops
  rT :: tx_ops
  Post :: "'c \<Rightarrow> string \<Rightarrow> (string \<times> json) list \<Rightarrow> http_answer"
  MainNode :: 'c
  SideNode :: "string \<Rightarrow> 'c"                      \<comment> \<open>of the chain with that address\<close>
  CRCOnlyDPOSHeight :: u32
  ClaimHeight :: u32                             \<comment> \<open>\<open>CRClaimDPOSNodeStartHeight\<close>\<close>
  PeersHeight :: u32                             \<comment> \<open>\<open>DPOSNodeCrossChainHeight\<close>\<close>
  OriginCrossChainArbiters :: "string list"
  CRCCrossChainArbiters :: "string list"
  FixedString :: "fixed64 \<Rightarrow> string"
  SerializeInputs :: "tx_input list \<Rightarrow> bytes option"    \<comment> \<open>their number and each of them\<close>
  GetGenesisAddressOf :: "uint256 \<Rightarrow> string option"
  DecodePeers :: "json \<Rightarrow> string list option"
  DecodeGroup :: "json \<Rightarrow> (string list \<times> int) option"
  DecodeWithdraw :: "json \<Rightarrow> withdraw_tx_info option"
  DecodeWithdraws :: "json \<Rightarrow> withdraw_tx_info list option"
  DecodeNFTs :: "json \<Rightarrow> nft_destroy_info list option"
  DecodeEvidences :: "json \<Rightarrow> illegal_info list option"
  DecodeUtxos :: "json \<Rightarrow> utxo_info list option"
  DecodeRegistrations :: "json \<Rightarrow> (registered_side_chain \<times> string \<times> string) list option"
    \<comment> \<open>\<open>servers.RsInfo\<close>: its fields, the genesis hash as text, and the transaction hash\<close>

section \<open>Calls\<close>

text \<open>A body that is no JSON is the result, as a string.\<close>

definition CallAndUnmarshal :: "'c rpc_env \<Rightarrow> string \<Rightarrow> (string \<times> json) list \<Rightarrow> 'c \<Rightarrow> go_error + json" where
  "CallAndUnmarshal R method params node =
     (case Post R node method params of
        NoAnswer \<Rightarrow> Inl ExtErr
      | Answer body None \<Rightarrow> Inr (JStr body)
      | Answer body (Some resp) \<Rightarrow>
          (case RpcError resp of Some e \<Rightarrow> Inl (Err (Message e)) | None \<Rightarrow> Inr (Result resp)))"

definition CallAndUnmarshalResponse :: "'c rpc_env \<Rightarrow> string \<Rightarrow> (string \<times> json) list \<Rightarrow> 'c \<Rightarrow> go_error + rpc_response" where
  "CallAndUnmarshalResponse R method params node =
     (case Post R node method params of
        NoAnswer \<Rightarrow> Inl ExtErr
      | Answer body None \<Rightarrow> Inl ExtErr
      | Answer body (Some resp) \<Rightarrow> Inr resp)"

text \<open>\<open>Unmarshal\<close> of a value into a type.\<close>

definition Unmarshal :: "(json \<Rightarrow> 'a option) \<Rightarrow> json \<Rightarrow> go_error + 'a" where
  "Unmarshal decode v = (case decode v of None \<Rightarrow> Inl ExtErr | Some x \<Rightarrow> Inr x)"

text \<open>Into a string, a bool and a list of strings; null leaves the zero value.\<close>

fun as_string :: "json \<Rightarrow> string option" where
  "as_string (JStr s) = Some s" | "as_string JNull = Some ''''" | "as_string _ = None"

fun as_bool :: "json \<Rightarrow> bool option" where
  "as_bool (JBool b) = Some b" | "as_bool JNull = Some False" | "as_bool _ = None"

fun those :: "'a option list \<Rightarrow> 'a list option" where
  "those [] = Some []"
| "those (x # xs) = (case x of None \<Rightarrow> None | Some y \<Rightarrow> map_option ((#) y) (those xs))"

fun as_strings :: "json \<Rightarrow> string list option" where
  "as_strings (JArr xs) = those (map as_string xs)" | "as_strings JNull = Some []" | "as_strings _ = None"

definition call_for :: "'c rpc_env \<Rightarrow> (json \<Rightarrow> 'a option) \<Rightarrow> string \<Rightarrow> (string \<times> json) list \<Rightarrow> 'c \<Rightarrow> go_error + 'a" where
  "call_for R decode method params node =
     (case CallAndUnmarshal R method params node of Inl e \<Rightarrow> Inl e | Inr v \<Rightarrow> Unmarshal decode v)"

section \<open>The arbiters\<close>

text \<open>The key is copied into a peer id of 33 bytes.\<close>

definition peer_id :: "bytes \<Rightarrow> bytes" where
  "peer_id pk = take 33 (pk @ replicate 33 0)"

definition peer_ids :: "'c rpc_env \<Rightarrow> string list \<Rightarrow> go_error + bytes list" where
  "peer_ids R keys = (case those (map (HexStringToBytes (rC R)) keys) of
     None \<Rightarrow> Inl ExtErr | Some pks \<Rightarrow> Inr (map peer_id pks))"

definition GetActiveDposPeers :: "'c rpc_env \<Rightarrow> u32 \<Rightarrow> go_error + bytes list" where
  "GetActiveDposPeers R height =
     (if height + 1 < CRCOnlyDPOSHeight R then peer_ids R (OriginCrossChainArbiters R)
      else if height < ClaimHeight R then peer_ids R (CRCCrossChainArbiters R)
      else (case call_for R (DecodePeers R)
                  (if height < PeersHeight R then ''getcrcpeersinfo'' else ''getcrosschainpeersinfo'') [] (MainNode R) of
              Inl e \<Rightarrow> Inl e | Inr keys \<Rightarrow> peer_ids R keys))"

text \<open>\<open>sort.Strings\<close>\<close>

fun insert_string :: "string \<Rightarrow> string list \<Rightarrow> string list" where
  "insert_string s [] = [s]"
| "insert_string s (t # ts) = (if string_less t s then t # insert_string s ts else s # t # ts)"

definition sort_strings :: "string list \<Rightarrow> string list" where
  "sort_strings xs = foldr insert_string xs []"

text \<open>Of no arbiters the remainder panics.\<close>

definition GetArbitratorGroupInfoByHeight_rpc :: "'c rpc_env \<Rightarrow> u32 \<Rightarrow> (string list \<times> int) outcome" where
  "GetArbitratorGroupInfoByHeight_rpc R height =
     (let static = (\<lambda>arbs h. if arbs = [] then Panic else Done (arbs, uint (h :: u32) mod int (length arbs)))
      in if height + 1 < CRCOnlyDPOSHeight R then static (OriginCrossChainArbiters R) height
         else if height < ClaimHeight R
         then static (sort_strings (CRCCrossChainArbiters R)) (height - CRCOnlyDPOSHeight R + 1)
         else (case call_for R (DecodeGroup R) ''getarbitratorgroupbyheight'' (Param_nat ''height'' (unat height)) (MainNode R) of
                 Inl e \<Rightarrow> Fail e | Inr g \<Rightarrow> Done g))"

section \<open>Heights\<close>

text \<open>The number of blocks is a float; what \<open>uint32\<close> makes of one that is too large, Go leaves open: its remainder here.\<close>

definition float_floor :: "float64 \<Rightarrow> int" where
  "float_floor x = (case x of (m, e) \<Rightarrow> if 0 \<le> e then m * 2 ^ nat e else m div 2 ^ nat (- e))"

definition GetCurrentHeight_rpc :: "'c rpc_env \<Rightarrow> 'c \<Rightarrow> go_error + u32" where
  "GetCurrentHeight_rpc R node =
     (case CallAndUnmarshal R ''getblockcount'' [] node of
        Inl e \<Rightarrow> Inl e
      | Inr (JNum n) \<Rightarrow>
          if 1 \<le> float_floor n then Inr (word_of_int (float_floor n) - 1)
          else Inl (Err ''[GetCurrentHeight] invalid count'')
      | Inr _ \<Rightarrow> Inl (Err ''[GetCurrentHeight] invalid count''))"

section \<open>Transactions\<close>

text \<open>Hashes are asked for with their bytes reversed, failed deposits are not.\<close>

definition reversed_hex :: "'c rpc_env \<Rightarrow> string \<Rightarrow> string option" where
  "reversed_hex R s = map_option (\<lambda>bs. BytesToHexString (rC R) (BytesReverse (rA R) bs)) (HexStringToBytes (rC R) s)"

definition GetBlockByHash :: "'c rpc_env \<Rightarrow> (json \<Rightarrow> 'b option) \<Rightarrow> uint256 \<Rightarrow> 'c \<Rightarrow> go_error + 'b" where
  "GetBlockByHash R decode hash node =
     (case reversed_hex R (HashString (rA R) hash) of
        None \<Rightarrow> Inl ExtErr
      | Some h \<Rightarrow> call_for R decode ''getblock'' (Param_string ''blockhash'' h @ Param_nat ''verbosity'' 2) node)"

text \<open>The error of \<open>Unmarshal\<close> is dropped, which leaves an empty block.\<close>

definition GetBlockByHeight :: "'c rpc_env \<Rightarrow> (json \<Rightarrow> 'b option) \<Rightarrow> 'b \<Rightarrow> u32 \<Rightarrow> 'c \<Rightarrow> go_error + 'b" where
  "GetBlockByHeight R decode empty_block height node =
     (case CallAndUnmarshal R ''getblockbyheight'' (Param_nat ''height'' (unat height)) node of
        Inl e \<Rightarrow> Inl e
      | Inr v \<Rightarrow> Inr (case decode v of None \<Rightarrow> empty_block | Some b \<Rightarrow> b))"

fun registrations_of ::
    "'c rpc_env \<Rightarrow> (registered_side_chain \<times> string \<times> string) list \<Rightarrow> go_error + registered_side_chain_transaction list" where
  "registrations_of R [] = Inr []"
| "registrations_of R ((r, genesisHash, txHash) # vs) =
     (case Uint256FromHexString (rA R) genesisHash of
        None \<Rightarrow> Inl ExtErr
      | Some h \<Rightarrow>
          (case GetGenesisAddressOf R h of
             None \<Rightarrow> Inl ExtErr
           | Some address \<Rightarrow>
               (case registrations_of R vs of
                  Inl e \<Rightarrow> Inl e
                | Inr txs \<Rightarrow>
                    Inr (\<lparr>RtTransactionHash = txHash, RtGenesisBlockAddress = address,
                          RtRegisteredSideChain = fresh_registered_side_chain\<lparr>SideChainName := SideChainName r,
                            MagicNumber := MagicNumber r, GenesisHash := h, ExchangeRate := ExchangeRate r,
                            registered_side_chain.EffectiveHeight := registered_side_chain.EffectiveHeight r,
                            ResourcePath := ResourcePath r\<rparr>\<rparr> # txs))))"

definition GetRegisterTransactionByHeight_rpc :: "'c rpc_env \<Rightarrow> 'c \<Rightarrow> go_error + registered_side_chain_transaction list" where
  "GetRegisterTransactionByHeight_rpc R node =
     (case call_for R (DecodeRegistrations R) ''getallregistertransactions'' [] node of
        Inl e \<Rightarrow> Inl e | Inr vs \<Rightarrow> registrations_of R vs)"

definition GetWithdrawTransactionByHeight_rpc :: "'c rpc_env \<Rightarrow> u32 \<Rightarrow> 'c \<Rightarrow> go_error + withdraw_tx_info list" where
  "GetWithdrawTransactionByHeight_rpc R height node =
     call_for R (DecodeWithdraws R) ''getwithdrawtransactionsbyheight'' (Param_nat ''height'' (unat height)) node"

definition GetNFTDestroyTransactionByHeight_rpc :: "'c rpc_env \<Rightarrow> u32 \<Rightarrow> 'c \<Rightarrow> go_error + nft_destroy_info list" where
  "GetNFTDestroyTransactionByHeight_rpc R height node =
     call_for R (DecodeNFTs R) ''getPledgeBillBurnTransactionByHeight'' (Param_nat ''height'' (unat height)) node"

definition GetIllegalEvidenceByHeight_rpc :: "'c rpc_env \<Rightarrow> u32 \<Rightarrow> 'c \<Rightarrow> go_error + illegal_info list" where
  "GetIllegalEvidenceByHeight_rpc R height node =
     call_for R (DecodeEvidences R) ''getillegalevidencebyheight'' (Param_nat ''height'' (unat height)) node"

definition CheckIllegalEvidence_rpc :: "'c rpc_env \<Rightarrow> json \<Rightarrow> 'c \<Rightarrow> go_error + bool" where
  "CheckIllegalEvidence_rpc R evidence node = call_for R as_bool ''checkillegalevidence'' [(''evidence'', evidence)] node"

definition GetTransactionInfoByHash :: "'c rpc_env \<Rightarrow> string \<Rightarrow> 'c \<Rightarrow> go_error + withdraw_tx_info" where
  "GetTransactionInfoByHash R transactionHash node =
     (case reversed_hex R transactionHash of
        None \<Rightarrow> Inl ExtErr
      | Some h \<Rightarrow> call_for R (DecodeWithdraw R) ''getwithdrawtransaction'' (Param_string ''txid'' h) node)"

definition GetDepositTransactionInfoByHash :: "'c rpc_env \<Rightarrow> string \<Rightarrow> 'c \<Rightarrow> go_error + bool" where
  "GetDepositTransactionInfoByHash R transactionHash node =
     (case HexStringToBytes (rC R) transactionHash of
        None \<Rightarrow> Inl ExtErr
      | Some bs \<Rightarrow>
          (let hashStr = BytesToHexString (rC R) bs
           in case CallAndUnmarshal R ''getfaileddeposittransactionbyhash'' (Param_string ''hash'' hashStr) node of
                Inl e \<Rightarrow> Inl e
              | Inr v \<Rightarrow>
                  (case as_string v of
                     None \<Rightarrow> Inl (Err ''[MoniterFailedDepositTransfer] Unmarshal getfaileddeposittransactions responce error'')
                   | Some tx \<Rightarrow> Inr (tx = hashStr))))"

definition txs_param :: "string list \<Rightarrow> (string \<times> json) list" where
  "txs_param txs = [(''txs'', JArr (map JStr txs))]"

definition GetExistWithdrawTransactions_rpc :: "'c rpc_env \<Rightarrow> string list \<Rightarrow> go_error + string list" where
  "GetExistWithdrawTransactions_rpc R txs = call_for R as_strings ''getexistwithdrawtransactions'' (txs_param txs) (MainNode R)"

definition GetCanNFTDestroyIDs_rpc :: "'c rpc_env \<Rightarrow> string list \<Rightarrow> string \<Rightarrow> go_error + string list" where
  "GetCanNFTDestroyIDs_rpc R ids genesisBlockHash =
     call_for R as_strings ''getcandestroynftids''
       [(''ids'', JArr (map JStr ids)), (''genesisblockhash'', JStr genesisBlockHash)] (MainNode R)"

definition GetExistReturnDepositTransactions_rpc :: "'c rpc_env \<Rightarrow> string list \<Rightarrow> go_error + string list" where
  "GetExistReturnDepositTransactions_rpc R txs =
     call_for R as_strings ''getexistreturndeposittransactions'' (txs_param txs) (MainNode R)"

definition GetExistDepositTransactions_rpc :: "'c rpc_env \<Rightarrow> string list \<Rightarrow> 'c \<Rightarrow> go_error + string list" where
  "GetExistDepositTransactions_rpc R txs node = call_for R as_strings ''getexistdeposittransactions'' (txs_param txs) node"

definition GetWithdrawUTXOsByAmount_rpc :: "'c rpc_env \<Rightarrow> string \<Rightarrow> fixed64 \<Rightarrow> 'c \<Rightarrow> go_error + utxo_info list" where
  "GetWithdrawUTXOsByAmount_rpc R genesisAddress amount node =
     call_for R (DecodeUtxos R) ''getutxosbyamount''
       [(''address'', JStr genesisAddress), (''amount'', JStr (FixedString R amount))] node"

definition GetReferenceAddress :: "'c rpc_env \<Rightarrow> string \<Rightarrow> int \<Rightarrow> 'c \<Rightarrow> go_error + string" where
  "GetReferenceAddress R txid index node =
     (case CallAndUnmarshal R ''getreferenceaddress'' [(''txid'', JStr txid), (''index'', JNum (index, 0))] node of
        Inl e \<Rightarrow> Inl e
      | Inr (JStr a) \<Rightarrow> Inr a
      | Inr _ \<Rightarrow> Inl (Err ''invalid data type''))"

definition GetAmountByInputs_rpc :: "'c rpc_env \<Rightarrow> tx_input list \<Rightarrow> 'c \<Rightarrow> go_error + fixed64" where
  "GetAmountByInputs_rpc R inputs node =
     (case SerializeInputs R inputs of
        None \<Rightarrow> Inl ExtErr
      | Some buf \<Rightarrow>
          (case CallAndUnmarshal R ''getamountbyinputs'' [(''inputs'', JStr (BytesToHexString (rC R) buf))] node of
             Inl e \<Rightarrow> Inl e
           | Inr (JStr a) \<Rightarrow> (case StringToFixed64 (rA R) a of None \<Rightarrow> Inl ExtErr | Some amount \<Rightarrow> Inr amount)
           | Inr _ \<Rightarrow> Inl (Err ''get amount by inputs failed'')))"

definition GetUnspentUtxo_rpc :: "'c rpc_env \<Rightarrow> string list \<Rightarrow> 'c \<Rightarrow> go_error + utxo_info list" where
  "GetUnspentUtxo_rpc R addresses node =
     call_for R (DecodeUtxos R) ''listunspent'' [(''addresses'', JArr (map JStr addresses))] node"

definition GetTransaction_rpc :: "'c rpc_env \<Rightarrow> string \<Rightarrow> 'c \<Rightarrow> go_error + transaction" where
  "GetTransaction_rpc R tx node =
     (case CallAndUnmarshalResponse R ''getrawtransaction'' [(''txid'', JStr tx)] node of
        Inl e \<Rightarrow> Inl (Err ''[MoniterFailedDepositTransfer] Unable to call getfaileddeposittransactions rpc '')
      | Inr resp \<Rightarrow>
          (case Result resp of
             JStr rawTx \<Rightarrow>
               (case HexStringToBytes (rC R) rawTx of
                  None \<Rightarrow> Inl (Err ''[MoniterFailedDepositTransfer] Invalid data from GetSmallCrossTransferTxs '')
                | Some buf \<Rightarrow>
                    (case GetTransactionByBytes (rT R) buf of
                       (Inl e, _) \<Rightarrow> Inl ExtErr
                     | (Inr blank, rest) \<Rightarrow>
                         (case TxDeserialize (rT R) blank rest of
                            (Inl e, _) \<Rightarrow> Inl (Err ''[MoniterFailedDepositTransfer] Decode transaction error '')
                          | (Inr txn, _) \<Rightarrow> Inr txn)))
           | _ \<Rightarrow> Inl (Err ''[MoniterFailedDepositTransfer] Getrawtransaction rpc result not correct '')))"

text \<open>What the callers look at in a response.\<close>

definition seen_response :: "rpc_response \<Rightarrow> rpc_resp" where
  "seen_response r = \<lparr>RespError = (RpcError r \<noteq> None),
     RespCode = (case RpcError r of None \<Rightarrow> 0 | Some e \<Rightarrow> ErrorCode e), RespResult = (Result r \<noteq> JNull)\<rparr>"

section \<open>The nodes as the rest of the program sees them\<close>

text \<open>The failed deposits of a height are asked for in \<open>sidechainaccountmoniter.go\<close> (with the height as a number), the two sendings in
  \<open>arbitrator.go\<close> and \<open>sidechainimpl.go\<close>.\<close>

definition GetFailedDepositTransactions_rpc :: "'c rpc_env \<Rightarrow> u32 \<Rightarrow> 'c \<Rightarrow> go_error + string list" where
  "GetFailedDepositTransactions_rpc R height node =
     call_for R as_strings ''getfaileddeposittransactions'' [(''height'', JNum (uint height, 0))] node"

definition rpc_nodes :: "'c rpc_env \<Rightarrow> nodes" where
  "rpc_nodes R =
     \<lparr>GetAmountByInputs = (\<lambda>ins. GetAmountByInputs_rpc R ins (MainNode R)),
      GetTransaction = (\<lambda>tx. GetTransaction_rpc R tx (MainNode R)),
      SendRawTransaction = (\<lambda>data. map_sum id seen_response
        (CallAndUnmarshalResponse R ''sendrawtransaction'' (Param_string ''data'' data) (MainNode R))),
      GetWithdrawUTXOs = (\<lambda>a v. GetWithdrawUTXOsByAmount_rpc R a v (MainNode R)),
      MainNodeHeight = GetCurrentHeight_rpc R (MainNode R),
      GetExistWithdrawTransactions = GetExistWithdrawTransactions_rpc R,
      GetWithdrawTransaction = (\<lambda>k h. GetTransactionInfoByHash R h (SideNode R k)),
      GetFailedDepositTransaction = (\<lambda>k h. GetDepositTransactionInfoByHash R h (SideNode R k)),
      GetExistDepositTransactions = (\<lambda>k txs. GetExistDepositTransactions_rpc R txs (SideNode R k)),
      SendTransaction = (\<lambda>k h. map_sum id seen_response
        (CallAndUnmarshalResponse R ''sendrechargetransaction'' (Param_string ''txid'' (HashString (rA R) h)) (SideNode R k))),
      GetRegisterTransactionByHeight = GetRegisterTransactionByHeight_rpc R (MainNode R),
      GetExistReturnDepositTransactions = GetExistReturnDepositTransactions_rpc R,
      GetCanNFTDestroyIDs = GetCanNFTDestroyIDs_rpc R,
      SideNodeHeight = (\<lambda>k. GetCurrentHeight_rpc R (SideNode R k)),
      GetWithdrawTransactionByHeight = (\<lambda>k h. GetWithdrawTransactionByHeight_rpc R h (SideNode R k)),
      GetIllegalEvidenceByHeight = (\<lambda>k h. GetIllegalEvidenceByHeight_rpc R h (SideNode R k)),
      GetFailedDepositTransactions = (\<lambda>k h. GetFailedDepositTransactions_rpc R h (SideNode R k)),
      GetNFTDestroyTransactionByHeight = (\<lambda>k h. GetNFTDestroyTransactionByHeight_rpc R h (SideNode R k))\<rparr>"

end
