(* ===== verification/Props_Rpc.thy ===== *)
theory Props_Rpc
  imports Rpc_Client Props_Cross
begin

text \<open>
  Properties of the JSON-RPC client: the turns of the arbiters of the static list.
\<close>

section \<open>Sorting\<close>

lemma string_less_asym: "string_less a b \<Longrightarrow> \<not> string_less b a"
  by (induction a b rule: string_less.induct) (auto split: if_splits)

lemma string_less_char: "(of_char x :: nat) = of_char y \<longleftrightarrow> x = y"
  by simp

lemma string_less_total: "\<not> string_less a b \<Longrightarrow> \<not> string_less b a \<Longrightarrow> a = b"
proof (induction a b rule: string_less.induct)
  case (4 x xs y ys)
  have "x = y" using 4(2,3) by (metis linorder_neqE_nat of_char_eq_iff string_less.simps(4))
  with 4 show ?case by (auto split: if_splits)
qed auto

lemma string_less_trans: "string_less a b \<Longrightarrow> string_less b c \<Longrightarrow> string_less a c"
proof (induction a b arbitrary: c rule: string_less.induct)
  case (2 y ys)
  then show ?case by (cases c) auto
next
  case (4 x xs y ys)
  then show ?case by (cases c) (auto split: if_splits)
qed auto

definition not_after :: "string \<Rightarrow> string \<Rightarrow> bool" where
  "not_after a b \<longleftrightarrow> \<not> string_less b a"

lemma not_after_trans: "not_after a b \<Longrightarrow> not_after b c \<Longrightarrow> not_after a c"
  unfolding not_after_def using string_less_trans string_less_total by metis

lemma mset_insert_string: "mset (insert_string s ts) = add_mset s (mset ts)"
  by (induction ts) simp_all

lemma sorted_insert_string: "sorted_wrt not_after ts \<Longrightarrow> sorted_wrt not_after (insert_string s ts)"
proof (induction ts)
  case (Cons t ts)
  have set: "set (insert_string s ts) = insert s (set ts)"
    by (metis mset_insert_string set_mset_add_mset_insert set_mset_mset)
  show ?case
  proof (cases "string_less t s")
    case True
    then have "not_after t s" using string_less_asym by (simp add: not_after_def)
    with Cons True show ?thesis by (simp add: set)
  next
    case False
    then have "not_after s t" by (simp add: not_after_def)
    with Cons False show ?thesis using not_after_trans by auto
  qed
qed simp

lemma sort_strings_mset [simp]: "mset (sort_strings xs) = mset xs"
  by (induction xs) (simp_all add: sort_strings_def mset_insert_string)

lemma sort_strings_sorted: "sorted_wrt not_after (sort_strings xs)"
  by (induction xs) (simp_all add: sort_strings_def sorted_insert_string)

lemma sort_strings_length [simp]: "length (sort_strings xs) = length xs"
  using mset_eq_length [OF sort_strings_mset] .

section \<open>The arbiter on duty\<close>

lemma static_group:
  assumes "CRCOnlyDPOSHeight R \<le> height + 1" "uint height + int k < uint (ClaimHeight R)" "CRCCrossChainArbiters R \<noteq> []"
  shows "GetArbitratorGroupInfoByHeight_rpc R (height + of_nat k) =
    Done (sort_strings (CRCCrossChainArbiters R),
      (uint height + 1 - uint (CRCOnlyDPOSHeight R) + int k) mod int (length (CRCCrossChainArbiters R)))"
proof -
  let ?c = "CRCOnlyDPOSHeight R" and ?h = "height + of_nat k"
  have max: "uint (ClaimHeight R) < 2 ^ 32" using uint_lt2p [of "ClaimHeight R"] by simp
  have "int k < 2 ^ 32" using assms(2) max uint_ge_0 [of height] by linarith
  then have "uint (of_nat k :: u32) = int k" by (simp add: unsigned_of_nat take_bit_nat_eq_self_iff)
  then have h: "uint ?h = uint height + int k" using assms(2) max by (subst uint_add_lem [THEN iffD1]) auto
  have h1: "uint (?h + 1) = uint height + int k + 1" using h assms(2) max by (subst uint_add_lem [THEN iffD1]) auto
  have hh: "uint (height + 1) = uint height + 1" using assms(2) max by (subst uint_add_lem [THEN iffD1]) auto
  have c: "uint ?c \<le> uint height + 1" using assms(1) hh by (simp add: word_le_def)
  have "\<not> ?h + 1 < ?c" using h1 c by (simp add: word_less_def)
  moreover have "?h < ClaimHeight R" using h assms(2) by (simp add: word_less_def)
  moreover have "?h - ?c + 1 = ?h + 1 - ?c" by simp
  moreover have "uint (?h + 1 - ?c) = uint height + 1 - uint ?c + int k"
    using h1 c by (subst uint_sub_lem [THEN iffD1]) auto
  moreover have "sort_strings (CRCCrossChainArbiters R) \<noteq> []"
    using assms(3) sort_strings_length [of "CRCCrossChainArbiters R"] by (metis length_0_conv)
  ultimately show ?thesis by (simp only: GetArbitratorGroupInfoByHeight_rpc_def Let_def if_False if_True sort_strings_length)
qed

lemma one_turn_each:
  fixes b :: int
  assumes "j < n"
  shows "\<exists>!k. k < n \<and> (b + int k) mod int n = int j"
proof
  let ?k = "nat ((int j - b) mod int n)"
  have k: "int ?k = (int j - b) mod int n" using assms by simp
  have "(b + int ?k) mod int n = int j mod int n" unfolding k by (simp add: mod_simps)
  moreover have "?k < n" using k assms by (metis nat_less_iff pos_mod_bound pos_mod_sign of_nat_0_less_iff less_nat_zero_code not_gr_zero)
  ultimately show "?k < n \<and> (b + int ?k) mod int n = int j" using assms by simp
  fix k assume "k < n \<and> (b + int k) mod int n = int j"
  then show "k = ?k" using assms by (metis (no_types) mod_diff_left_eq add_diff_cancel_left' mod_pos_pos_trivial
      nat_int of_nat_0_le_iff of_nat_less_iff)
qed

text \<open>C35: While the arbiters come from the configured list, the arbiter on duty is found without the main chain node:
  the list is put in order, and in any stretch of as many heights as there are arbiters each of them is on duty at exactly one height.\<close>

theorem on_duty_in_turn:
  assumes "CRCOnlyDPOSHeight R \<le> height + 1" "uint height + int n \<le> uint (ClaimHeight R)"
    and "n = length (CRCCrossChainArbiters R)" "j < n"
  shows "let arbs = sort_strings (CRCCrossChainArbiters R) in
    mset arbs = mset (CRCCrossChainArbiters R) \<and> sorted_wrt not_after arbs \<and>
    (\<exists>!k. k < n \<and> (\<exists>i. GetArbitratorGroupInfoByHeight_rpc R (height + of_nat k) = Done (arbs, i) \<and>
      GetOnDutyArbitratorOfMain (g\<lparr>arbitrators := arbs, onDutyArbitratorIndex := i\<rparr>) = Done (arbs ! j) \<and> i = int j))"
proof -
  let ?arbs = "sort_strings (CRCCrossChainArbiters R)" and ?b = "uint height + 1 - uint (CRCOnlyDPOSHeight R)"
  have "(\<exists>i. GetArbitratorGroupInfoByHeight_rpc R (height + of_nat k) = Done (?arbs, i) \<and>
      GetOnDutyArbitratorOfMain (g\<lparr>arbitrators := ?arbs, onDutyArbitratorIndex := i\<rparr>) = Done (?arbs ! j) \<and> i = int j) \<longleftrightarrow>
      (?b + int k) mod int n = int j" if "k < n" for k
  proof -
    have "uint height + int k < uint (ClaimHeight R)" "CRCCrossChainArbiters R \<noteq> []" using assms that by auto
    from static_group [OF assms(1) this] show ?thesis
      using assms(3,4) by (auto simp: GetOnDutyArbitratorOfMain_def)
  qed
  then have "(\<exists>!k. k < n \<and> (\<exists>i. GetArbitratorGroupInfoByHeight_rpc R (height + of_nat k) = Done (?arbs, i) \<and>
      GetOnDutyArbitratorOfMain (g\<lparr>arbitrators := ?arbs, onDutyArbitratorIndex := i\<rparr>) = Done (?arbs ! j) \<and> i = int j)) \<longleftrightarrow>
      (\<exists>!k. k < n \<and> (?b + int k) mod int n = int j)" by (metis (no_types, lifting))
  then show ?thesis using one_turn_each [OF assms(4), of ?b] by (simp add: Let_def sort_strings_sorted)
qed

section \<open>A concrete case\<close>

definition rpc_env0 :: "unit rpc_env" where
  "rpc_env0 = \<lparr>rC = crypto0, rA = addr0, rT = ops0, Post = (\<lambda>_ _ _. NoAnswer), MainNode = (), SideNode = (\<lambda>_. ()),
     CRCOnlyDPOSHeight = 5, ClaimHeight = 100, PeersHeight = 200, OriginCrossChainArbiters = [''o''],
     CRCCrossChainArbiters = [''c'', ''a'', ''b''], FixedString = (\<lambda>_. []), SerializeInputs = (\<lambda>_. None),
     GetGenesisAddressOf = (\<lambda>_. None), DecodePeers = (\<lambda>_. None), DecodeGroup = (\<lambda>_. None), DecodeWithdraw = (\<lambda>_. None),
     DecodeWithdraws = (\<lambda>_. None), DecodeNFTs = (\<lambda>_. None), DecodeEvidences = (\<lambda>_. None), DecodeUtxos = (\<lambda>_. None),
     DecodeRegistrations = (\<lambda>_. None)\<rparr>"

theorem on_duty_in_turn_witness:
  "sort_strings (CRCCrossChainArbiters rpc_env0) = [''a'', ''b'', ''c''] \<and>
   (\<exists>!k. k < 3 \<and> (\<exists>i. GetArbitratorGroupInfoByHeight_rpc rpc_env0 (20 + of_nat k) = Done ([''a'', ''b'', ''c''], i) \<and>
      GetOnDutyArbitratorOfMain (group0\<lparr>arbitrators := [''a'', ''b'', ''c''], onDutyArbitratorIndex := i\<rparr>) = Done ''b'' \<and> i = 1))"
proof -
  have "sort_strings (CRCCrossChainArbiters rpc_env0) = [''a'', ''b'', ''c'']" by (simp add: rpc_env0_def sort_strings_def)
  with on_duty_in_turn [of rpc_env0 20 3 1 group0] show ?thesis by (simp add: Let_def) (simp add: rpc_env0_def)
qed

end
