(* ===== verification/Rpc_Server.thy ===== *)
theory Rpc_Server
  imports Registrations Rpc_Client Mining
begin

text \<open>
  The JSON-RPC server (\<open>net/servers\<close>, \<open>net/servers/httpjsonrpc/server.go\<close>, \<open>errors/errcode.go\<close>) with the complaints it takes
  (\<open>arbitration/complain/complainsolvingimpl.go\<close>): which requests are admitted, which method they reach, and what the
  methods answer and change. The HTTP library catches a panic of a method; the client gets no answer then.
\<close>

section \<open>Parameters\<close>

type_synonym params = "(string \<times> json) list"

text \<open>More values than names panic.\<close>

definition FromArray :: "json list \<Rightarrow> string list \<Rightarrow> params option" where
  "FromArray vs names =
     (if length names < length vs then None else Some (fold (\<lambda>(k, v). AList.update k v) (zip names vs) []))"

text \<open>\<open>strconv.ParseUint\<close> and \<open>ParseInt\<close> with base 10 and 64 bits.\<close>

fun digits_value :: "nat \<Rightarrow> string \<Rightarrow> nat option" where
  "digits_value acc [] = Some acc"
| "digits_value acc (c # cs) =
     (let d = of_char c in if 48 \<le> d \<and> d \<le> 57 then digits_value (acc * 10 + (d - 48)) cs else None)"

definition ParseUint :: "string \<Rightarrow> nat option" where
  "ParseUint s =
     (if s = [] then None
      else (case digits_value 0 s of None \<Rightarrow> None | Some n \<Rightarrow> if n < 2 ^ 64 then Some n else None))"

definition ParseInt :: "string \<Rightarrow> int option" where
  "ParseInt s =
     (case s of
        [] \<Rightarrow> None
      | c # cs \<Rightarrow>
          if c = CHR ''-'' then (case ParseUint cs of None \<Rightarrow> None | Some n \<Rightarrow> if n \<le> 2 ^ 63 then Some (- int n) else None)
          else (case ParseUint (if c = CHR ''+'' then cs else s) of
                  None \<Rightarrow> None | Some n \<Rightarrow> if n < 2 ^ 63 then Some (int n) else None))"

text \<open>What the conversion to an integer makes of a float: its integer part, modulo the width where Go leaves it open.\<close>

definition float_trunc :: "float64 \<Rightarrow> int" where
  "float_trunc x = (if 0 \<le> fst x then float_floor x else - float_floor (- fst x, snd x))"

definition Params_Int :: "string \<Rightarrow> params \<Rightarrow> 64 word option" where
  "Params_Int field p =
     (case map_of p field of
        Some (JNum v) \<Rightarrow> Some (word_of_int (float_trunc v))
      | Some (JStr s) \<Rightarrow> map_option word_of_int (ParseInt s)
      | _ \<Rightarrow> None)"

definition Params_Uint :: "string \<Rightarrow> params \<Rightarrow> u32 option" where
  "Params_Uint field p =
     (case map_of p field of
        Some (JNum v) \<Rightarrow> if fst v < 0 then None else Some (word_of_int (float_trunc v))
      | Some (JStr s) \<Rightarrow> map_option word_of_nat (ParseUint s)
      | _ \<Rightarrow> None)"

definition Params_Float :: "(string \<Rightarrow> float64 option) \<Rightarrow> string \<Rightarrow> params \<Rightarrow> float64 option" where
  "Params_Float parse field p =
     (case map_of p field of Some (JNum v) \<Rightarrow> Some v | Some (JStr s) \<Rightarrow> parse s | _ \<Rightarrow> None)"

definition Params_Bool :: "string \<Rightarrow> params \<Rightarrow> bool option" where
  "Params_Bool key p = (case map_of p key of Some (JBool b) \<Rightarrow> Some b | _ \<Rightarrow> None)"

definition Params_String :: "string \<Rightarrow> params \<Rightarrow> string option" where
  "Params_String key p = (case map_of p key of Some (JStr s) \<Rightarrow> Some s | _ \<Rightarrow> None)"

fun only_string :: "json \<Rightarrow> string option" where
  "only_string (JStr s) = Some s" | "only_string _ = None"

definition Params_ArrayString :: "string \<Rightarrow> params \<Rightarrow> string list option" where
  "Params_ArrayString key p = (case map_of p key of Some (JArr vs) \<Rightarrow> those (map only_string vs) | _ \<Rightarrow> None)"

definition checkParam :: "params \<Rightarrow> string list \<Rightarrow> bool" where
  "checkParam p keys \<longleftrightarrow> length keys \<le> length p \<and> list_all (\<lambda>k. Params_String k p \<noteq> None) keys"

section \<open>Answers\<close>

datatype err_code = ErrUnclassified | Success | InvalidMethod | InvalidParams | InvalidToken | InvalidTransaction
  | UnknownTransaction | UnknownBlock | InternalError

fun code_number :: "err_code \<Rightarrow> int" where
  "code_number ErrUnclassified = - 1" | "code_number Success = 0" | "code_number InvalidMethod = 42001"
| "code_number InvalidParams = 42002" | "code_number InvalidToken = 42003" | "code_number InvalidTransaction = 43001"
| "code_number UnknownTransaction = 44001" | "code_number UnknownBlock = 44003" | "code_number InternalError = 45002"

fun code_message :: "err_code \<Rightarrow> string" where
  "code_message ErrUnclassified = ''Unclassified error''" | "code_message Success = ''Success''"
| "code_message InvalidMethod = ''Invalid method''" | "code_message InvalidParams = ''Invalid Params''"
| "code_message InvalidToken = ''Verify token error''" | "code_message InvalidTransaction = ''Invalid transaction''"
| "code_message UnknownTransaction = ''Unknown Transaction''" | "code_message UnknownBlock = ''Unknown Block''"
| "code_message InternalError = ''Internal error''"

definition ResponsePack :: "err_code \<Rightarrow> json \<Rightarrow> err_code \<times> json" where
  "ResponsePack code v = (code, if code \<noteq> Success \<and> (v = JStr '''' \<or> v = JNull) then JStr (code_message code) else v)"

definition number :: "int \<Rightarrow> json" where "number n = JNum (n, 0)"

section \<open>State and surroundings\<close>

record server_state =
  SrvManager :: manager_state
  SrvMining :: mining_state

record peer_dump =
  PeerKey :: bytes
  PeerAddr :: string
  ConnState :: string
  NodeVersion :: string

record server_env =
  sG :: manager_env
  DecodeInfo :: "bytes \<Rightarrow> register_info option"       \<comment> \<open>\<open>json.Unmarshal\<close> into \<open>RegisterSidechainRpcInfo\<close>\<close>
  HasSolver :: bool                                   \<comment> \<open>\<open>complain.ComplainSolver\<close> is not nil\<close>
  ConfigNumber :: "string \<Rightarrow> int"                     \<comment> \<open>a number of \<open>config.Parameters\<close>, by its field\<close>
  GitVersion :: string
  SpvBest :: "u32 option"
  PeersInfo :: "peer_dump list"
  ShowPeersIp :: bool
  WhiteIPList :: "string list"
  ServerUser :: string
  ServerPass :: string
  Base64 :: "string \<Rightarrow> string"
  Sha256 :: "string \<Rightarrow> bytes"

abbreviation sX :: "server_env \<Rightarrow> cross_env" where "sX S \<equiv> gX (sG S)"
abbreviation srv_db :: "server_state \<Rightarrow> db_cache" where "srv_db st \<equiv> MgrDb (SrvManager st)"

definition set_db :: "db_cache \<Rightarrow> server_state \<Rightarrow> server_state" where
  "set_db db st = st\<lparr>SrvManager := (SrvManager st)\<lparr>MgrDb := db\<rparr>\<rparr>"

type_synonym handler = "params \<Rightarrow> server_state \<Rightarrow> (err_code \<times> json) outcome \<times> server_state"

definition answer :: "err_code \<Rightarrow> json \<Rightarrow> server_state \<Rightarrow> (err_code \<times> json) outcome \<times> server_state" where
  "answer code v st = (Done (ResponsePack code v), st)"

section \<open>Methods\<close>

text \<open>The result of \<open>OnReceivedRegisteredSideChain\<close> is not looked at.\<close>

definition SetRegisterSideChainRPCInfo :: "server_env \<Rightarrow> (nat \<Rightarrow> db_io) \<Rightarrow> handler" where
  "SetRegisterSideChainRPCInfo S ios p st =
     (case Params_String ''data'' p of
        None \<Rightarrow> answer InvalidParams (JStr ''need a string parameter named data'') st
      | Some str \<Rightarrow>
          (case HexStringToBytes (xC (sX S)) str of
             None \<Rightarrow> answer InvalidParams (JStr ''hex string to bytes error'') st
           | Some bys \<Rightarrow>
               (case DecodeInfo S bys of
                  None \<Rightarrow> answer InvalidParams (JStr ''can not unmarshal bytes'') st
                | Some info \<Rightarrow>
                    (case OnReceivedRegisteredSideChain (sG S) ios info (SrvManager st) of
                       (_, m) \<Rightarrow> answer Success (JStr '''') (st\<lparr>SrvManager := m\<rparr>)))))"

text \<open>Complaints. The transaction that \<open>CreateComplainTransaction\<close> returns is nil, and \<open>AcceptComplain\<close> calls its \<open>Serialize\<close>.\<close>

record complain_item =
  UserAddress :: string
  ComplainGenesis :: string
  ComplainHash :: uint256
  IsFromMainBlock :: bool

definition CreateComplainTransaction :: "complain_item \<Rightarrow> go_error + transaction option" where
  "CreateComplainTransaction item = Inr None"

definition AcceptComplain :: "tx_ops \<Rightarrow> string \<Rightarrow> string \<Rightarrow> uint256 \<Rightarrow> bytes outcome" where
  "AcceptComplain T userAddress genesisBlockHash transactionHash =
     (case CreateComplainTransaction \<lparr>UserAddress = userAddress, ComplainGenesis = genesisBlockHash,
             ComplainHash = transactionHash, IsFromMainBlock = (genesisBlockHash = [])\<rparr> of
        Inl e \<Rightarrow> Fail e
      | Inr None \<Rightarrow> Panic
      | Inr (Some tx) \<Rightarrow> Done (snd (TxSerialize T tx)))"

definition complained_hash :: "cross_env \<Rightarrow> params \<Rightarrow> uint256 option" where
  "complained_hash X p =
     (case Params_String ''transactionhash'' p of
        None \<Rightarrow> None
      | Some s \<Rightarrow>
          Uint256FromBytes (xA X) (BytesReverse (xA X) (case HexStringToBytes (xC X) s of None \<Rightarrow> [] | Some bs \<Rightarrow> bs)))"

definition SubmitComplain :: "server_env \<Rightarrow> handler" where
  "SubmitComplain S p st =
     (if \<not> checkParam p [''fromaddress'', ''transactionhash''] then answer InvalidParams (JStr '''') st
      else (case (complained_hash (sX S) p, Params_String ''fromaddress'' p) of
        (Some txHash, Some fromAddress) \<Rightarrow>
          (let blockHashItem = (case map_of p ''chaingenesisblockhash'' of None \<Rightarrow> JStr '''' | Some v \<Rightarrow> v)
           in case only_string blockHashItem of
                None \<Rightarrow> (Panic, st)
              | Some blockHash \<Rightarrow>
                  if \<not> HasSolver S then (Panic, st)
                  else (case AcceptComplain (xT (sX S)) fromAddress blockHash txHash of
                    Done content \<Rightarrow> answer Success (JStr '''') st     \<comment> \<open>\<open>BroadcastComplainSolving\<close> does nothing\<close>
                  | Fail e \<Rightarrow> answer InvalidTransaction (JStr '''') st
                  | _ \<Rightarrow> (Panic, st)))
      | _ \<Rightarrow> answer InvalidParams (JStr '''') st))"

text \<open>The status: none, solving, rejected, done are 0 to 3. Each store takes three calls.\<close>

fun complain_status :: "wire \<Rightarrow> (nat \<Rightarrow> db_io) \<Rightarrow> nat \<Rightarrow> string \<Rightarrow> finished_store \<Rightarrow> side_store list \<Rightarrow> int" where
  "complain_status W ios k hash fin [] = 0"
| "complain_status W ios k hash fin (s # ss) =
     (case GetSideChainTxsFromHashes W (ios k) [hash] s of
        Inr (t # ts) \<Rightarrow> 1
      | _ \<Rightarrow>
          (case GetDepositTxByHash (ios (k + 1)) hash fin of
             Inr (succeed # rest, _) \<Rightarrow> if True \<in> set (succeed # rest) then 3 else 2
           | _ \<Rightarrow>
               (case GetWithdrawTxByHash (ios (k + 2)) hash fin of
                  Inr (succeed, _) \<Rightarrow> if succeed then 3 else 2
                | Inl e \<Rightarrow> complain_status W ios (k + 3) hash fin ss)))"

definition GetComplainStatus :: "server_env \<Rightarrow> (nat \<Rightarrow> db_io) \<Rightarrow> handler" where
  "GetComplainStatus S ios p st =
     (if \<not> checkParam p [''transactionhash''] then answer InvalidParams (JStr '''') st
      else (case complained_hash (sX S) p of
        None \<Rightarrow> answer InvalidParams (JStr '''') st
      | Some txHash \<Rightarrow>
          if \<not> HasSolver S then (Panic, st)
          else answer Success (number (complain_status (xW (sX S)) ios 0 (HashString (xA (sX S)) txHash)
                 (FinishedTxsDbCache (srv_db st)) (SideChainStore (srv_db st)))) st))"

definition GetInfo :: "server_env \<Rightarrow> handler" where
  "GetInfo S p st = 
     answer Success (JObj ((''version'', number (ConfigNumber S ''Version'')) #
       map (\<lambda>k. (k, number (ConfigNumber S k)))
         [''SideChainMonitorScanInterval'', ''ClearTransactionInterval'', ''MinOutbound'', ''MaxConnections'',
          ''SideAuxPowFee'', ''MinThreshold'', ''DepositAmount''])) st"

text \<open>The genesis hash that a request names, reversed.\<close>

definition genesis_param :: "server_env \<Rightarrow> params \<Rightarrow> string + uint256" where
  "genesis_param S p =
     (case Params_String ''hash'' p of
        None \<Rightarrow> Inl ''need a string parameter named hash''
      | Some s \<Rightarrow>
          (case HexStringToBytes (xC (sX S)) s of
             None \<Rightarrow> Inl ''invalid genesis block hash''
           | Some bs \<Rightarrow>
               (case Uint256FromHexString (xA (sX S)) (BytesToHexString (xC (sX S)) (BytesReverse (xA (sX S)) bs)) of
                  None \<Rightarrow> Inl ''invalid genesis block hash''
                | Some h \<Rightarrow> Inr h)))"

definition GetSideMiningInfo :: "server_env \<Rightarrow> handler" where
  "GetSideMiningInfo S p st =
     (case genesis_param S p of
        Inl msg \<Rightarrow> answer InvalidParams (JStr msg) st
      | Inr h \<Rightarrow>
          (case (lastSendSideMiningHeight (SrvMining st) h, lastNotifySideMiningHeight (SrvMining st) h,
                 lastSubmitAuxpowHeight (SrvMining st) h) of
             (Some send, Some notified, Some submitted) \<Rightarrow>
               answer Success (JObj [(''LastSendSideMiningHeight'', number (uint send)),
                 (''LastNotifySideMiningHeight'', number (uint notified)), (''LastSubmitAuxpowHeight'', number (uint submitted))]) st
           | _ \<Rightarrow> answer InvalidParams (JStr ''genesis block hash not matched'') st))"

definition GetMainChainBlockHeight :: "(nat \<Rightarrow> db_io) \<Rightarrow> handler" where
  "GetMainChainBlockHeight ios p st =
     (case Main_CurrentHeight (ios 0) QueryHeightCode (MainChainStore (srv_db st)) of
        (h, ms) \<Rightarrow> answer Success (number (uint h)) (set_db ((srv_db st)\<lparr>MainChainStore := ms\<rparr>) st))"

definition GetSideChainBlockHeight :: "server_env \<Rightarrow> (nat \<Rightarrow> db_io) \<Rightarrow> handler" where
  "GetSideChainBlockHeight S ios p st =
     (case genesis_param S p of
        Inl msg \<Rightarrow> answer InvalidParams (JStr msg) st
      | Inr h \<Rightarrow>
          (case GetGenesisAddress (sG S) h of
             None \<Rightarrow> answer InvalidParams (JStr ''invalid genesis block hash'') st
           | Some address \<Rightarrow>
               (case GetDataStoreGenesisBlocAddress address (srv_db st) of
                  None \<Rightarrow> answer InvalidParams (JStr ''invalid genesis block hash'') st
                | Some s \<Rightarrow>
                    answer Success (number (uint (fst (CurrentSideHeight (ios 0) QueryHeightCode s))))
                      (set_db (on_address address (\<lambda>s. snd (CurrentSideHeight (ios 0) QueryHeightCode s)) (srv_db st)) st))))"

text \<open>A list without elements is the nil slice.\<close>

definition array :: "json list \<Rightarrow> json" where "array vs = (if vs = [] then JNull else JArr vs)"

definition GetFinishedDepositTxs :: "(nat \<Rightarrow> db_io) \<Rightarrow> handler" where
  "GetFinishedDepositTxs ios p st =
     (case Params_Bool ''succeed'' p of
        None \<Rightarrow> answer InvalidParams (JStr ''need a bool parameter named succeed'') st
      | Some succeed \<Rightarrow>
          (case GetDepositTxs (ios 0) succeed (FinishedTxsDbCache (srv_db st)) of
             Inl e \<Rightarrow> answer InvalidParams (JStr ''get deposit transactions from finished dbcache failed'') st
           | Inr (hashes, addresses) \<Rightarrow>
               answer Success (JObj [(''Transactions'', array (map (\<lambda>(h, a). JObj [(''Hash'', JStr h), (''GenesisBlockAddress'', JStr a)])
                 (zip hashes addresses)))]) st))"

definition GetFinishedWithdrawTxs :: "(nat \<Rightarrow> db_io) \<Rightarrow> handler" where
  "GetFinishedWithdrawTxs ios p st =
     (case Params_Bool ''succeed'' p of
        None \<Rightarrow> answer InvalidParams (JStr ''need a bool parameter named succeed'') st
      | Some succeed \<Rightarrow>
          (case GetWithdrawTxs (ios 0) succeed (FinishedTxsDbCache (srv_db st)) of
             Inl e \<Rightarrow> answer InvalidParams (JStr ''get withdraw transactions from finished dbcache failed'') st
           | Inr hashes \<Rightarrow> answer Success (JObj [(''Transactions'', array (map JStr hashes))]) st))"

definition GetGitVersion :: "server_env \<Rightarrow> handler" where
  "GetGitVersion S p st = answer Success (JStr (GitVersion S)) st"

definition GetSPVHeight :: "server_env \<Rightarrow> handler" where
  "GetSPVHeight S p st =
     (case SpvBest S of
        None \<Rightarrow> answer InternalError (JStr ''get spv best header failed'') st
      | Some h \<Rightarrow> answer Success (number (uint h)) st)"

definition peer_json :: "server_env \<Rightarrow> peer_dump \<Rightarrow> json" where
  "peer_json S d =
     JObj ([(''publickey'', JStr (BytesToHexString (xC (sX S)) (PeerKey d)))] @
       (if ShowPeersIp S \<and> PeerAddr d \<noteq> [] then [(''ip'', JStr (PeerAddr d))] else []) @
       [(''connstate'', JStr (ConnState d)), (''nodeversion'', JStr (NodeVersion d))])"

definition GetArbiterPeersInfo :: "server_env \<Rightarrow> handler" where
  "GetArbiterPeersInfo S p st = answer Success (JArr (map (peer_json S) (PeersInfo S))) st"

section \<open>Requests\<close>

definition mainMux :: "server_env \<Rightarrow> (nat \<Rightarrow> db_io) \<Rightarrow> (string \<times> handler) list" where
  "mainMux S ios =
     [(''submitcomplain'', SubmitComplain S),
      (''getcomplainstatus'', GetComplainStatus S ios),
      (''getinfo'', GetInfo S),
      (''getsidemininginfo'', GetSideMiningInfo S),
      (''getmainchainblockheight'', GetMainChainBlockHeight ios),
      (''getsidechainblockheight'', GetSideChainBlockHeight S ios),
      (''getfinisheddeposittxs'', GetFinishedDepositTxs ios),
      (''getfinishedwithdrawtxs'', GetFinishedWithdrawTxs ios),
      (''getgitversion'', GetGitVersion S),
      (''getspvheight'', GetSPVHeight S),
      (''getarbiterpeersinfo'', GetArbiterPeersInfo S),
      (''setregistersidechainrpcinfo'', SetRegisterSideChainRPCInfo S ios)]"

text \<open>The address that the remote side connects from, as \<open>net.ParseIP\<close> reads it; the body as \<open>json.Unmarshal\<close> reads it into a map.\<close>

record remote =
  IsLoopback :: bool
  IpText :: string

record http_request =
  Remote :: "remote option"
  HttpMethod :: string
  HasBody :: bool
  Authorization :: "string list"
  RequestBody :: "(string \<times> json) list option"

datatype http_reply = HttpError int string | NoReply | Reply json

definition clientAllowed :: "server_env \<Rightarrow> http_request \<Rightarrow> bool" where
  "clientAllowed S r =
     (case Remote r of
        None \<Rightarrow> False
      | Some remoteIp \<Rightarrow>
          IsLoopback remoteIp \<or> list_ex (\<lambda>cfgIp. cfgIp = ''0.0.0.0'' \<or> cfgIp = IpText remoteIp) (WhiteIPList S))"

definition checkAuth :: "server_env \<Rightarrow> http_request \<Rightarrow> bool" where
  "checkAuth S r =
     (if ServerUser S = ServerPass S \<and> ServerUser S = [] then True
      else (case Authorization r of
              [] \<Rightarrow> False
            | authHeader # _ \<Rightarrow> Sha256 S authHeader = Sha256 S (''Basic '' @ Base64 S (ServerUser S @ '':'' @ ServerPass S))))"

definition checkMethod :: "server_env \<Rightarrow> (nat \<Rightarrow> db_io) \<Rightarrow> (string \<times> json) list \<Rightarrow> handler option" where
  "checkMethod S ios request =
     (case map_of request ''method'' of Some (JStr m) \<Rightarrow> map_of (mainMux S ios) m | _ \<Rightarrow> None)"

definition checkParams :: "(string \<times> json) list \<Rightarrow> params option" where
  "checkParams request =
     (case map_of request ''params'' of
        None \<Rightarrow> Some [] | Some JNull \<Rightarrow> Some [] | Some (JObj ps) \<Rightarrow> Some ps | _ \<Rightarrow> None)"

definition error_reply :: "err_code \<Rightarrow> json" where
  "error_reply code = JObj [(''jsonpc'', JStr ''2.0''), (''code'', number (code_number code)), (''result'', JStr (code_message code))]"

definition response :: "(string \<times> json) list \<Rightarrow> err_code \<times> json \<Rightarrow> json" where
  "response request r =
     (let i = (case map_of request ''id'' of None \<Rightarrow> JNull | Some v \<Rightarrow> v)
      in if fst r \<noteq> Success
         then JObj [(''jsonrpc'', JStr ''2.0''), (''result'', JNull),
                (''error'', JObj [(''code'', number (code_number (fst r))), (''message'', snd r), (''id'', i)])]
         else JObj [(''jsonrpc'', JStr ''2.0''), (''result'', snd r), (''id'', i), (''error'', JNull)])"

definition Handle :: "server_env \<Rightarrow> (nat \<Rightarrow> db_io) \<Rightarrow> http_request \<Rightarrow> server_state \<Rightarrow> http_reply outcome \<times> server_state" where
  "Handle S ios r st =
     (if \<not> clientAllowed S r then (Done (HttpError 403 ''Client ip is not allowd''), st)
      else if HttpMethod r \<noteq> ''POST'' then (Done (HttpError 405 ''JSON RPC protocol only allows POST method''), st)
      else if \<not> HasBody r then (Done NoReply, st)
      else if \<not> checkAuth S r then (Done (HttpError 401 ''client authenticate failed''), st)
      else (case RequestBody r of
        None \<Rightarrow> (Done NoReply, st)
      | Some request \<Rightarrow>
          (case checkMethod S ios request of
             None \<Rightarrow> (Done (Reply (error_reply InvalidMethod)), st)
           | Some function \<Rightarrow>
               (case checkParams request of
                  None \<Rightarrow> (Done (Reply (error_reply InvalidParams)), st)
                | Some p \<Rightarrow>
                    (case function p st of
                       (Done v, st') \<Rightarrow> (Done (Reply (response request v)), st')
                     | (Fail e, st') \<Rightarrow> (Fail e, st')
                     | (Panic, st') \<Rightarrow> (Panic, st')
                     | (Blocked, st') \<Rightarrow> (Blocked, st'))))))"

end
