(* ===== verification/Props_Server.thy ===== *)
theory Props_Server
  imports Rpc_Server Props_Listeners Props_Registrations
begin

text \<open>
  Properties of the JSON-RPC server: what a request can change and who can send it, and three methods that
  cannot do what they are for.
\<close>

section \<open>What a request changes\<close>

definition admitted :: "server_env \<Rightarrow> http_request \<Rightarrow> bool" where
  "admitted S r \<longleftrightarrow>
     (\<exists>ip. Remote r = Some ip \<and> (IsLoopback ip \<or> ''0.0.0.0'' \<in> set (WhiteIPList S) \<or> IpText ip \<in> set (WhiteIPList S))) \<and>
     HttpMethod r = ''POST'' \<and>
     ((ServerUser S = [] \<and> ServerPass S = []) \<or>
      (\<exists>h hs. Authorization r = h # hs \<and> Sha256 S h = Sha256 S (''Basic '' @ Base64 S (ServerUser S @ '':'' @ ServerPass S))))"

text \<open>What reading the height of the main chain may leave in memory.\<close>

definition cached_height :: "server_state \<Rightarrow> server_state \<Rightarrow> bool" where
  "cached_height st st' \<longleftrightarrow> (\<exists>h. st' = set_db ((srv_db st)\<lparr>MainChainStore := (MainChainStore (srv_db st))\<lparr>mainChainHeight := h\<rparr>\<rparr>) st)"

lemma set_db_same [simp]: "set_db (srv_db st) st = st"
  by (simp add: set_db_def)

lemma main_height_query:
  "\<exists>h. snd (Main_CurrentHeight io QueryHeightCode ms) = ms\<lparr>mainChainHeight := h\<rparr>"
proof -
  have "ms\<lparr>MainInfo := MainInfo ms\<rparr> = ms" by simp
  then show ?thesis using height_op_query [of io "MainInfo ms"]
    by (auto simp: Main_CurrentHeight_def Let_def QueryHeightCode_def split: prod.split)
qed

lemma main_height_cached: "GetMainChainBlockHeight ios p st = (r, st') \<Longrightarrow> cached_height st st'"
  using main_height_query [of "ios 0" "MainChainStore (srv_db st)"]
  by (auto simp: GetMainChainBlockHeight_def answer_def cached_height_def split: prod.splits)

lemma side_height_query: "snd (CurrentSideHeight io QueryHeightCode s) = s"
  using height_op_query [of io "SideHeightInfo s"] by (auto simp: CurrentSideHeight_def Let_def split: prod.split)

lemma at_first_same: "(\<And>x. f x = x) \<Longrightarrow> at_first P f xs = xs"
  by (induction xs) auto

lemma side_height_same: "on_address a (\<lambda>s. snd (CurrentSideHeight io QueryHeightCode s)) db = db"
  by (simp add: on_address_def side_height_query at_first_same)

lemmas method_defs = answer_def SubmitComplain_def GetComplainStatus_def GetInfo_def GetSideMiningInfo_def
  GetSideChainBlockHeight_def GetFinishedDepositTxs_def GetFinishedWithdrawTxs_def GetGitVersion_def GetSPVHeight_def
  GetArbiterPeersInfo_def

lemma reading_methods:
  "SubmitComplain S p st = (r, st') \<Longrightarrow> st' = st"
  "GetComplainStatus S ios p st = (r, st') \<Longrightarrow> st' = st"
  "GetInfo S p st = (r, st') \<Longrightarrow> st' = st"
  "GetSideMiningInfo S p st = (r, st') \<Longrightarrow> st' = st"
  "GetSideChainBlockHeight S ios p st = (r, st') \<Longrightarrow> st' = st"
  "GetFinishedDepositTxs ios p st = (r, st') \<Longrightarrow> st' = st"
  "GetFinishedWithdrawTxs ios p st = (r, st') \<Longrightarrow> st' = st"
  "GetGitVersion S p st = (r, st') \<Longrightarrow> st' = st"
  "GetSPVHeight S p st = (r, st') \<Longrightarrow> st' = st"
  "GetArbiterPeersInfo S p st = (r, st') \<Longrightarrow> st' = st"
  by (auto simp: method_defs Let_def side_height_same split: if_splits option.splits prod.splits sum.splits outcome.splits)

lemma mux_changes:
  assumes "map_of (mainMux S ios) m = Some f" "f p st = (r, st')"
  shows "st' = st \<or> m = ''setregistersidechainrpcinfo'' \<or> (m = ''getmainchainblockheight'' \<and> cached_height st st')"
  using assms reading_methods main_height_cached by (auto simp: mainMux_def split: if_splits)

lemma allowed_admitted:
  "clientAllowed S r \<Longrightarrow> HttpMethod r = ''POST'' \<Longrightarrow> checkAuth S r \<Longrightarrow> admitted S r"
  by (auto simp: clientAllowed_def checkAuth_def admitted_def list_ex_iff split: option.splits list.splits if_splits)

lemma handled_request:
  assumes "Handle S ios r st = (reply, st')"
  shows "st' = st \<or> (admitted S r \<and> (\<exists>request m f p x. RequestBody r = Some request \<and> map_of request ''method'' = Some (JStr m) \<and>
     map_of (mainMux S ios) m = Some f \<and> f p st = (x, st')))"
proof (cases "clientAllowed S r \<and> HttpMethod r = ''POST'' \<and> checkAuth S r \<and> HasBody r")
  case True
  then have "admitted S r" using allowed_admitted by blast
  show ?thesis
  proof (cases "st' = st")
    case False
    with True assms obtain request f p where q: "RequestBody r = Some request" "checkMethod S ios request = Some f"
      "checkParams request = Some p" by (auto simp: Handle_def split: option.splits)
    then obtain m where m: "map_of request ''method'' = Some (JStr m)" "map_of (mainMux S ios) m = Some f"
      by (auto simp: checkMethod_def split: option.splits json.splits)
    have "\<exists>x. f p st = (x, st')" using assms True q by (cases "f p st") (auto simp: Handle_def split: outcome.splits)
    with \<open>admitted S r\<close> q m show ?thesis by blast
  qed simp
next
  case False
  with assms have "st' = st" unfolding Handle_def by (auto split: if_splits)
  then show ?thesis ..
qed

text \<open>C26: A request changes the state only when it comes from an allowed address, is a POST and has the
  configured login; and the only method that changes more than the cached height of the main chain is the registration of a side chain.\<close>

theorem only_admitted_requests_act:
  assumes "Handle S ios r st = (reply, st')"
  shows "st' = st \<or> (admitted S r \<and> (\<exists>request m. RequestBody r = Some request \<and> map_of request ''method'' = Some (JStr m) \<and>
     (m = ''setregistersidechainrpcinfo'' \<or> (m = ''getmainchainblockheight'' \<and> cached_height st st'))))"
  using handled_request [OF assms] mux_changes by metis

section \<open>Mining\<close>

text \<open>What changes the three maps of heights: the mining of a chain and the listener of announced blocks, both with
  chains whose reversed genesis hashes are none of the configured ones.\<close>

definition no_palindrome :: "mining_env \<Rightarrow> bool" where
  "no_palindrome M \<longleftrightarrow> (\<forall>c \<in> set (MiningNodes M). \<forall>c' \<in> set (MiningNodes M). GetGenesisBlock (mX M) c \<noteq> GenesisBlock c')"

inductive mining_step :: "mining_state \<Rightarrow> mining_state \<Rightarrow> bool" where
  mine: "StartSideChainMining M c st = (r, tx, st') \<Longrightarrow> mining_step st st'"
| announced: "no_palindrome (lM E) \<Longrightarrow> AuxpowListener_ProcessNotifyData E tasks st = (r, st') \<Longrightarrow> mining_step st st'"

lemma mining_keeps_submitted:
  assumes "StartSideChainMining M c st = (r, tx, st')"
  shows "lastSubmitAuxpowHeight st' = lastSubmitAuxpowHeight st"
proof -
  have "lastSubmitAuxpowHeight (snd (snd (sideChainPowTransfer M c st))) = lastSubmitAuxpowHeight st"
    by (simp add: sideChainPowTransfer_def split: sum.split option.split prod.split outcome.split)
  moreover have "snd (snd (StartSideChainMining M c st)) \<in> {st, snd (snd (sideChainPowTransfer M c st))}"
    by (simp add: StartSideChainMining_def split: prod.split outcome.split)
  ultimately show ?thesis using assms by auto
qed

lemma never_submitted:
  assumes "mining_step\<^sup>*\<^sup>* Init_mining st"
  shows "lastSubmitAuxpowHeight st = (\<lambda>_. None)"
  using assms
proof (induction rule: rtranclp_induct)
  case base
  show ?case by (simp add: Init_mining_def)
next
  case (step st st')
  from step.hyps(2) show ?case
  proof cases
    case (mine M c r tx)
    then show ?thesis using mining_keeps_submitted step.IH by metis
  next
    case (announced E tasks r)
    from announced(1) have "\<forall>c \<in> set (MiningNodes (lM E)). \<forall>c' \<in> set (MiningNodes (lM E)).
        GetGenesisBlock (lX E) c \<noteq> GenesisBlock c'" by (simp add: no_palindrome_def)
    from aux_keeps_submitted [OF this announced(2)] step.IH show ?thesis by simp
  qed
qed

text \<open>C29: As long as no reversed hash of a genesis block is the configured hash of one (\<open>no_palindrome\<close>), the method that tells
  how the mining of a side chain goes has no answer but an error, for any parameters and at any time: the third of its heights
  is set only when a proof has been submitted, which does not happen.\<close>

theorem mining_info_never_answered:
  assumes "mining_step\<^sup>*\<^sup>* Init_mining (SrvMining st)"
  shows "\<exists>message. GetSideMiningInfo S p st = (Done (InvalidParams, message), st)"
  using never_submitted [OF assms]
  by (auto simp: GetSideMiningInfo_def answer_def ResponsePack_def split: sum.split option.split)

section \<open>Complaints and registrations\<close>

text \<open>A complaint with all its parameters panics, whether there is a solver or not.\<close>

lemma complaints_panic:
  assumes "checkParam p [''fromaddress'', ''transactionhash'']" "complained_hash (sX S) p \<noteq> None"
  shows "SubmitComplain S p st = (Panic, st)"
proof -
  have "Params_String ''fromaddress'' p \<noteq> None" using assms(1) by (simp add: checkParam_def)
  with assms show ?thesis
    by (auto simp: SubmitComplain_def AcceptComplain_def CreateComplainTransaction_def Let_def split: option.splits)
qed

text \<open>The client is told that a registration has succeeded whatever has become of it.\<close>

lemma registration_error_hidden:
  assumes "Params_String ''data'' p = Some str" "HexStringToBytes (xC (sX S)) str = Some bys" "DecodeInfo S bys = Some info"
    and "OnReceivedRegisteredSideChain (sG S) ios info (SrvManager st) = (Some e, m)"
  shows "SetRegisterSideChainRPCInfo S ios p st = (Done (Success, JStr ''''), st\<lparr>SrvManager := m\<rparr>)"
  using assms by (simp add: SetRegisterSideChainRPCInfo_def answer_def ResponsePack_def)


section \<open>Concrete cases\<close>

definition server_env0 :: server_env where
  "server_env0 = \<lparr>sG = manager_env0, DecodeInfo = (\<lambda>_. Some register_info0), HasSolver = False, ConfigNumber = (\<lambda>_. 0),
     GitVersion = ''v'', SpvBest = None, PeersInfo = [], ShowPeersIp = False, WhiteIPList = [''1.2.3.4''], ServerUser = ''u'',
     ServerPass = ''p'', Base64 = id, Sha256 = map char_byte\<rparr>"

definition request0 :: http_request where
  "request0 = \<lparr>Remote = Some \<lparr>IsLoopback = False, IpText = ''1.2.3.4''\<rparr>, HttpMethod = ''POST'', HasBody = True,
     Authorization = [''Basic u:p''], RequestBody = Some [(''method'', JStr ''setregistersidechainrpcinfo''),
       (''params'', JObj [(''data'', JStr ''x'')])]\<rparr>"

definition server0 :: server_state where
  "server0 = \<lparr>SrvManager = manager0, SrvMining = Init_mining\<rparr>"

text \<open>The same request without the login changes nothing.\<close>

theorem only_admitted_requests_act_witness:
  "snd (Handle server_env0 (\<lambda>_. plain_io) (request0\<lparr>Authorization := []\<rparr>) server0) = server0"
proof -
  have "\<not> admitted server_env0 (request0\<lparr>Authorization := []\<rparr>)" by (simp add: admitted_def server_env0_def request0_def)
  with only_admitted_requests_act [of server_env0 "\<lambda>_. plain_io" "request0\<lparr>Authorization := []\<rparr>" server0] show ?thesis
    by (cases "Handle server_env0 (\<lambda>_. plain_io) (request0\<lparr>Authorization := []\<rparr>) server0") auto
qed

theorem mining_info_never_answered_witness:
  "\<exists>message. GetSideMiningInfo server_env0 [(''hash'', JStr ''b'')]
     (server0\<lparr>SrvMining := snd (AuxpowListener_ProcessNotifyData listen_env0 [task0] Init_mining)\<rparr>) =
     (Done (InvalidParams, message), server0\<lparr>SrvMining := snd (AuxpowListener_ProcessNotifyData listen_env0 [task0] Init_mining)\<rparr>)"
proof -
  obtain r st where a: "AuxpowListener_ProcessNotifyData listen_env0 [task0] Init_mining = (r, st)" by fastforce
  have "no_palindrome (lM listen_env0)"
    by (simp add: no_palindrome_def GetGenesisBlock_def) (simp add: crypto0_def addr0_def char_byte_eq char_byte_def)
  then have "mining_step\<^sup>*\<^sup>* Init_mining (SrvMining (server0\<lparr>SrvMining := st\<rparr>))" using announced [OF _ a] by simp
  from mining_info_never_answered [OF this, of server_env0 "[(''hash'', JStr ''b'')]"] show ?thesis using a by simp
qed

end
