(* ===== verification/Network.thy ===== *)
theory Network
  imports Cs_Client Rpc_Client
begin

text \<open>
  The network of the arbiters (\<open>arbitration/cs/p2pclientadapter.go\<close>) and what the main chain does with its messages
  (\<open>arbitration/mainchain/mainchainImpl.go\<close>, \<open>mainchainclientimpl.go\<close>): each arbiter has a queue of messages, and hands each one
  first to its server of proposals and then to its client. The connections are the library's.
\<close>

section \<open>Messages\<close>

datatype net_message = DistributedItem bytes | SendSchnorrProposal uint256

definition DistributeItemCommand :: string where "DistributeItemCommand = ''disitem''"
definition SendSchnorrItemommand :: string where "SendSchnorrItemommand = ''senditem''"

definition CMD :: "net_message \<Rightarrow> string" where
  "CMD m = (case m of DistributedItem _ \<Rightarrow> DistributeItemCommand | SendSchnorrProposal _ \<Rightarrow> SendSchnorrItemommand)"

text \<open>\<open>mx\<close> is the longest content; the library has compared the header with what follows it.\<close>

definition createMessage :: "wire \<Rightarrow> nat \<Rightarrow> string \<Rightarrow> bytes \<Rightarrow> go_error + net_message" where
  "createMessage W mx cmd body =
     (if cmd = DistributeItemCommand
      then (case DistributedItemMessage_Deserialize W mx ([], body) of
              (None, content, _) \<Rightarrow> Inr (DistributedItem content) | (Some e, _) \<Rightarrow> Inl e)
      else if cmd = SendSchnorrItemommand
      then (case SendSchnorrProposal_Deserialize W (zero_uint256, body) of
              (None, h, _) \<Rightarrow> Inr (SendSchnorrProposal h) | (Some e, _) \<Rightarrow> Inl e)
      else Inl (Err ''Received unsupported message, CMD ''))"

section \<open>The state of an arbiter\<close>

datatype listener = MainChainServer | MainChainClient

record network =
  nServer :: dns
  serverReady :: bool                          \<comment> \<open>the mutexes and maps of the server are there\<close>
  nClient :: client
  mainchainListeners :: "listener list"
  connectedPeers :: "bytes list"
  KnownAddrs :: "(bytes \<times> string) list"      \<comment> \<open>given to \<open>p2pServer.AddAddr\<close>\<close>
  messageQueue :: "(bytes \<times> net_message) list"

definition queue_capacity :: nat where "queue_capacity = 10000"

definition AddMainchainListener :: "listener \<Rightarrow> network \<Rightarrow> network" where
  "AddMainchainListener l n = n\<lparr>mainchainListeners := mainchainListeners n @ [l]\<rparr>"

text \<open>\<open>NewArbitratorsNetwork\<close>: the addresses of the configured arbiters. A new server has neither mutexes nor maps (a map that
  is nil reads as an empty one); \<open>tryInit\<close> makes them.\<close>

definition empty_network :: network where
  "empty_network =
     \<lparr>nServer = \<lparr>unsolvedContents = Map.empty, unsolvedContentsSignature = Map.empty, schnorrTransaction = Map.empty,
        requestRSigners = Map.empty, requestSSigners = Map.empty, UnsignedSigners = Map.empty, mux_locked = False, sent = [],
        timers = [], submitted = []\<rparr>,
      serverReady = False, nClient = \<lparr>CheckedTransactions = {}, feedbacks = []\<rparr>, mainchainListeners = [], connectedPeers = [], KnownAddrs = [],
      messageQueue = []\<rparr>"

definition tryInit :: "network \<Rightarrow> network" where "tryInit n = n\<lparr>serverReady := True\<rparr>"

fun add_arbiters :: "crypto \<Rightarrow> string \<Rightarrow> string list \<Rightarrow> network \<Rightarrow> go_error + network" where
  "add_arbiters C address [] n = Inr n"
| "add_arbiters C address (p # ps) n =
     (case HexStringToBytes C p of
        None \<Rightarrow> Inl (Err ''invalid CRC public key in config'')
      | Some pk \<Rightarrow> add_arbiters C address ps (n\<lparr>KnownAddrs := KnownAddrs n @ [(peer_id pk, address)]\<rparr>))"

definition NewArbitratorsNetwork :: "crypto \<Rightarrow> string \<Rightarrow> string list \<Rightarrow> go_error + network" where
  "NewArbitratorsNetwork C DPoSNetAddress CRCArbiters = add_arbiters C DPoSNetAddress CRCArbiters empty_network"

definition InitMainChain :: "network \<Rightarrow> network" where
  "InitMainChain n = AddMainchainListener MainChainClient (AddMainchainListener MainChainServer n)"

definition UpdatePeers :: "string \<Rightarrow> bytes list \<Rightarrow> network \<Rightarrow> network" where
  "UpdatePeers DPoSNetAddress peers n =
     n\<lparr>connectedPeers := peers, KnownAddrs := KnownAddrs n @ map (\<lambda>pid. (pid, DPoSNetAddress)) peers\<rparr>"

text \<open>An error of the request ends the program at the start, and the turn of the loop later (\<open>updatePeers\<close> of \<open>mainchainImpl.go\<close>).\<close>

definition updatePeers :: "'c rpc_env \<Rightarrow> string \<Rightarrow> u32 \<Rightarrow> network \<Rightarrow> go_error option \<times> network" where
  "updatePeers R DPoSNetAddress height n =
     (case GetActiveDposPeers R height of
        Inl e \<Rightarrow> (Some e, n) | Inr peers \<Rightarrow> (None, UpdatePeers DPoSNetAddress peers n))"

section \<open>Receiving\<close>

text \<open>A full queue blocks the library's goroutine.\<close>

definition handleMessage :: "bytes \<Rightarrow> net_message \<Rightarrow> network \<Rightarrow> unit outcome \<times> network" where
  "handleMessage pid m n =
     (if length (messageQueue n) < queue_capacity then (Done (), n\<lparr>messageQueue := messageQueue n @ [(pid, m)]\<rparr>)
      else (Blocked, n))"

text \<open>The message that \<open>sendSchnorrItemMsgToSelf\<close> queues when its time is over; it has a zero id.\<close>

definition own_timer :: "network \<Rightarrow> unit outcome \<times> network" where
  "own_timer n =
     (case rev (timers (nServer n)) of
        [] \<Rightarrow> (Done (), n)
      | h # hs \<Rightarrow>
          (case handleMessage (replicate 33 0) (SendSchnorrProposal h) (n\<lparr>nServer := (nServer n)\<lparr>timers := rev hs\<rparr>\<rparr>) of
             (Done _, n') \<Rightarrow> (Done (), n') | (r, _) \<Rightarrow> (r, n)))"

text \<open>Errors are logged; a panic ends the program, a block stops the loop.\<close>

definition logged :: "unit outcome \<times> 'a \<Rightarrow> ('a \<Rightarrow> network) \<Rightarrow> unit outcome \<times> network" where
  "logged r put = (case fst r of Panic \<Rightarrow> (Panic, put (snd r)) | Blocked \<Rightarrow> (Blocked, put (snd r)) | _ \<Rightarrow> (Done (), put (snd r)))"

definition OnReceivedSignMsg :: "cs_env \<Rightarrow> client_env \<Rightarrow> listener \<Rightarrow> bytes \<Rightarrow> bytes \<Rightarrow> network \<Rightarrow> unit outcome \<times> network" where
  "OnReceivedSignMsg E L l pid content n =
     (case l of
        MainChainServer \<Rightarrow> logged (ReceiveProposalFeedback E content (nServer n)) (\<lambda>d. (tryInit n)\<lparr>nServer := d\<rparr>)
      | MainChainClient \<Rightarrow> logged (OnReceivedProposal E L pid content (nClient n)) (\<lambda>cl. n\<lparr>nClient := cl\<rparr>))"

text \<open>\<open>ReceiveSendSchnorrWithdrawProposal3\<close> locks \<open>mux\<close> without \<open>tryInit\<close>: a nil mutex panics.\<close>

definition OnSendSchnorrItemMsg :: "cs_env \<Rightarrow> listener \<Rightarrow> bytes \<Rightarrow> uint256 \<Rightarrow> network \<Rightarrow> unit outcome \<times> network" where
  "OnSendSchnorrItemMsg E l pid hash n =
     (case l of
        MainChainServer \<Rightarrow>
          if \<not> serverReady n then (Panic, n)
          else logged (ReceiveSendSchnorrWithdrawProposal3 E hash (nServer n)) (\<lambda>d. n\<lparr>nServer := d\<rparr>)
      | MainChainClient \<Rightarrow> (Done (), n))"

fun each_listener :: "(listener \<Rightarrow> network \<Rightarrow> unit outcome \<times> network) \<Rightarrow> listener list \<Rightarrow> network \<Rightarrow> unit outcome \<times> network" where
  "each_listener f [] n = (Done (), n)"
| "each_listener f (l # ls) n =
     (case f l n of (Done _, n') \<Rightarrow> each_listener f ls n' | other \<Rightarrow> other)"

definition processMessage :: "cs_env \<Rightarrow> client_env \<Rightarrow> bytes \<times> net_message \<Rightarrow> network \<Rightarrow> unit outcome \<times> network" where
  "processMessage E L msgItem n =
     (case msgItem of
        (pid, DistributedItem content) \<Rightarrow> each_listener (\<lambda>l. OnReceivedSignMsg E L l pid content) (mainchainListeners n) n
      | (pid, SendSchnorrProposal hash) \<Rightarrow> each_listener (\<lambda>l. OnSendSchnorrItemMsg E l pid hash) (mainchainListeners n) n)"

text \<open>The loop of \<open>Start\<close>, as long as the queue has messages: one unit of fuel is one message.\<close>

fun network_loop :: "cs_env \<Rightarrow> client_env \<Rightarrow> nat \<Rightarrow> network \<Rightarrow> unit outcome \<times> network" where
  "network_loop E L 0 n = (Done (), n)"
| "network_loop E L (Suc k) n =
     (case messageQueue n of
        [] \<Rightarrow> (Done (), n)
      | m # ms \<Rightarrow> (case processMessage E L m (n\<lparr>messageQueue := ms\<rparr>) of
                     (Done _, n') \<Rightarrow> network_loop E L k n' | other \<Rightarrow> other))"

section \<open>An older content\<close>

text \<open>\<open>SchnorrWithdrawProposalContent\<close>, which no message carries any more; \<open>Serialize\<close> is \<open>SerializeUnsigned\<close>.\<close>

definition SchnorrWithdrawProposalContent_Serialize :: "wire \<Rightarrow> bytes \<Rightarrow> bytes step" where
  "SchnorrWithdrawProposalContent_Serialize W nonce = wput (WriteVarBytes W nonce) ExtErr"

definition SchnorrWithdrawProposalContent_Deserialize :: "wire \<Rightarrow> (bytes \<times> bytes) step" where
  "SchnorrWithdrawProposalContent_Deserialize W = rget (ReadVarBytes W 64) ExtErr (\<lambda>a _. a)"

interpretation old_schnorr: codec "SchnorrWithdrawProposalContent_Serialize W" "SchnorrWithdrawProposalContent_Deserialize W"
    "[]" "\<lambda>b. wire_ok W \<and> length b \<le> 64" for W
  by unfold_locales
    (auto simp: SchnorrWithdrawProposalContent_Serialize_def SchnorrWithdrawProposalContent_Deserialize_def
      intro: matched_prim [OF wire_okD(3)])

end
