(* ===== verification/Props_Network.thy ===== *)
theory Props_Network
  imports Network Props_Rounds Props_Cross
begin

text \<open>
  The proposals of a transaction over the network: when enough arbiters answer the proposal of the arbiter on duty, the
  transaction is submitted, once, in whatever order the answers arrive and however often each arrives.
\<close>

section \<open>Merging\<close>

text \<open>A parameter that is made of signatures of \<open>G\<close>, of 65 bytes with their length first.\<close>

definition signatures_in :: "bytes set \<Rightarrow> bytes \<Rightarrow> bool" where
  "signatures_in G param \<longleftrightarrow> (\<exists>parts. param = concat parts \<and> (\<forall>s \<in> set parts. length s = 65 \<and> tl s \<in> G))"

lemma signatures_in_append:
  assumes "signatures_in G param" "length sign = 65" "tl sign \<in> G"
  shows "signatures_in G (param @ sign)"
proof -
  obtain parts where "param = concat parts" "\<forall>s \<in> set parts. length s = 65 \<and> tl s \<in> G"
    using assms(1) unfolding signatures_in_def by blast
  then have "param @ sign = concat (parts @ [sign])" "\<forall>s \<in> set (parts @ [sign]). length s = 65 \<and> tl s \<in> G"
    using assms(2,3) by simp_all
  then show ?thesis unfolding signatures_in_def by blast
qed

lemma check_not_signed_passes:
  assumes "SignatureScriptLength C = 65" "i < length keys" "keys ! i \<noteq> []" "DecodePoint C (tl (keys ! i)) = Some pk"
    and "\<forall>s \<in> G. \<not> Verify C pk msg s" "signatures_in G param"
  shows "check_not_signed C msg keys i param = Done ()"
proof -
  obtain parts where "param = concat parts" "\<forall>s \<in> set parts. length s = 65 \<and> tl s \<in> G"
    using assms(6) unfolding signatures_in_def by blast
  then show ?thesis
  proof (induction parts arbitrary: param)
    case Nil
    then show ?case by (simp add: check_not_signed.simps)
  next
    case (Cons s parts)
    then have "check_not_signed C msg keys i (concat parts) = Done ()" "\<not> Verify C pk msg (tl s)" using assms(5) by auto
    then show ?case using Cons.prems assms(1-4) by (subst check_not_signed.simps) auto
  qed
qed

lemma find_index_member: "h \<in> set hs \<Longrightarrow> \<exists>i. find_index (\<lambda>x. x = h) hs = Some i \<and> i < length hs"
  by (induction hs) auto

text \<open>A script whose signers and keys the library reads, with a key for every signer; and none of the keys verifies a
  signature of \<open>G\<close> over the full form of a transaction (they are made over the unsigned form).\<close>

definition script_ok :: "crypto \<Rightarrow> tx_ops \<Rightarrow> bytes set \<Rightarrow> bytes \<Rightarrow> uint160 list \<Rightarrow> bool" where
  "script_ok C T G code hs \<longleftrightarrow> GetCorssChainSigners C code = Some hs \<and>
     (\<exists>keys. ParseCrossChainScript C code = Some keys \<and> length hs \<le> length keys \<and>
       (\<forall>k \<in> set keys. k \<noteq> [] \<and>
          (\<exists>pk. DecodePoint C (tl k) = Some pk \<and> (\<forall>tx. \<forall>s \<in> G. \<not> Verify C pk (snd (TxSerialize T tx)) s))))"

lemma MergeSign_done:
  assumes "crypto_consts C" "script_ok C T G (Code p) hs" "h \<in> set hs" "Programs tx = p # ps"
    and "Parameter p = Some param" "signatures_in G param"
  shows "\<exists>n. MergeSign C T sign h (TxContent tx) =
    Done (n, TxContent (tx\<lparr>Programs := p\<lparr>Parameter := Some (param @ sign)\<rparr> # ps\<rparr>))"
proof -
  have len: "SignatureScriptLength C = 65" using assms(1) by (simp add: crypto_consts_def)
  from assms(2) have hs: "GetCorssChainSigners C (Code p) = Some hs" by (simp add: script_ok_def)
  from assms(2) obtain keys where keys: "ParseCrossChainScript C (Code p) = Some keys" "length hs \<le> length keys"
    "\<forall>k \<in> set keys. k \<noteq> [] \<and>
       (\<exists>pk. DecodePoint C (tl k) = Some pk \<and> (\<forall>tx. \<forall>s \<in> G. \<not> Verify C pk (snd (TxSerialize T tx)) s))"
    unfolding script_ok_def by (elim conjE exE)
  obtain i where i: "find_index (\<lambda>x. x = h) hs = Some i" "i < length hs" using find_index_member [OF assms(3)] by blast
  then have k: "keys ! i \<in> set keys" "i < length keys" using keys(2) by simp_all
  from bspec [OF keys(3) k(1)] obtain pk where pk: "DecodePoint C (tl (keys ! i)) = Some pk" "keys ! i \<noteq> []"
    "\<forall>tx. \<forall>s \<in> G. \<not> Verify C pk (snd (TxSerialize T tx)) s" by (elim conjE exE)
  have "check_not_signed C (snd (TxSerialize T tx)) keys i param = Done ()"
    by (rule check_not_signed_passes [OF len k(2) pk(2,1) spec [OF pk(3)] assms(6)])
  then show ?thesis using assms(4,5) by (simp add: MergeSign_def hs i(1) MergeSignToTransaction_def Let_def keys(1) len)
qed

section \<open>Collecting answers\<close>

text \<open>The transaction waits with the signatures of \<open>S\<close>; or it has been submitted once and waits no longer.\<close>

definition waits :: "transaction \<Rightarrow> bytes set \<Rightarrow> uint256 \<Rightarrow> bytes \<Rightarrow> uint160 set \<Rightarrow> dns \<Rightarrow> bool" where
  "waits tx G hash code S d \<longleftrightarrow> dns_wf d \<and> \<not> mux_locked d \<and> unsolvedContentsSignature d hash = Some S \<and>
     (\<exists>p ps. unsolvedContents d hash = Some (TxContent (tx\<lparr>Programs := p # ps\<rparr>)) \<and> Code p = code \<and>
        signatures_in G (case Parameter p of None \<Rightarrow> [] | Some param \<Rightarrow> param))"

definition was_submitted :: "transaction \<Rightarrow> uint256 \<Rightarrow> content list \<Rightarrow> dns \<Rightarrow> bool" where
  "was_submitted tx hash before d \<longleftrightarrow> \<not> mux_locked d \<and> unsolvedContents d hash = None \<and> unsolvedContentsSignature d hash = None \<and>
     (\<exists>ps. submitted d = TxContent (tx\<lparr>Programs := ps\<rparr>) # before)"

text \<open>The submission of the transaction, with whatever programs, comes back.\<close>

definition submit_returns :: "cs_env \<Rightarrow> transaction \<Rightarrow> bool" where
  "submit_returns E tx \<longleftrightarrow> (\<forall>ps. eSubmit E (TxContent (tx\<lparr>Programs := ps\<rparr>)) \<notin> {Panic, Blocked})"

text \<open>An answer to the proposal of a content with that hash, by the arbiter with that code hash.\<close>

definition good_answer :: "cs_env \<Rightarrow> bytes set \<Rightarrow> uint256 \<Rightarrow> item \<Rightarrow> bool" where
  "good_answer E G hash i \<longleftrightarrow> (\<exists>sign c. ParseFeedbackSignedData (eC E) (eT E) (eV E) i = Done (sign, []) \<and> tl sign \<in> G \<and>
     ItemContent i = Some c \<and> content_Hash (eT E) (eV E) c = hash)"

abbreviation answer_code :: "cs_env \<Rightarrow> item \<Rightarrow> uint160" where
  "answer_code E i \<equiv> ToCodeHash (eC E) (TargetArbitratorProgramHash i)"

lemma unlock_same: "\<not> mux_locked d \<Longrightarrow> d\<lparr>mux_locked := False\<rparr> = d"
  by (cases d) simp

lemma answer_collected:
  assumes "env_ok E" "script_ok (eC E) (eT E) G code hs" "submit_returns E tx" "good_answer E G hash i" "answer_code E i \<in> set hs"
    and "waits tx G hash code S d" "card (insert (answer_code E i) S) < 64"
    and "receiveWithdrawProposalFeedback E i d = (r, d')"
  shows "r \<noteq> Panic \<and> r \<noteq> Blocked \<and>
    ((waits tx G hash code (insert (answer_code E i) S) d' \<and> submitted d' = submitted d) \<and>
       (answer_code E i \<notin> S \<longrightarrow> card (insert (answer_code E i) S) < quorum E) \<or>
     was_submitted tx hash (submitted d) d')"
proof -
  let ?h = "answer_code E i"
  from assms(6) obtain p ps where w: "dns_wf d" "\<not> mux_locked d" "unsolvedContentsSignature d hash = Some S"
    "unsolvedContents d hash = Some (TxContent (tx\<lparr>Programs := p # ps\<rparr>))" "Programs (tx\<lparr>Programs := p # ps\<rparr>) = p # ps" "Code p = code"
    "signatures_in G (case Parameter p of None \<Rightarrow> [] | Some param \<Rightarrow> param)" unfolding waits_def by (elim conjE exE) simp
  from assms(4) obtain sign c where g: "ParseFeedbackSignedData (eC E) (eT E) (eV E) i = Done (sign, [])" "ItemContent i = Some c"
    "content_Hash (eT E) (eV E) c = hash" "tl sign \<in> G" unfolding good_answer_def by (elim conjE exE)
  have S: "finite S" "content_signed (TxContent (tx\<lparr>Programs := p # ps\<rparr>)) (card S)" using dns_wfD [OF w(1,4,3)] by simp_all
  have cc: "crypto_consts (eC E)" using assms(1) by (simp add: env_ok_def)
  note eq = assms(8) [unfolded receiveWithdrawProposalFeedback_def g(1,2)]
  show ?thesis
  proof (cases "?h \<in> S")
    case True
    then have "r = Done ()" "d' = d" using eq g(3) w(2-4) unlock_same [OF w(2)] by (auto simp: lock_def Let_def)
    with True assms(6) show ?thesis by (simp add: insert_absorb)
  next
    case False
    obtain param where param: "Parameter p = Some param" "length param = 65 * card S"
      using S(2) by (auto simp: content_signed_def)
    let ?tx' = "tx\<lparr>Programs := p\<lparr>Parameter := Some (param @ sign)\<rparr> # ps\<rparr>"
    have G: "signatures_in G param" using w(7) param(1) by simp
    have "script_ok (eC E) (eT E) G (Code p) hs" using assms(2) w(6) by simp
    from MergeSign_done [OF cc this assms(5) w(5) param(1) G, of sign]
    obtain n where m: "MergeSign (eC E) (eT E) sign ?h (TxContent (tx\<lparr>Programs := p # ps\<rparr>)) = Done (n, TxContent ?tx')" by auto
    have n: "n = card S + 1" "content_signed (TxContent ?tx') (card S + 1)"
      using MergeSign_signed [OF m cc S(2) Parse_length [OF g(1) cc]] assms(7) S(1) False by simp_all
    have d': "(r, d') = merged_state E hash ?h S n (TxContent ?tx') d"
      using eq g(3) w(2-4) False m unlock_same [OF w(2)] by (simp add: lock_def Let_def merged_state_def)
    have "dns_wf d'" using merged_wf [OF w(1,4,3) False n(2), of E n False] d' unlock_same [OF w(2)] by (metis snd_conv)
    have G2: "signatures_in G (param @ sign)"
      by (rule signatures_in_append [OF G Parse_length [OF g(1) cc] g(4)])
    show ?thesis
    proof (cases "n < quorum E")
      case True
      then have "r = Done ()" "d' = d\<lparr>unsolvedContents := (unsolvedContents d)(hash \<mapsto> TxContent ?tx'),
          unsolvedContentsSignature := (unsolvedContentsSignature d)(hash \<mapsto> insert ?h S)\<rparr>"
        using d' by (simp_all add: merged_state_def)
      moreover have "\<exists>q qs. TxContent ?tx' = TxContent (tx\<lparr>Programs := q # qs\<rparr>) \<and> Code q = code \<and>
          signatures_in G (case Parameter q of None \<Rightarrow> [] | Some param \<Rightarrow> param)"
        using w(6) G2 by (intro exI [of _ "p\<lparr>Parameter := Some (param @ sign)\<rparr>"] exI [of _ ps]) simp
      ultimately show ?thesis using \<open>dns_wf d'\<close> w(2) True n(1) S(1) False by (auto simp: waits_def)
    next
      case over: False
      then have "r \<noteq> Panic \<and> r \<noteq> Blocked \<and> was_submitted tx hash (submitted d) d'"
        using d' w(2) assms(3) by (auto simp: merged_state_def Let_def was_submitted_def submit_returns_def)
      then show ?thesis by simp
    qed
  qed
qed

lemma late_answer:
  assumes "good_answer E G hash i" "was_submitted tx hash before d" "receiveWithdrawProposalFeedback E i d = (r, d')"
  shows "r \<noteq> Panic \<and> r \<noteq> Blocked \<and> d' = d"
proof -
  from assms(2) have w: "\<not> mux_locked d" "unsolvedContents d hash = None" by (simp_all add: was_submitted_def)
  show ?thesis using assms(1,3) w unlock_same [OF w(1)]
    by (auto simp: good_answer_def receiveWithdrawProposalFeedback_def lock_def Let_def)
qed

fun collect_answers :: "cs_env \<Rightarrow> item list \<Rightarrow> dns \<Rightarrow> dns" where
  "collect_answers E [] d = d"
| "collect_answers E (i # rest) d = collect_answers E rest (snd (receiveWithdrawProposalFeedback E i d))"

lemma late_answers:
  assumes "\<forall>i \<in> set answers. good_answer E G hash i" "was_submitted tx hash before d"
  shows "collect_answers E answers d = d"
  using assms
proof (induction answers)
  case (Cons i answers)
  then have "snd (receiveWithdrawProposalFeedback E i d) = d" using late_answer [of E G hash i tx before d] by (metis list.set_intros(1) prod.collapse)
  with Cons show ?case by simp
qed simp

lemma answers_collected:
  assumes "env_ok E" "script_ok (eC E) (eT E) G code hs" "submit_returns E tx" "\<forall>i \<in> set answers. good_answer E G hash i \<and> answer_code E i \<in> set hs"
    and "waits tx G hash code S d" "finite S" "card (S \<union> answer_code E ` set answers) < 64"
    and "card S < quorum E" "quorum E \<le> card (S \<union> answer_code E ` set answers)"
  shows "was_submitted tx hash (submitted d) (collect_answers E answers d)"
  using assms(4-9)
proof (induction answers arbitrary: S d)
  case (Cons i answers)
  let ?h = "answer_code E i" and ?S = "insert (answer_code E i) S"
  obtain r d' where rd: "receiveWithdrawProposalFeedback E i d = (r, d')" by fastforce
  have all: "S \<union> answer_code E ` set (i # answers) = ?S \<union> answer_code E ` set answers" by auto
  then have "?S \<subseteq> S \<union> answer_code E ` set (i # answers)" by auto
  then have "card ?S \<le> card (S \<union> answer_code E ` set (i # answers))" using Cons.prems(3) by (intro card_mono) auto
  then have "card ?S < 64" using Cons.prems(4) by simp
  from answer_collected [OF assms(1-3) _ _ Cons.prems(2) this rd] Cons.prems(1)
  consider (waiting) "waits tx G hash code ?S d'" "submitted d' = submitted d" "?h \<notin> S \<longrightarrow> card ?S < quorum E"
    | (submitted) "was_submitted tx hash (submitted d) d'" by auto
  then show ?case
  proof cases
    case waiting
    then have "card ?S < quorum E" using Cons.prems(5) by (cases "?h \<in> S") (simp_all add: insert_absorb)
    from Cons.IH [OF _ waiting(1) _ _ this] Cons.prems(1,3,4,6) show ?thesis unfolding all using waiting(2) rd by simp
  next
    case submitted
    from late_answers [OF _ this, of answers E G] Cons.prems(1) submitted rd show ?thesis by simp
  qed
qed simp

section \<open>The queue\<close>

text \<open>The answer that a message carries, when the sender is an arbiter and the message is read.\<close>

definition answer_of :: "cs_env \<Rightarrow> net_message \<Rightarrow> item option" where
  "answer_of E m =
     (case m of
        SendSchnorrProposal _ \<Rightarrow> None
      | DistributedItem content \<Rightarrow>
          (case Item_Deserialize (eC E) (eW E) (eT E) (fresh_item, content) of
             (Some _, _) \<Rightarrow> None
           | (None, i, _) \<Rightarrow>
               if CheckSenderInCurrentArbiters (eC E) (eGroup E) i = None \<and> ItemType i = AnswerMultisigContent then Some i else None))"

definition answers_in :: "cs_env \<Rightarrow> (bytes \<times> net_message) list \<Rightarrow> item list" where
  "answers_in E ms = List.map_filter (\<lambda>x. answer_of E (snd x)) ms"

lemma answers_in_simps:
  "answers_in E [] = []"
  "answer_of E m = Some i \<Longrightarrow> answers_in E ((pid, m) # ms) = i # answers_in E ms"
  by (simp_all add: answers_in_def List.map_filter_simps)

lemma answer_processed:
  assumes "answer_of E m = Some i" "mainchainListeners n = [MainChainServer, MainChainClient]"
    and "receiveWithdrawProposalFeedback E i (nServer n) = (r, d')" "r \<noteq> Panic" "r \<noteq> Blocked"
  shows "processMessage E L (pid, m) n = (Done (), (tryInit n)\<lparr>nServer := d'\<rparr>)"
proof -
  obtain content rest where m: "m = DistributedItem content"
    "Item_Deserialize (eC E) (eW E) (eT E) (fresh_item, content) = (None, i, rest)"
    "CheckSenderInCurrentArbiters (eC E) (eGroup E) i = None" "ItemType i = AnswerMultisigContent"
    using assms(1) by (auto simp: answer_of_def split: net_message.splits prod.splits option.splits if_splits)
  have client: "snd (OnReceivedProposal E L pid content cl) = cl \<and> fst (OnReceivedProposal E L pid content cl) \<notin> {Panic, Blocked}" for cl
    by (simp add: OnReceivedProposal_def m(2,4) content_types split: option.split)
  have "ReceiveProposalFeedback E content (nServer n) = (r, d')" by (simp add: ReceiveProposalFeedback_def m assms(3))
  then have "OnReceivedSignMsg E L MainChainServer pid content n = (Done (), (tryInit n)\<lparr>nServer := d'\<rparr>)"
    using assms(4,5) by (simp add: OnReceivedSignMsg_def logged_def split: outcome.split)
  moreover have "OnReceivedSignMsg E L MainChainClient pid content n' = (Done (), n')" for n'
    using client [of "nClient n'"] by (auto simp: OnReceivedSignMsg_def logged_def split: outcome.split)
  ultimately show ?thesis using assms(2) by (simp add: processMessage_def m(1))
qed

lemma loop_collects:
  assumes "env_ok E" "script_ok (eC E) (eT E) G code hs" "submit_returns E tx"
    and "\<forall>x \<in> set ms. \<exists>i. answer_of E (snd x) = Some i \<and> good_answer E G hash i \<and> answer_code E i \<in> set hs"
    and "mainchainListeners n = [MainChainServer, MainChainClient]" "messageQueue n = ms"
    and "waits tx G hash code S (nServer n) \<and> card (S \<union> answer_code E ` set (answers_in E ms)) < 64 \<and>
         finite S \<or> was_submitted tx hash before (nServer n)"
  shows "\<exists>ready. network_loop E L (length ms) n =
    (Done (), n\<lparr>serverReady := ready, nServer := collect_answers E (answers_in E ms) (nServer n), messageQueue := []\<rparr>)"
  using assms(4-7)
proof (induction ms arbitrary: n S before)
  case Nil
  then show ?case by (intro exI [of _ "serverReady n"]) (cases n, simp add: answers_in_simps)
next
  case (Cons x ms)
  obtain pid m where x: "x = (pid, m)" by fastforce
  from Cons.prems(1) obtain i where i: "answer_of E m = Some i" "good_answer E G hash i" "answer_code E i \<in> set hs"
    by (auto simp: x)
  let ?S = "insert (answer_code E i) S"
  obtain r d' where rd: "receiveWithdrawProposalFeedback E i (nServer n) = (r, d')" by fastforce
  have all: "S \<union> answer_code E ` set (answers_in E (x # ms)) =
      ?S \<union> answer_code E ` set (answers_in E ms)" by (simp add: x answers_in_simps(2) [OF i(1)])
  have step: "r \<noteq> Panic \<and> r \<noteq> Blocked \<and>
    (waits tx G hash code ?S d' \<and> card (?S \<union> answer_code E ` set (answers_in E ms)) < 64 \<and> finite ?S \<or>
     (\<exists>before. was_submitted tx hash before d'))"
    using Cons.prems(4)
  proof
    assume w: "waits tx G hash code S (nServer n) \<and>
      card (S \<union> answer_code E ` set (answers_in E (x # ms))) < 64 \<and> finite S"
    then have few: "card (?S \<union> answer_code E ` set (answers_in E ms)) < 64" by (simp only: all)
    have "card ?S \<le> card (?S \<union> answer_code E ` set (answers_in E ms))"
      using w by (intro card_mono) auto
    then have "card ?S < 64" using few by simp
    from answer_collected [OF assms(1-3) i(2,3) conjunct1 [OF w] this rd] few w show ?thesis by auto
  next
    assume "was_submitted tx hash before (nServer n)"
    with late_answer [OF i(2) this rd] show ?thesis by auto
  qed
  let ?n = "n\<lparr>messageQueue := ms\<rparr>"
  let ?n' = "(tryInit ?n)\<lparr>nServer := d'\<rparr>"
  have p: "processMessage E L x ?n = (Done (), ?n')"
    unfolding x using answer_processed [OF i(1), of ?n r d' L pid] Cons.prems(2) rd step by simp
  have "\<exists>ready. network_loop E L (length ms) ?n' =
    (Done (), ?n'\<lparr>serverReady := ready, nServer := collect_answers E (answers_in E ms) d', messageQueue := []\<rparr>)"
    using step
  proof (elim conjE disjE exE)
    fix before' assume "was_submitted tx hash before' d'"
    then show ?thesis using Cons.IH [of ?n' S before'] Cons.prems(1,2) by (simp add: tryInit_def)
  next
    assume "waits tx G hash code ?S d'" "finite ?S"
      "card (?S \<union> answer_code E ` set (answers_in E ms)) < 64"
    then show ?thesis using Cons.IH [of ?n' ?S before] Cons.prems(1,2) by (simp add: tryInit_def)
  qed
  then show ?case using Cons.prems(3) p rd by (simp add: x tryInit_def answers_in_simps(2) [OF i(1)])
qed

section \<open>From the proposal to the submission\<close>

lemma Sign_appends:
  assumes "Sign C T V acc False F i = Done i'" "signedData i = None"
  obtains m s where "SignData acc m = Some s" "signed_bytes i' = of_nat (length s) # s"
  using assms
  by (auto simp: Sign_def appendSignature_def Let_def signed_bytes_def
      split: sum.splits option.splits outcome.splits prod.splits)

lemma registered:
  "register_proposal E buf h c d = (Done buf', d') \<Longrightarrow>
   d' = d\<lparr>mux_locked := False, unsolvedContents := (unsolvedContents d)(content_Hash (eT E) (eV E) c \<mapsto> c),
     unsolvedContentsSignature := (unsolvedContentsSignature d)(content_Hash (eT E) (eV E) c \<mapsto> {h})\<rparr>"
  by (auto simp: register_proposal_def lock_def unlock_def Let_def split: if_splits)

lemma proposed_waits:
  assumes "env_ok E" "hash_of_unsigned (eT E)" "\<forall>m s. SignData (eAcc E) m = Some s \<longrightarrow> s \<in> G"
    and "dns_wf d" "Programs tx = p # ps" "my_hash E = Done ph" "BroadcastWithdrawProposal E tx d = (Done (), d1)"
  shows "waits tx G (TxHash (eT E) tx) (Code p) {ToCodeHash (eC E) ph} d1 \<and> submitted d1 = submitted d"
proof -
  obtain buf d' where g: "generateDistributedProposal E (tx_kind tx) MultisigContent (TxContent tx) d = (Done buf, d')"
    "d1 = sendToArbitrator buf d'"
    using assms(7) by (cases "generateDistributedProposal E (tx_kind tx) MultisigContent (TxContent tx) d")
      (auto simp: BroadcastWithdrawProposal_def send_proposal_def split: outcome.splits)
  have wf: "dns_wf d'" using generate_wf [OF assms(4,1)] g(1) by (metis snd_conv)
  from g(1) assms(6) obtain script i buf' c where s: "Sign (eC E) (eT E) (eV E) (eAcc E) False (eFunc E)
        (fresh_item\<lparr>ItemContent := Some (TxContent tx), TargetArbitratorPublicKey := Some (MyPublicKey (eAcc E)),
           TargetArbitratorProgramHash := ph, TransactionType := tx_kind tx, ItemType := MultisigContent,
           redeemScript := script\<rparr>) = Done i"
    "InitSign (signed_bytes i) (TxContent tx) = Done c"
    "register_proposal E buf' (ToCodeHash (eC E) ph) c d = (Done buf, d')"
    by (auto simp: generateDistributedProposal_def split: outcome.splits sum.splits prod.splits option.splits)
  obtain m sg where sg: "SignData (eAcc E) m = Some sg" "signed_bytes i = of_nat (length sg) # sg"
    by (rule Sign_appends [OF s(1)]) (simp add: fresh_item_def)
  have part: "length (signed_bytes i) = 65" "tl (signed_bytes i) \<in> G" using sg assms(1,3) by (auto simp: env_ok_def)
  have c: "c = TxContent (tx\<lparr>Programs := p\<lparr>Parameter := Some (signed_bytes i)\<rparr> # ps\<rparr>)"
    using s(2) assms(5) by (simp add: InitSign_def)
  then have "content_Hash (eT E) (eV E) c = TxHash (eT E) tx" using assms(2) by (simp add: content_Hash_def hash_of_unsigned_def)
  with registered [OF s(3)] have d': "d' = d\<lparr>mux_locked := False, unsolvedContents := (unsolvedContents d)(TxHash (eT E) tx \<mapsto> c),
     unsolvedContentsSignature := (unsolvedContentsSignature d)(TxHash (eT E) tx \<mapsto> {ToCodeHash (eC E) ph})\<rparr>" by simp
  have "signatures_in G (signed_bytes i)" using part unfolding signatures_in_def by (intro exI [of _ "[signed_bytes i]"]) simp
  moreover have "dns_wf d1" using wf dns_wf_same [of d1 d'] by (simp add: g(2) sendToArbitrator_def)
  moreover have "\<exists>q qs. c = TxContent (tx\<lparr>Programs := q # qs\<rparr>) \<and> Code q = Code p \<and>
      signatures_in G (case Parameter q of None \<Rightarrow> [] | Some param \<Rightarrow> param)"
    using c \<open>signatures_in G (signed_bytes i)\<close>
    by (intro exI [of _ "p\<lparr>Parameter := Some (signed_bytes i)\<rparr>"] exI [of _ ps]) simp
  ultimately show ?thesis by (auto simp: waits_def g(2) sendToArbitrator_def d')
qed

text \<open>The submission of a withdraw through the main chain node (theory \<open>Submit\<close>) comes back when the node answers, whatever it
  answers; the outputs have to name the side chain, or the payload in the old form.\<close>

lemma answered_submit:
  assumes "Payload tx = WithdrawFromSideChain signers genesis hashes h" "fst (TxSerialize (xT X) tx) = None"
    and "\<forall>data. \<exists>resp. SendRawTransaction (xN X) data = Inr resp" "submit_address X tx genesis \<noteq> Inl GoPanic"
  shows "fst (Submit X ios tx db) \<notin> {Panic, Blocked}"
proof -
  obtain buf where "TxSerialize (xT X) tx = (None, buf)" using assms(2) by (cases "TxSerialize (xT X) tx") simp
  moreover obtain resp where "SendRawTransaction (xN X) (BytesToHexString (xC X) buf) = Inr resp" using assms(3) by blast
  ultimately have "mc_verdict (SendWithdrawTransaction X tx) \<noteq> Crash" by (simp add: SendWithdrawTransaction_def mc_verdict_def)
  moreover have "fst (move_withdraws kind ios address st hs rv db) \<notin> {Panic, Blocked}" for kind address st hs rv
    by (auto simp: move_withdraws_def Let_def fail_of_def split: prod.split sum.split)
  ultimately show ?thesis
    using assms(1,4) by (auto simp: Submit_def SubmitWithdrawTransaction_def Let_def fail_of_def
        split: sum.split option.split verdict.split prod.split)
qed

lemma answered_returns:
  assumes "\<forall>ps. \<exists>ios db. eSubmit E (TxContent (tx\<lparr>Programs := ps\<rparr>)) = fst (Submit X ios (tx\<lparr>Programs := ps\<rparr>) db)"
    and "Payload tx = WithdrawFromSideChain signers genesis hashes h" "\<forall>ps. fst (TxSerialize (xT X) (tx\<lparr>Programs := ps\<rparr>)) = None"
    and "\<forall>data. \<exists>resp. SendRawTransaction (xN X) data = Inr resp" "submit_address X tx genesis \<noteq> Inl GoPanic"
  shows "submit_returns E tx"
  unfolding submit_returns_def
proof
  fix ps
  have "submit_address X (tx\<lparr>Programs := ps\<rparr>) genesis = submit_address X tx genesis" by (simp add: submit_address_def)
  then have "fst (Submit X ios (tx\<lparr>Programs := ps\<rparr>) db) \<notin> {Panic, Blocked}" for ios db
    using answered_submit [of "tx\<lparr>Programs := ps\<rparr>" signers genesis hashes h X] assms(2-5) by simp
  with assms(1) show "eSubmit E (TxContent (tx\<lparr>Programs := ps\<rparr>)) \<notin> {Panic, Blocked}" by metis
qed

text \<open>C6: A withdraw that the arbiter on duty proposes is submitted, once, as soon as enough arbiters answer: when the messages
  in the queue are answers of arbiters of the script, signed over the unsigned transaction, their senders and the proposer
  make up the quorum, and the main chain node answers (anything) when the withdraw is submitted to it, then the loop empties
  the queue without a panic or a block, submits the proposed transaction, with other programs only, and waits for it no
  more, in whatever order the answers are and however often each comes. (A silent node makes the submission panic.)\<close>

theorem proposal_completes:
  assumes "env_ok E" "hash_of_unsigned (eT E)" "\<forall>m s. SignData (eAcc E) m = Some s \<longrightarrow> s \<in> G"
    and "dns_wf (nServer n)" "Programs tx = p # ps" "my_hash E = Done ph"
    and "BroadcastWithdrawProposal E tx (nServer n) = (Done (), d1)" "script_ok (eC E) (eT E) G (Code p) hs"
    and "mainchainListeners n = [MainChainServer, MainChainClient]"
    and "\<forall>x \<in> set (messageQueue n). \<exists>i. answer_of E (snd x) = Some i \<and> good_answer E G (TxHash (eT E) tx) i \<and>
           answer_code E i \<in> set hs"
    and "signers = insert (ToCodeHash (eC E) ph) (answer_code E ` set (answers_in E (messageQueue n)))"
    and "1 < quorum E" "quorum E \<le> card signers" "card signers < 64"
    and "\<forall>ps. \<exists>ios db. eSubmit E (TxContent (tx\<lparr>Programs := ps\<rparr>)) = fst (Submit X ios (tx\<lparr>Programs := ps\<rparr>) db)"
    and "Payload tx = WithdrawFromSideChain payers genesis hashes h" "\<forall>ps. fst (TxSerialize (xT X) (tx\<lparr>Programs := ps\<rparr>)) = None"
    and "\<forall>data. \<exists>resp. SendRawTransaction (xN X) data = Inr resp" "submit_address X tx genesis \<noteq> Inl GoPanic"
  shows "\<exists>n'. network_loop E L (length (messageQueue n)) (n\<lparr>nServer := d1\<rparr>) = (Done (), n') \<and> messageQueue n' = [] \<and>
    was_submitted tx (TxHash (eT E) tx) (submitted (nServer n)) (nServer n')"
proof -
  let ?hash = "TxHash (eT E) tx" and ?S = "{ToCodeHash (eC E) ph}" and ?answers = "answers_in E (messageQueue n)"
  note returns = answered_returns [OF assms(15-19)]
  have w: "waits tx G ?hash (Code p) ?S d1" "submitted d1 = submitted (nServer n)"
    using proposed_waits [OF assms(1-7)] by simp_all
  have signers: "signers = ?S \<union> answer_code E ` set ?answers" using assms(11) by simp
  have good: "\<forall>i \<in> set ?answers. good_answer E G ?hash i \<and> answer_code E i \<in> set hs"
    using assms(10) by (fastforce simp: answers_in_def List.map_filter_def)
  have "was_submitted tx ?hash (submitted d1) (collect_answers E ?answers d1)"
    by (rule answers_collected [OF assms(1,8) returns good w(1)]) (use assms(12-14) signers in simp_all)
  moreover have "\<exists>ready. network_loop E L (length (messageQueue n)) (n\<lparr>nServer := d1\<rparr>) =
    (Done (), n\<lparr>nServer := d1\<rparr>\<lparr>serverReady := ready, nServer := collect_answers E ?answers (nServer (n\<lparr>nServer := d1\<rparr>)), messageQueue := []\<rparr>)"
    by (rule loop_collects [OF assms(1,8) returns assms(10), where S = ?S and before = "[]"]) (use assms(9,14) w(1) signers in simp_all)
  ultimately show ?thesis using w(2) by auto
qed

text \<open>Three arbiters, whose keys verify a signature over the unsigned form only.\<close>

definition keys30 :: "bytes list" where
  "keys30 = [33 # key_bytes (49, 0), 33 # key_bytes (50, 0), 33 # key_bytes (51, 0)]"

definition crypto30 :: crypto where
  "crypto30 = crypto0\<lparr>Verify := (\<lambda>pk m s. m = [7] \<and> s = replicate 64 (of_int (fst pk))),
     ParseCrossChainScript := (\<lambda>_. Some keys30),
     GetCorssChainSigners := (\<lambda>_. Some (map (\<lambda>b. replicate 19 0 @ [b]) [49, 50, 51]))\<rparr>"

lemma crypto30_simps:
  "EncodePoint crypto30 pk = Some (key_bytes pk)" "SortPublicKeys crypto30 = (\<lambda>pks. pks)" "PUSH1 crypto30 = 0x51"
  "CROSSCHAIN crypto30 = 0xAF"
  by (simp_all add: crypto30_def crypto0_def)

definition tx30 :: transaction where "tx30 = tx0\<lparr>Payload := WithdrawFromSideChain [] [] [] 0\<rparr>"

definition ops30 :: tx_ops where
  "ops30 = ops0\<lparr>TxSerializeUnsigned := (\<lambda>_. (None, [7])),
     GetTransactionByBytes := (\<lambda>b. case b of [] \<Rightarrow> (Inl ErrOther, []) | c # r \<Rightarrow> if c = 9 then (Inr tx30, r) else (Inl ErrOther, r))\<rparr>"

definition env30 :: cs_env where
  "env30 = env0\<lparr>eC := crypto30, eT := ops30,
     eSubmit := (\<lambda>c. case c of TxContent tx \<Rightarrow> fst (Submit xenv0 (\<lambda>_. plain_io) tx db0) | _ \<Rightarrow> Done ())\<rparr>"

definition answer30 :: "byte \<Rightarrow> item" where
  "answer30 b = fresh_item\<lparr>TargetArbitratorPublicKey := Some (uint b, 0), TargetArbitratorProgramHash := replicate 20 0 @ [b],
     ItemType := AnswerMultisigContent, ItemContent := Some (TxContent tx30), redeemScript := [1],
     signedData := Some (replicate 65 50 @ 64 # replicate 64 b)\<rparr>"

definition network30 :: "bytes \<Rightarrow> bytes \<Rightarrow> network" where
  "network30 bs1 bs3 = (InitMainChain empty_network)\<lparr>messageQueue :=
     [([3], DistributedItem bs3), ([1], DistributedItem bs1), ([3], DistributedItem bs3)]\<rparr>"

lemma answer30_fits: "b = 49 \<or> b = 51 \<Longrightarrow> item_fits crypto30 ops30 (answer30 b)"
proof -
  have "tx_full_ok ops30 tx30" by (auto simp: tx_full_ok_def ops30_def ops0_def)
  moreover have "MaxRedeemScriptDataSize \<ge> 1" by (simp add: MaxRedeemScriptDataSize_def)
  ultimately show "b = 49 \<or> b = 51 \<Longrightarrow> item_fits crypto30 ops30 (answer30 b)"
    by (auto simp: item_fits_def header_fits_def body_fits_def answer30_def fresh_item_def crypto30_def crypto0_def
        key_bytes_def script_fits_def signed_fits_def Let_def)
qed

lemma answer30_bytes: "b = 49 \<or> b = 51 \<Longrightarrow> \<exists>bs. Item_Deserialize crypto30 wire0 ops30 (fresh_item, bs) = (None, answer30 b, [])"
  using item.roundtrip [of wire0 crypto30 ops30 "answer30 b" ev_ops0 "fst (Item_Serialize crypto30 wire0 ops30 ev_ops0 (answer30 b) [])"
      "snd (Item_Serialize crypto30 wire0 ops30 ev_ops0 (answer30 b) [])" "[]"] wire0_ok answer30_fits by auto

lemma env30_simps:
  "eC env30 = crypto30" "eW env30 = wire0" "eT env30 = ops30" "eV env30 = ev_ops0" "eGroup env30 = group0" "eCfg env30 = config0"
  "MyPublicKey (eAcc env30) = (50, 0)" "SignData (eAcc env30) = (\<lambda>m. Some (replicate 64 50))"
  by (simp_all add: env30_def env0_def)

lemma env30_ok: "env_ok env30"
  by (simp add: env_ok_def env30_simps) (simp add: crypto30_def crypto0_def crypto_consts_def)

lemma arbiters30: "CheckSenderInCurrentArbiters crypto30 group0 (answer30 b) = None" if "b = 49 \<or> b = 51"
  using that by (auto simp: CheckSenderInCurrentArbiters_def group0_def crypto30_def crypto0_def answer30_def char_byte_def)

lemma answer30_good:
  assumes "b = 49 \<or> b = 51" "Item_Deserialize crypto30 wire0 ops30 (fresh_item, bs) = (None, answer30 b, [])"
  shows "answer_of env30 (DistributedItem bs) = Some (answer30 b)"
    "good_answer env30 {replicate 64 49, replicate 64 50, replicate 64 51} (replicate 32 1) (answer30 b)"
    "answer_code env30 (answer30 b) = replicate 19 0 @ [b]"
  using assms arbiters30 [OF assms(1)]
  by (auto simp: answer_of_def env30_simps answer30_def good_answer_def ParseFeedbackSignedData_def Let_def crypto30_def crypto0_def
      signed_bytes_def content_SerializeUnsigned_def content_Hash_def ops30_def ops0_def)

definition script30 :: bytes where "script30 = 0x53 # concat keys30 @ [0x53, 0xAF]"

lemma script30_created: "CreateRedeemScript crypto30 config0 group0 = Inr script30"
proof -
  have "keys_encode crypto30 pks" for pks using crypto0_encode [of pks] by (simp add: keys_encode_def crypto30_def)
  from redeem_script_layout [OF this, of 3 "[(49, 0), (50, 0), (51, 0)]"]
  have "CreateWithdrawRedeemScript crypto30 3 [(49, 0), (50, 0), (51, 0)] = Inr script30"
    by (simp add: script30_def keys30_def key_push_def crypto30_simps) (simp add: key_bytes_def)
  moreover have "PublicKeyFromString crypto30 [c] = PublicKeyFromString crypto0 [c]" for c
    by (simp add: PublicKeyFromString_def crypto30_def crypto0_def)
  ultimately show ?thesis
    by (simp add: CreateRedeemScript_def group0_def config0_def getTransactionAgreementArbitratorsCount_def key0 no_space
        char_byte_def)
qed

lemma signers30: "getMultiSignSigners crypto30 script30 = Inr (map (\<lambda>b. Some (replicate 20 0 @ [b])) [49, 50, 51])"
proof -
  have "chunks 34 (concat keys30) = keys30" by (rule chunks_concat) (auto simp: keys30_def key_bytes_def)
  then show ?thesis
    by (simp add: getMultiSignSigners_def getMultiSignPublicKeys_def script30_def crypto30_def crypto0_def Let_def butlast_append)
      (simp add: keys30_def key_bytes_def)
qed

definition proposed30 :: item where
  "proposed30 = fresh_item\<lparr>ItemContent := Some (TxContent tx30), TargetArbitratorPublicKey := Some (50, 0),
     TargetArbitratorProgramHash := replicate 20 0 @ [50], TransactionType := tx_kind tx30, ItemType := MultisigContent,
     redeemScript := script30, signedData := Some (64 # replicate 64 50)\<rparr>"

lemma proposed30_fits: "item_fits crypto30 ops30 proposed30"
proof -
  have "tx_full_ok ops30 tx30" by (auto simp: tx_full_ok_def ops30_def ops0_def)
  moreover have "105 \<le> MaxRedeemScriptDataSize" by (simp add: MaxRedeemScriptDataSize_def)
  moreover have "length script30 = 105" by (simp add: script30_def keys30_def key_bytes_def)
  ultimately show ?thesis
    by (simp add: item_fits_def header_fits_def body_fits_def proposed30_def fresh_item_def crypto30_def crypto0_def
        key_bytes_def script_fits_def signed_fits_def Let_def content_types)
qed

lemma my_hash30: "my_hash env30 = Done (replicate 20 0 @ [50])"
  by (simp add: my_hash_def env30_simps crypto30_def crypto0_def key_bytes_def)

lemma sign30: "Sign crypto30 ops30 ev_ops0 (eAcc env30) False (eFunc env30) (proposed30\<lparr>signedData := None\<rparr>) = Done proposed30"
proof -
  have "EncodePoint crypto30 (50, 0) = Some (key_bytes (50, 0))"
    "PublicKeyToStandardProgramHash crypto30 (key_bytes (50, 0)) = Some (replicate 20 0 @ [50])"
    by (simp_all add: crypto30_def crypto0_def key_bytes_def)
  moreover have "signer_index (replicate 20 0 @ [50]) (map (\<lambda>b. Some (replicate 20 0 @ [b])) [49, 50, 51]) = Done (Some 1)"
    by (simp add: signer_index_def)
  ultimately show ?thesis
    by (simp add: Sign_def appendSignature_def proposed30_def signers30 env30_simps content_SerializeUnsigned_def ops30_def
        signed_bytes_def fresh_item_def)
qed

lemma proposed30_sent: "\<exists>d1. BroadcastWithdrawProposal env30 tx30 (nServer empty_network) = (Done (), d1)"
proof -
  obtain buf where "Item_Serialize crypto30 wire0 ops30 ev_ops0 proposed30 [] = (None, buf)"
    using item.ser_total [of wire0 crypto30 ops30 proposed30 ev_ops0 "[]"] wire0_ok proposed30_fits by auto
  moreover have "fresh_item\<lparr>ItemContent := Some (TxContent tx30), TargetArbitratorPublicKey := Some (50, 0),
     TargetArbitratorProgramHash := replicate 20 0 @ [50], TransactionType := tx_kind tx30, ItemType := MultisigContent,
     redeemScript := script30\<rparr> = proposed30\<lparr>signedData := None\<rparr>" by (simp add: proposed30_def fresh_item_def)
  ultimately show ?thesis
    by (simp add: BroadcastWithdrawProposal_def generateDistributedProposal_def my_hash30 env30_simps script30_created sign30
        InitSign_def tx30_def tx0_def register_proposal_def lock_def unlock_def Let_def empty_network_def send_proposal_def)
qed

lemma script30_ok: "script_ok crypto30 ops30 G code (map (\<lambda>b. replicate 19 0 @ [b]) [49, 50, 51])"
  by (auto simp: script_ok_def crypto30_def crypto0_def keys30_def key_bytes_def ops30_def ops0_def)

theorem proposal_completes_witness:
  "\<exists>bs1 bs3 d1 n'. BroadcastWithdrawProposal env30 tx30 (nServer empty_network) = (Done (), d1) \<and>
     network_loop env30 good_client 3 ((network30 bs1 bs3)\<lparr>nServer := d1\<rparr>) = (Done (), n') \<and> messageQueue n' = [] \<and>
     was_submitted tx30 (replicate 32 1) [] (nServer n')"
proof -
  obtain d1 where d1: "BroadcastWithdrawProposal env30 tx30 (nServer empty_network) = (Done (), d1)" using proposed30_sent by blast
  obtain bs1 bs3 where bs: "Item_Deserialize crypto30 wire0 ops30 (fresh_item, bs1) = (None, answer30 49, [])"
    "Item_Deserialize crypto30 wire0 ops30 (fresh_item, bs3) = (None, answer30 51, [])" using answer30_bytes by blast
  note a = answer30_good [OF _ bs(1), simplified] answer30_good [OF _ bs(2), simplified]
  let ?G = "{replicate 64 49, replicate 64 50, replicate 64 51} :: bytes set" and ?n = "network30 bs1 bs3"
  have n: "nServer ?n = nServer empty_network" "mainchainListeners ?n = [MainChainServer, MainChainClient]"
    "messageQueue ?n = [([3], DistributedItem bs3), ([1], DistributedItem bs1), ([3], DistributedItem bs3)]"
    by (simp_all add: network30_def InitMainChain_def AddMainchainListener_def empty_network_def)
  have q: "quorum env30 = 3"
    by (simp add: quorum_def env30_simps group0_def config0_def getTransactionAgreementArbitratorsCount_def)
  have hash: "TxHash (eT env30) tx30 = replicate 32 1" "hash_of_unsigned (eT env30)"
    by (simp_all add: env30_simps ops30_def ops0_def hash_of_unsigned_def)
  have own: "ToCodeHash (eC env30) (replicate 20 0 @ [50]) = replicate 19 0 @ [50]"
    by (simp add: env30_simps crypto30_def crypto0_def)
  have "\<exists>n'. network_loop env30 good_client (length (messageQueue ?n)) (?n\<lparr>nServer := d1\<rparr>) = (Done (), n') \<and>
    messageQueue n' = [] \<and> was_submitted tx30 (TxHash (eT env30) tx30) (submitted (nServer ?n)) (nServer n')"
  proof (rule proposal_completes [OF env30_ok hash(2), where G = ?G and ph = "replicate 20 0 @ [50]" and p = prog0 and ps = "[]" and
        hs = "map (\<lambda>b. replicate 19 0 @ [b]) [49, 50, 51]" and signers = "(\<lambda>b. replicate 19 0 @ [b]) ` {49, 50, 51}" and X = xenv0 and
        payers = "[]" and genesis = "[]" and hashes = "[]" and h = 0])
    show "dns_wf (nServer ?n)" by (simp add: n(1) dns_wf_def empty_network_def)
    show "BroadcastWithdrawProposal env30 tx30 (nServer ?n) = (Done (), d1)" using d1 n(1) by simp
    show "script_ok (eC env30) (eT env30) ?G (Code prog0) (map (\<lambda>b. replicate 19 0 @ [b]) [49, 50, 51])"
      using script30_ok by (simp add: env30_simps)
    show "\<forall>x \<in> set (messageQueue ?n). \<exists>i. answer_of env30 (snd x) = Some i \<and>
        good_answer env30 ?G (TxHash (eT env30) tx30) i \<and> answer_code env30 i \<in> set (map (\<lambda>b. replicate 19 0 @ [b]) [49, 50, 51])"
      using a by (simp add: n(3) hash(1))
    show "(\<lambda>b. replicate 19 0 @ [b]) ` {49, 50, 51} = insert (ToCodeHash (eC env30) (replicate 20 0 @ [50]))
        (answer_code env30 ` set (answers_in env30 (messageQueue ?n)))"
      using a(3,6) by (auto simp: n(3) answers_in_simps(2) [OF a(1)] answers_in_simps(2) [OF a(4)] answers_in_simps(1) own)
    have "card ((\<lambda>b. replicate 19 0 @ [b :: byte]) ` {49, 50, 51}) = 3" by (subst card_image) (simp_all add: inj_on_def)
    then show "quorum env30 \<le> card ((\<lambda>b. replicate 19 0 @ [b :: byte]) ` {49, 50, 51})"
      "card ((\<lambda>b. replicate 19 0 @ [b :: byte]) ` {49, 50, 51}) < 64" using q by simp_all
    show "\<forall>ps. \<exists>ios db. eSubmit env30 (TxContent (tx30\<lparr>Programs := ps\<rparr>)) = fst (Submit xenv0 ios (tx30\<lparr>Programs := ps\<rparr>) db)"
      by (intro allI exI [of _ "\<lambda>_. plain_io"] exI [of _ db0]) (simp add: env30_def)
    show "submit_address xenv0 tx30 [] \<noteq> Inl GoPanic" by (simp add: submit_address_def tx30_def tx0_def addr0_def)
    show "\<forall>data. \<exists>resp. SendRawTransaction (xN xenv0) data = Inr resp" by (simp add: nodes0_def)
    show "\<forall>ps. fst (TxSerialize (xT xenv0) (tx30\<lparr>Programs := ps\<rparr>)) = None" by (simp add: ops0_def)
  qed (use q n my_hash30 env30_simps in \<open>simp_all add: tx30_def tx0_def\<close>)
  moreover have "length (messageQueue ?n) = 3" "submitted (nServer ?n) = []" by (simp_all add: n) (simp add: empty_network_def)
  ultimately have "\<exists>n'. network_loop env30 good_client 3 (?n\<lparr>nServer := d1\<rparr>) = (Done (), n') \<and> messageQueue n' = [] \<and>
    was_submitted tx30 (replicate 32 1) [] (nServer n')" by (simp only: hash(1))
  with d1 show ?thesis by blast
qed

section \<open>Ending the first Schnorr round\<close>

definition unsigned_count :: "(string \<rightharpoonup> u64) \<Rightarrow> string \<Rightarrow> u64" where
  "unsigned_count m a = (case m a of None \<Rightarrow> 0 | Some c \<Rightarrow> c)"

lemma unsigned_count_bump: "unsigned_count (bump b m) a = unsigned_count m a + (if a = b then 1 else 0)"
  by (simp add: unsigned_count_def bump_def split: option.split)

lemma count_unsigned_other: "a \<notin> set arbs \<Longrightarrow> unsigned_count (count_unsigned me S arbs m) a = unsigned_count m a"
  by (induction arbs arbitrary: m) (auto simp: Let_def unsigned_count_bump)

lemma count_unsigned_silent:
  assumes "distinct arbs" "a \<in> set arbs" "a \<noteq> []" "a \<notin> S" "a \<noteq> me"
  shows "unsigned_count (count_unsigned me S arbs m) a = unsigned_count m a + 2"
  using assms
proof (induction arbs arbitrary: m)
  case (Cons b arbs)
  then show ?case
    by (cases "a = b") (auto simp: Let_def unsigned_count_bump count_unsigned_other)
qed simp

lemma early_end:
  assumes "my_key_string E = Some me" "\<not> mux_locked d" "schnorrTransaction d hash = Some tx" "requestRSigners d hash = Some signers"
    and "length signers < quorum E"
  shows "ReceiveSendSchnorrWithdrawProposal3 E hash d =
    (Done (), d\<lparr>UnsignedSigners := count_unsigned me (fst ` set signers) (arbitrators (eGroup E)) (UnsignedSigners d)\<rparr>)"
  using assms by (cases d) (simp add: ReceiveSendSchnorrWithdrawProposal3_def lock_def unlock_def)

text \<open>C38: Any connected peer can make the server count arbiters as not signing while they still have time to answer: nothing
  checks who sent the message that the server's own timer is to send. With fewer answers than the quorum, each such message
  counts every arbiter that has not answered yet as not signing twice more; the first round stays open for the next
  message, and neither the timers of the server, nor the answers it has, nor its lock change, and nothing is sent.\<close>

theorem peers_inflate_unsigned:
  assumes "mainchainListeners n = [MainChainServer, MainChainClient] \<and> serverReady n"
    and "messageQueue n = map (\<lambda>pid. (pid, SendSchnorrProposal hash)) peers"
    and "my_key_string E = Some me" "\<not> mux_locked (nServer n)" "schnorrTransaction (nServer n) hash = Some tx"
    and "requestRSigners (nServer n) hash = Some signers" "length signers < quorum E"
    and "distinct (arbitrators (eGroup E))" "a \<in> set (arbitrators (eGroup E))" "a \<noteq> []" "a \<noteq> me" "a \<notin> fst ` set signers"
  shows "\<exists>n'. network_loop E L (length peers) n = (Done (), n') \<and> messageQueue n' = [] \<and>
    unsigned_count (UnsignedSigners (nServer n')) a = unsigned_count (UnsignedSigners (nServer n)) a + 2 * of_nat (length peers) \<and>
    timers (nServer n') = timers (nServer n) \<and> schnorrTransaction (nServer n') hash = Some tx \<and>
    requestRSigners (nServer n') hash = Some signers \<and> sent (nServer n') = sent (nServer n) \<and> \<not> mux_locked (nServer n')"
  using assms(1-7)
proof (induction peers arbitrary: n)
  case (Cons pid peers)
  let ?d = "(nServer n)\<lparr>UnsignedSigners := count_unsigned me (fst ` set signers) (arbitrators (eGroup E)) (UnsignedSigners (nServer n))\<rparr>"
  let ?n = "n\<lparr>messageQueue := map (\<lambda>pid. (pid, SendSchnorrProposal hash)) peers, nServer := ?d\<rparr>"
  have "network_loop E L (Suc (length peers)) n = network_loop E L (length peers) ?n"
    using Cons.prems early_end [OF Cons.prems(3-7)] by (simp add: processMessage_def OnSendSchnorrItemMsg_def logged_def)
  moreover have "unsigned_count (UnsignedSigners ?d) a = unsigned_count (UnsignedSigners (nServer n)) a + 2"
    using count_unsigned_silent [OF assms(8-10,12,11)] by simp
  ultimately show ?case using Cons.IH [of ?n] Cons.prems by (simp add: algebra_simps)
qed simp

text \<open>An answer of one arbiter only, and two messages of a stranger.\<close>

definition dns31 :: dns where
  "dns31 = dns0\<lparr>requestRSigners := [replicate 32 1 \<mapsto> [(''2'', zero_krp)]]\<rparr>"

definition network31 :: network where
  "network31 = (tryInit (InitMainChain empty_network))\<lparr>nServer := dns31,
     messageQueue := map (\<lambda>pid. (pid, SendSchnorrProposal (replicate 32 1))) [[7], [7]]\<rparr>"

theorem peers_inflate_unsigned_witness:
  "\<exists>n'. network_loop env0 good_client 2 network31 = (Done (), n') \<and> messageQueue n' = [] \<and>
     unsigned_count (UnsignedSigners (nServer n')) ''3'' = 4 \<and> timers (nServer n') = timers dns31 \<and>
     requestRSigners (nServer n') (replicate 32 1) = Some [(''2'', zero_krp)]"
proof -
  have n: "mainchainListeners network31 = [MainChainServer, MainChainClient] \<and> serverReady network31" "nServer network31 = dns31"
    "messageQueue network31 = map (\<lambda>pid. (pid, SendSchnorrProposal (replicate 32 1))) [[7], [7]]"
    by (simp_all add: network31_def tryInit_def InitMainChain_def AddMainchainListener_def empty_network_def)
  have d: "\<not> mux_locked dns31" "schnorrTransaction dns31 (replicate 32 1) = Some tx0"
    "requestRSigners dns31 (replicate 32 1) = Some [(''2'', zero_krp)]" "UnsignedSigners dns31 = Map.empty"
    by (simp_all add: dns31_def dns0_def)
  have key: "my_key_string env0 = Some ''2''"
    by (simp add: my_key_string_def env0_def crypto1_def crypto0_def key_bytes_def byte_char_def char_of_def bit_iff_odd)
  have q: "quorum env0 = 3" "eGroup env0 = group0"
    by (simp_all add: quorum_def env0_def group0_def config0_def getTransactionAgreementArbitratorsCount_def)
  show ?thesis
    using peers_inflate_unsigned [OF n(1,3) key, where a = "''3''" and L = good_client, unfolded n(2) q(2), OF d(1-3)] d(4) q(1)
    by (simp add: group0_def unsigned_count_def numeral_2_eq_2 del: network_loop.simps) fast
qed

text \<open>C11: A \<open>senditem\<close> message of any connected peer stops a new arbiter: it is taken by the server before its mutex exists, which is made
  with the first answer or proposal only, and the program panics.\<close>

theorem new_arbiter_panics:
  assumes "NewArbitratorsNetwork C address arbiters = Inr n"
    and "handleMessage pid (SendSchnorrProposal hash) (UpdatePeers address peers (InitMainChain n)) = (Done (), n1)"
  shows "fst (network_loop E L 1 n1) = Panic"
proof -
  have "serverReady n = serverReady m \<and> mainchainListeners n = mainchainListeners m \<and> messageQueue n = messageQueue m"
    if "add_arbiters C address arbiters m = Inr n" for m
    using that by (induction arbiters arbitrary: m) (auto split: option.splits)
  with assms(1) have "serverReady n = False" "mainchainListeners n = []" "messageQueue n = []"
    by (auto simp: NewArbitratorsNetwork_def empty_network_def)
  then show ?thesis
    using assms(2) by (auto simp: handleMessage_def UpdatePeers_def InitMainChain_def AddMainchainListener_def queue_capacity_def
        processMessage_def OnSendSchnorrItemMsg_def)
qed

theorem new_arbiter_panics_witness:
  "\<exists>n n1. NewArbitratorsNetwork crypto0 ''10.0.0.1'' [''1''] = Inr n \<and>
     handleMessage [7] (SendSchnorrProposal []) (UpdatePeers ''10.0.0.1'' [] (InitMainChain n)) = (Done (), n1) \<and>
     fst (network_loop env0 good_client 1 n1) = Panic"
proof -
  obtain n where n: "NewArbitratorsNetwork crypto0 ''10.0.0.1'' [''1''] = Inr n" "messageQueue n = []"
    by (simp add: NewArbitratorsNetwork_def crypto0_def empty_network_def)
  then have "\<exists>n1. handleMessage [7] (SendSchnorrProposal []) (UpdatePeers ''10.0.0.1'' [] (InitMainChain n)) = (Done (), n1)"
    by (simp add: handleMessage_def UpdatePeers_def InitMainChain_def AddMainchainListener_def queue_capacity_def)
  then obtain n1 where "handleMessage [7] (SendSchnorrProposal []) (UpdatePeers ''10.0.0.1'' [] (InitMainChain n)) = (Done (), n1)"
    by (elim exE)
  with n(1) new_arbiter_panics [OF n(1) this] show ?thesis by blast
qed

end
