(* ===== verification/Signing.thy ===== *)
theory Signing
  imports Tx_Check Cs_Client
begin

text \<open>
  What an arbiter checks before it signs: the transaction of the second Schnorr round
  (\<open>arbitration/cs/txschnorrrequestscontent.go\<close>), the evidence of \<open>illegaldistributedcontent.go\<close>, and the client of
  \<open>Cs_Client\<close> with these checks and the account of \<open>arbitrator.go\<close>.
\<close>

section \<open>The checks of the second Schnorr round\<close>

definition agreement_count :: "cross_env \<Rightarrow> nat" where
  "agreement_count X = getTransactionAgreementArbitratorsCount (xCfg X) (currentHeight (xGroup X)) (length (arbitrators (xGroup X)))"

definition checkSchnorrWithdrawPayload :: "cross_env \<Rightarrow> db_io \<Rightarrow> db_cache \<Rightarrow> transaction \<Rightarrow> go_error option" where
  "checkSchnorrWithdrawPayload X io db txn =
     (if PayloadVersion txn \<noteq> WithdrawFromSideChainVersionV2 (xA X)
      then Some (Err ''invalid schnorr withdraw payload version, not WithdrawFromSideChainVersionV2'')
      else (case Payload txn of
              WithdrawFromSideChain signers _ _ _ \<Rightarrow>
                if length signers \<noteq> agreement_count X then Some (Err ''invalid signer count'')
                else checkWithdrawFromSideChainPayload X io db txn
            | _ \<Rightarrow> Some (Err ''invalid transaction payload'')))"

definition checkSchnorrReturnDepositTxPayload :: "cross_env \<Rightarrow> transaction \<Rightarrow> go_error option" where
  "checkSchnorrReturnDepositTxPayload X txn =
     (if PayloadVersion txn \<noteq> ReturnSideChainDepositCoinVersionV1 (xA X)
      then Some (Err ''invalid schnorr return deposit payload version, not ReturnSideChainDepositCoinVersionV1'')
      else (case Payload txn of
              ReturnSideChainDepositCoin signers \<Rightarrow>
                if length signers \<noteq> agreement_count X then Some (Err ''invalid signer count'')
                else checkReturnDepositTxPayload X txn
            | _ \<Rightarrow> Some (Err ''invalid transaction payload'')))"

definition checkSchnorrWithdrawRequestSTransaction ::
    "cross_env \<Rightarrow> db_io \<Rightarrow> db_cache \<Rightarrow> transaction \<Rightarrow> u32 \<Rightarrow> go_error option" where
  "checkSchnorrWithdrawRequestSTransaction X io db txn height =
     (if height < SchnorrStartHeight (xCfg X) then Some (Err ''invalid schnorr withdraw transaction before start height'')
      else (case Payload txn of
              WithdrawFromSideChain _ _ _ _ \<Rightarrow> checkSchnorrWithdrawPayload X io db txn
            | ReturnSideChainDepositCoin _ \<Rightarrow> checkSchnorrReturnDepositTxPayload X txn
            | _ \<Rightarrow> Some (Err ''check withdraw transaction failed, unknown payload type'')))"

definition RequestS_Check :: "cross_env \<Rightarrow> db_io \<Rightarrow> db_cache \<Rightarrow> transaction \<Rightarrow> go_error option \<times> db_cache" where
  "RequestS_Check X io db txn =
     (case Main_CurrentHeight io QueryHeightCode (MainChainStore db) of
        (height, st) \<Rightarrow>
          (let db' = db\<lparr>MainChainStore := st\<rparr> in (checkSchnorrWithdrawRequestSTransaction X io db' txn height, db')))"

section \<open>Evidence\<close>

text \<open>The chain of the evidence must be known; what its node says of the evidence is thrown away. The address in the library's
  evidence is an argument.\<close>

definition Illegal_Check :: "cross_env \<Rightarrow> (illegal_evidence \<Rightarrow> string) \<Rightarrow> illegal_evidence \<Rightarrow> go_error option" where
  "Illegal_Check X genesisOf ev =
     (case GetChain X (genesisOf ev) of
        None \<Rightarrow> Some (Err ''IllegalDistributedContent get side chain from genesis address failed when check illegal evidence'')
      | Some _ \<Rightarrow> None)"

text \<open>\<open>submit\<close> is the request \<open>submitsidechainillegaldata\<close> to the main node; only its transport can fail here, an error that
  the node reports is not looked at.\<close>

definition Illegal_Submit :: "crypto \<Rightarrow> ev_ops \<Rightarrow> (string \<Rightarrow> go_error + rpc_resp) \<Rightarrow> illegal_evidence \<Rightarrow> go_error option" where
  "Illegal_Submit C V submit ev =
     (case EvSerialize V ev of
        (Some e, _) \<Rightarrow> Some e
      | (None, buf) \<Rightarrow> (case submit (BytesToHexString C buf) of Inl e \<Rightarrow> Some e | Inr _ \<Rightarrow> None))"

section \<open>The client with its checks\<close>

text \<open>\<open>ArbitratorImpl.GetSchnorrS\<close> of an account with that private key.\<close>

definition GetSchnorrS_of :: "nat \<Rightarrow> nat \<Rightarrow> nat" where
  "GetSchnorrS_of privKey e = GetEMulPrivateKey privKey e"

definition checked_client ::
    "cross_env \<Rightarrow> db_io \<Rightarrow> db_cache \<Rightarrow> (illegal_evidence \<Rightarrow> string) \<Rightarrow> (bytes \<Rightarrow> bytes \<Rightarrow> go_error option) \<Rightarrow> client_env" where
  "checked_client X io db genesisOf send =
     \<lparr>contentCheck = (\<lambda>c. case c of TxContent tx \<Rightarrow> fst (Check X io db tx) | IllegalDistributedContent ev \<Rightarrow> Illegal_Check X genesisOf ev),
      schnorrCheck = (\<lambda>tx. fst (RequestS_Check X io db tx)), SendMessageToPeer = send\<rparr>"

end
