(* ===== verification/Props_Signing.thy ===== *)
theory Props_Signing
  imports Signing Props_Cross Props_Submit Props_Rounds
begin

text \<open>
  What the signature of an arbiter stands for: the transactions that it has checked. And what the share of the second
  Schnorr round gives away.
\<close>

section \<open>Multi-signature proposals\<close>

lemma answered_checked:
  assumes "OnReceivedProposal E L pid bytes cl = (r, cl')" "feedbacks cl' \<noteq> feedbacks cl"
    and "Item_Deserialize (eC E) (eW E) (eT E) (fresh_item, bytes) = (None, i, rest)" "ItemType i = MultisigContent"
    and "ItemContent i = Some c"
  shows "contentCheck L c = None"
  using assms by (auto simp: OnReceivedProposal_def onReceivedProposal_def split: option.splits)

lemma Check_height:
  "fst (Check X io db tx) = checkWithdrawTransaction X io (db\<lparr>MainChainStore := snd (Main_CurrentHeight io QueryHeightCode (MainChainStore db))\<rparr>)
     tx (fst (Main_CurrentHeight io QueryHeightCode (MainChainStore db)))"
  by (simp add: Check_def Let_def split: prod.split)

lemma pays_owed_main: "pays_owed X io (db\<lparr>MainChainStore := st\<rparr>) tx = pays_owed X io db tx"
  by (simp add: pays_owed_def GetDataStoreGenesisBlocAddress_def)

text \<open>C2: An arbiter puts its signature under a withdraw proposed to it, from the height on at which withdraws name their
  side chain transactions in the outputs, only when the transaction pays out exactly what these withdraws owe.\<close>

theorem signed_withdraw_pays_owed:
  assumes "OnReceivedProposal E (checked_client X io db genesisOf send) pid bytes cl = (r, cl')" "feedbacks cl' \<noteq> feedbacks cl"
    and "Item_Deserialize (eC E) (eW E) (eT E) (fresh_item, bytes) = (None, i, rest)" "ItemType i = MultisigContent"
    and "ItemContent i = Some (TxContent tx)" "Payload tx = WithdrawFromSideChain signers genesis hashes h"
    and "NewCrossChainTransactionHeight (xCfg X) \<le> fst (Main_CurrentHeight io QueryHeightCode (MainChainStore db))"
  shows "PayloadVersion tx = WithdrawFromSideChainVersionV1 (xA X) \<and> pays_owed X io db tx"
proof -
  have "fst (Check X io db tx) = None" using answered_checked [OF assms(1-5)] by (simp add: checked_client_def)
  then have "checkWithdrawFromSideChainPayloadV1 X io (db\<lparr>MainChainStore := snd (Main_CurrentHeight io QueryHeightCode (MainChainStore db))\<rparr>) tx = None"
    using assms(6,7) by (simp add: Check_height checkWithdrawTransaction_def)
  then have "PayloadVersion tx = WithdrawFromSideChainVersionV1 (xA X)"
    "pays_owed X io (db\<lparr>MainChainStore := snd (Main_CurrentHeight io QueryHeightCode (MainChainStore db))\<rparr>) tx"
    using accepted_pays_owed by (simp_all add: checkWithdrawFromSideChainPayloadV1_def split: if_splits)
  then show ?thesis unfolding pays_owed_main by (rule conjI)
qed

section \<open>The second Schnorr round\<close>

text \<open>What the check of the second round looks at.\<close>

definition schnorr_sound :: "cross_env \<Rightarrow> db_io \<Rightarrow> db_cache \<Rightarrow> transaction \<Rightarrow> bool" where
  "schnorr_sound X io db tx =
     (case Payload tx of
        WithdrawFromSideChain signers _ _ _ \<Rightarrow>
          PayloadVersion tx = WithdrawFromSideChainVersionV2 (xA X) \<and> length signers = agreement_count X \<and> pays_owed X io db tx
      | ReturnSideChainDepositCoin signers \<Rightarrow>
          PayloadVersion tx = ReturnSideChainDepositCoinVersionV1 (xA X) \<and> length signers = agreement_count X \<and>
          checkReturnDepositTxPayload X tx = None
      | _ \<Rightarrow> False)"

lemma RequestS_sound:
  assumes "fst (RequestS_Check X io db tx) = None"
  shows "schnorr_sound X io db tx"
proof -
  obtain height st where h: "Main_CurrentHeight io QueryHeightCode (MainChainStore db) = (height, st)" by fastforce
  have c: "checkSchnorrWithdrawRequestSTransaction X io (db\<lparr>MainChainStore := st\<rparr>) tx height = None"
    using assms by (simp add: RequestS_Check_def h Let_def)
  show ?thesis
  proof (cases "Payload tx")
    case (WithdrawFromSideChain signers genesis hashes b)
    then have "checkWithdrawFromSideChainPayload X io (db\<lparr>MainChainStore := st\<rparr>) tx = None"
      "PayloadVersion tx = WithdrawFromSideChainVersionV2 (xA X)" "length signers = agreement_count X"
      using c by (simp_all add: checkSchnorrWithdrawRequestSTransaction_def checkSchnorrWithdrawPayload_def split: if_splits)
    with WithdrawFromSideChain accepted_pays_owed [OF this(1)] show ?thesis by (simp add: schnorr_sound_def pays_owed_main)
  next
    case (ReturnSideChainDepositCoin signers)
    then show ?thesis using c
      by (simp add: schnorr_sound_def checkSchnorrWithdrawRequestSTransaction_def checkSchnorrReturnDepositTxPayload_def split: if_splits)
  qed (use c in \<open>simp_all add: checkSchnorrWithdrawRequestSTransaction_def split: if_splits\<close>)
qed

text \<open>What a client receives: a message, in an environment of its own, with the state of the arbiter that it is checked
  against (its nodes, its database and what the database answers).\<close>

type_synonym proposal_event = "cs_env \<times> cross_env \<times> db_io \<times> db_cache \<times> bytes"

inductive client_run :: "tx_ops \<Rightarrow> proposal_event list \<Rightarrow> client \<Rightarrow> client \<Rightarrow> bool" for T where
  client_start: "client_run T [] cl cl"
| client_next: "client_run T evs cl0 cl \<Longrightarrow> eT E = T \<Longrightarrow>
    client_run T (evs @ [(E, X, io, db, bytes)]) cl0 (snd (OnReceivedProposal E (checked_client X io db genesisOf send) pid bytes cl))"

text \<open>The event is a proposal of the second round for that transaction, and the transaction is sound in the state of the
  arbiter in which the event came.\<close>

definition sound_proposal :: "proposal_event \<Rightarrow> transaction \<Rightarrow> bool" where
  "sound_proposal ev tx =
     (case ev of (E, X, io, db, bytes) \<Rightarrow>
        (\<exists>i rest. Item_Deserialize (eC E) (eW E) (eT E) (fresh_item, bytes) = (None, i, rest) \<and>
           ItemType i = SchnorrMultisigContent3 \<and> STx (RequestSContent i) = Some tx) \<and> schnorr_sound X io db tx)"

lemma send_signed_checked: "CheckedTransactions (snd (send_signed E L pid s cl)) = CheckedTransactions cl"
  by (simp add: send_signed_def Feedback_def split: outcome.split prod.split option.split)

lemma proposal3_checked:
  assumes "onReceivedSchnorrProposal3 E (checked_client X io db genesisOf send) pid i cl = (r, cl')"
  shows "(\<forall>h \<in> CheckedTransactions cl'. h \<in> CheckedTransactions cl \<or>
      (\<exists>tx. STx (RequestSContent i) = Some tx \<and> h = TxHash (eT E) tx \<and> schnorr_sound X io db tx)) \<and>
    (feedbacks cl' \<noteq> feedbacks cl \<longrightarrow> (\<exists>tx myself. STx (RequestSContent i) = Some tx \<and> TxHash (eT E) tx \<in> CheckedTransactions cl' \<and>
       EncodePoint (eC E) (MyPublicKey (eAcc E)) = Some myself \<and> myself \<in> set (SPublickeys (RequestSContent i))))"
proof -
  have step: "CheckedTransactions cl'' = CheckedTransactions cl1" if "send_signed E L pid s cl1 = (r', cl'')" for L s cl1 r' cl''
    using send_signed_checked [of E L pid s cl1] that by simp
  show ?thesis using assms RequestS_sound [of X io db] step
    by (auto simp: onReceivedSchnorrProposal3_def Let_def checked_client_def split: option.splits if_splits)
qed

lemma step_checked:
  assumes "OnReceivedProposal E (checked_client X io db genesisOf send) pid bytes cl = (r, cl')" "h \<in> CheckedTransactions cl'"
  shows "h \<in> CheckedTransactions cl \<or> (\<exists>tx. sound_proposal (E, X, io, db, bytes) tx \<and> h = TxHash (eT E) tx)"
proof -
  have "CheckedTransactions cl' = CheckedTransactions cl"
    if "onReceivedProposal E L pid i cl = (r, cl') \<or> onReceivedSchnorrProposal2 E L pid i cl = (r, cl')" for L i
    using that send_signed_checked [of E L pid _ cl]
    by (auto simp: onReceivedProposal_def onReceivedSchnorrProposal2_def split: option.splits) (metis snd_conv)+
  with assms proposal3_checked [of E X io db genesisOf send pid _ cl r cl'] show ?thesis
    by (fastforce simp: OnReceivedProposal_def sound_proposal_def content_types split: prod.splits option.splits if_splits)
qed

lemma run_checked:
  assumes "client_run T evs cl0 cl" "CheckedTransactions cl0 = {}" "h \<in> CheckedTransactions cl"
  shows "\<exists>ev \<in> set evs. \<exists>tx. sound_proposal ev tx \<and> h = TxHash T tx"
  using assms
proof (induction arbitrary: h rule: client_run.induct)
  case (client_next evs cl0 cl E X io db bytes genesisOf send pid)
  obtain r cl' where "OnReceivedProposal E (checked_client X io db genesisOf send) pid bytes cl = (r, cl')" by fastforce
  then show ?case using step_checked [of E X io db genesisOf send pid bytes cl r cl' h] client_next by auto
qed simp

text \<open>C10: An arbiter gives its share of a Schnorr signature only for a transaction that it has checked against its own nodes
  and database, now or, under the same hash, with an earlier proposal: the transaction names as many signers as the quorum
  and pays out exactly what its withdraws owe, or is a refund that passed; and only if its own key is among the keys of the
  proposal.\<close>

theorem schnorr_share_checked:
  assumes "client_run T evs cl0 cl" "CheckedTransactions cl0 = {}" "eT E = T"
    and "OnReceivedProposal E (checked_client X io db genesisOf send) pid bytes cl = (r, cl')" "feedbacks cl' \<noteq> feedbacks cl"
    and "Item_Deserialize (eC E) (eW E) (eT E) (fresh_item, bytes) = (None, i, rest)" "ItemType i = SchnorrMultisigContent3"
  shows "\<exists>tx myself. STx (RequestSContent i) = Some tx \<and> EncodePoint (eC E) (MyPublicKey (eAcc E)) = Some myself \<and>
    myself \<in> set (SPublickeys (RequestSContent i)) \<and>
    (schnorr_sound X io db tx \<or> (\<exists>ev \<in> set evs. \<exists>tx'. sound_proposal ev tx' \<and> TxHash T tx' = TxHash T tx))"
proof -
  have "onReceivedSchnorrProposal3 E (checked_client X io db genesisOf send) pid i cl = (r, cl')"
    using assms(4-7) by (auto simp: OnReceivedProposal_def content_types split: option.splits)
  note p = proposal3_checked [OF this]
  from p assms(5) obtain tx myself where tx: "STx (RequestSContent i) = Some tx"
    "TxHash (eT E) tx \<in> CheckedTransactions cl'" "EncodePoint (eC E) (MyPublicKey (eAcc E)) = Some myself"
    "myself \<in> set (SPublickeys (RequestSContent i))" by (elim conjE impE exE)
  have "TxHash T tx \<in> CheckedTransactions cl \<or> schnorr_sound X io db tx"
    using p tx(1,2) assms(3) by auto
  then have "schnorr_sound X io db tx \<or> (\<exists>ev \<in> set evs. \<exists>tx'. sound_proposal ev tx' \<and> TxHash T tx' = TxHash T tx)"
    using run_checked [OF assms(1,2)] by metis
  with tx(1,3,4) show ?thesis by blast
qed

text \<open>C3: The share that an arbiter sends in the second round is the product of its private key and the number \<open>e\<close> of the
  proposal, without a nonce and not reduced: whoever reads the answer divides and has the private key, whoever made the
  proposal and whatever transaction it is for.\<close>

theorem share_reveals_key:
  assumes "GetSchnorrS (eAcc E) = GetSchnorrS_of key" "0 < SE (RequestSContent i)"
    and "OnReceivedProposal E L pid bytes cl = (r, cl')" "feedbacks cl' \<noteq> feedbacks cl"
    and "Item_Deserialize (eC E) (eW E) (eT E) (fresh_item, bytes) = (None, i, rest)" "ItemType i = SchnorrMultisigContent3"
  shows "\<exists>buf j. feedbacks cl' = (pid, buf) # feedbacks cl \<and> Item_Serialize (eC E) (eW E) (eT E) (eV E) j [] = (None, buf) \<and>
    SE (RequestSContent j) = SE (RequestSContent i) \<and> SS (RequestSContent j) div SE (RequestSContent j) = key"
proof -
  have on: "onReceivedSchnorrProposal3 E L pid i cl = (r, cl')"
    using assms(3-6) by (auto simp: OnReceivedProposal_def content_types split: option.splits)
  let ?j = "i\<lparr>RequestSContent := (RequestSContent i)\<lparr>SS := GetSchnorrS (eAcc E) (SE (RequestSContent i))\<rparr>,
    ItemType := AnswerSchnorrMultisigContent3\<rparr>"
  have "\<exists>C. send_signed E L pid (SchnorrSign3 (eW E) (eT E) (eAcc E) ?j) (cl\<lparr>CheckedTransactions := C\<rparr>) = (r, cl')"
    using on assms(4) by (fastforce simp: onReceivedSchnorrProposal3_def Let_def split: option.splits if_splits)
  then obtain cl1 j where j: "feedbacks cl1 = feedbacks cl" "send_signed E L pid (SchnorrSign3 (eW E) (eT E) (eAcc E) j) cl1 = (r, cl')"
    "RequestSContent j = (RequestSContent i)\<lparr>SS := GetSchnorrS (eAcc E) (SE (RequestSContent i))\<rparr>"
    by (elim exE) (rule that [of "cl\<lparr>CheckedTransactions := _\<rparr>" ?j], simp_all)
  from j(1,2) assms(4) obtain k where k: "SchnorrSign3 (eW E) (eT E) (eAcc E) j = Done k" "Feedback E L pid k cl1 = (r, cl')"
    by (auto simp: send_signed_def split: outcome.splits)
  have "RequestSContent k = RequestSContent j" using k(1) by (auto simp: SchnorrSign3_def fail_of_def split: prod.splits option.splits if_splits)
  moreover obtain h buf where "Item_Serialize (eC E) (eW E) (eT E) (eV E) (feedback_item E h k) [] = (None, buf)"
    "feedbacks cl' = (pid, buf) # feedbacks cl"
    using k(2) j(1) assms(4) by (auto simp: Feedback_def split: outcome.splits prod.splits option.splits if_splits)
  ultimately show ?thesis using j(3) assms(1,2)
    by (intro exI [of _ buf] exI [of _ "feedback_item E h k"]) (simp add: feedback_item_def GetSchnorrS_of_def GetEMulPrivateKey_def)
qed

section \<open>Witnesses\<close>

text \<open>A library that knows one transaction, and the proposal of arbiter 2 for it.\<close>

definition ops32 :: "transaction \<Rightarrow> tx_ops" where
  "ops32 tx = ops0\<lparr>GetTransactionByBytes := (\<lambda>b. case b of [] \<Rightarrow> (Inl ErrOther, []) | c # r \<Rightarrow>
     if c = 9 then (Inr tx, r) else (Inl ErrOther, r))\<rparr>"

definition env32 :: "transaction \<Rightarrow> cs_env" where "env32 tx = env0\<lparr>eT := ops32 tx\<rparr>"

definition item32 :: "transaction \<Rightarrow> item" where "item32 tx = item4\<lparr>ItemContent := Some (TxContent tx)\<rparr>"

definition signed32 :: "transaction \<Rightarrow> item" where "signed32 tx = signed4\<lparr>ItemContent := Some (TxContent tx)\<rparr>"

lemma ops32_ok: "tx_full_ok (ops32 tx) tx" "tx_unsigned_ok (ops32 tx) tx"
  by (auto simp: tx_full_ok_def tx_unsigned_ok_def ops32_def ops0_def)

lemma env32_simps: "eC (env32 tx) = crypto1" "eW (env32 tx) = wire0" "eT (env32 tx) = ops32 tx" "eV (env32 tx) = ev_ops0"
  "eAcc (env32 tx) = eAcc env0" "eFunc (env32 tx) = eFunc env0" "eGroup (env32 tx) = eGroup env0"
  by (simp_all add: env32_def env0_def)

lemma sign32: "SignProposal (env32 tx) (item32 tx) = Done (signed32 tx)"
proof -
  have E: "MyPublicKey (eAcc env0) = (50, 0)"
    "SignData (eAcc env0) [9] = Some (replicate 64 50)" "GetCurrentHeight (eFunc env0) = Inr 5"
    "GetArbitratorGroupInfoByHeight (eFunc env0) 5 = Inr ([''1'', ''2''], 1)" by (simp_all add: env0_def)
  have C: "EncodePoint crypto1 (50, 0) = Some (key_bytes (50, 0))" "SignatureScriptLength crypto1 = 65"
    "PublicKeyToStandardProgramHash crypto1 (key_bytes (50, 0)) = Some (replicate 20 0 @ [50])"
    "Verify crypto1 (50, 0) [9] (replicate 64 50)"
    by (simp_all add: crypto1_def crypto0_def key_bytes_def)
  have I: "redeemScript (item32 tx) = script4" "ItemContent (item32 tx) = Some (TxContent tx)"
    "signedData (item32 tx) = Some (replicate 65 50)" "TargetArbitratorPublicKey (item32 tx) = Some (50, 0)"
    by (simp_all add: item32_def item4_def item0_def)
  have "PublicKeyFromString crypto1 ''2'' = Some (50, 0)"
    using key0 [OF no_space(2)]
    by (simp add: char_byte_def crypto1_def PublicKeyFromString_def) (simp add: crypto0_def)
  moreover have "signer_index (replicate 20 0 @ [50]) [Some (replicate 20 0 @ [50]), Some (replicate 20 0 @ [49])] = Done (Some 0)"
    by (simp add: signer_index_def)
  moreover have "content_SerializeUnsigned (ops32 tx) ev_ops0 (TxContent tx) = (None, [9])"
    by (simp add: content_SerializeUnsigned_def ops32_def ops0_def)
  moreover have "signed32 tx = item32 tx\<lparr>signedData := Some (replicate 65 50 @ 64 # replicate 64 50)\<rparr>"
    by (simp add: signed32_def signed4_def item32_def)
  ultimately show ?thesis
    by (simp add: SignProposal_def Sign_def appendSignature_def signers4 env32_simps E C I signed_bytes_def)
qed

lemma item32_fits: "item_fits crypto1 (ops32 tx) (item32 tx)"
  "item_fits crypto1 (ops32 tx) (feedback_item (env32 tx) (replicate 20 0 @ [50]) (signed32 tx))"
proof -
  have "71 \<le> MaxRedeemScriptDataSize" by (simp add: MaxRedeemScriptDataSize_def)
  moreover have "length script4 = 71" by (simp add: script4_def key_bytes_def)
  ultimately show "item_fits crypto1 (ops32 tx) (item32 tx)"
    "item_fits crypto1 (ops32 tx) (feedback_item (env32 tx) (replicate 20 0 @ [50]) (signed32 tx))"
    using ops32_ok(1) [of tx]
    by (simp_all add: item_fits_def header_fits_def body_fits_def item32_def item4_def item0_def fresh_item_def crypto1_def crypto0_def
        key_bytes_def script_fits_def signed_fits_def Let_def signed32_def signed4_def feedback_item_def answer_type_def content_types
        env32_simps env0_def)
qed

lemma arbiter32: "my_hash (env32 tx) = Done (replicate 20 0 @ [50])"
  "CheckMyselfInCurrentArbiters crypto1 (eGroup env0) (eAcc env0) = None"
  by (simp_all add: my_hash_def env32_simps CheckMyselfInCurrentArbiters_def env0_def crypto1_def crypto0_def key_bytes_def
      group0_def byte_char_def char_of_def bit_iff_odd)

lemma answer32:
  assumes "contentCheck L (TxContent tx) = None" "SendMessageToPeer L = (\<lambda>_ _. None)"
  shows "\<exists>bs buf. Item_Deserialize crypto1 wire0 (ops32 tx) (fresh_item, bs) = (None, item32 tx, []) \<and>
    OnReceivedProposal (env32 tx) L [] bs no_feedbacks = (Done (), no_feedbacks\<lparr>feedbacks := [([], buf)]\<rparr>)"
proof -
  obtain bs where bs: "Item_Deserialize crypto1 wire0 (ops32 tx) (fresh_item, bs) = (None, item32 tx, [])"
    using item.roundtrip [of wire0 crypto1 "ops32 tx" "item32 tx" ev_ops0 "fst (Item_Serialize crypto1 wire0 (ops32 tx) ev_ops0 (item32 tx) [])"
      "snd (Item_Serialize crypto1 wire0 (ops32 tx) ev_ops0 (item32 tx) [])" "[]"] wire0_ok item32_fits(1) by auto
  obtain buf where buf: "Item_Serialize crypto1 wire0 (ops32 tx) ev_ops0
      (feedback_item (env32 tx) (replicate 20 0 @ [50]) (signed32 tx)) [] = (None, buf)"
    using item.ser_total [of wire0 crypto1 "ops32 tx" "feedback_item (env32 tx) (replicate 20 0 @ [50]) (signed32 tx)" ev_ops0 "[]"]
      wire0_ok item32_fits(2) by auto
  have I: "ItemType (item32 tx) = MultisigContent" "ItemContent (item32 tx) = Some (TxContent tx)"
    by (simp_all add: item32_def item4_def)
  have "OnReceivedProposal (env32 tx) L [] bs no_feedbacks = (Done (), no_feedbacks\<lparr>feedbacks := [([], buf)]\<rparr>)"
    using assms by (simp add: OnReceivedProposal_def env32_simps bs I arbiter32 onReceivedProposal_def sign32 send_signed_def Feedback_def buf
        no_feedbacks_def)
  with bs show ?thesis by blast
qed

lemma check_main: "checkWithdrawFromSideChainPayload X io (db\<lparr>MainChainStore := st\<rparr>) tx = checkWithdrawFromSideChainPayload X io db tx"
  by (simp add: checkWithdrawFromSideChainPayload_def GetDataStoreGenesisBlocAddress_def split: sum.split prod.split option.split)

theorem signed_withdraw_pays_owed_witness:
  "\<exists>(tx :: transaction) bs buf. OnReceivedProposal (env32 tx) (checked_client xenv0 plain_io db0 (\<lambda>_. []) (\<lambda>_ _. None)) [] bs no_feedbacks =
       (Done (), no_feedbacks\<lparr>feedbacks := [([], buf)]\<rparr>) \<and> pays_owed xenv0 plain_io db0 tx"
proof -
  obtain tx db where tx: "CreateWithdrawTransactionV1 xenv0 plain_io chain0 [wtx4] db0 = (Inr tx, db)" using built4 by blast
  then have p: "Payload tx = WithdrawFromSideChain [] '''' [] 0"
    by (auto simp: CreateWithdrawTransactionV1_def split: prod.splits sum.splits)
  have "checkWithdrawFromSideChainPayloadV1 xenv0 plain_io db0 tx = None"
    using accepted_of_built [OF tx chain0_found(1) conditions4] by simp
  then have "fst (Check xenv0 plain_io db0 tx) = None"
    using p by (simp add: Check_height checkWithdrawTransaction_def checkWithdrawFromSideChainPayloadV1_def check_main config0_def
        split: if_splits)
  then have "contentCheck (checked_client xenv0 plain_io db0 (\<lambda>_. []) (\<lambda>_ _. None)) (TxContent tx) = None"
    by (simp add: checked_client_def)
  from answer32 [OF this] obtain bs buf where a: "Item_Deserialize crypto1 wire0 (ops32 tx) (fresh_item, bs) = (None, item32 tx, [])"
    "OnReceivedProposal (env32 tx) (checked_client xenv0 plain_io db0 (\<lambda>_. []) (\<lambda>_ _. None)) [] bs no_feedbacks =
      (Done (), no_feedbacks\<lparr>feedbacks := [([], buf)]\<rparr>)" by (auto simp: checked_client_def)
  have "pays_owed xenv0 plain_io db0 tx"
    using signed_withdraw_pays_owed [OF a(2) _ _ _ _ p, where i = "item32 tx" and rest = "[]"] a(1)
    by (simp add: env32_simps no_feedbacks_def item32_def item4_def config0_def)
  with a(2) show ?thesis by blast
qed

text \<open>The second round for a transaction, with \<open>e\<close> = 5 and an arbiter whose private key is 23.\<close>

definition env33 :: "transaction \<Rightarrow> cs_env" where
  "env33 tx = (env32 tx)\<lparr>eAcc := (eAcc env0)\<lparr>GetSchnorrS := GetSchnorrS_of 23\<rparr>\<rparr>"

definition content33 :: "transaction \<Rightarrow> nat \<Rightarrow> request_s" where
  "content33 tx s = \<lparr>SNonceHash = replicate 32 1, STx = Some tx, SPublickeys = [key_bytes (50, 0)], SE = 5, SS = s\<rparr>"

definition item33 :: "transaction \<Rightarrow> item" where
  "item33 tx = fresh_item\<lparr>TargetArbitratorPublicKey := Some (60, 0), TargetArbitratorProgramHash := replicate 21 3,
     ItemType := SchnorrMultisigContent3, RequestSContent := content33 tx 0\<rparr>"

definition share33 :: "transaction \<Rightarrow> item" where
  "share33 tx = (item33 tx)\<lparr>RequestSContent := content33 tx 115, ItemType := AnswerSchnorrMultisigContent3,
     signedData := Some (replicate 64 50)\<rparr>"

lemma env33_simps: "eC (env33 tx) = crypto1" "eW (env33 tx) = wire0" "eT (env33 tx) = ops32 tx" "eV (env33 tx) = ev_ops0"
  "MyPublicKey (eAcc (env33 tx)) = (50, 0)" "SignData (eAcc (env33 tx)) m = Some (replicate 64 50)"
  "GetSchnorrS (eAcc (env33 tx)) = GetSchnorrS_of 23" "my_hash (env33 tx) = my_hash (env32 tx)"
  "CheckMyselfInCurrentArbiters crypto1 (eGroup (env33 tx)) (eAcc (env33 tx)) =
    CheckMyselfInCurrentArbiters crypto1 (eGroup env0) (eAcc env0)"
  by (simp_all add: env33_def env32_simps my_hash_def CheckMyselfInCurrentArbiters_def split: option.split)
    (simp_all add: env32_def env0_def)

lemma content33_fits: "request_s_fits (ops32 tx) False (content33 tx 0)" "request_s_fits (ops32 tx) True (content33 tx 115)"
  using ops32_ok(2) [of tx] by (simp_all add: request_s_fits_def content33_def key_bytes_def)

lemma item33_fits: "item_fits crypto1 (ops32 tx) (item33 tx)"
  "item_fits crypto1 (ops32 tx) (feedback_item (env33 tx) (replicate 20 0 @ [50]) (share33 tx))"
  using content33_fits [of tx]
  by (simp_all add: item_fits_def header_fits_def body_fits_def item33_def share33_def fresh_item_def crypto1_def crypto0_def
      key_bytes_def signed_fits_def Let_def feedback_item_def answer_type_def content_types env33_simps)

lemma sign33: "SchnorrSign3 wire0 (ops32 tx) (eAcc (env33 tx))
    ((item33 tx)\<lparr>RequestSContent := content33 tx 115, ItemType := AnswerSchnorrMultisigContent3\<rparr>) = Done (share33 tx)"
proof -
  obtain bs where "RequestS_Serialize wire0 (ops32 tx) True (content33 tx 115) [] = (None, bs)"
    using request_s.ser_total [of wire0 "ops32 tx" True "content33 tx 115" "[]"] wire0_ok content33_fits(2) by auto
  then show ?thesis by (simp add: SchnorrSign3_def env33_simps share33_def)
qed

lemma shared33:
  assumes "schnorrCheck L tx = None" "SendMessageToPeer L = (\<lambda>_ _. None)"
  shows "\<exists>bs buf. Item_Deserialize crypto1 wire0 (ops32 tx) (fresh_item, bs) = (None, item33 tx, []) \<and>
    OnReceivedProposal (env33 tx) L [] bs no_feedbacks =
      (Done (), \<lparr>CheckedTransactions = {TxHash (ops32 tx) tx}, feedbacks = [([], buf)]\<rparr>)"
proof -
  obtain bs where bs: "Item_Deserialize crypto1 wire0 (ops32 tx) (fresh_item, bs) = (None, item33 tx, [])"
    using item.roundtrip [of wire0 crypto1 "ops32 tx" "item33 tx" ev_ops0 "fst (Item_Serialize crypto1 wire0 (ops32 tx) ev_ops0 (item33 tx) [])"
      "snd (Item_Serialize crypto1 wire0 (ops32 tx) ev_ops0 (item33 tx) [])" "[]"] wire0_ok item33_fits(1) by auto
  obtain buf where buf: "Item_Serialize crypto1 wire0 (ops32 tx) ev_ops0
      (feedback_item (env33 tx) (replicate 20 0 @ [50]) (share33 tx)) [] = (None, buf)"
    using item.ser_total [of wire0 crypto1 "ops32 tx" "feedback_item (env33 tx) (replicate 20 0 @ [50]) (share33 tx)" ev_ops0 "[]"]
      wire0_ok item33_fits(2) by auto
  have I: "ItemType (item33 tx) = SchnorrMultisigContent3" "RequestSContent (item33 tx) = content33 tx 0"
    "STx (content33 tx s) = Some tx" "SPublickeys (content33 tx s) = [key_bytes (50, 0)]" "SE (content33 tx s) = 5"
    "(content33 tx 0)\<lparr>SS := 115\<rparr> = content33 tx 115" for s
    by (simp_all add: item33_def content33_def)
  have S: "GetSchnorrS_of 23 5 = 115" "EncodePoint crypto1 (50, 0) = Some (key_bytes (50, 0))"
    by (simp_all add: GetSchnorrS_of_def GetEMulPrivateKey_def crypto1_def crypto0_def)
  have "OnReceivedProposal (env33 tx) L [] bs no_feedbacks =
      (Done (), \<lparr>CheckedTransactions = {TxHash (ops32 tx) tx}, feedbacks = [([], buf)]\<rparr>)"
    using assms
    by (simp add: OnReceivedProposal_def env33_simps bs I S arbiter32 onReceivedSchnorrProposal3_def sign33 [unfolded content_types] send_signed_def
        Feedback_def buf no_feedbacks_def content_types Let_def)
  with bs show ?thesis by blast
qed

theorem share_reveals_key_witness:
  "\<exists>bs cl buf j. OnReceivedProposal (env33 tx0) good_client [] bs no_feedbacks = (Done (), cl) \<and> feedbacks cl = [([], buf)] \<and>
     Item_Serialize crypto1 wire0 (ops32 tx0) ev_ops0 j [] = (None, buf) \<and> SS (RequestSContent j) div SE (RequestSContent j) = 23"
proof -
  obtain bs cl buf where a: "Item_Deserialize crypto1 wire0 (ops32 tx0) (fresh_item, bs) = (None, item33 tx0, [])"
    "OnReceivedProposal (env33 tx0) good_client [] bs no_feedbacks = (Done (), cl)" "feedbacks cl = [([], buf)]"
    using shared33 [of good_client tx0] by (auto simp: good_client_def)
  from share_reveals_key [of "env33 tx0" 23 "item33 tx0" good_client "[]" bs no_feedbacks "Done ()" cl "[]"] a
  show ?thesis by (auto simp: env33_simps no_feedbacks_def item33_def content33_def)
qed

text \<open>A withdraw for the Schnorr form, named by three signers.\<close>

definition xenv34 :: cross_env where "xenv34 = xenv0\<lparr>xCfg := config0\<lparr>SchnorrStartHeight := 0\<rparr>\<rparr>"

lemma config34: "xA xenv34 = addr0" "FrozenAddresses xenv34 = [''f'']" "xN xenv34 = nodes0" "xW xenv34 = wire0"
  "GetSideChainAndExchangeRate xenv34 = GetSideChainAndExchangeRate xenv0"
  by (simp_all add: xenv34_def fun_eq_iff GetSideChainAndExchangeRate_def GetChain_def)

lemma pay34: "withdraw_payloads xenv34 outs chain = withdraw_payloads xenv0 outs chain"
  by (induction outs arbitrary: chain) (simp_all add: config34 split: sum.split option.split output_payload.split)

lemma rpc34: "rpc_tx xenv34 = rpc_tx xenv0"
proof -
  have "rpc_asset xenv34 = rpc_asset xenv0" by (intro ext) (unfold rpc_asset_def config34 xenv0_sel, rule refl)
  then show ?thesis by (intro ext) (simp only: rpc_tx_def config34 xenv0_sel)
qed

lemma check_parts:
  assumes "Inputs tx = Inputs tx'" "Outputs tx = Outputs tx'"
  shows "checkWithdrawFromSideChainPayload X io db tx = checkWithdrawFromSideChainPayload X io db tx'"
proof -
  have "check_totals X frozen rate genesis tx txs = check_totals X frozen rate genesis tx' txs" for frozen rate genesis txs
    by (simp only: check_totals_def assms)
  then show ?thesis by (simp add: checkWithdrawFromSideChainPayload_def assms split: sum.split prod.split option.split)
qed

lemma check34: "checkWithdrawFromSideChainPayload xenv34 io db tx = checkWithdrawFromSideChainPayload xenv0 io db tx"
proof -
  have "check_totals xenv34 = check_totals xenv0" by (intro ext) (unfold check_totals_def config34 xenv0_sel, rule refl)
  moreover have "known_withdraws xenv34 = known_withdraws xenv0" by (intro ext) (unfold known_withdraws_def rpc34 config34 xenv0_sel, rule refl)
  ultimately show ?thesis by (simp only: checkWithdrawFromSideChainPayload_def pay34 config34 xenv0_sel)
qed

theorem schnorr_share_checked_witness:
  "\<exists>(tx :: transaction) bs cl buf. OnReceivedProposal (env33 tx) (checked_client xenv34 plain_io db0 (\<lambda>_. []) (\<lambda>_ _. None)) [] bs no_feedbacks =
       (Done (), cl) \<and> feedbacks cl = [([], buf)] \<and> schnorr_sound xenv34 plain_io db0 tx"
proof -
  obtain tx1 db where tx: "CreateWithdrawTransactionV1 xenv0 plain_io chain0 [wtx4] db0 = (Inr tx1, db)" using built4 by blast
  have "checkWithdrawFromSideChainPayload xenv0 plain_io db0 tx1 = None"
    using accepted_of_built [OF tx chain0_found(1) conditions4]
    by (simp add: checkWithdrawFromSideChainPayloadV1_def split: if_splits)
  moreover let ?tx = "tx1\<lparr>PayloadVersion := 2, Payload := WithdrawFromSideChain [1, 2, 3] [] [] 0\<rparr>"
  have "checkWithdrawFromSideChainPayload X io db ?tx = checkWithdrawFromSideChainPayload X io db tx1" for X io db
    by (rule check_parts) simp_all
  ultimately have "checkSchnorrWithdrawRequestSTransaction xenv34 plain_io (db0\<lparr>MainChainStore := st\<rparr>) ?tx h = None" for st h
    by (simp add: checkSchnorrWithdrawRequestSTransaction_def checkSchnorrWithdrawPayload_def check34 check_main)
      (simp add: xenv34_def addr0_def agreement_count_def group0_def config0_def getTransactionAgreementArbitratorsCount_def)
  then have "schnorrCheck (checked_client xenv34 plain_io db0 (\<lambda>_. []) (\<lambda>_ _. None)) ?tx = None"
    by (simp add: checked_client_def RequestS_Check_def Let_def split: prod.split)
  from shared33 [OF this] obtain bs cl buf where a: "Item_Deserialize crypto1 wire0 (ops32 ?tx) (fresh_item, bs) = (None, item33 ?tx, [])"
    "OnReceivedProposal (env33 ?tx) (checked_client xenv34 plain_io db0 (\<lambda>_. []) (\<lambda>_ _. None)) [] bs no_feedbacks = (Done (), cl)"
    "feedbacks cl = [([], buf)]" by (auto simp: checked_client_def)
  have "schnorr_sound xenv34 plain_io db0 ?tx"
    using schnorr_share_checked [OF client_start _ _ a(2), where T = "ops32 ?tx" and i = "item33 ?tx" and rest = "[]"] a(1,3)
    by (simp add: env33_simps no_feedbacks_def item33_def content33_def)
  with a(2,3) show ?thesis by blast
qed

end
