(* ===== verification/Start.thy ===== *)
theory Start
  imports Registrations Mining Network
begin

text \<open>
  The start of the program (\<open>arbiter.go\<close>): the database files (\<open>store/datastore.go\<close>, \<open>store/finishedtxstore.go\<close>), the
  first reading of the arbiters (\<open>arbitration/arbitrator/arbitratorgroup.go\<close>), the listeners of the SPV service
  (\<open>arbitration/arbitrator/arbitrator.go\<close>) and the monitors of the side chains.
\<close>

section \<open>Database files\<close>

text \<open>What the files hold; a side chain's file is found by the chain's name. A file that is not there holds the value that
  an empty file has. The statements write at once, so that the files hold what the stores of a running program hold.\<close>

record disk =
  MainFile :: main_store
  SideFiles :: "string \<Rightarrow> side_store"
  RegFile :: reg_store
  FinishedFile :: finished_store

definition no_main :: main_store where "no_main = \<lparr>MainInfo = None, MainChainTxs = [], mainChainHeight = 0\<rparr>"

definition no_side :: side_store where
  "no_side = \<lparr>sideChainName = [], genesisBlockAddress = [], SideHeightInfo = None, SideChainTxs = [], NFTDestroyTxs = [],
     ReturnDepositTransactions = []\<rparr>"

definition no_finished :: finished_store where
  "no_finished = \<lparr>DepositTransactions = [], WithdrawTransactions = [], SideChainTransactions = [], RegisterTransactions = []\<rparr>"

definition disk_of :: "db_cache \<Rightarrow> disk" where
  "disk_of db = \<lparr>MainFile = MainChainStore db,
     SideFiles = (\<lambda>name. case GetDataStoreByDBName name db of None \<Rightarrow> no_side | Some s \<Rightarrow> s),
     RegFile = RegisteredSideChainStore db, FinishedFile = FinishedTxsDbCache db\<rparr>"

section \<open>Opening\<close>

text \<open>The files of the configured chains, one after the other; the name and the address come from the configuration.\<close>

fun open_sides :: "(nat \<Rightarrow> db_io) \<Rightarrow> nat \<Rightarrow> disk \<Rightarrow> side_config list \<Rightarrow> go_error + side_store list" where
  "open_sides ios k d [] = Inr []"
| "open_sides ios k d (c # cs) =
     (case initSideChainDB (ios k) (SideFiles d (CfgName c)) of
        Inl e \<Rightarrow> Inl e
      | Inr s \<Rightarrow> map_sum id ((#) (s\<lparr>sideChainName := CfgName c, genesisBlockAddress := GenesisBlockAddress c\<rparr>))
                   (open_sides ios (Suc k) d cs))"

definition OpenDataStore ::
    "bool \<Rightarrow> (nat \<Rightarrow> db_io) \<Rightarrow> side_config list \<Rightarrow> disk \<Rightarrow> go_error + main_store \<times> side_store list \<times> reg_store" where
  "OpenDataStore dirOk ios sideNodeList d =
     (if \<not> dirOk then Inl ExtErr
      else (case initMainChainDB (ios 0) (MainFile d) of
              Inl e \<Rightarrow> Inl e
            | Inr main \<Rightarrow>
                (case open_sides ios 2 d sideNodeList of
                   Inl e \<Rightarrow> Inl e
                 | Inr sides \<Rightarrow>
                     (case initRegisterSideChainDB (ios 1) (RegFile d) of
                        Inl e \<Rightarrow> Inl e
                      | Inr reg \<Rightarrow> Inr (main\<lparr>mainChainHeight := 0\<rparr>, sides, reg)))))"

definition OpenMainChainDataStore :: "db_io \<Rightarrow> disk \<Rightarrow> go_error + main_store" where
  "OpenMainChainDataStore io d = map_sum id (\<lambda>main. main\<lparr>mainChainHeight := 0\<rparr>) (initMainChainDB io (MainFile d))"

text \<open>This one leaves the addresses empty.\<close>

definition OpenSideChainDataStore :: "(nat \<Rightarrow> db_io) \<Rightarrow> side_config list \<Rightarrow> disk \<Rightarrow> go_error + side_store list" where
  "OpenSideChainDataStore ios sideNodeList d =
     map_sum id (map (\<lambda>s. s\<lparr>genesisBlockAddress := []\<rparr>)) (open_sides ios 0 d sideNodeList)"

definition OpenRegisteredSideChainDataStore :: "db_io \<Rightarrow> disk \<Rightarrow> go_error + reg_store" where
  "OpenRegisteredSideChainDataStore io d = initRegisterSideChainDB io (RegFile d)"

definition initFinishedTxsDB :: "db_io \<Rightarrow> finished_store \<Rightarrow> go_error + finished_store" where
  "initFinishedTxsDB io file = (if query_ok io then Inr file else Inl DbErr)"

definition OpenFinishedTxsDataStore :: "db_io \<Rightarrow> disk \<Rightarrow> go_error + finished_store" where
  "OpenFinishedTxsDataStore io d = initFinishedTxsDB io (FinishedFile d)"

section \<open>Resetting\<close>

text \<open>\<open>ResetDataStore\<close> removes the file it is given and opens the own one again; the answer of \<open>os.Remove\<close> is dropped. For a
  side chain the argument is a path for the one and a name for the other.\<close>

definition initSideChainDBByName :: "db_io \<Rightarrow> side_config list \<Rightarrow> string \<Rightarrow> disk \<Rightarrow> go_error + side_store" where
  "initSideChainDBByName io sideNodeList name d =
     (if list_ex (\<lambda>c. CfgName c = name) sideNodeList then initSideChainDB io (SideFiles d name) else Inl (Err ''not found db''))"

definition remove_side :: "(string \<Rightarrow> string) \<Rightarrow> string \<Rightarrow> disk \<Rightarrow> disk" where
  "remove_side path file d = d\<lparr>SideFiles := (\<lambda>name. if path name = file then no_side else SideFiles d name)\<rparr>"

definition Side_ResetDataStore ::
    "(string \<Rightarrow> string) \<Rightarrow> db_io \<Rightarrow> side_config list \<Rightarrow> string \<Rightarrow> disk \<Rightarrow> go_error + side_store" where
  "Side_ResetDataStore path io sideNodeList dbName d = initSideChainDBByName io sideNodeList dbName (remove_side path dbName d)"

definition Main_ResetDataStore :: "string \<Rightarrow> db_io \<Rightarrow> string \<Rightarrow> disk \<Rightarrow> go_error + main_store" where
  "Main_ResetDataStore path io dbName d = initMainChainDB io (if dbName = path then no_main else MainFile d)"

definition Finished_ResetDataStore :: "string \<Rightarrow> db_io \<Rightarrow> string \<Rightarrow> disk \<Rightarrow> go_error + finished_store" where
  "Finished_ResetDataStore path io dbName d = initFinishedTxsDB io (if dbName = path then no_finished else FinishedFile d)"

section \<open>The group of the arbiters\<close>

text \<open>\<open>Init\<close>: the only listener is the arbiter of the account.\<close>

definition own_group :: "public_key \<Rightarrow> arb_group" where
  "own_group key = Init_group \<lparr>listenerPublicKey = key, isArbitratorImpl = True\<rparr>"

definition InitArbitrators :: "crypto \<Rightarrow> config \<Rightarrow> node_answers \<Rightarrow> u64 \<Rightarrow> arb_group \<Rightarrow> unit outcome \<times> arb_group" where
  "InitArbitrators C cfg node now g = SyncFromMainNode C cfg node now g"

text \<open>The turns of the endless loop, each with the answers and the clock it meets; an error is logged.\<close>

fun SyncLoop :: "crypto \<Rightarrow> config \<Rightarrow> (node_answers \<times> u64) list \<Rightarrow> arb_group \<Rightarrow> unit outcome \<times> arb_group" where
  "SyncLoop C cfg [] g = (Done (), g)"
| "SyncLoop C cfg ((node, now) # turns) g =
     (case SyncFromMainNode C cfg node now g of
        (Panic, g') \<Rightarrow> (Panic, g')
      | (Blocked, g') \<Rightarrow> (Blocked, g')
      | (_, g') \<Rightarrow> SyncLoop C cfg turns g')"

section \<open>Listeners and monitors\<close>

datatype spv_listener = SpvAuxpow string | SpvDeposit string

fun node_listeners :: "mining_config list \<Rightarrow> spv_listener list" where
  "node_listeners [] = []"
| "node_listeners (c # cs) =
     (if PowChain c then [SpvAuxpow (MiningAddr c)] else []) @ SpvDeposit (GenesisBlockAddress c) # node_listeners cs"

fun register_all :: "(spv_listener \<Rightarrow> go_error option) \<Rightarrow> spv_listener list \<Rightarrow> go_error option \<times> spv_listener list" where
  "register_all register [] = (None, [])"
| "register_all register (l # ls) =
     (case register l of
        Some e \<Rightarrow> (Some e, [])
      | None \<Rightarrow> (case register_all register ls of (r, done') \<Rightarrow> (r, l # done')))"

definition StartSpvModule ::
    "bool \<Rightarrow> (spv_listener \<Rightarrow> go_error option) \<Rightarrow> mining_config list \<Rightarrow> go_error option \<times> spv_listener list" where
  "StartSpvModule serviceOk register sideNodeList =
     (if \<not> serviceOk then (Some ExtErr, []) else register_all register (node_listeners sideNodeList))"

text \<open>The chains come in the order of the manager's map, the configurations by their index; an index that is too large
  panics. A monitor is the address it works for and the height from which on it does; it does not use the chain that it is handed, so
  that the order of the map does not matter.\<close>

fun start_monitors :: "side_config list \<Rightarrow> nat \<Rightarrow> side_chain list \<Rightarrow> listeners \<Rightarrow> (string \<times> u32) list \<Rightarrow>
    unit outcome \<times> listeners \<times> (string \<times> u32) list" where
  "start_monitors sideNodeList i [] m ts = (Done (), m, ts)"
| "start_monitors sideNodeList i (side # sides) m ts =
     (if length sideNodeList \<le> i then (Panic, AddListener side m, ts)
      else start_monitors sideNodeList (Suc i) sides (AddListener side m)
             (ts @ [(GenesisBlockAddress (sideNodeList ! i), side_config.EffectiveHeight (sideNodeList ! i))]))"

definition setSideChainAccountMonitor :: "manager_state \<Rightarrow> unit outcome \<times> manager_state" where
  "setSideChainAccountMonitor st =
     (case start_monitors (map fst (MgrNodeList st)) 0 (map snd (MgrChains st)) (MgrListeners st) (StartedMonitors st) of
        (r, m, ts) \<Rightarrow> (r, st\<lparr>MgrListeners := m, StartedMonitors := ts\<rparr>))"

section \<open>The program\<close>

text \<open>What the goroutines run that \<open>main\<close> starts besides the monitors.\<close>

datatype job = SpvServiceStart | SyncLoopJob | RpcServerJob | CleaningLoop | AccountDivide | SmallTransferMonitor | InvalidWithdrawMonitor

record program =
  Manager :: manager_state
  Peers :: "network option"                 \<comment> \<open>\<open>P2PClientSingleton\<close>\<close>
  ArbitersGroup :: arb_group
  SpvListeners :: "spv_listener list"
  Jobs :: "job list"                        \<comment> \<open>in the order of their start\<close>
  Initialized :: bool

text \<open>What the start meets: the driver, the network library, the SPV library, the main node, and the parts of the
  configuration that the chains' records do not hold.\<close>

record start_env =
  DirOk :: bool
  OpenIo :: "nat \<Rightarrow> db_io"
  FinishedIo :: db_io
  ClientKey :: public_key
  NewServerOk :: bool
  sCrypto :: crypto
  DPoSNetAddress :: string
  CRCArbiters :: "string list"
  sConfig :: config
  sNode :: node_answers
  sNow :: u64
  NewSPVServiceOk :: bool
  RegisterTransactionListener :: "spv_listener \<Rightarrow> go_error option"
  MiningAddrs :: "string \<Rightarrow> string \<times> string"   \<comment> \<open>\<open>MiningAddr\<close> and \<open>PayToAddr\<close> of the chain of a name\<close>

definition initP2P :: "start_env \<Rightarrow> go_error + network" where
  "initP2P V =
     (case EncodePoint (sCrypto V) (ClientKey V) of
        None \<Rightarrow> Inl ExtErr
      | Some pk \<Rightarrow>
          if \<not> NewServerOk V then Inl ExtErr
          else map_sum id InitMainChain (NewArbitratorsNetwork (sCrypto V) (DPoSNetAddress V) (CRCArbiters V)))"

definition mining_of :: "start_env \<Rightarrow> side_config \<Rightarrow> mining_config" where
  "mining_of V c = (case MiningAddrs V (CfgName c) of (mine, pay) \<Rightarrow> side_config.extend c (mining_config.fields mine pay))"

text \<open>Steps 1 and 2; the chains have been made from the configuration before.\<close>

definition open_stores :: "start_env \<Rightarrow> disk \<Rightarrow> manager_state \<Rightarrow> go_error + manager_state" where
  "open_stores V d st =
     (case OpenDataStore (DirOk V) (OpenIo V) (map fst (MgrNodeList st)) d of
        Inl e \<Rightarrow> Inl e
      | Inr (main, sides, reg) \<Rightarrow>
          (case OpenFinishedTxsDataStore (FinishedIo V) d of
             Inl e \<Rightarrow> Inl e
           | Inr fin \<Rightarrow> Inr (st\<lparr>MgrDb :=
               \<lparr>SideChainStore = sides, MainChainStore = main, RegisteredSideChainStore = reg, FinishedTxsDbCache = fin\<rparr>\<rparr>)))"

text \<open>The whole program. \<open>initialize\<close> reads the configuration file first, where \<open>Initialize\<close> of \<open>config/config.go\<close> computes
  the addresses of the side chains anew (theory \<open>Registrations\<close>). An error ends the program; what has been started until then
  is in the state.\<close>

definition main_program :: "manager_env \<Rightarrow> start_env \<Rightarrow> disk \<Rightarrow> manager_state \<Rightarrow> unit outcome \<times> program" where
  "main_program G V d st =
     (let st0 = st\<lparr>MgrNodeList := Initialize_addresses G (ConfigFile st)\<rparr>;
          g = own_group (ClientKey V);
          p0 = \<lparr>Manager = Init_manager st0, Peers = None, ArbitersGroup = g, SpvListeners = [], Jobs = [], Initialized = False\<rparr>
      in case open_stores V d (Init_manager st0) of
        Inl e \<Rightarrow> (Fail e, p0)
      | Inr st1 \<Rightarrow>
       (case initP2P V of
          Inl e \<Rightarrow> (Fail e, p0\<lparr>Manager := st1\<rparr>)
        | Inr n \<Rightarrow>
         (case setSideChainAccountMonitor st1 of
            (Done _, st2) \<Rightarrow>
             (case InitArbitrators (sCrypto V) (sConfig V) (sNode V) (sNow V) g of
                (Done _, g') \<Rightarrow>
                 (let p1 = p0\<lparr>Manager := st2, Peers := Some n, ArbitersGroup := g'\<rparr>
                  in case StartSpvModule (NewSPVServiceOk V) (RegisterTransactionListener V) (map (mining_of V \<circ> fst) (MgrNodeList st0)) of
                       (Some e, ls) \<Rightarrow> (Fail e, p1\<lparr>SpvListeners := ls\<rparr>)
                     | (None, ls) \<Rightarrow>
                         (Done (), p1\<lparr>SpvListeners := ls,
                            Jobs := [SpvServiceStart, SyncLoopJob, RpcServerJob, CleaningLoop, AccountDivide, SmallTransferMonitor,
                              InvalidWithdrawMonitor],
                            Initialized := True\<rparr>))
              | (r, g') \<Rightarrow> (r, p0\<lparr>Manager := st2, Peers := Some n, ArbitersGroup := g'\<rparr>))
          | (r, st2) \<Rightarrow> (r, p0\<lparr>Manager := st2, Peers := Some n\<rparr>))))"

end
