(* ===== verification/Props_Start.thy ===== *)
theory Props_Start
  imports Start Props_Registrations
begin

text \<open>
  A restart finds what the program had: the stores, and with them the caches of chains registered in between; and every
  configured chain has its monitor.
\<close>

section \<open>Opening again\<close>

text \<open>The stores belong to the configured chains, whose names differ, and their tables have been made.\<close>

definition stores_match :: "side_config list \<Rightarrow> db_cache \<Rightarrow> bool" where
  "stores_match cs db \<longleftrightarrow>
     map (\<lambda>s. (sideChainName s, genesisBlockAddress s)) (SideChainStore db) = map (\<lambda>c. (CfgName c, GenesisBlockAddress c)) cs \<and>
     distinct (map CfgName cs) \<and> (\<forall>s \<in> set (SideChainStore db). SideHeightInfo s \<noteq> None) \<and>
     MainInfo (MainChainStore db) \<noteq> None \<and> RegisteredSideChains (RegisteredSideChainStore db) \<noteq> None"

lemma find_distinct:
  assumes "distinct (map f xs)" "x \<in> set xs"
  shows "find (\<lambda>y. f y = f x) xs = Some x"
  using assms by (induction xs) (auto simp: image_iff)

lemma file_of_store:
  assumes "distinct (map sideChainName (SideChainStore db))" "s \<in> set (SideChainStore db)"
  shows "SideFiles (disk_of db) (sideChainName s) = s"
  using find_distinct [OF assms] by (simp add: disk_of_def GetDataStoreByDBName_def)

lemma open_sides_again:
  assumes "\<forall>k. query_ok (ios k) \<and> prepare_ok (ios k)"
    and "map (\<lambda>s. (sideChainName s, genesisBlockAddress s)) stores = map (\<lambda>c. (CfgName c, GenesisBlockAddress c)) cs"
    and "\<forall>s \<in> set stores. SideHeightInfo s \<noteq> None \<and> SideFiles d (sideChainName s) = s"
  shows "open_sides ios k d cs = Inr stores"
  using assms(2,3)
proof (induction cs arbitrary: stores k)
  case (Cons c cs)
  then obtain s rest where s: "stores = s # rest" "sideChainName s = CfgName c" "genesisBlockAddress s = GenesisBlockAddress c"
    by (cases stores) auto
  have "initSideChainDB (ios k) (SideFiles d (CfgName c)) = Inr s"
    using Cons.prems(2) assms(1) s(1,2) by (auto simp: initSideChainDB_def)
  moreover have "s\<lparr>sideChainName := CfgName c, genesisBlockAddress := GenesisBlockAddress c\<rparr> = s"
    using s(2,3) by (cases s) simp
  moreover have "open_sides ios (Suc k) d cs = Inr rest" using Cons s(1) by simp
  ultimately show ?case by (simp add: s(1))
qed simp

lemma opens_again:
  assumes "stores_match cs db" "\<forall>k. query_ok (ios k) \<and> prepare_ok (ios k)"
  shows "OpenDataStore True ios cs (disk_of db) =
    Inr (MainChainStore db\<lparr>mainChainHeight := 0\<rparr>, SideChainStore db, RegisteredSideChainStore db)"
proof -
  note m = assms(1) [unfolded stores_match_def]
  have "map sideChainName (SideChainStore db) = map CfgName cs"
    using arg_cong [OF conjunct1 [OF m], of "map fst"] by (simp add: comp_def)
  then have "distinct (map sideChainName (SideChainStore db))" using m by simp
  then have "open_sides ios 2 (disk_of db) cs = Inr (SideChainStore db)"
    using m file_of_store by (intro open_sides_again [OF assms(2)]) auto
  then show ?thesis using m assms(2) by (auto simp: OpenDataStore_def initMainChainDB_def initRegisterSideChainDB_def disk_of_def)
qed

section \<open>Registrations in between\<close>

text \<open>The chain's file is the one that the stores write.\<close>

definition same_files :: "manager_env \<Rightarrow> manager_state \<Rightarrow> bool" where
  "same_files G st \<longleftrightarrow> SideFile G = SideFiles (disk_of (MgrDb st))"

lemma created_store:
  assumes "CreateSideChainDBByConfig io name address file = Inr s"
  shows "SideHeightInfo file = None \<and> SideHeightInfo s = Some 0 \<and> sideChainName s = name \<and> genesisBlockAddress s = address"
  using assms by (auto simp: CreateSideChainDBByConfig_def split: if_splits option.splits)

text \<open>A name that a chain has already is refused: its file holds a height.\<close>

lemma activate_matches:
  assumes "stores_match (map fst (MgrNodeList st)) (MgrDb st)" "same_files G st" "activate G ios k info t st = (None, st')"
  shows "stores_match (map fst (MgrNodeList st')) (MgrDb st')"
proof -
  note m = assms(1) [unfolded stores_match_def]
  obtain c s where c: "registered_config G t = Inr c"
    "CreateSideChainDBByConfig (ios k) (CfgName c) (GenesisBlockAddress c) (SideFile G (CfgName c)) = Inr s"
    "MgrNodeList st' = MgrNodeList st @ [(c, rpc_config.truncate info)]"
    "SideChainStore (MgrDb st') = SideChainStore (MgrDb st) @ [s]" "MainChainStore (MgrDb st') = MainChainStore (MgrDb st)"
    "RegisteredSideChains (RegisteredSideChainStore (MgrDb st')) \<noteq> None"
    using assms(3) by (auto simp: activate_def Let_def RemoveRegisteredSideChainTx_def split: sum.splits prod.splits option.splits if_splits)
  have names: "map sideChainName (SideChainStore (MgrDb st)) = map CfgName (map fst (MgrNodeList st))"
    using arg_cong [OF conjunct1 [OF m], of "map fst"] by (simp add: comp_def)
  have "CfgName c \<notin> set (map CfgName (map fst (MgrNodeList st)))"
  proof
    assume "CfgName c \<in> set (map CfgName (map fst (MgrNodeList st)))"
    then obtain s' where s': "s' \<in> set (SideChainStore (MgrDb st))" "sideChainName s' = CfgName c"
      unfolding names [symmetric] by auto
    have "distinct (map sideChainName (SideChainStore (MgrDb st)))" using m names by simp
    from file_of_store [OF this s'(1)] s'(2) assms(2) have "SideFile G (CfgName c) = s'" by (simp add: same_files_def)
    with created_store [OF c(2)] m s'(1) show False by auto
  qed
  then show ?thesis using m c(3-6) created_store [OF c(2)] by (auto simp: stores_match_def)
qed

section \<open>The monitors\<close>

lemma Init_chains_distinct:
  "distinct (map GenesisBlockAddress cs) \<Longrightarrow>
   Init_chains cs = map (\<lambda>c. (GenesisBlockAddress c, \<lparr>Key = GenesisBlockAddress c, CurrentConfig = Some c\<rparr>)) cs"
proof (induction cs rule: rev_induct)
  case (snoc c cs)
  have new: "k \<notin> fst ` set m \<Longrightarrow> AList.update k v m = m @ [(k, v)]" for k v and m :: "(string \<times> side_chain) list"
    by (induction m) auto
  show ?case using snoc by (simp add: Init_chains_append AddChain_def new image_image)
qed (simp add: Init_chains_def)

lemma monitors_started:
  assumes "i + length sides \<le> length cs"
  shows "\<exists>m'. start_monitors cs i sides m ts =
    (Done (), m', ts @ map (\<lambda>c. (GenesisBlockAddress c, side_config.EffectiveHeight c)) (take (length sides) (drop i cs)))"
  using assms
proof (induction sides arbitrary: i m ts)
  case (Cons side sides)
  then have "take (length (side # sides)) (drop i cs) = cs ! i # take (length sides) (drop (Suc i) cs)"
    by (simp add: Cons_nth_drop_Suc [symmetric])
  then show ?case
    using Cons.IH [of "Suc i" "AddListener side m" "ts @ [(GenesisBlockAddress (cs ! i), side_config.EffectiveHeight (cs ! i))]"] Cons.prems
    by simp
qed simp

section \<open>The whole start\<close>

text \<open>The other parts answer: the driver, the network, the main node, and the SPV service.\<close>

definition start_ok :: "start_env \<Rightarrow> bool" where
  "start_ok V \<longleftrightarrow> DirOk V \<and> (\<forall>k. query_ok (OpenIo V k) \<and> prepare_ok (OpenIo V k)) \<and> query_ok (FinishedIo V) \<and>
     (\<exists>n. initP2P V = Inr n) \<and> fst (InitArbitrators (sCrypto V) (sConfig V) (sNode V) (sNow V) (own_group (ClientKey V))) = Done () \<and>
     NewSPVServiceOk V \<and> (\<forall>l. RegisterTransactionListener V l = None)"

lemma all_registered: "(\<And>l. register l = None) \<Longrightarrow> register_all register ls = (None, ls)"
  by (induction ls) auto

lemma deposit_listeners: "SpvDeposit address \<in> set (node_listeners cs) \<longleftrightarrow> address \<in> GenesisBlockAddress ` set cs"
  by (induction cs) auto

lemma mining_of_address: "GenesisBlockAddress (mining_of V c) = GenesisBlockAddress c"
  by (cases c) (simp add: mining_of_def side_config.defs mining_config.defs split: prod.split)

text \<open>What the network listens to: first the server of proposals, then the client.\<close>

lemma add_arbiters_listeners: "add_arbiters C address ps n = Inr n' \<Longrightarrow> mainchainListeners n' = mainchainListeners n"
  by (induction ps arbitrary: n) (auto split: option.splits)

lemma empty_listeners: "mainchainListeners empty_network = []" by (simp add: empty_network_def)

lemma initP2P_listeners: "initP2P V = Inr n \<Longrightarrow> mainchainListeners n = [MainChainServer, MainChainClient]"
  by (cases "add_arbiters (sCrypto V) (DPoSNetAddress V) (CRCArbiters V) empty_network")
    (auto simp: initP2P_def NewArbitratorsNetwork_def InitMainChain_def AddMainchainListener_def
      empty_listeners dest!: add_arbiters_listeners split: option.splits if_splits)

lemma opens_all_again:
  assumes "stores_match (map fst (MgrNodeList st)) db" "start_ok V" "MgrNodeList st = MgrNodeList fresh"
  shows "open_stores V (disk_of db) fresh =
    Inr (fresh\<lparr>MgrDb := db\<lparr>MainChainStore := (MainChainStore db)\<lparr>mainChainHeight := 0\<rparr>\<rparr>\<rparr>)"
proof -
  have "OpenDataStore (DirOk V) (OpenIo V) (map fst (MgrNodeList fresh)) (disk_of db) =
      Inr (MainChainStore db\<lparr>mainChainHeight := 0\<rparr>, SideChainStore db, RegisteredSideChainStore db)"
    using opens_again [OF assms(1), of "OpenIo V"] assms(2,3) by (simp add: start_ok_def)
  moreover have "OpenFinishedTxsDataStore (FinishedIo V) (disk_of db) = Inr (FinishedTxsDbCache db)"
    using assms(2) by (simp add: OpenFinishedTxsDataStore_def initFinishedTxsDB_def disk_of_def start_ok_def)
  ultimately show ?thesis by (simp add: open_stores_def)
qed

lemma chains_of_start:
  assumes "distinct (map (GenesisBlockAddress \<circ> fst) (MgrNodeList st))" "StartedMonitors st = []"
    and "MgrChains st = Init_chains (map fst (MgrNodeList st))"
  shows "\<exists>m. setSideChainAccountMonitor st = (Done (), st\<lparr>MgrListeners := m,
    StartedMonitors := map (\<lambda>(c, _). (GenesisBlockAddress c, side_config.EffectiveHeight c)) (MgrNodeList st)\<rparr>)"
  using monitors_started [of 0 "map snd (MgrChains st)" "map fst (MgrNodeList st)" "MgrListeners st" "[]"] assms
  by (auto simp: Init_chains_distinct setSideChainAccountMonitor_def comp_def case_prod_beta')

lemma starts:
  assumes "Initialize_addresses G (ConfigFile fresh) = nodes" "stores_match (map fst nodes) db" "start_ok V"
    and "distinct (map (GenesisBlockAddress \<circ> fst) nodes)" "StartedMonitors fresh = []"
  shows "\<exists>p n. main_program G V (disk_of db) fresh = (Done (), p) \<and> Initialized p \<and> Peers p = Some n \<and>
    mainchainListeners n = [MainChainServer, MainChainClient] \<and>
    MgrDb (Manager p) = db\<lparr>MainChainStore := (MainChainStore db)\<lparr>mainChainHeight := 0\<rparr>\<rparr> \<and>
    MgrChains (Manager p) = Init_chains (map fst nodes) \<and>
    StartedMonitors (Manager p) = map (\<lambda>(c, _). (GenesisBlockAddress c, side_config.EffectiveHeight c)) nodes \<and>
    SpvListeners p = node_listeners (map (mining_of V \<circ> fst) nodes)"
proof -
  let ?fresh = "fresh\<lparr>MgrNodeList := nodes\<rparr>"
  let ?db = "db\<lparr>MainChainStore := (MainChainStore db)\<lparr>mainChainHeight := 0\<rparr>\<rparr>"
  let ?st = "(Init_manager ?fresh)\<lparr>MgrDb := ?db\<rparr>"
  have "open_stores V (disk_of db) (Init_manager ?fresh) = Inr ?st"
    using assms(2,3) by (intro opens_all_again [of "Init_manager ?fresh"]) (auto simp: Init_manager_def)
  moreover obtain m where "setSideChainAccountMonitor ?st = (Done (), ?st\<lparr>MgrListeners := m,
      StartedMonitors := map (\<lambda>(c, _). (GenesisBlockAddress c, side_config.EffectiveHeight c)) nodes\<rparr>)"
    using chains_of_start [of ?st] assms(4,5) by (auto simp: Init_manager_def)
  moreover obtain n where "initP2P V = Inr n" using assms(3) by (auto simp: start_ok_def)
  moreover obtain g' where "InitArbitrators (sCrypto V) (sConfig V) (sNode V) (sNow V) (own_group (ClientKey V)) = (Done (), g')"
    using assms(3) by (cases "InitArbitrators (sCrypto V) (sConfig V) (sNode V) (sNow V) (own_group (ClientKey V))") (auto simp: start_ok_def)
  moreover have "StartSpvModule (NewSPVServiceOk V) (RegisterTransactionListener V) (map (mining_of V \<circ> fst) nodes) =
      (None, node_listeners (map (mining_of V \<circ> fst) nodes))"
    using assms(3) by (simp add: StartSpvModule_def all_registered start_ok_def)
  moreover have "MgrChains (Init_manager ?fresh) = Init_chains (map fst nodes)" by (simp add: Init_manager_def)
  ultimately show ?thesis by (simp add: main_program_def assms(1) Let_def initP2P_listeners)
qed

text \<open>The addresses that the start computes are those that are in the file.\<close>

lemma same_addresses:
  assumes "\<forall>(c, rpc) \<in> set nodes. config_address G (GenesisBlock c) = Some (GenesisBlockAddress c)"
  shows "Initialize_addresses G nodes = nodes"
  using assms
proof (induction nodes)
  case (Cons n nodes)
  obtain c rpc where n: "n = (c, rpc)" by fastforce
  have "c\<lparr>GenesisBlockAddress := GenesisBlockAddress c\<rparr> = c" by (cases c) simp
  with Cons show ?case by (simp add: n)
qed simp

text \<open>C30: A restart finds everything again: after a new chain was registered and the configuration was written, the program that
  is started with it computes the addresses anew, opens the files of all chains, the new one included, with the caches they had,
  has all chains in its map, starts one monitor for each, registers a listener of its deposits, and comes to the end of its
  start. This is under the conditions that the files and the addresses of the chains configured before were those of the
  configuration, all addresses differ and are those of the genesis hashes, and that at the start the driver, the network, the
  main node, the SPV service and the registrations of listeners answer without an error.\<close>

theorem restart_keeps_everything:
  assumes "stores_match (map fst (MgrNodeList st)) (MgrDb st)" "same_files G st"
    and "activate G ios k info t st = (None, st')" "ConfigWritable G"
    and "\<forall>(c, rpc) \<in> set (MgrNodeList st). config_address G (GenesisBlock c) = Some (GenesisBlockAddress c)"
    and "hex_laws G" "length (GenesisHash (RtRegisteredSideChain t)) = 32"
    and "GetGenesisAddress G (GenesisHash (RtRegisteredSideChain t)) = Some (RtGenesisBlockAddress t)"
    and "distinct (map (GenesisBlockAddress \<circ> fst) (ConfigFile st'))"
    and "ConfigFile fresh = ConfigFile st'" "StartedMonitors fresh = []" "start_ok V"
  shows "\<exists>p. main_program G V (disk_of (MgrDb st')) fresh = (Done (), p) \<and> Initialized p \<and>
    MgrDb (Manager p) = (MgrDb st')\<lparr>MainChainStore := (MainChainStore (MgrDb st'))\<lparr>mainChainHeight := 0\<rparr>\<rparr> \<and>
    (\<forall>(c, rpc) \<in> set (ConfigFile st'). map_of (MgrChains (Manager p)) (GenesisBlockAddress c) =
       Some \<lparr>Key = GenesisBlockAddress c, CurrentConfig = Some c\<rparr>) \<and>
    StartedMonitors (Manager p) = map (\<lambda>(c, _). (GenesisBlockAddress c, side_config.EffectiveHeight c)) (ConfigFile st') \<and>
    (\<forall>(c, info) \<in> set (ConfigFile st'). SpvDeposit (GenesisBlockAddress c) \<in> set (SpvListeners p))"
proof -
  obtain c where c: "registered_config G t = Inr c" "MgrNodeList st' = MgrNodeList st @ [(c, rpc_config.truncate info)]"
    "ConfigFile st' = MgrNodeList st'" using activated_node [OF assms(3)] assms(4) by auto
  have "config_address G (GenesisBlock c) = Some (GenesisBlockAddress c)"
    using registered_address_again [OF assms(6) c(1) assms(7)] assms(8) registered_address [OF c(1)] by simp
  then have "\<forall>(c, rpc) \<in> set (ConfigFile fresh). config_address G (GenesisBlock c) = Some (GenesisBlockAddress c)"
    using assms(5,10) c(2,3) by auto
  from same_addresses [OF this] have same: "Initialize_addresses G (ConfigFile fresh) = ConfigFile st'" using assms(10) by simp
  have "stores_match (map fst (ConfigFile st')) (MgrDb st')" using activate_matches [OF assms(1-3)] c(3) by simp
  from starts [OF same this assms(12,9,11)] obtain p where
    p: "main_program G V (disk_of (MgrDb st')) fresh = (Done (), p)" "Initialized p"
    "MgrDb (Manager p) = (MgrDb st')\<lparr>MainChainStore := (MainChainStore (MgrDb st'))\<lparr>mainChainHeight := 0\<rparr>\<rparr>"
    "MgrChains (Manager p) = Init_chains (map fst (ConfigFile st'))"
    "StartedMonitors (Manager p) = map (\<lambda>(c, _). (GenesisBlockAddress c, side_config.EffectiveHeight c)) (ConfigFile st')"
    "SpvListeners p = node_listeners (map (mining_of V \<circ> fst) (ConfigFile st'))" by (elim exE conjE)
  have dist: "distinct (map GenesisBlockAddress (map fst (ConfigFile st')))" using assms(9) by (simp add: comp_def)
  have "map_of (MgrChains (Manager p)) (GenesisBlockAddress c) = Some \<lparr>Key = GenesisBlockAddress c, CurrentConfig = Some c\<rparr>"
    if "c \<in> set (map fst (ConfigFile st'))" for c
    unfolding p(4) Init_chains_distinct [OF dist]
    using dist that by (intro map_of_is_SomeI) (auto simp: comp_def)
  then have "\<forall>(c, rpc) \<in> set (ConfigFile st'). map_of (MgrChains (Manager p)) (GenesisBlockAddress c) =
       Some \<lparr>Key = GenesisBlockAddress c, CurrentConfig = Some c\<rparr>" by force
  moreover have "\<forall>(c, info) \<in> set (ConfigFile st'). SpvDeposit (GenesisBlockAddress c) \<in> set (SpvListeners p)"
    unfolding p(6) by (auto simp: deposit_listeners mining_of_address image_iff split_beta)
  ultimately show ?thesis using p(1-3,5) by (intro exI [of _ p]) simp
qed

text \<open>Nothing runs before everything has been opened.\<close>

lemma jobs_after_start: "fst (main_program G V d st) \<noteq> Done () \<Longrightarrow> Jobs (snd (main_program G V d st)) = []"
  by (auto simp: main_program_def Let_def split: sum.splits prod.splits outcome.splits option.splits)

text \<open>Resetting the cache of a side chain does not empty it: the name that finds the configuration is not the path of the
  file to remove, and the path finds no configuration.\<close>

lemma reset_keeps_cache:
  assumes "Side_ResetDataStore path io cs dbName d = Inr s" "\<forall>c \<in> set cs. path (CfgName c) \<noteq> dbName"
  shows "SideChainTxs s = SideChainTxs (SideFiles d dbName)"
  using assms by (auto simp: Side_ResetDataStore_def initSideChainDBByName_def remove_side_def initSideChainDB_def list_ex_iff
      split: if_splits option.splits)

section \<open>A concrete case\<close>

text \<open>One chain is configured, with a withdraw in its cache, and a second one is registered.\<close>

definition config40 :: side_config where "config40 = (the (CurrentConfig chain0))\<lparr>CfgName := ''n40''\<rparr>"

definition store40 :: side_store where
  "store40 = side0\<lparr>sideChainName := ''n40'', genesisBlockAddress := ''K'', SideHeightInfo := Some 7\<rparr>"

definition db40 :: db_cache where
  "db40 = db0\<lparr>SideChainStore := [store40], MainChainStore := main0\<lparr>MainInfo := Some 9, mainChainHeight := 9\<rparr>\<rparr>"

definition manager40 :: manager_state where
  "manager40 = manager0\<lparr>MgrNodeList := [(config40, rpc_config.truncate register_info0)], MgrDb := db40\<rparr>"

text \<open>The genesis hash of the new chain has the address g, that of the configured one K.\<close>

definition env40 :: manager_env where
  "env40 = hex_env\<lparr>SideFile := SideFiles (disk_of db40), gX := (gX hex_env)\<lparr>xA := (xA (gX hex_env))\<lparr>ToAddress :=
     (\<lambda>p. Some (if tl p = replicate 32 5 then ''g'' else ''K''))\<rparr>\<rparr>\<rparr>"

lemma env40_sel: "xC (gX env40) = xC (gX hex_env)" "BytesReverse (xA (gX env40)) = BytesReverse (xA (gX hex_env))"
  "Uint256FromHexString (xA (gX env40)) = Uint256FromHexString (xA (gX hex_env))" "ReversedString env40 = ReversedString hex_env"
  "HashString (xA (gX env40)) = HashString (xA (gX hex_env))"
  by (simp_all add: env40_def)

lemma env40_laws: "hex_laws env40" "ConfigWritable env40"
proof -
  show "hex_laws env40" using hex_env_laws unfolding hex_laws_def env40_sel .
  show "ConfigWritable env40" by (simp add: env40_def hex_env_def manager_env0_def)
qed

lemma env40_addresses:
  "config_address env40 (GenesisBlock config40) = Some (GenesisBlockAddress config40)"
  "length (GenesisHash (RtRegisteredSideChain rtx1)) = 32"
  "GetGenesisAddress env40 (GenesisHash (RtRegisteredSideChain rtx1)) = Some (RtGenesisBlockAddress rtx1)"
proof -
  have "[b] \<noteq> replicate 32 5" for b :: byte by (auto dest: arg_cong [of _ _ length])
  then show "config_address env40 (GenesisBlock config40) = Some (GenesisBlockAddress config40)"
    "length (GenesisHash (RtRegisteredSideChain rtx1)) = 32"
    "GetGenesisAddress env40 (GenesisHash (RtRegisteredSideChain rtx1)) = Some (RtGenesisBlockAddress rtx1)"
    by (simp_all add: config_address_def GetGenesisAddress_def env40_def hex_env_def manager_env0_def config40_def chain0_def rtx1_def
        rtx0_def addr0_def)
qed

lemma match40: "stores_match (map fst (MgrNodeList manager40)) (MgrDb manager40)" "same_files env40 manager40"
  by (simp_all add: stores_match_def same_files_def manager40_def db40_def store40_def config40_def chain0_def env40_def db0_def
      reg0_def)

lemma registered40: "\<exists>c. registered_config env40 rtx1 = Inr c \<and> CfgName c \<noteq> ''n40'' \<and> GenesisBlockAddress c = ''g''"
  by (simp add: registered_config_def env40_def hex_env_def manager_env0_def Let_def addr0_def rtx1_def rtx0_def)

definition start_env40 :: start_env where
  "start_env40 = \<lparr>DirOk = True, OpenIo = (\<lambda>_. plain_io), FinishedIo = plain_io, ClientKey = (50, 0), NewServerOk = True,
     sCrypto = crypto0, DPoSNetAddress = ''net'', CRCArbiters = [], sConfig = config0,
     sNode = \<lparr>node_height = Inr 5, SyncChainData = Some 5, group_info = (\<lambda>_. Inr ([''1'', ''2'', ''3''], 1))\<rparr>, sNow = 1000, NewSPVServiceOk = True,
     RegisterTransactionListener = (\<lambda>_. None), MiningAddrs = (\<lambda>_. (''m'', ''p''))\<rparr>"

lemma arbiters40: "InitArbitrators crypto0 config0 (sNode start_env40) 1000 (own_group (50, 0)) =
  (Done (), (own_group (50, 0))\<lparr>arbitrators := [''1'', ''2'', ''3''], onDutyArbitratorIndex := 1, currentHeight := 5,
     lastSyncTime := 1000, isListenerOnDuty := True, duty_calls := [True]\<rparr>)"
  by (simp add: InitArbitrators_def SyncFromMainNode_def too_early_def own_group_def Init_group_def start_env40_def
      CheckOnDutyStatus_def GetOnDutyArbitratorOfMain_def duty_change_def key0 no_space char_byte_def)

lemma network40: "\<exists>n. initP2P start_env40 = Inr n"
  by (simp add: initP2P_def start_env40_def crypto0_def NewArbitratorsNetwork_def)

lemma start_ok40: "start_ok start_env40"
  using arbiters40 network40 by (simp add: start_ok_def) (simp add: start_env40_def plain_io_def)

theorem restart_keeps_everything_witness:
  "\<exists>(st' :: manager_state) (p :: program). activate env40 (\<lambda>_. plain_io) 0 register_info0 rtx1 manager40 = (None, st') \<and>
     main_program env40 start_env40 (disk_of (MgrDb st')) (manager0\<lparr>ConfigFile := ConfigFile st'\<rparr>) = (Done (), p) \<and>
     SideChainStore (MgrDb (Manager p)) = SideChainStore (MgrDb st') \<and> map fst (StartedMonitors (Manager p)) = [''K'', ''g''] \<and>
     map_of (MgrChains (Manager p)) ''g'' = map_of (MgrChains st') ''g''"
proof -
  obtain c where c: "registered_config env40 rtx1 = Inr c" "CfgName c \<noteq> ''n40''" "GenesisBlockAddress c = ''g''"
    using registered40 by blast
  have "SideFile env40 (CfgName c) = no_side"
    using c(2) by (simp add: env40_def disk_of_def GetDataStoreByDBName_def db40_def store40_def)
  then obtain store where store: "CreateSideChainDBByConfig ((\<lambda>_. plain_io) (0 :: nat)) (CfgName c) (GenesisBlockAddress c)
      (SideFile env40 (CfgName c)) = Inr store" by (simp add: CreateSideChainDBByConfig_def plain_io_def no_side_def)
  have io: "good_io ((\<lambda>_. plain_io) (0 + 1 :: nat))" "good_io ((\<lambda>_. plain_io) (0 + 2 :: nat))" by simp_all
  have db: "RegisteredSideChains (RegisteredSideChainStore (MgrDb manager40)) = Some []"
    "(RtTransactionHash rtx1, RtGenesisBlockAddress rtx1) \<notin> register_key ` set (RegisterTransactions (FinishedTxsDbCache (MgrDb manager40)))"
    by (simp_all add: manager40_def db40_def db0_def reg0_def fin0_def)
  obtain st' where st': "activate env40 (\<lambda>_. plain_io) 0 register_info0 rtx1 manager40 = (None, st')"
    using registration_of_good [OF io c(1) store db, where info = register_info0 and k = 0] by (elim exE conjE)
  obtain file' where nodes: "ConfigFile st' = [(config40, rpc_config.truncate register_info0), (c, file')]"
    using activated_node [OF st'] env40_laws(2) c(1) by (auto simp: manager40_def)
  have cK: "GenesisBlockAddress config40 = ''K''" by (simp add: config40_def chain0_def)
  have fresh: "ConfigFile (manager0\<lparr>ConfigFile := ConfigFile st'\<rparr>) = ConfigFile st'"
    "StartedMonitors (manager0\<lparr>ConfigFile := ConfigFile st'\<rparr>) = []" by (simp_all add: manager0_def)
  have dist: "distinct (map (GenesisBlockAddress \<circ> fst) (ConfigFile st'))" using nodes c(3) cK by simp
  have before: "\<forall>(c, rpc) \<in> set (MgrNodeList manager40). config_address env40 (GenesisBlock c) = Some (GenesisBlockAddress c)"
    using env40_addresses(1) by (simp add: manager40_def)
  from restart_keeps_everything [OF match40 st' env40_laws(2) before env40_laws(1) env40_addresses(2,3) dist fresh start_ok40]
  obtain p where p: "main_program env40 start_env40 (disk_of (MgrDb st')) (manager0\<lparr>ConfigFile := ConfigFile st'\<rparr>) = (Done (), p)"
    "MgrDb (Manager p) = (MgrDb st')\<lparr>MainChainStore := (MainChainStore (MgrDb st'))\<lparr>mainChainHeight := 0\<rparr>\<rparr>"
    "\<forall>(c, rpc) \<in> set (ConfigFile st'). map_of (MgrChains (Manager p)) (GenesisBlockAddress c) =
       Some \<lparr>Key = GenesisBlockAddress c, CurrentConfig = Some c\<rparr>"
    "StartedMonitors (Manager p) = map (\<lambda>(c, _). (GenesisBlockAddress c, side_config.EffectiveHeight c)) (ConfigFile st')"
    by (elim exE conjE)
  have "MgrChains st' = AddChain (RtGenesisBlockAddress rtx1) \<lparr>Key = RtGenesisBlockAddress rtx1, CurrentConfig = Some c\<rparr> (MgrChains manager40)"
    using activated_node [OF st'] c(1) by auto
  moreover have "RtGenesisBlockAddress rtx1 = ''g''" by (simp add: rtx1_def rtx0_def)
  ultimately have "map_of (MgrChains (Manager p)) ''g'' = map_of (MgrChains st') ''g''"
    using p(3) nodes c(3) by (simp add: AddChain_def update_conv')
  then show ?thesis using st' nodes c(3) cK p(1,2,4) by (intro exI [of _ st'] exI [of _ p]) simp
qed

end
