(* ===== verification/Props_Frozen.thy ===== *)
theory Props_Frozen
  imports Props_Chains Props_Listeners
begin

text \<open>
  A withdraw whose assets could be paid but for a frozen address: no round of the arbiter pays it, and none gives it back.
\<close>

section \<open>Which withdraws a proposal names\<close>

definition named_withdraws :: "transaction \<Rightarrow> uint256 set" where
  "named_withdraws tx =
     (case Payload tx of WithdrawFromSideChain _ _ hashes _ \<Rightarrow> set hashes | _ \<Rightarrow> {}) \<union>
     {h. \<exists>out \<in> set (Outputs tx). \<exists>bank data. OutPayload out = Withdraw bank h data}"

lemma parse_hashes: "parseUserWithdrawTransactions ts = Some l \<Longrightarrow> (a, h) \<in> set l \<Longrightarrow> \<exists>t \<in> set ts. Txid t = Some h"
proof (induction ts arbitrary: l)
  case (Cons t ts)
  then show ?case by (fastforce split: option.splits list.splits)
qed simp

lemma parts_hashes:
  assumes "withdraw_parts X io typed sc ts db = (Inr (hs, ins, outs), db')"
  shows "set hs \<subseteq> {h. \<exists>t \<in> set ts. Txid t = Some h}"
    "out \<in> set outs \<Longrightarrow> OutPayload out = Withdraw bank h data \<Longrightarrow> h \<in> set hs"
proof -
  from withdraw_parts_Inr [OF assms] obtain rate assets outs0 where
    p: "parseUserWithdrawTransactions ts = Some assets" "build_outputs (withdraw_output X typed (Key sc) rate) assets = Inr outs0"
      "hs = map snd assets"
      "fund X io typed (Key sc) (fx_sum (map (\<lambda>a. fixed_div (Amount (fst a)) rate) assets)) outs0 db = (Inr (ins, outs), db')"
    by blast
  show "set hs \<subseteq> {h. \<exists>t \<in> set ts. Txid t = Some h}" using parse_hashes [OF p(1)] by (auto simp: p(3))
  assume out: "out \<in> set outs" "OutPayload out = Withdraw bank h data"
  then have "out \<in> set outs0" using fund_outputs [OF p(4)] by (auto simp: change_output_def split: if_splits)
  from build_outputs_from [OF p(2) this] obtain a where "a \<in> set assets" "withdraw_output X typed (Key sc) rate a = Inr out" by blast
  then show "h \<in> set hs" using out(2) by (force simp: p(3) withdraw_output_def split: option.splits if_splits)
qed

lemma built_names:
  assumes "built_by X io sc ts db tx" "h \<in> named_withdraws tx"
  shows "\<exists>t \<in> set ts. Txid t = Some h"
proof -
  obtain typed hs db' where p: "withdraw_parts X io typed sc ts db = (Inr (hs, Inputs tx, Outputs tx), db')"
    "(case Payload tx of WithdrawFromSideChain _ _ hashes _ \<Rightarrow> set hashes | _ \<Rightarrow> {}) \<subseteq> set hs"
    using assms(1)
    by (auto simp: built_by_def CreateSchnorrWithdrawTransaction_def CreateWithdrawTransactionV1_def CreateWithdrawTransactionV0_def
        split: prod.splits sum.splits)
  have "h \<in> set hs" using assms(2) p(2) parts_hashes(2) [OF p(1)] unfolding named_withdraws_def by blast
  then show ?thesis using parts_hashes(1) [OF p(1)] by blast
qed

section \<open>The stores of the chains\<close>

lemma fund_sides: "fund X io typed bank amt outs db = (r, db') \<Longrightarrow> SideChainStore db' = SideChainStore db"
  by (auto simp: fund_def GetWithdrawUTXOsByAmount_def split: sum.splits prod.splits)

lemma parts_sides: "withdraw_parts X io typed sc txs db = (r, db') \<Longrightarrow> SideChainStore db' = SideChainStore db"
  by (auto simp: withdraw_parts_def dest: fund_sides split: sum.splits option.splits prod.splits)

lemma builders_sides:
  "CreateSchnorrWithdrawTransaction X io sc txs db = (r, db') \<Longrightarrow> SideChainStore db' = SideChainStore db"
  "CreateWithdrawTransactionV1 X io sc txs db = (r, db') \<Longrightarrow> SideChainStore db' = SideChainStore db"
  "CreateWithdrawTransactionV0 X io sc txs db = (r, db') \<Longrightarrow> SideChainStore db' = SideChainStore db"
  by (auto simp: CreateSchnorrWithdrawTransaction_def CreateWithdrawTransactionV1_def CreateWithdrawTransactionV0_def
      dest: parts_sides split: sum.splits prod.splits)

lemma grow_sides:
  assumes "\<And>i xs db r db'. create i xs db = (r, db') \<Longrightarrow> SideChainStore db' = SideChainStore db"
  shows "grow create fits xs i wTx db = (r, db') \<Longrightarrow> SideChainStore db' = SideChainStore db"
proof (induction "length xs - i" arbitrary: i wTx db rule: less_induct)
  case less
  show ?case
  proof (cases "length xs \<le> i")
    case True
    then show ?thesis using less.prems by (simp add: grow.simps)
  next
    case False
    obtain res db1 where c: "create i (take (i + 100) xs) db = (res, db1)" by fastforce
    have "db' = db1 \<or> (\<exists>w. grow create fits xs (i + 100) w db1 = (r, db'))"
      using less.prems False c by (subst (asm) grow.simps) (auto split: sum.splits if_splits)
    then show ?thesis using less.hyps [of "i + 100"] False assms [OF c] by auto
  qed
qed

lemma proposal_sides:
  assumes "CreateAndBroadcastWithdrawProposal X ios sc hs db = (r, ps, db')"
  shows "SideChainStore db' = SideChainStore db"
proof -
  have g: "SideChainStore db' = SideChainStore db"
    if "grow create fits xs 0 None (db\<lparr>MainChainStore := ms\<rparr>) = (w, db')"
      "\<And>i xs db r db'. create i xs db = (r, db') \<Longrightarrow> SideChainStore db' = SideChainStore db" for create fits xs ms w
    using grow_sides [OF that(2,1)] by simp
  show ?thesis using assms
    by (auto simp: CreateAndBroadcastWithdrawProposal_def Let_def
        split: option.splits sum.splits if_splits prod.splits outcome.splits elim!: g intro: builders_sides)
qed

definition without :: "string list \<Rightarrow> side_store \<Rightarrow> side_store" where
  "without hs st = st\<lparr>SideChainTxs := filter (\<lambda>row. ScTransactionHash row \<notin> set hs) (SideChainTxs st)\<rparr>"

lemma removed: "good_io io \<Longrightarrow> RemoveSideChainTxs io hs st = (Inr (), without hs st)" "without [] st = st"
  by (simp_all add: RemoveSideChainTxs_def without_def with_tx_good good_ioD delete_rows_filter)

lemma sent_sides:
  assumes "\<forall>i. good_io (ios i)" "CurrentConfig sc = Some c" "GetDataStoreByDBName (CfgName c) db = Some st"
    and "SendCachedWithdrawTxs X ios sc db = (r, ps, db')"
  shows "\<exists>received. GetDataStoreByDBName (CfgName c) db' = Some (without received st) \<and>
    (received = [] \<or> (\<exists>hs. GetExistWithdrawTransactions (xN X) hs = Inr received))"
proof -
  have name: "sideChainName st = CfgName c" using assms(3) by (auto simp: GetDataStoreByDBName_def find_Some_iff)
  have same: "GetDataStoreByDBName (CfgName c) db1 = Some st" if "SideChainStore db1 = SideChainStore db" for db1
    using assms(3) that by (simp add: GetDataStoreByDBName_def)
  have gone: "GetDataStoreByDBName (CfgName c) (on_name (CfgName c) (\<lambda>_. without received st) db1) =
      Some (without received st)" if "SideChainStore db1 = SideChainStore db" for db1 received
    using same [OF that] find_at_first [of "\<lambda>s. sideChainName s = CfgName c" "SideChainStore db1" st "\<lambda>_. without received st"] name
    by (simp add: GetDataStoreByDBName_def on_name_def without_def)
  have none: "\<exists>received. GetDataStoreByDBName (CfgName c) db1 = Some (without received st) \<and>
    (received = [] \<or> (\<exists>hs. GetExistWithdrawTransactions (xN X) hs = Inr received))" if "SideChainStore db1 = SideChainStore db" for db1
    using same [OF that] by (intro exI [of _ "[]"]) (simp add: removed(2))
  have fin: "GetDataStoreByDBName n (db1\<lparr>FinishedTxsDbCache := f\<rparr>) = GetDataStoreByDBName n db1" for n db1 f
    by (simp add: GetDataStoreByDBName_def)
  show ?thesis
  proof (cases "GetAllSideChainTxHashesAndHeights (ios 0) st")
    case (Inl e)
    then show ?thesis using assms by (intro none) (simp add: SendCachedWithdrawTxs_def)
  next
    case (Inr all)
    obtain hashes heights where all: "all = (hashes, heights)" by fastforce
    show ?thesis
    proof (cases "GetExistWithdrawTransactions (xN X) (take (MaxTxsPerWithdrawTx X) hashes)")
      case (Inl e)
      then show ?thesis using assms Inr by (intro none) (auto simp: SendCachedWithdrawTxs_def all Let_def split: if_splits)
    next
      case received: (Inr received)
      have "SideChainStore db' = SideChainStore db \<or> GetDataStoreByDBName (CfgName c) db' = Some (without received st)"
        using assms(2-4) Inr received gone
        by (auto simp: SendCachedWithdrawTxs_def all Let_def fin removed(1) [OF spec [OF assms(1)]] dest!: proposal_sides
            split: if_splits outcome.splits prod.splits sum.splits)
      then show ?thesis using none received by blast
    qed
  qed
qed

section \<open>A frozen withdraw\<close>

text \<open>The cached row holds a withdraw with assets that are not invalid, one of them for a frozen address.\<close>

definition frozen_only :: "cross_env \<Rightarrow> side_chain_transaction \<Rightarrow> bool" where
  "frozen_only X row \<longleftrightarrow> (\<exists>info. WithdrawInfo (decode_withdraw (xW X) (ScTransaction row)) = Some info \<and> WithdrawAssets info \<noteq> [] \<and>
     \<not> list_ex (invalid_asset X) (WithdrawAssets info) \<and> (\<exists>w \<in> set (WithdrawAssets info). TargetAddress w \<in> set (FrozenAddresses X)))"

text \<open>A row as \<open>OnUTXOChanged\<close> makes it: its key is the text of the transaction's hash.\<close>

definition keyed_row :: "cross_env \<Rightarrow> side_chain_transaction \<Rightarrow> bool" where
  "keyed_row X row \<longleftrightarrow> no_quote (ScTransactionHash row) \<and>
     (\<exists>h. Txid (decode_withdraw (xW X) (ScTransaction row)) = Some h \<and> HashString (xA X) h = ScTransactionHash row)"

definition row_txid :: "cross_env \<Rightarrow> side_chain_transaction \<Rightarrow> uint256" where
  "row_txid X row = the (Txid (decode_withdraw (xW X) (ScTransaction row)))"

definition waits_in :: "cross_env \<Rightarrow> side_chain_transaction \<Rightarrow> side_store \<Rightarrow> bool" where
  "waits_in X row st \<longleftrightarrow> side_store_wf st \<and> (\<forall>r \<in> set (SideChainTxs st). keyed_row X r) \<and> row \<in> set (SideChainTxs st) \<and> frozen_only X row"

lemma waits_without: "waits_in X row st \<Longrightarrow> ScTransactionHash row \<notin> set hs \<Longrightarrow> waits_in X row (without hs st)"
  by (auto simp: waits_in_def without_def side_store_wf_def distinct_map_filter)

lemma row_unique:
  assumes "waits_in X row st" "row' \<in> set (SideChainTxs st)" "Txid (decode_withdraw (xW X) (ScTransaction row')) = Some h"
    and "HashString (xA X) h = ScTransactionHash row"
  shows "row' = row"
proof -
  have "ScTransactionHash row' = ScTransactionHash row" using assms by (auto simp: waits_in_def keyed_row_def)
  then show ?thesis using assms(1,2) by (auto simp: waits_in_def side_store_wf_def distinct_map dest: inj_onD)
qed

text \<open>A round of proposals names other withdraws only.\<close>

lemma not_proposed:
  assumes "\<forall>i. good_io (ios i)" "CurrentConfig sc = Some c" "GetDataStoreByDBName (CfgName c) db = Some st" "waits_in X row st"
    and "SendCachedWithdrawTxs X ios sc db = (r, ps, db')" "p \<in> set ps" "h \<in> named_withdraws (proposed p)"
  shows "HashString (xA X) h \<noteq> ScTransactionHash row"
proof
  assume same: "HashString (xA X) h = ScTransactionHash row"
  have "\<forall>row \<in> set (SideChainTxs st). no_quote (ScTransactionHash row)" using assms(4) by (simp add: waits_in_def keyed_row_def)
  from sent_from_rows [OF assms(1-3) this assms(5,6)] obtain ts io db1 where b: "built_by X io sc ts db1 (proposed p)"
    "\<forall>t \<in> set ts. worth_it X t \<and> (\<exists>row \<in> set (SideChainTxs st). t = decode_withdraw (xW X) (ScTransaction row))" by metis
  from built_names [OF b(1) assms(7)] obtain t where t: "t \<in> set ts" "Txid t = Some h" by blast
  with b(2) obtain row' where row': "row' \<in> set (SideChainTxs st)" "t = decode_withdraw (xW X) (ScTransaction row')" by blast
  have "row' = row" using row_unique [OF assms(4) row'(1)] t(2) row'(2) same by simp
  then have "worth_it X (decode_withdraw (xW X) (ScTransaction row))" using b(2) t(1) row'(2) by blast
  then show False using assms(4) by (auto simp: worth_it_def waits_in_def frozen_only_def list_ex_iff ignored_invalid)
qed

text \<open>The hashes that a round of the monitor takes out of the cache, for an answer of the side chain.\<close>

definition processed_hashes :: "listen_env \<Rightarrow> string list \<Rightarrow> string list" where
  "processed_hashes E processed = List.map_filter (\<lambda>t. map_option (BytesToHexString (xC (lX E))) (FromReversedString E t)) processed"

lemma not_reported:
  assumes "\<forall>i. good_io (ios i)" "CurrentConfig sc = Some c" "GetDataStoreByDBName (CfgName c) db = Some st" "waits_in (lX E) row st"
    and "invalid_withdraws_of E ios k sc db = (r, sent, db')" "inj (ToReversedString E)"
  shows "ToReversedString E (row_txid (lX E) row) \<notin> snd ` set sent"
    "\<exists>gone. GetDataStoreByDBName (CfgName c) db' = Some (without gone st) \<and>
       (gone = [] \<or> (\<exists>hs processed. GetProcessedInvalidWithdrawTransactions E (Key sc) hs = Inr processed \<and>
          gone = processed_hashes E processed))"
proof -
  have name: "sideChainName st = CfgName c" using assms(3) by (auto simp: GetDataStoreByDBName_def find_Some_iff)
  have gone: "GetDataStoreByDBName (CfgName c) (on_name (CfgName c) (\<lambda>_. without hs st) db) = Some (without hs st)" for hs
    using assms(3) find_at_first [of "\<lambda>s. sideChainName s = CfgName c" "SideChainStore db" st "\<lambda>_. without hs st"] name
    by (simp add: GetDataStoreByDBName_def on_name_def without_def)
  have cfg: "getCurrentConfig (SideNodeList (lX E)) sc = Some c" using assms(2) by (simp add: getCurrentConfig_def)
  have "sent = [] \<and> db' = db \<or> (\<exists>hs txs bad processed. GetSideChainTxsFromHashes (xW (lX E)) (ios (k + 1)) hs st = Inr txs \<and> hs \<noteq> [] \<and>
      GetAllSideChainTxHashesAndHeights (ios k) st = Inr (hs, snd (projr (GetAllSideChainTxHashesAndHeights (ios k) st))) \<and>
      invalid_transactions (lX E) txs = Some bad \<and> send_invalid E processed bad = (r, sent) \<and>
      GetProcessedInvalidWithdrawTransactions E (Key sc) (map (\<lambda>t. ToReversedString E (the (Txid t))) bad) = Inr processed \<and>
      db' = on_name (CfgName c) (\<lambda>_. without (processed_hashes E processed) st) db)"
    using assms(3,5)
    by (auto simp: invalid_withdraws_of_def cfg Let_def removed(1) [OF spec [OF assms(1)]] processed_hashes_def
        split: if_splits sum.splits option.splits prod.splits)
  then consider "sent = []" "db' = db"
    | hs txs bad processed where "GetSideChainTxsFromHashes (xW (lX E)) (ios (k + 1)) hs st = Inr txs" "hs \<noteq> []"
      "set hs \<subseteq> ScTransactionHash ` set (SideChainTxs st)"
      "invalid_transactions (lX E) txs = Some bad" "send_invalid E processed bad = (r, sent)"
      "GetProcessedInvalidWithdrawTransactions E (Key sc) (map (\<lambda>t. ToReversedString E (the (Txid t))) bad) = Inr processed"
      "db' = on_name (CfgName c) (\<lambda>_. without (processed_hashes E processed) st) db"
    using good_ioD [of "ios k"] assms(1)
    by (auto simp: GetAllSideChainTxHashesAndHeights_def select_def set_arrange split: if_splits)
  then show "ToReversedString E (row_txid (lX E) row) \<notin> snd ` set sent"
    "\<exists>gone. GetDataStoreByDBName (CfgName c) db' = Some (without gone st) \<and>
       (gone = [] \<or> (\<exists>hs processed. GetProcessedInvalidWithdrawTransactions E (Key sc) hs = Inr processed \<and>
          gone = processed_hashes E processed))"
  proof (atomize (full), cases)
    case 1
    with assms(3) show "ToReversedString E (row_txid (lX E) row) \<notin> snd ` set sent \<and>
      (\<exists>gone. GetDataStoreByDBName (CfgName c) db' = Some (without gone st) \<and>
         (gone = [] \<or> (\<exists>hs processed. GetProcessedInvalidWithdrawTransactions E (Key sc) hs = Inr processed \<and>
            gone = processed_hashes E processed)))"
      by (intro conjI exI [of _ "[]"]) (simp_all add: removed(2))
  next
    case (2 hs txs bad processed)
    have "ToReversedString E (row_txid (lX E) row) \<noteq> x" if "(s, x) \<in> set sent" for s x
    proof
      assume eq: "ToReversedString E (row_txid (lX E) row) = x"
      from send_invalid_from [OF 2(5) that] obtain t h where t: "t \<in> set bad" "Txid t = Some h" "x = ToReversedString E h" by blast
      have h: "h = row_txid (lX E) row" using eq t(3) injD [OF assms(6)] by metis
      have "\<forall>h \<in> set hs. no_quote h" using 2(3) assms(4) by (auto simp: waits_in_def keyed_row_def)
      from hashes_decoded [OF _ 2(2) this] 2(1) assms(1) have
        "set txs \<subseteq> (\<lambda>row. decode_withdraw (xW (lX E)) (ScTransaction row)) ` set (SideChainTxs st)"
        by (auto simp: set_arrange good_ioD)
      moreover have "t \<in> set txs" using t(1) unfolding invalid_transactions_set [OF 2(4)] by simp
      ultimately obtain row' where row': "row' \<in> set (SideChainTxs st)" "t = decode_withdraw (xW (lX E)) (ScTransaction row')" by blast
      have "HashString (xA (lX E)) h = ScTransactionHash row"
        using assms(4) unfolding h row_txid_def by (auto simp: waits_in_def keyed_row_def)
      then have "row' = row" using row_unique [OF assms(4) row'(1)] t(2) row'(2) by simp
      then show False using t(1) row'(2) assms(4) unfolding invalid_transactions_set [OF 2(4)]
        by (auto simp: waits_in_def frozen_only_def)
    qed
    then have "ToReversedString E (row_txid (lX E) row) \<notin> snd ` set sent" by (metis imageE prod.collapse)
    with gone 2(6,7) show "ToReversedString E (row_txid (lX E) row) \<notin> snd ` set sent \<and>
      (\<exists>gone. GetDataStoreByDBName (CfgName c) db' = Some (without gone st) \<and>
         (gone = [] \<or> (\<exists>hs processed. GetProcessedInvalidWithdrawTransactions E (Key sc) hs = Inr processed \<and>
            gone = processed_hashes E processed)))" by blast
  qed
qed

section \<open>Rounds\<close>

text \<open>An environment of the same arbiter: the nodes may answer anything, but addresses, texts and configuration stay.\<close>

definition same_rules :: "listen_env \<Rightarrow> listen_env \<Rightarrow> bool" where
  "same_rules E E' \<longleftrightarrow> xA (lX E') = xA (lX E) \<and> xW (lX E') = xW (lX E) \<and> FrozenAddresses (lX E') = FrozenAddresses (lX E) \<and>
     ToReversedString E' = ToReversedString E"

text \<open>One round for a side chain, of the proposals or of the monitor of invalid withdraws: the transactions proposed and the
  withdraws reported to the side chain. Neither node names the withdraw with that key as settled.\<close>

inductive withdraw_round :: "listen_env \<Rightarrow> side_chain \<Rightarrow> string \<Rightarrow> transaction list \<Rightarrow> string list \<Rightarrow> db_cache \<Rightarrow> db_cache \<Rightarrow> bool"
  for E sc key where
  propose: "same_rules E E' \<Longrightarrow> \<forall>i. good_io (ios i) \<Longrightarrow>
    \<forall>hs received. GetExistWithdrawTransactions (xN (lX E')) hs = Inr received \<longrightarrow> key \<notin> set received \<Longrightarrow>
    SendCachedWithdrawTxs (lX E') ios sc db = (r, ps, db') \<Longrightarrow> withdraw_round E sc key (map proposed ps) [] db db'"
| report: "same_rules E E' \<Longrightarrow> \<forall>i. good_io (ios i) \<Longrightarrow>
    \<forall>hs processed. GetProcessedInvalidWithdrawTransactions E' (Key sc) hs = Inr processed \<longrightarrow> key \<notin> set (processed_hashes E' processed) \<Longrightarrow>
    invalid_withdraws_of E' ios k sc db = (r, sent, db') \<Longrightarrow> withdraw_round E sc key [] (map snd sent) db db'"

inductive withdraw_rounds :: "listen_env \<Rightarrow> side_chain \<Rightarrow> string \<Rightarrow> transaction list \<Rightarrow> string list \<Rightarrow> db_cache \<Rightarrow> db_cache \<Rightarrow> bool"
  for E sc key where
  no_round: "withdraw_rounds E sc key [] [] db db"
| next_round: "withdraw_rounds E sc key txs reports db db1 \<Longrightarrow> withdraw_round E sc key txs' reports' db1 db2 \<Longrightarrow>
    withdraw_rounds E sc key (txs @ txs') (reports @ reports') db db2"

definition waits_frozen :: "cross_env \<Rightarrow> side_config \<Rightarrow> side_chain_transaction \<Rightarrow> db_cache \<Rightarrow> bool" where
  "waits_frozen X c row db \<longleftrightarrow> (\<exists>st. GetDataStoreByDBName (CfgName c) db = Some st \<and> waits_in X row st)"

lemma same_rules_eq:
  assumes "same_rules E E'"
  shows "waits_in (lX E') = waits_in (lX E)" "row_txid (lX E') = row_txid (lX E)" "xA (lX E') = xA (lX E)"
    "ToReversedString E' = ToReversedString E"
proof -
  note eq = assms [unfolded same_rules_def]
  have "invalid_asset (lX E') = invalid_asset (lX E)" using eq by (intro ext) (simp add: invalid_asset_def)
  then show "waits_in (lX E') = waits_in (lX E)" using eq
    by (intro ext) (simp add: waits_in_def keyed_row_def frozen_only_def)
  show "row_txid (lX E') = row_txid (lX E)" using eq by (intro ext) (simp add: row_txid_def)
qed (use assms in \<open>simp_all add: same_rules_def\<close>)

lemma round_waits:
  assumes "withdraw_round E sc (ScTransactionHash row) txs reports db db'" "CurrentConfig sc = Some c"
    and "inj (ToReversedString E)" "waits_frozen (lX E) c row db"
  shows "waits_frozen (lX E) c row db' \<and> (\<forall>tx \<in> set txs. \<forall>h \<in> named_withdraws tx. HashString (xA (lX E)) h \<noteq> ScTransactionHash row) \<and>
    ToReversedString E (row_txid (lX E) row) \<notin> set reports"
proof -
  from assms(4) obtain st where st: "GetDataStoreByDBName (CfgName c) db = Some st" "waits_in (lX E) row st"
    unfolding waits_frozen_def by blast
  show ?thesis using assms(1)
  proof cases
    case (propose E' ios r ps)
    note eq = same_rules_eq [OF propose(3)]
    have w: "waits_in (lX E') row st" using st(2) by (simp add: eq)
    from sent_sides [OF propose(4) assms(2) st(1) propose(6)] obtain received where
      rec: "GetDataStoreByDBName (CfgName c) db' = Some (without received st)" "ScTransactionHash row \<notin> set received"
      using propose(5) by auto
    have "waits_frozen (lX E) c row db'" using rec(1) waits_without [OF st(2) rec(2)] unfolding waits_frozen_def by blast
    moreover have "\<forall>p \<in> set ps. \<forall>h \<in> named_withdraws (proposed p). HashString (xA (lX E)) h \<noteq> ScTransactionHash row"
      using not_proposed [OF propose(4) assms(2) st(1) w propose(6)] by (simp add: eq)
    ultimately show ?thesis by (simp add: propose(1,2))
  next
    case (report E' ios k r sent)
    note eq = same_rules_eq [OF report(3)]
    have w: "waits_in (lX E') row st" using st(2) by (simp add: eq)
    have inj: "inj (ToReversedString E')" using assms(3) by (simp add: eq)
    note n = not_reported [OF report(4) assms(2) st(1) w report(6) inj]
    from n(2) obtain gone where
      g: "GetDataStoreByDBName (CfgName c) db' = Some (without gone st)" "ScTransactionHash row \<notin> set gone"
      using report(5) by auto
    have "waits_frozen (lX E) c row db'" using g(1) waits_without [OF st(2) g(2)] unfolding waits_frozen_def by blast
    then show ?thesis using n(1) by (simp add: report(1,2) eq)
  qed
qed

text \<open>C36: A withdraw whose assets can all be paid, but one goes to a frozen address, waits for ever, while the database answers:
  however many rounds of proposals and of the monitor of invalid withdraws there are, and whatever else waits, no transaction
  proposed names it and no report gives it back to its side chain, and it stays in the cache, as long as no node tells that it
  is settled already.\<close>

theorem frozen_withdraw_waits:
  assumes "withdraw_rounds E sc (ScTransactionHash row) txs reports db db'" "CurrentConfig sc = Some c"
    and "inj (ToReversedString E)" "waits_frozen (lX E) c row db"
  shows "waits_frozen (lX E) c row db' \<and> (\<forall>tx \<in> set txs. \<forall>h \<in> named_withdraws tx. HashString (xA (lX E)) h \<noteq> ScTransactionHash row) \<and>
    ToReversedString E (row_txid (lX E) row) \<notin> set reports"
  using assms(1,4)
proof (induction rule: withdraw_rounds.induct)
  case (next_round txs reports db db1 txs' reports' db2)
  then show ?case using round_waits [OF next_round(2) assms(2,3)] by auto
qed simp

text \<open>A cached withdraw of 20005 with a fee of 20000 to the frozen address f: a round of proposals, then one of the monitor.\<close>

definition txF :: withdraw_tx where
  "txF = \<lparr>Txid = Some (replicate 32 0x37), WithdrawInfo = Some \<lparr>WithdrawAssets =
     [\<lparr>TargetAddress = ''f'', Amount = 20005, CrossChainAmount = 5, TargetData = []\<rparr>]\<rparr>\<rparr>"

definition rowF :: side_chain_transaction where
  "rowF = \<lparr>ScTransactionHash = map byte_char (replicate 32 0x37), ScTransaction = snd (WithdrawTx_Serialize wire0 txF []), ScBlockHeight = 9\<rparr>"

definition dbF :: db_cache where
  "dbF = db0\<lparr>SideChainStore := [side0\<lparr>genesisBlockAddress := ''K'', SideChainTxs := [rowF]\<rparr>]\<rparr>"

lemma decodeF: "decode_withdraw wire0 (ScTransaction rowF) = txF"
proof -
  have "WithdrawTx_Serialize wire0 txF [] = (fst (WithdrawTx_Serialize wire0 txF []), ScTransaction rowF)"
    "withdraw_tx_fits wire0 txF"
    by (simp_all add: rowF_def withdraw_tx_fits_def txF_def info_fits_def asset_fits_def wire0_def MaxTargetDataSize_def)
  from withdraw_tx.roundtrip [OF _ this(1), of "[]"] wire0_ok this(2) show ?thesis by (simp add: decode_withdraw_def)
qed

lemma dbF_waits: "waits_frozen (lX listen_env0) config8 rowF dbF"
proof -
  let ?st = "side0\<lparr>genesisBlockAddress := ''K'', SideChainTxs := [rowF]\<rparr>"
  have "GetDataStoreByDBName (CfgName config8) dbF = Some ?st"
    by (simp add: dbF_def db0_def side0_def GetDataStoreByDBName_def)
  moreover have "byte_char 0x37 = CHR ''7''" by (simp add: byte_char_def char_of_def bit_iff_odd)
  then have "no_quote (ScTransactionHash rowF)" by (simp add: rowF_def no_quote_def)
  then have "keyed_row xenv0 rowF" by (simp add: keyed_row_def decodeF) (simp add: rowF_def txF_def)
  moreover have "\<not> invalid_asset xenv0 \<lparr>TargetAddress = ''f'', Amount = 20005, CrossChainAmount = 5, TargetData = []\<rparr>"
    by (simp add: invalid_asset_def MinCrossChainTxFee_def word_sle_eq word_sless_alt)
  then have "frozen_only xenv0 rowF" by (simp add: frozen_only_def decodeF) (simp add: txF_def)
  ultimately show ?thesis by (simp add: waits_frozen_def waits_in_def side_store_wf_def side0_def)
qed

theorem frozen_withdraw_waits_witness:
  "\<exists>r1 (ps :: proposal list) (db1 :: db_cache) r2 sent (db2 :: db_cache).
     SendCachedWithdrawTxs xenv0 (\<lambda>_. plain_io) chain0 dbF = (r1, ps, db1) \<and>
     invalid_withdraws_of listen_env0 (\<lambda>_. plain_io) 0 chain0 db1 = (r2, sent, db2) \<and> waits_frozen xenv0 config8 rowF db2 \<and>
     (\<forall>p \<in> set ps. \<forall>h \<in> named_withdraws (proposed p). HashString addr0 h \<noteq> ScTransactionHash rowF) \<and>
     map byte_char (replicate 32 0x37) \<notin> snd ` set sent"
proof -
  obtain r1 ps db1 where s: "SendCachedWithdrawTxs xenv0 (\<lambda>_. plain_io) chain0 dbF = (r1, ps, db1)" by (metis prod_cases3)
  obtain r2 sent db2 where i: "invalid_withdraws_of listen_env0 (\<lambda>_. plain_io) 0 chain0 db1 = (r2, sent, db2)" by (metis prod_cases3)
  have same: "same_rules listen_env0 listen_env0" by (simp add: same_rules_def)
  have "withdraw_round listen_env0 chain0 (ScTransactionHash rowF) (map proposed ps) [] dbF db1"
    by (rule propose [OF same, of "\<lambda>_. plain_io"]) (use s in \<open>simp_all add: nodes0_def\<close>)
  moreover have "withdraw_round listen_env0 chain0 (ScTransactionHash rowF) [] (map snd sent) db1 db2"
    by (rule report [OF same, of "\<lambda>_. plain_io"]) (use i in \<open>simp_all add: listen_env0_def processed_hashes_def map_filter_simps\<close>)
  ultimately have rounds: "withdraw_rounds listen_env0 chain0 (ScTransactionHash rowF) (map proposed ps) (map snd sent) dbF db2"
    using next_round [OF next_round [OF no_round]] by fastforce
  have "inj (\<lambda>h. map byte_char (rev h))"
    by (rule inj_on_inverseI [where g = "\<lambda>s. rev (map char_byte s)"]) (simp add: rev_map comp_def)
  then have inj: "inj (ToReversedString listen_env0)" by (simp add: listen_env0_def)
  have txid: "ToReversedString listen_env0 (row_txid xenv0 rowF) = map byte_char (replicate 32 0x37)"
    by (simp add: row_txid_def decodeF listen_env0_def) (simp add: txF_def)
  from frozen_withdraw_waits [OF rounds store9(1) inj dbF_waits] s i txid show ?thesis by auto
qed

end
