(* ===== verification/Side_Client.thy ===== *)
theory Side_Client
  imports Listeners Rpc_Client
begin

text \<open>
  The calls of the side chains' nodes that \<open>arbitration/sidechain/sidechainimpl.go\<close> makes itself, the question for small
  transfers (\<open>smalltransferlistener.go\<close>), and the creation of transactions as \<open>arbitration/arbitrator/arbitrator.go\<close> hands it
  out. \<open>rpc_listeners\<close> puts the calls into the surroundings of the listeners.
\<close>

section \<open>Calls of a side chain\<close>

definition SendTransaction_rpc :: "'c rpc_env \<Rightarrow> uint256 \<Rightarrow> 'c \<Rightarrow> go_error + rpc_response" where
  "SendTransaction_rpc R txHash node =
     CallAndUnmarshalResponse R ''sendrechargetransaction'' (Param_string ''txid'' (HashString (rA R) txHash)) node"

definition SendSmallCrossTransaction_rpc :: "'c rpc_env \<Rightarrow> string \<Rightarrow> string \<Rightarrow> string \<Rightarrow> 'c \<Rightarrow> go_error + rpc_response" where
  "SendSmallCrossTransaction_rpc R signature tx hash node =
     CallAndUnmarshalResponse R ''sendsmallcrosstransaction''
       [(''signature'', JStr signature), (''rawTx'', JStr tx), (''txHash'', JStr hash)] node"

text \<open>What the caller looks at: whether there is an error, and whether the result is \<open>true\<close>.\<close>

definition small_answer :: "rpc_response \<Rightarrow> bool \<times> bool" where
  "small_answer response = (RpcError response \<noteq> None, Result response = JBool True)"

definition GetProcessedInvalidWithdrawTransactions_rpc :: "'c rpc_env \<Rightarrow> string list \<Rightarrow> 'c \<Rightarrow> go_error + string list" where
  "GetProcessedInvalidWithdrawTransactions_rpc R txs node =
     call_for R as_strings ''getprocessedinvalidwithdrawtransactions'' (txs_param txs) node"

definition SendInvalidWithdrawTransaction_rpc :: "'c rpc_env \<Rightarrow> string \<Rightarrow> string \<Rightarrow> 'c \<Rightarrow> go_error + rpc_response" where
  "SendInvalidWithdrawTransaction_rpc R signature hash node =
     CallAndUnmarshalResponse R ''sendinvalidwithdrawtransaction'' [(''signature'', JStr signature), (''txHash'', JStr hash)] node"

text \<open>\<open>decode\<close> reads the struct with the field \<open>txs\<close>; the parameters are nil.\<close>

definition GetSmallCrossTransferTxs_rpc :: "'c rpc_env \<Rightarrow> (json \<Rightarrow> string list option) \<Rightarrow> go_error + string list" where
  "GetSmallCrossTransferTxs_rpc R decode = call_for R decode ''getsmallcrosstransfertxs'' [] (MainNode R)"

definition rpc_listeners :: "'c rpc_env \<Rightarrow> (json \<Rightarrow> string list option) \<Rightarrow> listen_env \<Rightarrow> listen_env" where
  "rpc_listeners R decode E = E\<lparr>
     GetProcessedInvalidWithdrawTransactions := (\<lambda>key txs. GetProcessedInvalidWithdrawTransactions_rpc R txs (SideNode R key)),
     GetSmallCrossTransferTxs := GetSmallCrossTransferTxs_rpc R decode,
     SendSmall := (\<lambda>key signature tx hash. map_sum id small_answer (SendSmallCrossTransaction_rpc R signature tx hash (SideNode R key)))\<rparr>"

text \<open>The requests of a round of invalid withdraws; an error of one is logged.\<close>

definition invalid_requests ::
    "'c rpc_env \<Rightarrow> (bytes \<Rightarrow> string) \<Rightarrow> (string \<times> (bytes \<times> string) list) list \<Rightarrow> (go_error + rpc_response) list" where
  "invalid_requests R hex rounds =
     concat (map (\<lambda>(key, sent). map (\<lambda>(signature, hash). SendInvalidWithdrawTransaction_rpc R (hex signature) hash (SideNode R key)) sent)
       rounds)"

section \<open>Transactions that the arbiter hands out\<close>

text \<open>An error of the main chain's builder is logged, and nil returned; a panic of it goes through.\<close>

definition handed_out :: "(go_error + transaction) \<times> db_cache \<Rightarrow> transaction option outcome \<times> db_cache" where
  "handed_out r = (case r of
      (Inr tx, db) \<Rightarrow> (Done (Some tx), db)
    | (Inl e, db) \<Rightarrow> (if e = GoPanic then Panic else Done None, db))"

definition Arbiter_CreateFailedDepositTransaction ::
    "cross_env \<Rightarrow> db_io \<Rightarrow> side_chain \<Rightarrow> failed_deposit_tx list \<Rightarrow> db_cache \<Rightarrow> transaction option outcome \<times> db_cache" where
  "Arbiter_CreateFailedDepositTransaction X io sc txs db = handed_out (CreateFailedDepositTransaction X io sc txs db)"

definition Arbiter_CreateWithdrawTransactionV0 ::
    "cross_env \<Rightarrow> db_io \<Rightarrow> side_chain \<Rightarrow> withdraw_tx list \<Rightarrow> db_cache \<Rightarrow> transaction option outcome \<times> db_cache" where
  "Arbiter_CreateWithdrawTransactionV0 X io sc txs db = handed_out (CreateWithdrawTransactionV0 X io sc txs db)"

definition Arbiter_CreateWithdrawTransactionV1 ::
    "cross_env \<Rightarrow> db_io \<Rightarrow> side_chain \<Rightarrow> withdraw_tx list \<Rightarrow> db_cache \<Rightarrow> transaction option outcome \<times> db_cache" where
  "Arbiter_CreateWithdrawTransactionV1 X io sc txs db = handed_out (CreateWithdrawTransactionV1 X io sc txs db)"

definition Arbiter_CreateSchnorrWithdrawTransaction ::
    "cross_env \<Rightarrow> db_io \<Rightarrow> side_chain \<Rightarrow> withdraw_tx list \<Rightarrow> db_cache \<Rightarrow> transaction option outcome \<times> db_cache" where
  "Arbiter_CreateSchnorrWithdrawTransaction X io sc txs db = handed_out (CreateSchnorrWithdrawTransaction X io sc txs db)"

definition Arbiter_CreateNFTDestroyTransaction ::
    "cross_env \<Rightarrow> side_chain \<Rightarrow> nft_destroy_tx list \<Rightarrow> db_cache \<Rightarrow> transaction option outcome \<times> db_cache" where
  "Arbiter_CreateNFTDestroyTransaction X sc txs db = handed_out (CreateNFTDestroyFromSideChainTx X sc txs, db)"

text \<open>The loop over growing batches of transactions looks at nothing else of a builder.\<close>

lemma grow_handed_out:
  "grow create fits xs i wTx db =
     (if length xs \<le> i then (Done wTx, db)
      else (case handed_out (create i (take (i + 100) xs) db) of
              (Done None, db') \<Rightarrow> grow create fits xs (i + 100) wTx db'
            | (Done (Some tx), db') \<Rightarrow> grow create fits xs (i + 100) (if fits tx then Some tx else wTx) db'
            | (_, db') \<Rightarrow> (Panic, db')))"
  by (subst grow.simps) (auto simp: handed_out_def split: prod.splits sum.splits)

text \<open>A small transfer counts as sent when the node has said so: only then is it left out later.\<close>

lemma small_transfer_done_when_accepted:
  assumes "SendSmallCrossTransaction (rpc_listeners R decode E) sc rawTx signature hash don = (r, don')" "don' \<noteq> don"
  shows "\<exists>response. SendSmallCrossTransaction_rpc R (HexEncode E signature) rawTx hash (SideNode R (Key sc)) = Inr response \<and>
    RpcError response = None \<and> Result response = JBool True"
  using assms
  by (cases "SendSmallCrossTransaction_rpc R (HexEncode E signature) rawTx hash (SideNode R (Key sc))")
    (auto simp: SendSmallCrossTransaction_def rpc_listeners_def small_answer_def split: if_splits sum.splits option.splits)

end
