(* ===== verification/Spec2Isabelle.thy ===== *)
theory Spec2Isabelle
  imports Props_Base Props_Store Props_Cs Props_Rounds Props_Cross Props_Submit Props_Deposit Props_Monitor Props_Chains
    Props_Mining Props_Listeners Props_Registrations Props_Arbiter Props_Rpc Props_Server Props_Network Props_Signing
    Props_Start Props_Frozen Side_Client
begin

text \<open>
  Elastos.ELA.Arbiter. A group of arbiters moves money between the ELA main chain and its side chains. Each
  arbiter follows both sides, keeps what has to be carried out in SQLite tables, and, when it is on duty,
  builds transactions and collects the signatures of the others. All file names below are under \<open>src/\<close>.

  The parts and how they work together

  A deposit comes from the main chain through the SPV service into the main chain cache, is sent to the node of its side
  chain by the arbiter on duty, and is moved to the finished transactions. A withdraw (or a refund of a failed
  deposit, or a destroyed NFT) is found by the monitor of the side chain, waits in that chain's cache, and
  becomes part of a transaction that the arbiter on duty proposes; the other arbiters check it against what they
  know and sign it, with a multi-signature script or with a Schnorr signature in two rounds; with
  enough signatures it is submitted to the main chain, and later taken out of the cache.

  Theories and sources

  Prelude_Go: outcomes of Go functions (a value, an error, a panic, blocking for ever), byte streams, sequences of
  statements that stop at the first error, and the codec locales. Sql_Table, Store_Common: SQL
  tables with driver faults as an argument; the locales of an insert-only store, of a keyed store and of a transfer.
  Tx_Info (arbitration/base/txinfo.go, rscinfo.go): the records and their binary form.
  Tx_Utils, Arb_Group (arbitration/base/txutils.go, script.go,
  arbitration/arbitrator/arbitratorgroup.go, the quorum of arbitration/cs/distributednodeserver.go).
  Side_Store, Main_Store, Reg_Store (store/datastore.go), Finished_Store (store/finishedtxstore.go).
  Ela_Types: the library types that the code takes apart. Schnorr (arbitration/crypto/schnorr.go);
  Joint_Signature: the verifier of the joint signature (SchnorrVerify of the ELA library, as its documentation gives it) and the
  nonces that the aggregation overwrites.
  Cs_Item, Cs_Proposal, Cs_Server, Cs_Client (arbitration/cs): items and their checks, contents, the server of the arbiter on
  duty with its mutex, the answering client.
  Go_Float: float64 as a pair of integers with rounding to 53 bits, for the exchange rates.
  Cross_Env: the cache with all stores, the side chains, the answers of the nodes. Main_Chain
  (arbitration/mainchain/mainchainImpl.go, arbitration/arbitrator/mainchain.go): what is built.
  Tx_Check, Submit (arbitration/cs/txdistributedcontent.go): what is checked and submitted.
  Signing (arbitration/cs/txschnorrrequestscontent.go): the checks of the second Schnorr round, and the client with all its checks.
  Deposits (arbitration/arbitrator/arbitrator.go, mainchainImpl.go), Side_Chains (arbitration/sidechain/sidechainimpl.go,
  sidechainmanager.go), Monitor (sidechainaccountmoniter.go).
  Mining (sideauxpow): the announcement of side chain blocks and the accounts that pay for it. Listeners
  (arbitration/arbitrator: depositlistener.go, auxpowlistener.go, invalidwithdrawlistener.go, smalltransferlistener.go):
  the queue of the SPV callbacks and what is done with a batch. Registrations (sidechainmanager.go): new side chains.
  Arbiter (arbitrator.go): what the change of duty starts and how the caches are cleaned. Rpc_Client (rpc): what
  is asked of the nodes and how their answers are read; \<open>rpc_nodes\<close> is the record of answers the other theories take.
  Rpc_Server (net/servers, errors, arbitration/complain): the methods that the arbiter answers, and the admission of requests.

  Network (arbitration/cs/p2pclientadapter.go): the queue of messages, handed one by one to the server and the client.
  Side_Client (arbitration/sidechain/sidechainimpl.go): the calls of the side chains' nodes. Start (arbiter.go, the opening of store,
  InitArbitrators and StartSpvModule of arbitration/arbitrator): the files, the steps of \<open>main\<close>, monitors and listeners.

  Correspondence

  A function of the source is a definition of the same name; a clashing name has the receiver in front. A struct is a record with
  the fields in use, nil is \<open>None\<close>. An error is a value of \<open>go_error\<close>; logging leaves no
  trace. The stores are passed and returned. One call of a store takes its driver faults from one \<open>db_io\<close>; an
  operation with several calls takes a function from the number of the call. A goroutine is the operation that it
  runs. The answers of nodes (rpc), the wire primitives, the cryptography, the curve and the address functions are arguments.

  What the lemmas show

  Props_Base: round trips of the binary forms, the quorum, the redeem script. Props_Store: the stores keep their
  keys, verdicts are final, moves lose nothing. Props_Cs, Props_Rounds: signatures match their signers, a
  submission has a quorum, the joint Schnorr signature of a second round passes the verifier's own challenge. Props_Cross: an accepted withdraw pays what is owed, a
  built one conserves money and is accepted. Props_Submit: refunds, and where the checks and the
  submission fall short. Props_Deposit: no deposit is lost while the driver answers. Props_Monitor: a round of the scan
  misses no withdraw. Props_Chains: what proposals pay, how large they are, what the clean-up removes.
  Props_Mining: an announcement costs the fee. Props_Listeners: the queue refines a work list and
  drains, receipts are given for what is recorded, where the listeners fall short. Props_Registrations: the map of the chains and
  what a registration changes. Props_Arbiter: over all operations of the arbiter, a deposit leaves the stores by a
  submitted refund only, accepted or refused. Props_Frozen: a withdraw to a frozen address waits for ever. Props_Rpc: the turns of the static arbiters. Props_Server: who can change what by a request.
  Props_Signing: what an arbiter has checked when it signs, and what its Schnorr share gives away.
  Props_Network: from a proposal over the queue of answers to the submission, and what a message of a peer can do.
  Props_Start: a restart computes the addresses again and finds the stores, those of chains registered in between included, and comes to the end of its start.

  Bounds

  \<open>parse_list\<close> has the length of the query text as fuel, and each element takes at least one character. \<open>scan_blocks\<close>
  has one unit of fuel per block; \<open>no_withdraw_missed\<close> shows that the height of the chain is enough
  when the driver answers (with a driver that fails the stored height may fall back to 0, so that no bound exists). \<open>network_loop\<close> has one unit
  per message.
  Amounts and heights are words of their width; amounts below \<open>2 ^ 53\<close> are exact as float64. A float64 is finite here: a rate of
  zero (division by it) or an infinite one is not modelled. The order of the signers of a Schnorr round, \<open>sort.Slice\<close> with a
  comparator that is no order, is an argument (\<open>eSort\<close>); so is the order in which rows are scanned and maps are ranged over.
  The submission that ends a proposal is an argument of the server's theories (\<open>eSubmit\<close>, with every outcome, a panic too);
  \<open>proposal_completes\<close> has it as \<open>Submit\<close> of theory Submit.

  Not modelled

  The HTTP transport and the JSON text, the network and the SPV library, log, the account file and password input, the reading of
  the configuration (its values are arguments, but for the addresses of the chains) and the handling of operating system signals.
\<close>

end
